(* ===== verification/Prelude.thy ===== *)
theory Prelude
  imports Main
begin

text \<open>
  Shared vocabulary of the development: bytes and byte strings, checked indexing and
  slicing as Rust's slices do it, the iterator searches \<open>position\<close> and \<open>rposition\<close>, the
  ASCII classification functions of Rust's \<open>u8\<close>, and the generic list lemmas that the
  component theories use. A Rust \<open>u8\<close> is an Isabelle \<^typ>\<open>char\<close> (both have exactly 256
  values); a \<open>&[u8]\<close>, \<open>&str\<close> or \<open>String\<close> is its byte sequence, a \<^typ>\<open>char list\<close>. Byte
  offsets and lengths (\<open>usize\<close>) are \<^typ>\<open>nat\<close>; a slice never exceeds \<open>isize::MAX\<close> bytes, so
  the additions of offsets in the sources cannot wrap.
\<close>

section \<open>Collections of rewrite rules\<close>

named_theorems scan_specs
  \<open>characterisations of the byte searches\<close>

named_theorems byte_classes
  \<open>definitions of the byte classification predicates\<close>

section \<open>Bytes\<close>

type_synonym byte = char
type_synonym bytes = "char list"

definition byte_val :: "byte \<Rightarrow> nat" where
  "byte_val c = of_char c"

definition byte_of :: "nat \<Rightarrow> byte" where
  "byte_of n = char_of n"

lemma byte_val_less [simp]: "byte_val c < 256"
proof -
  have "byte_val c \<in> range (of_char :: char \<Rightarrow> nat)" by (simp add: byte_val_def)
  then show ?thesis by (simp add: range_nat_of_char)
qed

lemma byte_val_inject [simp]: "byte_val a = byte_val b \<longleftrightarrow> a = b"
  by (simp add: byte_val_def)

lemma byte_val_byte_of [simp]: "byte_val (byte_of n) = n mod 256"
  by (simp add: byte_val_def byte_of_def)

lemma byte_of_byte_val [simp]: "byte_of (byte_val c) = c"
  by (simp add: byte_val_def byte_of_def)

section \<open>Slices\<close>

text \<open>\<open>bytes.get(i)\<close>, the slice \<open>&bytes[a..b]\<close> and \<open>bytes.get(a..b)\<close>.\<close>

definition get_at :: "'a list \<Rightarrow> nat \<Rightarrow> 'a option" where
  "get_at xs i = (if i < length xs then Some (xs ! i) else None)"

definition sub_slice :: "'a list \<Rightarrow> nat \<Rightarrow> nat \<Rightarrow> 'a list" where
  "sub_slice xs a b = take (b - a) (drop a xs)"

definition get_range :: "'a list \<Rightarrow> nat \<Rightarrow> nat \<Rightarrow> 'a list option" where
  "get_range xs a b = (if a \<le> b \<and> b \<le> length xs then Some (sub_slice xs a b) else None)"

lemma get_at_Nil [simp]: "get_at [] i = None"
  by (simp add: get_at_def)

lemma get_at_Cons_0 [simp]: "get_at (x # xs) 0 = Some x"
  by (simp add: get_at_def)

lemma get_at_Cons_Suc [simp]: "get_at (x # xs) (Suc i) = get_at xs i"
  by (simp add: get_at_def)

lemma get_at_Some_iff: "get_at xs i = Some x \<longleftrightarrow> i < length xs \<and> xs ! i = x"
  by (auto simp: get_at_def)

lemma get_at_None_iff [simp]: "get_at xs i = None \<longleftrightarrow> length xs \<le> i"
  by (auto simp: get_at_def)

lemma get_at_Some_less: "get_at xs i = Some x \<Longrightarrow> i < length xs"
  by (simp add: get_at_Some_iff)

lemma get_at_drop: "get_at (drop a xs) i = get_at xs (a + i)"
  by (auto simp: get_at_def)

lemma length_slice [simp]: "length (sub_slice xs a b) = min (b - a) (length xs - a)"
  by (simp add: sub_slice_def)

lemma slice_same [simp]: "sub_slice xs a a = []"
  by (simp add: sub_slice_def)

lemma slice_append_slice:
  "a \<le> b \<Longrightarrow> b \<le> c \<Longrightarrow> sub_slice xs a b @ sub_slice xs b c = sub_slice xs a c"
proof -
  assume ab: "a \<le> b" and bc: "b \<le> c"
  have "sub_slice xs a c = take ((b - a) + (c - b)) (drop a xs)"
    using ab bc by (simp add: sub_slice_def)
  also have "\<dots> = sub_slice xs a b @ take (c - b) (drop (b - a) (drop a xs))"
    by (simp only: take_add sub_slice_def)
  also have "drop (b - a) (drop a xs) = drop b xs"
    using ab by simp
  finally show ?thesis by (simp add: sub_slice_def)
qed

lemma slice_0: "sub_slice xs 0 n = take n xs"
  by (simp add: sub_slice_def)

lemma slice_to_end [simp]: "sub_slice xs a (length xs) = drop a xs"
  by (simp add: sub_slice_def)

lemma take_append_slice: "a \<le> b \<Longrightarrow> take a xs @ sub_slice xs a b = take b xs"
  using slice_append_slice [of 0 a b xs] by (simp add: slice_0)

section \<open>Iterator searches\<close>

text \<open>\<open>iter().position(p)\<close> and \<open>iter().rposition(p)\<close>.\<close>

fun position :: "('a \<Rightarrow> bool) \<Rightarrow> 'a list \<Rightarrow> nat option" where
  "position p [] = None"
| "position p (x # xs) = (if p x then Some 0 else map_option Suc (position p xs))"

fun rposition :: "('a \<Rightarrow> bool) \<Rightarrow> 'a list \<Rightarrow> nat option" where
  "rposition p [] = None"
| "rposition p (x # xs) =
     (case rposition p xs of Some i \<Rightarrow> Some (Suc i) | None \<Rightarrow> if p x then Some 0 else None)"

text \<open>What a first and a last occurrence are, independently of how they are found.\<close>

definition first_occurrence :: "('a \<Rightarrow> bool) \<Rightarrow> 'a list \<Rightarrow> nat option \<Rightarrow> bool" where
  "first_occurrence p xs r =
     (case r of
        None \<Rightarrow> (\<forall>x \<in> set xs. \<not> p x)
      | Some i \<Rightarrow> i < length xs \<and> p (xs ! i) \<and> (\<forall>j < i. \<not> p (xs ! j)))"

definition last_occurrence :: "('a \<Rightarrow> bool) \<Rightarrow> 'a list \<Rightarrow> nat option \<Rightarrow> bool" where
  "last_occurrence p xs r =
     (case r of
        None \<Rightarrow> (\<forall>x \<in> set xs. \<not> p x)
      | Some i \<Rightarrow> i < length xs \<and> p (xs ! i) \<and> (\<forall>j. i < j \<and> j < length xs \<longrightarrow> \<not> p (xs ! j)))"

lemma first_occurrence_unique:
  assumes "first_occurrence p xs r" and "first_occurrence p xs s"
  shows "r = s"
proof (cases r; cases s)
  fix i j assume "r = Some i" "s = Some j"
  with assms have "\<not> i < j" "\<not> j < i"
    by (auto simp: first_occurrence_def)
  with \<open>r = Some i\<close> \<open>s = Some j\<close> show ?thesis by simp
qed (use assms nth_mem in \<open>auto simp: first_occurrence_def\<close>)

lemma last_occurrence_unique:
  assumes "last_occurrence p xs r" and "last_occurrence p xs s"
  shows "r = s"
proof (cases r; cases s)
  fix i j assume "r = Some i" "s = Some j"
  with assms have "\<not> i < j" "\<not> j < i"
    by (auto simp: last_occurrence_def)
  with \<open>r = Some i\<close> \<open>s = Some j\<close> show ?thesis by simp
qed (use assms nth_mem in \<open>auto simp: last_occurrence_def\<close>)

lemma first_occurrence_position: "first_occurrence p xs (position p xs)"
  by (induction xs)
     (auto simp: first_occurrence_def less_Suc_eq_0_disj split: option.splits)

lemma last_occurrence_rposition: "last_occurrence p xs (rposition p xs)"
proof (induction xs)
  case Nil
  show ?case by (simp add: last_occurrence_def)
next
  case (Cons x xs)
  have suc: "j < Suc (length xs) \<Longrightarrow> 0 < j \<Longrightarrow> xs ! (j - 1) \<in> set xs" for j
    by simp
  show ?case
    using Cons suc
    by (auto simp: last_occurrence_def nth_Cons' split: option.splits)
       (metis Suc_less_eq Suc_pred gr0I less_nat_zero_code)
qed

lemma first_occurrence_iff [scan_specs]: "first_occurrence p xs r \<longleftrightarrow> r = position p xs"
  using first_occurrence_unique first_occurrence_position by blast

lemma last_occurrence_iff [scan_specs]: "last_occurrence p xs r \<longleftrightarrow> r = rposition p xs"
  using last_occurrence_unique last_occurrence_rposition by blast

lemma rposition_append:
  "rposition p (xs @ ys) =
     (case rposition p ys of Some i \<Rightarrow> Some (length xs + i) | None \<Rightarrow> rposition p xs)"
  by (induction xs) (auto split: option.splits)

lemma position_Some_iff:
  "position p xs = Some i \<longleftrightarrow> i < length xs \<and> p (xs ! i) \<and> (\<forall>j < i. \<not> p (xs ! j))"
  using first_occurrence_iff [of p xs "Some i"] by (auto simp: first_occurrence_def)

lemma position_None_iff: "position p xs = None \<longleftrightarrow> (\<forall>x \<in> set xs. \<not> p x)"
  using first_occurrence_iff [of p xs None] by (auto simp: first_occurrence_def)

lemma position_less: "position p xs = Some i \<Longrightarrow> i < length xs"
  by (simp add: position_Some_iff)

lemma position_nth: "position p xs = Some i \<Longrightarrow> p (xs ! i)"
  by (simp add: position_Some_iff)

lemma rposition_Some_iff:
  "rposition p xs = Some i \<longleftrightarrow>
     i < length xs \<and> p (xs ! i) \<and> (\<forall>j. i < j \<and> j < length xs \<longrightarrow> \<not> p (xs ! j))"
  using last_occurrence_iff [of p xs "Some i"] by (auto simp: last_occurrence_def)

lemma rposition_None_iff: "rposition p xs = None \<longleftrightarrow> (\<forall>x \<in> set xs. \<not> p x)"
  using last_occurrence_iff [of p xs None] by (auto simp: last_occurrence_def)

lemma position_append:
  "position p (xs @ ys) =
     (case position p xs of Some i \<Rightarrow> Some i | None \<Rightarrow> map_option ((+) (length xs)) (position p ys))"
proof (induction xs)
  case Nil
  show ?case by (cases "position p ys") simp_all
next
  case (Cons x xs)
  then show ?case
    by (auto split: option.splits simp: option.map_comp comp_def intro!: map_option_cong)
qed

lemma position_cong: "(\<And>x. x \<in> set xs \<Longrightarrow> p x = q x) \<Longrightarrow> position p xs = position q xs"
  by (induction xs) auto

section \<open>ASCII classification (Rust's \<open>u8\<close> methods)\<close>

definition is_ascii_digit :: "byte \<Rightarrow> bool" where [byte_classes]:
  "is_ascii_digit c = (48 \<le> byte_val c \<and> byte_val c \<le> 57)"

definition is_ascii_lowercase :: "byte \<Rightarrow> bool" where [byte_classes]:
  "is_ascii_lowercase c = (97 \<le> byte_val c \<and> byte_val c \<le> 122)"

definition is_ascii_uppercase :: "byte \<Rightarrow> bool" where [byte_classes]:
  "is_ascii_uppercase c = (65 \<le> byte_val c \<and> byte_val c \<le> 90)"

definition is_ascii_alphabetic :: "byte \<Rightarrow> bool" where [byte_classes]:
  "is_ascii_alphabetic c = (is_ascii_lowercase c \<or> is_ascii_uppercase c)"

definition is_ascii_hexdigit :: "byte \<Rightarrow> bool" where [byte_classes]:
  "is_ascii_hexdigit c =
     (is_ascii_digit c \<or> (97 \<le> byte_val c \<and> byte_val c \<le> 102) \<or> (65 \<le> byte_val c \<and> byte_val c \<le> 70))"

definition is_ascii_whitespace :: "byte \<Rightarrow> bool" where [byte_classes]:
  "is_ascii_whitespace c = (byte_val c \<in> {32, 9, 10, 12, 13})"

definition is_ascii :: "byte \<Rightarrow> bool" where [byte_classes]:
  "is_ascii c = (byte_val c < 128)"

definition to_ascii_lowercase :: "byte \<Rightarrow> byte" where
  "to_ascii_lowercase c = (if is_ascii_uppercase c then byte_of (byte_val c + 32) else c)"

definition to_ascii_uppercase :: "byte \<Rightarrow> byte" where
  "to_ascii_uppercase c = (if is_ascii_lowercase c then byte_of (byte_val c - 32) else c)"

definition eq_ignore_ascii_case_byte :: "byte \<Rightarrow> byte \<Rightarrow> bool" where
  "eq_ignore_ascii_case_byte a b = (to_ascii_lowercase a = to_ascii_lowercase b)"

definition eq_ignore_ascii_case :: "bytes \<Rightarrow> bytes \<Rightarrow> bool" where
  "eq_ignore_ascii_case xs ys = (map to_ascii_lowercase xs = map to_ascii_lowercase ys)"

lemma eq_ignore_ascii_case_refl [simp]: "eq_ignore_ascii_case xs xs"
  by (simp add: eq_ignore_ascii_case_def)

lemma eq_ignore_ascii_case_length: "eq_ignore_ascii_case xs ys \<Longrightarrow> length xs = length ys"
  unfolding eq_ignore_ascii_case_def by (metis length_map)

section \<open>Options\<close>

text \<open>\<open>Option::is_some_and\<close>, \<open>Option::unwrap_or\<close>.\<close>

definition is_some_and :: "'a option \<Rightarrow> ('a \<Rightarrow> bool) \<Rightarrow> bool" where
  "is_some_and r p = (case r of None \<Rightarrow> False | Some x \<Rightarrow> p x)"

definition unwrap_or :: "'a option \<Rightarrow> 'a \<Rightarrow> 'a" where
  "unwrap_or r d = (case r of None \<Rightarrow> d | Some x \<Rightarrow> x)"

lemma is_some_and_simps [simp]:
  "is_some_and None p = False" "is_some_and (Some x) p = p x"
  by (simp_all add: is_some_and_def)

lemma unwrap_or_simps [simp]: "unwrap_or None d = d" "unwrap_or (Some x) d = x"
  by (simp_all add: unwrap_or_def)

lemma is_some_andE: "is_some_and r p \<Longrightarrow> (\<And>x. r = Some x \<Longrightarrow> p x \<Longrightarrow> Q) \<Longrightarrow> Q"
  by (cases r) auto

section \<open>UTF-8\<close>

text \<open>\<open>std::str::from_utf8\<close>: well-formed UTF-8.\<close>

definition utf8_cont :: "byte \<Rightarrow> nat \<Rightarrow> nat \<Rightarrow> bool" where
  "utf8_cont b lo hi = (lo \<le> byte_val b \<and> byte_val b \<le> hi)"

fun utf8_valid :: "bytes \<Rightarrow> bool" where
  "utf8_valid [] = True"
| "utf8_valid (a # r) =
     (let v = byte_val a
      in if v < 0x80 then utf8_valid r
         else if 0xC2 \<le> v \<and> v \<le> 0xDF then
           (case r of b # r' \<Rightarrow> utf8_cont b 0x80 0xBF \<and> utf8_valid r' | [] \<Rightarrow> False)
         else if 0xE0 \<le> v \<and> v \<le> 0xEF then
           (case r of b # c # r' \<Rightarrow>
              utf8_cont b (if v = 0xE0 then 0xA0 else 0x80) (if v = 0xED then 0x9F else 0xBF) \<and>
              utf8_cont c 0x80 0xBF \<and> utf8_valid r' | _ \<Rightarrow> False)
         else if 0xF0 \<le> v \<and> v \<le> 0xF4 then
           (case r of b # c # d # r' \<Rightarrow>
              utf8_cont b (if v = 0xF0 then 0x90 else 0x80) (if v = 0xF4 then 0x8F else 0xBF) \<and>
              utf8_cont c 0x80 0xBF \<and> utf8_cont d 0x80 0xBF \<and> utf8_valid r' | _ \<Rightarrow> False)
         else False)"

end
