(* ===== verification/Byte_Scalar.thy ===== *)
theory Byte_Scalar
  imports Prelude
begin

text \<open>
  The scalar reference routines of \<open>crates/php_source/src/byte_kernel.rs\<close>: byte searches,
  substring searches, counting, escape scans, run lengths and trim bounds. Every function
  here is the \<open>_scalar\<close> function of the same name; the optimised routines are in
  \<open>Byte_Simd\<close> and \<open>Byte_Kernel\<close> and are proved equal to these.
\<close>

section \<open>Searching for bytes\<close>

definition find_byte_scalar :: "bytes \<Rightarrow> byte \<Rightarrow> nat option" where
  "find_byte_scalar bytes needle = position (\<lambda>byte. byte = needle) bytes"

definition rfind_byte_scalar :: "bytes \<Rightarrow> byte \<Rightarrow> nat option" where
  "rfind_byte_scalar bytes needle = rposition (\<lambda>byte. byte = needle) bytes"

definition find_any2_scalar :: "bytes \<Rightarrow> byte \<Rightarrow> byte \<Rightarrow> nat option" where
  "find_any2_scalar bytes first second = position (\<lambda>byte. byte = first \<or> byte = second) bytes"

definition find_any3_scalar :: "bytes \<Rightarrow> byte \<Rightarrow> byte \<Rightarrow> byte \<Rightarrow> nat option" where
  "find_any3_scalar bytes first second third =
     position (\<lambda>byte. byte = first \<or> byte = second \<or> byte = third) bytes"

section \<open>Searching for substrings\<close>

text \<open>\<open>slice::windows(n)\<close> for \<open>n > 0\<close>: all contiguous sub-slices of length \<open>n\<close>, in order.\<close>

definition windows :: "nat \<Rightarrow> 'a list \<Rightarrow> 'a list list" where
  "windows n xs = map (\<lambda>i. sub_slice xs i (i + n)) [0..<Suc (length xs) - n]"

definition find_bytes_from_scalar :: "bytes \<Rightarrow> bytes \<Rightarrow> nat \<Rightarrow> nat option" where
  "find_bytes_from_scalar haystack needle start =
     (if needle = [] then Some (min start (length haystack))
      else if length haystack < start \<or> length haystack - start < length needle then None
      else map_option (\<lambda>offset. start + offset)
             (position (\<lambda>window. window = needle)
                (windows (length needle) (drop start haystack))))"

definition rfind_bytes_before_scalar :: "bytes \<Rightarrow> bytes \<Rightarrow> nat \<Rightarrow> nat option" where
  "rfind_bytes_before_scalar haystack needle end0 =
     (let en = min end0 (length haystack)
      in if needle = [] then Some en
         else if en < length needle then None
         else rposition (\<lambda>window. window = needle)
                (windows (length needle) (take en haystack)))"

definition find_bytes_ascii_case_insensitive_from_scalar ::
    "bytes \<Rightarrow> bytes \<Rightarrow> nat \<Rightarrow> nat option" where
  "find_bytes_ascii_case_insensitive_from_scalar haystack needle start =
     (if needle = [] then Some (min start (length haystack))
      else if length haystack < start \<or> length haystack - start < length needle then None
      else map_option (\<lambda>offset. start + offset)
             (position (\<lambda>window. eq_ignore_ascii_case window needle)
                (windows (length needle) (drop start haystack))))"

definition rfind_bytes_ascii_case_insensitive_before_scalar ::
    "bytes \<Rightarrow> bytes \<Rightarrow> nat \<Rightarrow> nat option" where
  "rfind_bytes_ascii_case_insensitive_before_scalar haystack needle end0 =
     (let en = min end0 (length haystack)
      in if needle = [] then Some en
         else if en < length needle then None
         else rposition (\<lambda>window. eq_ignore_ascii_case window needle)
                (windows (length needle) (take en haystack)))"

section \<open>Counting\<close>

definition count_byte_scalar :: "bytes \<Rightarrow> byte \<Rightarrow> nat" where
  "count_byte_scalar bytes needle = length (filter (\<lambda>byte. byte = needle) bytes)"

text \<open>The loop of \<open>count_newlines_scalar\<close>, on the bytes from \<open>offset\<close> on.\<close>

fun count_newlines_scalar :: "bytes \<Rightarrow> nat" where
  "count_newlines_scalar [] = 0"
| "count_newlines_scalar (b # bs) =
     (if b = CHR 0x0A then Suc (count_newlines_scalar bs)
      else if b = CHR 0x0D \<and> get_at bs 0 = Some (CHR 0x0A) then
        Suc (count_newlines_scalar (drop 1 bs))
      else if b = CHR 0x0D then Suc (count_newlines_scalar bs)
      else count_newlines_scalar bs)"

section \<open>Classification scans\<close>

definition is_all_ascii_scalar :: "bytes \<Rightarrow> bool" where
  "is_all_ascii_scalar bytes = list_all is_ascii bytes"

definition find_json_escape_byte_scalar :: "bytes \<Rightarrow> nat option" where
  "find_json_escape_byte_scalar bytes =
     position (\<lambda>byte. byte \<in> {CHR 0x22, CHR 0x5C, CHR ''/''} \<or> byte_val byte < 0x20
                      \<or> 0x80 \<le> byte_val byte) bytes"

definition find_html_escape_byte_scalar :: "bytes \<Rightarrow> nat option" where
  "find_html_escape_byte_scalar bytes =
     position (\<lambda>byte. byte \<in> {CHR ''&'', CHR ''<'', CHR ''>'', CHR 0x22, CHR 0x27}) bytes"

definition is_ascii_identifier_start :: "byte \<Rightarrow> bool" where
  "is_ascii_identifier_start byte = (byte = CHR ''_'' \<or> is_ascii_alphabetic byte)"

definition is_ascii_identifier_continue :: "byte \<Rightarrow> bool" where
  "is_ascii_identifier_continue byte = (is_ascii_identifier_start byte \<or> is_ascii_digit byte)"

definition ascii_identifier_continue_chunk_len_scalar :: "bytes \<Rightarrow> nat" where
  "ascii_identifier_continue_chunk_len_scalar bytes =
     length (takeWhile is_ascii_identifier_continue bytes)"

definition ascii_digit_run_len_scalar :: "bytes \<Rightarrow> nat" where
  "ascii_digit_run_len_scalar bytes =
     unwrap_or (position (\<lambda>byte. \<not> is_ascii_digit byte) bytes) (length bytes)"

definition all_ascii_digits_scalar :: "bytes \<Rightarrow> bool" where
  "all_ascii_digits_scalar bytes = list_all is_ascii_digit bytes"

definition find_non_ascii_whitespace_scalar :: "bytes \<Rightarrow> nat option" where
  "find_non_ascii_whitespace_scalar bytes = position (\<lambda>byte. \<not> is_ascii_whitespace byte) bytes"

definition find_ascii_whitespace_scalar :: "bytes \<Rightarrow> nat option" where
  "find_ascii_whitespace_scalar bytes = position is_ascii_whitespace bytes"

definition rfind_ascii_whitespace_scalar :: "bytes \<Rightarrow> nat option" where
  "rfind_ascii_whitespace_scalar bytes = rposition is_ascii_whitespace bytes"

definition contains_ascii_whitespace_scalar :: "bytes \<Rightarrow> bool" where
  "contains_ascii_whitespace_scalar bytes = list_ex is_ascii_whitespace bytes"

definition all_ascii_whitespace_scalar :: "bytes \<Rightarrow> bool" where
  "all_ascii_whitespace_scalar bytes = list_all is_ascii_whitespace bytes"

definition contains_ascii_lowercase_scalar :: "bytes \<Rightarrow> bool" where
  "contains_ascii_lowercase_scalar bytes = list_ex is_ascii_lowercase bytes"

definition contains_ascii_uppercase_scalar :: "bytes \<Rightarrow> bool" where
  "contains_ascii_uppercase_scalar bytes = list_ex is_ascii_uppercase bytes"

definition is_default_trim_byte :: "byte \<Rightarrow> bool" where
  "is_default_trim_byte byte = (byte_val byte \<in> {32, 9, 10, 13, 0, 11})"

definition trim_default_bounds_scalar :: "bytes \<Rightarrow> nat \<times> nat" where
  "trim_default_bounds_scalar bytes =
     (let start = unwrap_or (position (\<lambda>byte. \<not> is_default_trim_byte byte) bytes) (length bytes);
          en = (case rposition (\<lambda>byte. \<not> is_default_trim_byte byte) bytes of
                  None \<Rightarrow> start | Some index \<Rightarrow> index + 1)
      in (start, en))"

section \<open>Facts about runs\<close>

text \<open>A run length computed by counting up or by searching for the first byte outside.\<close>

lemma run_len_takeWhile:
  "unwrap_or (position (\<lambda>b. \<not> p b) bs) (length bs) = length (takeWhile p bs)"
  by (induction bs) (auto simp: unwrap_or_def split: option.splits)

lemma ascii_digit_run_len_scalar_eq:
  "ascii_digit_run_len_scalar bytes = length (takeWhile is_ascii_digit bytes)"
  by (simp add: ascii_digit_run_len_scalar_def run_len_takeWhile)

lemma all_digits_iff_run:
  "all_ascii_digits_scalar bytes \<longleftrightarrow> ascii_digit_run_len_scalar bytes = length bytes"
proof -
  have "length (takeWhile is_ascii_digit bytes) = length bytes
        \<longleftrightarrow> takeWhile is_ascii_digit bytes = bytes"
    by (metis append_eq_conv_conj length_takeWhile_le takeWhile_dropWhile_id take_all)
  then show ?thesis
    by (simp add: all_ascii_digits_scalar_def ascii_digit_run_len_scalar_eq
      list_all_iff takeWhile_eq_all_conv)
qed

end
