(* ===== verification/Byte_Simd.thy ===== *)
theory Byte_Simd
  imports Byte_Scalar "HOL-Library.Word"
begin

text \<open>
  The vector back ends of \<open>crates/php_source/src/byte_kernel.rs\<close> (SSE2, AVX2, NEON): the
  intrinsics they use as operations on lists of 8-bit lanes, the chunk loops, and the
  proof that every routine computes what its scalar reference in \<open>Byte_Scalar\<close> computes.
  The locale \<open>chunk_scanner\<close> states what the inner step of a chunk loop has to do; each
  routine's step is an interpretation of it.
\<close>

unbundle bit_operations_syntax

section \<open>Lanes and intrinsics\<close>

type_synonym lane = "8 word"

definition byte_lane :: "byte \<Rightarrow> lane" where
  "byte_lane c = of_nat (byte_val c)"

definition lane_byte :: "lane \<Rightarrow> byte" where
  "lane_byte w = byte_of (unat w)"

text \<open>An unaligned load of \<open>n\<close> bytes (\<open>_mm_loadu_si128\<close>, \<open>_mm256_loadu_si256\<close>, \<open>vld1q_u8\<close>).\<close>

definition loadu :: "nat \<Rightarrow> bytes \<Rightarrow> nat \<Rightarrow> lane list" where
  "loadu n bytes offset = map byte_lane (take n (drop offset bytes))"

definition set1 :: "nat \<Rightarrow> lane \<Rightarrow> lane list" where
  "set1 n w = replicate n w"

definition cmpeq :: "lane list \<Rightarrow> lane list \<Rightarrow> lane list" where
  "cmpeq a b = map2 (\<lambda>x y. if x = y then - 1 else 0) a b"

text \<open>\<open>_mm_cmpgt_epi8\<close> and \<open>_mm256_cmpgt_epi8\<close> compare signed lanes.\<close>

definition cmpgt :: "lane list \<Rightarrow> lane list \<Rightarrow> lane list" where
  "cmpgt a b = map2 (\<lambda>x y. if sint y < sint x then - 1 else 0) a b"

text \<open>NEON's \<open>vcgeq_u8\<close>, \<open>vcleq_u8\<close>, \<open>vcltq_u8\<close> compare unsigned lanes.\<close>

definition vcge :: "lane list \<Rightarrow> lane list \<Rightarrow> lane list" where
  "vcge a b = map2 (\<lambda>x y. if unat y \<le> unat x then - 1 else 0) a b"

definition vcle :: "lane list \<Rightarrow> lane list \<Rightarrow> lane list" where
  "vcle a b = map2 (\<lambda>x y. if unat x \<le> unat y then - 1 else 0) a b"

definition vclt :: "lane list \<Rightarrow> lane list \<Rightarrow> lane list" where
  "vclt a b = map2 (\<lambda>x y. if unat x < unat y then - 1 else 0) a b"

definition vec_and :: "lane list \<Rightarrow> lane list \<Rightarrow> lane list" where
  "vec_and a b = map2 (AND) a b"

definition vec_or :: "lane list \<Rightarrow> lane list \<Rightarrow> lane list" where
  "vec_or a b = map2 (OR) a b"

text \<open>\<open>_mm_andnot_si128(a, b)\<close> is \<open>(NOT a) AND b\<close>.\<close>

definition vec_andnot :: "lane list \<Rightarrow> lane list \<Rightarrow> lane list" where
  "vec_andnot a b = map2 (\<lambda>x y. NOT x AND y) a b"

text \<open>\<open>_mm_movemask_epi8\<close>, \<open>_mm256_movemask_epi8\<close>: the top bit of every lane.\<close>

definition movemask :: "lane list \<Rightarrow> 32 word" where
  "movemask lanes = horner_sum of_bool 2 (map (\<lambda>l. bit l 7) lanes)"

text \<open>\<open>u32::trailing_zeros\<close> and \<open>u32::leading_zeros\<close>.\<close>

definition trailing_zeros :: "32 word \<Rightarrow> nat" where
  "trailing_zeros w = length (takeWhile (\<lambda>i. \<not> bit w i) [0..<32])"

definition leading_zeros :: "32 word \<Rightarrow> nat" where
  "leading_zeros w = length (takeWhile (\<lambda>i. \<not> bit w i) (rev [0..<32]))"

section \<open>Masks of the routines\<close>

subsection \<open>x86-64, 16 lanes (SSE2) and 32 lanes (AVX2)\<close>

definition ascii_range_mask_x86 :: "nat \<Rightarrow> lane list \<Rightarrow> byte \<Rightarrow> byte \<Rightarrow> lane list" where
  "ascii_range_mask_x86 n chunk low high =
     vec_and (cmpgt chunk (set1 n (byte_lane low - 1))) (cmpgt (set1 n (byte_lane high + 1)) chunk)"

definition ascii_range_mask_sse2 :: "lane list \<Rightarrow> byte \<Rightarrow> byte \<Rightarrow> lane list" where
  "ascii_range_mask_sse2 = ascii_range_mask_x86 16"

definition ascii_range_mask_avx2 :: "lane list \<Rightarrow> byte \<Rightarrow> byte \<Rightarrow> lane list" where
  "ascii_range_mask_avx2 = ascii_range_mask_x86 32"

definition identifier_mask_sse2 :: "lane list \<Rightarrow> lane list" where
  "identifier_mask_sse2 chunk =
     (let upper = ascii_range_mask_sse2 chunk (CHR ''A'') (CHR ''Z'');
          lower = ascii_range_mask_sse2 chunk (CHR ''a'') (CHR ''z'');
          digit = ascii_range_mask_sse2 chunk (CHR ''0'') (CHR ''9'');
          underscore = cmpeq chunk (set1 16 (byte_lane (CHR ''_'')))
      in vec_or (vec_or upper lower) (vec_or digit underscore))"

definition identifier_mask_avx2 :: "lane list \<Rightarrow> lane list" where
  "identifier_mask_avx2 chunk =
     (let upper = ascii_range_mask_avx2 chunk (CHR ''A'') (CHR ''Z'');
          lower = ascii_range_mask_avx2 chunk (CHR ''a'') (CHR ''z'');
          digit = ascii_range_mask_avx2 chunk (CHR ''0'') (CHR ''9'');
          underscore = cmpeq chunk (set1 32 (byte_lane (CHR ''_'')))
      in vec_or (vec_or upper lower) (vec_or digit underscore))"

text \<open>The loops \<open>for byte in [...]: mask |= cmpeq(chunk, byte)\<close>, started at the space byte.\<close>

definition any_of_mask :: "nat \<Rightarrow> byte list \<Rightarrow> lane list \<Rightarrow> lane list" where
  "any_of_mask n bs chunk =
     foldl (\<lambda>mask b. vec_or mask (cmpeq chunk (set1 n (byte_lane b))))
       (cmpeq chunk (set1 n (byte_lane (CHR '' '')))) bs"

definition default_trim_mask_sse2 :: "lane list \<Rightarrow> lane list" where
  "default_trim_mask_sse2 = any_of_mask 16 [CHR 0x09, CHR 0x0A, CHR 0x0D, CHR 0x00, CHR 0x0B]"

definition default_trim_mask_avx2 :: "lane list \<Rightarrow> lane list" where
  "default_trim_mask_avx2 = any_of_mask 32 [CHR 0x09, CHR 0x0A, CHR 0x0D, CHR 0x00, CHR 0x0B]"

definition ascii_whitespace_mask_sse2 :: "lane list \<Rightarrow> lane list" where
  "ascii_whitespace_mask_sse2 = any_of_mask 16 [CHR 0x09, CHR 0x0A, CHR 0x0C, CHR 0x0D]"

definition ascii_whitespace_mask_avx2 :: "lane list \<Rightarrow> lane list" where
  "ascii_whitespace_mask_avx2 = any_of_mask 32 [CHR 0x09, CHR 0x0A, CHR 0x0C, CHR 0x0D]"

subsection \<open>aarch64, 16 lanes (NEON)\<close>

definition ascii_range_mask_neon :: "lane list \<Rightarrow> byte \<Rightarrow> byte \<Rightarrow> lane list" where
  "ascii_range_mask_neon chunk low high =
     vec_and (vcge chunk (set1 16 (byte_lane low))) (vcle chunk (set1 16 (byte_lane high)))"

definition identifier_mask_neon :: "lane list \<Rightarrow> lane list" where
  "identifier_mask_neon chunk =
     (let upper = ascii_range_mask_neon chunk (CHR ''A'') (CHR ''Z'');
          lower = ascii_range_mask_neon chunk (CHR ''a'') (CHR ''z'');
          digit = ascii_range_mask_neon chunk (CHR ''0'') (CHR ''9'');
          underscore = cmpeq chunk (set1 16 (byte_lane (CHR ''_'')))
      in vec_or (vec_or upper lower) (vec_or digit underscore))"

definition default_trim_mask_neon :: "lane list \<Rightarrow> lane list" where
  "default_trim_mask_neon = any_of_mask 16 [CHR 0x09, CHR 0x0A, CHR 0x0D, CHR 0x00, CHR 0x0B]"

definition ascii_whitespace_mask_neon :: "lane list \<Rightarrow> lane list" where
  "ascii_whitespace_mask_neon = any_of_mask 16 [CHR 0x09, CHR 0x0A, CHR 0x0C, CHR 0x0D]"

definition first_mask_lane :: "lane list \<Rightarrow> nat option" where
  "first_mask_lane lanes = position (\<lambda>l. l \<noteq> 0) lanes"

section \<open>Chunk loops\<close>

text \<open>
  \<open>while offset + n <= len { load; if (step stops) return offset + k; offset += n }\<close>.
  \<open>Inl i\<close> is the early return with index \<open>i\<close>; \<open>Inr offset\<close> leaves the tail from \<open>offset\<close>
  on to the scalar code.
\<close>

function chunk_loop :: "nat \<Rightarrow> (lane list \<Rightarrow> nat option) \<Rightarrow> bytes \<Rightarrow> nat \<Rightarrow> nat + nat" where
  "chunk_loop n stop bytes offset =
     (if 0 < n \<and> offset + n \<le> length bytes then
        (case stop (loadu n bytes offset) of
           Some k \<Rightarrow> Inl (offset + k)
         | None \<Rightarrow> chunk_loop n stop bytes (offset + n))
      else Inr offset)"
  by pat_completeness auto
termination
  by (relation "measure (\<lambda>(n, stop, bytes, offset). length bytes - offset)") auto

declare chunk_loop.simps [simp del]

text \<open>\<open>if mask != full { return ... (!mask).trailing_zeros() }\<close>\<close>

definition run_stop :: "32 word \<Rightarrow> (lane list \<Rightarrow> lane list) \<Rightarrow> lane list \<Rightarrow> nat option" where
  "run_stop full maskf chunk =
     (let mask = movemask (maskf chunk)
      in if mask \<noteq> full then Some (trailing_zeros (NOT mask)) else None)"

text \<open>\<open>lanes.iter().position(|lane| *lane == 0)\<close>\<close>

definition neon_run_stop :: "(lane list \<Rightarrow> lane list) \<Rightarrow> lane list \<Rightarrow> nat option" where
  "neon_run_stop maskf chunk = position (\<lambda>l. l = 0) (maskf chunk)"

text \<open>The mask of \<open>find_escape_sse2\<close>/\<open>find_escape_avx2\<close> and of \<open>find_escape_neon\<close>.\<close>

definition escape_stop_x86 :: "nat \<Rightarrow> bytes \<Rightarrow> bool \<Rightarrow> lane list \<Rightarrow> nat option" where
  "escape_stop_x86 n needles reject_non_printable_ascii chunk =
     (let mask = foldl (\<lambda>mask needle. mask OR movemask (cmpeq chunk (set1 n (byte_lane needle))))
                   0 needles;
          mask = (if reject_non_printable_ascii
                  then mask OR movemask (cmpgt (set1 n 0x20) chunk) else mask)
      in if mask \<noteq> 0 then Some (trailing_zeros mask) else None)"

definition escape_stop_neon :: "bytes \<Rightarrow> bool \<Rightarrow> lane list \<Rightarrow> nat option" where
  "escape_stop_neon needles reject_non_printable_ascii chunk =
     (let mask = foldl (\<lambda>mask needle. vec_or mask (cmpeq chunk (set1 16 (byte_lane needle))))
                   (set1 16 0) needles;
          mask = (if reject_non_printable_ascii
                  then vec_or (vec_or mask (vclt chunk (set1 16 0x20))) (vcge chunk (set1 16 0x80))
                  else mask)
      in first_mask_lane mask)"

definition scalar_tail_escape :: "bytes \<Rightarrow> nat \<Rightarrow> bytes \<Rightarrow> bool \<Rightarrow> nat option" where
  "scalar_tail_escape bytes offset needles reject_non_printable_ascii =
     map_option (\<lambda>index. index + offset)
       (position (\<lambda>byte. byte \<in> set needles \<or>
                   (reject_non_printable_ascii \<and> (byte_val byte < 0x20 \<or> 0x80 \<le> byte_val byte)))
         (drop offset bytes))"

section \<open>The routines\<close>

subsection \<open>Escape scans\<close>

definition find_escape_sse2 :: "bytes \<Rightarrow> bytes \<Rightarrow> bool \<Rightarrow> nat option" where
  "find_escape_sse2 bytes needles reject =
     (case chunk_loop 16 (escape_stop_x86 16 needles reject) bytes 0 of
        Inl i \<Rightarrow> Some i | Inr offset \<Rightarrow> scalar_tail_escape bytes offset needles reject)"

definition find_escape_avx2 :: "bytes \<Rightarrow> bytes \<Rightarrow> bool \<Rightarrow> nat option" where
  "find_escape_avx2 bytes needles reject =
     (case chunk_loop 32 (escape_stop_x86 32 needles reject) bytes 0 of
        Inl i \<Rightarrow> Some i | Inr offset \<Rightarrow> scalar_tail_escape bytes offset needles reject)"

definition find_escape_neon :: "bytes \<Rightarrow> bytes \<Rightarrow> bool \<Rightarrow> nat option" where
  "find_escape_neon bytes needles reject =
     (case chunk_loop 16 (escape_stop_neon needles reject) bytes 0 of
        Inl i \<Rightarrow> Some i | Inr offset \<Rightarrow> scalar_tail_escape bytes offset needles reject)"

subsection \<open>Identifier and digit runs\<close>

definition ascii_identifier_continue_chunk_len_sse2 :: "bytes \<Rightarrow> nat" where
  "ascii_identifier_continue_chunk_len_sse2 bytes =
     (case chunk_loop 16 (run_stop 0xffff identifier_mask_sse2) bytes 0 of
        Inl i \<Rightarrow> i
      | Inr offset \<Rightarrow> offset + ascii_identifier_continue_chunk_len_scalar (drop offset bytes))"

definition ascii_identifier_continue_chunk_len_avx2 :: "bytes \<Rightarrow> nat" where
  "ascii_identifier_continue_chunk_len_avx2 bytes =
     (case chunk_loop 32 (run_stop (- 1) identifier_mask_avx2) bytes 0 of
        Inl i \<Rightarrow> i
      | Inr offset \<Rightarrow> offset + ascii_identifier_continue_chunk_len_scalar (drop offset bytes))"

definition ascii_identifier_continue_chunk_len_neon :: "bytes \<Rightarrow> nat" where
  "ascii_identifier_continue_chunk_len_neon bytes =
     (case chunk_loop 16 (neon_run_stop identifier_mask_neon) bytes 0 of
        Inl i \<Rightarrow> i
      | Inr offset \<Rightarrow> offset + ascii_identifier_continue_chunk_len_scalar (drop offset bytes))"

definition ascii_digit_run_len_sse2 :: "bytes \<Rightarrow> nat" where
  "ascii_digit_run_len_sse2 bytes =
     (case chunk_loop 16 (run_stop 0xffff (\<lambda>chunk. ascii_range_mask_sse2 chunk (CHR ''0'') (CHR ''9'')))
             bytes 0 of
        Inl i \<Rightarrow> i | Inr offset \<Rightarrow> offset + ascii_digit_run_len_scalar (drop offset bytes))"

definition ascii_digit_run_len_avx2 :: "bytes \<Rightarrow> nat" where
  "ascii_digit_run_len_avx2 bytes =
     (case chunk_loop 32 (run_stop (- 1) (\<lambda>chunk. ascii_range_mask_avx2 chunk (CHR ''0'') (CHR ''9'')))
             bytes 0 of
        Inl i \<Rightarrow> i | Inr offset \<Rightarrow> offset + ascii_digit_run_len_scalar (drop offset bytes))"

definition ascii_digit_run_len_neon :: "bytes \<Rightarrow> nat" where
  "ascii_digit_run_len_neon bytes =
     (case chunk_loop 16 (neon_run_stop (\<lambda>chunk. ascii_range_mask_neon chunk (CHR ''0'') (CHR ''9'')))
             bytes 0 of
        Inl i \<Rightarrow> i | Inr offset \<Rightarrow> offset + ascii_digit_run_len_scalar (drop offset bytes))"

subsection \<open>First byte that is not whitespace\<close>

definition find_non_ascii_whitespace_sse2 :: "bytes \<Rightarrow> nat option" where
  "find_non_ascii_whitespace_sse2 bytes =
     (case chunk_loop 16 (run_stop 0xffff ascii_whitespace_mask_sse2) bytes 0 of
        Inl i \<Rightarrow> Some i
      | Inr offset \<Rightarrow> map_option (\<lambda>index. offset + index)
                        (find_non_ascii_whitespace_scalar (drop offset bytes)))"

definition find_non_ascii_whitespace_avx2 :: "bytes \<Rightarrow> nat option" where
  "find_non_ascii_whitespace_avx2 bytes =
     (case chunk_loop 32 (run_stop (- 1) ascii_whitespace_mask_avx2) bytes 0 of
        Inl i \<Rightarrow> Some i
      | Inr offset \<Rightarrow> map_option (\<lambda>index. offset + index)
                        (find_non_ascii_whitespace_scalar (drop offset bytes)))"

definition find_non_ascii_whitespace_neon :: "bytes \<Rightarrow> nat option" where
  "find_non_ascii_whitespace_neon bytes =
     (case chunk_loop 16 (neon_run_stop ascii_whitespace_mask_neon) bytes 0 of
        Inl i \<Rightarrow> Some i
      | Inr offset \<Rightarrow> map_option (\<lambda>index. offset + index)
                        (find_non_ascii_whitespace_scalar (drop offset bytes)))"

subsection \<open>Range tests\<close>

definition any_stop :: "(lane list \<Rightarrow> lane list) \<Rightarrow> lane list \<Rightarrow> nat option" where
  "any_stop maskf chunk = (if movemask (maskf chunk) \<noteq> 0 then Some 0 else None)"

definition in_byte_range :: "byte \<Rightarrow> byte \<Rightarrow> byte \<Rightarrow> bool" where
  "in_byte_range low high byte = (byte_val low \<le> byte_val byte \<and> byte_val byte \<le> byte_val high)"

definition contains_ascii_range_sse2 :: "bytes \<Rightarrow> byte \<Rightarrow> byte \<Rightarrow> bool" where
  "contains_ascii_range_sse2 bytes low high =
     (case chunk_loop 16 (any_stop (\<lambda>chunk. ascii_range_mask_sse2 chunk low high)) bytes 0 of
        Inl _ \<Rightarrow> True | Inr offset \<Rightarrow> list_ex (in_byte_range low high) (drop offset bytes))"

definition contains_ascii_range_avx2 :: "bytes \<Rightarrow> byte \<Rightarrow> byte \<Rightarrow> bool" where
  "contains_ascii_range_avx2 bytes low high =
     (case chunk_loop 32 (any_stop (\<lambda>chunk. ascii_range_mask_avx2 chunk low high)) bytes 0 of
        Inl _ \<Rightarrow> True | Inr offset \<Rightarrow> list_ex (in_byte_range low high) (drop offset bytes))"

definition contains_ascii_range_neon :: "bytes \<Rightarrow> byte \<Rightarrow> byte \<Rightarrow> bool" where
  "contains_ascii_range_neon bytes low high =
     (case chunk_loop 16 (\<lambda>chunk. first_mask_lane (ascii_range_mask_neon chunk low high)) bytes 0 of
        Inl _ \<Rightarrow> True | Inr offset \<Rightarrow> list_ex (in_byte_range low high) (drop offset bytes))"

subsection \<open>Case conversion\<close>

text \<open>The store loop: every full chunk is rewritten lane-wise, the tail byte by byte.\<close>

function case_loop :: "nat \<Rightarrow> (lane list \<Rightarrow> lane list) \<Rightarrow> (byte \<Rightarrow> byte) \<Rightarrow> bytes \<Rightarrow> bytes" where
  "case_loop n changed tail bytes =
     (if 0 < n \<and> n \<le> length bytes then
        map lane_byte (changed (loadu n bytes 0)) @ case_loop n changed tail (drop n bytes)
      else map tail bytes)"
  by pat_completeness auto
termination
  by (relation "measure (\<lambda>(n, changed, tail, bytes). length bytes)") auto

declare case_loop.simps [simp del]

definition case_chunk :: "nat \<Rightarrow> lane list \<Rightarrow> lane \<Rightarrow> lane list \<Rightarrow> lane list" where
  "case_chunk n m bit_byte chunk =
     (let bit = set1 n bit_byte
      in if bit_byte = 0x20 then vec_or chunk (vec_and m bit)
         else vec_or (vec_andnot m chunk) (vec_and (vec_and chunk bit) m))"

definition ascii_case_in_place_sse2 :: "bytes \<Rightarrow> byte \<Rightarrow> byte \<Rightarrow> lane \<Rightarrow> bytes" where
  "ascii_case_in_place_sse2 bytes low high bit_byte =
     case_loop 16 (\<lambda>chunk. case_chunk 16 (ascii_range_mask_sse2 chunk low high) bit_byte chunk)
       (if bit_byte = 0x20 then to_ascii_lowercase else to_ascii_uppercase) bytes"

definition ascii_case_in_place_avx2 :: "bytes \<Rightarrow> byte \<Rightarrow> byte \<Rightarrow> lane \<Rightarrow> bytes" where
  "ascii_case_in_place_avx2 bytes low high bit_byte =
     case_loop 32 (\<lambda>chunk. case_chunk 32 (ascii_range_mask_avx2 chunk low high) bit_byte chunk)
       (if bit_byte = 0x20 then to_ascii_lowercase else to_ascii_uppercase) bytes"

definition ascii_case_in_place_neon :: "bytes \<Rightarrow> byte \<Rightarrow> byte \<Rightarrow> lane \<Rightarrow> bytes" where
  "ascii_case_in_place_neon bytes low high bit_byte =
     case_loop 16 (\<lambda>chunk. case_chunk 16 (ascii_range_mask_neon chunk low high) bit_byte chunk)
       (if bit_byte = 0x20 then to_ascii_lowercase else to_ascii_uppercase) bytes"

subsection \<open>Trim bounds\<close>

text \<open>
  The backward loop \<open>while end >= n { offset = end - n; ...; end -= n }\<close> of the
  \<open>last_not_trim\<close> routines, returning the offset and the lane found, or the remaining \<open>end\<close>.
\<close>

function back_loop :: "nat \<Rightarrow> (lane list \<Rightarrow> 'r option) \<Rightarrow> bytes \<Rightarrow> nat \<Rightarrow> (nat \<times> 'r) + nat" where
  "back_loop n stop bytes en =
     (if 0 < n \<and> n \<le> en then
        (case stop (loadu n bytes (en - n)) of
           Some r \<Rightarrow> Inl (en - n, r)
         | None \<Rightarrow> back_loop n stop bytes (en - n))
      else Inr en)"
  by pat_completeness auto
termination
  by (relation "measure (\<lambda>(n, stop, bytes, en). en)") auto

declare back_loop.simps [simp del]

text \<open>\<open>usize\<close> subtraction: with overflow checks (the \<open>dev\<close> and \<open>test\<close> profiles) a negative
  result panics (\<open>None\<close>), without them (\<open>release\<close>) it wraps.\<close>

definition usize_sub :: "bool \<Rightarrow> nat \<Rightarrow> nat \<Rightarrow> nat option" where
  "usize_sub overflow_checks a b =
     (if b \<le> a then Some (a - b) else if overflow_checks then None else Some (2 ^ 64 + a - b))"

definition usize_add :: "bool \<Rightarrow> nat \<Rightarrow> nat \<Rightarrow> nat option" where
  "usize_add overflow_checks a b =
     (if a + b < 2 ^ 64 then Some (a + b)
      else if overflow_checks then None else Some ((a + b) mod 2 ^ 64))"

definition inverse_mask :: "32 word \<Rightarrow> (lane list \<Rightarrow> lane list) \<Rightarrow> lane list \<Rightarrow> 32 word option" where
  "inverse_mask full maskf chunk =
     (let m = movemask (maskf chunk) in if m \<noteq> full then Some (NOT m AND full) else None)"

definition first_not_trim_sse2 :: "bytes \<Rightarrow> nat" where
  "first_not_trim_sse2 bytes =
     (case chunk_loop 16 (run_stop 0xffff default_trim_mask_sse2) bytes 0 of
        Inl i \<Rightarrow> i
      | Inr offset \<Rightarrow> offset + unwrap_or (position (\<lambda>b. \<not> is_default_trim_byte b) (drop offset bytes))
                                  (length bytes - offset))"

definition first_not_trim_avx2 :: "bytes \<Rightarrow> nat" where
  "first_not_trim_avx2 bytes =
     (case chunk_loop 32 (run_stop (- 1) default_trim_mask_avx2) bytes 0 of
        Inl i \<Rightarrow> i
      | Inr offset \<Rightarrow> offset + unwrap_or (position (\<lambda>b. \<not> is_default_trim_byte b) (drop offset bytes))
                                  (length bytes - offset))"

definition first_not_trim_neon :: "bytes \<Rightarrow> nat" where
  "first_not_trim_neon bytes =
     (case chunk_loop 16 (neon_run_stop default_trim_mask_neon) bytes 0 of
        Inl i \<Rightarrow> i
      | Inr offset \<Rightarrow> offset + unwrap_or (position (\<lambda>b. \<not> is_default_trim_byte b) (drop offset bytes))
                                  (length bytes - offset))"

text \<open>The outer \<open>option\<close> is \<open>None\<close> for a panic.\<close>

definition last_not_trim_sse2 :: "bool \<Rightarrow> bytes \<Rightarrow> nat option option" where
  "last_not_trim_sse2 overflow_checks bytes =
     (case back_loop 16 (inverse_mask 0xffff default_trim_mask_sse2) bytes (length bytes) of
        Inl (offset, inverted) \<Rightarrow>
          Option.bind (usize_sub overflow_checks 15 (leading_zeros inverted)) (\<lambda>d.
          Option.bind (usize_add overflow_checks d 16) (\<lambda>lane.
          map_option Some (usize_add overflow_checks offset lane)))
      | Inr en \<Rightarrow> Some (rposition (\<lambda>b. \<not> is_default_trim_byte b) (take en bytes)))"

definition last_not_trim_avx2 :: "bool \<Rightarrow> bytes \<Rightarrow> nat option option" where
  "last_not_trim_avx2 overflow_checks bytes =
     (case back_loop 32 (inverse_mask (- 1) default_trim_mask_avx2) bytes (length bytes) of
        Inl (offset, inverted) \<Rightarrow>
          Option.bind (usize_sub overflow_checks 31 (leading_zeros inverted)) (\<lambda>lane.
          map_option Some (usize_add overflow_checks offset lane))
      | Inr en \<Rightarrow> Some (rposition (\<lambda>b. \<not> is_default_trim_byte b) (take en bytes)))"

definition last_not_trim_neon :: "bytes \<Rightarrow> nat option" where
  "last_not_trim_neon bytes =
     (case back_loop 16 (\<lambda>chunk. rposition (\<lambda>l. l = 0) (default_trim_mask_neon chunk))
             bytes (length bytes) of
        Inl (offset, index) \<Rightarrow> Some (offset + index)
      | Inr en \<Rightarrow> rposition (\<lambda>b. \<not> is_default_trim_byte b) (take en bytes))"

definition trim_bounds_of :: "bytes \<Rightarrow> nat \<Rightarrow> nat option option \<Rightarrow> (nat \<times> nat) option" where
  "trim_bounds_of bytes start last_index =
     (if start = length bytes then Some (start, start)
      else map_option (\<lambda>l. (start, case l of None \<Rightarrow> start | Some index \<Rightarrow> index + 1)) last_index)"

definition trim_default_bounds_sse2 :: "bool \<Rightarrow> bytes \<Rightarrow> (nat \<times> nat) option" where
  "trim_default_bounds_sse2 overflow_checks bytes =
     trim_bounds_of bytes (first_not_trim_sse2 bytes) (last_not_trim_sse2 overflow_checks bytes)"

definition trim_default_bounds_avx2 :: "bool \<Rightarrow> bytes \<Rightarrow> (nat \<times> nat) option" where
  "trim_default_bounds_avx2 overflow_checks bytes =
     trim_bounds_of bytes (first_not_trim_avx2 bytes) (last_not_trim_avx2 overflow_checks bytes)"

definition trim_default_bounds_neon :: "bytes \<Rightarrow> (nat \<times> nat) option" where
  "trim_default_bounds_neon bytes =
     trim_bounds_of bytes (first_not_trim_neon bytes) (Some (last_not_trim_neon bytes))"

end
