(* ===== verification/Byte_Simd_Proofs.thy ===== *)
theory Byte_Simd_Proofs
  imports Byte_Simd
begin

text \<open>
  The vector routines of \<open>Byte_Simd\<close> agree with their scalar references. The locales
  \<open>chunk_test\<close>, \<open>chunk_scanner\<close> and \<open>back_scanner\<close> are the contracts of the inner step of
  a forward test loop, a forward search loop and a backward search loop; every routine's
  step is an interpretation, and the routine's equivalence is the locale's lemma.
\<close>

section \<open>Lane facts\<close>

abbreviation mask_lane :: "bool \<Rightarrow> lane" where
  "mask_lane b \<equiv> (if b then - 1 else 0)"

lemma unat_byte_lane [simp]: "unat (byte_lane c) = byte_val c"
  by (simp add: byte_lane_def unsigned_of_nat take_bit_nat_eq_self)

lemma byte_lane_inject [simp]: "byte_lane a = byte_lane b \<longleftrightarrow> a = b"
  by (metis byte_val_inject unat_byte_lane)

lemma lane_byte_byte_lane [simp]: "lane_byte (byte_lane c) = c"
  by (simp add: lane_byte_def)

lemma unat_lane_less [simp]: "unat (w :: lane) < 256"
  using unsigned_less [of w] by simp

lemma byte_lane_lane_byte [simp]: "byte_lane (lane_byte w) = w"
  by (simp add: lane_byte_def byte_lane_def)

lemma sint_lane: "sint (w :: lane) = (if unat w < 128 then int (unat w) else int (unat w) - 256)"
proof -
  obtain n where n: "unat w = n" "n < 256" by simp
  then have u: "uint w = int n" by (metis of_nat_unat)
  have "sint w = (int n + 128) mod 256 - 128"
    by (simp add: sint_uint signed_take_bit_eq_take_bit_shift take_bit_eq_mod u)
  also have "\<dots> = (if n < 128 then int n else int n - 256)"
  proof (cases "n < 128")
    case True
    then show ?thesis by simp
  next
    case False
    have "(int n + 128) mod 256 = (int n - 128 + 256) mod 256" by (simp add: add.commute)
    also have "\<dots> = int n - 128"
      using False n(2) by (simp only: mod_add_self2) simp
    finally show ?thesis using False by simp
  qed
  finally show ?thesis by (simp only: n(1))
qed

lemma unat_byte_lane_pred: "1 \<le> byte_val c \<Longrightarrow> unat (byte_lane c - 1) = byte_val c - 1"
proof -
  assume c: "1 \<le> byte_val c"
  then have "byte_lane c - 1 = of_nat (byte_val c - 1)"
    by (simp add: byte_lane_def of_nat_diff)
  then show ?thesis
    using byte_val_less [of c] by (simp add: unsigned_of_nat take_bit_eq_mod less_imp_diff_less)
qed

lemma unat_byte_lane_succ: "byte_val c < 255 \<Longrightarrow> unat (byte_lane c + 1) = byte_val c + 1"
proof -
  assume c: "byte_val c < 255"
  have "byte_lane c + 1 = of_nat (byte_val c + 1)" by (simp add: byte_lane_def)
  then show ?thesis using c by (simp only: unsigned_of_nat) (simp add: take_bit_eq_mod)
qed

subsection \<open>Masks computed lane by lane\<close>

lemma map2_replicate: "length xs = n \<Longrightarrow> map2 f xs (replicate n y) = map (\<lambda>x. f x y) xs"
  by (induction xs arbitrary: n) auto

lemma map2_replicate_left: "length xs = n \<Longrightarrow> map2 f (replicate n y) xs = map (f y) xs"
  by (induction xs arbitrary: n) auto

lemma map2_same: "map2 f (map g xs) (map h xs) = map (\<lambda>x. f (g x) (h x)) xs"
  by (induction xs) auto

named_theorems lane_masks \<open>what the lane masks of the routines compute\<close>

lemma cmpeq_lanes [lane_masks]:
  "length cs = n \<Longrightarrow> cmpeq (map byte_lane cs) (set1 n (byte_lane k)) = map (\<lambda>c. mask_lane (c = k)) cs"
  by (simp add: cmpeq_def set1_def map2_replicate)

lemma vec_or_lanes [lane_masks]:
  "vec_or (map (\<lambda>c. mask_lane (p c)) cs) (map (\<lambda>c. mask_lane (q c)) cs)
   = map (\<lambda>c. mask_lane (p c \<or> q c)) cs"
  by (simp add: vec_or_def map2_same)

lemma vec_and_lanes [lane_masks]:
  "vec_and (map (\<lambda>c. mask_lane (p c)) cs) (map (\<lambda>c. mask_lane (q c)) cs)
   = map (\<lambda>c. mask_lane (p c \<and> q c)) cs"
  by (simp add: vec_and_def map2_same)

lemma range_x86_lanes:
  assumes "length cs = n" and "1 \<le> byte_val low" and "byte_val low < 128" and "byte_val high < 127"
  shows "ascii_range_mask_x86 n (map byte_lane cs) low high
         = map (\<lambda>c. mask_lane (in_byte_range low high c)) cs"
proof -
  have bv: "int (byte_val c) < 255 + int (byte_val low)" for c
    using assms(2) byte_val_less [of c] by linarith
  have bv2: "int (byte_val c) < 257 + int (byte_val high)" for c
    using byte_val_less [of c] by linarith
  have "cmpgt (map byte_lane cs) (set1 n (byte_lane low - 1))
        = map (\<lambda>c. mask_lane (byte_val low \<le> byte_val c \<and> byte_val c < 128)) cs"
    using assms bv
    by (auto simp: cmpgt_def set1_def map2_replicate sint_lane unat_byte_lane_pred dest: order.asym)
  moreover have "cmpgt (set1 n (byte_lane high + 1)) (map byte_lane cs)
        = map (\<lambda>c. mask_lane (byte_val c \<le> byte_val high \<or> 128 \<le> byte_val c)) cs"
    using assms bv2
    by (auto simp: cmpgt_def set1_def map2_replicate_left sint_lane unat_byte_lane_succ)
  ultimately show ?thesis
    using assms(4)
    by (auto simp: ascii_range_mask_x86_def vec_and_lanes in_byte_range_def)
qed

lemma range_neon_lanes:
  assumes "length cs = 16"
  shows "ascii_range_mask_neon (map byte_lane cs) low high
         = map (\<lambda>c. mask_lane (in_byte_range low high c)) cs"
  using assms
  by (simp add: ascii_range_mask_neon_def vcge_def vcle_def set1_def map2_replicate
    vec_and_def map2_same in_byte_range_def)

lemma any_of_lanes:
  assumes "length cs = n"
  shows "any_of_mask n bs (map byte_lane cs) = map (\<lambda>c. mask_lane (c \<in> set (CHR '' '' # bs))) cs"
proof -
  have "foldl (\<lambda>mask b. vec_or mask (cmpeq (map byte_lane cs) (set1 n (byte_lane b))))
          (map (\<lambda>c. mask_lane (p c)) cs) bs
        = map (\<lambda>c. mask_lane (p c \<or> c \<in> set bs)) cs" for p
  proof (induction bs arbitrary: p)
    case Nil
    show ?case by simp
  next
    case (Cons b bs)
    show ?case
      using Cons.IH [of "\<lambda>c. p c \<or> c = b"] assms by (simp add: lane_masks disj_assoc)
  qed
  from this [of "\<lambda>c. c = CHR '' ''"] show ?thesis
    using assms by (simp add: any_of_mask_def lane_masks)
qed

subsection \<open>Bit masks\<close>

lemma bit_movemask:
  "bit (movemask (map (\<lambda>c. mask_lane (p c)) cs)) i \<longleftrightarrow> i < 32 \<and> i < length cs \<and> p (cs ! i)"
  by (auto simp: movemask_def bit_horner_sum_bit_word_iff split: if_splits)

lemma trailing_zeros_eqI:
  assumes "n < 32" and "bit w n" and "\<And>j. j < n \<Longrightarrow> \<not> bit w j"
  shows "trailing_zeros w = n"
proof -
  have "[0..<32] = [0..<n] @ n # [Suc n..<32]"
    using assms(1) by (metis append_Cons append_Nil less_imp_le_nat upt_add_eq_append upt_conv_Cons le_add_diff_inverse zero_le)
  then have "takeWhile (\<lambda>i. \<not> bit w i) [0..<32] = [0..<n]"
    using assms by (simp add: takeWhile_append)
  then show ?thesis by (simp add: trailing_zeros_def)
qed

lemma leading_zeros_eqI:
  assumes "n < 32" and "bit w n" and "\<And>j. n < j \<Longrightarrow> j < 32 \<Longrightarrow> \<not> bit w j"
  shows "leading_zeros w = 31 - n"
proof -
  have "[0..<32] = [0..<n] @ n # [Suc n..<32]"
    using assms(1) by (metis append_Cons append_Nil less_imp_le_nat upt_add_eq_append upt_conv_Cons le_add_diff_inverse zero_le)
  then have "rev [0..<32] = rev [Suc n..<32] @ n # rev [0..<n]" by simp
  then have "takeWhile (\<lambda>i. \<not> bit w i) (rev [0..<32]) = rev [Suc n..<32]"
    using assms by (simp add: takeWhile_append)
  then show ?thesis by (simp add: leading_zeros_def)
qed


section \<open>Chunk scanners\<close>

lemma chunk_loop_tail:
  "chunk_loop n stop bytes offset = Inr off \<Longrightarrow> offset \<le> length bytes \<Longrightarrow> off \<le> length bytes"
proof (induction n stop bytes offset rule: chunk_loop.induct)
  case (1 n stop bytes offset)
  from 1(2) [unfolded chunk_loop.simps [of n stop bytes offset]] show ?case
    using 1(1,3) by (auto split: if_splits option.splits)
qed

text \<open>
  The contract of a chunk loop's inner step for the byte predicate \<open>q\<close>: on a full chunk it
  stops exactly if some byte satisfies \<open>q\<close>, and a scanner that reports a lane reports the
  first such byte.
\<close>

locale chunk_test =
  fixes n :: nat and stop :: "lane list \<Rightarrow> nat option" and q :: "byte \<Rightarrow> bool"
  assumes width: "0 < n"
    and stop_None: "length cs = n \<Longrightarrow> stop (map byte_lane cs) = None \<longleftrightarrow> (\<forall>c \<in> set cs. \<not> q c)"
begin

lemma chunk_loop_test:
  "(case chunk_loop n stop bytes offset of
      Inl _ \<Rightarrow> True | Inr off \<Rightarrow> list_ex q (drop off bytes)) = list_ex q (drop offset bytes)"
proof (induction "length bytes - offset" arbitrary: offset rule: less_induct)
  case less
  show ?case
  proof (cases "offset + n \<le> length bytes")
    case True
    let ?cs = "take n (drop offset bytes)"
    have split: "drop offset bytes = ?cs @ drop (offset + n) bytes"
      by (metis add.commute append_take_drop_id drop_drop)
    have len: "length ?cs = n" using True by simp
    have IH: "(case chunk_loop n stop bytes (offset + n) of
        Inl _ \<Rightarrow> True | Inr off \<Rightarrow> list_ex q (drop off bytes)) = list_ex q (drop (offset + n) bytes)"
      using True width by (intro less) simp
    show ?thesis
      using True width IH stop_None [OF len]
      by (subst split, subst chunk_loop.simps)
         (auto simp: loadu_def list_ex_iff split: option.splits)
  next
    case False
    then show ?thesis by (simp add: chunk_loop.simps [of n stop bytes offset])
  qed
qed

end

locale chunk_scanner = chunk_test +
  assumes stop_first: "length cs = n \<Longrightarrow> stop (map byte_lane cs) = Some k \<Longrightarrow> position q cs = Some k"
begin

lemma stop_eq: "length cs = n \<Longrightarrow> stop (map byte_lane cs) = position q cs"
  using stop_None stop_first by (metis not_Some_eq position_None_iff)

lemma chunk_loop_position:
  "(case chunk_loop n stop bytes offset of
      Inl i \<Rightarrow> Some i | Inr off \<Rightarrow> map_option ((+) off) (position q (drop off bytes)))
   = map_option ((+) offset) (position q (drop offset bytes))"
proof (induction "length bytes - offset" arbitrary: offset rule: less_induct)
  case less
  show ?case
  proof (cases "offset + n \<le> length bytes")
    case True
    let ?cs = "take n (drop offset bytes)"
    have split: "drop offset bytes = ?cs @ drop (offset + n) bytes"
      by (metis add.commute append_take_drop_id drop_drop)
    have len: "length ?cs = n" using True by simp
    have IH: "(case chunk_loop n stop bytes (offset + n) of
        Inl i \<Rightarrow> Some i | Inr off \<Rightarrow> map_option ((+) off) (position q (drop off bytes)))
        = map_option ((+) (offset + n)) (position q (drop (offset + n) bytes))"
      using True width by (intro less) simp
    show ?thesis
    proof (cases "position q ?cs")
      case None
      then show ?thesis
        using True width IH stop_eq [OF len]
        by (subst split, subst chunk_loop.simps)
           (cases "position q (drop (offset + n) bytes)", simp_all add: loadu_def position_append)
    next
      case (Some k)
      then show ?thesis
        using True width stop_eq [OF len]
        by (subst split, subst chunk_loop.simps) (simp add: loadu_def position_append)
    qed
  next
    case False
    then show ?thesis by (simp add: chunk_loop.simps [of n stop bytes offset])
  qed
qed

lemma find_first:
  "(case chunk_loop n stop bytes 0 of
      Inl i \<Rightarrow> Some i | Inr off \<Rightarrow> map_option (\<lambda>i. off + i) (position q (drop off bytes)))
   = position q bytes"
  using chunk_loop_position [of bytes 0]
  by (cases "position q bytes") (auto split: sum.splits)

lemma run_length:
  assumes "\<And>c. q c \<longleftrightarrow> \<not> p c"
  shows "(case chunk_loop n stop bytes 0 of
      Inl i \<Rightarrow> i | Inr off \<Rightarrow> off + length (takeWhile p (drop off bytes)))
   = length (takeWhile p bytes)"
proof -
  have q: "q = (\<lambda>c. \<not> p c)" using assms by auto
  have tw: "length (takeWhile p bs) = unwrap_or (position q bs) (length bs)" for bs
    unfolding q by (rule run_len_takeWhile [symmetric])
  have le: "off \<le> length bytes" if "chunk_loop n stop bytes 0 = Inr off" for off
    using chunk_loop_tail [OF that] by simp
  show ?thesis
    using find_first [of bytes] le
    by (auto simp: tw unwrap_or_def split: sum.splits option.splits)
qed

end

subsection \<open>The steps of the routines are scanners\<close>

lemma run_stop_scanner:
  assumes "0 < n" "n \<le> 32" and full: "\<And>i. bit full i \<longleftrightarrow> i < n"
    and maskf: "\<And>cs. length cs = n \<Longrightarrow> maskf (map byte_lane cs) = map (\<lambda>c. mask_lane (p c)) cs"
  shows "chunk_scanner n (run_stop full maskf) (\<lambda>c. \<not> p c)"
proof -
  have bits: "bit (movemask (maskf (map byte_lane cs))) i \<longleftrightarrow> i < n \<and> p (cs ! i)"
    if len: "length cs = n" for cs i
    unfolding maskf [OF len] bit_movemask using len \<open>n \<le> 32\<close> by auto
  have eq_full: "movemask (maskf (map byte_lane cs)) = full \<longleftrightarrow> (\<forall>i < n. p (cs ! i))"
    if len: "length cs = n" for cs
  proof
    assume eq: "movemask (maskf (map byte_lane cs)) = full"
    show "\<forall>i < n. p (cs ! i)"
    proof (intro allI impI)
      fix i assume "i < n"
      then have "bit full i" by (simp only: full)
      then show "p (cs ! i)" using bits [OF len, of i] unfolding eq by simp
    qed
  next
    assume "\<forall>i < n. p (cs ! i)"
    then show "movemask (maskf (map byte_lane cs)) = full"
      by - (rule bit_word_eqI, simp only: bits [OF len] full, blast)
  qed
  show ?thesis
  proof
  show "0 < n" by fact
next
  fix cs :: bytes assume len: "length cs = n"
  from eq_full [OF len] show "run_stop full maskf (map byte_lane cs) = None \<longleftrightarrow> (\<forall>c \<in> set cs. \<not> \<not> p c)"
    using len by (auto simp: run_stop_def Let_def all_set_conv_all_nth)
next
  fix cs :: bytes and k
  assume len: "length cs = n" and stop: "run_stop full maskf (map byte_lane cs) = Some k"
  let ?m = "movemask (maskf (map byte_lane cs))"
  from stop have ne: "?m \<noteq> full" and k: "k = trailing_zeros (NOT ?m)"
    by (auto simp: run_stop_def Let_def split: if_splits)
  have "\<not> (\<forall>i < n. p (cs ! i))"
    using ne eq_full [OF len] by simp
  then have "position (\<lambda>c. \<not> p c) cs \<noteq> None"
    using len by (auto simp: position_None_iff all_set_conv_all_nth)
  then obtain j where j: "position (\<lambda>c. \<not> p c) cs = Some j" by auto
  then have jn: "j < n" "\<not> p (cs ! j)" "\<forall>i<j. p (cs ! i)"
    using len by (auto simp: position_Some_iff)
  have "trailing_zeros (NOT ?m) = j"
    using jn assms(2) by (intro trailing_zeros_eqI) (auto simp: bit_not_iff bits [OF len])
  then show "position (\<lambda>c. \<not> p c) cs = Some k" using j k by simp
  qed
qed

lemma neon_run_stop_scanner:
  assumes maskf: "\<And>cs. length cs = 16 \<Longrightarrow> maskf (map byte_lane cs) = map (\<lambda>c. mask_lane (p c)) cs"
  shows "chunk_scanner 16 (neon_run_stop maskf) (\<lambda>c. \<not> p c)"
proof -
  have pos: "position (\<lambda>l. l = 0) (map (\<lambda>c. mask_lane (p c)) cs) = position (\<lambda>c. \<not> p c) cs" for cs
    by (induction cs) auto
  show ?thesis
    by standard (auto simp: neon_run_stop_def maskf pos position_None_iff)
qed

abbreviation escape_pred :: "bytes \<Rightarrow> bool \<Rightarrow> byte \<Rightarrow> bool" where
  "escape_pred needles reject c \<equiv>
     c \<in> set needles \<or> (reject \<and> (byte_val c < 0x20 \<or> 0x80 \<le> byte_val c))"

lemma bit_or_movemasks:
  assumes "length cs = n"
  shows "bit (foldl (\<lambda>mask needle. mask OR movemask (cmpeq (map byte_lane cs) (set1 n (byte_lane needle))))
            m needles) i
         \<longleftrightarrow> bit m i \<or> (i < 32 \<and> i < n \<and> cs ! i \<in> set needles)"
proof (induction needles arbitrary: m)
  case Nil
  show ?case by simp
next
  case (Cons x xs)
  show ?case
    unfolding foldl_Cons Cons.IH
    unfolding cmpeq_lanes [OF assms] bit_or_iff bit_movemask
    using assms by auto
qed

lemma escape_stop_x86_scanner:
  assumes "0 < n" "n \<le> 32"
  shows "chunk_scanner n (escape_stop_x86 n needles reject) (escape_pred needles reject)"
proof -
  define hits where "hits cs = (let mask = foldl (\<lambda>mask needle. mask OR
            movemask (cmpeq (map byte_lane cs) (set1 n (byte_lane needle)))) 0 needles
      in if reject then mask OR movemask (cmpgt (set1 n 0x20) (map byte_lane cs)) else mask)" for cs
  have bv: "int (byte_val c) < 288" for c
    using byte_val_less [of c] by linarith
  have gt: "cmpgt (set1 n 0x20) (map byte_lane cs)
            = map (\<lambda>c. mask_lane (byte_val c < 0x20 \<or> 0x80 \<le> byte_val c)) cs" if "length cs = n" for cs
    using that bv
    by (auto simp: cmpgt_def set1_def map2_replicate_left sint_lane)
  have bits: "bit (hits cs) i \<longleftrightarrow> i < n \<and> escape_pred needles reject (cs ! i)" if "length cs = n" for cs i
    using that assms(2)
    by (auto simp: hits_def Let_def gt bit_movemask bit_or_movemasks bit_simps)
  have stop: "escape_stop_x86 n needles reject (map byte_lane cs)
              = (if hits cs \<noteq> 0 then Some (trailing_zeros (hits cs)) else None)" for cs
    by (simp add: escape_stop_x86_def hits_def Let_def)
  have zero: "hits cs = 0 \<longleftrightarrow> (\<forall>c \<in> set cs. \<not> escape_pred needles reject c)" if "length cs = n" for cs
  proof -
    have "hits cs = 0 \<longleftrightarrow> (\<forall>i < n. \<not> escape_pred needles reject (cs ! i))"
      unfolding bit_eq_iff bits [OF that] bit_0_eq using assms(2) by auto
    then show ?thesis using that by (simp add: all_set_conv_all_nth)
  qed
  have tz: "trailing_zeros (hits cs) = k"
    if len: "length cs = n" and k: "position (escape_pred needles reject) cs = Some k" for cs k
  proof (rule trailing_zeros_eqI)
    show "k < 32" using position_less [OF k] len assms(2) by simp
    show "bit (hits cs) k" using k len bits [OF len] by (simp add: position_Some_iff)
    show "\<not> bit (hits cs) j" if "j < k" for j
      using that k len bits [OF len] by (auto simp: position_Some_iff)
  qed
  show ?thesis
  proof
    fix cs :: bytes assume len: "length cs = n"
    then show "escape_stop_x86 n needles reject (map byte_lane cs) = None
      \<longleftrightarrow> (\<forall>c \<in> set cs. \<not> escape_pred needles reject c)"
      using stop zero by simp
  next
    fix cs :: bytes and k assume len: "length cs = n"
      and st: "escape_stop_x86 n needles reject (map byte_lane cs) = Some k"
    then have ne: "hits cs \<noteq> 0" and k: "k = trailing_zeros (hits cs)"
      using stop by (auto split: if_splits)
    have "position (escape_pred needles reject) cs \<noteq> None"
      unfolding position_None_iff using ne zero [OF len] by simp
    then obtain j where "position (escape_pred needles reject) cs = Some j" by blast
    then show "position (escape_pred needles reject) cs = Some k" using tz [OF len] k by simp
  qed fact
qed

lemma escape_stop_neon_scanner:
  "chunk_scanner 16 (escape_stop_neon needles reject) (escape_pred needles reject)"
proof -
  have fold: "foldl (\<lambda>mask needle. vec_or mask (cmpeq (map byte_lane cs) (set1 16 (byte_lane needle))))
            (map (\<lambda>c. mask_lane (p c)) cs) needles
          = map (\<lambda>c. mask_lane (p c \<or> c \<in> set needles)) cs" if "length cs = 16" for cs p
    using that
    by (induction needles arbitrary: p) (simp_all add: lane_masks disj_assoc)
  have zero: "set1 16 0 = map (\<lambda>c. mask_lane False) cs" if "length cs = 16" for cs :: bytes
    using that by (simp add: set1_def map_replicate_const)
  have lt: "vclt (map byte_lane cs) (set1 16 0x20) = map (\<lambda>c. mask_lane (byte_val c < 0x20)) cs"
    if "length cs = 16" for cs
    using that by (simp add: vclt_def set1_def map2_replicate)
  have ge: "vcge (map byte_lane cs) (set1 16 0x80) = map (\<lambda>c. mask_lane (0x80 \<le> byte_val c)) cs"
    if "length cs = 16" for cs
    using that by (simp add: vcge_def set1_def map2_replicate)
  have first: "first_mask_lane (map (\<lambda>c. mask_lane (p c)) cs) = position p cs" for p cs
    unfolding first_mask_lane_def by (induction cs) auto
  have st: "escape_stop_neon needles reject (map byte_lane cs) = position (escape_pred needles reject) cs"
    if len: "length cs = 16" for cs
  proof (cases reject)
    case True
    then show ?thesis
      using len fold [OF len, of "\<lambda>_. False"]
      by (simp only: escape_stop_neon_def Let_def zero [OF len] lt ge vec_or_lanes first if_True)
         (simp add: disj_assoc)
  next
    case False
    then show ?thesis
      using len fold [OF len, of "\<lambda>_. False"]
      by (simp only: escape_stop_neon_def Let_def zero [OF len] first if_False) simp
  qed
  show ?thesis
    by standard (auto simp: st position_None_iff)
qed


subsection \<open>Interpretations\<close>

lemma full_sse2: "bit (0xffff :: 32 word) i \<longleftrightarrow> i < 16"
proof -
  have "(0xffff :: 32 word) = Bit_Operations.mask 16" by (simp add: mask_eq_exp_minus_1)
  then show ?thesis by (simp only: bit_mask_iff) auto
qed

lemma sse2_scanner:
  assumes "\<And>cs. length cs = 16 \<Longrightarrow> maskf (map byte_lane cs) = map (\<lambda>c. mask_lane (p c)) cs"
  shows "chunk_scanner 16 (run_stop 0xffff maskf) (\<lambda>c. \<not> p c)"
  by (rule run_stop_scanner [OF _ _ full_sse2 assms]) simp_all

lemma avx2_scanner:
  assumes "\<And>cs. length cs = 32 \<Longrightarrow> maskf (map byte_lane cs) = map (\<lambda>c. mask_lane (p c)) cs"
  shows "chunk_scanner 32 (run_stop (- 1) maskf) (\<lambda>c. \<not> p c)"
  by (rule run_stop_scanner [OF _ _ _ assms]) simp_all

lemma ident_range:
  "is_ascii_identifier_continue c \<longleftrightarrow>
     (in_byte_range (CHR ''A'') (CHR ''Z'') c \<or> in_byte_range (CHR ''a'') (CHR ''z'') c) \<or>
     (in_byte_range (CHR ''0'') (CHR ''9'') c \<or> c = CHR ''_'')"
  by (auto simp: is_ascii_identifier_continue_def is_ascii_identifier_start_def in_byte_range_def
    byte_classes byte_val_def)

lemma digit_range: "is_ascii_digit c \<longleftrightarrow> in_byte_range (CHR ''0'') (CHR ''9'') c"
  by (simp add: in_byte_range_def byte_classes byte_val_def)

lemma byte_eq_iff:
  "c = CHR '' '' \<longleftrightarrow> byte_val c = 32" "c = CHR 0x09 \<longleftrightarrow> byte_val c = 9"
  "c = CHR 0x0A \<longleftrightarrow> byte_val c = 10" "c = CHR 0x0B \<longleftrightarrow> byte_val c = 11"
  "c = CHR 0x0C \<longleftrightarrow> byte_val c = 12" "c = CHR 0x0D \<longleftrightarrow> byte_val c = 13"
  "c = CHR 0x00 \<longleftrightarrow> byte_val c = 0"
  by (simp_all add: byte_val_def flip: of_char_eq_iff [where 'a = nat])

lemma whitespace_set:
  "is_ascii_whitespace c \<longleftrightarrow> c \<in> set (CHR '' '' # [CHR 0x09, CHR 0x0A, CHR 0x0C, CHR 0x0D])"
  by (simp add: byte_classes byte_eq_iff)

lemma trim_set:
  "is_default_trim_byte c \<longleftrightarrow>
     c \<in> set (CHR '' '' # [CHR 0x09, CHR 0x0A, CHR 0x0D, CHR 0x00, CHR 0x0B])"
  by (simp add: is_default_trim_byte_def byte_eq_iff)

lemma byte_val_consts [simp]:
  "byte_val (CHR ''A'') = 65" "byte_val (CHR ''Z'') = 90" "byte_val (CHR ''a'') = 97"
  "byte_val (CHR ''z'') = 122" "byte_val (CHR ''0'') = 48" "byte_val (CHR ''9'') = 57"
  by (simp_all add: byte_val_def)

lemma identifier_mask_sse2_lanes:
  "length cs = 16 \<Longrightarrow>
   identifier_mask_sse2 (map byte_lane cs) = map (\<lambda>c. mask_lane (is_ascii_identifier_continue c)) cs"
  by (simp only: identifier_mask_sse2_def ascii_range_mask_sse2_def Let_def ident_range)
     (simp add: range_x86_lanes lane_masks)

lemma identifier_mask_avx2_lanes:
  "length cs = 32 \<Longrightarrow>
   identifier_mask_avx2 (map byte_lane cs) = map (\<lambda>c. mask_lane (is_ascii_identifier_continue c)) cs"
  by (simp only: identifier_mask_avx2_def ascii_range_mask_avx2_def Let_def ident_range)
     (simp add: range_x86_lanes lane_masks)

lemma identifier_mask_neon_lanes:
  "length cs = 16 \<Longrightarrow>
   identifier_mask_neon (map byte_lane cs) = map (\<lambda>c. mask_lane (is_ascii_identifier_continue c)) cs"
  by (simp only: identifier_mask_neon_def Let_def ident_range)
     (simp add: range_neon_lanes lane_masks)

interpretation ident_sse2: chunk_scanner 16 "run_stop 0xffff identifier_mask_sse2"
    "\<lambda>c. \<not> is_ascii_identifier_continue c"
  by (rule sse2_scanner) (simp add: identifier_mask_sse2_lanes)

interpretation ident_avx2: chunk_scanner 32 "run_stop (- 1) identifier_mask_avx2"
    "\<lambda>c. \<not> is_ascii_identifier_continue c"
  by (rule avx2_scanner) (simp add: identifier_mask_avx2_lanes)

interpretation ident_neon: chunk_scanner 16 "neon_run_stop identifier_mask_neon"
    "\<lambda>c. \<not> is_ascii_identifier_continue c"
  by (rule neon_run_stop_scanner) (simp add: identifier_mask_neon_lanes)

interpretation digit_sse2: chunk_scanner 16
    "run_stop 0xffff (\<lambda>chunk. ascii_range_mask_sse2 chunk (CHR ''0'') (CHR ''9''))"
    "\<lambda>c. \<not> is_ascii_digit c"
  by (rule sse2_scanner)
     (simp add: ascii_range_mask_sse2_def range_x86_lanes digit_range)

interpretation digit_avx2: chunk_scanner 32
    "run_stop (- 1) (\<lambda>chunk. ascii_range_mask_avx2 chunk (CHR ''0'') (CHR ''9''))"
    "\<lambda>c. \<not> is_ascii_digit c"
  by (rule avx2_scanner)
     (simp add: ascii_range_mask_avx2_def range_x86_lanes digit_range)

interpretation digit_neon: chunk_scanner 16
    "neon_run_stop (\<lambda>chunk. ascii_range_mask_neon chunk (CHR ''0'') (CHR ''9''))"
    "\<lambda>c. \<not> is_ascii_digit c"
  by (rule neon_run_stop_scanner) (simp add: range_neon_lanes digit_range)

interpretation space_sse2: chunk_scanner 16 "run_stop 0xffff ascii_whitespace_mask_sse2"
    "\<lambda>c. \<not> is_ascii_whitespace c"
  by (rule sse2_scanner)
     (simp add: ascii_whitespace_mask_sse2_def any_of_lanes whitespace_set)

interpretation space_avx2: chunk_scanner 32 "run_stop (- 1) ascii_whitespace_mask_avx2"
    "\<lambda>c. \<not> is_ascii_whitespace c"
  by (rule avx2_scanner)
     (simp add: ascii_whitespace_mask_avx2_def any_of_lanes whitespace_set)

interpretation space_neon: chunk_scanner 16 "neon_run_stop ascii_whitespace_mask_neon"
    "\<lambda>c. \<not> is_ascii_whitespace c"
  by (rule neon_run_stop_scanner)
     (simp add: ascii_whitespace_mask_neon_def any_of_lanes whitespace_set)

interpretation trim_sse2: chunk_scanner 16 "run_stop 0xffff default_trim_mask_sse2"
    "\<lambda>c. \<not> is_default_trim_byte c"
  by (rule sse2_scanner)
     (simp add: default_trim_mask_sse2_def any_of_lanes trim_set)

interpretation trim_avx2: chunk_scanner 32 "run_stop (- 1) default_trim_mask_avx2"
    "\<lambda>c. \<not> is_default_trim_byte c"
  by (rule avx2_scanner)
     (simp add: default_trim_mask_avx2_def any_of_lanes trim_set)

interpretation trim_neon: chunk_scanner 16 "neon_run_stop default_trim_mask_neon"
    "\<lambda>c. \<not> is_default_trim_byte c"
  by (rule neon_run_stop_scanner)
     (simp add: default_trim_mask_neon_def any_of_lanes trim_set)

interpretation escape_sse2: chunk_scanner 16 "escape_stop_x86 16 needles reject" "escape_pred needles reject"
  for needles reject
  by (rule escape_stop_x86_scanner) simp_all

interpretation escape_avx2: chunk_scanner 32 "escape_stop_x86 32 needles reject" "escape_pred needles reject"
  for needles reject
  by (rule escape_stop_x86_scanner) simp_all

interpretation escape_neon: chunk_scanner 16 "escape_stop_neon needles reject" "escape_pred needles reject"
  for needles reject
  by (rule escape_stop_neon_scanner)

subsection \<open>Backward loops\<close>

locale back_scanner =
  fixes n :: nat and stop :: "lane list \<Rightarrow> 'r option" and idx :: "'r \<Rightarrow> nat" and q :: "byte \<Rightarrow> bool"
  assumes width: "0 < n"
    and stop_last: "length cs = n \<Longrightarrow> map_option idx (stop (map byte_lane cs)) = rposition q cs"
begin

lemma back_loop_last:
  "en \<le> length bytes \<Longrightarrow>
   (case back_loop n stop bytes en of
      Inl (offset, r) \<Rightarrow> Some (offset + idx r) | Inr e \<Rightarrow> rposition q (take e bytes))
   = rposition q (take en bytes)"
proof (induction en rule: less_induct)
  case (less en)
  show ?case
  proof (cases "n \<le> en")
    case True
    let ?cs = "take n (drop (en - n) bytes)"
    have split: "take en bytes = take (en - n) bytes @ ?cs"
      using True by (metis le_add_diff_inverse2 take_add)
    have len: "length ?cs = n" using True less.prems by simp
    have IH: "(case back_loop n stop bytes (en - n) of
        Inl (offset, r) \<Rightarrow> Some (offset + idx r) | Inr e \<Rightarrow> rposition q (take e bytes))
        = rposition q (take (en - n) bytes)"
      using True width less.prems by (intro less.IH) auto
    show ?thesis
      using True width IH stop_last [OF len] less.prems
      by (subst split, subst back_loop.simps)
         (auto simp: loadu_def rposition_append split: option.splits)
  next
    case False
    then show ?thesis by (simp add: back_loop.simps [of n stop bytes en])
  qed
qed

lemma back_loop_Inl:
  assumes "back_loop n stop bytes (length bytes) = Inl (offset, r)"
  shows "rposition q bytes = Some (offset + idx r)"
  using back_loop_last [of "length bytes" bytes] assms by simp

lemma back_loop_chunk:
  "back_loop n stop bytes en = Inl (offset, r) \<Longrightarrow> en \<le> length bytes \<Longrightarrow>
   offset + n \<le> length bytes \<and> stop (map byte_lane (take n (drop offset bytes))) = Some r"
proof (induction en rule: less_induct)
  case (less en)
  have IH: "0 < n \<Longrightarrow> n \<le> en \<Longrightarrow> back_loop n stop bytes (en - n) = Inl (offset, r) \<Longrightarrow> ?case"
    using less.IH [of "en - n"] less.prems(2) by simp
  show ?case
    using less.prems IH back_loop.simps [of n stop bytes en]
    by (auto simp: loadu_def split: if_splits option.splits)
qed

end

lemma inverse_mask_lane:
  assumes "n \<le> 32" and full: "\<And>i. bit full i \<longleftrightarrow> i < n"
    and maskf: "maskf (map byte_lane cs) = map (\<lambda>c. mask_lane (p c)) cs" and len: "length cs = n"
  shows "case rposition (\<lambda>c. \<not> p c) cs of
      None \<Rightarrow> inverse_mask full maskf (map byte_lane cs) = None
    | Some k \<Rightarrow> \<exists>w. inverse_mask full maskf (map byte_lane cs) = Some w \<and> leading_zeros w = 31 - k"
proof -
  let ?m = "movemask (maskf (map byte_lane cs))"
  have bits: "bit ?m i \<longleftrightarrow> i < n \<and> p (cs ! i)" for i
    unfolding maskf bit_movemask using len \<open>n \<le> 32\<close> by auto
  show ?thesis
  proof (cases "rposition (\<lambda>c. \<not> p c) cs")
    case None
    then have "\<forall>i < n. p (cs ! i)" using len by (auto simp: rposition_None_iff all_set_conv_all_nth)
    then have "?m = full" by - (rule bit_word_eqI, simp only: bits full, blast)
    then show ?thesis using None by (simp add: inverse_mask_def)
  next
    case (Some k)
    then have k: "k < n" "\<not> p (cs ! k)" "\<forall>j. k < j \<and> j < n \<longrightarrow> p (cs ! j)"
      using len by (auto simp: rposition_Some_iff)
    then have "bit ?m k \<noteq> bit full k" by (simp only: bits full) simp
    then have ne: "?m \<noteq> full" by metis
    have "leading_zeros (NOT ?m AND full) = 31 - k"
    proof (rule leading_zeros_eqI)
      show "k < 32" using k(1) \<open>n \<le> 32\<close> by simp
      then show "bit (NOT ?m AND full) k"
        using k by (simp add: bit_and_iff bit_not_iff bits full)
      show "\<not> bit (NOT ?m AND full) j" if "k < j" "j < 32" for j
        using that k by (auto simp: bit_and_iff bit_not_iff bits full)
    qed
    then show ?thesis using Some ne by (simp add: inverse_mask_def Let_def)
  qed
qed

lemma inverse_mask_scanner:
  assumes "0 < n" "n \<le> 32" and "\<And>i. bit full i \<longleftrightarrow> i < n"
    and "\<And>cs. length cs = n \<Longrightarrow> maskf (map byte_lane cs) = map (\<lambda>c. mask_lane (p c)) cs"
  shows "back_scanner n (inverse_mask full maskf) (\<lambda>w. 31 - leading_zeros w) (\<lambda>c. \<not> p c)"
proof
  fix cs :: bytes assume len: "length cs = n"
  then have "rposition (\<lambda>c. \<not> p c) cs = Some k \<Longrightarrow> k < 32" for k
    using assms(2) by (simp add: rposition_Some_iff)
  then show "map_option (\<lambda>w. 31 - leading_zeros w) (inverse_mask full maskf (map byte_lane cs))
        = rposition (\<lambda>c. \<not> p c) cs"
    using inverse_mask_lane [where p = p and maskf = maskf and cs = cs, OF assms(2,3) assms(4) [OF len] len]
    by (auto split: option.splits)
qed fact

lemma default_trim_mask_lanes:
  "length cs = 16 \<Longrightarrow> default_trim_mask_sse2 (map byte_lane cs) = map (\<lambda>c. mask_lane (is_default_trim_byte c)) cs"
  "length cs = 32 \<Longrightarrow> default_trim_mask_avx2 (map byte_lane cs) = map (\<lambda>c. mask_lane (is_default_trim_byte c)) cs"
  "length cs = 16 \<Longrightarrow> default_trim_mask_neon (map byte_lane cs) = map (\<lambda>c. mask_lane (is_default_trim_byte c)) cs"
  by (simp_all add: default_trim_mask_sse2_def default_trim_mask_avx2_def default_trim_mask_neon_def
    any_of_lanes trim_set)

interpretation last_trim_sse2: back_scanner 16 "inverse_mask 0xffff default_trim_mask_sse2"
    "\<lambda>w. 31 - leading_zeros w" "\<lambda>c. \<not> is_default_trim_byte c"
  by (rule inverse_mask_scanner [OF _ _ full_sse2 default_trim_mask_lanes(1)]) simp_all

interpretation last_trim_avx2: back_scanner 32 "inverse_mask (- 1) default_trim_mask_avx2"
    "\<lambda>w. 31 - leading_zeros w" "\<lambda>c. \<not> is_default_trim_byte c"
  by (rule inverse_mask_scanner [OF _ _ _ default_trim_mask_lanes(2)]) simp_all

lemma rposition_zero_lane:
  "rposition (\<lambda>l. l = 0) (map (\<lambda>c. mask_lane (p c)) cs) = rposition (\<lambda>c. \<not> p c) cs"
  by (induction cs) (auto split: option.splits)

interpretation last_trim_neon: back_scanner 16
    "\<lambda>chunk. rposition (\<lambda>l. l = 0) (default_trim_mask_neon chunk)" "\<lambda>i. i" "\<lambda>c. \<not> is_default_trim_byte c"
  by standard (simp_all add: default_trim_mask_lanes rposition_zero_lane option.map_ident)

section \<open>The routines agree with the scalar reference\<close>

lemma scalar_tail_escape_eq:
  "scalar_tail_escape bytes offset needles reject
   = map_option (\<lambda>i. offset + i) (position (escape_pred needles reject) (drop offset bytes))"
  by (simp add: scalar_tail_escape_def add.commute)

lemma find_escape_eq:
  "find_escape_sse2 bytes needles reject = position (escape_pred needles reject) bytes"
  "find_escape_avx2 bytes needles reject = position (escape_pred needles reject) bytes"
  "find_escape_neon bytes needles reject = position (escape_pred needles reject) bytes"
  unfolding find_escape_sse2_def find_escape_avx2_def find_escape_neon_def scalar_tail_escape_eq
  by (rule escape_sse2.find_first escape_avx2.find_first escape_neon.find_first)+

lemma identifier_run_eq:
  "ascii_identifier_continue_chunk_len_sse2 bytes = ascii_identifier_continue_chunk_len_scalar bytes"
  "ascii_identifier_continue_chunk_len_avx2 bytes = ascii_identifier_continue_chunk_len_scalar bytes"
  "ascii_identifier_continue_chunk_len_neon bytes = ascii_identifier_continue_chunk_len_scalar bytes"
  unfolding ascii_identifier_continue_chunk_len_sse2_def ascii_identifier_continue_chunk_len_avx2_def
    ascii_identifier_continue_chunk_len_neon_def ascii_identifier_continue_chunk_len_scalar_def
  by (rule ident_sse2.run_length ident_avx2.run_length ident_neon.run_length, simp)+

lemma digit_run_eq:
  "ascii_digit_run_len_sse2 bytes = ascii_digit_run_len_scalar bytes"
  "ascii_digit_run_len_avx2 bytes = ascii_digit_run_len_scalar bytes"
  "ascii_digit_run_len_neon bytes = ascii_digit_run_len_scalar bytes"
  unfolding ascii_digit_run_len_sse2_def ascii_digit_run_len_avx2_def
    ascii_digit_run_len_neon_def ascii_digit_run_len_scalar_eq
  by (rule digit_sse2.run_length digit_avx2.run_length digit_neon.run_length, simp)+

lemma non_whitespace_eq:
  "find_non_ascii_whitespace_sse2 bytes = find_non_ascii_whitespace_scalar bytes"
  "find_non_ascii_whitespace_avx2 bytes = find_non_ascii_whitespace_scalar bytes"
  "find_non_ascii_whitespace_neon bytes = find_non_ascii_whitespace_scalar bytes"
  unfolding find_non_ascii_whitespace_sse2_def find_non_ascii_whitespace_avx2_def
    find_non_ascii_whitespace_neon_def find_non_ascii_whitespace_scalar_def
  by (rule space_sse2.find_first space_avx2.find_first space_neon.find_first)+

lemma first_not_trim_eq:
  "first_not_trim_sse2 bytes = unwrap_or (position (\<lambda>b. \<not> is_default_trim_byte b) bytes) (length bytes)"
  "first_not_trim_avx2 bytes = unwrap_or (position (\<lambda>b. \<not> is_default_trim_byte b) bytes) (length bytes)"
  "first_not_trim_neon bytes = unwrap_or (position (\<lambda>b. \<not> is_default_trim_byte b) bytes) (length bytes)"
  unfolding first_not_trim_sse2_def first_not_trim_avx2_def first_not_trim_neon_def
    length_drop [symmetric] run_len_takeWhile
  by (rule trim_sse2.run_length trim_avx2.run_length trim_neon.run_length, simp)+

text \<open>
  \<open>15 - inverse.leading_zeros() as usize + 16\<close> in \<open>last_not_trim_sse2\<close>: the mask has bits 0 to 15
  only, so its leading zeros are at least 16 and the subtraction is below zero.
\<close>

lemma sse2_lane_panics: "k < 16 \<Longrightarrow> usize_sub True 15 (31 - k) = None"
  by (simp add: usize_sub_def)

lemma sse2_inverse_lane:
  assumes "back_loop 16 (inverse_mask 0xffff default_trim_mask_sse2) bytes (length bytes)
           = Inl (offset, inverted)"
  obtains k where "k < 16" "leading_zeros inverted = 31 - k" "offset + 16 \<le> length bytes"
    "rposition (\<lambda>b. \<not> is_default_trim_byte b) bytes = Some (offset + k)"
proof -
  let ?cs = "take 16 (drop offset bytes)"
  from last_trim_sse2.back_loop_chunk [OF assms order.refl]
  have off: "offset + 16 \<le> length bytes"
    and w: "inverse_mask 0xffff default_trim_mask_sse2 (map byte_lane ?cs) = Some inverted" by auto
  then have len: "length ?cs = 16" by simp
  obtain k where k: "rposition (\<lambda>c. \<not> is_default_trim_byte c) ?cs = Some k" "leading_zeros inverted = 31 - k"
    using inverse_mask_lane [where p = is_default_trim_byte and maskf = default_trim_mask_sse2 and cs = ?cs,
      OF _ full_sse2 default_trim_mask_lanes(1) [OF len] len] w
    by (auto split: option.splits)
  then have "k < 16" by (simp add: rposition_Some_iff)
  then show thesis
    using that [of k] off k last_trim_sse2.back_loop_Inl [OF assms] by simp
qed

lemma last_not_trim_sse2_release:
  assumes "length bytes < 2 ^ 64"
  shows "last_not_trim_sse2 False bytes = Some (rposition (\<lambda>b. \<not> is_default_trim_byte b) bytes)"
proof (cases "back_loop 16 (inverse_mask 0xffff default_trim_mask_sse2) bytes (length bytes)")
  case (Inl a)
  obtain offset inverted where a: "a = (offset, inverted)" by fastforce
  obtain k where k: "k < 16" "leading_zeros inverted = 31 - k" "offset + 16 \<le> length bytes"
    "rposition (\<lambda>b. \<not> is_default_trim_byte b) bytes = Some (offset + k)"
    using sse2_inverse_lane Inl a by metis
  then show ?thesis
    using Inl a assms by (simp add: last_not_trim_sse2_def usize_sub_def usize_add_def)
next
  case (Inr e)
  then show ?thesis
    using last_trim_sse2.back_loop_last [of "length bytes" bytes]
    by (simp add: last_not_trim_sse2_def)
qed

lemma last_not_trim_sse2_checked:
  "last_not_trim_sse2 True bytes =
     (case back_loop 16 (inverse_mask 0xffff default_trim_mask_sse2) bytes (length bytes) of
        Inl _ \<Rightarrow> None | Inr en \<Rightarrow> Some (rposition (\<lambda>b. \<not> is_default_trim_byte b) bytes))"
proof (cases "back_loop 16 (inverse_mask 0xffff default_trim_mask_sse2) bytes (length bytes)")
  case (Inl a)
  obtain offset inverted where a: "a = (offset, inverted)" by fastforce
  obtain k where k: "k < 16" "leading_zeros inverted = 31 - k"
    using sse2_inverse_lane Inl a by metis
  then show ?thesis
    using Inl a sse2_lane_panics [OF k(1)] by (simp add: last_not_trim_sse2_def)
next
  case (Inr e)
  then show ?thesis
    using last_trim_sse2.back_loop_last [of "length bytes" bytes]
    by (simp add: last_not_trim_sse2_def)
qed

lemma last_not_trim_avx2_eq:
  assumes "length bytes < 2 ^ 64"
  shows "last_not_trim_avx2 checks bytes = Some (rposition (\<lambda>b. \<not> is_default_trim_byte b) bytes)"
proof (cases "back_loop 32 (inverse_mask (- 1) default_trim_mask_avx2) bytes (length bytes)")
  case (Inl a)
  obtain offset inverted where a: "a = (offset, inverted)" by fastforce
  let ?cs = "take 32 (drop offset bytes)"
  have bl: "back_loop 32 (inverse_mask (- 1) default_trim_mask_avx2) bytes (length bytes) = Inl (offset, inverted)"
    using Inl a by simp
  from last_trim_avx2.back_loop_chunk [OF bl order.refl]
  have off: "offset + 32 \<le> length bytes"
    and w: "inverse_mask (- 1) default_trim_mask_avx2 (map byte_lane ?cs) = Some inverted" by auto
  then have len: "length ?cs = 32" by simp
  obtain k where k: "rposition (\<lambda>c. \<not> is_default_trim_byte c) ?cs = Some k" "leading_zeros inverted = 31 - k"
    using inverse_mask_lane [where p = is_default_trim_byte and full = "- 1" and cs = ?cs
        and maskf = default_trim_mask_avx2,
      OF _ _ default_trim_mask_lanes(2) [OF len] len] w
    by (auto split: option.splits)
  then have "k < 32" by (simp add: rposition_Some_iff)
  then show ?thesis
    using bl k off assms last_trim_avx2.back_loop_Inl [OF bl]
    by (simp add: last_not_trim_avx2_def usize_sub_def usize_add_def)
next
  case (Inr e)
  then show ?thesis
    using last_trim_avx2.back_loop_last [of "length bytes" bytes]
    by (simp add: last_not_trim_avx2_def)
qed

lemma last_not_trim_neon_eq:
  "last_not_trim_neon bytes = rposition (\<lambda>b. \<not> is_default_trim_byte b) bytes"
  using last_trim_neon.back_loop_last [of "length bytes" bytes]
  by (simp add: last_not_trim_neon_def split: sum.splits)

lemma trim_bounds_of_scalar:
  "trim_bounds_of bytes (unwrap_or (position (\<lambda>b. \<not> is_default_trim_byte b) bytes) (length bytes))
     (Some (rposition (\<lambda>b. \<not> is_default_trim_byte b) bytes)) = Some (trim_default_bounds_scalar bytes)"
proof (cases "position (\<lambda>b. \<not> is_default_trim_byte b) bytes")
  case None
  then have "rposition (\<lambda>b. \<not> is_default_trim_byte b) bytes = None"
    by (simp add: rposition_None_iff position_None_iff)
  then show ?thesis using None by (simp add: trim_bounds_of_def trim_default_bounds_scalar_def Let_def)
next
  case (Some i)
  then show ?thesis
    using position_less [OF Some]
    by (simp add: trim_bounds_of_def trim_default_bounds_scalar_def unwrap_or_def)
qed

lemma trim_default_bounds_eq:
  "length bytes < 2 ^ 64 \<Longrightarrow> trim_default_bounds_sse2 False bytes = Some (trim_default_bounds_scalar bytes)"
  "length bytes < 2 ^ 64 \<Longrightarrow> trim_default_bounds_avx2 checks bytes = Some (trim_default_bounds_scalar bytes)"
  "trim_default_bounds_neon bytes = Some (trim_default_bounds_scalar bytes)"
  by (simp_all add: trim_default_bounds_sse2_def trim_default_bounds_avx2_def
    trim_default_bounds_neon_def first_not_trim_eq last_not_trim_sse2_release last_not_trim_avx2_eq
    last_not_trim_neon_eq trim_bounds_of_scalar)


section \<open>Range tests\<close>

lemma movemask_eq_0:
  assumes "length cs \<le> 32"
  shows "movemask (map (\<lambda>c. mask_lane (p c)) cs) = 0 \<longleftrightarrow> (\<forall>c \<in> set cs. \<not> p c)"
proof
  assume z: "movemask (map (\<lambda>c. mask_lane (p c)) cs) = 0"
  show "\<forall>c \<in> set cs. \<not> p c"
  proof
    fix c assume "c \<in> set cs"
    then obtain i where "i < length cs" "c = cs ! i" by (auto simp: in_set_conv_nth)
    then show "\<not> p c" using bit_movemask [of p cs i] assms unfolding z by simp
  qed
next
  assume "\<forall>c \<in> set cs. \<not> p c"
  then show "movemask (map (\<lambda>c. mask_lane (p c)) cs) = 0"
    by - (rule bit_word_eqI, simp add: bit_movemask)
qed

lemma range_test_x86:
  assumes "0 < n" "n \<le> 32" "1 \<le> byte_val low" "byte_val low < 128" "byte_val high < 127"
  shows "chunk_test n (any_stop (\<lambda>chunk. ascii_range_mask_x86 n chunk low high)) (in_byte_range low high)"
  using assms by unfold_locales (simp_all add: any_stop_def range_x86_lanes movemask_eq_0)

lemma first_mask_lane_lanes: "first_mask_lane (map (\<lambda>c. mask_lane (p c)) cs) = position p cs"
  unfolding first_mask_lane_def by (induction cs) auto

lemma range_test_neon:
  "chunk_test 16 (\<lambda>chunk. first_mask_lane (ascii_range_mask_neon chunk low high)) (in_byte_range low high)"
  by unfold_locales (simp_all add: range_neon_lanes first_mask_lane_lanes position_None_iff)

interpretation lower_sse2: chunk_test 16
    "any_stop (\<lambda>chunk. ascii_range_mask_sse2 chunk (CHR ''a'') (CHR ''z''))" "in_byte_range (CHR ''a'') (CHR ''z'')"
  unfolding ascii_range_mask_sse2_def by (rule range_test_x86) simp_all

interpretation upper_sse2: chunk_test 16
    "any_stop (\<lambda>chunk. ascii_range_mask_sse2 chunk (CHR ''A'') (CHR ''Z''))" "in_byte_range (CHR ''A'') (CHR ''Z'')"
  unfolding ascii_range_mask_sse2_def by (rule range_test_x86) simp_all

interpretation lower_avx2: chunk_test 32
    "any_stop (\<lambda>chunk. ascii_range_mask_avx2 chunk (CHR ''a'') (CHR ''z''))" "in_byte_range (CHR ''a'') (CHR ''z'')"
  unfolding ascii_range_mask_avx2_def by (rule range_test_x86) simp_all

interpretation upper_avx2: chunk_test 32
    "any_stop (\<lambda>chunk. ascii_range_mask_avx2 chunk (CHR ''A'') (CHR ''Z''))" "in_byte_range (CHR ''A'') (CHR ''Z'')"
  unfolding ascii_range_mask_avx2_def by (rule range_test_x86) simp_all

interpretation range_neon: chunk_test 16
    "\<lambda>chunk. first_mask_lane (ascii_range_mask_neon chunk low high)" "in_byte_range low high"
  for low high
  by (rule range_test_neon)

lemma lower_range: "in_byte_range (CHR ''a'') (CHR ''z'') = is_ascii_lowercase"
  and upper_range: "in_byte_range (CHR ''A'') (CHR ''Z'') = is_ascii_uppercase"
  by (auto simp: fun_eq_iff in_byte_range_def byte_classes)

lemma contains_lowercase_eq:
  "contains_ascii_range_sse2 bytes (CHR ''a'') (CHR ''z'') = contains_ascii_lowercase_scalar bytes"
  "contains_ascii_range_avx2 bytes (CHR ''a'') (CHR ''z'') = contains_ascii_lowercase_scalar bytes"
  "contains_ascii_range_neon bytes (CHR ''a'') (CHR ''z'') = contains_ascii_lowercase_scalar bytes"
  unfolding contains_ascii_range_sse2_def contains_ascii_range_avx2_def contains_ascii_range_neon_def
    lower_sse2.chunk_loop_test lower_avx2.chunk_loop_test range_neon.chunk_loop_test
  by (simp_all add: contains_ascii_lowercase_scalar_def lower_range)

lemma contains_uppercase_eq:
  "contains_ascii_range_sse2 bytes (CHR ''A'') (CHR ''Z'') = contains_ascii_uppercase_scalar bytes"
  "contains_ascii_range_avx2 bytes (CHR ''A'') (CHR ''Z'') = contains_ascii_uppercase_scalar bytes"
  "contains_ascii_range_neon bytes (CHR ''A'') (CHR ''Z'') = contains_ascii_uppercase_scalar bytes"
  unfolding contains_ascii_range_sse2_def contains_ascii_range_avx2_def contains_ascii_range_neon_def
    upper_sse2.chunk_loop_test upper_avx2.chunk_loop_test range_neon.chunk_loop_test
  by (simp_all add: contains_ascii_uppercase_scalar_def upper_range)

section \<open>Case conversion\<close>

text \<open>A case loop whose chunk step acts as \<open>f\<close> on every lane maps \<open>f\<close> over the bytes.\<close>

lemma case_loop_map:
  assumes "0 < n"
    and step: "\<And>cs. length cs = n \<Longrightarrow> map lane_byte (changed (map byte_lane cs)) = map f cs"
  shows "case_loop n changed f bytes = map f bytes"
proof (induction "length bytes" arbitrary: bytes rule: less_induct)
  case less
  show ?case
  proof (cases "n \<le> length bytes")
    case True
    then have "case_loop n changed f (drop n bytes) = map f (drop n bytes)"
      using less assms(1) by simp
    moreover have "map lane_byte (changed (map byte_lane (take n bytes))) = map f (take n bytes)"
      using True by (intro step) simp
    ultimately show ?thesis
      using True assms(1)
      by (subst case_loop.simps) (simp add: loadu_def flip: map_append)
  next
    case False
    then show ?thesis by (subst case_loop.simps) simp
  qed
qed

lemma or_0x20: "is_ascii_uppercase c \<Longrightarrow> byte_lane c OR 0x20 = byte_lane (to_ascii_lowercase c)"
proof -
  assume c: "is_ascii_uppercase c"
  have all: "\<forall>n \<in> set [65..<91]. (of_nat n :: lane) OR 0x20 = of_nat (n + 32)"
    by (simp add: upt_rec)
  have "byte_val c \<in> set [65..<91]" using c by (simp only: set_upt atLeastLessThan_iff byte_classes) simp
  with all have "(of_nat (byte_val c) :: lane) OR 0x20 = of_nat (byte_val c + 32)" by blast
  then show ?thesis using c by (simp add: byte_lane_def to_ascii_lowercase_def byte_classes)
qed

lemma and_0xdf: "is_ascii_lowercase c \<Longrightarrow> byte_lane c AND 0xdf = byte_lane (to_ascii_uppercase c)"
proof -
  assume c: "is_ascii_lowercase c"
  have all: "\<forall>n \<in> set [97..<123]. (of_nat n :: lane) AND 0xdf = of_nat (n - 32)"
    by (simp add: upt_rec)
  have "byte_val c \<in> set [97..<123]" using c by (simp only: set_upt atLeastLessThan_iff byte_classes) simp
  with all have "(of_nat (byte_val c) :: lane) AND 0xdf = of_nat (byte_val c - 32)" by blast
  moreover have "(byte_val c - 32) mod 256 = byte_val c - 32"
    using byte_val_less [of c] by (intro mod_less) linarith
  ultimately show ?thesis
    using c by (simp only: byte_lane_def to_ascii_uppercase_def if_True byte_val_byte_of)
qed

lemma to_lowercase_other: "\<not> is_ascii_uppercase c \<Longrightarrow> to_ascii_lowercase c = c"
  by (simp add: to_ascii_lowercase_def)

lemma to_uppercase_other: "\<not> is_ascii_lowercase c \<Longrightarrow> to_ascii_uppercase c = c"
  by (simp add: to_ascii_uppercase_def)

lemma case_chunk_lower:
  assumes "length cs = n"
  shows "map lane_byte (case_chunk n (map (\<lambda>c. mask_lane (is_ascii_uppercase c)) cs) 0x20 (map byte_lane cs))
         = map to_ascii_lowercase cs"
  using assms
  by (auto simp: case_chunk_def Let_def vec_or_def vec_and_def set1_def map2_replicate map2_same
    or_0x20 to_lowercase_other)

lemma case_chunk_upper:
  assumes "length cs = n"
  shows "map lane_byte (case_chunk n (map (\<lambda>c. mask_lane (is_ascii_lowercase c)) cs) 0xdf (map byte_lane cs))
         = map to_ascii_uppercase cs"
  using assms
  by (auto simp: case_chunk_def Let_def vec_or_def vec_and_def vec_andnot_def set1_def map2_replicate
    map2_same and_0xdf to_uppercase_other)

lemma lowercase_in_place_eq:
  "ascii_case_in_place_sse2 bytes (CHR ''A'') (CHR ''Z'') 0x20 = map to_ascii_lowercase bytes"
  "ascii_case_in_place_avx2 bytes (CHR ''A'') (CHR ''Z'') 0x20 = map to_ascii_lowercase bytes"
  "ascii_case_in_place_neon bytes (CHR ''A'') (CHR ''Z'') 0x20 = map to_ascii_lowercase bytes"
  unfolding ascii_case_in_place_sse2_def ascii_case_in_place_avx2_def ascii_case_in_place_neon_def
    if_P [OF refl]
  by (rule case_loop_map; simp add: ascii_range_mask_sse2_def ascii_range_mask_avx2_def
    range_x86_lanes range_neon_lanes upper_range case_chunk_lower)+

lemma uppercase_in_place_eq:
  "ascii_case_in_place_sse2 bytes (CHR ''a'') (CHR ''z'') 0xdf = map to_ascii_uppercase bytes"
  "ascii_case_in_place_avx2 bytes (CHR ''a'') (CHR ''z'') 0xdf = map to_ascii_uppercase bytes"
  "ascii_case_in_place_neon bytes (CHR ''a'') (CHR ''z'') 0xdf = map to_ascii_uppercase bytes"
proof -
  have ne: "(0xdf :: lane) = 0x20 \<longleftrightarrow> False" by simp
  show "ascii_case_in_place_sse2 bytes (CHR ''a'') (CHR ''z'') 0xdf = map to_ascii_uppercase bytes"
  "ascii_case_in_place_avx2 bytes (CHR ''a'') (CHR ''z'') 0xdf = map to_ascii_uppercase bytes"
  "ascii_case_in_place_neon bytes (CHR ''a'') (CHR ''z'') 0xdf = map to_ascii_uppercase bytes"
  unfolding ascii_case_in_place_sse2_def ascii_case_in_place_avx2_def ascii_case_in_place_neon_def
    ne if_False
  by (rule case_loop_map; simp add: ascii_range_mask_sse2_def ascii_range_mask_avx2_def
    range_x86_lanes range_neon_lanes lower_range case_chunk_upper)+
qed

end
