(* ===== verification/Byte_Kernel.thy ===== *)
theory Byte_Kernel
  imports Byte_Simd_Proofs
begin

text \<open>
  The public functions of \<open>crates/php_source/src/byte_kernel.rs\<close>: searches that delegate to
  the \<open>memchr\<close> crate, the loops built on them, and the routines that dispatch to a vector
  back end. The \<open>memchr\<close> crate and the processor are parameters, the fields of the record
  \<open>byte_env\<close>; \<open>memchr_ok\<close> states the documented behaviour of the crate's functions. Under
  it every function computes what its \<open>_scalar\<close> reference computes.
\<close>

section \<open>The environment\<close>

text \<open>The back end compiled in or detected at run time (\<open>is_x86_feature_detected!\<close>).\<close>

datatype backend = Scalar | Sse2 | Avx2 | Neon

record byte_env =
  backend :: backend
  overflow_checks :: bool
  memchr :: "byte \<Rightarrow> bytes \<Rightarrow> nat option"
  memrchr :: "byte \<Rightarrow> bytes \<Rightarrow> nat option"
  memchr2 :: "byte \<Rightarrow> byte \<Rightarrow> bytes \<Rightarrow> nat option"
  memrchr2 :: "byte \<Rightarrow> byte \<Rightarrow> bytes \<Rightarrow> nat option"
  memchr3 :: "byte \<Rightarrow> byte \<Rightarrow> byte \<Rightarrow> bytes \<Rightarrow> nat option"
  memrchr3 :: "byte \<Rightarrow> byte \<Rightarrow> byte \<Rightarrow> bytes \<Rightarrow> nat option"
  memchr_iter :: "byte \<Rightarrow> bytes \<Rightarrow> nat list"
  memmem_find :: "bytes \<Rightarrow> bytes \<Rightarrow> nat option"
  memmem_rfind :: "bytes \<Rightarrow> bytes \<Rightarrow> nat option"

text \<open>
  The first match at or after \<open>start\<close>, and the last match that ends at or before \<open>en\<close>, of a
  window of \<open>k\<close> bytes satisfying \<open>P\<close>.
\<close>

definition first_match :: "(bytes \<Rightarrow> bool) \<Rightarrow> nat \<Rightarrow> bytes \<Rightarrow> nat \<Rightarrow> nat option \<Rightarrow> bool" where
  "first_match P k h start r =
     (case r of
        None \<Rightarrow> (\<forall>i. start \<le> i \<and> i + k \<le> length h \<longrightarrow> \<not> P (sub_slice h i (i + k)))
      | Some i \<Rightarrow> start \<le> i \<and> i + k \<le> length h \<and> P (sub_slice h i (i + k)) \<and>
                  (\<forall>j. start \<le> j \<and> j < i \<longrightarrow> \<not> P (sub_slice h j (j + k))))"

definition last_match :: "(bytes \<Rightarrow> bool) \<Rightarrow> nat \<Rightarrow> bytes \<Rightarrow> nat \<Rightarrow> nat option \<Rightarrow> bool" where
  "last_match P k h en r =
     (case r of
        None \<Rightarrow> (\<forall>i. i + k \<le> en \<longrightarrow> \<not> P (sub_slice h i (i + k)))
      | Some i \<Rightarrow> i + k \<le> en \<and> P (sub_slice h i (i + k)) \<and>
                  (\<forall>j. i < j \<and> j + k \<le> en \<longrightarrow> \<not> P (sub_slice h j (j + k))))"

definition memchr_ok :: "byte_env \<Rightarrow> bool" where
  "memchr_ok E \<longleftrightarrow>
     (\<forall>a bs. first_occurrence (\<lambda>x. x = a) bs (memchr E a bs)) \<and>
     (\<forall>a bs. last_occurrence (\<lambda>x. x = a) bs (memrchr E a bs)) \<and>
     (\<forall>a b bs. first_occurrence (\<lambda>x. x = a \<or> x = b) bs (memchr2 E a b bs)) \<and>
     (\<forall>a b bs. last_occurrence (\<lambda>x. x = a \<or> x = b) bs (memrchr2 E a b bs)) \<and>
     (\<forall>a b c bs. first_occurrence (\<lambda>x. x = a \<or> x = b \<or> x = c) bs (memchr3 E a b c bs)) \<and>
     (\<forall>a b c bs. last_occurrence (\<lambda>x. x = a \<or> x = b \<or> x = c) bs (memrchr3 E a b c bs)) \<and>
     (\<forall>a bs. memchr_iter E a bs = filter (\<lambda>i. bs ! i = a) [0..<length bs]) \<and>
     (\<forall>h n. n \<noteq> [] \<longrightarrow> first_match (\<lambda>w. w = n) (length n) h 0 (memmem_find E h n)) \<and>
     (\<forall>h n. n \<noteq> [] \<longrightarrow> last_match (\<lambda>w. w = n) (length n) h (length h) (memmem_rfind E h n))"

section \<open>Delegated searches\<close>

definition find_byte :: "byte_env \<Rightarrow> bytes \<Rightarrow> byte \<Rightarrow> nat option" where
  "find_byte E bytes needle = memchr E needle bytes"

definition rfind_byte :: "byte_env \<Rightarrow> bytes \<Rightarrow> byte \<Rightarrow> nat option" where
  "rfind_byte E bytes needle = memrchr E needle bytes"

definition find_any2 :: "byte_env \<Rightarrow> bytes \<Rightarrow> byte \<Rightarrow> byte \<Rightarrow> nat option" where
  "find_any2 E bytes first second = memchr2 E first second bytes"

definition find_any3 :: "byte_env \<Rightarrow> bytes \<Rightarrow> byte \<Rightarrow> byte \<Rightarrow> byte \<Rightarrow> nat option" where
  "find_any3 E bytes first second third = memchr3 E first second third bytes"

definition find_bytes_from :: "byte_env \<Rightarrow> bytes \<Rightarrow> bytes \<Rightarrow> nat \<Rightarrow> nat option" where
  "find_bytes_from E haystack needle start =
     (if needle = [] then Some (min start (length haystack))
      else if length haystack < start \<or> length haystack - start < length needle then None
      else case needle of
             [single] \<Rightarrow> map_option (\<lambda>offset. start + offset) (find_byte E (drop start haystack) single)
           | _ \<Rightarrow> map_option (\<lambda>offset. start + offset) (memmem_find E (drop start haystack) needle))"

definition find_bytes :: "byte_env \<Rightarrow> bytes \<Rightarrow> bytes \<Rightarrow> nat option" where
  "find_bytes E haystack needle = find_bytes_from E haystack needle 0"

definition rfind_bytes_before :: "byte_env \<Rightarrow> bytes \<Rightarrow> bytes \<Rightarrow> nat \<Rightarrow> nat option" where
  "rfind_bytes_before E haystack needle end0 =
     (let en = min end0 (length haystack)
      in if needle = [] then Some en
         else if en < length needle then None
         else case needle of
                [single] \<Rightarrow> rfind_byte E (take en haystack) single
              | _ \<Rightarrow> memmem_rfind E (take en haystack) needle)"

definition find_ascii_folded_byte :: "byte_env \<Rightarrow> bytes \<Rightarrow> byte \<Rightarrow> nat option" where
  "find_ascii_folded_byte E bytes needle =
     (if is_ascii_alphabetic needle
      then memchr2 E (to_ascii_lowercase needle) (to_ascii_uppercase needle) bytes
      else find_byte E bytes needle)"

definition rfind_ascii_folded_byte :: "byte_env \<Rightarrow> bytes \<Rightarrow> byte \<Rightarrow> nat option" where
  "rfind_ascii_folded_byte E bytes needle =
     (if is_ascii_alphabetic needle
      then memrchr2 E (to_ascii_lowercase needle) (to_ascii_uppercase needle) bytes
      else rfind_byte E bytes needle)"

text \<open>The \<open>while search <= haystack.len() - needle.len()\<close> loop.\<close>

function ci_search_from :: "byte_env \<Rightarrow> bytes \<Rightarrow> bytes \<Rightarrow> nat \<Rightarrow> nat option" where
  "ci_search_from E haystack needle search =
     (if search \<le> length haystack - length needle then
        (case find_ascii_folded_byte E (drop search haystack) (needle ! 0) of
           None \<Rightarrow> None
         | Some offset \<Rightarrow>
             let index = search + offset
             in if length haystack < index + length needle then None
                else if eq_ignore_ascii_case (sub_slice haystack index (index + length needle)) needle
                then Some index
                else ci_search_from E haystack needle (index + 1))
      else None)"
  by pat_completeness auto
termination
  by (relation "measure (\<lambda>(E, haystack, needle, search). Suc (length haystack) - search)") auto

declare ci_search_from.simps [simp del]

definition find_bytes_ascii_case_insensitive_from ::
    "byte_env \<Rightarrow> bytes \<Rightarrow> bytes \<Rightarrow> nat \<Rightarrow> nat option" where
  "find_bytes_ascii_case_insensitive_from E haystack needle start =
     (if needle = [] then Some (min start (length haystack))
      else if length haystack < start \<or> length haystack - start < length needle then None
      else if length needle = 1
      then map_option (\<lambda>offset. start + offset)
             (find_ascii_folded_byte E (drop start haystack) (needle ! 0))
      else ci_search_from E haystack needle start)"

text \<open>
  The \<open>while search_end > 0\<close> loop. \<open>memrchr\<close> returns an index inside its slice; the test
  \<open>index < search_end\<close> keeps the recursion well-founded when nothing is assumed of it.
\<close>

function ci_search_before :: "byte_env \<Rightarrow> bytes \<Rightarrow> bytes \<Rightarrow> nat \<Rightarrow> nat option" where
  "ci_search_before E haystack needle search_end =
     (if 0 < search_end then
        (case rfind_ascii_folded_byte E (take search_end haystack) (needle ! 0) of
           None \<Rightarrow> None
         | Some index \<Rightarrow>
             if eq_ignore_ascii_case (sub_slice haystack index (index + length needle)) needle
             then Some index
             else if index < search_end then ci_search_before E haystack needle index else None)
      else None)"
  by pat_completeness auto
termination
  by (relation "measure (\<lambda>(E, haystack, needle, search_end). search_end)") auto

declare ci_search_before.simps [simp del]

definition rfind_bytes_ascii_case_insensitive_before ::
    "byte_env \<Rightarrow> bytes \<Rightarrow> bytes \<Rightarrow> nat \<Rightarrow> nat option" where
  "rfind_bytes_ascii_case_insensitive_before E haystack needle end0 =
     (let en = min end0 (length haystack)
      in if needle = [] then Some en
         else if en < length needle then None
         else if length needle = 1 then rfind_ascii_folded_byte E (take en haystack) (needle ! 0)
         else ci_search_before E haystack needle (en - length needle + 1))"

section \<open>Counting\<close>

definition count_byte :: "byte_env \<Rightarrow> bytes \<Rightarrow> byte \<Rightarrow> nat" where
  "count_byte E bytes needle = length (memchr_iter E needle bytes)"

text \<open>\<open>bytes[offset]\<close> is in range whenever \<open>memchr2\<close> returned an index of its slice.\<close>

function count_newlines_loop :: "byte_env \<Rightarrow> bytes \<Rightarrow> nat \<Rightarrow> nat \<Rightarrow> nat" where
  "count_newlines_loop E bytes count offset =
     (if offset < length bytes then
        (case memchr2 E (CHR 0x0A) (CHR 0x0D) (drop offset bytes) of
           None \<Rightarrow> count
         | Some relative \<Rightarrow>
             let offset' = offset + relative
             in if get_at bytes offset' = Some (CHR 0x0D) \<and> get_at bytes (offset' + 1) = Some (CHR 0x0A)
                then count_newlines_loop E bytes (count + 1) (offset' + 2)
                else count_newlines_loop E bytes (count + 1) (offset' + 1))
      else count)"
  by pat_completeness auto
termination
  by (relation "measure (\<lambda>(E, bytes, count, offset). length bytes - offset)") auto

declare count_newlines_loop.simps [simp del]

definition count_newlines :: "byte_env \<Rightarrow> bytes \<Rightarrow> nat" where
  "count_newlines E bytes = count_newlines_loop E bytes 0 0"

definition is_all_ascii :: "bytes \<Rightarrow> bool" where
  "is_all_ascii bytes = list_all is_ascii bytes"

section \<open>Whitespace searches\<close>

fun min_index :: "nat option \<Rightarrow> nat option \<Rightarrow> nat option" where
  "min_index (Some l) (Some r) = (if l < r then Some l else Some r)"
| "min_index (Some l) None = Some l"
| "min_index None (Some r) = Some r"
| "min_index None None = None"

fun max_index :: "nat option \<Rightarrow> nat option \<Rightarrow> nat option" where
  "max_index (Some l) (Some r) = (if r < l then Some l else Some r)"
| "max_index (Some l) None = Some l"
| "max_index None (Some r) = Some r"
| "max_index None None = None"

definition find_ascii_whitespace :: "byte_env \<Rightarrow> bytes \<Rightarrow> nat option" where
  "find_ascii_whitespace E bytes =
     min_index (memchr3 E (CHR '' '') (CHR 0x09) (CHR 0x0A) bytes)
               (memchr2 E (CHR 0x0D) (CHR 0x0C) bytes)"

definition rfind_ascii_whitespace :: "byte_env \<Rightarrow> bytes \<Rightarrow> nat option" where
  "rfind_ascii_whitespace E bytes =
     max_index (memrchr3 E (CHR '' '') (CHR 0x09) (CHR 0x0A) bytes)
               (memrchr2 E (CHR 0x0D) (CHR 0x0C) bytes)"

definition contains_ascii_whitespace :: "byte_env \<Rightarrow> bytes \<Rightarrow> bool" where
  "contains_ascii_whitespace E bytes = (find_ascii_whitespace E bytes \<noteq> None)"

section \<open>Routines with a vector back end\<close>

definition find_json_escape_byte :: "byte_env \<Rightarrow> bytes \<Rightarrow> nat option" where
  "find_json_escape_byte E bytes =
     (case backend E of
        Scalar \<Rightarrow> find_json_escape_byte_scalar bytes
      | Sse2 \<Rightarrow> find_escape_sse2 bytes [CHR 0x22, CHR 0x5C, CHR ''/''] True
      | Avx2 \<Rightarrow> find_escape_avx2 bytes [CHR 0x22, CHR 0x5C, CHR ''/''] True
      | Neon \<Rightarrow> find_escape_neon bytes [CHR 0x22, CHR 0x5C, CHR ''/''] True)"

definition find_html_escape_byte :: "byte_env \<Rightarrow> bytes \<Rightarrow> nat option" where
  "find_html_escape_byte E bytes =
     (let needles = [CHR ''&'', CHR ''<'', CHR ''>'', CHR 0x22, CHR 0x27]
      in case backend E of
        Scalar \<Rightarrow> find_html_escape_byte_scalar bytes
      | Sse2 \<Rightarrow> find_escape_sse2 bytes needles False
      | Avx2 \<Rightarrow> find_escape_avx2 bytes needles False
      | Neon \<Rightarrow> find_escape_neon bytes needles False)"

definition ascii_identifier_continue_chunk_len :: "byte_env \<Rightarrow> bytes \<Rightarrow> nat" where
  "ascii_identifier_continue_chunk_len E bytes =
     (case backend E of
        Scalar \<Rightarrow> ascii_identifier_continue_chunk_len_scalar bytes
      | Sse2 \<Rightarrow> ascii_identifier_continue_chunk_len_sse2 bytes
      | Avx2 \<Rightarrow> ascii_identifier_continue_chunk_len_avx2 bytes
      | Neon \<Rightarrow> ascii_identifier_continue_chunk_len_neon bytes)"

definition ascii_digit_run_len :: "byte_env \<Rightarrow> bytes \<Rightarrow> nat" where
  "ascii_digit_run_len E bytes =
     (case backend E of
        Scalar \<Rightarrow> ascii_digit_run_len_scalar bytes
      | Sse2 \<Rightarrow> ascii_digit_run_len_sse2 bytes
      | Avx2 \<Rightarrow> ascii_digit_run_len_avx2 bytes
      | Neon \<Rightarrow> ascii_digit_run_len_neon bytes)"

definition all_ascii_digits :: "byte_env \<Rightarrow> bytes \<Rightarrow> bool" where
  "all_ascii_digits E bytes = (ascii_digit_run_len E bytes = length bytes)"

definition find_non_ascii_whitespace :: "byte_env \<Rightarrow> bytes \<Rightarrow> nat option" where
  "find_non_ascii_whitespace E bytes =
     (case backend E of
        Scalar \<Rightarrow> find_non_ascii_whitespace_scalar bytes
      | Sse2 \<Rightarrow> find_non_ascii_whitespace_sse2 bytes
      | Avx2 \<Rightarrow> find_non_ascii_whitespace_avx2 bytes
      | Neon \<Rightarrow> find_non_ascii_whitespace_neon bytes)"

definition all_ascii_whitespace :: "byte_env \<Rightarrow> bytes \<Rightarrow> bool" where
  "all_ascii_whitespace E bytes = (find_non_ascii_whitespace E bytes = None)"

definition contains_ascii_lowercase :: "byte_env \<Rightarrow> bytes \<Rightarrow> bool" where
  "contains_ascii_lowercase E bytes =
     (case backend E of
        Scalar \<Rightarrow> contains_ascii_lowercase_scalar bytes
      | Sse2 \<Rightarrow> contains_ascii_range_sse2 bytes (CHR ''a'') (CHR ''z'')
      | Avx2 \<Rightarrow> contains_ascii_range_avx2 bytes (CHR ''a'') (CHR ''z'')
      | Neon \<Rightarrow> contains_ascii_range_neon bytes (CHR ''a'') (CHR ''z''))"

definition contains_ascii_uppercase :: "byte_env \<Rightarrow> bytes \<Rightarrow> bool" where
  "contains_ascii_uppercase E bytes =
     (case backend E of
        Scalar \<Rightarrow> contains_ascii_uppercase_scalar bytes
      | Sse2 \<Rightarrow> contains_ascii_range_sse2 bytes (CHR ''A'') (CHR ''Z'')
      | Avx2 \<Rightarrow> contains_ascii_range_avx2 bytes (CHR ''A'') (CHR ''Z'')
      | Neon \<Rightarrow> contains_ascii_range_neon bytes (CHR ''A'') (CHR ''Z''))"

definition ascii_uppercase_in_place :: "byte_env \<Rightarrow> bytes \<Rightarrow> bytes" where
  "ascii_uppercase_in_place E bytes =
     (case backend E of
        Scalar \<Rightarrow> map to_ascii_uppercase bytes
      | Sse2 \<Rightarrow> ascii_case_in_place_sse2 bytes (CHR ''a'') (CHR ''z'') 0xdf
      | Avx2 \<Rightarrow> ascii_case_in_place_avx2 bytes (CHR ''a'') (CHR ''z'') 0xdf
      | Neon \<Rightarrow> ascii_case_in_place_neon bytes (CHR ''a'') (CHR ''z'') 0xdf)"

definition ascii_lowercase_in_place :: "byte_env \<Rightarrow> bytes \<Rightarrow> bytes" where
  "ascii_lowercase_in_place E bytes =
     (case backend E of
        Scalar \<Rightarrow> map to_ascii_lowercase bytes
      | Sse2 \<Rightarrow> ascii_case_in_place_sse2 bytes (CHR ''A'') (CHR ''Z'') 0x20
      | Avx2 \<Rightarrow> ascii_case_in_place_avx2 bytes (CHR ''A'') (CHR ''Z'') 0x20
      | Neon \<Rightarrow> ascii_case_in_place_neon bytes (CHR ''A'') (CHR ''Z'') 0x20)"

definition ascii_uppercase_copy :: "byte_env \<Rightarrow> bytes \<Rightarrow> bytes" where
  "ascii_uppercase_copy E bytes = ascii_uppercase_in_place E bytes"

definition ascii_lowercase_copy :: "byte_env \<Rightarrow> bytes \<Rightarrow> bytes" where
  "ascii_lowercase_copy E bytes = ascii_lowercase_in_place E bytes"

text \<open>\<open>None\<close> is a panic (see \<open>last_not_trim_sse2\<close>).\<close>

definition trim_default_bounds :: "byte_env \<Rightarrow> bytes \<Rightarrow> (nat \<times> nat) option" where
  "trim_default_bounds E bytes =
     (case backend E of
        Scalar \<Rightarrow> Some (trim_default_bounds_scalar bytes)
      | Sse2 \<Rightarrow> trim_default_bounds_sse2 (overflow_checks E) bytes
      | Avx2 \<Rightarrow> trim_default_bounds_avx2 (overflow_checks E) bytes
      | Neon \<Rightarrow> trim_default_bounds_neon bytes)"

end
