(* ===== verification/Byte_Kernel_Proofs.thy ===== *)
theory Byte_Kernel_Proofs
  imports Byte_Kernel
begin

text \<open>
  The public functions of the byte kernel compute what their scalar references compute.
  The locale \<open>byte_search\<close> assumes the contract \<open>memchr_ok\<close> of the \<open>memchr\<close> crate and holds
  the searches built on it; the dispatched routines need no assumption.
\<close>

section \<open>Matches\<close>

lemma first_match_unique:
  assumes "first_match P k h start r" and "first_match P k h start s"
  shows "r = s"
proof (cases r; cases s)
  fix i j assume "r = Some i" "s = Some j"
  with assms have "\<not> i < j" "\<not> j < i" by (auto simp: first_match_def)
  with \<open>r = Some i\<close> \<open>s = Some j\<close> show ?thesis by simp
qed (use assms in \<open>auto simp: first_match_def\<close>)

lemma last_match_unique:
  assumes "last_match P k h en r" and "last_match P k h en s"
  shows "r = s"
proof (cases r; cases s)
  fix i j assume "r = Some i" "s = Some j"
  with assms have "\<not> i < j" "\<not> j < i" by (auto simp: last_match_def)
  with \<open>r = Some i\<close> \<open>s = Some j\<close> show ?thesis by simp
qed (use assms in \<open>auto simp: last_match_def\<close>)

lemma length_windows [simp]: "length (windows k xs) = Suc (length xs) - k"
  by (simp add: windows_def)

lemma nth_windows: "i < Suc (length xs) - k \<Longrightarrow> windows k xs ! i = sub_slice xs i (i + k)"
  by (simp add: windows_def)

lemma sub_slice_drop: "sub_slice (drop s xs) i j = sub_slice xs (s + i) (s + j)"
  by (simp add: sub_slice_def add.commute)

lemma sub_slice_take: "j \<le> en \<Longrightarrow> sub_slice (take en xs) i j = sub_slice xs i j"
  by (simp add: sub_slice_def drop_take min_def)

lemma windows_all:
  "(\<forall>w \<in> set (windows k xs). Q w) \<longleftrightarrow> (\<forall>i. i + k < Suc (length xs) \<longrightarrow> Q (sub_slice xs i (i + k)))"
  by (auto simp: windows_def less_diff_conv)

lemma first_match_windows:
  assumes "start \<le> length h"
  shows "first_match P k h start
           (map_option (\<lambda>offset. start + offset) (position P (windows k (drop start h))))"
proof (cases "position P (windows k (drop start h))")
  case None
  then have w: "\<And>i. i + k \<le> length h - start \<Longrightarrow> \<not> P (sub_slice h (start + i) (start + (i + k)))"
    by (simp add: position_None_iff windows_all sub_slice_drop less_Suc_eq_le)
  have "\<not> P (sub_slice h i (i + k))" if "start \<le> i" "i + k \<le> length h" for i
    using w [of "i - start"] that by simp
  then show ?thesis using None by (simp add: first_match_def)
next
  case (Some j)
  then have j: "j < Suc (length h - start) - k" and p: "P (sub_slice h (start + j) (start + (j + k)))"
    and before: "\<And>i. i < j \<Longrightarrow> \<not> P (sub_slice h (start + i) (start + (i + k)))"
    by (auto simp: position_Some_iff nth_windows sub_slice_drop)
  have "\<not> P (sub_slice h i (i + k))" if "start \<le> i" "i < start + j" for i
    using before [of "i - start"] that by simp
  then show ?thesis using Some j p assms by (auto simp: first_match_def add.assoc)
qed

lemma last_match_windows:
  assumes "en \<le> length h"
  shows "last_match P k h en (rposition P (windows k (take en h)))"
proof (cases "rposition P (windows k (take en h))")
  case None
  then have "\<forall>i. i + k \<le> en \<longrightarrow> \<not> P (sub_slice h i (i + k))"
    using assms by (simp add: rposition_None_iff windows_all less_Suc_eq_le sub_slice_take)
  then show ?thesis using None by (simp add: last_match_def)
next
  case (Some j)
  then have "j + k \<le> en \<and> P (sub_slice h j (j + k)) \<and>
      (\<forall>i. j < i \<and> i + k \<le> en \<longrightarrow> \<not> P (sub_slice h i (i + k)))"
    using assms
    by (auto simp: rposition_Some_iff nth_windows sub_slice_take less_diff_conv less_Suc_eq_le)
  then show ?thesis using Some by (simp add: last_match_def)
qed

section \<open>ASCII folding\<close>

lemma alphabetic_fold:
  assumes "is_ascii_alphabetic n"
  shows "(b = to_ascii_lowercase n \<or> b = to_ascii_uppercase n) \<longleftrightarrow> eq_ignore_ascii_case_byte b n"
proof -
  have bv: "byte_val b < 256" "byte_val n < 256" by simp_all
  show ?thesis
    using assms bv
    by (auto simp: eq_ignore_ascii_case_byte_def to_ascii_lowercase_def to_ascii_uppercase_def byte_classes
      simp flip: byte_val_inject)
qed

lemma non_alphabetic_fold:
  assumes "\<not> is_ascii_alphabetic n"
  shows "b = n \<longleftrightarrow> eq_ignore_ascii_case_byte b n"
proof -
  have bv: "byte_val b < 256" "byte_val n < 256" by simp_all
  show ?thesis
    using assms bv
    by (auto simp: eq_ignore_ascii_case_byte_def to_ascii_lowercase_def byte_classes
      simp flip: byte_val_inject)
qed

lemma eq_ignore_ascii_case_first:
  assumes "eq_ignore_ascii_case (sub_slice h i (i + length n)) n" "n \<noteq> []" "i + length n \<le> length h"
  shows "eq_ignore_ascii_case_byte (h ! i) (n ! 0)"
proof -
  have "sub_slice h i (i + length n) ! 0 = h ! i"
    using assms(2,3) by (simp add: sub_slice_def)
  moreover have "0 < length (sub_slice h i (i + length n))" "0 < length n"
    using assms(2,3) by (simp_all add: sub_slice_def)
  moreover have "map to_ascii_lowercase (sub_slice h i (i + length n)) ! 0 = map to_ascii_lowercase n ! 0"
    using assms(1) by (simp only: eq_ignore_ascii_case_def)
  ultimately show ?thesis by (simp only: eq_ignore_ascii_case_byte_def nth_map)
qed


section \<open>Searches under the contract of the memchr crate\<close>

locale byte_search =
  fixes E :: byte_env
  assumes contract: "memchr_ok E"
begin

lemma memchr_eq [simp]: "memchr E a bs = position (\<lambda>x. x = a) bs"
  using contract by (simp add: memchr_ok_def scan_specs)

lemma memrchr_eq [simp]: "memrchr E a bs = rposition (\<lambda>x. x = a) bs"
  using contract by (simp add: memchr_ok_def scan_specs)

lemma memchr2_eq [simp]: "memchr2 E a b bs = position (\<lambda>x. x = a \<or> x = b) bs"
  using contract by (simp add: memchr_ok_def scan_specs)

lemma memrchr2_eq [simp]: "memrchr2 E a b bs = rposition (\<lambda>x. x = a \<or> x = b) bs"
  using contract by (simp add: memchr_ok_def scan_specs)

lemma memchr3_eq [simp]: "memchr3 E a b c bs = position (\<lambda>x. x = a \<or> x = b \<or> x = c) bs"
  using contract by (simp add: memchr_ok_def scan_specs)

lemma memrchr3_eq [simp]: "memrchr3 E a b c bs = rposition (\<lambda>x. x = a \<or> x = b \<or> x = c) bs"
  using contract by (simp add: memchr_ok_def scan_specs)

lemma memmem_find_match: "n \<noteq> [] \<Longrightarrow> first_match (\<lambda>w. w = n) (length n) h 0 (memmem_find E h n)"
  using contract by (simp add: memchr_ok_def)

lemma memmem_rfind_match: "n \<noteq> [] \<Longrightarrow> last_match (\<lambda>w. w = n) (length n) h (length h) (memmem_rfind E h n)"
  using contract by (simp add: memchr_ok_def)

lemma memmem_find_eq: "n \<noteq> [] \<Longrightarrow> memmem_find E h n = position (\<lambda>w. w = n) (windows (length n) h)"
  using first_match_unique [OF memmem_find_match first_match_windows [of 0 h]]
  by (simp add: option.map_ident)

lemma memmem_rfind_eq: "n \<noteq> [] \<Longrightarrow> memmem_rfind E h n = rposition (\<lambda>w. w = n) (windows (length n) h)"
  using last_match_unique [OF memmem_rfind_match last_match_windows [of "length h" h]] by simp

lemma windows_1: "windows (Suc 0) xs = map (\<lambda>x. [x]) xs"
  by (rule nth_equalityI) (auto simp: nth_windows sub_slice_def take_Suc_conv_app_nth hd_drop_conv_nth take_Suc)

lemma find_bytes_from_eq: "find_bytes_from E h n start = find_bytes_from_scalar h n start"
proof -
  have pos: "position (\<lambda>w. w = [x]) (map (\<lambda>x. [x]) xs) = position (\<lambda>y. y = x) xs" for x :: byte and xs
    by (induction xs) auto
  show ?thesis
    by (auto simp: find_bytes_from_def find_bytes_from_scalar_def find_byte_def memmem_find_eq
      windows_1 pos split: list.splits)
qed

lemma rfind_bytes_before_eq: "rfind_bytes_before E h n en = rfind_bytes_before_scalar h n en"
proof -
  have pos: "rposition (\<lambda>w. w = [x]) (map (\<lambda>x. [x]) xs) = rposition (\<lambda>y. y = x) xs" for x :: byte and xs
    by (induction xs) (auto split: option.splits)
  show ?thesis
    by (auto simp: rfind_bytes_before_def rfind_bytes_before_scalar_def rfind_byte_def memmem_rfind_eq
      windows_1 pos Let_def split: list.splits)
qed

lemma find_ascii_folded_byte_eq:
  "find_ascii_folded_byte E bs n = position (\<lambda>b. eq_ignore_ascii_case_byte b n) bs"
  by (auto simp: find_ascii_folded_byte_def find_byte_def alphabetic_fold non_alphabetic_fold)

lemma rfind_ascii_folded_byte_eq:
  "rfind_ascii_folded_byte E bs n = rposition (\<lambda>b. eq_ignore_ascii_case_byte b n) bs"
  by (auto simp: rfind_ascii_folded_byte_def rfind_byte_def alphabetic_fold non_alphabetic_fold)

end

lemma count_newlines_scalar_position:
  "count_newlines_scalar bs =
     (case position (\<lambda>b. b = CHR 0x0A \<or> b = CHR 0x0D) bs of
        None \<Rightarrow> 0
      | Some r \<Rightarrow> Suc (count_newlines_scalar (drop
            (if get_at bs r = Some (CHR 0x0D) \<and> get_at bs (r + 1) = Some (CHR 0x0A) then r + 2 else r + 1) bs)))"
proof (induction bs)
  case Nil
  show ?case by simp
next
  case (Cons b bs)
  show ?case
  proof (cases "b = CHR 0x0A \<or> b = CHR 0x0D")
    case True
    then show ?thesis by (auto simp: drop_Suc)
  next
    case False
    then show ?thesis
      using Cons.IH by (cases "position (\<lambda>b. b = CHR 0x0A \<or> b = CHR 0x0D) bs") auto
  qed
qed

lemma first_match_skip:
  assumes "first_match P k h s' r" "s \<le> s'"
    and "\<And>j. s \<le> j \<Longrightarrow> j < s' \<Longrightarrow> j + k \<le> length h \<Longrightarrow> \<not> P (sub_slice h j (j + k))"
  shows "first_match P k h s r"
proof -
  have split: "\<not> P (sub_slice h j (j + k))"
    if "s \<le> j" "j + k \<le> length h" "s' \<le> j \<Longrightarrow> \<not> P (sub_slice h j (j + k))" for j
    using that assms(3) [of j] by (cases "j < s'") auto
  show ?thesis
  proof (cases r)
    case None
    then show ?thesis using assms(1) split by (auto simp: first_match_def)
  next
    case (Some a)
    then have a: "s' \<le> a" "a + k \<le> length h" "P (sub_slice h a (a + k))"
      and b: "\<And>j. s' \<le> j \<Longrightarrow> j < a \<Longrightarrow> \<not> P (sub_slice h j (j + k))"
      using assms(1) by (auto simp: first_match_def)
    have "\<not> P (sub_slice h j (j + k))" if "s \<le> j" "j < a" for j
      using split [of j] b [of j] that a by simp
    then show ?thesis using Some a assms(2) by (simp add: first_match_def)
  qed
qed

lemma last_match_skip:
  assumes "last_match P k h e' r" "e' \<le> e"
    and "\<And>j. e' < j + k \<Longrightarrow> j + k \<le> e \<Longrightarrow> \<not> P (sub_slice h j (j + k))"
  shows "last_match P k h e r"
proof -
  have split: "\<not> P (sub_slice h j (j + k))"
    if "j + k \<le> e" "j + k \<le> e' \<Longrightarrow> \<not> P (sub_slice h j (j + k))" for j
    using that assms(3) [of j] by (cases "j + k \<le> e'") auto
  show ?thesis
    using assms(1,2) split by (cases r) (auto simp: last_match_def)
qed

lemma no_fold_no_match:
  assumes "\<not> eq_ignore_ascii_case_byte (h ! i) (n ! 0)" "n \<noteq> []" "i + length n \<le> length h"
  shows "\<not> eq_ignore_ascii_case (sub_slice h i (i + length n)) n"
  using assms eq_ignore_ascii_case_first by blast

lemma no_fold_before:
  assumes "case position (\<lambda>b. eq_ignore_ascii_case_byte b (n ! 0)) (drop search h) of
      None \<Rightarrow> True | Some offset \<Rightarrow> i < search + offset"
    and "search \<le> i" "n \<noteq> []" "i + length n \<le> length h"
  shows "\<not> eq_ignore_ascii_case (sub_slice h i (i + length n)) n"
proof (rule no_fold_no_match)
  have "drop search h ! (i - search) = h ! i" "i - search < length (drop search h)"
    using assms(2-4) by (cases n; simp)+
  note i = this
  show "\<not> eq_ignore_ascii_case_byte (h ! i) (n ! 0)"
  proof (cases "position (\<lambda>b. eq_ignore_ascii_case_byte b (n ! 0)) (drop search h)")
    case None
    then show ?thesis using i nth_mem [of "i - search" "drop search h"] by (simp add: position_None_iff)
  next
    case (Some offset)
    then have "i - search < offset" using assms(1,2) by simp
    then show ?thesis using Some i unfolding position_Some_iff by metis
  qed
qed (use assms in auto)

lemma no_fold_after:
  assumes "case rposition (\<lambda>b. eq_ignore_ascii_case_byte b (n ! 0)) (take en h) of
      None \<Rightarrow> True | Some index \<Rightarrow> index < i"
    and "i < en" "n \<noteq> []" "i + length n \<le> length h"
  shows "\<not> eq_ignore_ascii_case (sub_slice h i (i + length n)) n"
proof (rule no_fold_no_match)
  have "take en h ! i = h ! i" "i < length (take en h)"
    using assms(2-4) by (cases n; simp)+
  then show "\<not> eq_ignore_ascii_case_byte (h ! i) (n ! 0)"
    using assms(1,2) nth_mem [of i "take en h"]
    by (cases "rposition (\<lambda>b. eq_ignore_ascii_case_byte b (n ! 0)) (take en h)")
       (auto simp: rposition_None_iff rposition_Some_iff simp del: length_take)
qed (use assms in auto)

context byte_search
begin

lemma ci_search_from_match:
  assumes "n \<noteq> []" "length n \<le> length h"
  shows "first_match (\<lambda>w. eq_ignore_ascii_case w n) (length n) h search (ci_search_from E h n search)"
proof (induction "Suc (length h) - search" arbitrary: search rule: less_induct)
  case less
  note step = ci_search_from.simps [of E h n search, unfolded find_ascii_folded_byte_eq]
  note before = no_fold_before [where search = search and h = h and n = n, OF _ _ assms(1)]
  show ?case
  proof (cases "search \<le> length h - length n")
    case False
    then show ?thesis using assms step by (auto simp: first_match_def)
  next
    case search: True
    show ?thesis
    proof (cases "position (\<lambda>b. eq_ignore_ascii_case_byte b (n ! 0)) (drop search h)")
      case None
      then show ?thesis using step before by (simp add: first_match_def)
    next
      case (Some offset)
      have IH: "first_match (\<lambda>w. eq_ignore_ascii_case w n) (length n) h (search + offset + 1)
          (ci_search_from E h n (search + offset + 1))"
        using search by (intro less) simp
      have miss: "\<not> eq_ignore_ascii_case (sub_slice h j (j + length n)) n"
        if "search \<le> j" "j < search + offset + 1" "j + length n \<le> length h"
          "\<not> eq_ignore_ascii_case (sub_slice h (search + offset) (search + offset + length n)) n" for j
        using before [of j] that Some by (cases "j = search + offset") auto
      have "\<not> eq_ignore_ascii_case (sub_slice h (search + offset) (search + offset + length n)) n \<Longrightarrow>
          first_match (\<lambda>w. eq_ignore_ascii_case w n) (length n) h search
          (ci_search_from E h n (search + offset + 1))"
        by (rule first_match_skip [OF IH _ miss]) simp_all
      then show ?thesis
        using step before search Some by (auto simp: first_match_def Let_def)
    qed
  qed
qed

lemma ci_search_before_match:
  assumes "n \<noteq> []" "en + length n \<le> Suc (length h)"
  shows "last_match (\<lambda>w. eq_ignore_ascii_case w n) (length n) h (en + length n - 1) (ci_search_before E h n en)"
  using assms(2)
proof (induction en rule: less_induct)
  case (less en)
  note step = ci_search_before.simps [of E h n en, unfolded rfind_ascii_folded_byte_eq]
  note after = no_fold_after [where en = en and h = h and n = n, OF _ _ assms(1)]
  have n: "0 < length n" using assms(1) by simp
  have bound: "i < en \<and> i + length n \<le> length h" if "i + length n \<le> en + length n - 1" for i
    using that n less.prems by linarith
  show ?case
  proof (cases "en = 0")
    case True
    moreover have "\<not> i + length n \<le> length n - 1" for i using n by linarith
    ultimately show ?thesis using step by (simp add: last_match_def)
  next
    case en: False
    show ?thesis
    proof (cases "rposition (\<lambda>b. eq_ignore_ascii_case_byte b (n ! 0)) (take en h)")
      case None
      have "\<not> eq_ignore_ascii_case (sub_slice h i (i + length n)) n"
        if "i + length n \<le> en + length n - 1" for i
        using after [of i] bound [OF that] None by simp
      then show ?thesis using step en None by (simp add: last_match_def)
    next
      case (Some index)
      then have index: "index < en" by (simp add: rposition_Some_iff)
      have "last_match (\<lambda>w. eq_ignore_ascii_case w n) (length n) h (index + length n - 1)
          (ci_search_before E h n index)"
        using index less.prems by (intro less.IH) auto
      moreover have "\<not> eq_ignore_ascii_case (sub_slice h j (j + length n)) n"
        if "index + length n - 1 < j + length n" "j + length n \<le> en + length n - 1"
          "\<not> eq_ignore_ascii_case (sub_slice h index (index + length n)) n" for j
        using after [of j] bound [of j] that Some by (cases "j = index") auto
      ultimately have "\<not> eq_ignore_ascii_case (sub_slice h index (index + length n)) n \<Longrightarrow>
          last_match (\<lambda>w. eq_ignore_ascii_case w n) (length n) h (en + length n - 1)
          (ci_search_before E h n index)"
        using index by (elim last_match_skip) auto
      moreover have "\<not> eq_ignore_ascii_case (sub_slice h j (j + length n)) n"
        if "index < j" "j + length n \<le> en + length n - 1" for j
        using after [of j] bound [of j] that Some by auto
      moreover have "index + length n \<le> en + length n - 1" using index n by linarith
      ultimately show ?thesis
        using step index en Some n by (simp add: last_match_def)
    qed
  qed
qed

lemma ci_from_eq:
  "find_bytes_ascii_case_insensitive_from E h n start = find_bytes_ascii_case_insensitive_from_scalar h n start"
proof (cases "n = [] \<or> length h < start \<or> length h - start < length n")
  case True
  then show ?thesis
    by (auto simp: find_bytes_ascii_case_insensitive_from_def find_bytes_ascii_case_insensitive_from_scalar_def)
next
  case False
  then have n: "n \<noteq> []" "length n \<le> length h" "start \<le> length h" by auto
  have single: "map_option (\<lambda>offset. start + offset) (find_ascii_folded_byte E (drop start h) x)
      = map_option (\<lambda>offset. start + offset)
          (position (\<lambda>w. eq_ignore_ascii_case w [x]) (windows (Suc 0) (drop start h)))" for x
  proof -
    have "position (\<lambda>w. eq_ignore_ascii_case w [x]) (map (\<lambda>y. [y]) xs)
        = position (\<lambda>b. eq_ignore_ascii_case_byte b x) xs" for xs
      by (induction xs) (auto simp: eq_ignore_ascii_case_def eq_ignore_ascii_case_byte_def)
    then show ?thesis by (simp add: find_ascii_folded_byte_eq windows_1)
  qed
  have loop: "ci_search_from E h n start = map_option (\<lambda>offset. start + offset)
      (position (\<lambda>w. eq_ignore_ascii_case w n) (windows (length n) (drop start h)))"
    using first_match_unique [OF ci_search_from_match [OF n(1,2)] first_match_windows [OF n(3)]] .
  show ?thesis
    using False single loop
    by (cases "length n = 1")
       (auto simp: find_bytes_ascii_case_insensitive_from_def
         find_bytes_ascii_case_insensitive_from_scalar_def length_Suc_conv)
qed

lemma ci_before_eq:
  "rfind_bytes_ascii_case_insensitive_before E h n end0
   = rfind_bytes_ascii_case_insensitive_before_scalar h n end0"
proof -
  define en where "en = min end0 (length h)"
  have en: "en \<le> length h" by (simp add: en_def)
  have single: "rfind_ascii_folded_byte E bs x
      = rposition (\<lambda>w. eq_ignore_ascii_case w [x]) (windows (Suc 0) bs)" for x bs
  proof -
    have "rposition (\<lambda>w. eq_ignore_ascii_case w [x]) (map (\<lambda>y. [y]) xs)
        = rposition (\<lambda>b. eq_ignore_ascii_case_byte b x) xs" for xs
      by (induction xs)
         (auto simp: eq_ignore_ascii_case_def eq_ignore_ascii_case_byte_def split: option.splits)
    then show ?thesis by (simp add: rfind_ascii_folded_byte_eq windows_1)
  qed
  have loop: "ci_search_before E h n (en - length n + 1)
      = rposition (\<lambda>w. eq_ignore_ascii_case w n) (windows (length n) (take en h))"
    if "n \<noteq> []" "length n \<le> en"
  proof -
    have "last_match (\<lambda>w. eq_ignore_ascii_case w n) (length n) h en (ci_search_before E h n (en - length n + 1))"
      using ci_search_before_match [of n "en - length n + 1" h] that en by simp
    then show ?thesis using last_match_unique last_match_windows [OF en] by blast
  qed
  show ?thesis
    unfolding rfind_bytes_ascii_case_insensitive_before_def
      rfind_bytes_ascii_case_insensitive_before_scalar_def en_def [symmetric] Let_def
    using single loop by (cases "length n = 1") (auto simp: length_Suc_conv)
qed

lemma count_byte_eq: "count_byte E bs a = count_byte_scalar bs a"
proof -
  have "length (filter (\<lambda>i. bs ! i = a) [0..<length bs]) = length (filter (\<lambda>x. x = a) bs)"
    by (simp add: length_filter_conv_card) (rule arg_cong [where f = card], auto)
  then show ?thesis
    using contract by (simp add: count_byte_def count_byte_scalar_def memchr_ok_def)
qed

lemma count_newlines_loop_eq:
  "count_newlines_loop E bs count offset = count + count_newlines_scalar (drop offset bs)"
proof (induction "length bs - offset" arbitrary: count offset rule: less_induct)
  case less
  show ?case
  proof (cases "offset < length bs")
    case True
    then have IH: "count_newlines_loop E bs (count + 1) (offset + k) = count + 1 + count_newlines_scalar (drop (offset + k) bs)"
      if "0 < k" for k
      using that by (intro less) simp
    note step = count_newlines_loop.simps [of E bs count offset] count_newlines_scalar_position [of "drop offset bs"]
    show ?thesis
    proof (cases "position (\<lambda>b. b = CHR 0x0A \<or> b = CHR 0x0D) (drop offset bs)")
      case None
      then show ?thesis using step True by simp
    next
      case (Some r)
      then show ?thesis
        using step True IH [of "r + 1"] IH [of "r + 2"]
        by (simp add: Let_def get_at_drop add.assoc add.commute [of r offset] drop_drop)
    qed
  next
    case False
    then show ?thesis by (simp add: count_newlines_loop.simps)
  qed
qed

lemma count_newlines_eq: "count_newlines E bs = count_newlines_scalar bs"
  by (simp add: count_newlines_def count_newlines_loop_eq)

lemma position_disj:
  "position (\<lambda>x. p x \<or> q x) xs = min_index (position p xs) (position q xs)"
proof (induction xs)
  case (Cons x xs)
  then show ?case
    by (cases "position p xs"; cases "position q xs") (auto split: if_splits)
qed simp

lemma rposition_disj:
  "rposition (\<lambda>x. p x \<or> q x) xs = max_index (rposition p xs) (rposition q xs)"
proof (induction xs)
  case (Cons x xs)
  then show ?case
    by (cases "rposition p xs"; cases "rposition q xs") (auto split: if_splits)
qed simp

lemma whitespace_split:
  "is_ascii_whitespace = (\<lambda>x. (x = CHR '' '' \<or> x = CHR 0x09 \<or> x = CHR 0x0A) \<or> (x = CHR 0x0D \<or> x = CHR 0x0C))"
  by (auto simp: fun_eq_iff whitespace_set)

lemma find_ascii_whitespace_eq: "find_ascii_whitespace E bs = find_ascii_whitespace_scalar bs"
  by (simp only: find_ascii_whitespace_scalar_def whitespace_split position_disj
    find_ascii_whitespace_def memchr3_eq memchr2_eq)

lemma rfind_ascii_whitespace_eq: "rfind_ascii_whitespace E bs = rfind_ascii_whitespace_scalar bs"
  by (simp only: rfind_ascii_whitespace_scalar_def whitespace_split rposition_disj
    rfind_ascii_whitespace_def memrchr3_eq memrchr2_eq)

lemma contains_ascii_whitespace_eq: "contains_ascii_whitespace E bs = contains_ascii_whitespace_scalar bs"
  by (auto simp: contains_ascii_whitespace_def find_ascii_whitespace_eq find_ascii_whitespace_scalar_def
    contains_ascii_whitespace_scalar_def list_ex_iff position_None_iff)

end

section \<open>Dispatched routines\<close>

lemma find_json_escape_byte_eq: "find_json_escape_byte E bs = find_json_escape_byte_scalar bs"
  by (cases "backend E") (simp_all add: find_json_escape_byte_def find_escape_eq find_json_escape_byte_scalar_def)

lemma find_html_escape_byte_eq: "find_html_escape_byte E bs = find_html_escape_byte_scalar bs"
  by (cases "backend E")
     (simp_all add: find_html_escape_byte_def find_escape_eq find_html_escape_byte_scalar_def)

lemma identifier_chunk_eq:
  "ascii_identifier_continue_chunk_len E bs = ascii_identifier_continue_chunk_len_scalar bs"
  by (cases "backend E") (simp_all add: ascii_identifier_continue_chunk_len_def identifier_run_eq)

lemma ascii_digit_run_len_eq: "ascii_digit_run_len E bs = ascii_digit_run_len_scalar bs"
  by (cases "backend E") (simp_all add: ascii_digit_run_len_def digit_run_eq)

lemma all_ascii_digits_eq: "all_ascii_digits E bs = all_ascii_digits_scalar bs"
  by (simp add: all_ascii_digits_def ascii_digit_run_len_eq all_digits_iff_run)

lemma find_non_ascii_whitespace_eq: "find_non_ascii_whitespace E bs = find_non_ascii_whitespace_scalar bs"
  by (cases "backend E") (simp_all add: find_non_ascii_whitespace_def non_whitespace_eq)

lemma all_ascii_whitespace_eq: "all_ascii_whitespace E bs = all_ascii_whitespace_scalar bs"
  by (simp add: all_ascii_whitespace_def find_non_ascii_whitespace_eq find_non_ascii_whitespace_scalar_def
    all_ascii_whitespace_scalar_def list_all_iff position_None_iff)

lemma contains_ascii_lowercase_eq: "contains_ascii_lowercase E bs = contains_ascii_lowercase_scalar bs"
  by (cases "backend E") (simp_all add: contains_ascii_lowercase_def contains_lowercase_eq)

lemma contains_ascii_uppercase_eq: "contains_ascii_uppercase E bs = contains_ascii_uppercase_scalar bs"
  by (cases "backend E") (simp_all add: contains_ascii_uppercase_def contains_uppercase_eq)

lemma ascii_uppercase_copy_eq: "ascii_uppercase_copy E bs = map to_ascii_uppercase bs"
  by (cases "backend E") (simp_all add: ascii_uppercase_copy_def ascii_uppercase_in_place_def uppercase_in_place_eq)

lemma ascii_lowercase_copy_eq: "ascii_lowercase_copy E bs = map to_ascii_lowercase bs"
  by (cases "backend E") (simp_all add: ascii_lowercase_copy_def ascii_lowercase_in_place_def lowercase_in_place_eq)

text \<open>The processor and profile for which \<open>trim_default_bounds\<close> cannot panic.\<close>

lemma trim_default_bounds_eq_scalar:
  assumes "length bs < 2 ^ 64" and "backend E \<noteq> Sse2 \<or> \<not> overflow_checks E"
  shows "trim_default_bounds E bs = Some (trim_default_bounds_scalar bs)"
  using assms by (cases "backend E") (simp_all add: trim_default_bounds_def trim_default_bounds_eq)

section \<open>A concrete environment\<close>

definition scalar_env :: "backend \<Rightarrow> bool \<Rightarrow> byte_env" where
  "scalar_env b checks =
     \<lparr>backend = b, overflow_checks = checks,
      memchr = (\<lambda>a bs. find_byte_scalar bs a), memrchr = (\<lambda>a bs. rfind_byte_scalar bs a),
      memchr2 = (\<lambda>a b bs. find_any2_scalar bs a b),
      memrchr2 = (\<lambda>a b bs. rposition (\<lambda>x. x = a \<or> x = b) bs),
      memchr3 = (\<lambda>a b c bs. find_any3_scalar bs a b c),
      memrchr3 = (\<lambda>a b c bs. rposition (\<lambda>x. x = a \<or> x = b \<or> x = c) bs),
      memchr_iter = (\<lambda>a bs. filter (\<lambda>i. bs ! i = a) [0..<length bs]),
      memmem_find = (\<lambda>h n. find_bytes_from_scalar h n 0),
      memmem_rfind = (\<lambda>h n. rfind_bytes_before_scalar h n (length h))\<rparr>"

lemma memchr_ok_scalar_env: "memchr_ok (scalar_env b checks)"
proof -
  have "first_match (\<lambda>w. w = n) (length n) h 0 (find_bytes_from_scalar h n 0)" if "n \<noteq> []" for h n
  proof (cases "length h < length n")
    case True
    then show ?thesis using that by (simp add: find_bytes_from_scalar_def first_match_def)
  next
    case False
    moreover have "(+) 0 = (\<lambda>x :: nat. x)" by (simp add: fun_eq_iff)
    ultimately show ?thesis
      using that first_match_windows [of 0 h "\<lambda>w. w = n" "length n"]
      by (simp add: find_bytes_from_scalar_def)
  qed
  moreover have "last_match (\<lambda>w. w = n) (length n) h (length h) (rfind_bytes_before_scalar h n (length h))"
    if "n \<noteq> []" for h n
  proof (cases "length h < length n")
    case True
    then show ?thesis using that by (simp add: rfind_bytes_before_scalar_def last_match_def)
  next
    case False
    then show ?thesis
      using that last_match_windows [of "length h" h "\<lambda>w. w = n" "length n"]
      by (simp add: rfind_bytes_before_scalar_def)
  qed
  ultimately show ?thesis
    by (simp add: memchr_ok_def scalar_env_def scan_specs find_byte_scalar_def rfind_byte_scalar_def
      find_any2_scalar_def find_any3_scalar_def)
qed

interpretation scalar_search: byte_search "scalar_env b checks" for b checks
  by unfold_locales (rule memchr_ok_scalar_env)

section \<open>Properties of the byte kernel\<close>

text \<open>C17. Whatever back end the processor selects, each dispatched scan computes what its
  scalar reference computes, and the case conversions act byte by byte.\<close>

theorem dispatched_routines_agree:
  "find_json_escape_byte E bs = find_json_escape_byte_scalar bs \<and>
   find_html_escape_byte E bs = find_html_escape_byte_scalar bs \<and>
   ascii_identifier_continue_chunk_len E bs = ascii_identifier_continue_chunk_len_scalar bs \<and>
   ascii_digit_run_len E bs = ascii_digit_run_len_scalar bs \<and>
   all_ascii_digits E bs = all_ascii_digits_scalar bs \<and>
   find_non_ascii_whitespace E bs = find_non_ascii_whitespace_scalar bs \<and>
   all_ascii_whitespace E bs = all_ascii_whitespace_scalar bs \<and>
   contains_ascii_lowercase E bs = contains_ascii_lowercase_scalar bs \<and>
   contains_ascii_uppercase E bs = contains_ascii_uppercase_scalar bs \<and>
   ascii_uppercase_copy E bs = map to_ascii_uppercase bs \<and>
   ascii_lowercase_copy E bs = map to_ascii_lowercase bs"
  by (intro conjI find_json_escape_byte_eq find_html_escape_byte_eq identifier_chunk_eq
    ascii_digit_run_len_eq all_ascii_digits_eq find_non_ascii_whitespace_eq all_ascii_whitespace_eq
    contains_ascii_lowercase_eq contains_ascii_uppercase_eq ascii_uppercase_copy_eq
    ascii_lowercase_copy_eq)

text \<open>C18. The substring searches, exact and ASCII-case-insensitive, forwards and backwards,
  find what the window-by-window reference searches find, for every \<open>memchr\<close> implementation
  that keeps its documented contract.\<close>

theorem substring_searches_agree:
  assumes "memchr_ok E"
  shows "find_bytes_from E h n start = find_bytes_from_scalar h n start \<and>
    rfind_bytes_before E h n en = rfind_bytes_before_scalar h n en \<and>
    find_bytes_ascii_case_insensitive_from E h n start
      = find_bytes_ascii_case_insensitive_from_scalar h n start \<and>
    rfind_bytes_ascii_case_insensitive_before E h n en
      = rfind_bytes_ascii_case_insensitive_before_scalar h n en"
  using assms byte_search.find_bytes_from_eq byte_search.rfind_bytes_before_eq
    byte_search.ci_from_eq byte_search.ci_before_eq byte_search.intro by blast

theorem substring_searches_agree_witness:
  "find_bytes_ascii_case_insensitive_from (scalar_env Sse2 False) ''xaByab'' ''AB'' 2 = Some 4"
proof -
  have "find_bytes_ascii_case_insensitive_from_scalar ''xaByab'' ''AB'' 2 = Some 4" by code_simp
  then show ?thesis
    using substring_searches_agree [OF memchr_ok_scalar_env, where h = "''xaByab''" and n = "''AB''"] by metis
qed

text \<open>C19. \<open>trim_default_bounds\<close> returns the bounds of the scalar reference on every back
  end, except SSE2 in a build with overflow checks.\<close>

theorem trim_default_bounds_correct:
  assumes "length bs < 2 ^ 64" and "backend E \<noteq> Sse2 \<or> \<not> overflow_checks E"
  shows "trim_default_bounds E bs = Some (trim_default_bounds_scalar bs)"
  using assms by (rule trim_default_bounds_eq_scalar)

theorem trim_default_bounds_correct_witness:
  "trim_default_bounds (scalar_env Sse2 False) ('' a'' @ replicate 20 (CHR '' '')) = Some (1, 2)"
proof -
  have "trim_default_bounds_scalar ('' a'' @ replicate 20 (CHR '' '')) = (1, 2)" by code_simp
  then show ?thesis
    using trim_default_bounds_correct [of "'' a'' @ replicate 20 (CHR '' '')" "scalar_env Sse2 False"]
    by (simp add: scalar_env_def)
qed

text \<open>C20. On SSE2 in a build with overflow checks, \<open>trim_default_bounds\<close> panics for every
  input of at least 16 bytes whose last 16 bytes hold a byte that is not trimmed: the lane
  index \<open>15 - leading_zeros + 16\<close> is computed with a subtraction below zero.\<close>

theorem trim_default_bounds_sse2_panics:
  assumes "backend E = Sse2" and "overflow_checks E" and "16 \<le> length bs"
    and "\<exists>b \<in> set (drop (length bs - 16) bs). \<not> is_default_trim_byte b"
  shows "trim_default_bounds E bs = None"
proof -
  let ?stop = "inverse_mask 0xffff default_trim_mask_sse2"
  let ?cs = "take 16 (drop (length bs - 16) bs)"
  have cs: "?cs = drop (length bs - 16) bs" "length ?cs = 16" using assms(3) by simp_all
  have "?stop (map byte_lane ?cs) \<noteq> None"
    using last_trim_sse2.stop_last [OF cs(2)] rposition_None_iff [of "\<lambda>b. \<not> is_default_trim_byte b" ?cs]
      assms(4) cs(1) by (metis option.map_disc_iff)
  then obtain w where w: "?stop (map byte_lane ?cs) = Some w" by blast
  have "back_loop 16 ?stop bs (length bs) = Inl (length bs - 16, w)"
    using assms(3) w by (subst back_loop.simps) (simp add: loadu_def)
  then have "last_not_trim_sse2 True bs = None" by (simp add: last_not_trim_sse2_checked)
  moreover have "first_not_trim_sse2 bs \<noteq> length bs"
  proof -
    have "position (\<lambda>b. \<not> is_default_trim_byte b) bs \<noteq> None"
      using assms(4) in_set_dropD [of _ "length bs - 16" bs] by (auto simp: position_None_iff)
    then obtain i where "position (\<lambda>b. \<not> is_default_trim_byte b) bs = Some i" by blast
    then show ?thesis using position_less by (fastforce simp: first_not_trim_eq)
  qed
  ultimately show ?thesis
    using assms(1,2) by (simp add: trim_default_bounds_def trim_default_bounds_sse2_def trim_bounds_of_def)
qed

theorem trim_default_bounds_sse2_panics_witness:
  "trim_default_bounds (scalar_env Sse2 True) (replicate 16 (CHR ''a'')) = None"
  by (rule trim_default_bounds_sse2_panics)
     (simp_all add: scalar_env_def is_default_trim_byte_def byte_val_def)

end
