(* ===== verification/Source_Text.thy ===== *)
theory Source_Text
  imports Byte_Kernel_Proofs
begin

text \<open>
  Source positions (\<open>crates/php_source/src/span.rs\<close>), the line index
  (\<open>line_index.rs\<close>) and \<open>SourceText\<close> (\<open>lib.rs\<close>). A \<open>BytePos\<close> is its offset. The line index
  is characterised by the positions at which a line starts, and \<open>line_col\<close> by the line
  start it reports.
\<close>

section \<open>Ranges\<close>

record text_range =
  range_start :: nat
  range_end :: nat

definition text_range_new :: "nat \<Rightarrow> nat \<Rightarrow> text_range" where
  "text_range_new start en =
     \<lparr>range_start = start, range_end = (if en < start then start else en)\<rparr>"

definition text_range_try_new :: "nat \<Rightarrow> nat \<Rightarrow> text_range option" where
  "text_range_try_new start en =
     (if start \<le> en then Some \<lparr>range_start = start, range_end = en\<rparr> else None)"

definition text_range_empty :: "nat \<Rightarrow> text_range" where
  "text_range_empty pos = \<lparr>range_start = pos, range_end = pos\<rparr>"

definition text_range_len :: "text_range \<Rightarrow> nat" where
  "text_range_len r = range_end r - range_start r"

definition text_range_is_empty :: "text_range \<Rightarrow> bool" where
  "text_range_is_empty r = (range_start r = range_end r)"

lemma text_range_new_sel [simp]:
  "range_start (text_range_new a b) = a" "range_end (text_range_new a b) = max a b"
  by (simp_all add: text_range_new_def max_def)

section \<open>Line index\<close>

record line_col =
  lc_line :: nat
  lc_column :: nat

record line_index =
  line_starts :: "nat list"
  source_len :: nat

text \<open>
  The loop of \<open>LineIndex::new\<close> from \<open>index\<close> on, returning the line starts it pushes. The
  last arm of the \<open>match\<close> (a byte that is no line break) and an index outside the source
  cannot occur when \<open>find_any2\<close> keeps its contract.
\<close>

function line_starts_from :: "byte_env \<Rightarrow> bytes \<Rightarrow> nat \<Rightarrow> nat list" where
  "line_starts_from E bytes index =
     (if index < length bytes then
        (case find_any2 E (drop index bytes) (CHR 0x0A) (CHR 0x0D) of
           None \<Rightarrow> []
         | Some relative \<Rightarrow>
             let index' = index + relative
             in if get_at bytes index' = Some (CHR 0x0A) then
                  (index' + 1) # line_starts_from E bytes (index' + 1)
                else if get_at bytes index' = Some (CHR 0x0D) \<and> get_at bytes (index' + 1) = Some (CHR 0x0A) then
                  (index' + 2) # line_starts_from E bytes (index' + 2)
                else if get_at bytes index' = Some (CHR 0x0D) then
                  (index' + 1) # line_starts_from E bytes (index' + 1)
                else line_starts_from E bytes (index' + 1))
      else [])"
  by pat_completeness auto
termination
  by (relation "measure (\<lambda>(E, bytes, index). length bytes - index)") auto

declare line_starts_from.simps [simp del]

definition line_index_new :: "byte_env \<Rightarrow> bytes \<Rightarrow> line_index" where
  "line_index_new E source =
     \<lparr>line_starts = 0 # line_starts_from E source 0, source_len = length source\<rparr>"

definition line_count :: "line_index \<Rightarrow> nat" where
  "line_count idx = length (line_starts idx)"

text \<open>\<open>slice::binary_search\<close> on the positions \<open>lo\<close> to \<open>hi\<close>: \<open>Inr i\<close> is \<open>Ok(i)\<close>, \<open>Inl i\<close> is
  \<open>Err(i)\<close>.\<close>

function binary_search_in :: "nat list \<Rightarrow> nat \<Rightarrow> nat \<Rightarrow> nat \<Rightarrow> nat + nat" where
  "binary_search_in xs x lo hi =
     (if lo < hi then
        let mid = lo + (hi - lo) div 2
        in if xs ! mid < x then binary_search_in xs x (mid + 1) hi
           else if x < xs ! mid then binary_search_in xs x lo mid
           else Inr mid
      else Inl lo)"
  by pat_completeness auto
termination
  by (relation "measure (\<lambda>(xs, x, lo, hi). hi - lo)") auto

declare binary_search_in.simps [simp del]

definition binary_search :: "nat list \<Rightarrow> nat \<Rightarrow> nat + nat" where
  "binary_search xs x = binary_search_in xs x 0 (length xs)"

definition line_index_line_col :: "line_index \<Rightarrow> nat \<Rightarrow> line_col" where
  "line_index_line_col idx pos0 =
     (let pos = min pos0 (source_len idx);
          line_index = (case binary_search (line_starts idx) pos of
                          Inr index \<Rightarrow> index
                        | Inl index \<Rightarrow> if index = 0 then 0 else index - 1);
          line_start = line_starts idx ! line_index
      in \<lparr>lc_line = line_index + 1, lc_column = pos - line_start + 1\<rparr>)"

section \<open>Source text\<close>

record source_text =
  source_bytes :: bytes
  text_index :: line_index

definition source_text_new :: "byte_env \<Rightarrow> bytes \<Rightarrow> source_text" where
  "source_text_new E t = \<lparr>source_bytes = t, text_index = line_index_new E t\<rparr>"

definition source_text_line_col :: "source_text \<Rightarrow> nat \<Rightarrow> line_col" where
  "source_text_line_col st pos = line_index_line_col (text_index st) pos"

text \<open>\<open>str::is_char_boundary\<close>: a byte that is no UTF-8 continuation byte, or the end.\<close>

definition is_char_boundary :: "bytes \<Rightarrow> nat \<Rightarrow> bool" where
  "is_char_boundary bytes i =
     (i = 0 \<or> i = length bytes \<or> is_some_and (get_at bytes i) (\<lambda>b. byte_val b < 128 \<or> 192 \<le> byte_val b))"

definition source_text_slice :: "source_text \<Rightarrow> text_range \<Rightarrow> bytes option" where
  "source_text_slice st r =
     (if range_start r \<le> range_end r \<and> is_char_boundary (source_bytes st) (range_start r)
         \<and> is_char_boundary (source_bytes st) (range_end r)
      then Some (sub_slice (source_bytes st) (range_start r) (range_end r)) else None)"

section \<open>Line starts\<close>

text \<open>A line starts at 0, after a line feed, and after a carriage return that no line feed
  follows.\<close>

definition line_start_at :: "bytes \<Rightarrow> nat \<Rightarrow> bool" where
  "line_start_at bytes j \<longleftrightarrow>
     j = 0 \<or> get_at bytes (j - 1) = Some (CHR 0x0A) \<or>
     (get_at bytes (j - 1) = Some (CHR 0x0D) \<and> get_at bytes j \<noteq> Some (CHR 0x0A))"

lemma line_start_at_le: "line_start_at bytes j \<Longrightarrow> j \<le> length bytes"
  by (auto simp: line_start_at_def get_at_Some_iff)

lemma filter_upt_skip:
  assumes "\<And>j. i \<le> j \<Longrightarrow> j < k \<Longrightarrow> \<not> P j" "i \<le> k" "k \<le> n"
  shows "filter P [i..<n] = filter P [k..<n]"
proof -
  have "[i..<n] = [i..<k] @ [k..<n]" using assms(2,3) by (metis le_add_diff_inverse upt_add_eq_append)
  moreover have "filter P [i..<k] = []" using assms(1) by (auto simp: filter_empty_conv)
  ultimately show ?thesis by simp
qed

lemma filter_upt_hit: "P i \<Longrightarrow> i < n \<Longrightarrow> filter P [i..<n] = i # filter P [Suc i..<n]"
  by (simp add: upt_conv_Cons)

context byte_search
begin

lemma line_starts_from_eq:
  "line_starts_from E bs i = filter (line_start_at bs) [Suc i..<Suc (length bs)]"
proof (induction "length bs - i" arbitrary: i rule: less_induct)
  case less
  let ?nl = "\<lambda>b. b = CHR 0x0A \<or> b = CHR 0x0D"
  show ?case
  proof (cases "i < length bs")
    case True
    note step = line_starts_from.simps [of E bs i, unfolded find_any2_def memchr2_eq]
    show ?thesis
    proof (cases "position ?nl (drop i bs)")
      case None
      have "\<not> line_start_at bs j" if "i < j" "j \<le> length bs" for j
        using None that nth_mem [of "j - 1 - i" "drop i bs"]
        by (auto simp: position_None_iff line_start_at_def get_at_Some_iff)
      then show ?thesis using step True None by (auto simp: filter_empty_conv)
    next
      case (Some r)
      define k where "k = i + r"
      have k: "i \<le> k" "k < length bs" "?nl (bs ! k)"
        using Some by (auto simp: position_Some_iff k_def)
      have no: "\<not> ?nl (bs ! j)" if "i \<le> j" "j < k" for j
        using Some that by (auto simp: position_Some_iff k_def dest!: spec [of _ "j - i"])
      have skip: "\<not> line_start_at bs j" if "Suc i \<le> j" "j < Suc k" for j
        using no [of "j - 1"] that by (auto simp: line_start_at_def get_at_Some_iff)
      have IH: "line_starts_from E bs m = filter (line_start_at bs) [Suc m..<Suc (length bs)]" if "i < m" for m
        using True that by (intro less) simp
      have eq: "filter (line_start_at bs) [Suc i..<Suc (length bs)]
          = filter (line_start_at bs) [Suc k..<Suc (length bs)]"
        using skip k by (intro filter_upt_skip) auto
      have next1: "line_start_at bs (Suc k) \<Longrightarrow> filter (line_start_at bs) [Suc k..<Suc (length bs)]
          = Suc k # filter (line_start_at bs) [Suc (Suc k)..<Suc (length bs)]"
        using k by (intro filter_upt_hit) auto
      have next2: "\<not> line_start_at bs (Suc k) \<Longrightarrow> line_start_at bs (Suc (Suc k)) \<Longrightarrow>
          filter (line_start_at bs) [Suc k..<Suc (length bs)]
          = Suc (Suc k) # filter (line_start_at bs) [Suc (Suc (Suc k))..<Suc (length bs)]"
        using k line_start_at_le [of bs "Suc (Suc k)"]
          filter_upt_skip [of "Suc k" "Suc (Suc k)" "line_start_at bs" "Suc (length bs)"]
          filter_upt_hit [of "line_start_at bs" "Suc (Suc k)" "Suc (length bs)"]
        by (simp add: le_antisym less_Suc_eq_le del: upt_Suc)
      show ?thesis
        using step True Some k IH [of "k + 1"] IH [of "k + 2"] eq next1 next2
        by (auto simp: Let_def k_def [symmetric] line_start_at_def get_at_Some_iff)
    qed
  next
    case False
    then show ?thesis by (simp add: line_starts_from.simps)
  qed
qed

lemma line_starts_eq:
  "line_starts (line_index_new E bs) = filter (line_start_at bs) [0..<Suc (length bs)]"
  using filter_upt_hit [of "line_start_at bs" 0 "Suc (length bs)"]
  by (simp add: line_index_new_def line_starts_from_eq line_start_at_def del: upt_Suc)

end

section \<open>Binary search\<close>

lemma binary_search_in_correct:
  assumes "sorted_wrt (<) xs" "hi \<le> length xs" "lo \<le> hi"
    and "\<And>j. j < lo \<Longrightarrow> xs ! j < x" and "\<And>j. hi \<le> j \<Longrightarrow> j < length xs \<Longrightarrow> x < xs ! j"
  shows "case binary_search_in xs x lo hi of
      Inr i \<Rightarrow> i < length xs \<and> xs ! i = x
    | Inl i \<Rightarrow> i \<le> length xs \<and> (\<forall>j < i. xs ! j < x) \<and> (\<forall>j. i \<le> j \<and> j < length xs \<longrightarrow> x < xs ! j)"
  using assms(2-)
proof (induction "hi - lo" arbitrary: lo hi rule: less_induct)
  case less
  show ?case
  proof (cases "lo < hi")
    case True
    define mid where "mid = lo + (hi - lo) div 2"
    have mid: "lo \<le> mid" "mid < hi" using True by (auto simp: mid_def)
    have mono: "xs ! i \<le> xs ! j" if "i \<le> j" "j < length xs" for i j
      using assms(1) that by (metis le_neq_implies_less less_imp_le order.refl sorted_wrt_iff_nth_less)
    have step: "binary_search_in xs x lo hi =
        (if xs ! mid < x then binary_search_in xs x (mid + 1) hi
         else if x < xs ! mid then binary_search_in xs x lo mid else Inr mid)"
      using True by (subst binary_search_in.simps) (simp add: Let_def mid_def)
    consider "xs ! mid < x" | "x < xs ! mid" | "xs ! mid = x" by linarith
    then show ?thesis
    proof cases
      case 1
      have "xs ! j < x" if "j < mid + 1" for j
        using mono [of j mid] 1 that mid less.prems(1) by simp
      then show ?thesis
        using step 1 mid less.prems less.hyps [of hi "mid + 1"] by simp
    next
      case 2
      have "x < xs ! j" if "mid \<le> j" "j < length xs" for j
        using mono [of mid j] 2 that by simp
      then show ?thesis
        using step 2 not_less_iff_gr_or_eq [of "xs ! mid" x] mid less.prems less.hyps [of mid lo] by simp
    next
      case 3
      then show ?thesis using step mid less.prems(1) by simp
    qed
  next
    case False
    then show ?thesis using less.prems by (subst binary_search_in.simps) simp
  qed
qed

lemma binary_search_Ok:
  "sorted_wrt (<) xs \<Longrightarrow> binary_search xs x = Inr i \<Longrightarrow> i < length xs \<and> xs ! i = x"
  using binary_search_in_correct [of xs "length xs" 0 x] by (simp add: binary_search_def)

lemma binary_search_Err:
  "sorted_wrt (<) xs \<Longrightarrow> binary_search xs x = Inl i \<Longrightarrow>
   i \<le> length xs \<and> (\<forall>j < i. xs ! j < x) \<and> (\<forall>j. i \<le> j \<and> j < length xs \<longrightarrow> x < xs ! j)"
  using binary_search_in_correct [of xs "length xs" 0 x] by (simp add: binary_search_def)

section \<open>Line and column of a position\<close>

text \<open>The index that \<open>line_col\<close> takes from the binary search is that of the last start at or
  before the position.\<close>

lemma line_slot:
  assumes "sorted_wrt (<) xs" "xs \<noteq> []" "xs ! 0 \<le> p"
    and k: "k = (case binary_search xs p of Inr i \<Rightarrow> i | Inl i \<Rightarrow> if i = 0 then 0 else i - 1)"
  shows "k < length xs" "xs ! k \<le> p" "\<And>j. k < j \<Longrightarrow> j < length xs \<Longrightarrow> p < xs ! j"
proof -
  have "k < length xs \<and> xs ! k \<le> p \<and> (\<forall>j. k < j \<and> j < length xs \<longrightarrow> p < xs ! j)"
  proof (cases "binary_search xs p")
    case (Inr i)
    then show ?thesis
      using binary_search_Ok [OF assms(1) Inr] assms(1) k by (auto simp: sorted_wrt_iff_nth_less)
  next
    case (Inl i)
    note err = binary_search_Err [OF assms(1) Inl]
    have "i \<noteq> 0" using err assms(2,3) by (metis le_refl length_greater_0_conv not_le)
    then show ?thesis using err Inl k by (auto simp: less_imp_le)
  qed
  then show "k < length xs" "xs ! k \<le> p" "\<And>j. k < j \<Longrightarrow> j < length xs \<Longrightarrow> p < xs ! j" by auto
qed

lemma sorted_filter_upt: "sorted_wrt (<) (filter P [a..<b])"
  by (intro sorted_wrt_filter) simp

lemma slot_count:
  assumes k: "k < length xs" "xs ! k \<le> p" "\<And>j. k < j \<Longrightarrow> j < length xs \<Longrightarrow> p < xs ! j"
    and xs: "xs = filter P [0..<Suc n]" "p \<le> n"
  shows "Suc k = length (filter P [0..<Suc p])"
proof -
  let ?a = "filter P [0..<Suc p]" and ?b = "filter P [Suc p..<Suc n]"
  have "[0..<Suc n] = [0..<Suc p] @ [Suc p..<Suc n]"
    using xs(2) upt_add_eq_append [of 0 "Suc p" "n - p"] by simp
  then have split: "xs = ?a @ ?b" by (simp only: xs(1) filter_append)
  have "k < length ?a"
  proof (rule ccontr)
    assume "\<not> ?thesis"
    then have "xs ! k \<in> set ?b" using split k(1) by (metis length_append nth_append nth_mem not_less nat_add_left_cancel_less le_add_diff_inverse)
    then show False using k(2) by simp
  qed
  moreover have "\<not> Suc k < length ?a"
  proof
    assume "Suc k < length ?a"
    then have "xs ! Suc k \<in> set ?a" "Suc k < length xs"
      using split nth_mem [of "Suc k" ?a] by (simp_all only: nth_append length_append) simp_all
    then show False using k(3) [of "Suc k"] by (simp del: upt_Suc)
  qed
  ultimately show ?thesis by simp
qed

context byte_search
begin

lemma line_col_spec:
  fixes bs pos
  defines "p \<equiv> min pos (length bs)" and "lc \<equiv> line_index_line_col (line_index_new E bs) pos"
  shows "lc_line lc = length (filter (line_start_at bs) [0..<Suc p])"
    and "lc_column lc \<le> Suc p" and "1 \<le> lc_column lc"
    and "line_start_at bs (Suc p - lc_column lc)"
    and "\<And>j. Suc p - lc_column lc < j \<Longrightarrow> j \<le> p \<Longrightarrow> \<not> line_start_at bs j"
proof -
  let ?xs = "filter (line_start_at bs) [0..<Suc (length bs)]"
  have hd: "?xs = 0 # filter (line_start_at bs) [Suc 0..<Suc (length bs)]"
    by (rule filter_upt_hit) (simp_all add: line_start_at_def)
  define k where "k = (case binary_search ?xs p of Inr i \<Rightarrow> i | Inl i \<Rightarrow> if i = 0 then 0 else i - 1)"
  have lc: "lc = \<lparr>lc_line = k + 1, lc_column = p - ?xs ! k + 1\<rparr>"
    by (simp add: lc_def line_index_line_col_def line_starts_eq k_def p_def Let_def del: upt_Suc)
       (simp add: line_index_new_def)
  have ne: "?xs \<noteq> []" "?xs ! 0 \<le> p" by (simp_all only: hd nth_Cons_0) simp_all
  note slot = line_slot [OF sorted_filter_upt ne k_def]
  have p: "p \<le> length bs" by (simp add: p_def)
  show "lc_line lc = length (filter (line_start_at bs) [0..<Suc p])"
    using slot_count [OF slot refl p] by (simp add: lc del: upt_Suc)
  show "lc_column lc \<le> Suc p" "1 \<le> lc_column lc" by (simp_all add: lc)
  have start: "Suc p - lc_column lc = ?xs ! k" using slot(2) by (simp add: lc del: upt_Suc)
  have "?xs ! k \<in> set ?xs" using slot(1) by (rule nth_mem)
  then show "line_start_at bs (Suc p - lc_column lc)" unfolding start by (simp del: upt_Suc)
  fix j assume j: "Suc p - lc_column lc < j" "j \<le> p"
  show "\<not> line_start_at bs j"
  proof
    assume "line_start_at bs j"
    then have "j \<in> set ?xs" using j p by (simp del: upt_Suc)
    then obtain m where m: "m < length ?xs" "?xs ! m = j" by (metis in_set_conv_nth)
    have "k < m"
    proof (rule ccontr)
      assume "\<not> k < m"
      then have "?xs ! m \<le> ?xs ! k"
        using slot(1) sorted_filter_upt [of "line_start_at bs" 0 "Suc (length bs)"]
        by (metis le_less not_le sorted_wrt_iff_nth_less)
      then show False using j(1) m(2) start by (simp del: upt_Suc)
    qed
    then show False using slot(3) [of m] m j(2) by (simp del: upt_Suc)
  qed
qed

lemma line_starts_count: "length (line_starts_from E bs i) + c = count_newlines_loop E bs c i"
proof (induction "length bs - i" arbitrary: c i rule: less_induct)
  case less
  show ?case
  proof (cases "i < length bs")
    case True
    then have IH: "length (line_starts_from E bs m) + Suc c = count_newlines_loop E bs (Suc c) m" if "i < m" for m
      using that by (intro less) simp
    note step = line_starts_from.simps [of E bs i, unfolded find_any2_def memchr2_eq]
      count_newlines_loop.simps [of E bs c i, unfolded memchr2_eq]
    show ?thesis
    proof (cases "position (\<lambda>b. b = CHR 0x0A \<or> b = CHR 0x0D) (drop i bs)")
      case None
      then show ?thesis using step True by simp
    next
      case (Some r)
      then have "bs ! (i + r) = CHR 0x0A \<or> bs ! (i + r) = CHR 0x0D" "i + r < length bs"
        by (auto simp: position_Some_iff)
      then show ?thesis
        using step True Some IH [of "i + r + 1"] IH [of "i + r + 2"]
        by (auto simp: Let_def get_at_Some_iff)
    qed
  next
    case False
    then show ?thesis by (simp add: line_starts_from.simps count_newlines_loop.simps)
  qed
qed

end

section \<open>Properties of the line index\<close>

text \<open>C21. \<open>line_col\<close> reports, for a position clamped to the source, the number of lines that
  start at or before it, and a byte column counted from the last line start at or before it;
  lines start after a line feed and after a carriage return that no line feed follows.\<close>

theorem line_col_correct:
  assumes "memchr_ok E" and "p = min pos (length src)"
    and "lc = source_text_line_col (source_text_new E src) pos"
  shows "lc_line lc = length (filter (line_start_at src) [0..<Suc p]) \<and>
    1 \<le> lc_column lc \<and> lc_column lc \<le> Suc p \<and> line_start_at src (Suc p - lc_column lc) \<and>
    (\<forall>j. Suc p - lc_column lc < j \<and> j \<le> p \<longrightarrow> \<not> line_start_at src j)"
  using byte_search.line_col_spec [OF byte_search.intro [OF assms(1)], where bs = src and pos = pos]
  unfolding assms(2,3) source_text_line_col_def source_text_new_def source_text.simps by blast

theorem line_col_correct_witness:
  "lc_line (source_text_line_col (source_text_new (scalar_env Avx2 True) [CHR ''a'', CHR 0x0D, CHR 0x0A, CHR ''b'']) 9) = 2"
proof -
  let ?src = "[CHR ''a'', CHR 0x0D, CHR 0x0A, CHR ''b'']"
  have "length (filter (line_start_at ?src) [0..<Suc (min 9 (length ?src))]) = 2" by code_simp
  then show ?thesis
    using line_col_correct [OF memchr_ok_scalar_env refl refl, where src = ?src and pos = 9] by metis
qed

text \<open>C22. The line count of the index is one more than the line breaks that
  \<open>count_newlines\<close> counts, which is what the scalar byte-by-byte count gives.\<close>

theorem line_count_newlines:
  assumes "memchr_ok E"
  shows "line_count (line_index_new E src) = Suc (count_newlines E src) \<and>
    count_newlines E src = count_newlines_scalar src"
  using byte_search.line_starts_count [OF byte_search.intro [OF assms], of src 0 0]
    byte_search.count_newlines_eq [OF byte_search.intro [OF assms], of src]
  by (simp add: line_count_def line_index_new_def count_newlines_def)

theorem line_count_newlines_witness:
  "line_count (line_index_new (scalar_env Neon True) [CHR 0x0D, CHR 0x0D, CHR 0x0A, CHR ''b'']) = 3"
proof -
  have "count_newlines_scalar [CHR 0x0D, CHR 0x0D, CHR 0x0A, CHR ''b''] = 2" by code_simp
  then show ?thesis
    using line_count_newlines [OF memchr_ok_scalar_env, of Neon True "[CHR 0x0D, CHR 0x0D, CHR 0x0A, CHR ''b'']"]
    by simp
qed

end
