(* ===== verification/Lexer_Token.thy ===== *)
theory Lexer_Token
  imports Source_Text
begin

text \<open>
  Tokens of the lexer: the token names, kinds and tokens of
  \<open>crates/php_lexer/src/token.rs\<close>, the PHP-visible names and numeric order, the keyword
  table of \<open>keywords.rs\<close>, the diagnostics of \<open>diagnostics.rs\<close> and the scanner modes of
  \<open>modes.rs\<close>. \<open>T_X\<close> is the source's \<open>TokenName::X\<close>. The source has one flat enumeration
  of 152 names; here it is the sum of five smaller ones, which changes nothing but the
  time the datatype takes to define.
\<close>

section \<open>Token names\<close>

datatype text_name =
    Txt_InlineHtml | Txt_OpenTag | Txt_OpenTagWithEcho | Txt_CloseTag | Txt_Whitespace
    | Txt_Comment | Txt_DocComment | Txt_BadCharacter | Txt_String | Txt_NameQualified
    | Txt_NameFullyQualified | Txt_NameRelative | Txt_Variable | Txt_LNumber | Txt_DNumber
    | Txt_ConstantEncapsedString | Txt_EncapsedAndWhitespace | Txt_StringVarName
    | Txt_NumString | Txt_CurlyOpen | Txt_DollarOpenCurlyBraces | Txt_StartHeredoc
    | Txt_EndHeredoc

datatype control_name =
    Ctl_If | Ctl_Else | Ctl_ElseIf | Ctl_EndIf | Ctl_While | Ctl_EndWhile | Ctl_For
    | Ctl_EndFor | Ctl_Foreach | Ctl_EndForeach | Ctl_Do | Ctl_Switch | Ctl_EndSwitch
    | Ctl_Case | Ctl_Default | Ctl_Match | Ctl_Break | Ctl_Continue | Ctl_Goto | Ctl_Return
    | Ctl_Try | Ctl_Catch | Ctl_Finally | Ctl_Throw | Ctl_Declare | Ctl_EndDeclare | Ctl_Echo
    | Ctl_Print | Ctl_Exit | Ctl_Eval | Ctl_Include | Ctl_IncludeOnce | Ctl_Require
    | Ctl_RequireOnce | Ctl_Yield | Ctl_YieldFrom | Ctl_HaltCompiler

datatype declaration_name =
    Dcl_Function | Dcl_Fn | Dcl_Const | Dcl_Use | Dcl_InsteadOf | Dcl_Global | Dcl_Static
    | Dcl_Abstract | Dcl_Final | Dcl_Private | Dcl_Protected | Dcl_Public | Dcl_PrivateSet
    | Dcl_ProtectedSet | Dcl_PublicSet | Dcl_Readonly | Dcl_Var | Dcl_Unset | Dcl_Isset
    | Dcl_Empty | Dcl_Class | Dcl_Trait | Dcl_Interface | Dcl_Enum | Dcl_Extends
    | Dcl_Implements | Dcl_Namespace | Dcl_List | Dcl_Array | Dcl_Callable | Dcl_As | Dcl_New
    | Dcl_Clone | Dcl_Instanceof | Dcl_LogicalOr | Dcl_LogicalXor | Dcl_LogicalAnd

datatype magic_name =
    Mag_Line | Mag_File | Mag_Dir | Mag_ClassC | Mag_TraitC | Mag_MethodC | Mag_FuncC
    | Mag_PropertyC | Mag_NamespaceC | Mag_IntCast | Mag_DoubleCast | Mag_StringCast
    | Mag_ArrayCast | Mag_ObjectCast | Mag_BoolCast | Mag_UnsetCast | Mag_VoidCast

datatype operator_name =
    Opr_NsSeparator | Opr_IsEqual | Opr_IsNotEqual | Opr_IsIdentical | Opr_IsNotIdentical
    | Opr_IsSmallerOrEqual | Opr_IsGreaterOrEqual | Opr_Spaceship | Opr_BooleanAnd
    | Opr_BooleanOr | Opr_Sl | Opr_Sr | Opr_SlEqual | Opr_SrEqual | Opr_PlusEqual
    | Opr_MinusEqual | Opr_MulEqual | Opr_DivEqual | Opr_ModEqual | Opr_ConcatEqual
    | Opr_AndEqual | Opr_OrEqual | Opr_XorEqual | Opr_Coalesce | Opr_CoalesceEqual
    | Opr_ObjectOperator | Opr_NullsafeObjectOperator | Opr_DoubleColon | Opr_DoubleArrow
    | Opr_Inc | Opr_Dec | Opr_Ellipsis | Opr_Pow | Opr_PowEqual | Opr_Attribute
    | Opr_AmpersandFollowedByVarOrVararg | Opr_AmpersandNotFollowedByVarOrVararg | Opr_Pipe

datatype token_name =
    Txt text_name | Ctl control_name | Dcl declaration_name | Mag magic_name | Opr operator_name

abbreviation T_InlineHtml :: token_name where "T_InlineHtml \<equiv> Txt Txt_InlineHtml"
abbreviation T_OpenTag :: token_name where "T_OpenTag \<equiv> Txt Txt_OpenTag"
abbreviation T_OpenTagWithEcho :: token_name where "T_OpenTagWithEcho \<equiv> Txt Txt_OpenTagWithEcho"
abbreviation T_CloseTag :: token_name where "T_CloseTag \<equiv> Txt Txt_CloseTag"
abbreviation T_Whitespace :: token_name where "T_Whitespace \<equiv> Txt Txt_Whitespace"
abbreviation T_Comment :: token_name where "T_Comment \<equiv> Txt Txt_Comment"
abbreviation T_DocComment :: token_name where "T_DocComment \<equiv> Txt Txt_DocComment"
abbreviation T_BadCharacter :: token_name where "T_BadCharacter \<equiv> Txt Txt_BadCharacter"
abbreviation T_String :: token_name where "T_String \<equiv> Txt Txt_String"
abbreviation T_If :: token_name where "T_If \<equiv> Ctl Ctl_If"
abbreviation T_Else :: token_name where "T_Else \<equiv> Ctl Ctl_Else"
abbreviation T_ElseIf :: token_name where "T_ElseIf \<equiv> Ctl Ctl_ElseIf"
abbreviation T_EndIf :: token_name where "T_EndIf \<equiv> Ctl Ctl_EndIf"
abbreviation T_Function :: token_name where "T_Function \<equiv> Dcl Dcl_Function"
abbreviation T_Class :: token_name where "T_Class \<equiv> Dcl Dcl_Class"
abbreviation T_Abstract :: token_name where "T_Abstract \<equiv> Dcl Dcl_Abstract"
abbreviation T_Final :: token_name where "T_Final \<equiv> Dcl Dcl_Final"
abbreviation T_Interface :: token_name where "T_Interface \<equiv> Dcl Dcl_Interface"
abbreviation T_Trait :: token_name where "T_Trait \<equiv> Dcl Dcl_Trait"
abbreviation T_Enum :: token_name where "T_Enum \<equiv> Dcl Dcl_Enum"
abbreviation T_Namespace :: token_name where "T_Namespace \<equiv> Dcl Dcl_Namespace"
abbreviation T_Use :: token_name where "T_Use \<equiv> Dcl Dcl_Use"
abbreviation T_As :: token_name where "T_As \<equiv> Dcl Dcl_As"
abbreviation T_InsteadOf :: token_name where "T_InsteadOf \<equiv> Dcl Dcl_InsteadOf"
abbreviation T_Match :: token_name where "T_Match \<equiv> Ctl Ctl_Match"
abbreviation T_Readonly :: token_name where "T_Readonly \<equiv> Dcl Dcl_Readonly"
abbreviation T_Fn :: token_name where "T_Fn \<equiv> Dcl Dcl_Fn"
abbreviation T_Yield :: token_name where "T_Yield \<equiv> Ctl Ctl_Yield"
abbreviation T_YieldFrom :: token_name where "T_YieldFrom \<equiv> Ctl Ctl_YieldFrom"
abbreviation T_Case :: token_name where "T_Case \<equiv> Ctl Ctl_Case"
abbreviation T_Default :: token_name where "T_Default \<equiv> Ctl Ctl_Default"
abbreviation T_Echo :: token_name where "T_Echo \<equiv> Ctl Ctl_Echo"
abbreviation T_Print :: token_name where "T_Print \<equiv> Ctl Ctl_Print"
abbreviation T_Return :: token_name where "T_Return \<equiv> Ctl Ctl_Return"
abbreviation T_Break :: token_name where "T_Break \<equiv> Ctl Ctl_Break"
abbreviation T_Continue :: token_name where "T_Continue \<equiv> Ctl Ctl_Continue"
abbreviation T_Extends :: token_name where "T_Extends \<equiv> Dcl Dcl_Extends"
abbreviation T_Implements :: token_name where "T_Implements \<equiv> Dcl Dcl_Implements"
abbreviation T_Public :: token_name where "T_Public \<equiv> Dcl Dcl_Public"
abbreviation T_Protected :: token_name where "T_Protected \<equiv> Dcl Dcl_Protected"
abbreviation T_Private :: token_name where "T_Private \<equiv> Dcl Dcl_Private"
abbreviation T_Static :: token_name where "T_Static \<equiv> Dcl Dcl_Static"
abbreviation T_Const :: token_name where "T_Const \<equiv> Dcl Dcl_Const"
abbreviation T_Var :: token_name where "T_Var \<equiv> Dcl Dcl_Var"
abbreviation T_Declare :: token_name where "T_Declare \<equiv> Ctl Ctl_Declare"
abbreviation T_EndDeclare :: token_name where "T_EndDeclare \<equiv> Ctl Ctl_EndDeclare"
abbreviation T_Global :: token_name where "T_Global \<equiv> Dcl Dcl_Global"
abbreviation T_Callable :: token_name where "T_Callable \<equiv> Dcl Dcl_Callable"
abbreviation T_Clone :: token_name where "T_Clone \<equiv> Dcl Dcl_Clone"
abbreviation T_New :: token_name where "T_New \<equiv> Dcl Dcl_New"
abbreviation T_While :: token_name where "T_While \<equiv> Ctl Ctl_While"
abbreviation T_EndWhile :: token_name where "T_EndWhile \<equiv> Ctl Ctl_EndWhile"
abbreviation T_Do :: token_name where "T_Do \<equiv> Ctl Ctl_Do"
abbreviation T_For :: token_name where "T_For \<equiv> Ctl Ctl_For"
abbreviation T_EndFor :: token_name where "T_EndFor \<equiv> Ctl Ctl_EndFor"
abbreviation T_Foreach :: token_name where "T_Foreach \<equiv> Ctl Ctl_Foreach"
abbreviation T_EndForeach :: token_name where "T_EndForeach \<equiv> Ctl Ctl_EndForeach"
abbreviation T_Switch :: token_name where "T_Switch \<equiv> Ctl Ctl_Switch"
abbreviation T_EndSwitch :: token_name where "T_EndSwitch \<equiv> Ctl Ctl_EndSwitch"
abbreviation T_Try :: token_name where "T_Try \<equiv> Ctl Ctl_Try"
abbreviation T_Throw :: token_name where "T_Throw \<equiv> Ctl Ctl_Throw"
abbreviation T_Catch :: token_name where "T_Catch \<equiv> Ctl Ctl_Catch"
abbreviation T_Finally :: token_name where "T_Finally \<equiv> Ctl Ctl_Finally"
abbreviation T_Include :: token_name where "T_Include \<equiv> Ctl Ctl_Include"
abbreviation T_IncludeOnce :: token_name where "T_IncludeOnce \<equiv> Ctl Ctl_IncludeOnce"
abbreviation T_Require :: token_name where "T_Require \<equiv> Ctl Ctl_Require"
abbreviation T_RequireOnce :: token_name where "T_RequireOnce \<equiv> Ctl Ctl_RequireOnce"
abbreviation T_Eval :: token_name where "T_Eval \<equiv> Ctl Ctl_Eval"
abbreviation T_Isset :: token_name where "T_Isset \<equiv> Dcl Dcl_Isset"
abbreviation T_Empty :: token_name where "T_Empty \<equiv> Dcl Dcl_Empty"
abbreviation T_Unset :: token_name where "T_Unset \<equiv> Dcl Dcl_Unset"
abbreviation T_List :: token_name where "T_List \<equiv> Dcl Dcl_List"
abbreviation T_Array :: token_name where "T_Array \<equiv> Dcl Dcl_Array"
abbreviation T_Instanceof :: token_name where "T_Instanceof \<equiv> Dcl Dcl_Instanceof"
abbreviation T_Goto :: token_name where "T_Goto \<equiv> Ctl Ctl_Goto"
abbreviation T_Exit :: token_name where "T_Exit \<equiv> Ctl Ctl_Exit"
abbreviation T_HaltCompiler :: token_name where "T_HaltCompiler \<equiv> Ctl Ctl_HaltCompiler"
abbreviation T_Variable :: token_name where "T_Variable \<equiv> Txt Txt_Variable"
abbreviation T_NsSeparator :: token_name where "T_NsSeparator \<equiv> Opr Opr_NsSeparator"
abbreviation T_NameFullyQualified :: token_name where "T_NameFullyQualified \<equiv> Txt Txt_NameFullyQualified"
abbreviation T_NameQualified :: token_name where "T_NameQualified \<equiv> Txt Txt_NameQualified"
abbreviation T_NameRelative :: token_name where "T_NameRelative \<equiv> Txt Txt_NameRelative"
abbreviation T_LNumber :: token_name where "T_LNumber \<equiv> Txt Txt_LNumber"
abbreviation T_DNumber :: token_name where "T_DNumber \<equiv> Txt Txt_DNumber"
abbreviation T_IsEqual :: token_name where "T_IsEqual \<equiv> Opr Opr_IsEqual"
abbreviation T_IsNotEqual :: token_name where "T_IsNotEqual \<equiv> Opr Opr_IsNotEqual"
abbreviation T_IsIdentical :: token_name where "T_IsIdentical \<equiv> Opr Opr_IsIdentical"
abbreviation T_IsNotIdentical :: token_name where "T_IsNotIdentical \<equiv> Opr Opr_IsNotIdentical"
abbreviation T_IsSmallerOrEqual :: token_name where "T_IsSmallerOrEqual \<equiv> Opr Opr_IsSmallerOrEqual"
abbreviation T_IsGreaterOrEqual :: token_name where "T_IsGreaterOrEqual \<equiv> Opr Opr_IsGreaterOrEqual"
abbreviation T_Spaceship :: token_name where "T_Spaceship \<equiv> Opr Opr_Spaceship"
abbreviation T_BooleanAnd :: token_name where "T_BooleanAnd \<equiv> Opr Opr_BooleanAnd"
abbreviation T_BooleanOr :: token_name where "T_BooleanOr \<equiv> Opr Opr_BooleanOr"
abbreviation T_LogicalAnd :: token_name where "T_LogicalAnd \<equiv> Dcl Dcl_LogicalAnd"
abbreviation T_LogicalOr :: token_name where "T_LogicalOr \<equiv> Dcl Dcl_LogicalOr"
abbreviation T_LogicalXor :: token_name where "T_LogicalXor \<equiv> Dcl Dcl_LogicalXor"
abbreviation T_Sl :: token_name where "T_Sl \<equiv> Opr Opr_Sl"
abbreviation T_Sr :: token_name where "T_Sr \<equiv> Opr Opr_Sr"
abbreviation T_SlEqual :: token_name where "T_SlEqual \<equiv> Opr Opr_SlEqual"
abbreviation T_SrEqual :: token_name where "T_SrEqual \<equiv> Opr Opr_SrEqual"
abbreviation T_PlusEqual :: token_name where "T_PlusEqual \<equiv> Opr Opr_PlusEqual"
abbreviation T_MinusEqual :: token_name where "T_MinusEqual \<equiv> Opr Opr_MinusEqual"
abbreviation T_MulEqual :: token_name where "T_MulEqual \<equiv> Opr Opr_MulEqual"
abbreviation T_DivEqual :: token_name where "T_DivEqual \<equiv> Opr Opr_DivEqual"
abbreviation T_ModEqual :: token_name where "T_ModEqual \<equiv> Opr Opr_ModEqual"
abbreviation T_ConcatEqual :: token_name where "T_ConcatEqual \<equiv> Opr Opr_ConcatEqual"
abbreviation T_AndEqual :: token_name where "T_AndEqual \<equiv> Opr Opr_AndEqual"
abbreviation T_OrEqual :: token_name where "T_OrEqual \<equiv> Opr Opr_OrEqual"
abbreviation T_XorEqual :: token_name where "T_XorEqual \<equiv> Opr Opr_XorEqual"
abbreviation T_Coalesce :: token_name where "T_Coalesce \<equiv> Opr Opr_Coalesce"
abbreviation T_CoalesceEqual :: token_name where "T_CoalesceEqual \<equiv> Opr Opr_CoalesceEqual"
abbreviation T_ObjectOperator :: token_name where "T_ObjectOperator \<equiv> Opr Opr_ObjectOperator"
abbreviation T_NullsafeObjectOperator :: token_name where "T_NullsafeObjectOperator \<equiv> Opr Opr_NullsafeObjectOperator"
abbreviation T_DoubleColon :: token_name where "T_DoubleColon \<equiv> Opr Opr_DoubleColon"
abbreviation T_DoubleArrow :: token_name where "T_DoubleArrow \<equiv> Opr Opr_DoubleArrow"
abbreviation T_Inc :: token_name where "T_Inc \<equiv> Opr Opr_Inc"
abbreviation T_Dec :: token_name where "T_Dec \<equiv> Opr Opr_Dec"
abbreviation T_Ellipsis :: token_name where "T_Ellipsis \<equiv> Opr Opr_Ellipsis"
abbreviation T_Pow :: token_name where "T_Pow \<equiv> Opr Opr_Pow"
abbreviation T_PowEqual :: token_name where "T_PowEqual \<equiv> Opr Opr_PowEqual"
abbreviation T_Attribute :: token_name where "T_Attribute \<equiv> Opr Opr_Attribute"
abbreviation T_IntCast :: token_name where "T_IntCast \<equiv> Mag Mag_IntCast"
abbreviation T_DoubleCast :: token_name where "T_DoubleCast \<equiv> Mag Mag_DoubleCast"
abbreviation T_StringCast :: token_name where "T_StringCast \<equiv> Mag Mag_StringCast"
abbreviation T_ArrayCast :: token_name where "T_ArrayCast \<equiv> Mag Mag_ArrayCast"
abbreviation T_ObjectCast :: token_name where "T_ObjectCast \<equiv> Mag Mag_ObjectCast"
abbreviation T_BoolCast :: token_name where "T_BoolCast \<equiv> Mag Mag_BoolCast"
abbreviation T_UnsetCast :: token_name where "T_UnsetCast \<equiv> Mag Mag_UnsetCast"
abbreviation T_AmpersandFollowedByVarOrVararg :: token_name where "T_AmpersandFollowedByVarOrVararg \<equiv> Opr Opr_AmpersandFollowedByVarOrVararg"
abbreviation T_AmpersandNotFollowedByVarOrVararg :: token_name where "T_AmpersandNotFollowedByVarOrVararg \<equiv> Opr Opr_AmpersandNotFollowedByVarOrVararg"
abbreviation T_PublicSet :: token_name where "T_PublicSet \<equiv> Dcl Dcl_PublicSet"
abbreviation T_ProtectedSet :: token_name where "T_ProtectedSet \<equiv> Dcl Dcl_ProtectedSet"
abbreviation T_PrivateSet :: token_name where "T_PrivateSet \<equiv> Dcl Dcl_PrivateSet"
abbreviation T_ConstantEncapsedString :: token_name where "T_ConstantEncapsedString \<equiv> Txt Txt_ConstantEncapsedString"
abbreviation T_EncapsedAndWhitespace :: token_name where "T_EncapsedAndWhitespace \<equiv> Txt Txt_EncapsedAndWhitespace"
abbreviation T_NumString :: token_name where "T_NumString \<equiv> Txt Txt_NumString"
abbreviation T_StringVarName :: token_name where "T_StringVarName \<equiv> Txt Txt_StringVarName"
abbreviation T_CurlyOpen :: token_name where "T_CurlyOpen \<equiv> Txt Txt_CurlyOpen"
abbreviation T_DollarOpenCurlyBraces :: token_name where "T_DollarOpenCurlyBraces \<equiv> Txt Txt_DollarOpenCurlyBraces"
abbreviation T_StartHeredoc :: token_name where "T_StartHeredoc \<equiv> Txt Txt_StartHeredoc"
abbreviation T_EndHeredoc :: token_name where "T_EndHeredoc \<equiv> Txt Txt_EndHeredoc"
abbreviation T_Line :: token_name where "T_Line \<equiv> Mag Mag_Line"
abbreviation T_File :: token_name where "T_File \<equiv> Mag Mag_File"
abbreviation T_Dir :: token_name where "T_Dir \<equiv> Mag Mag_Dir"
abbreviation T_ClassC :: token_name where "T_ClassC \<equiv> Mag Mag_ClassC"
abbreviation T_TraitC :: token_name where "T_TraitC \<equiv> Mag Mag_TraitC"
abbreviation T_MethodC :: token_name where "T_MethodC \<equiv> Mag Mag_MethodC"
abbreviation T_FuncC :: token_name where "T_FuncC \<equiv> Mag Mag_FuncC"
abbreviation T_NamespaceC :: token_name where "T_NamespaceC \<equiv> Mag Mag_NamespaceC"
abbreviation T_PropertyC :: token_name where "T_PropertyC \<equiv> Mag Mag_PropertyC"
abbreviation T_Pipe :: token_name where "T_Pipe \<equiv> Opr Opr_Pipe"
abbreviation T_VoidCast :: token_name where "T_VoidCast \<equiv> Mag Mag_VoidCast"

primrec text_name_php :: "text_name \<Rightarrow> string" where
  "text_name_php Txt_InlineHtml = ''T_INLINE_HTML''"
| "text_name_php Txt_OpenTag = ''T_OPEN_TAG''"
| "text_name_php Txt_OpenTagWithEcho = ''T_OPEN_TAG_WITH_ECHO''"
| "text_name_php Txt_CloseTag = ''T_CLOSE_TAG''"
| "text_name_php Txt_Whitespace = ''T_WHITESPACE''"
| "text_name_php Txt_Comment = ''T_COMMENT''"
| "text_name_php Txt_DocComment = ''T_DOC_COMMENT''"
| "text_name_php Txt_BadCharacter = ''T_BAD_CHARACTER''"
| "text_name_php Txt_String = ''T_STRING''"
| "text_name_php Txt_NameQualified = ''T_NAME_QUALIFIED''"
| "text_name_php Txt_NameFullyQualified = ''T_NAME_FULLY_QUALIFIED''"
| "text_name_php Txt_NameRelative = ''T_NAME_RELATIVE''"
| "text_name_php Txt_Variable = ''T_VARIABLE''"
| "text_name_php Txt_LNumber = ''T_LNUMBER''"
| "text_name_php Txt_DNumber = ''T_DNUMBER''"
| "text_name_php Txt_ConstantEncapsedString = ''T_CONSTANT_ENCAPSED_STRING''"
| "text_name_php Txt_EncapsedAndWhitespace = ''T_ENCAPSED_AND_WHITESPACE''"
| "text_name_php Txt_StringVarName = ''T_STRING_VARNAME''"
| "text_name_php Txt_NumString = ''T_NUM_STRING''"
| "text_name_php Txt_CurlyOpen = ''T_CURLY_OPEN''"
| "text_name_php Txt_DollarOpenCurlyBraces = ''T_DOLLAR_OPEN_CURLY_BRACES''"
| "text_name_php Txt_StartHeredoc = ''T_START_HEREDOC''"
| "text_name_php Txt_EndHeredoc = ''T_END_HEREDOC''"

primrec control_name_php :: "control_name \<Rightarrow> string" where
  "control_name_php Ctl_If = ''T_IF''"
| "control_name_php Ctl_Else = ''T_ELSE''"
| "control_name_php Ctl_ElseIf = ''T_ELSEIF''"
| "control_name_php Ctl_EndIf = ''T_ENDIF''"
| "control_name_php Ctl_While = ''T_WHILE''"
| "control_name_php Ctl_EndWhile = ''T_ENDWHILE''"
| "control_name_php Ctl_For = ''T_FOR''"
| "control_name_php Ctl_EndFor = ''T_ENDFOR''"
| "control_name_php Ctl_Foreach = ''T_FOREACH''"
| "control_name_php Ctl_EndForeach = ''T_ENDFOREACH''"
| "control_name_php Ctl_Do = ''T_DO''"
| "control_name_php Ctl_Switch = ''T_SWITCH''"
| "control_name_php Ctl_EndSwitch = ''T_ENDSWITCH''"
| "control_name_php Ctl_Case = ''T_CASE''"
| "control_name_php Ctl_Default = ''T_DEFAULT''"
| "control_name_php Ctl_Match = ''T_MATCH''"
| "control_name_php Ctl_Break = ''T_BREAK''"
| "control_name_php Ctl_Continue = ''T_CONTINUE''"
| "control_name_php Ctl_Goto = ''T_GOTO''"
| "control_name_php Ctl_Return = ''T_RETURN''"
| "control_name_php Ctl_Try = ''T_TRY''"
| "control_name_php Ctl_Catch = ''T_CATCH''"
| "control_name_php Ctl_Finally = ''T_FINALLY''"
| "control_name_php Ctl_Throw = ''T_THROW''"
| "control_name_php Ctl_Declare = ''T_DECLARE''"
| "control_name_php Ctl_EndDeclare = ''T_ENDDECLARE''"
| "control_name_php Ctl_Echo = ''T_ECHO''"
| "control_name_php Ctl_Print = ''T_PRINT''"
| "control_name_php Ctl_Exit = ''T_EXIT''"
| "control_name_php Ctl_Eval = ''T_EVAL''"
| "control_name_php Ctl_Include = ''T_INCLUDE''"
| "control_name_php Ctl_IncludeOnce = ''T_INCLUDE_ONCE''"
| "control_name_php Ctl_Require = ''T_REQUIRE''"
| "control_name_php Ctl_RequireOnce = ''T_REQUIRE_ONCE''"
| "control_name_php Ctl_Yield = ''T_YIELD''"
| "control_name_php Ctl_YieldFrom = ''T_YIELD_FROM''"
| "control_name_php Ctl_HaltCompiler = ''T_HALT_COMPILER''"

primrec declaration_name_php :: "declaration_name \<Rightarrow> string" where
  "declaration_name_php Dcl_Function = ''T_FUNCTION''"
| "declaration_name_php Dcl_Fn = ''T_FN''"
| "declaration_name_php Dcl_Const = ''T_CONST''"
| "declaration_name_php Dcl_Use = ''T_USE''"
| "declaration_name_php Dcl_InsteadOf = ''T_INSTEADOF''"
| "declaration_name_php Dcl_Global = ''T_GLOBAL''"
| "declaration_name_php Dcl_Static = ''T_STATIC''"
| "declaration_name_php Dcl_Abstract = ''T_ABSTRACT''"
| "declaration_name_php Dcl_Final = ''T_FINAL''"
| "declaration_name_php Dcl_Private = ''T_PRIVATE''"
| "declaration_name_php Dcl_Protected = ''T_PROTECTED''"
| "declaration_name_php Dcl_Public = ''T_PUBLIC''"
| "declaration_name_php Dcl_PrivateSet = ''T_PRIVATE_SET''"
| "declaration_name_php Dcl_ProtectedSet = ''T_PROTECTED_SET''"
| "declaration_name_php Dcl_PublicSet = ''T_PUBLIC_SET''"
| "declaration_name_php Dcl_Readonly = ''T_READONLY''"
| "declaration_name_php Dcl_Var = ''T_VAR''"
| "declaration_name_php Dcl_Unset = ''T_UNSET''"
| "declaration_name_php Dcl_Isset = ''T_ISSET''"
| "declaration_name_php Dcl_Empty = ''T_EMPTY''"
| "declaration_name_php Dcl_Class = ''T_CLASS''"
| "declaration_name_php Dcl_Trait = ''T_TRAIT''"
| "declaration_name_php Dcl_Interface = ''T_INTERFACE''"
| "declaration_name_php Dcl_Enum = ''T_ENUM''"
| "declaration_name_php Dcl_Extends = ''T_EXTENDS''"
| "declaration_name_php Dcl_Implements = ''T_IMPLEMENTS''"
| "declaration_name_php Dcl_Namespace = ''T_NAMESPACE''"
| "declaration_name_php Dcl_List = ''T_LIST''"
| "declaration_name_php Dcl_Array = ''T_ARRAY''"
| "declaration_name_php Dcl_Callable = ''T_CALLABLE''"
| "declaration_name_php Dcl_As = ''T_AS''"
| "declaration_name_php Dcl_New = ''T_NEW''"
| "declaration_name_php Dcl_Clone = ''T_CLONE''"
| "declaration_name_php Dcl_Instanceof = ''T_INSTANCEOF''"
| "declaration_name_php Dcl_LogicalOr = ''T_LOGICAL_OR''"
| "declaration_name_php Dcl_LogicalXor = ''T_LOGICAL_XOR''"
| "declaration_name_php Dcl_LogicalAnd = ''T_LOGICAL_AND''"

primrec magic_name_php :: "magic_name \<Rightarrow> string" where
  "magic_name_php Mag_Line = ''T_LINE''"
| "magic_name_php Mag_File = ''T_FILE''"
| "magic_name_php Mag_Dir = ''T_DIR''"
| "magic_name_php Mag_ClassC = ''T_CLASS_C''"
| "magic_name_php Mag_TraitC = ''T_TRAIT_C''"
| "magic_name_php Mag_MethodC = ''T_METHOD_C''"
| "magic_name_php Mag_FuncC = ''T_FUNC_C''"
| "magic_name_php Mag_PropertyC = ''T_PROPERTY_C''"
| "magic_name_php Mag_NamespaceC = ''T_NS_C''"
| "magic_name_php Mag_IntCast = ''T_INT_CAST''"
| "magic_name_php Mag_DoubleCast = ''T_DOUBLE_CAST''"
| "magic_name_php Mag_StringCast = ''T_STRING_CAST''"
| "magic_name_php Mag_ArrayCast = ''T_ARRAY_CAST''"
| "magic_name_php Mag_ObjectCast = ''T_OBJECT_CAST''"
| "magic_name_php Mag_BoolCast = ''T_BOOL_CAST''"
| "magic_name_php Mag_UnsetCast = ''T_UNSET_CAST''"
| "magic_name_php Mag_VoidCast = ''T_VOID_CAST''"

primrec operator_name_php :: "operator_name \<Rightarrow> string" where
  "operator_name_php Opr_NsSeparator = ''T_NS_SEPARATOR''"
| "operator_name_php Opr_IsEqual = ''T_IS_EQUAL''"
| "operator_name_php Opr_IsNotEqual = ''T_IS_NOT_EQUAL''"
| "operator_name_php Opr_IsIdentical = ''T_IS_IDENTICAL''"
| "operator_name_php Opr_IsNotIdentical = ''T_IS_NOT_IDENTICAL''"
| "operator_name_php Opr_IsSmallerOrEqual = ''T_IS_SMALLER_OR_EQUAL''"
| "operator_name_php Opr_IsGreaterOrEqual = ''T_IS_GREATER_OR_EQUAL''"
| "operator_name_php Opr_Spaceship = ''T_SPACESHIP''"
| "operator_name_php Opr_BooleanAnd = ''T_BOOLEAN_AND''"
| "operator_name_php Opr_BooleanOr = ''T_BOOLEAN_OR''"
| "operator_name_php Opr_Sl = ''T_SL''"
| "operator_name_php Opr_Sr = ''T_SR''"
| "operator_name_php Opr_SlEqual = ''T_SL_EQUAL''"
| "operator_name_php Opr_SrEqual = ''T_SR_EQUAL''"
| "operator_name_php Opr_PlusEqual = ''T_PLUS_EQUAL''"
| "operator_name_php Opr_MinusEqual = ''T_MINUS_EQUAL''"
| "operator_name_php Opr_MulEqual = ''T_MUL_EQUAL''"
| "operator_name_php Opr_DivEqual = ''T_DIV_EQUAL''"
| "operator_name_php Opr_ModEqual = ''T_MOD_EQUAL''"
| "operator_name_php Opr_ConcatEqual = ''T_CONCAT_EQUAL''"
| "operator_name_php Opr_AndEqual = ''T_AND_EQUAL''"
| "operator_name_php Opr_OrEqual = ''T_OR_EQUAL''"
| "operator_name_php Opr_XorEqual = ''T_XOR_EQUAL''"
| "operator_name_php Opr_Coalesce = ''T_COALESCE''"
| "operator_name_php Opr_CoalesceEqual = ''T_COALESCE_EQUAL''"
| "operator_name_php Opr_ObjectOperator = ''T_OBJECT_OPERATOR''"
| "operator_name_php Opr_NullsafeObjectOperator = ''T_NULLSAFE_OBJECT_OPERATOR''"
| "operator_name_php Opr_DoubleColon = ''T_DOUBLE_COLON''"
| "operator_name_php Opr_DoubleArrow = ''T_DOUBLE_ARROW''"
| "operator_name_php Opr_Inc = ''T_INC''"
| "operator_name_php Opr_Dec = ''T_DEC''"
| "operator_name_php Opr_Ellipsis = ''T_ELLIPSIS''"
| "operator_name_php Opr_Pow = ''T_POW''"
| "operator_name_php Opr_PowEqual = ''T_POW_EQUAL''"
| "operator_name_php Opr_Attribute = ''T_ATTRIBUTE''"
| "operator_name_php Opr_AmpersandFollowedByVarOrVararg = ''T_AMPERSAND_FOLLOWED_BY_VAR_OR_VARARG''"
| "operator_name_php Opr_AmpersandNotFollowedByVarOrVararg = ''T_AMPERSAND_NOT_FOLLOWED_BY_VAR_OR_VARARG''"
| "operator_name_php Opr_Pipe = ''T_PIPE''"

primrec as_php_name :: "token_name \<Rightarrow> string" where
  "as_php_name (Txt n) = text_name_php n"
| "as_php_name (Ctl n) = control_name_php n"
| "as_php_name (Dcl n) = declaration_name_php n"
| "as_php_name (Mag n) = magic_name_php n"
| "as_php_name (Opr n) = operator_name_php n"

definition TOKENIZER_TOKEN_ID_BASE :: int where
  "TOKENIZER_TOKEN_ID_BASE = 260"

definition TOKENIZER_TOKEN_NAMES :: "token_name list" where
  "TOKENIZER_TOKEN_NAMES =
     [T_LNumber, T_DNumber, T_String, T_NameFullyQualified, T_NameRelative, T_NameQualified,
     T_Variable, T_InlineHtml, T_EncapsedAndWhitespace, T_ConstantEncapsedString,
     T_StringVarName, T_NumString, T_Include, T_IncludeOnce, T_Eval, T_Require, T_RequireOnce,
     T_LogicalOr, T_LogicalXor, T_LogicalAnd, T_Print, T_Yield, T_YieldFrom, T_Instanceof,
     T_New, T_Clone, T_Exit, T_If, T_ElseIf, T_Else, T_EndIf, T_Echo, T_Do, T_While,
     T_EndWhile, T_For, T_EndFor, T_Foreach, T_EndForeach, T_Declare, T_EndDeclare, T_As,
     T_Switch, T_EndSwitch, T_Case, T_Default, T_Match, T_Break, T_Continue, T_Goto,
     T_Function, T_Fn, T_Const, T_Return, T_Try, T_Catch, T_Finally, T_Throw, T_Use,
     T_InsteadOf, T_Global, T_Static, T_Abstract, T_Final, T_Private, T_Protected, T_Public,
     T_PrivateSet, T_ProtectedSet, T_PublicSet, T_Readonly, T_Var, T_Unset, T_Isset, T_Empty,
     T_HaltCompiler, T_Class, T_Trait, T_Interface, T_Enum, T_Extends, T_Implements,
     T_Namespace, T_List, T_Array, T_Callable, T_Line, T_File, T_Dir, T_ClassC, T_TraitC,
     T_MethodC, T_FuncC, T_PropertyC, T_NamespaceC, T_Attribute, T_PlusEqual, T_MinusEqual,
     T_MulEqual, T_DivEqual, T_ConcatEqual, T_ModEqual, T_AndEqual, T_OrEqual, T_XorEqual,
     T_SlEqual, T_SrEqual, T_CoalesceEqual, T_BooleanOr, T_BooleanAnd, T_IsEqual, T_IsNotEqual,
     T_IsIdentical, T_IsNotIdentical, T_IsSmallerOrEqual, T_IsGreaterOrEqual, T_Spaceship,
     T_Sl, T_Sr, T_Inc, T_Dec, T_IntCast, T_DoubleCast, T_StringCast, T_ArrayCast,
     T_ObjectCast, T_BoolCast, T_UnsetCast, T_VoidCast, T_ObjectOperator,
     T_NullsafeObjectOperator, T_DoubleArrow, T_Comment, T_DocComment, T_OpenTag,
     T_OpenTagWithEcho, T_CloseTag, T_Whitespace, T_StartHeredoc, T_EndHeredoc,
     T_DollarOpenCurlyBraces, T_CurlyOpen, T_DoubleColon, T_NsSeparator, T_Ellipsis,
     T_Coalesce, T_Pow, T_PowEqual, T_Pipe, T_AmpersandFollowedByVarOrVararg,
     T_AmpersandNotFollowedByVarOrVararg, T_BadCharacter]"

section \<open>Kinds and tokens\<close>

datatype symbol_kind = SymChar byte

datatype token_kind = Named token_name | Symbol symbol_kind | Eof

record token =
  tok_kind :: token_kind
  tok_range :: text_range
  tok_line :: nat

definition token_new :: "token_kind \<Rightarrow> text_range \<Rightarrow> nat \<Rightarrow> token" where
  "token_new k r l = \<lparr>tok_kind = k, tok_range = r, tok_line = l\<rparr>"

text \<open>\<open>source.get(start..end)\<close> is \<open>None\<close> unless both ends are character boundaries.\<close>

definition token_text :: "token \<Rightarrow> bytes \<Rightarrow> bytes option" where
  "token_text t source =
     source_text_slice \<lparr>source_bytes = source, text_index = \<lparr>line_starts = [0], source_len = length source\<rparr>\<rparr>
       (tok_range t)"

section \<open>Keywords\<close>

definition KEYWORDS :: "(bytes \<times> token_name) list" where
  "KEYWORDS =
     [(''abstract'', T_Abstract), (''and'', T_LogicalAnd), (''array'', T_Array),
     (''as'', T_As), (''break'', T_Break), (''callable'', T_Callable), (''case'', T_Case),
     (''catch'', T_Catch), (''class'', T_Class), (''clone'', T_Clone), (''const'', T_Const),
     (''continue'', T_Continue), (''declare'', T_Declare), (''default'', T_Default),
     (''die'', T_Exit), (''do'', T_Do), (''echo'', T_Echo), (''else'', T_Else),
     (''elseif'', T_ElseIf), (''empty'', T_Empty), (''enddeclare'', T_EndDeclare),
     (''endfor'', T_EndFor), (''endforeach'', T_EndForeach), (''endif'', T_EndIf),
     (''endswitch'', T_EndSwitch), (''endwhile'', T_EndWhile), (''enum'', T_Enum),
     (''eval'', T_Eval), (''exit'', T_Exit), (''extends'', T_Extends), (''final'', T_Final),
     (''finally'', T_Finally), (''fn'', T_Fn), (''for'', T_For), (''foreach'', T_Foreach),
     (''function'', T_Function), (''global'', T_Global), (''goto'', T_Goto), (''if'', T_If),
     (''implements'', T_Implements), (''include'', T_Include),
     (''include_once'', T_IncludeOnce), (''instanceof'', T_Instanceof),
     (''insteadof'', T_InsteadOf), (''interface'', T_Interface), (''isset'', T_Isset),
     (''list'', T_List), (''match'', T_Match), (''namespace'', T_Namespace), (''new'', T_New),
     (''or'', T_LogicalOr), (''print'', T_Print), (''private'', T_Private),
     (''protected'', T_Protected), (''public'', T_Public), (''readonly'', T_Readonly),
     (''require'', T_Require), (''require_once'', T_RequireOnce), (''return'', T_Return),
     (''static'', T_Static), (''switch'', T_Switch), (''throw'', T_Throw),
     (''trait'', T_Trait), (''try'', T_Try), (''unset'', T_Unset), (''use'', T_Use),
     (''var'', T_Var), (''while'', T_While), (''xor'', T_LogicalXor), (''yield'', T_Yield),
     (''__halt_compiler'', T_HaltCompiler)]"

text \<open>The chain of comparisons with the magic constants, in the order of the source.\<close>

definition MAGIC_CONSTANTS :: "(bytes \<times> token_name) list" where
  "MAGIC_CONSTANTS =
     [(''__LINE__'', T_Line), (''__FILE__'', T_File), (''__DIR__'', T_Dir),
     (''__CLASS__'', T_ClassC), (''__TRAIT__'', T_TraitC), (''__METHOD__'', T_MethodC),
     (''__FUNCTION__'', T_FuncC), (''__NAMESPACE__'', T_NamespaceC),
     (''__PROPERTY__'', T_PropertyC)]"

fun find_keyword :: "bytes \<Rightarrow> (bytes \<times> token_name) list \<Rightarrow> token_name option" where
  "find_keyword bytes [] = None"
| "find_keyword bytes ((keyword, tok) # table) =
     (if eq_ignore_ascii_case bytes keyword then Some tok else find_keyword bytes table)"

definition keyword_or_magic_token :: "bytes \<Rightarrow> token_name option" where
  "keyword_or_magic_token bytes =
     (case find_keyword bytes KEYWORDS of
        Some tok \<Rightarrow> Some tok
      | None \<Rightarrow> find_keyword bytes MAGIC_CONSTANTS)"

section \<open>Modes and diagnostics\<close>

datatype lexer_mode =
    InlineHtml | Scripting | DoubleQuote | Backtick | Heredoc | Nowdoc
  | StringVarOffset | LookingForVarName

datatype lex_diagnostic_kind =
    InvalidInput | UnterminatedBlockComment | UnterminatedString | UnterminatedHeredoc | BadCharacter

primrec diagnostic_code :: "lex_diagnostic_kind \<Rightarrow> string" where
  "diagnostic_code InvalidInput = ''E_PHP_LEXER_INVALID_INPUT''"
| "diagnostic_code UnterminatedBlockComment = ''E_PHP_LEXER_UNTERMINATED_BLOCK_COMMENT''"
| "diagnostic_code UnterminatedString = ''E_PHP_LEXER_UNTERMINATED_STRING''"
| "diagnostic_code UnterminatedHeredoc = ''E_PHP_LEXER_UNTERMINATED_HEREDOC''"
| "diagnostic_code BadCharacter = ''E_PHP_LEXER_BAD_CHARACTER''"

record lex_diagnostic =
  diag_kind :: lex_diagnostic_kind
  diag_message :: string
  diag_span :: text_range
  diag_line :: nat

definition lex_diagnostic_new ::
    "lex_diagnostic_kind \<Rightarrow> string \<Rightarrow> text_range \<Rightarrow> nat \<Rightarrow> lex_diagnostic" where
  "lex_diagnostic_new k m s l = \<lparr>diag_kind = k, diag_message = m, diag_span = s, diag_line = l\<rparr>"

end
