(* ===== verification/Lexer.thy ===== *)
theory Lexer
  imports Lexer_Token
begin

text \<open>
  The byte-oriented PHP lexer, \<open>crates/php_lexer/src/lexer.rs\<close>, with the cursor of
  \<open>cursor.rs\<close> and the string scans of \<open>strings.rs\<close>: one definition per method, from the
  state \<open>lexer\<close> to the state it leaves. The cursor and the lexer share one source, so the
  state has the source once and the cursor's offset. A method returning \<open>Option<Token>\<close>
  that leaves the state alone when it returns \<open>None\<close> has type \<open>(token \<times> lexer) option\<close>. Line
  numbers (\<open>u32\<close>) are natural numbers here; \<open>Lexer_Lines\<close> bounds them by the source length.
\<close>

section \<open>State\<close>

record lexer_config =
  short_open_tag :: bool
  token_parse :: bool
  emit_eof :: bool

record encapsed_snapshot =
  snap_mode :: lexer_mode
  snap_mode_start :: nat
  snap_mode_start_line :: nat
  snap_expecting_object_property :: bool
  snap_expecting_string_varname :: bool
  snap_in_string_var_offset :: bool
  snap_in_braced_interpolation :: bool
  snap_last_encapsed_variable :: bool
  snap_heredoc_label :: "bytes option"
  snap_heredoc_nowdoc :: bool

record lexer =
  lx_source :: bytes
  lx_offset :: nat
  lx_config :: lexer_config
  lx_mode :: lexer_mode
  lx_mode_start :: nat
  lx_mode_start_line :: nat
  lx_line :: nat
  emitted_placeholder :: bool
  emitted_eof :: bool
  expecting_object_property :: bool
  expecting_string_varname :: bool
  in_string_var_offset :: bool
  in_braced_interpolation :: bool
  last_encapsed_variable :: bool
  last_significant_name :: "token_name option"
  halt_compiler_seen :: bool
  halt_compiler_significant_tokens :: nat
  heredoc_label :: "bytes option"
  heredoc_nowdoc :: bool
  encapsed_stack :: "encapsed_snapshot list"
  lx_diagnostics :: "lex_diagnostic list"

definition lexer_new :: "bytes \<Rightarrow> lexer_config \<Rightarrow> lexer" where
  "lexer_new source config =
     \<lparr>lx_source = source, lx_offset = 0, lx_config = config, lx_mode = InlineHtml,
      lx_mode_start = 0, lx_mode_start_line = 1, lx_line = 1,
      emitted_placeholder = False, emitted_eof = False,
      expecting_object_property = False, expecting_string_varname = False,
      in_string_var_offset = False, in_braced_interpolation = False,
      last_encapsed_variable = False, last_significant_name = None,
      halt_compiler_seen = False, halt_compiler_significant_tokens = 0,
      heredoc_label = None, heredoc_nowdoc = False, encapsed_stack = [], lx_diagnostics = []\<rparr>"

section \<open>Byte classes\<close>

definition is_php_whitespace :: "byte \<Rightarrow> bool" where
  "is_php_whitespace byte = (byte_val byte \<in> {32, 9, 10, 13, 0x0c})"

definition is_bad_character :: "byte \<Rightarrow> bool" where
  "is_bad_character byte =
     (let v = byte_val byte in v \<le> 0x08 \<or> v = 0x0b \<or> (0x0e \<le> v \<and> v \<le> 0x1f) \<or> v = 0x7f)"

definition is_identifier_start :: "byte \<Rightarrow> bool" where
  "is_identifier_start byte = (byte = CHR ''_'' \<or> is_ascii_alphabetic byte \<or> 0x80 \<le> byte_val byte)"

definition is_identifier_continue :: "byte \<Rightarrow> bool" where
  "is_identifier_continue byte = (is_identifier_start byte \<or> is_ascii_digit byte)"

definition is_decimal_digit :: "byte \<Rightarrow> bool" where
  "is_decimal_digit byte = is_ascii_digit byte"

definition is_hex_digit :: "byte \<Rightarrow> bool" where
  "is_hex_digit byte = is_ascii_hexdigit byte"

definition is_binary_digit :: "byte \<Rightarrow> bool" where
  "is_binary_digit byte = (byte = CHR ''0'' \<or> byte = CHR ''1'')"

definition is_octal_digit :: "byte \<Rightarrow> bool" where
  "is_octal_digit byte = (48 \<le> byte_val byte \<and> byte_val byte \<le> 55)"

fun nearest_found :: "nat option \<Rightarrow> nat option \<Rightarrow> nat option" where
  "nearest_found (Some a) (Some b) = Some (min a b)"
| "nearest_found (Some a) None = Some a"
| "nearest_found None (Some b) = Some b"
| "nearest_found None None = None"

section \<open>Integer literals\<close>

text \<open>\<open>&[u8]\<close> values compare lexicographically.\<close>

fun bytes_less :: "bytes \<Rightarrow> bytes \<Rightarrow> bool" where
  "bytes_less _ [] = False"
| "bytes_less [] (_ # _) = True"
| "bytes_less (a # as) (b # bs) =
     (byte_val a < byte_val b \<or> (a = b \<and> bytes_less as bs))"

definition digit_sequence_exceeds :: "bytes \<Rightarrow> bytes \<Rightarrow> bool" where
  "digit_sequence_exceeds digits limit =
     (let significant = (case position (\<lambda>byte. byte \<noteq> CHR ''0'') digits of
                           None \<Rightarrow> [] | Some index \<Rightarrow> drop index digits)
      in length limit < length significant \<or>
         (length significant = length limit \<and> bytes_less limit significant))"

definition integer_literal_overflows :: "bytes \<Rightarrow> bool" where
  "integer_literal_overflows bytes =
     (if take 1 bytes = ''0'' \<and> 1 < length bytes then
        let digits = filter (\<lambda>byte. byte \<noteq> CHR ''_'') (drop 1 bytes)
        in if list_all is_octal_digit digits
           then digit_sequence_exceeds digits ''777777777777777777777''
           else 22 < length digits
      else
        let digits = filter (\<lambda>byte. byte \<noteq> CHR ''_'') bytes
        in digit_sequence_exceeds digits ''9223372036854775807'')"

section \<open>Quoted strings (strings.rs)\<close>

datatype string_scan = Constant nat bool | Interpolated

function scan_single_quoted_loop :: "byte_env \<Rightarrow> bytes \<Rightarrow> nat \<Rightarrow> nat \<Rightarrow> string_scan" where
  "scan_single_quoted_loop E bytes start offset =
     (if offset < length bytes then
        (case find_any2 E (drop offset bytes) (CHR 0x5C) (CHR 0x27) of
           None \<Rightarrow> Constant (length bytes - start) False
         | Some relative \<Rightarrow>
             let offset' = offset + relative
             in if get_at bytes offset' = Some (CHR 0x5C) \<and>
                   (get_at bytes (offset' + 1) = Some (CHR 0x5C) \<or> get_at bytes (offset' + 1) = Some (CHR 0x27))
                then scan_single_quoted_loop E bytes start (offset' + 2)
                else if get_at bytes offset' = Some (CHR 0x27)
                then Constant (offset' + 1 - start) True
                else scan_single_quoted_loop E bytes start (offset' + 1))
      else Constant (length bytes - start) False)"
  by pat_completeness auto
termination
  by (relation "measure (\<lambda>(E, bytes, start, offset). length bytes - offset)") auto

declare scan_single_quoted_loop.simps [simp del]

definition scan_single_quoted :: "byte_env \<Rightarrow> bytes \<Rightarrow> nat \<Rightarrow> string_scan" where
  "scan_single_quoted E bytes start = scan_single_quoted_loop E bytes start (start + 1)"

definition starts_interpolation_after_dollar :: "bytes \<Rightarrow> nat \<Rightarrow> bool" where
  "starts_interpolation_after_dollar bytes offset =
     (get_at bytes offset = Some (CHR 0x7B) \<or> get_at bytes offset = Some (CHR ''_'') \<or>
      is_some_and (get_at bytes offset) (\<lambda>byte. is_ascii_alphabetic byte \<or> 0x80 \<le> byte_val byte))"

function scan_double_quoted_loop :: "byte_env \<Rightarrow> bytes \<Rightarrow> nat \<Rightarrow> nat \<Rightarrow> string_scan" where
  "scan_double_quoted_loop E bytes start offset =
     (if offset < length bytes then
        (case nearest_found (find_any3 E (drop offset bytes) (CHR 0x5C) (CHR 0x22) (CHR ''$''))
                            (find_byte E (drop offset bytes) (CHR 0x7B)) of
           None \<Rightarrow> Constant (length bytes - start) False
         | Some relative \<Rightarrow>
             let offset' = offset + relative
             in if get_at bytes offset' = Some (CHR 0x5C) then
                  scan_double_quoted_loop E bytes start
                    (if offset' + 1 < length bytes then offset' + 2 else offset' + 1)
                else if get_at bytes offset' = Some (CHR 0x22) then Constant (offset' + 1 - start) True
                else if get_at bytes offset' = Some (CHR ''$'') \<and>
                        starts_interpolation_after_dollar bytes (offset' + 1) then Interpolated
                else if get_at bytes offset' = Some (CHR 0x7B) \<and>
                        get_at bytes (offset' + 1) = Some (CHR ''$'') then Interpolated
                else scan_double_quoted_loop E bytes start (offset' + 1))
      else Constant (length bytes - start) False)"
  by pat_completeness auto
termination
  by (relation "measure (\<lambda>(E, bytes, start, offset). length bytes - offset)") auto

declare scan_double_quoted_loop.simps [simp del]

definition scan_double_quoted :: "byte_env \<Rightarrow> bytes \<Rightarrow> nat \<Rightarrow> string_scan" where
  "scan_double_quoted E bytes start = scan_double_quoted_loop E bytes start (start + 1)"

primrec add_string_prefix_len :: "string_scan \<Rightarrow> nat \<Rightarrow> string_scan" where
  "add_string_prefix_len (Constant len terminated) prefix_len = Constant (len + prefix_len) terminated"
| "add_string_prefix_len Interpolated prefix_len = Interpolated"

definition scan_constant_encapsed_string :: "byte_env \<Rightarrow> bytes \<Rightarrow> nat \<Rightarrow> string_scan option" where
  "scan_constant_encapsed_string E bytes start =
     (let prefixed = (get_at bytes start = Some (CHR ''b'') \<or> get_at bytes start = Some (CHR ''B'')) \<and>
            (get_at bytes (start + 1) = Some (CHR 0x27) \<or> get_at bytes (start + 1) = Some (CHR 0x22));
          quote_start = (if prefixed then start + 1 else start);
          prefix_len = (if prefixed then 1 else 0)
      in if get_at bytes quote_start = Some (CHR 0x27) then
           Some (add_string_prefix_len (scan_single_quoted E bytes quote_start) prefix_len)
         else if get_at bytes quote_start = Some (CHR 0x22) then
           (case scan_double_quoted E bytes quote_start of
              Constant len terminated \<Rightarrow> Some (Constant (len + prefix_len) terminated)
            | Interpolated \<Rightarrow> if prefix_len = 0 then Some Interpolated else None)
         else None)"

section \<open>Cursor (cursor.rs)\<close>

definition is_eof :: "lexer \<Rightarrow> bool" where
  "is_eof L = (length (lx_source L) \<le> lx_offset L)"

definition peek :: "lexer \<Rightarrow> byte option" where
  "peek L = get_at (lx_source L) (lx_offset L)"

definition peek_n :: "lexer \<Rightarrow> nat \<Rightarrow> byte option" where
  "peek_n L lookahead = get_at (lx_source L) (lx_offset L + lookahead)"

definition starts_with :: "lexer \<Rightarrow> bytes \<Rightarrow> bool" where
  "starts_with L needle = (take (length needle) (drop (lx_offset L) (lx_source L)) = needle)"

definition bump :: "lexer \<Rightarrow> lexer" where
  "bump L = (case peek L of None \<Rightarrow> L | Some _ \<Rightarrow> L\<lparr>lx_offset := lx_offset L + 1\<rparr>)"

definition advance_by :: "nat \<Rightarrow> lexer \<Rightarrow> lexer" where
  "advance_by len L = L\<lparr>lx_offset := min (lx_offset L + len) (length (lx_source L))\<rparr>"

section \<open>Consuming bytes\<close>

text \<open>The line after the bytes from \<open>index\<close> to \<open>en\<close>, when it is \<open>line\<close> before them.\<close>

function advance_line_for_range :: "byte_env \<Rightarrow> bytes \<Rightarrow> nat \<Rightarrow> nat \<Rightarrow> nat \<Rightarrow> nat" where
  "advance_line_for_range E bytes line index en =
     (if index < en then
        (case find_any2 E (sub_slice bytes index en) (CHR 0x0D) (CHR 0x0A) of
           None \<Rightarrow> line
         | Some relative \<Rightarrow>
             let index' = index + relative
             in if get_at bytes index' = Some (CHR 0x0D) then
                  advance_line_for_range E bytes (line + 1) (index' + 1) en
                else if get_at bytes index' = Some (CHR 0x0A) \<and>
                        (index' = 0 \<or> get_at bytes (index' - 1) \<noteq> Some (CHR 0x0D)) then
                  advance_line_for_range E bytes (line + 1) (index' + 1) en
                else advance_line_for_range E bytes line (index' + 1) en)
      else line)"
  by pat_completeness auto
termination
  by (relation "measure (\<lambda>(E, bytes, line, index, en). en - index)") auto

declare advance_line_for_range.simps [simp del]

definition consume_len :: "byte_env \<Rightarrow> nat \<Rightarrow> lexer \<Rightarrow> lexer" where
  "consume_len E len L =
     (let start = lx_offset L;
          en = min (start + len) (length (lx_source L));
          L' = L\<lparr>lx_line := advance_line_for_range E (lx_source L) (lx_line L) start en\<rparr>
      in if en - start = 1 then bump L' else advance_by (en - start) L')"

lemma lx_source_consume_len [simp]: "lx_source (consume_len E len L) = lx_source L"
  by (simp add: consume_len_def Let_def bump_def advance_by_def split: option.splits)

lemma lx_offset_consume_len [simp]:
  "lx_offset L \<le> length (lx_source L) \<Longrightarrow>
   lx_offset (consume_len E len L) = min (lx_offset L + len) (length (lx_source L))"
  by (auto simp: consume_len_def Let_def bump_def advance_by_def peek_def get_at_def split: option.splits)

text \<open>Tokens of a fixed length, and of the bytes since \<open>start\<close>.\<close>

definition consume_fixed_token :: "byte_env \<Rightarrow> token_kind \<Rightarrow> nat \<Rightarrow> lexer \<Rightarrow> token \<times> lexer" where
  "consume_fixed_token E kind len L =
     (let start = lx_offset L; line = lx_line L; L' = consume_len E len L
      in (token_new kind (text_range_new start (lx_offset L')) line, L'))"

text \<open>\<open>while !self.cursor.is_eof() && predicate(self) { self.consume_len(1) }\<close>\<close>

function consume_while :: "byte_env \<Rightarrow> (lexer \<Rightarrow> bool) \<Rightarrow> lexer \<Rightarrow> lexer" where
  "consume_while E predicate L =
     (if \<not> is_eof L \<and> predicate L then consume_while E predicate (consume_len E 1 L) else L)"
  by pat_completeness auto
termination
  by (relation "measure (\<lambda>(E, predicate, L). length (lx_source L) - lx_offset L)")
     (auto simp: is_eof_def)

declare consume_while.simps [simp del]

definition consume_while_token ::
    "byte_env \<Rightarrow> token_kind \<Rightarrow> (lexer \<Rightarrow> bool) \<Rightarrow> lexer \<Rightarrow> token \<times> lexer" where
  "consume_while_token E kind predicate L =
     (let L' = consume_while E predicate L
      in (token_new kind (text_range_new (lx_offset L) (lx_offset L')) (lx_line L), L'))"

definition push_diagnostic :: "lex_diagnostic \<Rightarrow> lexer \<Rightarrow> lexer" where
  "push_diagnostic d L = L\<lparr>lx_diagnostics := lx_diagnostics L @ [d]\<rparr>"

section \<open>Comments\<close>

function line_comment_loop :: "byte_env \<Rightarrow> lexer \<Rightarrow> lexer" where
  "line_comment_loop E L =
     (if is_eof L then L
      else
        let rest = drop (lx_offset L) (lx_source L)
        in case nearest_found (find_any2 E rest (CHR 0x0D) (CHR 0x0A)) (find_byte E rest (CHR ''?'')) of
             None \<Rightarrow> consume_len E (length rest) L
           | Some relative \<Rightarrow>
               if 0 < relative then line_comment_loop E (consume_len E relative L)
               else if starts_with L ''?>'' \<or> peek L = Some (CHR 0x0D) \<or> peek L = Some (CHR 0x0A) then L
               else line_comment_loop E (consume_len E 1 L))"
  by pat_completeness auto
termination
  by (relation "measure (\<lambda>(E, L). length (lx_source L) - lx_offset L)") (auto simp: is_eof_def)

declare line_comment_loop.simps [simp del]

definition consume_line_comment :: "byte_env \<Rightarrow> lexer \<Rightarrow> token \<times> lexer" where
  "consume_line_comment E L =
     (let L' = line_comment_loop E L
      in (token_new (Named T_Comment) (text_range_new (lx_offset L) (lx_offset L')) (lx_line L), L'))"

text \<open>The loop of \<open>consume_block_comment\<close>; the flag tells whether \<open>*/\<close> was found.\<close>

function block_comment_loop :: "byte_env \<Rightarrow> lexer \<Rightarrow> bool \<times> lexer" where
  "block_comment_loop E L =
     (if is_eof L then (False, L)
      else
        let rest = drop (lx_offset L) (lx_source L)
        in case find_byte E rest (CHR ''*'') of
             None \<Rightarrow> (False, consume_len E (length rest) L)
           | Some relative \<Rightarrow>
               if 0 < relative then block_comment_loop E (consume_len E relative L)
               else if starts_with L ''*/'' then (True, consume_len E 2 L)
               else block_comment_loop E (consume_len E 1 L))"
  by pat_completeness auto
termination
  by (relation "measure (\<lambda>(E, L). length (lx_source L) - lx_offset L)") (auto simp: is_eof_def)

declare block_comment_loop.simps [simp del]

definition consume_block_comment :: "byte_env \<Rightarrow> lexer \<Rightarrow> token \<times> lexer" where
  "consume_block_comment E L =
     (let start = lx_offset L; line = lx_line L;
          kind = (if starts_with L ''/**'' then Named T_DocComment else Named T_Comment);
          (closed, L') = block_comment_loop E (consume_len E 2 L);
          range = text_range_new start (lx_offset L')
      in if closed then (token_new kind range line, L')
         else (token_new kind range line,
               push_diagnostic (lex_diagnostic_new UnterminatedBlockComment
                 ''unterminated block comment'' range line) L'))"

section \<open>Words\<close>

definition word_at_offset :: "lexer \<Rightarrow> nat \<Rightarrow> bytes \<Rightarrow> bool" where
  "word_at_offset L offset word =
     (list_all (\<lambda>(index, expected).
          is_some_and (peek_n L (offset + index)) (\<lambda>actual. eq_ignore_ascii_case_byte actual expected))
        (enumerate 0 word) \<and>
      \<not> is_some_and (peek_n L (offset + length word)) is_identifier_continue)"

definition word_at_cursor :: "lexer \<Rightarrow> bytes \<Rightarrow> bool" where
  "word_at_cursor L word = word_at_offset L 0 word"

definition bytes_at_cursor_eq_ignore_ascii_case :: "lexer \<Rightarrow> bytes \<Rightarrow> bool" where
  "bytes_at_cursor_eq_ignore_ascii_case L expected =
     list_all (\<lambda>(index, byte).
        is_some_and (peek_n L index) (\<lambda>actual. eq_ignore_ascii_case_byte actual byte))
       (enumerate 0 expected)"

text \<open>\<open>while bytes.get(offset).is_some_and(p) { offset += 1 }\<close>\<close>

definition skip_while :: "(byte \<Rightarrow> bool) \<Rightarrow> bytes \<Rightarrow> nat \<Rightarrow> nat" where
  "skip_while p bytes offset = offset + length (takeWhile p (drop offset bytes))"

definition consume_yield_from :: "byte_env \<Rightarrow> lexer \<Rightarrow> (token \<times> lexer) option" where
  "consume_yield_from E L =
     (if \<not> word_at_cursor L ''yield'' then None
      else
        let offset = skip_while is_php_whitespace (lx_source L) (lx_offset L + 5) - lx_offset L;
            saw_whitespace = (5 < offset)
        in if \<not> saw_whitespace \<or> \<not> word_at_offset L offset ''from'' then None
           else
             let len = offset + 4
             in if is_some_and (peek_n L len) is_identifier_continue then None
                else Some (consume_fixed_token E (Named T_YieldFrom) len L))"

function identifier_bytes_loop :: "byte_env \<Rightarrow> lexer \<Rightarrow> lexer" where
  "identifier_bytes_loop E L =
     (case peek L of
        None \<Rightarrow> L
      | Some byte \<Rightarrow>
          let ascii_len = ascii_identifier_continue_chunk_len E (drop (lx_offset L) (lx_source L))
          in if 0 < ascii_len then identifier_bytes_loop E (consume_len E ascii_len L)
             else if 0x80 \<le> byte_val byte then identifier_bytes_loop E (consume_len E 1 L)
             else L)"
  by pat_completeness auto
termination
  by (relation "measure (\<lambda>(E, L). length (lx_source L) - lx_offset L)")
     (auto simp: peek_def get_at_Some_iff)

declare identifier_bytes_loop.simps [simp del]

definition consume_identifier_bytes :: "byte_env \<Rightarrow> lexer \<Rightarrow> lexer" where
  "consume_identifier_bytes E L =
     identifier_bytes_loop E (if is_some_and (peek L) is_identifier_start then consume_len E 1 L else L)"

text \<open>\<open>while peek == '\' && peek_n(1) starts an identifier { consume both }\<close>\<close>

definition at_name_separator :: "lexer \<Rightarrow> bool" where
  "at_name_separator L = (peek L = Some (CHR 0x5C) \<and> is_some_and (peek_n L 1) is_identifier_start)"

lemma identifier_bytes_loop_offset:
  "lx_offset L \<le> length (lx_source L) \<Longrightarrow>
   lx_source (identifier_bytes_loop E L) = lx_source L \<and> lx_offset L \<le> lx_offset (identifier_bytes_loop E L)"
proof (induction E L rule: identifier_bytes_loop.induct)
  case (1 E L)
  show ?case
  proof (cases "peek L")
    case None
    then show ?thesis by (simp add: identifier_bytes_loop.simps [of E L])
  next
    case (Some byte)
    then show ?thesis
      using 1 by (subst (1 2) identifier_bytes_loop.simps) (force simp: Let_def)
  qed
qed

lemma consume_identifier_bytes_offset:
  "lx_offset L \<le> length (lx_source L) \<Longrightarrow>
   lx_source (consume_identifier_bytes E L) = lx_source L \<and> lx_offset L \<le> lx_offset (consume_identifier_bytes E L)"
  using identifier_bytes_loop_offset [of L E] identifier_bytes_loop_offset [of "consume_len E 1 L" E]
  by (auto simp: consume_identifier_bytes_def)

function name_parts_loop :: "byte_env \<Rightarrow> lexer \<Rightarrow> lexer" where
  "name_parts_loop E L =
     (if at_name_separator L
      then name_parts_loop E (consume_identifier_bytes E (consume_len E 1 L)) else L)"
  by pat_completeness auto
termination
proof (relation "measure (\<lambda>(E, L). length (lx_source L) - lx_offset L)")
  fix E L assume "at_name_separator L"
  then have "lx_offset L < length (lx_source L)"
    by (simp add: at_name_separator_def peek_def get_at_Some_iff)
  then show "((E, consume_identifier_bytes E (consume_len E 1 L)), E, L)
      \<in> measure (\<lambda>(E, L). length (lx_source L) - lx_offset L)"
    using consume_identifier_bytes_offset [of "consume_len E 1 L" E] by (auto intro!: diff_less_mono2)
qed simp

declare name_parts_loop.simps [simp del]

definition previous_token_was_member_access :: "lexer \<Rightarrow> bool" where
  "previous_token_was_member_access L =
     (last_significant_name L \<in> {Some T_DoubleColon, Some T_ObjectOperator, Some T_NullsafeObjectOperator})"

definition consume_identifier_or_name :: "byte_env \<Rightarrow> lexer \<Rightarrow> token \<times> lexer" where
  "consume_identifier_or_name E L =
     (let start = lx_offset L; line = lx_line L; L1 = consume_identifier_bytes E L
      in if eq_ignore_ascii_case (sub_slice (lx_source L1) start (lx_offset L1)) ''namespace'' \<and>
            at_name_separator L1
         then
           let L2 = name_parts_loop E L1
           in (token_new (Named T_NameRelative) (text_range_new start (lx_offset L2)) line, L2)
         else
           let qualified = at_name_separator L1;
               L2 = name_parts_loop E L1;
               range = text_range_new start (lx_offset L2)
           in if qualified then (token_new (Named T_NameQualified) range line, L2)
              else
                let text = sub_slice (lx_source L2) (range_start range) (range_end range);
                    name = unwrap_or (keyword_or_magic_token text) T_String;
                    L3 = (if name = T_HaltCompiler \<and> \<not> previous_token_was_member_access L2
                          then L2\<lparr>halt_compiler_seen := True, halt_compiler_significant_tokens := 0\<rparr>
                          else L2)
                in (token_new (Named name) range line, L3))"

definition consume_qualified_name :: "byte_env \<Rightarrow> token_kind \<Rightarrow> bool \<Rightarrow> lexer \<Rightarrow> token \<times> lexer" where
  "consume_qualified_name E kind leading_backslash L =
     (let L1 = (if leading_backslash then consume_len E 1 L else L);
          L2 = name_parts_loop E (consume_identifier_bytes E L1)
      in (token_new kind (text_range_new (lx_offset L) (lx_offset L2)) (lx_line L), L2))"

definition consume_identifier_token :: "byte_env \<Rightarrow> token_name \<Rightarrow> lexer \<Rightarrow> token \<times> lexer" where
  "consume_identifier_token E name L =
     (let L' = consume_identifier_bytes E L
      in (token_new (Named name) (text_range_new (lx_offset L) (lx_offset L')) (lx_line L), L'))"

definition consume_variable_or_dollar :: "byte_env \<Rightarrow> lexer \<Rightarrow> token \<times> lexer" where
  "consume_variable_or_dollar E L =
     (let start = lx_offset L; line = lx_line L; L1 = consume_len E 1 L
      in if is_some_and (peek L1) is_identifier_start then
           let L2 = consume_while E (\<lambda>M. is_some_and (peek M) is_identifier_continue) L1
           in (token_new (Named T_Variable) (text_range_new start (lx_offset L2)) line, L2)
         else (token_new (Symbol (SymChar (CHR ''$''))) (text_range_new start (lx_offset L1)) line, L1))"

definition ampersand_is_followed_by_var_or_vararg :: "lexer \<Rightarrow> bool" where
  "ampersand_is_followed_by_var_or_vararg L =
     (let offset = skip_while is_php_whitespace (lx_source L) (lx_offset L + 1) - lx_offset L
      in peek_n L offset = Some (CHR ''$'') \<or>
         (peek_n L offset = Some (CHR ''.'') \<and> peek_n L (offset + 1) = Some (CHR ''.'') \<and>
          peek_n L (offset + 2) = Some (CHR ''.'')))"

definition consume_ampersand :: "byte_env \<Rightarrow> lexer \<Rightarrow> token \<times> lexer" where
  "consume_ampersand E L =
     consume_fixed_token E
       (Named (if ampersand_is_followed_by_var_or_vararg L then T_AmpersandFollowedByVarOrVararg
               else T_AmpersandNotFollowedByVarOrVararg)) 1 L"

definition consume_num_string :: "byte_env \<Rightarrow> lexer \<Rightarrow> token \<times> lexer" where
  "consume_num_string E L =
     (let L' = consume_while E (\<lambda>M. is_some_and (peek M) is_decimal_digit) L
      in (token_new (Named T_NumString) (text_range_new (lx_offset L) (lx_offset L')) (lx_line L), L'))"

section \<open>Numbers\<close>

function digit_sequence_loop :: "byte_env \<Rightarrow> (byte \<Rightarrow> bool) \<Rightarrow> lexer \<Rightarrow> lexer" where
  "digit_sequence_loop E predicate L =
     (case peek L of
        None \<Rightarrow> L
      | Some byte \<Rightarrow>
          if predicate byte then digit_sequence_loop E predicate (consume_len E 1 L)
          else if byte = CHR ''_'' \<and> is_some_and (peek_n L 1) predicate
          then digit_sequence_loop E predicate (consume_len E 2 L)
          else L)"
  by pat_completeness auto
termination
  by (relation "measure (\<lambda>(E, predicate, L). length (lx_source L) - lx_offset L)")
     (auto simp: peek_def get_at_Some_iff)

declare digit_sequence_loop.simps [simp del]

definition consume_digit_sequence :: "byte_env \<Rightarrow> (byte \<Rightarrow> bool) \<Rightarrow> lexer \<Rightarrow> lexer" where
  "consume_digit_sequence E predicate L =
     digit_sequence_loop E predicate
       (if is_some_and (peek L) predicate then consume_len E 1 L else L)"

definition consume_exponent_if_present :: "byte_env \<Rightarrow> lexer \<Rightarrow> bool \<times> lexer" where
  "consume_exponent_if_present E L =
     (if \<not> (peek L = Some (CHR ''e'') \<or> peek L = Some (CHR ''E'')) then (False, L)
      else
        let digit_offset = (if peek_n L 1 = Some (CHR ''+'') \<or> peek_n L 1 = Some (CHR ''-'') then 2 else 1)
        in if \<not> is_some_and (peek_n L digit_offset) is_decimal_digit then (False, L)
           else (True, consume_digit_sequence E is_decimal_digit (consume_len E digit_offset L)))"

text \<open>A prefixed literal: the letter, its digit class and whether it applies at the cursor.\<close>

definition prefixed_digits :: "lexer \<Rightarrow> (byte \<Rightarrow> bool) option" where
  "prefixed_digits L =
     (if peek L \<noteq> Some (CHR ''0'') then None
      else if (peek_n L 1 = Some (CHR ''x'') \<or> peek_n L 1 = Some (CHR ''X'')) \<and>
              is_some_and (peek_n L 2) is_hex_digit then Some is_hex_digit
      else if (peek_n L 1 = Some (CHR ''b'') \<or> peek_n L 1 = Some (CHR ''B'')) \<and>
              is_some_and (peek_n L 2) is_binary_digit then Some is_binary_digit
      else if (peek_n L 1 = Some (CHR ''o'') \<or> peek_n L 1 = Some (CHR ''O'')) \<and>
              is_some_and (peek_n L 2) is_octal_digit then Some is_octal_digit
      else None)"

definition consume_number :: "byte_env \<Rightarrow> lexer \<Rightarrow> token \<times> lexer" where
  "consume_number E L =
     (let start = lx_offset L; line = lx_line L
      in if peek L = Some (CHR ''.'') then
           let L1 = consume_digit_sequence E is_decimal_digit (consume_len E 1 L);
               (_, L2) = consume_exponent_if_present E L1
           in (token_new (Named T_DNumber) (text_range_new start (lx_offset L2)) line, L2)
         else case prefixed_digits L of
           Some digits \<Rightarrow>
             let L1 = consume_digit_sequence E digits (consume_len E 2 L)
             in (token_new (Named T_LNumber) (text_range_new start (lx_offset L1)) line, L1)
         | None \<Rightarrow>
             let L1 = consume_digit_sequence E is_decimal_digit L;
                 kind1 = (if integer_literal_overflows (sub_slice (lx_source L1) start (lx_offset L1))
                          then T_DNumber else T_LNumber);
                 (kind2, L2) = (if peek L1 = Some (CHR ''.'')
                                then (T_DNumber, consume_digit_sequence E is_decimal_digit (consume_len E 1 L1))
                                else (kind1, L1));
                 (has_exponent, L3) = consume_exponent_if_present E L2;
                 kind3 = (if has_exponent then T_DNumber else kind2)
             in (token_new (Named kind3) (text_range_new start (lx_offset L3)) line, L3))"

section \<open>Casts, visibilities and operators\<close>

definition cast_name :: "bytes \<Rightarrow> token_name option" where
  "cast_name name =
     (if eq_ignore_ascii_case name ''int'' \<or> eq_ignore_ascii_case name ''integer'' then Some T_IntCast
      else if eq_ignore_ascii_case name ''float'' \<or> eq_ignore_ascii_case name ''double''
           \<or> eq_ignore_ascii_case name ''real'' then Some T_DoubleCast
      else if eq_ignore_ascii_case name ''string'' then Some T_StringCast
      else if eq_ignore_ascii_case name ''array'' then Some T_ArrayCast
      else if eq_ignore_ascii_case name ''object'' then Some T_ObjectCast
      else if eq_ignore_ascii_case name ''bool'' \<or> eq_ignore_ascii_case name ''boolean'' then Some T_BoolCast
      else if eq_ignore_ascii_case name ''unset'' then Some T_UnsetCast
      else if eq_ignore_ascii_case name ''void'' then Some T_VoidCast
      else None)"

definition cast_at_cursor :: "lexer \<Rightarrow> (token_kind \<times> nat) option" where
  "cast_at_cursor L =
     (if peek L \<noteq> Some (CHR ''('') then None
      else
        let bytes = lx_source L;
            name_start = skip_while is_php_whitespace bytes (lx_offset L + 1);
            name_end = skip_while is_ascii_alphabetic bytes name_start
        in if name_end = name_start then None
           else
             let name = sub_slice bytes name_start name_end;
                 offset = skip_while is_php_whitespace bytes name_end
             in if get_at bytes offset \<noteq> Some (CHR '')'') then None
                else case cast_name name of
                       None \<Rightarrow> None
                     | Some tok \<Rightarrow> Some (Named tok, offset + 1 - lx_offset L))"

definition VISIBILITIES :: "(bytes \<times> token_name) list" where
  "VISIBILITIES =
     [(''protected(set)'', T_ProtectedSet), (''private(set)'', T_PrivateSet), (''public(set)'', T_PublicSet)]"

definition property_hook_visibility_at_cursor :: "lexer \<Rightarrow> (token_kind \<times> nat) option" where
  "property_hook_visibility_at_cursor L =
     map_option (\<lambda>(text, name). (Named name, length text))
       (List.find (\<lambda>(text, name). bytes_at_cursor_eq_ignore_ascii_case L text) VISIBILITIES)"

definition OPERATORS :: "(bytes \<times> token_name) list" where
  "OPERATORS =
     [(''??='', T_CoalesceEqual), (''?->'', T_NullsafeObjectOperator),
     (''==='', T_IsIdentical), (''!=='', T_IsNotIdentical), (''<=>'', T_Spaceship),
     (''<<='', T_SlEqual), (''>>='', T_SrEqual), (''**='', T_PowEqual), (''|>'', T_Pipe),
     (''=='', T_IsEqual), (''!='', T_IsNotEqual), (''<>'', T_IsNotEqual),
     (''<='', T_IsSmallerOrEqual), (''>='', T_IsGreaterOrEqual), (''&&'', T_BooleanAnd),
     (''||'', T_BooleanOr), (''<<'', T_Sl), (''>>'', T_Sr), (''+='', T_PlusEqual),
     (''-='', T_MinusEqual), (''*='', T_MulEqual), (''/='', T_DivEqual), (''%='', T_ModEqual),
     (''.='', T_ConcatEqual), (''&='', T_AndEqual), (''|='', T_OrEqual), (''^='', T_XorEqual),
     (''??'', T_Coalesce), (''->'', T_ObjectOperator), (''::'', T_DoubleColon),
     (''=>'', T_DoubleArrow), (''++'', T_Inc), (''--'', T_Dec), (''...'', T_Ellipsis),
     (''**'', T_Pow)]"

definition operator_at_cursor :: "lexer \<Rightarrow> (token_kind \<times> nat) option" where
  "operator_at_cursor L =
     map_option (\<lambda>(text, name). (Named name, length text))
       (List.find (\<lambda>(text, name). starts_with L text) OPERATORS)"

section \<open>Heredocs\<close>

definition is_blank :: "byte \<Rightarrow> bool" where
  "is_blank byte = (byte = CHR '' '' \<or> byte = CHR 0x09)"

definition heredoc_quote :: "bytes \<Rightarrow> nat \<Rightarrow> byte option" where
  "heredoc_quote bytes offset =
     (if get_at bytes offset = Some (CHR 0x27) \<or> get_at bytes offset = Some (CHR 0x22)
      then get_at bytes offset else None)"

definition newline_len_at :: "bytes \<Rightarrow> nat \<Rightarrow> nat option" where
  "newline_len_at bytes offset =
     (if get_at bytes offset = Some (CHR 0x0D) \<and> get_at bytes (offset + 1) = Some (CHR 0x0A) then Some 2
      else if get_at bytes offset = Some (CHR 0x0A) \<or> get_at bytes offset = Some (CHR 0x0D) then Some 1
      else None)"

definition heredoc_start_at_cursor :: "lexer \<Rightarrow> (nat \<times> bytes \<times> bool) option" where
  "heredoc_start_at_cursor L =
     (if \<not> starts_with L ''<<<'' then None
      else
        let bytes = lx_source L;
            start = lx_offset L;
            offset0 = skip_while is_blank bytes (start + 3);
            quote = heredoc_quote bytes offset0;
            nowdoc = (quote = Some (CHR 0x27));
            label_start = (if quote = None then offset0 else offset0 + 1)
        in if \<not> is_some_and (get_at bytes label_start) is_identifier_start then None
           else
             let label_end = skip_while is_identifier_continue bytes (label_start + 1)
             in if quote \<noteq> None \<and> get_at bytes label_end \<noteq> quote then None
                else
                  let offset = (if quote = None then label_end else label_end + 1)
                  in case newline_len_at bytes offset of
                       None \<Rightarrow> None
                     | Some n \<Rightarrow>
                         let label = sub_slice bytes label_start label_end
                         in if utf8_valid label then Some (offset + n - start, label, nowdoc) else None)"

definition heredoc_end_len_at_cursor :: "lexer \<Rightarrow> nat option" where
  "heredoc_end_len_at_cursor L =
     (case heredoc_label L of
        None \<Rightarrow> None
      | Some label \<Rightarrow>
          let bytes = lx_source L; start = lx_offset L
          in if 0 < start \<and> \<not> (get_at bytes (start - 1) = Some (CHR 0x0A) \<or> get_at bytes (start - 1) = Some (CHR 0x0D))
             then None
             else
               let offset = skip_while is_blank bytes start
               in if get_range bytes offset (offset + length label) \<noteq> Some label then None
                  else
                    let offset' = offset + length label
                    in case get_at bytes offset' of
                         None \<Rightarrow> Some (offset' - start)
                       | Some byte \<Rightarrow> if \<not> is_identifier_continue byte then Some (offset' - start) else None)"

section \<open>Encapsed state\<close>

definition clear_encapsed_state :: "lexer \<Rightarrow> lexer" where
  "clear_encapsed_state L =
     L\<lparr>expecting_object_property := False, expecting_string_varname := False,
       in_string_var_offset := False, in_braced_interpolation := False,
       last_encapsed_variable := False\<rparr>"

definition clear_heredoc_state :: "lexer \<Rightarrow> lexer" where
  "clear_heredoc_state L = L\<lparr>heredoc_label := None, heredoc_nowdoc := False\<rparr>"

definition enter_encapsed_mode :: "lexer_mode \<Rightarrow> nat \<Rightarrow> nat \<Rightarrow> lexer \<Rightarrow> lexer" where
  "enter_encapsed_mode mode start line L =
     clear_encapsed_state (L\<lparr>lx_mode := mode, lx_mode_start := start, lx_mode_start_line := line\<rparr>)"

definition save_encapsed_snapshot :: "lexer \<Rightarrow> lexer" where
  "save_encapsed_snapshot L =
     L\<lparr>encapsed_stack := encapsed_stack L @
        [\<lparr>snap_mode = lx_mode L, snap_mode_start = lx_mode_start L,
          snap_mode_start_line = lx_mode_start_line L,
          snap_expecting_object_property = expecting_object_property L,
          snap_expecting_string_varname = expecting_string_varname L,
          snap_in_string_var_offset = in_string_var_offset L,
          snap_in_braced_interpolation = in_braced_interpolation L,
          snap_last_encapsed_variable = last_encapsed_variable L,
          snap_heredoc_label = heredoc_label L, snap_heredoc_nowdoc = heredoc_nowdoc L\<rparr>]\<rparr>"

definition restore_encapsed_snapshot :: "lexer \<Rightarrow> bool \<times> lexer" where
  "restore_encapsed_snapshot L =
     (if encapsed_stack L = [] then (False, L)
      else
        let s = last (encapsed_stack L)
        in (True, L\<lparr>encapsed_stack := butlast (encapsed_stack L),
              lx_mode := snap_mode s, lx_mode_start := snap_mode_start s,
              lx_mode_start_line := snap_mode_start_line s,
              expecting_object_property := snap_expecting_object_property s,
              expecting_string_varname := snap_expecting_string_varname s,
              in_string_var_offset := snap_in_string_var_offset s,
              in_braced_interpolation := snap_in_braced_interpolation s,
              last_encapsed_variable := snap_last_encapsed_variable s,
              heredoc_label := snap_heredoc_label s, heredoc_nowdoc := snap_heredoc_nowdoc s\<rparr>))"

definition consume_constant_string_if_available :: "byte_env \<Rightarrow> lexer \<Rightarrow> (token \<times> lexer) option" where
  "consume_constant_string_if_available E L =
     (case scan_constant_encapsed_string E (lx_source L) (lx_offset L) of
        None \<Rightarrow> None
      | Some Interpolated \<Rightarrow>
          Some (consume_fixed_token E (Symbol (SymChar (CHR 0x22))) 1
                 (enter_encapsed_mode DoubleQuote (lx_offset L) (lx_line L) L))
      | Some (Constant len terminated) \<Rightarrow>
          let L' = consume_len E len L;
              range = text_range_new (lx_offset L) (lx_offset L');
              L'' = (if terminated then L'
                     else push_diagnostic (lex_diagnostic_new UnterminatedString
                            ''unterminated string literal'' range (lx_line L)) L')
          in Some (token_new (Named T_ConstantEncapsedString) range (lx_line L), L''))"

definition consume_heredoc_start_if_available :: "byte_env \<Rightarrow> lexer \<Rightarrow> (token \<times> lexer) option" where
  "consume_heredoc_start_if_available E L =
     (case heredoc_start_at_cursor L of
        None \<Rightarrow> None
      | Some (len, label, nowdoc) \<Rightarrow>
          let start = lx_offset L; line = lx_line L;
              L1 = (if lx_mode L = Heredoc \<or> lx_mode L = Nowdoc then save_encapsed_snapshot L else L);
              L2 = L1\<lparr>heredoc_label := Some label, heredoc_nowdoc := nowdoc\<rparr>;
              L3 = enter_encapsed_mode (if nowdoc then Nowdoc else Heredoc) start line L2;
              L4 = L3\<lparr>heredoc_nowdoc := nowdoc\<rparr>
          in Some (consume_fixed_token E (Named T_StartHeredoc) len L4))"

section \<open>Interpolated text\<close>

text \<open>The tests of the text loops for the start of an interpolation.\<close>

definition at_interpolation :: "lexer \<Rightarrow> bool" where
  "at_interpolation L =
     (starts_with L [CHR 0x7B, CHR ''$''] \<or> starts_with L [CHR ''$'', CHR 0x7B] \<or>
      (peek L = Some (CHR ''$'') \<and> is_some_and (peek_n L 1) is_identifier_start) \<or>
      (in_braced_interpolation L \<and> peek L = Some (CHR 0x7D)))"

text \<open>A backslash and the byte after it, if any.\<close>

definition consume_escape :: "byte_env \<Rightarrow> lexer \<Rightarrow> lexer" where
  "consume_escape E L =
     (let L1 = consume_len E 1 L in if \<not> is_eof L1 then consume_len E 1 L1 else L1)"

lemma consume_escape_offset:
  "lx_offset L < length (lx_source L) \<Longrightarrow>
   lx_source (consume_escape E L) = lx_source L \<and> lx_offset L < lx_offset (consume_escape E L) \<and>
   lx_offset (consume_escape E L) \<le> length (lx_source L)"
  by (auto simp: consume_escape_def Let_def)

function text_loop :: "byte_env \<Rightarrow> (lexer \<Rightarrow> bool) \<Rightarrow> bool \<Rightarrow> lexer \<Rightarrow> lexer" where
  "text_loop E stop escapes L =
     (if is_eof L \<or> stop L then L
      else if escapes \<and> peek L = Some (CHR 0x5C) then text_loop E stop escapes (consume_escape E L)
      else text_loop E stop escapes (consume_len E 1 L))"
  by pat_completeness auto
termination
proof (relation "measure (\<lambda>(E, stop, escapes, L). length (lx_source L) - lx_offset L)")
  fix E stop escapes and L :: lexer assume "\<not> (is_eof L \<or> stop L)"
  then show "((E, stop, escapes, consume_escape E L), E, stop, escapes, L)
      \<in> measure (\<lambda>(E, stop, escapes, L). length (lx_source L) - lx_offset L)"
    using consume_escape_offset [of L E] by (auto simp: is_eof_def intro!: diff_less_mono2)
qed (auto simp: is_eof_def)

declare text_loop.simps [simp del]

definition consume_encapsed_text :: "byte_env \<Rightarrow> byte \<Rightarrow> lexer \<Rightarrow> token \<times> lexer" where
  "consume_encapsed_text E delimiter L =
     (let L' = text_loop E (\<lambda>M. peek M = Some delimiter \<or> at_interpolation M) True L
      in (token_new (Named T_EncapsedAndWhitespace) (text_range_new (lx_offset L) (lx_offset L')) (lx_line L),
          L'\<lparr>last_encapsed_variable := False\<rparr>))"

definition consume_heredoc_text :: "byte_env \<Rightarrow> lexer \<Rightarrow> token \<times> lexer" where
  "consume_heredoc_text E L =
     (let L' = text_loop E
            (\<lambda>M. heredoc_end_len_at_cursor M \<noteq> None \<or> (\<not> heredoc_nowdoc M \<and> at_interpolation M))
            (\<not> heredoc_nowdoc L) L
      in (token_new (Named T_EncapsedAndWhitespace) (text_range_new (lx_offset L) (lx_offset L')) (lx_line L),
          L'\<lparr>last_encapsed_variable := False\<rparr>))"

definition next_interpolation_token_without_delimiter :: "byte_env \<Rightarrow> lexer \<Rightarrow> (token \<times> lexer) option" where
  "next_interpolation_token_without_delimiter E L =
     (if expecting_object_property L \<and> is_some_and (peek L) is_identifier_start then
        Some (consume_identifier_token E T_String
               (L\<lparr>expecting_object_property := False, last_encapsed_variable := False\<rparr>))
      else if expecting_string_varname L \<and> is_some_and (peek L) is_identifier_start then
        Some (consume_identifier_token E T_StringVarName
               (L\<lparr>expecting_string_varname := False, last_encapsed_variable := False\<rparr>))
      else if in_string_var_offset L \<and> is_some_and (peek L) is_decimal_digit then
        Some (consume_num_string E L)
      else if in_string_var_offset L \<and> peek L = Some (CHR 0x5D) then
        Some (consume_fixed_token E (Symbol (SymChar (CHR 0x5D))) 1 (L\<lparr>in_string_var_offset := False\<rparr>))
      else if in_braced_interpolation L \<and> peek L = Some (CHR 0x7D) then
        Some (consume_fixed_token E (Symbol (SymChar (CHR 0x7D))) 1
               (L\<lparr>in_braced_interpolation := False, last_encapsed_variable := False\<rparr>))
      else if starts_with L [CHR 0x7B, CHR ''$''] then
        Some (consume_fixed_token E (Named T_CurlyOpen) 1
               (L\<lparr>in_braced_interpolation := True, last_encapsed_variable := False\<rparr>))
      else if starts_with L [CHR ''$'', CHR 0x7B] then
        Some (consume_fixed_token E (Named T_DollarOpenCurlyBraces) 2
               (L\<lparr>expecting_string_varname := True, in_braced_interpolation := True,
                  last_encapsed_variable := False\<rparr>))
      else if peek L = Some (CHR ''$'') \<and> is_some_and (peek_n L 1) is_identifier_start then
        (let (t, L') = consume_variable_or_dollar E L
         in Some (t, L'\<lparr>last_encapsed_variable := (tok_kind t = Named T_Variable)\<rparr>))
      else if last_encapsed_variable L \<and> starts_with L ''->'' then
        Some (consume_fixed_token E (Named T_ObjectOperator) 2
               (L\<lparr>expecting_object_property := True, last_encapsed_variable := False\<rparr>))
      else if last_encapsed_variable L \<and> peek L = Some (CHR 0x5B) then
        Some (consume_fixed_token E (Symbol (SymChar (CHR 0x5B))) 1
               (L\<lparr>in_string_var_offset := True, last_encapsed_variable := False\<rparr>))
      else None)"

section \<open>Tags\<close>

definition cursor_starts_with_at :: "lexer \<Rightarrow> nat \<Rightarrow> bytes \<Rightarrow> bool" where
  "cursor_starts_with_at L offset needle =
     list_all (\<lambda>(index, expected). peek_n L (offset + index) = Some expected) (enumerate 0 needle)"

definition php_tag_space_len :: "lexer \<Rightarrow> nat \<Rightarrow> nat" where
  "php_tag_space_len L offset =
     (if peek_n L offset = Some (CHR 0x0D) \<and> peek_n L (offset + 1) = Some (CHR 0x0A) then 2
      else if is_some_and (peek_n L offset) is_ascii_whitespace then 1 else 0)"

definition open_tag_at_offset :: "lexer \<Rightarrow> nat \<Rightarrow> (token_kind \<times> nat) option" where
  "open_tag_at_offset L offset =
     (if cursor_starts_with_at L offset ''<?='' then Some (Named T_OpenTagWithEcho, 3)
      else if (cursor_starts_with_at L offset ''<?php'' \<or> cursor_starts_with_at L offset ''<?PHP'') \<and>
              (peek_n L (offset + 5) = None \<or> is_some_and (peek_n L (offset + 5)) is_ascii_whitespace)
      then Some (Named T_OpenTag, 5 + php_tag_space_len L (offset + 5))
      else if short_open_tag (lx_config L) \<and> cursor_starts_with_at L offset ''<?''
      then Some (Named T_OpenTag, 2 + php_tag_space_len L (offset + 2))
      else None)"

definition open_tag_at_cursor :: "lexer \<Rightarrow> (token_kind \<times> nat) option" where
  "open_tag_at_cursor L = open_tag_at_offset L 0"

definition close_tag_len :: "lexer \<Rightarrow> nat" where
  "close_tag_len L =
     (if peek_n L 2 = Some (CHR 0x0D) \<and> peek_n L 3 = Some (CHR 0x0A) then 4
      else if peek_n L 2 = Some (CHR 0x0A) \<or> peek_n L 2 = Some (CHR 0x0D) then 3 else 2)"

function inline_html_loop :: "byte_env \<Rightarrow> lexer \<Rightarrow> lexer" where
  "inline_html_loop E L =
     (if \<not> is_eof L \<and> open_tag_at_cursor L = None then
        let rest = drop (lx_offset L) (lx_source L)
        in case find_byte E rest (CHR ''<'') of
             None \<Rightarrow> consume_len E (length rest) L
           | Some relative \<Rightarrow>
               if relative = 0 then inline_html_loop E (consume_len E 1 L)
               else inline_html_loop E (consume_len E relative L)
      else L)"
  by pat_completeness auto
termination
  by (relation "measure (\<lambda>(E, L). length (lx_source L) - lx_offset L)") (auto simp: is_eof_def)

declare inline_html_loop.simps [simp del]

definition consume_remaining_inline_html :: "byte_env \<Rightarrow> lexer \<Rightarrow> token \<times> lexer" where
  "consume_remaining_inline_html E L =
     (let L' = consume_len E (length (lx_source L) - lx_offset L) L
      in (token_new (Named T_InlineHtml) (text_range_new (lx_offset L) (lx_offset L')) (lx_line L),
          L'\<lparr>halt_compiler_seen := False, halt_compiler_significant_tokens := 0\<rparr>))"

section \<open>One token\<close>

definition next_inline_html_token :: "byte_env \<Rightarrow> lexer \<Rightarrow> token option \<times> lexer" where
  "next_inline_html_token E L0 =
     (if is_eof L0 then (None, L0)
      else
        let L = (if lx_offset L0 = 0 \<and> starts_with L0 [CHR 0xEF, CHR 0xBB, CHR 0xBF] \<and>
                    open_tag_at_offset L0 3 \<noteq> None
                 then consume_len E 3 L0 else L0)
        in case open_tag_at_cursor L of
             Some (kind, len) \<Rightarrow>
               let (t, L') = consume_fixed_token E kind len L in (Some t, L'\<lparr>lx_mode := Scripting\<rparr>)
           | None \<Rightarrow>
               let L' = inline_html_loop E L
               in (Some (token_new (Named T_InlineHtml) (text_range_new (lx_offset L) (lx_offset L')) (lx_line L)), L'))"

definition consume_bad_character :: "byte_env \<Rightarrow> lexer \<Rightarrow> token \<times> lexer" where
  "consume_bad_character E L =
     (let L' = consume_len E 1 L; range = text_range_new (lx_offset L) (lx_offset L')
      in (token_new (Named T_BadCharacter) range (lx_line L),
          push_diagnostic (lex_diagnostic_new BadCharacter
            ''bad control character in scripting mode'' range (lx_line L)) L'))"

text \<open>\<open>Option<u8>::unwrap_or_default\<close>; the cursor is not at the end where it is used.\<close>

definition peek_or_default :: "lexer \<Rightarrow> byte" where
  "peek_or_default L = unwrap_or (peek L) (CHR 0x00)"

definition at_number :: "lexer \<Rightarrow> bool" where
  "at_number L =
     (is_some_and (peek L) is_ascii_digit \<or>
      (peek L = Some (CHR ''.'') \<and> is_some_and (peek_n L 1) is_ascii_digit))"

text \<open>The tests of \<open>next_scripting_token\<close> after the string and heredoc tests, in order.\<close>

definition scripting_word_token :: "byte_env \<Rightarrow> lexer \<Rightarrow> token \<times> lexer" where
  "scripting_word_token E L =
     (if peek L = Some (CHR 0x60) then
        consume_fixed_token E (Symbol (SymChar (CHR 0x60))) 1
          (enter_encapsed_mode Backtick (lx_offset L) (lx_line L) L)
      else case cast_at_cursor L of
        Some (kind, len) \<Rightarrow> consume_fixed_token E kind len L
      | None \<Rightarrow>
          case consume_yield_from E L of
            Some r \<Rightarrow> r
          | None \<Rightarrow>
              if peek L = Some (CHR ''$'') then consume_variable_or_dollar E L
              else case property_hook_visibility_at_cursor L of
                Some (kind, len) \<Rightarrow> consume_fixed_token E kind len L
              | None \<Rightarrow>
                  if peek L = Some (CHR 0x5C) \<and> is_some_and (peek_n L 1) is_identifier_start then
                    consume_qualified_name E (Named T_NameFullyQualified) True L
                  else if peek L = Some (CHR 0x5C) then consume_fixed_token E (Named T_NsSeparator) 1 L
                  else if is_some_and (peek L) is_identifier_start then consume_identifier_or_name E L
                  else case operator_at_cursor L of
                    Some (kind, len) \<Rightarrow> consume_fixed_token E kind len L
                  | None \<Rightarrow>
                      if peek L = Some (CHR ''&'') then consume_ampersand E L
                      else consume_fixed_token E (Symbol (SymChar (peek_or_default L))) 1 L)"

definition next_scripting_token :: "byte_env \<Rightarrow> lexer \<Rightarrow> token option \<times> lexer" where
  "next_scripting_token E L =
     (if is_eof L then (None, L)
      else if halt_compiler_seen L \<and> peek L = Some (CHR '';'') then
        (let (t, L') = consume_fixed_token E (Symbol (SymChar (CHR '';''))) 1 L
         in (Some t, L'\<lparr>lx_mode := InlineHtml, halt_compiler_seen := False, halt_compiler_significant_tokens := 0\<rparr>))
      else if halt_compiler_seen L \<and> 3 \<le> halt_compiler_significant_tokens L then
        apfst Some (consume_remaining_inline_html E L)
      else if starts_with L ''?>'' then
        (let (t, L') = consume_fixed_token E (Named T_CloseTag) (close_tag_len L) L
         in (Some t, L'\<lparr>lx_mode := InlineHtml\<rparr>))
      else if is_php_whitespace (peek_or_default L) then
        apfst Some (consume_while_token E (Named T_Whitespace) (\<lambda>M. is_some_and (peek M) is_php_whitespace) L)
      else if starts_with L ''#['' then apfst Some (consume_fixed_token E (Named T_Attribute) 2 L)
      else if starts_with L ''//'' then apfst Some (consume_line_comment E L)
      else if starts_with L ''#'' then apfst Some (consume_line_comment E L)
      else if starts_with L ''/*'' then apfst Some (consume_block_comment E L)
      else if is_bad_character (peek_or_default L) then apfst Some (consume_bad_character E L)
      else if at_number L then apfst Some (consume_number E L)
      else case consume_constant_string_if_available E L of
        Some r \<Rightarrow> apfst Some r
      | None \<Rightarrow>
          case consume_heredoc_start_if_available E L of
            Some r \<Rightarrow> apfst Some r
          | None \<Rightarrow> apfst Some (scripting_word_token E L))"

text \<open>
  After the delimiter test, \<open>next_encapsed_token\<close> repeats the tests of
  \<open>next_interpolation_token_without_delimiter\<close> in the same order.
\<close>

definition next_encapsed_token :: "byte_env \<Rightarrow> byte \<Rightarrow> lexer \<Rightarrow> token option \<times> lexer" where
  "next_encapsed_token E delimiter L =
     (if is_eof L then
        let range = text_range_new (lx_mode_start L) (lx_offset L);
            L1 = push_diagnostic (lex_diagnostic_new UnterminatedString
                   ''unterminated encapsed string literal'' range (lx_mode_start_line L)) L
        in (None, clear_encapsed_state (L1\<lparr>lx_mode := Scripting\<rparr>))
      else if peek L = Some delimiter then
        apfst Some (consume_fixed_token E (Symbol (SymChar delimiter)) 1
          (clear_encapsed_state (L\<lparr>lx_mode := Scripting\<rparr>)))
      else case next_interpolation_token_without_delimiter E L of
        Some r \<Rightarrow> apfst Some r
      | None \<Rightarrow> apfst Some (consume_encapsed_text E delimiter L))"

definition next_heredoc_token :: "byte_env \<Rightarrow> lexer \<Rightarrow> token option \<times> lexer" where
  "next_heredoc_token E L =
     (if is_eof L then
        let range = text_range_new (lx_mode_start L) (lx_offset L);
            L1 = push_diagnostic (lex_diagnostic_new UnterminatedHeredoc
                   ''unterminated heredoc/nowdoc literal'' range (lx_mode_start_line L)) L
        in (None, clear_encapsed_state (clear_heredoc_state (L1\<lparr>lx_mode := Scripting\<rparr>)))
      else case heredoc_end_len_at_cursor L of
        Some len \<Rightarrow>
          (let (t, L1) = consume_fixed_token E (Named T_EndHeredoc) len L;
               (restored, L2) = restore_encapsed_snapshot L1
           in (Some t, if restored then L2
                       else clear_encapsed_state (clear_heredoc_state (L2\<lparr>lx_mode := Scripting\<rparr>))))
      | None \<Rightarrow>
          if \<not> heredoc_nowdoc L \<and> in_braced_interpolation L then
            if peek L = Some (CHR 0x7D) then
              apfst Some (consume_fixed_token E (Symbol (SymChar (CHR 0x7D))) 1
                (L\<lparr>in_braced_interpolation := False, last_encapsed_variable := False\<rparr>))
            else next_scripting_token E L
          else
            case (if heredoc_nowdoc L then None else next_interpolation_token_without_delimiter E L) of
              Some r \<Rightarrow> apfst Some r
            | None \<Rightarrow> apfst Some (consume_heredoc_text E L))"

definition remember_significant_token :: "token_kind \<Rightarrow> lexer \<Rightarrow> lexer" where
  "remember_significant_token kind L =
     (case kind of
        Named name \<Rightarrow>
          if name \<in> {T_Whitespace, T_Comment, T_DocComment} then L
          else
            (if halt_compiler_seen L \<and> name \<noteq> T_HaltCompiler
             then L\<lparr>halt_compiler_significant_tokens := min 255 (halt_compiler_significant_tokens L + 1)\<rparr>
             else L)\<lparr>last_significant_name := Some name\<rparr>
      | Symbol _ \<Rightarrow>
          (if halt_compiler_seen L
           then L\<lparr>halt_compiler_significant_tokens := min 255 (halt_compiler_significant_tokens L + 1)\<rparr>
           else L)\<lparr>last_significant_name := None\<rparr>
      | Eof \<Rightarrow> L)"

definition next_mode_token :: "byte_env \<Rightarrow> lexer \<Rightarrow> token option \<times> lexer" where
  "next_mode_token E L =
     (case lx_mode L of
        InlineHtml \<Rightarrow> next_inline_html_token E L
      | Scripting \<Rightarrow> next_scripting_token E L
      | DoubleQuote \<Rightarrow> next_encapsed_token E (CHR 0x22) L
      | Backtick \<Rightarrow> next_encapsed_token E (CHR 0x60) L
      | Heredoc \<Rightarrow> next_heredoc_token E L
      | Nowdoc \<Rightarrow> next_heredoc_token E L
      | StringVarOffset \<Rightarrow> next_scripting_token E L
      | LookingForVarName \<Rightarrow> next_scripting_token E L)"

definition next_token :: "byte_env \<Rightarrow> lexer \<Rightarrow> token option \<times> lexer" where
  "next_token E L0 =
     (let L = L0\<lparr>emitted_placeholder := True\<rparr>
      in case next_mode_token E L of
           (Some t, L1) \<Rightarrow> (Some t, remember_significant_token (tok_kind t) L1)
         | (None, L1) \<Rightarrow>
             if emit_eof (lx_config L1) \<and> \<not> emitted_eof L1 then
               (Some (token_new Eof (text_range_new (lx_offset L1) (lx_offset L1)) 1), L1\<lparr>emitted_eof := True\<rparr>)
             else (None, L1))"

end
