(* ===== verification/Lexer_Progress.thy ===== *)
theory Lexer_Progress
  imports Lexer
begin

text \<open>
  Every step of the lexer moves its position only through \<open>consume_len\<close>, and every token
  it emits starts where the last one ended and is not empty. From this: \<open>lex_all\<close>
  terminates, and the tokens tile the source.
\<close>

section \<open>Consumption\<close>

lemma consume_len_eq:
  assumes "lx_offset L \<le> length (lx_source L)"
  shows "consume_len E n L = L\<lparr>lx_line := advance_line_for_range E (lx_source L) (lx_line L) (lx_offset L)
            (min (lx_offset L + n) (length (lx_source L))),
          lx_offset := min (lx_offset L + n) (length (lx_source L))\<rparr>"
  using assms
  by (auto simp: consume_len_def Let_def bump_def advance_by_def peek_def get_at_def split: option.splits)

text \<open>\<open>L'\<close> is reached from \<open>L\<close> by calls of \<open>consume_len\<close>.\<close>

inductive consumes :: "byte_env \<Rightarrow> lexer \<Rightarrow> lexer \<Rightarrow> bool" for E where
  consumes_refl: "lx_offset L \<le> length (lx_source L) \<Longrightarrow> consumes E L L"
| consumes_step: "lx_offset L \<le> length (lx_source L) \<Longrightarrow> consumes E (consume_len E n L) L' \<Longrightarrow> consumes E L L'"

lemma consumes_position_only:
  "consumes E L L' \<Longrightarrow> L' = L\<lparr>lx_line := lx_line L', lx_offset := lx_offset L'\<rparr>"
  by (induction rule: consumes.induct) (auto simp: consume_len_eq)

lemma consumes_offset:
  "consumes E L L' \<Longrightarrow> lx_offset L \<le> lx_offset L' \<and> lx_offset L' \<le> length (lx_source L)"
  by (induction rule: consumes.induct) auto

lemma consumes_source: "consumes E L L' \<Longrightarrow> lx_source L' = lx_source L"
  by (induction rule: consumes.induct) auto

lemma consumes_trans: "consumes E L L' \<Longrightarrow> consumes E L' L'' \<Longrightarrow> consumes E L L''"
  by (induction rule: consumes.induct) (auto intro: consumes_step)

lemma consumes_start: "consumes E L L' \<Longrightarrow> lx_offset L \<le> length (lx_source L)"
  by (induction rule: consumes.induct) auto

lemma consumes_consume_len:
  "lx_offset L \<le> length (lx_source L) \<Longrightarrow> consumes E L (consume_len E n L)"
  by (rule consumes_step, assumption, rule consumes_refl) simp

lemma consumes_after_len:
  "consumes E (consume_len E n L) L' \<Longrightarrow> lx_offset L \<le> length (lx_source L) \<Longrightarrow> consumes E L L'"
  by (rule consumes_step)

lemma not_eof: "\<not> is_eof L \<longleftrightarrow> lx_offset L < length (lx_source L)"
  by (auto simp: is_eof_def)

lemma peek_Some: "peek L = Some b \<Longrightarrow> lx_offset L < length (lx_source L)"
  by (simp add: peek_def get_at_Some_iff)

lemma is_some_and_peek: "is_some_and (peek L) p \<Longrightarrow> lx_offset L < length (lx_source L)"
  by (auto elim!: is_some_andE dest: peek_Some)

section \<open>The loops consume\<close>

text \<open>Induction on the bytes left, for a loop \<open>f\<close> that calls itself after consuming.\<close>

lemma consuming_loop:
  assumes ok: "lx_offset L \<le> length (lx_source L)"
    and body: "\<And>L. lx_offset L \<le> length (lx_source L) \<Longrightarrow>
      (\<And>n. 0 < n \<Longrightarrow> lx_offset L < length (lx_source L) \<Longrightarrow> consumes E L (f (consume_len E n L))) \<Longrightarrow>
      consumes E L (f L)"
  shows "consumes E L (f L)"
  using ok
proof (induction "length (lx_source L) - lx_offset L" arbitrary: L rule: less_induct)
  case less
  have "consumes E L (f (consume_len E n L))" if "0 < n" "lx_offset L < length (lx_source L)" for n
    using that less.prems by (intro consumes_after_len [OF less.hyps]) auto
  then show ?case using less.prems by (intro body) auto
qed

lemma consumes_while: "lx_offset L \<le> length (lx_source L) \<Longrightarrow> consumes E L (consume_while E p L)"
  by (erule consuming_loop, subst consume_while.simps) (auto simp: not_eof intro: consumes_refl)

lemma consumes_line_comment: "lx_offset L \<le> length (lx_source L) \<Longrightarrow> consumes E L (line_comment_loop E L)"
  by (erule consuming_loop, subst line_comment_loop.simps)
     (auto simp: Let_def is_eof_def intro: consumes_refl consumes_consume_len split: option.splits)

lemma consumes_block_comment:
  "lx_offset L \<le> length (lx_source L) \<Longrightarrow> consumes E L (snd (block_comment_loop E L))"
  by (erule consuming_loop, subst block_comment_loop.simps)
     (auto simp: Let_def is_eof_def intro: consumes_refl consumes_consume_len split: option.splits)

lemma consumes_identifier_loop:
  "lx_offset L \<le> length (lx_source L) \<Longrightarrow> consumes E L (identifier_bytes_loop E L)"
  by (erule consuming_loop, subst identifier_bytes_loop.simps)
     (auto simp: Let_def intro: consumes_refl dest: peek_Some split: option.splits)

lemma consumes_identifier:
  "lx_offset L \<le> length (lx_source L) \<Longrightarrow> consumes E L (consume_identifier_bytes E L)"
  using consumes_identifier_loop [of L E] consumes_identifier_loop [of "consume_len E 1 L" E]
  by (auto simp: consume_identifier_bytes_def dest: consumes_after_len)

lemma consumes_name_parts:
  "lx_offset L \<le> length (lx_source L) \<Longrightarrow> consumes E L (name_parts_loop E L)"
proof (induction "length (lx_source L) - lx_offset L" arbitrary: L rule: less_induct)
  case less
  show ?case
  proof (cases "at_name_separator L")
    case True
    let ?C = "consume_len E 1 L" and ?M = "consume_identifier_bytes E (consume_len E 1 L)"
    have L: "lx_offset L < length (lx_source L)"
      using True by (auto simp: at_name_separator_def dest: peek_Some)
    then have CM: "consumes E ?C ?M" by (intro consumes_identifier) simp
    have "consumes E ?M (name_parts_loop E ?M)"
      using L consumes_offset [OF CM] consumes_source [OF CM] by (intro less.hyps) auto
    then show ?thesis
      using True less.prems consumes_after_len [OF consumes_trans [OF CM]]
      by (subst name_parts_loop.simps) simp
  next
    case False
    then show ?thesis using less.prems by (subst name_parts_loop.simps) (auto intro: consumes_refl)
  qed
qed

lemma consumes_digit_loop:
  "lx_offset L \<le> length (lx_source L) \<Longrightarrow> consumes E L (digit_sequence_loop E p L)"
  by (erule consuming_loop, subst digit_sequence_loop.simps)
     (auto simp: Let_def intro: consumes_refl dest: peek_Some split: option.splits)

lemma consumes_digits:
  "lx_offset L \<le> length (lx_source L) \<Longrightarrow> consumes E L (consume_digit_sequence E p L)"
  using consumes_digit_loop [of L E p] consumes_digit_loop [of "consume_len E 1 L" E p]
  by (auto simp: consume_digit_sequence_def dest: consumes_after_len)

lemma consumes_exponent:
  "lx_offset L \<le> length (lx_source L) \<Longrightarrow> consumes E L (snd (consume_exponent_if_present E L))"
  using consumes_digits [of "consume_len E 1 L" E is_decimal_digit]
    consumes_digits [of "consume_len E 2 L" E is_decimal_digit]
  by (auto simp: consume_exponent_if_present_def Let_def intro: consumes_refl dest: consumes_after_len)

lemma consumes_escape: "lx_offset L \<le> length (lx_source L) \<Longrightarrow> consumes E L (consume_escape E L)"
  using consumes_consume_len [of "consume_len E 1 L" E 1]
  by (auto simp: consume_escape_def Let_def intro: consumes_consume_len dest: consumes_after_len)

lemma consumes_text: "lx_offset L \<le> length (lx_source L) \<Longrightarrow> consumes E L (text_loop E stop escapes L)"
proof (induction "length (lx_source L) - lx_offset L" arbitrary: L rule: less_induct)
  case less
  show ?case
  proof (cases "is_eof L \<or> stop L")
    case True
    then show ?thesis using less.prems by (subst text_loop.simps) (auto intro: consumes_refl)
  next
    case False
    then have L: "lx_offset L < length (lx_source L)" by (simp add: not_eof)
    have "consumes E L (text_loop E stop escapes (consume_len E 1 L))"
      using L by (intro consumes_after_len [OF less.hyps]) auto
    moreover have "consumes E L (text_loop E stop escapes (consume_escape E L))"
      using L consume_escape_offset [OF L, of E]
      by (intro consumes_trans [OF consumes_escape less.hyps]) (auto intro: diff_less_mono2)
    ultimately show ?thesis using False by (subst text_loop.simps) auto
  qed
qed

lemma consumes_inline_html:
  "lx_offset L \<le> length (lx_source L) \<Longrightarrow> consumes E L (inline_html_loop E L)"
  by (erule consuming_loop, subst inline_html_loop.simps)
     (auto simp: Let_def not_eof intro: consumes_refl consumes_consume_len split: option.splits)

section \<open>Tokens\<close>

text \<open>Two states with the same position, source, configuration and end-of-file flag.\<close>

definition same_pos :: "lexer \<Rightarrow> lexer \<Rightarrow> bool" where
  "same_pos L M \<longleftrightarrow> lx_source M = lx_source L \<and> lx_offset M = lx_offset L \<and> lx_line M = lx_line L \<and>
     lx_config M = lx_config L \<and> emitted_eof M = emitted_eof L"

text \<open>
  A token emitted from \<open>L\<close>: it covers exactly the bytes consumed, at least one, starts at the
  cursor of \<open>L\<close> and has the line of \<open>L\<close>.
\<close>

definition emits :: "byte_env \<Rightarrow> lexer \<Rightarrow> token \<times> lexer \<Rightarrow> bool" where
  "emits E L r \<longleftrightarrow>
     (\<exists>M M'. same_pos L M \<and> consumes E M M' \<and> same_pos M' (snd r) \<and> lx_offset M < lx_offset M' \<and>
        tok_kind (fst r) \<noteq> Eof \<and> tok_line (fst r) = lx_line L \<and>
        tok_range (fst r) = text_range_new (lx_offset L) (lx_offset (snd r)))"

lemma same_pos_refl [simp]: "same_pos L L"
  by (simp add: same_pos_def)

lemma same_pos_trans: "same_pos L M \<Longrightarrow> same_pos M N \<Longrightarrow> same_pos L N"
  by (simp add: same_pos_def)

lemma emits_pre:
  assumes LM: "same_pos L M" and e: "emits E M r"
  shows "emits E L r"
proof -
  from e obtain N N' where "same_pos M N" "consumes E N N'" "same_pos N' (snd r)" "lx_offset N < lx_offset N'"
    "tok_kind (fst r) \<noteq> Eof" "tok_line (fst r) = lx_line M"
    "tok_range (fst r) = text_range_new (lx_offset M) (lx_offset (snd r))"
    unfolding emits_def by blast
  with LM show ?thesis
    unfolding emits_def by (intro exI [of _ N] exI [of _ N']) (simp add: same_pos_def)
qed

lemma emits_post:
  assumes e: "emits E L (t, L')" and eq: "same_pos L' L''"
  shows "emits E L (t, L'')"
proof -
  from e obtain N N' where "same_pos L N" "consumes E N N'" "same_pos N' L'" "lx_offset N < lx_offset N'"
    "tok_kind t \<noteq> Eof" "tok_line t = lx_line L"
    "tok_range t = text_range_new (lx_offset L) (lx_offset L')"
    unfolding emits_def by auto
  with eq show ?thesis
    unfolding emits_def by (intro exI [of _ N] exI [of _ N']) (simp add: same_pos_def)
qed

lemma emitsI:
  assumes "consumes E L L'" "lx_offset L < lx_offset L'" "k \<noteq> Eof"
  shows "emits E L (token_new k (text_range_new (lx_offset L) (lx_offset L')) (lx_line L), L')"
  unfolding emits_def using assms by (intro exI [of _ L] exI [of _ L']) (simp add: token_new_def)

lemma emits_fixed:
  assumes "lx_offset L < length (lx_source L)" "0 < n" "k \<noteq> Eof"
  shows "emits E L (consume_fixed_token E k n L)"
  using assms emitsI [OF consumes_consume_len, of L E n k] by (simp add: consume_fixed_token_def Let_def)

lemma consumes_strict:
  assumes "consumes E (consume_len E n L) L'" "lx_offset L < length (lx_source L)" "0 < n"
  shows "consumes E L L'" "lx_offset L < lx_offset L'"
  using assms consumes_offset [OF assms(1)] by (auto dest: consumes_after_len)

lemma emits_while:
  assumes "lx_offset L < length (lx_source L)" "p L" "k \<noteq> Eof"
  shows "emits E L (token_new k (text_range_new (lx_offset L) (lx_offset (consume_while E p L))) (lx_line L),
      consume_while E p L)"
proof -
  have "consume_while E p L = consume_while E p (consume_len E 1 L)"
    using assms by (subst consume_while.simps) (simp add: not_eof)
  then show ?thesis
    using assms consumes_strict [OF consumes_while [of "consume_len E 1 L" E p]] by (intro emitsI) auto
qed

lemma emits_while_token:
  assumes "lx_offset L < length (lx_source L)" "p L" "k \<noteq> Eof"
  shows "emits E L (consume_while_token E k p L)"
  using emits_while [of L p k E] assms by (simp add: consume_while_token_def Let_def)

lemma starts_with_peek: "starts_with L (b # bs) \<Longrightarrow> peek L = Some b"
proof -
  assume "starts_with L (b # bs)"
  then have t: "take (Suc (length bs)) (drop (lx_offset L) (lx_source L)) = b # bs"
    by (simp add: starts_with_def)
  then obtain r where "drop (lx_offset L) (lx_source L) = b # r"
    by (cases "drop (lx_offset L) (lx_source L)") auto
  then show ?thesis
    by (metis drop_eq_Nil2 get_at_def list.distinct(1) list.sel(1) hd_drop_conv_nth not_le peek_def)
qed

lemma line_comment_strict:
  assumes "peek L = Some b" "b \<noteq> CHR 0x0D" "b \<noteq> CHR 0x0A" "b \<noteq> CHR ''?''"
  shows "lx_offset L < lx_offset (line_comment_loop E L)"
proof -
  have L: "lx_offset L < length (lx_source L)" using assms(1) by (rule peek_Some)
  have nq: "\<not> starts_with L ''?>''" using assms by (auto dest: starts_with_peek)
  have step: "lx_offset L < lx_offset (line_comment_loop E (consume_len E n L))" if "0 < n" for n
    using consumes_strict(2) [OF consumes_line_comment L that] L by simp
  show ?thesis
    using assms L nq step
    by (subst line_comment_loop.simps) (auto simp: Let_def is_eof_def split: option.splits)
qed

lemma emits_line_comment:
  assumes "peek L = Some b" "b \<noteq> CHR 0x0D" "b \<noteq> CHR 0x0A" "b \<noteq> CHR ''?''"
  shows "emits E L (consume_line_comment E L)"
  unfolding consume_line_comment_def Let_def
  using assms peek_Some [OF assms(1)] line_comment_strict
  by (intro emitsI consumes_line_comment) auto

lemma same_pos_diagnostic [simp]: "same_pos L (push_diagnostic d L)"
  by (simp add: same_pos_def push_diagnostic_def)

lemma emits_block_comment:
  assumes "lx_offset L < length (lx_source L)"
  shows "emits E L (consume_block_comment E L)"
proof -
  obtain closed L' where r: "block_comment_loop E (consume_len E 2 L) = (closed, L')" by fastforce
  have "consumes E L L'" "lx_offset L < lx_offset L'"
    using consumes_strict [OF consumes_block_comment [of "consume_len E 2 L" E] assms] assms r by auto
  note e = emitsI [OF this]
  show ?thesis
    using e emits_post [OF e] r by (auto simp: consume_block_comment_def Let_def)
qed

lemma emits_bad_character:
  "lx_offset L < length (lx_source L) \<Longrightarrow> emits E L (consume_bad_character E L)"
  unfolding consume_bad_character_def Let_def
  by (rule emits_post [OF emitsI]) (auto intro: consumes_consume_len)

subsection \<open>Strings and heredoc starts\<close>

lemma scan_single_quoted_pos:
  "scan_single_quoted_loop E bytes start offset = Constant len t \<Longrightarrow> start < offset \<Longrightarrow>
   start < length bytes \<Longrightarrow> 0 < len"
proof (induction E bytes start offset rule: scan_single_quoted_loop.induct)
  case (1 E bytes start offset)
  then show ?case
    by (subst (asm) (3) scan_single_quoted_loop.simps)
       (auto simp: Let_def split: if_splits option.splits)
qed

lemma scan_double_quoted_pos:
  "scan_double_quoted_loop E bytes start offset = Constant len t \<Longrightarrow> start < offset \<Longrightarrow>
   start < length bytes \<Longrightarrow> 0 < len"
proof (induction E bytes start offset rule: scan_double_quoted_loop.induct)
  case (1 E bytes start offset)
  then show ?case
    by (subst (asm) (3) scan_double_quoted_loop.simps)
       (auto simp: Let_def split: if_splits option.splits)
qed

lemma scan_constant_start:
  "scan_constant_encapsed_string E bytes start = Some r \<Longrightarrow> start < length bytes"
  by (auto simp: scan_constant_encapsed_string_def Let_def get_at_Some_iff split: if_splits)

lemma scan_constant_pos:
  assumes "scan_constant_encapsed_string E bytes start = Some (Constant len t)"
  shows "0 < len"
proof -
  have single: "get_at bytes q = Some b \<Longrightarrow> scan_single_quoted E bytes q = Constant l u \<Longrightarrow> 0 < l" for q b l u
    using scan_single_quoted_pos [of E bytes q "q + 1" l u]
    by (simp add: scan_single_quoted_def get_at_Some_iff)
  have double: "get_at bytes q = Some b \<Longrightarrow> scan_double_quoted E bytes q = Constant l u \<Longrightarrow> 0 < l" for q b l u
    using scan_double_quoted_pos [of E bytes q "q + 1" l u]
    by (simp add: scan_double_quoted_def get_at_Some_iff)
  have prefix: "add_string_prefix_len sc n = Constant len t \<Longrightarrow> \<exists>l. sc = Constant l t \<and> len = l + n" for sc n
    by (cases sc) auto
  show ?thesis
    using assms
    by (auto simp: scan_constant_encapsed_string_def Let_def dest!: prefix
        dest: single double split: if_splits string_scan.splits)
qed

lemma same_pos_enter [simp]: "same_pos L (enter_encapsed_mode m st l L)"
  by (simp add: same_pos_def enter_encapsed_mode_def clear_encapsed_state_def)

lemma emits_constant_string:
  assumes "consume_constant_string_if_available E L = Some r"
  shows "emits E L r"
proof -
  obtain sc where sc: "scan_constant_encapsed_string E (lx_source L) (lx_offset L) = Some sc"
    using assms by (auto simp: consume_constant_string_if_available_def split: option.splits)
  note L = scan_constant_start [OF sc]
  show ?thesis
  proof (cases sc)
    case Interpolated
    then have "r = consume_fixed_token E (Symbol (SymChar (CHR 0x22))) 1
        (enter_encapsed_mode DoubleQuote (lx_offset L) (lx_line L) L)"
      using assms sc by (simp add: consume_constant_string_if_available_def)
    moreover have "emits E (enter_encapsed_mode DoubleQuote (lx_offset L) (lx_line L) L) \<dots>"
      using L by (intro emits_fixed) (simp_all add: enter_encapsed_mode_def clear_encapsed_state_def)
    ultimately show ?thesis using emits_pre [OF same_pos_enter] by simp
  next
    case (Constant len t)
    then have "0 < len" using scan_constant_pos sc by blast
    then have e: "emits E L (token_new (Named T_ConstantEncapsedString)
        (text_range_new (lx_offset L) (lx_offset (consume_len E len L))) (lx_line L), consume_len E len L)"
      using L by (intro emitsI consumes_consume_len) auto
    show ?thesis
      using assms sc Constant e emits_post [OF e same_pos_diagnostic]
      by (auto simp: consume_constant_string_if_available_def Let_def)
  qed
qed

lemma skip_while_ge [simp]: "offset \<le> skip_while p bytes offset"
  by (simp add: skip_while_def)

lemma heredoc_start_pos:
  assumes "heredoc_start_at_cursor L = Some (len, label, nowdoc)"
  shows "0 < len \<and> label \<noteq> []"
proof -
  let ?src = "lx_source L"
  define o0 where "o0 = skip_while is_blank ?src (lx_offset L + 3)"
  define quote where "quote = heredoc_quote ?src o0"
  define ls where "ls = (if quote = None then o0 else o0 + 1)"
  define le where "le = skip_while is_identifier_continue ?src (ls + 1)"
  define off where "off = (if quote = None then le else le + 1)"
  have "lx_offset L + 3 \<le> o0" "ls + 1 \<le> le"
    unfolding o0_def le_def by (rule skip_while_ge)+
  then have ord: "lx_offset L < ls" "ls < le" "lx_offset L < off" by (auto simp: ls_def off_def)
  have "is_some_and (get_at ?src ls) is_identifier_start \<and> label = sub_slice ?src ls le \<and>
      (\<exists>n. len = off + n - lx_offset L)"
    using assms
    unfolding heredoc_start_at_cursor_def Let_def o0_def [symmetric] quote_def [symmetric]
      ls_def [symmetric] le_def [symmetric] off_def [symmetric]
    by (auto split: if_split_asm option.split_asm)
  then show ?thesis using ord by (auto simp: sub_slice_def get_at_Some_iff elim!: is_some_andE)
qed

lemma emits_heredoc_start:
  assumes "consume_heredoc_start_if_available E L = Some r"
  shows "emits E L r"
proof -
  obtain len label nowdoc where h: "heredoc_start_at_cursor L = Some (len, label, nowdoc)"
    using assms by (auto simp: consume_heredoc_start_if_available_def split: option.splits)
  then have L: "lx_offset L < length (lx_source L)"
    by (auto simp: heredoc_start_at_cursor_def dest!: starts_with_peek peek_Some split: if_splits)
  define M where "M = (enter_encapsed_mode (if nowdoc then Nowdoc else Heredoc) (lx_offset L) (lx_line L)
      ((if lx_mode L = Heredoc \<or> lx_mode L = Nowdoc then save_encapsed_snapshot L else L)
        \<lparr>heredoc_label := Some label, heredoc_nowdoc := nowdoc\<rparr>))\<lparr>heredoc_nowdoc := nowdoc\<rparr>"
  have M: "same_pos L M"
    by (simp add: M_def same_pos_def enter_encapsed_mode_def clear_encapsed_state_def save_encapsed_snapshot_def)
  have r: "r = consume_fixed_token E (Named T_StartHeredoc) len M"
    using assms h by (simp add: consume_heredoc_start_if_available_def M_def)
  show ?thesis
    unfolding r using M L heredoc_start_pos [OF h]
    by (intro emits_pre [OF M emits_fixed]) (simp_all add: same_pos_def)
qed

subsection \<open>Names\<close>

lemma identifier_strict:
  assumes "is_some_and (peek L) is_identifier_start"
  shows "consumes E L (consume_identifier_bytes E L)" "lx_offset L < lx_offset (consume_identifier_bytes E L)"
proof -
  have L: "lx_offset L < length (lx_source L)" using assms by (rule is_some_and_peek)
  have eq: "consume_identifier_bytes E L = identifier_bytes_loop E (consume_len E 1 L)"
    using assms by (simp add: consume_identifier_bytes_def)
  show "consumes E L (consume_identifier_bytes E L)" "lx_offset L < lx_offset (consume_identifier_bytes E L)"
    unfolding eq using consumes_strict [OF consumes_identifier_loop L] L by auto
qed

lemma name_strict:
  assumes "is_some_and (peek L) is_identifier_start"
  shows "consumes E L (name_parts_loop E (consume_identifier_bytes E L))"
    "lx_offset L < lx_offset (name_parts_loop E (consume_identifier_bytes E L))"
proof -
  note c = identifier_strict [OF assms, of E]
  have n: "consumes E (consume_identifier_bytes E L) (name_parts_loop E (consume_identifier_bytes E L))"
    using consumes_offset [OF c(1)] consumes_source [OF c(1)] by (intro consumes_name_parts) simp
  show "consumes E L (name_parts_loop E (consume_identifier_bytes E L))"
    using c(1) n by (rule consumes_trans)
  show "lx_offset L < lx_offset (name_parts_loop E (consume_identifier_bytes E L))"
    using c(2) consumes_offset [OF n] by simp
qed

lemma emits_identifier_or_name:
  assumes "is_some_and (peek L) is_identifier_start"
  shows "emits E L (consume_identifier_or_name E L)"
proof -
  note e = emitsI [OF name_strict [OF assms, of E]]
  have "emits E L (token_new k (text_range_new (lx_offset L) (lx_offset (name_parts_loop E (consume_identifier_bytes E L))))
      (lx_line L), L')" if "k \<noteq> Eof" "same_pos (name_parts_loop E (consume_identifier_bytes E L)) L'" for k L'
    using e [OF that(1)] that(2) by (rule emits_post)
  then show ?thesis
    by (auto simp: consume_identifier_or_name_def Let_def same_pos_def)
qed

lemma emits_identifier_token:
  assumes "is_some_and (peek L) is_identifier_start"
  shows "emits E L (consume_identifier_token E n L)"
  unfolding consume_identifier_token_def Let_def by (intro emitsI identifier_strict assms) simp

lemma emits_qualified_name:
  assumes "lx_offset L < length (lx_source L)" "k \<noteq> Eof"
  shows "emits E L (consume_qualified_name E k True L)"
proof -
  let ?M = "consume_len E 1 L"
  have i: "consumes E ?M (consume_identifier_bytes E ?M)" using assms(1) by (intro consumes_identifier) simp
  have n: "consumes E (consume_identifier_bytes E ?M) (name_parts_loop E (consume_identifier_bytes E ?M))"
    using consumes_offset [OF i] consumes_source [OF i] by (intro consumes_name_parts) simp
  show ?thesis
    unfolding consume_qualified_name_def Let_def if_True
    using consumes_strict [OF consumes_trans [OF i n] assms(1)] assms(2) by (intro emitsI) auto
qed

lemma emits_variable_or_dollar:
  assumes "lx_offset L < length (lx_source L)"
  shows "emits E L (consume_variable_or_dollar E L)"
proof -
  let ?M = "consume_len E 1 L"
  have "consumes E ?M (consume_while E p ?M)" for p using assms by (intro consumes_while) simp
  note w = consumes_strict [OF this assms]
  have "consumes E L ?M" "lx_offset L < lx_offset ?M"
    using assms by (auto intro: consumes_consume_len)
  then show ?thesis
    using w unfolding consume_variable_or_dollar_def Let_def by (auto intro!: emitsI)
qed

lemma emits_num_string:
  assumes "is_some_and (peek L) is_decimal_digit"
  shows "emits E L (consume_num_string E L)"
  unfolding consume_num_string_def Let_def
  using emits_while [of L "\<lambda>M. is_some_and (peek M) is_decimal_digit"] assms is_some_and_peek by auto

subsection \<open>Numbers\<close>

lemma digits_strict:
  assumes "is_some_and (peek L) p"
  shows "lx_offset L < lx_offset (consume_digit_sequence E p L)"
proof -
  have L: "lx_offset L < length (lx_source L)" using assms by (rule is_some_and_peek)
  then show ?thesis
    using assms consumes_strict(2) [OF consumes_digit_loop [of "consume_len E 1 L" E p] L]
    by (simp add: consume_digit_sequence_def)
qed

lemma emits_number:
  assumes "at_number L"
  shows "emits E L (consume_number E L)"
proof -
  have L: "lx_offset L < length (lx_source L)"
    using assms by (auto simp: at_number_def dest: is_some_and_peek peek_Some)
  have go: "emits E L (token_new (Named k) (text_range_new (lx_offset L) (lx_offset M')) (lx_line L), M')"
    if "consumes E L M" "consumes E M M'" "lx_offset L < lx_offset M" for k M M'
    using that consumes_trans [OF that(1,2)] consumes_offset [OF that(2)] by (intro emitsI) auto
  have dig: "consumes E L (consume_digit_sequence E p (consume_len E n L))"
    "lx_offset L < lx_offset (consume_digit_sequence E p (consume_len E n L))" if "0 < n" for n p
    using consumes_strict [OF consumes_digits L that] L by auto
  have ex: "consumes E M (snd (consume_exponent_if_present E M))" if "consumes E L M" for M
    using consumes_offset [OF that] consumes_source [OF that] by (intro consumes_exponent) simp
  have fr: "consumes E M (consume_digit_sequence E is_decimal_digit (consume_len E 1 M))" if "consumes E L M" for M
    using consumes_offset [OF that] consumes_source [OF that]
    by (intro consumes_after_len [OF consumes_digits]) simp_all
  consider (dot) "peek L = Some (CHR ''.'')" | (pre) d where "peek L \<noteq> Some (CHR ''.'')" "prefixed_digits L = Some d"
    | (dec) "peek L \<noteq> Some (CHR ''.'')" "prefixed_digits L = None" by fastforce
  then show ?thesis
  proof cases
    case dot
    then show ?thesis
      using go [OF dig(1) ex dig(2)] dig by (simp add: consume_number_def Let_def split_beta)
  next
    case pre
    then show ?thesis
      using go [OF dig(1) consumes_refl dig(2)] consumes_offset [OF dig(1)] consumes_source [OF dig(1)]
      by (simp add: consume_number_def Let_def)
  next
    case dec
    have d: "consumes E L (consume_digit_sequence E is_decimal_digit L)"
      "lx_offset L < lx_offset (consume_digit_sequence E is_decimal_digit L)"
      using L dec(1) assms digits_strict [of L is_decimal_digit E]
      by (auto intro: consumes_digits simp: at_number_def is_decimal_digit_def [abs_def])
    show ?thesis
      using dec go [OF d(1) ex [OF d(1)] d(2)] go [OF d(1) consumes_trans [OF fr [OF d(1)] ex] d(2)]
        consumes_trans [OF d(1) fr [OF d(1)]]
      by (auto simp: consume_number_def Let_def split_beta)
  qed
qed

subsection \<open>Scripting tokens\<close>

lemma find_table:
  "map_option (\<lambda>(text, name). (Named name, length text)) (List.find P table) = Some (k, n) \<Longrightarrow>
   \<exists>text name. (text, name) \<in> set table \<and> P (text, name) \<and> k = Named name \<and> n = length text"
proof -
  assume "map_option (\<lambda>(text, name). (Named name, length text)) (List.find P table) = Some (k, n)"
  then obtain tx nm where f: "List.find P table = Some (tx, nm)" "k = Named nm" "n = length tx"
    by auto
  from f(1) have "(tx, nm) \<in> set table" "P (tx, nm)" by (auto simp: find_Some_iff)
  with f(2,3) show ?thesis by blast
qed

lemma visibility_pos: "property_hook_visibility_at_cursor L = Some (k, n) \<Longrightarrow> 0 < n \<and> k \<noteq> Eof"
  unfolding property_hook_visibility_at_cursor_def
  by (drule find_table) (auto simp: VISIBILITIES_def)

lemma operator_pos: "operator_at_cursor L = Some (k, n) \<Longrightarrow> 0 < n \<and> k \<noteq> Eof"
  unfolding operator_at_cursor_def
  by (drule find_table) (auto simp: OPERATORS_def)

lemma cast_pos: "cast_at_cursor L = Some (k, n) \<Longrightarrow> 0 < n \<and> k \<noteq> Eof"
proof -
  assume a: "cast_at_cursor L = Some (k, n)"
  define a1 where "a1 = skip_while is_php_whitespace (lx_source L) (lx_offset L + 1)"
  define a2 where "a2 = skip_while is_ascii_alphabetic (lx_source L) a1"
  define a3 where "a3 = skip_while is_php_whitespace (lx_source L) a2"
  have "lx_offset L + 1 \<le> a1" "a1 \<le> a2" "a2 \<le> a3" unfolding a1_def a2_def a3_def by (rule skip_while_ge)+
  moreover have "n = a3 + 1 - lx_offset L \<and> k \<noteq> Eof"
    using a by (auto simp: cast_at_cursor_def Let_def a1_def a2_def a3_def split: if_splits option.splits)
  ultimately show ?thesis by simp
qed

lemma emits_yield_from:
  assumes "consume_yield_from E L = Some r" "lx_offset L < length (lx_source L)"
  shows "emits E L r"
  using assms by (auto simp: consume_yield_from_def Let_def intro: emits_fixed split: if_splits)

lemma emits_word:
  assumes "lx_offset L < length (lx_source L)"
  shows "emits E L (scripting_word_token E L)"
proof -
  have tick: "emits E L (consume_fixed_token E (Symbol (SymChar (CHR 0x60))) 1
      (enter_encapsed_mode Backtick (lx_offset L) (lx_line L) L))"
    by (rule emits_pre [OF same_pos_enter emits_fixed])
       (use assms in \<open>simp_all add: enter_encapsed_mode_def clear_encapsed_state_def\<close>)
  have amp: "emits E L (consume_ampersand E L)"
    using assms by (simp add: consume_ampersand_def emits_fixed)
  show ?thesis
    unfolding scripting_word_token_def
    using assms tick amp emits_yield_from
    by (auto intro!: emits_fixed emits_variable_or_dollar emits_qualified_name emits_identifier_or_name
        dest: cast_pos visibility_pos operator_pos split: option.splits)
qed

definition emits_some :: "byte_env \<Rightarrow> lexer \<Rightarrow> token option \<times> lexer \<Rightarrow> bool" where
  "emits_some E L r \<longleftrightarrow> (\<exists>t. fst r = Some t \<and> emits E L (t, snd r))"

lemma emits_some_apfst: "emits E L r \<Longrightarrow> emits_some E L (apfst Some r)"
  by (cases r) (simp add: emits_some_def)

lemma emits_some_update:
  assumes "emits E L r" "\<And>M. same_pos M (f M)"
  shows "emits_some E L (let (t, L') = r in (Some t, f L'))"
  using assms by (cases r) (auto simp: emits_some_def intro: emits_post)

lemma emits_some_if:
  "(c \<Longrightarrow> emits_some E L a) \<Longrightarrow> (\<not> c \<Longrightarrow> emits_some E L b) \<Longrightarrow> emits_some E L (if c then a else b)"
  by simp

lemma emits_some_option:
  "(x = None \<Longrightarrow> emits_some E L a) \<Longrightarrow> (\<And>y. x = Some y \<Longrightarrow> emits_some E L (b y)) \<Longrightarrow>
   emits_some E L (case x of None \<Rightarrow> a | Some y \<Rightarrow> b y)"
  by (cases x) auto

lemmas emits_some_intros = emits_some_if emits_some_option emits_some_apfst

lemma emits_remaining:
  assumes "lx_offset L < length (lx_source L)"
  shows "emits E L (consume_remaining_inline_html E L)"
  unfolding consume_remaining_inline_html_def Let_def
  by (rule emits_post [OF emitsI]) (use assms in \<open>auto simp: same_pos_def intro: consumes_consume_len\<close>)

lemma emits_scripting:
  assumes L: "lx_offset L < length (lx_source L)"
  shows "emits_some E L (next_scripting_token E L)"
proof -
  have ne: "\<not> is_eof L" using L by (simp add: not_eof)
  obtain b where b: "peek L = Some b" "peek_or_default L = b"
    using L by (simp add: peek_def get_at_def peek_or_default_def)
  have semi: "emits_some E L (let (t, L') = consume_fixed_token E (Symbol (SymChar (CHR '';''))) 1 L
      in (Some t, L'\<lparr>lx_mode := InlineHtml, halt_compiler_seen := False, halt_compiler_significant_tokens := 0\<rparr>))"
    using L by (intro emits_some_update emits_fixed) (simp_all add: same_pos_def)
  have close: "emits_some E L (let (t, L') = consume_fixed_token E (Named T_CloseTag) (close_tag_len L) L
      in (Some t, L'\<lparr>lx_mode := InlineHtml\<rparr>))"
    using L by (intro emits_some_update emits_fixed) (simp_all add: same_pos_def close_tag_len_def)
  have comment: "emits E L (consume_line_comment E L)" if "starts_with L ''//'' \<or> starts_with L ''#''"
    using that by (auto dest!: starts_with_peek intro: emits_line_comment)
  have ws: "emits E L (consume_while_token E (Named T_Whitespace) (\<lambda>M. is_some_and (peek M) is_php_whitespace) L)"
    if "is_php_whitespace (peek_or_default L)"
    using that L b by (intro emits_while_token) auto
  show ?thesis
    unfolding next_scripting_token_def
    by (intro emits_some_intros semi close comment ws emits_remaining emits_fixed emits_block_comment
          emits_bad_character emits_number emits_word)
       (use L ne in \<open>auto dest: emits_constant_string emits_heredoc_start\<close>)
qed

subsection \<open>Interpolation, text and end of heredoc\<close>

lemma emits_update_first:
  "emits E (f L) r \<Longrightarrow> same_pos L (f L) \<Longrightarrow> emits E L r"
  by (rule emits_pre)

lemma emits_interpolation:
  assumes "next_interpolation_token_without_delimiter E L = Some r" "lx_offset L < length (lx_source L)"
  shows "emits E L r"
proof -
  have fixed: "emits E L (consume_fixed_token E k n M)" if "same_pos L M" "0 < n" "k \<noteq> Eof" for k n M
    using that assms(2) by (intro emits_pre [OF that(1) emits_fixed]) (auto simp: same_pos_def)
  have ident: "emits E L (consume_identifier_token E nm M)"
    if "same_pos L M" "is_some_and (peek L) is_identifier_start" for nm M
    using that by (intro emits_pre [OF that(1) emits_identifier_token]) (auto simp: same_pos_def peek_def)
  have var: "emits E L (t, L'\<lparr>last_encapsed_variable := v\<rparr>)"
    if "consume_variable_or_dollar E L = (t, L')" for t L' v
    using emits_variable_or_dollar [OF assms(2), of E] that
    by (auto intro: emits_post simp: same_pos_def)
  show ?thesis
    using assms(1) unfolding next_interpolation_token_without_delimiter_def
    by (auto split: if_split_asm prod.split_asm intro!: fixed ident var emits_num_string simp: same_pos_def)
qed

lemma text_strict:
  assumes "lx_offset L < length (lx_source L)" "\<not> stop L"
  shows "lx_offset L < lx_offset (text_loop E stop escapes L)"
proof -
  have 1: "lx_offset L < lx_offset (text_loop E stop escapes (consume_len E 1 L))"
    using assms consumes_strict(2) [OF consumes_text [of "consume_len E 1 L" E] assms(1)] by simp
  have 2: "lx_offset L < lx_offset (text_loop E stop escapes (consume_escape E L))"
    using consume_escape_offset [OF assms(1), of E]
      consumes_offset [OF consumes_text [of "consume_escape E L" E stop escapes]] by simp
  show ?thesis using assms 1 2 by (subst text_loop.simps) (auto simp: not_eof)
qed

lemma emits_text:
  assumes "lx_offset L < length (lx_source L)" "\<not> stop L"
  shows "emits E L (token_new (Named T_EncapsedAndWhitespace)
      (text_range_new (lx_offset L) (lx_offset (text_loop E stop escapes L))) (lx_line L),
      (text_loop E stop escapes L)\<lparr>last_encapsed_variable := False\<rparr>)"
  by (rule emits_post [OF emitsI])
     (use assms text_strict in \<open>auto simp: same_pos_def intro: consumes_text\<close>)

lemma no_interpolation:
  "next_interpolation_token_without_delimiter E L = None \<Longrightarrow> \<not> at_interpolation L"
  by (auto simp: next_interpolation_token_without_delimiter_def at_interpolation_def
      split: if_split_asm prod.split_asm)

lemma emits_encapsed:
  assumes "lx_offset L < length (lx_source L)"
  shows "emits_some E L (next_encapsed_token E d L)"
proof -
  have ne: "\<not> is_eof L" using assms by (simp add: not_eof)
  have delim: "emits E L (consume_fixed_token E (Symbol (SymChar d)) 1
      (clear_encapsed_state (L\<lparr>lx_mode := Scripting\<rparr>)))"
    by (rule emits_pre [OF _ emits_fixed]) (use assms in \<open>simp_all add: same_pos_def clear_encapsed_state_def\<close>)
  have body: "emits E L (consume_encapsed_text E d L)"
    if "peek L \<noteq> Some d" "next_interpolation_token_without_delimiter E L = None"
    unfolding consume_encapsed_text_def Let_def
    using assms that no_interpolation by (intro emits_text) auto
  show ?thesis
    unfolding next_encapsed_token_def
    by (intro emits_some_intros delim body) (use ne assms emits_interpolation in auto)
qed

lemma emits_heredoc:
  assumes "lx_offset L < length (lx_source L)" "heredoc_label L \<noteq> Some []"
  shows "emits_some E L (next_heredoc_token E L)"
proof -
  have ne: "\<not> is_eof L" using assms by (simp add: not_eof)
  have len: "0 < n" if end_len: "heredoc_end_len_at_cursor L = Some n" for n
  proof -
    have "heredoc_label L \<noteq> None" using end_len by (cases "heredoc_label L") (simp_all add: heredoc_end_len_at_cursor_def)
    then obtain label where label: "heredoc_label L = Some label" "label \<noteq> []" using assms(2) by blast
    define o1 where "o1 = skip_while is_blank (lx_source L) (lx_offset L)"
    have "lx_offset L \<le> o1" unfolding o1_def by (rule skip_while_ge)
    moreover have "n = o1 + length label - lx_offset L"
      using end_len label(1) unfolding heredoc_end_len_at_cursor_def Let_def o1_def [symmetric]
      by (auto split: if_split_asm option.split_asm)
    ultimately show ?thesis using label(2) by (cases label) simp_all
  qed
  have fin: "emits_some E L (let (t, L1) = consume_fixed_token E (Named T_EndHeredoc) n L;
               (restored, L2) = restore_encapsed_snapshot L1
           in (Some t, if restored then L2
                       else clear_encapsed_state (clear_heredoc_state (L2\<lparr>lx_mode := Scripting\<rparr>))))"
    if "heredoc_end_len_at_cursor L = Some n" for n
  proof -
    have e: "emits E L (consume_fixed_token E (Named T_EndHeredoc) n L)"
      using assms(1) len [OF that] by (intro emits_fixed) auto
    obtain t L1 where c: "consume_fixed_token E (Named T_EndHeredoc) n L = (t, L1)" by fastforce
    obtain restored L2 where r: "restore_encapsed_snapshot L1 = (restored, L2)" by fastforce
    have "same_pos L1 L2"
      using r by (auto simp: restore_encapsed_snapshot_def same_pos_def Let_def split: if_splits)
    then have "same_pos L1 (if restored then L2
        else clear_encapsed_state (clear_heredoc_state (L2\<lparr>lx_mode := Scripting\<rparr>)))"
      by (auto simp: same_pos_def clear_encapsed_state_def clear_heredoc_state_def)
    with e show ?thesis unfolding c r Let_def split by (auto simp: emits_some_def intro: emits_post)
  qed
  have brace: "emits E L (consume_fixed_token E (Symbol (SymChar (CHR 0x7D))) 1
      (L\<lparr>in_braced_interpolation := False, last_encapsed_variable := False\<rparr>))"
    by (rule emits_pre [OF _ emits_fixed]) (use assms in \<open>simp_all add: same_pos_def\<close>)
  let ?interp = "if heredoc_nowdoc L then None else next_interpolation_token_without_delimiter E L"
  have interp: "emits E L r" if "?interp = Some r" for r
    using that emits_interpolation [of E L r] assms(1) by (cases "heredoc_nowdoc L") simp_all
  have body: "emits E L (consume_heredoc_text E L)" if "heredoc_end_len_at_cursor L = None" "?interp = None"
    unfolding consume_heredoc_text_def Let_def
    using assms that no_interpolation [of E L] by (intro emits_text) (auto split: if_splits)
  show ?thesis
  proof (cases "heredoc_end_len_at_cursor L")
    case (Some n)
    then show ?thesis unfolding next_heredoc_token_def using ne fin [OF Some] by simp
  next
    case None
    show ?thesis
      unfolding next_heredoc_token_def None option.case if_not_P [OF ne]
      by (intro emits_some_intros brace body [OF None] emits_scripting assms(1)) (auto intro: interp)
  qed
qed

subsection \<open>Inline HTML\<close>

lemma open_tag_pos: "open_tag_at_offset L n = Some (k, len) \<Longrightarrow> 0 < len \<and> k \<noteq> Eof"
  by (auto simp: open_tag_at_offset_def split: if_splits)

lemma inline_html_strict:
  assumes "lx_offset L < length (lx_source L)" "open_tag_at_cursor L = None"
  shows "lx_offset L < lx_offset (inline_html_loop E L)"
proof -
  have step: "lx_offset L < lx_offset (inline_html_loop E (consume_len E n L))" if "0 < n" for n
    using consumes_strict(2) [OF consumes_inline_html assms(1) that] assms(1) by simp
  show ?thesis
    using assms step by (subst inline_html_loop.simps) (auto simp: Let_def not_eof split: option.splits)
qed

text \<open>A byte order mark before an open tag is skipped; otherwise the token starts at the
  cursor.\<close>

definition skips_bom :: "lexer \<Rightarrow> bool" where
  "skips_bom L \<longleftrightarrow> lx_mode L = InlineHtml \<and> lx_offset L = 0 \<and>
     starts_with L [CHR 0xEF, CHR 0xBB, CHR 0xBF] \<and> open_tag_at_offset L 3 \<noteq> None"

lemma skips_bom_length: "skips_bom L \<Longrightarrow> lx_offset L = 0 \<and> 3 < length (lx_source L)"
proof -
  assume a: "skips_bom L"
  then have "peek_n L 3 \<noteq> None"
    by (auto simp: skips_bom_def open_tag_at_offset_def cursor_starts_with_at_def numeral_eq_Suc split: if_splits)
  then show ?thesis using a by (simp add: peek_n_def skips_bom_def)
qed

lemma next_inline_html_eq:
  assumes "lx_offset L < length (lx_source L)" "lx_mode L = InlineHtml"
    and M: "M = (if skips_bom L then consume_len E 3 L else L)"
  shows "next_inline_html_token E L = (case open_tag_at_cursor M of
      Some (kind, len) \<Rightarrow> let (t, L') = consume_fixed_token E kind len M in (Some t, L'\<lparr>lx_mode := Scripting\<rparr>)
    | None \<Rightarrow> let L' = inline_html_loop E M
        in (Some (token_new (Named T_InlineHtml) (text_range_new (lx_offset M) (lx_offset L')) (lx_line M)), L'))"
proof -
  have "\<not> is_eof L" using assms(1) by (simp add: not_eof)
  then show ?thesis
    unfolding next_inline_html_token_def M skips_bom_def Let_def using assms(2) by (simp only: if_False simp_thms)
qed

lemma emits_inline_html:
  assumes "lx_offset L < length (lx_source L)" "lx_mode L = InlineHtml"
  shows "emits_some E (if skips_bom L then consume_len E 3 L else L) (next_inline_html_token E L)"
proof -
  define M where "M = (if skips_bom L then consume_len E 3 L else L)"
  have off: "lx_offset M < length (lx_source M)" using assms skips_bom_length by (auto simp: M_def)
  have tag: "emits_some E M (let (t, L') = consume_fixed_token E k n M in (Some t, L'\<lparr>lx_mode := Scripting\<rparr>))"
    if "open_tag_at_cursor M = Some (k, n)" for k n
    using off that open_tag_pos unfolding open_tag_at_cursor_def
    by (intro emits_some_update emits_fixed) (auto simp: same_pos_def)
  have html: "emits_some E M (Some (token_new (Named T_InlineHtml)
      (text_range_new (lx_offset M) (lx_offset (inline_html_loop E M))) (lx_line M)), inline_html_loop E M)"
    if "open_tag_at_cursor M = None"
    using off that inline_html_strict
    unfolding emits_some_def by (auto intro!: emitsI consumes_inline_html)
  show ?thesis
    unfolding M_def [symmetric] next_inline_html_eq [OF assms M_def]
    using tag html by (intro emits_some_option) (auto simp: Let_def)
qed

end
