(* ===== verification/Lexer_Invariant.thy ===== *)
theory Lexer_Invariant
  imports Lexer_Progress
begin

text \<open>
  The invariant of the lexer state and its preservation by every token function: the cursor
  and the remembered mode starts lie in the source, the heredoc labels are not empty, and
  the diagnostics have ranges inside the source. With \<open>lined\<close>, the remembered line numbers
  are those of the remembered positions; that part rests on the contract of the \<open>memchr\<close>
  crate.
\<close>

section \<open>Line numbers\<close>

text \<open>The bytes at which the lexer counts a line break: every carriage return, and every line
  feed that does not follow one.\<close>

definition breaks_at :: "bytes \<Rightarrow> nat \<Rightarrow> bool" where
  "breaks_at bs i \<longleftrightarrow> get_at bs i = Some (CHR 0x0D) \<or>
     (get_at bs i = Some (CHR 0x0A) \<and> (i = 0 \<or> get_at bs (i - 1) \<noteq> Some (CHR 0x0D)))"

definition line_at :: "bytes \<Rightarrow> nat \<Rightarrow> nat" where
  "line_at bs o1 = Suc (length (filter (breaks_at bs) [0..<o1]))"

lemma line_at_0 [simp]: "line_at bs 0 = 1"
  by (simp add: line_at_def)

lemma line_at_split:
  "i \<le> j \<Longrightarrow> line_at bs j = line_at bs i + length (filter (breaks_at bs) [i..<j])"
  using upt_add_eq_append [of 0 i "j - i"] by (simp add: line_at_def)

lemma line_at_le: "line_at bs j \<le> Suc j"
  using length_filter_le [of "breaks_at bs" "[0..<j]"] by (simp add: line_at_def)

lemma line_breaks_skip:
  assumes "i \<le> k" "\<And>j. i \<le> j \<Longrightarrow> j < k \<Longrightarrow> \<not> breaks_at bs j"
  shows "filter (breaks_at bs) [i..<k] = []"
  using assms by (simp add: filter_empty_conv)

lemma line_breaks_step:
  assumes "i \<le> k" "k < en" "\<And>j. i \<le> j \<Longrightarrow> j < k \<Longrightarrow> \<not> breaks_at bs j"
  shows "length (filter (breaks_at bs) [i..<en])
    = (if breaks_at bs k then 1 else 0) + length (filter (breaks_at bs) [Suc k..<en])"
proof -
  have "[i..<en] = [i..<k] @ k # [Suc k..<en]"
    using assms(1,2) upt_add_eq_append [of i k "en - k"] by (simp add: upt_conv_Cons)
  then show ?thesis using line_breaks_skip [OF assms(1,3)] by simp
qed

context byte_search
begin

lemma find_line_byte:
  assumes "en \<le> length bs" "i \<le> en"
  shows "find_any2 E (sub_slice bs i en) (CHR 0x0D) (CHR 0x0A) = None \<Longrightarrow>
      filter (breaks_at bs) [i..<en] = []"
    and "find_any2 E (sub_slice bs i en) (CHR 0x0D) (CHR 0x0A) = Some r \<Longrightarrow>
      i + r < en \<and> (bs ! (i + r) = CHR 0x0D \<or> bs ! (i + r) = CHR 0x0A) \<and>
      length (filter (breaks_at bs) [i..<en])
        = (if breaks_at bs (i + r) then 1 else 0) + length (filter (breaks_at bs) [Suc (i + r)..<en])"
proof -
  let ?nl = "\<lambda>x. x = CHR 0x0D \<or> x = CHR 0x0A"
  have eq: "find_any2 E (sub_slice bs i en) (CHR 0x0D) (CHR 0x0A) = position ?nl (sub_slice bs i en)"
    by (simp add: find_any2_def)
  have nth: "sub_slice bs i en ! j = bs ! (i + j)" if "j < en - i" for j
    using that assms by (simp add: sub_slice_def)
  have len: "length (sub_slice bs i en) = en - i" using assms by (simp add: sub_slice_def)
  have quiet: "\<not> breaks_at bs (i + j)" if "j < en - i" "\<not> ?nl (sub_slice bs i en ! j)" for j
    using that nth [OF that(1)] by (auto simp: breaks_at_def get_at_Some_iff)
  show "filter (breaks_at bs) [i..<en] = []" if "find_any2 E (sub_slice bs i en) (CHR 0x0D) (CHR 0x0A) = None"
  proof (rule line_breaks_skip [OF assms(2)])
    fix j assume j: "i \<le> j" "j < en"
    have "\<not> ?nl (sub_slice bs i en ! (j - i))"
      using that nth_mem [of "j - i" "sub_slice bs i en"] j len unfolding eq position_None_iff by auto
    then show "\<not> breaks_at bs j" using quiet [of "j - i"] j by simp
  qed
  assume "find_any2 E (sub_slice bs i en) (CHR 0x0D) (CHR 0x0A) = Some r"
  then have r: "r < en - i" "?nl (sub_slice bs i en ! r)" "\<And>j. j < r \<Longrightarrow> \<not> ?nl (sub_slice bs i en ! j)"
    unfolding eq position_Some_iff len by auto
  have "\<not> breaks_at bs j" if "i \<le> j" "j < i + r" for j
    using quiet [of "j - i"] r(1) r(3) [of "j - i"] that by simp
  then show "i + r < en \<and> (bs ! (i + r) = CHR 0x0D \<or> bs ! (i + r) = CHR 0x0A) \<and>
      length (filter (breaks_at bs) [i..<en])
        = (if breaks_at bs (i + r) then 1 else 0) + length (filter (breaks_at bs) [Suc (i + r)..<en])"
    using r nth [OF r(1)] by (intro conjI line_breaks_step) auto
qed

lemma advance_line_eq:
  "en \<le> length bs \<Longrightarrow> index \<le> en \<Longrightarrow>
   advance_line_for_range E bs l index en = l + length (filter (breaks_at bs) [index..<en])"
proof (induction "en - index" arbitrary: l index rule: less_induct)
  case less
  show ?case
  proof (cases "find_any2 E (sub_slice bs index en) (CHR 0x0D) (CHR 0x0A)")
    case None
    then show ?thesis
      using find_line_byte(1) [OF less.prems None] by (subst advance_line_for_range.simps) simp
  next
    case (Some r)
    note found = find_line_byte(2) [OF less.prems Some]
    then have "index < en" "en - (index + r + 1) < en - index" by linarith+
    then have IH: "advance_line_for_range E bs m (index + r + 1) en
        = m + length (filter (breaks_at bs) [Suc (index + r)..<en])" for m
      using less.hyps [of "index + r + 1" m] less.prems found by simp
    have "advance_line_for_range E bs l index en
        = advance_line_for_range E bs (if breaks_at bs (index + r) then l + 1 else l) (index + r + 1) en"
      using \<open>index < en\<close> Some by (subst advance_line_for_range.simps) (auto simp: Let_def breaks_at_def)
    then show ?thesis using found IH by simp
  qed
qed

lemma consumes_line:
  "consumes E L L' \<Longrightarrow> lx_line L = line_at (lx_source L) (lx_offset L) \<Longrightarrow>
   lx_line L' = line_at (lx_source L) (lx_offset L')"
proof (induction rule: consumes.induct)
  case (consumes_step L n L')
  then show ?case
    using line_at_split [of "lx_offset L" "min (lx_offset L + n) (length (lx_source L))" "lx_source L"]
    by (simp add: consume_len_eq advance_line_eq)
qed simp

end

section \<open>The invariant\<close>

text \<open>A remembered position of the source with its line.\<close>

definition place_ok :: "byte_env \<Rightarrow> bytes \<Rightarrow> nat \<Rightarrow> nat \<Rightarrow> bool" where
  "place_ok E src pos line \<longleftrightarrow> pos \<le> length src \<and> (memchr_ok E \<longrightarrow> line = line_at src pos)"

definition diag_ok :: "byte_env \<Rightarrow> bytes \<Rightarrow> lex_diagnostic \<Rightarrow> bool" where
  "diag_ok E src d \<longleftrightarrow> range_start (diag_span d) \<le> range_end (diag_span d) \<and>
     range_end (diag_span d) \<le> length src \<and> place_ok E src (range_start (diag_span d)) (diag_line d)"

definition snap_ok :: "byte_env \<Rightarrow> lexer \<Rightarrow> encapsed_snapshot \<Rightarrow> bool" where
  "snap_ok E L s \<longleftrightarrow> snap_mode_start s \<le> lx_offset L \<and> snap_heredoc_label s \<noteq> Some [] \<and>
     place_ok E (lx_source L) (snap_mode_start s) (snap_mode_start_line s)"

definition lex_ok :: "byte_env \<Rightarrow> lexer \<Rightarrow> bool" where
  "lex_ok E L \<longleftrightarrow> place_ok E (lx_source L) (lx_offset L) (lx_line L) \<and>
     lx_mode_start L \<le> lx_offset L \<and> place_ok E (lx_source L) (lx_mode_start L) (lx_mode_start_line L) \<and>
     heredoc_label L \<noteq> Some [] \<and> (\<forall>s\<in>set (encapsed_stack L). snap_ok E L s) \<and>
     (\<forall>d\<in>set (lx_diagnostics L). diag_ok E (lx_source L) d)"

lemma lex_ok_new: "lex_ok E (lexer_new src config)"
  by (simp add: lex_ok_def lexer_new_def place_ok_def)

lemma lex_ok_offset: "lex_ok E L \<Longrightarrow> lx_offset L \<le> length (lx_source L)"
  by (simp add: lex_ok_def place_ok_def)

lemma lex_ok_place: "lex_ok E L \<Longrightarrow> place_ok E (lx_source L) (lx_offset L) (lx_line L)"
  by (simp add: lex_ok_def)

text \<open>The fields of the state that the invariant does not read.\<close>

lemma lex_ok_update [simp]:
  "lex_ok E (L\<lparr>lx_mode := m\<rparr>) = lex_ok E L"
  "lex_ok E (L\<lparr>emitted_placeholder := b\<rparr>) = lex_ok E L"
  "lex_ok E (L\<lparr>emitted_eof := b\<rparr>) = lex_ok E L"
  "lex_ok E (L\<lparr>expecting_object_property := b\<rparr>) = lex_ok E L"
  "lex_ok E (L\<lparr>expecting_string_varname := b\<rparr>) = lex_ok E L"
  "lex_ok E (L\<lparr>in_string_var_offset := b\<rparr>) = lex_ok E L"
  "lex_ok E (L\<lparr>in_braced_interpolation := b\<rparr>) = lex_ok E L"
  "lex_ok E (L\<lparr>last_encapsed_variable := b\<rparr>) = lex_ok E L"
  "lex_ok E (L\<lparr>last_significant_name := n\<rparr>) = lex_ok E L"
  "lex_ok E (L\<lparr>halt_compiler_seen := b\<rparr>) = lex_ok E L"
  "lex_ok E (L\<lparr>halt_compiler_significant_tokens := k\<rparr>) = lex_ok E L"
  "lex_ok E (L\<lparr>heredoc_nowdoc := b\<rparr>) = lex_ok E L"
  by (simp_all add: lex_ok_def snap_ok_def [abs_def])

lemma lex_ok_clear [simp]: "lex_ok E (clear_encapsed_state L) = lex_ok E L"
  by (simp add: clear_encapsed_state_def)

lemma lex_ok_clear_heredoc: "lex_ok E L \<Longrightarrow> lex_ok E (clear_heredoc_state L)"
  by (simp add: clear_heredoc_state_def lex_ok_def snap_ok_def [abs_def])

lemma lex_ok_label: "lex_ok E L \<Longrightarrow> l \<noteq> Some [] \<Longrightarrow> lex_ok E (L\<lparr>heredoc_label := l\<rparr>)"
  by (simp add: lex_ok_def snap_ok_def [abs_def])

lemma lex_ok_enter: "lex_ok E L \<Longrightarrow> lex_ok E (enter_encapsed_mode m (lx_offset L) (lx_line L) L)"
  by (simp add: enter_encapsed_mode_def) (simp add: lex_ok_def snap_ok_def [abs_def])

lemma lex_ok_save: "lex_ok E L \<Longrightarrow> lex_ok E (save_encapsed_snapshot L)"
  by (auto simp: save_encapsed_snapshot_def lex_ok_def snap_ok_def)

lemma lex_ok_restore: "lex_ok E L \<Longrightarrow> lex_ok E (snd (restore_encapsed_snapshot L))"
  using last_in_set [of "encapsed_stack L"]
  by (auto simp: restore_encapsed_snapshot_def Let_def lex_ok_def snap_ok_def dest: in_set_butlastD)

lemma lex_ok_diagnostic:
  "lex_ok E L \<Longrightarrow> diag_ok E (lx_source L) d \<Longrightarrow> lex_ok E (push_diagnostic d L)"
  by (auto simp: push_diagnostic_def lex_ok_def snap_ok_def)

lemma diag_ok_new:
  "place_ok E src a line \<Longrightarrow> a \<le> b \<Longrightarrow> b \<le> length src \<Longrightarrow>
   diag_ok E src (lex_diagnostic_new k m (text_range_new a b) line)"
  by (simp add: diag_ok_def lex_diagnostic_new_def text_range_new_def)

lemma lex_ok_consumes:
  assumes "consumes E L L'" "lex_ok E L"
  shows "lex_ok E L'"
proof -
  note off = consumes_offset [OF assms(1)]
  have "memchr_ok E \<longrightarrow> lx_line L' = line_at (lx_source L) (lx_offset L')"
    using byte_search.consumes_line [of E L L'] assms by (auto simp: byte_search_def lex_ok_def place_ok_def)
  moreover obtain l o1 where "L' = L\<lparr>lx_line := l, lx_offset := o1\<rparr>"
    using consumes_position_only [OF assms(1)] by blast
  ultimately show ?thesis
    using assms(2) off by (auto simp: lex_ok_def snap_ok_def place_ok_def)
qed

section \<open>Every token function preserves it\<close>

named_theorems lex_ok_ops

text \<open>The loops, by what they consume.\<close>

lemma lex_ok_loops:
  assumes "lex_ok E L"
  shows "lex_ok E (consume_len E n L)"
    "lex_ok E (consume_while E p L)"
    "lex_ok E (line_comment_loop E L)"
    "lex_ok E (consume_identifier_bytes E L)"
    "lex_ok E (name_parts_loop E L)"
    "lex_ok E (consume_digit_sequence E q L)"
    "lex_ok E (snd (consume_exponent_if_present E L))"
    "lex_ok E (text_loop E stop escapes L)"
    "lex_ok E (inline_html_loop E L)"
  by (rule lex_ok_consumes [OF _ assms],
      simp add: lex_ok_offset [OF assms] consumes_consume_len consumes_while consumes_line_comment
        consumes_identifier consumes_name_parts consumes_digits consumes_exponent consumes_text
        consumes_inline_html)+

lemma lex_ok_fixed [lex_ok_ops]: "lex_ok E L \<Longrightarrow> lex_ok E (snd (consume_fixed_token E k n L))"
  by (simp add: consume_fixed_token_def Let_def lex_ok_loops)

lemma lex_ok_while_token [lex_ok_ops]: "lex_ok E L \<Longrightarrow> lex_ok E (snd (consume_while_token E k p L))"
  by (simp add: consume_while_token_def Let_def lex_ok_loops)

lemma lex_ok_line_comment [lex_ok_ops]: "lex_ok E L \<Longrightarrow> lex_ok E (snd (consume_line_comment E L))"
  by (simp add: consume_line_comment_def Let_def lex_ok_loops)

text \<open>A diagnostic for the bytes consumed since \<open>L\<close>, with the line of \<open>L\<close>.\<close>

lemma lex_ok_diagnostic_since:
  assumes "lex_ok E L" "consumes E L L'"
  shows "lex_ok E (push_diagnostic (lex_diagnostic_new k m (text_range_new (lx_offset L) (lx_offset L')) (lx_line L)) L')"
  using assms lex_ok_consumes [OF assms(2,1)] consumes_offset [OF assms(2)] consumes_source [OF assms(2)]
    lex_ok_place [OF assms(1)]
  by (intro lex_ok_diagnostic diag_ok_new) auto

lemma lex_ok_block_comment [lex_ok_ops]:
  assumes "lex_ok E L"
  shows "lex_ok E (snd (consume_block_comment E L))"
proof -
  obtain closed L' where b: "block_comment_loop E (consume_len E 2 L) = (closed, L')" by fastforce
  have "consumes E (consume_len E 2 L) L'"
    using consumes_block_comment [of "consume_len E 2 L" E] lex_ok_offset [OF assms] b by simp
  then have c: "consumes E L L'" using lex_ok_offset [OF assms] by (rule consumes_after_len)
  show ?thesis
    using lex_ok_consumes [OF c assms] lex_ok_diagnostic_since [OF assms c]
    by (simp add: consume_block_comment_def Let_def b)
qed

lemma lex_ok_bad_character [lex_ok_ops]:
  assumes "lex_ok E L"
  shows "lex_ok E (snd (consume_bad_character E L))"
  using lex_ok_diagnostic_since [OF assms consumes_consume_len [OF lex_ok_offset [OF assms]]]
  by (simp add: consume_bad_character_def Let_def)

lemma lex_ok_remaining [lex_ok_ops]: "lex_ok E L \<Longrightarrow> lex_ok E (snd (consume_remaining_inline_html E L))"
  by (simp add: consume_remaining_inline_html_def Let_def lex_ok_loops)

lemma lex_ok_identifier_or_name [lex_ok_ops]:
  "lex_ok E L \<Longrightarrow> lex_ok E (snd (consume_identifier_or_name E L))"
  by (simp add: consume_identifier_or_name_def Let_def lex_ok_loops)

lemma lex_ok_qualified_name [lex_ok_ops]:
  "lex_ok E L \<Longrightarrow> lex_ok E (snd (consume_qualified_name E k b L))"
  by (simp add: consume_qualified_name_def Let_def lex_ok_loops)

lemma lex_ok_identifier_token [lex_ok_ops]:
  "lex_ok E L \<Longrightarrow> lex_ok E (snd (consume_identifier_token E n L))"
  by (simp add: consume_identifier_token_def Let_def lex_ok_loops)

lemma lex_ok_variable [lex_ok_ops]: "lex_ok E L \<Longrightarrow> lex_ok E (snd (consume_variable_or_dollar E L))"
  by (simp add: consume_variable_or_dollar_def Let_def lex_ok_loops)

lemma lex_ok_num_string [lex_ok_ops]: "lex_ok E L \<Longrightarrow> lex_ok E (snd (consume_num_string E L))"
  by (simp add: consume_num_string_def Let_def lex_ok_loops)

lemma lex_ok_number [lex_ok_ops]: "lex_ok E L \<Longrightarrow> lex_ok E (snd (consume_number E L))"
  by (simp add: consume_number_def Let_def split_beta lex_ok_loops split: option.split)

lemma lex_ok_constant_string:
  assumes "lex_ok E L" "consume_constant_string_if_available E L = Some r"
  shows "lex_ok E (snd r)"
  using assms lex_ok_fixed [OF lex_ok_enter [OF assms(1)]] lex_ok_loops(1) [OF assms(1)]
    lex_ok_diagnostic_since [OF assms(1) consumes_consume_len [OF lex_ok_offset [OF assms(1)]]]
  by (auto simp: consume_constant_string_if_available_def Let_def split: option.splits string_scan.splits)

lemma lex_ok_heredoc_start:
  assumes "lex_ok E L" "consume_heredoc_start_if_available E L = Some r"
  shows "lex_ok E (snd r)"
proof -
  obtain len label nowdoc where h: "heredoc_start_at_cursor L = Some (len, label, nowdoc)"
    using assms by (auto simp: consume_heredoc_start_if_available_def split: option.splits)
  define M where "M = (if lx_mode L = Heredoc \<or> lx_mode L = Nowdoc then save_encapsed_snapshot L else L)
      \<lparr>heredoc_label := Some label, heredoc_nowdoc := nowdoc\<rparr>"
  have M: "lex_ok E M" "lx_offset M = lx_offset L" "lx_line M = lx_line L"
    using lex_ok_label [OF lex_ok_save [OF assms(1)], of "Some label"] lex_ok_label [OF assms(1), of "Some label"]
      heredoc_start_pos [OF h]
    by (auto simp: M_def save_encapsed_snapshot_def)
  have "r = consume_fixed_token E (Named T_StartHeredoc) len ((enter_encapsed_mode
      (if nowdoc then Nowdoc else Heredoc) (lx_offset M) (lx_line M) M)\<lparr>heredoc_nowdoc := nowdoc\<rparr>)"
    using assms(2) h M(2,3) by (simp add: consume_heredoc_start_if_available_def M_def)
  then show ?thesis using lex_ok_enter [OF M(1)] by (simp add: lex_ok_fixed)
qed

lemma lex_ok_yield_from:
  "lex_ok E L \<Longrightarrow> consume_yield_from E L = Some r \<Longrightarrow> lex_ok E (snd r)"
  by (auto simp: consume_yield_from_def Let_def lex_ok_fixed split: if_splits)

lemma lex_ok_word [lex_ok_ops]: "lex_ok E L \<Longrightarrow> lex_ok E (snd (scripting_word_token E L))"
  using lex_ok_fixed [OF lex_ok_enter, of E L]
  by (auto simp: scripting_word_token_def consume_ampersand_def lex_ok_ops dest: lex_ok_yield_from split: option.split)

lemma lex_ok_case [lex_ok_ops]:
  assumes "lex_ok E (snd r)" "\<And>M. lex_ok E M \<Longrightarrow> lex_ok E (f M)"
  shows "lex_ok E (snd (case r of (t, L') \<Rightarrow> (g t, f L')))"
  using assms by (cases r) simp

lemma lex_ok_scripting:
  assumes "lex_ok E L"
  shows "lex_ok E (snd (next_scripting_token E L))"
proof -
  have cs: "lex_ok E (snd r)" if "consume_constant_string_if_available E L = Some r" for r
    using assms that by (rule lex_ok_constant_string)
  have hs: "lex_ok E (snd r)" if "consume_heredoc_start_if_available E L = Some r" for r
    using assms that by (rule lex_ok_heredoc_start)
  show ?thesis
    using assms by (auto simp: next_scripting_token_def Let_def lex_ok_ops cs hs split: option.split)
qed

lemma lex_ok_interpolation:
  assumes "lex_ok E L" "next_interpolation_token_without_delimiter E L = Some r"
  shows "lex_ok E (snd r)"
proof -
  have var: "lex_ok E L'" if "consume_variable_or_dollar E L = (t, L')" for t L'
    using lex_ok_variable [OF assms(1)] that by simp
  show ?thesis
    using assms
    by (auto simp: next_interpolation_token_without_delimiter_def lex_ok_ops var split: if_split_asm prod.splits)
qed

text \<open>The diagnostic of an unterminated literal covers it from the start of its mode.\<close>

lemma lex_ok_mode_diagnostic:
  "lex_ok E L \<Longrightarrow> lex_ok E (push_diagnostic (lex_diagnostic_new k m
      (text_range_new (lx_mode_start L) (lx_offset L)) (lx_mode_start_line L)) L)"
  by (rule lex_ok_diagnostic) (auto intro!: diag_ok_new simp: lex_ok_def place_ok_def)

lemma lex_ok_encapsed_text [lex_ok_ops]: "lex_ok E L \<Longrightarrow> lex_ok E (snd (consume_encapsed_text E d L))"
  by (simp add: consume_encapsed_text_def Let_def lex_ok_loops)

lemma lex_ok_heredoc_text [lex_ok_ops]: "lex_ok E L \<Longrightarrow> lex_ok E (snd (consume_heredoc_text E L))"
  by (simp add: consume_heredoc_text_def Let_def lex_ok_loops)

lemma lex_ok_encapsed: "lex_ok E L \<Longrightarrow> lex_ok E (snd (next_encapsed_token E d L))"
  using lex_ok_interpolation [of E L]
  by (auto simp: next_encapsed_token_def Let_def lex_ok_ops lex_ok_mode_diagnostic split: option.split)

lemma lex_ok_heredoc:
  assumes "lex_ok E L"
  shows "lex_ok E (snd (next_heredoc_token E L))"
proof -
  have fin: "lex_ok E (snd (let (t, L1) = consume_fixed_token E k n L; (restored, L2) = restore_encapsed_snapshot L1
      in (Some t, if restored then L2 else clear_encapsed_state (clear_heredoc_state (L2\<lparr>lx_mode := Scripting\<rparr>)))))"
    for k n
  proof -
    obtain t L1 where c: "consume_fixed_token E k n L = (t, L1)" by fastforce
    obtain restored L2 where r: "restore_encapsed_snapshot L1 = (restored, L2)" by fastforce
    have "lex_ok E L1" using lex_ok_fixed [OF assms, of k n] c by simp
    then have "lex_ok E L2" using lex_ok_restore [of E L1] r by simp
    then show ?thesis by (simp add: c r lex_ok_clear_heredoc)
  qed
  show ?thesis
    using assms lex_ok_interpolation [OF assms] fin
    by (auto simp: next_heredoc_token_def Let_def lex_ok_ops lex_ok_mode_diagnostic lex_ok_scripting
        lex_ok_clear_heredoc split: option.split if_splits)
qed

lemma lex_ok_inline_html:
  assumes "lex_ok E L"
  shows "lex_ok E (snd (next_inline_html_token E L))"
proof -
  have "lex_ok E (if b then consume_len E 3 L else L)" for b using assms by (simp add: lex_ok_loops)
  then show ?thesis
    using assms by (auto simp: next_inline_html_token_def Let_def lex_ok_ops lex_ok_loops split: option.split)
qed

lemma lex_ok_mode: "lex_ok E L \<Longrightarrow> lex_ok E (snd (next_mode_token E L))"
  by (simp add: next_mode_token_def lex_ok_scripting lex_ok_encapsed lex_ok_heredoc lex_ok_inline_html
      split: lexer_mode.split)

lemma lex_ok_remember [simp]: "lex_ok E (remember_significant_token k L) = lex_ok E L"
  by (simp add: remember_significant_token_def split: token_kind.split)

lemma lex_ok_next_token: "lex_ok E L \<Longrightarrow> lex_ok E (snd (next_token E L))"
  using lex_ok_mode [of E "L\<lparr>emitted_placeholder := True\<rparr>"]
  by (auto simp: next_token_def Let_def split: prod.split option.split)

section \<open>What a call of \<open>next_token\<close> does\<close>

lemma same_pos_remember [simp]: "same_pos L (remember_significant_token k L)"
  by (simp add: remember_significant_token_def same_pos_def split: token_kind.split)

definition after_bom :: "byte_env \<Rightarrow> lexer \<Rightarrow> lexer" where
  "after_bom E L = (if skips_bom L then consume_len E 3 L else L)"

lemma emits_mode:
  assumes "lex_ok E L" "lx_offset L < length (lx_source L)"
  shows "emits_some E (after_bom E L) (next_mode_token E L)"
proof (cases "lx_mode L = InlineHtml")
  case True
  then show ?thesis using emits_inline_html [OF assms(2) True] by (simp add: next_mode_token_def after_bom_def)
next
  case False
  then have "after_bom E L = L" by (simp add: after_bom_def skips_bom_def)
  moreover have "heredoc_label L \<noteq> Some []" using assms(1) by (simp add: lex_ok_def)
  ultimately show ?thesis
    using False emits_scripting emits_encapsed emits_heredoc assms(2)
    by (cases "lx_mode L") (simp_all add: next_mode_token_def)
qed

lemma eof_mode:
  assumes "is_eof L"
  shows "fst (next_mode_token E L) = None" "same_pos L (snd (next_mode_token E L))"
  using assms
  by (cases "lx_mode L"; simp add: next_mode_token_def next_inline_html_token_def next_scripting_token_def
        next_encapsed_token_def next_heredoc_token_def same_pos_def clear_encapsed_state_def
        clear_heredoc_state_def push_diagnostic_def)+

end
