(* ===== verification/Lexer_All.thy ===== *)
theory Lexer_All
  imports Lexer_Invariant
begin

text \<open>
  Lexing of a whole source (\<open>lex_all\<close>). The \<open>while let\<close> loop over \<open>next_token\<close> has no
  syntactic bound, so it is a partial function; it is shown to return on every source. Its
  tokens tile the source, carry the line numbers of their starts, and every diagnostic lies
  inside the source.
\<close>

section \<open>The loop\<close>

record lex_result =
  lr_tokens :: "token list"
  lr_diagnostics :: "lex_diagnostic list"

partial_function (option) lex_loop ::
    "byte_env \<Rightarrow> lexer \<Rightarrow> token list \<Rightarrow> (token list \<times> lexer) option" where
  "lex_loop E L tokens =
     (case next_token E L of
        (None, L') \<Rightarrow> Some (tokens, L')
      | (Some t, L') \<Rightarrow> lex_loop E L' (tokens @ [t]))"

declare lex_loop.simps [code]

definition lex_all :: "byte_env \<Rightarrow> bytes \<Rightarrow> lexer_config \<Rightarrow> lex_result option" where
  "lex_all E source config =
     map_option (\<lambda>(tokens, L). \<lparr>lr_tokens = tokens, lr_diagnostics = lx_diagnostics L\<rparr>)
       (lex_loop E (lexer_new source config) [])"

section \<open>One call\<close>

lemma peek_n_placeholder: "peek_n (L\<lparr>emitted_placeholder := b\<rparr>) n = peek_n L n"
  by (simp add: peek_n_def)

lemma open_tag_placeholder:
  "open_tag_at_offset (L\<lparr>emitted_placeholder := b\<rparr>) n = open_tag_at_offset L n"
proof -
  have config: "lx_config (L\<lparr>emitted_placeholder := b\<rparr>) = lx_config L" by simp
  show ?thesis
    unfolding open_tag_at_offset_def cursor_starts_with_at_def php_tag_space_len_def peek_n_placeholder config
    by (rule refl)
qed

lemma skips_bom_placeholder [simp]: "skips_bom (L\<lparr>emitted_placeholder := b\<rparr>) = skips_bom L"
  by (simp add: skips_bom_def starts_with_def open_tag_placeholder)

lemma next_token_before_end:
  assumes "lex_ok E L" "lx_offset L < length (lx_source L)"
  obtains t L' where "next_token E L = (Some t, L')" "emits E (after_bom E L) (t, L')" "lex_ok E L'"
proof -
  define M where "M = L\<lparr>emitted_placeholder := True\<rparr>"
  have M: "lex_ok E M" "lx_offset M < length (lx_source M)" using assms by (simp_all add: M_def)
  from emits_mode [OF M] obtain t where t: "fst (next_mode_token E M) = Some t"
    and e: "emits E (after_bom E M) (t, snd (next_mode_token E M))"
    by (auto simp: emits_some_def)
  have "same_pos (after_bom E L) (after_bom E M)"
    using assms(2) by (simp add: after_bom_def M_def same_pos_def consume_len_eq)
  then have "emits E (after_bom E L) (t, remember_significant_token (tok_kind t) (snd (next_mode_token E M)))"
    by (rule emits_post [OF emits_pre [OF _ e] same_pos_remember])
  moreover have eq: "next_token E L = (Some t, remember_significant_token (tok_kind t) (snd (next_mode_token E M)))"
    using t by (cases "next_mode_token E M") (simp add: next_token_def M_def)
  ultimately show ?thesis using that lex_ok_next_token [OF assms(1)] by simp
qed

lemma next_token_at_end:
  assumes "is_eof L"
  shows "next_token E L = (if emit_eof (lx_config L) \<and> \<not> emitted_eof L
      then (Some (token_new Eof (text_range_new (lx_offset L) (lx_offset L)) 1),
            (snd (next_mode_token E (L\<lparr>emitted_placeholder := True\<rparr>)))\<lparr>emitted_eof := True\<rparr>)
      else (None, snd (next_mode_token E (L\<lparr>emitted_placeholder := True\<rparr>))))"
    "same_pos L (snd (next_mode_token E (L\<lparr>emitted_placeholder := True\<rparr>)))"
proof -
  let ?M = "L\<lparr>emitted_placeholder := True\<rparr>"
  have M: "is_eof ?M" using assms by (simp add: is_eof_def)
  show s: "same_pos L (snd (next_mode_token E ?M))"
    using eof_mode(2) [OF M, of E] by (simp add: same_pos_def)
  show "next_token E L = (if emit_eof (lx_config L) \<and> \<not> emitted_eof L
      then (Some (token_new Eof (text_range_new (lx_offset L) (lx_offset L)) 1),
            (snd (next_mode_token E ?M))\<lparr>emitted_eof := True\<rparr>)
      else (None, snd (next_mode_token E ?M)))"
    using eof_mode(1) [OF M, of E] s
    by (cases "next_mode_token E ?M") (simp add: next_token_def same_pos_def)
qed

section \<open>The whole run\<close>

text \<open>A run of the loop from \<open>L\<close>: the tokens it appends and the state it stops in.\<close>

inductive lexes :: "byte_env \<Rightarrow> lexer \<Rightarrow> token list \<Rightarrow> lexer \<Rightarrow> bool" for E where
  lexes_stop: "next_token E L = (None, L') \<Longrightarrow> lexes E L [] L'"
| lexes_step: "next_token E L = (Some t, L1) \<Longrightarrow> lexes E L1 ts L' \<Longrightarrow> lexes E L (t # ts) L'"

lemma lex_loop_lexes: "lexes E L ts L' \<Longrightarrow> lex_loop E L acc = Some (acc @ ts, L')"
  by (induction arbitrary: acc rule: lexes.induct) (subst lex_loop.simps, simp)+

text \<open>The tokens \<open>ts\<close> cover the bytes from \<open>a\<close> to \<open>b\<close>: each is not empty and starts where
  the one before it ends.\<close>

fun tiles :: "nat \<Rightarrow> token list \<Rightarrow> nat \<Rightarrow> bool" where
  "tiles a [] b = (a = b)"
| "tiles a (t # ts) b =
     (range_start (tok_range t) = a \<and> a < range_end (tok_range t) \<and> tiles (range_end (tok_range t)) ts b)"

definition eof_tokens :: "lexer \<Rightarrow> token list" where
  "eof_tokens L = (if emit_eof (lx_config L) \<and> \<not> emitted_eof L
     then [token_new Eof (text_range_new (length (lx_source L)) (length (lx_source L))) 1] else [])"

definition line_ok :: "byte_env \<Rightarrow> bytes \<Rightarrow> token \<Rightarrow> bool" where
  "line_ok E src t \<longleftrightarrow> place_ok E src (range_start (tok_range t)) (tok_line t)"

lemma emits_facts:
  assumes "emits E L (t, L')"
  shows "range_start (tok_range t) = lx_offset L" "range_end (tok_range t) = lx_offset L'"
    "lx_offset L < lx_offset L'" "tok_kind t \<noteq> Eof" "tok_line t = lx_line L" "lx_source L' = lx_source L"
    "lx_config L' = lx_config L" "emitted_eof L' = emitted_eof L"
proof -
  from assms obtain M M' where e: "same_pos L M" "consumes E M M'" "same_pos M' L'" "lx_offset M < lx_offset M'"
    "tok_kind t \<noteq> Eof" "tok_line t = lx_line L" "tok_range t = text_range_new (lx_offset L) (lx_offset L')"
    unfolding emits_def by auto
  obtain l o1 where "M' = M\<lparr>lx_line := l, lx_offset := o1\<rparr>" using consumes_position_only [OF e(2)] by blast
  then show "range_start (tok_range t) = lx_offset L" "range_end (tok_range t) = lx_offset L'"
    "lx_offset L < lx_offset L'" "tok_kind t \<noteq> Eof" "tok_line t = lx_line L" "lx_source L' = lx_source L"
    "lx_config L' = lx_config L" "emitted_eof L' = emitted_eof L"
    using e by (simp_all add: same_pos_def text_range_new_def)
qed

lemma after_bom_facts:
  assumes "lex_ok E L"
  shows "lex_ok E (after_bom E L)" "lx_source (after_bom E L) = lx_source L"
    "lx_config (after_bom E L) = lx_config L" "emitted_eof (after_bom E L) = emitted_eof L"
    "lx_offset L \<le> lx_offset (after_bom E L)" "lx_offset L \<noteq> 0 \<Longrightarrow> after_bom E L = L"
  using assms lex_ok_loops(1) [OF assms, of 3] consume_len_eq [OF lex_ok_offset [OF assms], of E 3]
    skips_bom_length [of L] lex_ok_offset [OF assms]
  by (auto simp: after_bom_def)

text \<open>What a run appends: the tiling tokens and, when asked for, the end-of-file token.\<close>

definition run_ok :: "byte_env \<Rightarrow> lexer \<Rightarrow> nat \<Rightarrow> token list \<Rightarrow> lexer \<Rightarrow> bool" where
  "run_ok E L from ts L' \<longleftrightarrow> lex_ok E L' \<and> lx_source L' = lx_source L \<and>
     (\<exists>body. ts = body @ eof_tokens L \<and> tiles from body (length (lx_source L)) \<and>
        (\<forall>t\<in>set body. tok_kind t \<noteq> Eof \<and> line_ok E (lx_source L) t))"

lemma lexes_at_end:
  assumes "lex_ok E L" "is_eof L"
  shows "\<exists>ts L'. lexes E L ts L' \<and> run_ok E L (length (lx_source L)) ts L'"
proof -
  let ?N = "\<lambda>L. snd (next_mode_token E (L\<lparr>emitted_placeholder := True\<rparr>))"
  note n = next_token_at_end [OF assms(2), of E]
  have N: "lex_ok E (?N L)" using assms(1) by (simp add: lex_ok_mode)
  have off: "lx_offset L = length (lx_source L)" using assms lex_ok_offset [of E L] by (simp add: is_eof_def)
  show ?thesis
  proof (cases "emit_eof (lx_config L) \<and> \<not> emitted_eof L")
    case False
    then have "lexes E L [] (?N L)" using n(1) by (intro lexes_stop) simp
    with False N n(2) show ?thesis
      by (intro exI [of _ "[]"] exI [of _ "?N L"]) (simp add: run_ok_def eof_tokens_def same_pos_def)
  next
    case True
    define M where "M = (?N L)\<lparr>emitted_eof := True\<rparr>"
    have M: "lex_ok E M" "is_eof M" "emitted_eof M" "lx_source M = lx_source L"
      using N n(2) assms(2) by (simp_all add: M_def same_pos_def is_eof_def)
    have "lexes E M [] (?N M)" using next_token_at_end(1) [OF M(2), of E] M(3) by (intro lexes_stop) simp
    then have "lexes E L [token_new Eof (text_range_new (lx_offset L) (lx_offset L)) 1] (?N M)"
      using n(1) True by (intro lexes_step) (simp_all add: M_def)
    moreover have "lex_ok E (?N M)" using M(1) by (simp add: lex_ok_mode)
    moreover have "lx_source (?N M) = lx_source L"
      using next_token_at_end(2) [OF M(2), of E] M(4) by (simp add: same_pos_def)
    ultimately show ?thesis
      using True off by (intro exI conjI) (auto simp: run_ok_def eof_tokens_def)
  qed
qed

lemma lexes_total:
  "lex_ok E L \<Longrightarrow> \<exists>ts L'. lexes E L ts L' \<and> run_ok E L (lx_offset (after_bom E L)) ts L'"
proof (induction "length (lx_source L) - lx_offset L" arbitrary: L rule: less_induct)
  case less
  show ?case
  proof (cases "is_eof L")
    case True
    then have "after_bom E L = L" "lx_offset L = length (lx_source L)"
      using skips_bom_length [of L] lex_ok_offset [OF less.prems] by (auto simp: after_bom_def is_eof_def)
    then show ?thesis using lexes_at_end [OF less.prems True] by simp
  next
    case False
    then have lt: "lx_offset L < length (lx_source L)" by (simp add: not_eof)
    from next_token_before_end [OF less.prems lt] obtain t M where
      t: "next_token E L = (Some t, M)" and e: "emits E (after_bom E L) (t, M)" and M: "lex_ok E M" .
    note f = emits_facts [OF e] and a = after_bom_facts [OF less.prems]
    have bigger: "lx_offset L < lx_offset M" using f(3) a(5) by simp
    then have stay: "after_bom E M = M" using after_bom_facts(6) [OF M] by simp
    from bigger lt have "length (lx_source M) - lx_offset M < length (lx_source L) - lx_offset L"
      using f(6) a(2) by simp
    from less.hyps [OF this M] obtain ts L' where run: "lexes E M ts L'" "run_ok E M (lx_offset M) ts L'"
      unfolding stay by blast
    have "line_ok E (lx_source L) t"
      using lex_ok_place [OF a(1)] f(1,5) a(2) by (simp add: line_ok_def)
    moreover have "eof_tokens M = eof_tokens L" using f(6-8) a(2-4) by (simp add: eof_tokens_def)
    moreover obtain body where "ts = body @ eof_tokens M" "tiles (lx_offset M) body (length (lx_source M))"
      "\<forall>t\<in>set body. tok_kind t \<noteq> Eof \<and> line_ok E (lx_source M) t" "lex_ok E L'" "lx_source L' = lx_source M"
      using run(2) unfolding run_ok_def by blast
    ultimately have "run_ok E L (lx_offset (after_bom E L)) (t # ts) L'"
      unfolding run_ok_def using f a(2) by (intro conjI exI [of _ "t # body"]) simp_all
    then show ?thesis using lexes_step [OF t run(1)] by blast
  qed
qed

section \<open>Properties of \<open>lex_all\<close>\<close>

definition bom_len :: "bytes \<Rightarrow> lexer_config \<Rightarrow> nat" where
  "bom_len src config = (if skips_bom (lexer_new src config) then 3 else 0)"

lemma lx_offset_after_bom_new: "lx_offset (after_bom E (lexer_new src config)) = bom_len src config"
  using skips_bom_length [of "lexer_new src config"]
  by (auto simp: after_bom_def bom_len_def lexer_new_def)

text \<open>The bytes of the source that a token covers.\<close>

definition token_bytes :: "bytes \<Rightarrow> token \<Rightarrow> bytes" where
  "token_bytes src t = sub_slice src (range_start (tok_range t)) (range_end (tok_range t))"

lemma tiles_concat:
  "tiles a ts b \<Longrightarrow> b \<le> length src \<Longrightarrow> a \<le> b \<and> concat (map (token_bytes src) ts) = sub_slice src a b"
proof (induction ts arbitrary: a)
  case (Cons t ts)
  then have "a < range_end (tok_range t)" "range_start (tok_range t) = a"
    "range_end (tok_range t) \<le> b \<and> concat (map (token_bytes src) ts) = sub_slice src (range_end (tok_range t)) b"
    by auto
  moreover from this have "token_bytes src t = sub_slice src a (range_end (tok_range t))"
    by (simp add: token_bytes_def)
  ultimately show ?case using slice_append_slice [of a "range_end (tok_range t)" b src] by simp
qed (simp add: sub_slice_def)

lemma lex_all_run:
  obtains r body where "lex_all E src config = Some r"
    "lr_tokens r = body @ (if emit_eof config then [token_new Eof (text_range_new (length src) (length src)) 1] else [])"
    "tiles (bom_len src config) body (length src)"
    "\<And>t. t \<in> set body \<Longrightarrow> tok_kind t \<noteq> Eof \<and> line_ok E src t"
    "\<And>d. d \<in> set (lr_diagnostics r) \<Longrightarrow> diag_ok E src d"
proof -
  let ?L = "lexer_new src config"
  have proj: "lx_source ?L = src" "emit_eof (lx_config ?L) = emit_eof config" "\<not> emitted_eof ?L"
    by (simp_all add: lexer_new_def)
  from lexes_total [OF lex_ok_new] obtain ts L' where
    "lexes E ?L ts L'" and ok: "run_ok E ?L (bom_len src config) ts L'"
    unfolding lx_offset_after_bom_new by blast
  then have "lex_all E src config = Some \<lparr>lr_tokens = ts, lr_diagnostics = lx_diagnostics L'\<rparr>"
    by (simp add: lex_all_def lex_loop_lexes)
  with ok show ?thesis
    using that proj unfolding run_ok_def eof_tokens_def lex_ok_def by fastforce
qed

text \<open>C4. Lexing a source always returns. Its tokens tile the source: each is not empty, starts
  where the one before it ends, and the texts of all of them give back the source (without a
  byte order mark before an open tag). An end-of-file token comes last, exactly when the
  configuration asks for it.\<close>

theorem lex_all_tiles:
  "\<exists>r body. lex_all E src config = Some r \<and>
     lr_tokens r = body @ (if emit_eof config
       then [token_new Eof (text_range_new (length src) (length src)) 1] else []) \<and>
     tiles (bom_len src config) body (length src) \<and> Eof \<notin> tok_kind ` set body \<and>
     concat (map (token_bytes src) body) = drop (bom_len src config) src"
proof -
  obtain r body where run: "lex_all E src config = Some r"
    "lr_tokens r = body @ (if emit_eof config then [token_new Eof (text_range_new (length src) (length src)) 1] else [])"
    "tiles (bom_len src config) body (length src)" "\<And>t. t \<in> set body \<Longrightarrow> tok_kind t \<noteq> Eof \<and> line_ok E src t"
    using lex_all_run by metis
  have "Eof \<notin> tok_kind ` set body" using run(4) by fastforce
  moreover have "concat (map (token_bytes src) body) = drop (bom_len src config) src"
    using tiles_concat [OF run(3), of src] by (simp add: sub_slice_def)
  ultimately show ?thesis using run(1-3) by blast
qed


text \<open>An open tag, a line break and a comment without an end.\<close>

definition demo_source :: bytes where
  "demo_source = ''<?php'' @ [CHR 0x0A] @ ''/* a''"

definition demo_config :: lexer_config where
  "demo_config = \<lparr>short_open_tag = False, token_parse = False, emit_eof = True\<rparr>"


text \<open>C23. Every diagnostic has a range inside the source and, when the byte searches meet their
  contract, the line of the start of that range.\<close>

theorem lex_all_diagnostics:
  assumes "lex_all E src config = Some r" "d \<in> set (lr_diagnostics r)"
  shows "range_start (diag_span d) \<le> range_end (diag_span d) \<and> range_end (diag_span d) \<le> length src \<and>
     (memchr_ok E \<longrightarrow> diag_line d = line_at src (range_start (diag_span d)))"
proof -
  obtain r' where "lex_all E src config = Some r'" "\<And>d. d \<in> set (lr_diagnostics r') \<Longrightarrow> diag_ok E src d"
    using lex_all_run by metis
  then have "diag_ok E src d" using assms by simp
  then show ?thesis by (simp add: diag_ok_def place_ok_def)
qed

theorem lex_all_diagnostics_witness:
  "\<exists>r d. lex_all (scalar_env Scalar False) demo_source demo_config = Some r \<and> d \<in> set (lr_diagnostics r) \<and>
     diag_kind d = UnterminatedBlockComment \<and> range_end (diag_span d) \<le> length demo_source \<and>
     diag_line d = line_at demo_source (range_start (diag_span d))"
proof -
  let ?r = "the (lex_all (scalar_env Scalar False) demo_source demo_config)"
  have run: "lex_all (scalar_env Scalar False) demo_source demo_config = Some ?r" by code_simp
  have d: "hd (lr_diagnostics ?r) \<in> set (lr_diagnostics ?r)" by code_simp
  have k: "diag_kind (hd (lr_diagnostics ?r)) = UnterminatedBlockComment" by code_simp
  show ?thesis
    using lex_all_diagnostics [OF run d] memchr_ok_scalar_env run d k by blast
qed

end
