(* ===== verification/Decimal.thy ===== *)
theory Decimal
  imports Prelude
begin

text \<open>
  Digit sequences and the numbers they denote, in a base up to ten, and the decimal rendering
  of numbers.
\<close>

section \<open>The value of a digit sequence\<close>

definition digit_value :: "byte \<Rightarrow> nat" where
  "digit_value c = byte_val c - 48"

definition digits_value :: "nat \<Rightarrow> bytes \<Rightarrow> nat" where
  "digits_value b ds = foldl (\<lambda>v c. v * b + digit_value c) 0 ds"

definition digits_below :: "nat \<Rightarrow> bytes \<Rightarrow> bool" where
  "digits_below b ds \<longleftrightarrow> (\<forall>c\<in>set ds. 48 \<le> byte_val c \<and> byte_val c < 48 + b)"

lemma foldl_digits: "foldl (\<lambda>v c. v * b + digit_value c) a ds = a * b ^ length ds + digits_value b ds"
proof (induction ds arbitrary: a)
  case (Cons c ds)
  show ?case
    using Cons [of "a * b + digit_value c"] Cons [of "digit_value c"] by (simp add: digits_value_def algebra_simps)
qed (simp add: digits_value_def)

lemma digits_value_Nil [simp]: "digits_value b [] = 0"
  by (simp add: digits_value_def)

lemma digits_value_Cons: "digits_value b (c # ds) = digit_value c * b ^ length ds + digits_value b ds"
  using foldl_digits [of b "digit_value c" ds] by (simp add: digits_value_def)

lemma digits_below_Cons [simp]:
  "digits_below b (c # ds) \<longleftrightarrow> 48 \<le> byte_val c \<and> byte_val c < 48 + b \<and> digits_below b ds"
  by (auto simp: digits_below_def)

lemma digits_value_less: "digits_below b ds \<Longrightarrow> digits_value b ds < b ^ length ds"
proof (induction ds)
  case (Cons c ds)
  then have "Suc (digit_value c) * b ^ length ds \<le> b * b ^ length ds"
    by (intro mult_le_mono1) (auto simp: digit_value_def)
  with Cons show ?case by (simp add: digits_value_Cons)
qed simp

lemma digits_value_ge:
  "digits_below b (c # ds) \<Longrightarrow> c \<noteq> CHR ''0'' \<Longrightarrow> b ^ length ds \<le> digits_value b (c # ds)"
proof -
  assume c: "digits_below b (c # ds)" "c \<noteq> CHR ''0''"
  have "byte_val (CHR ''0'') = 48" by (simp add: byte_val_def)
  then have "byte_val c \<noteq> 48" using c(2) byte_val_inject [of c "CHR ''0''"] by simp
  with c(1) have "1 \<le> digit_value c" by (auto simp: digit_value_def)
  then have "1 * b ^ length ds \<le> digit_value c * b ^ length ds" by (rule mult_le_mono1)
  then show ?thesis unfolding digits_value_Cons by linarith
qed

lemma digits_value_less_pad:
  assumes "digits_below b xs" "digits_below b (y # ys)" "y \<noteq> CHR ''0''" "length xs < length (y # ys)"
  shows "digits_value b xs < digits_value b (y # ys)"
proof -
  have "0 < b" using assms(2) by auto
  then have "b ^ length xs \<le> b ^ length ys" using assms(4) by (intro power_increasing) auto
  then show ?thesis
    using digits_value_less [OF assms(1)] digits_value_ge [OF assms(2,3)] by linarith
qed

lemma digits_value_snoc: "digits_value b (ds @ [c]) = digits_value b ds * b + digit_value c"
  by (simp add: digits_value_def)

lemma digits_below_append [simp]: "digits_below b (xs @ ys) \<longleftrightarrow> digits_below b xs \<and> digits_below b ys"
  by (auto simp: digits_below_def)

lemma digits_below_Nil [simp]: "digits_below b []"
  by (simp add: digits_below_def)

lemma digits_below_10: "digits_below 10 ds \<longleftrightarrow> list_all is_ascii_digit ds"
  by (auto simp: digits_below_def list_all_iff is_ascii_digit_def)

section \<open>Decimal rendering\<close>

text \<open>The text Rust's \<open>Display\<close> writes for an unsigned and for a signed integer.\<close>

definition digit_char :: "nat \<Rightarrow> byte" where
  "digit_char d = byte_of (48 + d)"

fun show_nat :: "nat \<Rightarrow> bytes" where
  "show_nat n = (if n < 10 then [digit_char n] else show_nat (n div 10) @ [digit_char (n mod 10)])"

declare show_nat.simps [simp del]

definition show_int :: "int \<Rightarrow> bytes" where
  "show_int i = (if i < 0 then CHR ''-'' # show_nat (nat (- i)) else show_nat (nat i))"

lemma byte_val_digit_char: "d < 10 \<Longrightarrow> byte_val (digit_char d) = 48 + d"
  by (simp add: digit_char_def)

lemma digit_value_digit_char [simp]: "d < 10 \<Longrightarrow> digit_value (digit_char d) = d"
  by (simp add: digit_value_def byte_val_digit_char)

lemma digit_char_digit_value: "48 \<le> byte_val c \<Longrightarrow> byte_val c < 58 \<Longrightarrow> digit_char (digit_value c) = c"
  by (simp add: digit_char_def digit_value_def)

lemma digits_value_show_nat [simp]: "digits_value 10 (show_nat n) = n"
proof (induction n rule: show_nat.induct)
  case (1 n)
  then show ?case
    by (subst show_nat.simps) (auto simp: digits_value_snoc digits_value_Cons)
qed

lemma show_nat_digits: "digits_below 10 (show_nat n)"
proof (induction n rule: show_nat.induct)
  case (1 n)
  then show ?case
    by (subst show_nat.simps) (auto simp: byte_val_digit_char)
qed

lemma show_nat_not_Nil [simp]: "show_nat n \<noteq> []"
  by (subst show_nat.simps) simp

lemma hd_show_nat: "10 \<le> n \<Longrightarrow> hd (show_nat n) \<noteq> CHR ''0''"
proof (induction n rule: show_nat.induct)
  case (1 n)
  have eq: "hd (show_nat n) = hd (show_nat (n div 10))"
    using 1(2) by (subst show_nat.simps) (simp add: hd_append)
  show ?case
  proof (cases "10 \<le> n div 10")
    case True
    then show ?thesis using 1 eq by simp
  next
    case False
    then have "hd (show_nat n) = digit_char (n div 10)" unfolding eq by (subst show_nat.simps) simp
    moreover have "byte_val (digit_char (n div 10)) \<noteq> 48" using False 1(2) by (simp add: byte_val_digit_char)
    moreover have "byte_val (CHR ''0'') = 48" by (simp add: byte_val_def)
    ultimately show ?thesis by metis
  qed
qed

text \<open>A digit sequence without a redundant leading zero is the rendering of its value.\<close>

definition canonical_digits :: "bytes \<Rightarrow> bool" where
  "canonical_digits ds \<longleftrightarrow> ds \<noteq> [] \<and> digits_below 10 ds \<and> (1 < length ds \<longrightarrow> hd ds \<noteq> CHR ''0'')"

lemma canonical_show_nat: "canonical_digits (show_nat n)"
proof (cases "n < 10")
  case True
  then show ?thesis by (subst show_nat.simps) (simp add: canonical_digits_def byte_val_digit_char)
next
  case False
  then show ?thesis using hd_show_nat [of n] show_nat_digits by (simp add: canonical_digits_def)
qed

lemma show_nat_digits_value: "canonical_digits ds \<Longrightarrow> show_nat (digits_value 10 ds) = ds"
proof (induction ds rule: rev_induct)
  case (snoc c xs)
  then have c: "48 \<le> byte_val c" "byte_val c < 58" and d: "digit_value c < 10"
    by (auto simp: canonical_digits_def digit_value_def)
  show ?case
  proof (cases "xs = []")
    case True
    then show ?thesis using c d by (subst show_nat.simps) (simp add: digits_value_Cons digit_char_digit_value)
  next
    case False
    then obtain x ys where xs: "xs = x # ys" by (cases xs) auto
    have below: "digits_below 10 (x # ys)" and lead: "x \<noteq> CHR ''0''"
      using snoc.prems by (auto simp: canonical_digits_def xs)
    have "1 \<le> digits_value 10 xs"
      using digits_value_ge [OF below lead] unfolding xs by (meson le_trans one_le_numeral one_le_power)
    then have big: "10 \<le> digits_value 10 xs * 10 + digit_value c" by simp
    have "show_nat (digits_value 10 xs) = xs"
      using snoc.IH below lead by (simp add: canonical_digits_def xs)
    then show ?thesis
      using big d c by (subst show_nat.simps) (simp add: digits_value_snoc digit_char_digit_value)
  qed
qed (simp add: canonical_digits_def)

end
