(* ===== verification/Lexer_Literals.thy ===== *)
theory Lexer_Literals
  imports Lexer Decimal
begin

text \<open>
  The overflow test of the lexer on integer literals, against the number the digits denote.
\<close>

section \<open>Comparison of digit sequences\<close>

text \<open>On sequences of one length the lexicographic order is the order of the values.\<close>

lemma bytes_less_value:
  "length xs = length ys \<Longrightarrow> digits_below b xs \<Longrightarrow> digits_below b ys \<Longrightarrow>
   bytes_less xs ys \<longleftrightarrow> digits_value b xs < digits_value b ys"
proof (induction xs ys rule: list_induct2)
  case (Cons x xs y ys)
  have lt: "digits_value b xs < b ^ length xs" "digits_value b ys < b ^ length xs"
    using digits_value_less [of b xs] digits_value_less [of b ys] Cons by auto
  have step: "u * b ^ length xs + digits_value b us < v * b ^ length xs + digits_value b vs"
    if "u < v" "digits_value b us < b ^ length xs" for u v us vs
  proof -
    have "Suc u * b ^ length xs \<le> v * b ^ length xs" using that(1) by (intro mult_le_mono1) simp
    then show ?thesis using that(2) by simp
  qed
  have digits: "48 \<le> byte_val x" "48 \<le> byte_val y" using Cons.prems by simp_all
  consider "byte_val x < byte_val y" | "x = y" | "byte_val y < byte_val x"
    using linorder_neqE_nat [of "byte_val x" "byte_val y"] by auto
  then show ?case
  proof cases
    case 1
    then have "digit_value x < digit_value y" using digits by (simp add: digit_value_def)
    from step [OF this lt(1)] show ?thesis using 1 Cons.hyps by (simp add: digits_value_Cons)
  next
    case 2
    then show ?thesis using Cons.IH Cons.prems Cons.hyps by (simp add: digits_value_Cons)
  next
    case 3
    then have "digit_value y < digit_value x" using digits by (simp add: digit_value_def)
    from step [OF this lt(2), of xs] have "\<not> digits_value b (x # xs) < digits_value b (y # ys)"
      using Cons.hyps by (simp add: digits_value_Cons)
    then show ?thesis using 3 by auto
  qed
qed simp

section \<open>The comparison with a limit\<close>

definition significant_digits :: "bytes \<Rightarrow> bytes" where
  "significant_digits ds = dropWhile (\<lambda>c. c = CHR ''0'') ds"

lemma position_dropWhile:
  "(case position (\<lambda>c. c \<noteq> CHR ''0'') ds of None \<Rightarrow> [] | Some i \<Rightarrow> drop i ds) = significant_digits ds"
  unfolding significant_digits_def
  by (induction ds) (auto simp: position.simps split: option.splits)

lemma significant_value: "digits_value b (significant_digits ds) = digits_value b ds"
  unfolding significant_digits_def
  by (induction ds) (auto simp: digits_value_Cons digit_value_def byte_val_def)

lemma significant_below: "digits_below b ds \<Longrightarrow> digits_below b (significant_digits ds)"
  unfolding significant_digits_def digits_below_def by (auto dest: set_dropWhileD)

lemma digit_sequence_exceeds_value:
  assumes "digits_below b ds" "digits_below b (l # ls)" "l \<noteq> CHR ''0''"
  shows "digit_sequence_exceeds ds (l # ls) \<longleftrightarrow> digits_value b (l # ls) < digits_value b ds"
proof -
  let ?s = "significant_digits ds"
  have eq: "digit_sequence_exceeds ds (l # ls) \<longleftrightarrow> length (l # ls) < length ?s \<or>
      (length ?s = length (l # ls) \<and> bytes_less (l # ls) ?s)"
    by (simp add: digit_sequence_exceeds_def position_dropWhile Let_def)
  have s: "digits_below b ?s" using assms(1) by (rule significant_below)
  have lead: "c \<noteq> CHR ''0''" if "?s = c # cs" for c cs
    using that hd_dropWhile [of "\<lambda>c. c = CHR ''0''" ds] by (auto simp: significant_digits_def)
  consider (longer) "length (l # ls) < length ?s" | (same) "length (l # ls) = length ?s" | (shorter) "length ?s < length (l # ls)"
    by linarith
  then have "digit_sequence_exceeds ds (l # ls) \<longleftrightarrow> digits_value b (l # ls) < digits_value b ?s"
  proof cases
    case longer
    then obtain c cs where c: "?s = c # cs" by (cases ?s) auto
    then show ?thesis using digits_value_less_pad [OF assms(2), of c cs] s lead [OF c] longer eq by simp
  next
    case same
    then show ?thesis using bytes_less_value [OF same assms(2) s] eq by simp
  next
    case shorter
    then show ?thesis using digits_value_less_pad [OF s assms(2,3) shorter] eq by simp
  qed
  then show ?thesis by (simp add: significant_value)
qed

section \<open>The overflow test\<close>

definition literal_digits :: "bytes \<Rightarrow> bytes" where
  "literal_digits bs = filter (\<lambda>c. c \<noteq> CHR ''_'') bs"

text \<open>A literal that starts with a zero and has more digits is octal.\<close>

definition literal_base :: "bytes \<Rightarrow> nat" where
  "literal_base bs = (if take 1 bs = ''0'' \<and> 1 < length bs then 8 else 10)"

lemma limit_values:
  "digits_value 10 ''9223372036854775807'' = 2 ^ 63 - 1"
  "digits_value 8 ''777777777777777777777'' = 2 ^ 63 - 1"
  by (simp_all add: digits_value_def digit_value_def byte_val_def)

lemma limits_below:
  "digits_below 10 ''9223372036854775807''" "digits_below 8 ''777777777777777777777''"
  by (simp_all add: digits_below_def byte_val_def)

lemma octal_digits: "digits_below 8 ds \<Longrightarrow> list_all is_octal_digit ds"
  by (auto simp: list_all_iff digits_below_def is_octal_digit_def)

text \<open>C24. On a literal whose digits are those of its base, the overflow test of the lexer holds
  exactly when the number the digits denote exceeds the largest 64-bit signed integer.\<close>

theorem integer_literal_overflows_iff:
  assumes "digits_below (literal_base bs) (literal_digits bs)"
  shows "integer_literal_overflows bs \<longleftrightarrow> 2 ^ 63 - 1 < digits_value (literal_base bs) (literal_digits bs)"
proof (cases "take 1 bs = ''0'' \<and> 1 < length bs")
  case True
  then obtain rest where bs: "bs = CHR ''0'' # rest" by (cases bs) auto
  have digits: "literal_digits bs = CHR ''0'' # literal_digits rest" by (simp add: literal_digits_def bs)
  have base: "literal_base bs = 8" using True by (simp add: literal_base_def)
  have below: "digits_below 8 (literal_digits rest)" using assms base digits by simp
  have "integer_literal_overflows bs \<longleftrightarrow> digit_sequence_exceeds (literal_digits rest) ''777777777777777777777''"
    using True octal_digits [OF below] by (simp add: integer_literal_overflows_def bs literal_digits_def)
  also have "\<dots> \<longleftrightarrow> 2 ^ 63 - 1 < digits_value 8 (literal_digits rest)"
    using digit_sequence_exceeds_value [OF below limits_below(2)] by (simp only: limit_values) simp
  also have "digits_value 8 (literal_digits rest) = digits_value 8 (literal_digits bs)"
    by (simp add: digits digits_value_Cons digit_value_def byte_val_def)
  finally show ?thesis by (simp only: base)
next
  case False
  have base: "literal_base bs = 10" using False by (auto simp: literal_base_def)
  have "integer_literal_overflows bs \<longleftrightarrow> digit_sequence_exceeds (literal_digits bs) ''9223372036854775807''"
    using False by (auto simp: integer_literal_overflows_def literal_digits_def Let_def)
  also have "\<dots> \<longleftrightarrow> 2 ^ 63 - 1 < digits_value 10 (literal_digits bs)"
    using digit_sequence_exceeds_value [OF assms [unfolded base] limits_below(1)] by (simp only: limit_values) simp
  finally show ?thesis by (simp only: base)
qed

theorem integer_literal_overflows_iff_witness:
  "integer_literal_overflows ''9_223_372_036_854_775_808'' \<and> \<not> integer_literal_overflows ''0777777777777777777777''"
proof
  have "digits_below (literal_base ''9_223_372_036_854_775_808'') (literal_digits ''9_223_372_036_854_775_808'')"
    by (simp add: literal_base_def literal_digits_def digits_below_def byte_val_def)
  note integer_literal_overflows_iff [OF this]
  moreover have "2 ^ 63 - 1 < digits_value (literal_base ''9_223_372_036_854_775_808'') (literal_digits ''9_223_372_036_854_775_808'')"
    by (simp add: literal_base_def literal_digits_def digits_value_def digit_value_def byte_val_def)
  ultimately show "integer_literal_overflows ''9_223_372_036_854_775_808''" by blast
  have "digits_below (literal_base ''0777777777777777777777'') (literal_digits ''0777777777777777777777'')"
    by (simp add: literal_base_def literal_digits_def digits_below_def byte_val_def)
  note integer_literal_overflows_iff [OF this]
  moreover have "\<not> 2 ^ 63 - 1 < digits_value (literal_base ''0777777777777777777777'') (literal_digits ''0777777777777777777777'')"
    by (simp add: literal_base_def literal_digits_def digits_value_def digit_value_def byte_val_def)
  ultimately show "\<not> integer_literal_overflows ''0777777777777777777777''" by blast
qed

end
