(* ===== verification/F64.thy ===== *)
theory F64
  imports Prelude "HOL-Library.Word"
begin

text \<open>
  Rust's \<open>f64\<close>: IEEE 754 binary64, as its 64-bit pattern. An arithmetic result is the exact
  rational result rounded to nearest, ties to even, as IEEE 754 and the Rust reference
  prescribe; a finite value is read back as a sign, a significand and an exponent.
\<close>

section \<open>Bit patterns\<close>

type_synonym f64 = "64 word"

definition f64_sign :: "f64 \<Rightarrow> bool" where
  "f64_sign x \<longleftrightarrow> 2 ^ 63 \<le> uint x"

definition f64_exp_field :: "f64 \<Rightarrow> int" where
  "f64_exp_field x = uint x div 2 ^ 52 mod 2 ^ 11"

definition f64_frac_field :: "f64 \<Rightarrow> int" where
  "f64_frac_field x = uint x mod 2 ^ 52"

definition f64_is_finite :: "f64 \<Rightarrow> bool" where
  "f64_is_finite x \<longleftrightarrow> f64_exp_field x \<noteq> 2047"

definition f64_is_nan :: "f64 \<Rightarrow> bool" where
  "f64_is_nan x \<longleftrightarrow> f64_exp_field x = 2047 \<and> f64_frac_field x \<noteq> 0"

definition f64_make :: "bool \<Rightarrow> int \<Rightarrow> int \<Rightarrow> f64" where
  "f64_make neg ex frac = word_of_int ((if neg then 2 ^ 63 else 0) + ex * 2 ^ 52 + frac)"

definition f64_infinity :: "bool \<Rightarrow> f64" where
  "f64_infinity neg = f64_make neg 2047 0"

definition f64_nan :: f64 where
  "f64_nan = f64_make False 2047 (2 ^ 51)"

text \<open>A finite value is \<open>significand * 2 ^ exponent\<close>, with the sign apart.\<close>

definition f64_significand :: "f64 \<Rightarrow> int" where
  "f64_significand x = (if f64_exp_field x = 0 then f64_frac_field x else 2 ^ 52 + f64_frac_field x)"

definition f64_exponent :: "f64 \<Rightarrow> int" where
  "f64_exponent x = (if f64_exp_field x = 0 then -1074 else f64_exp_field x - 1075)"

section \<open>Rounding\<close>

text \<open>The quotient of two non-negative integers rounded to the nearest one, ties to even.\<close>

definition round_half_even :: "int \<Rightarrow> int \<Rightarrow> int" where
  "round_half_even a b =
     (let q = a div b; r = a mod b
      in if 2 * r < b \<or> (2 * r = b \<and> even q) then q else q + 1)"

function log2_floor :: "int \<Rightarrow> int" where
  "log2_floor n = (if n \<le> 1 then 0 else 1 + log2_floor (n div 2))"
  by pat_completeness auto
termination
  by (relation "measure nat") auto

declare log2_floor.simps [simp del]

text \<open>The exponent of the leading bit of \<open>num / den\<close>, not below the least normal exponent.\<close>

definition ratio_exponent :: "int \<Rightarrow> int \<Rightarrow> int" where
  "ratio_exponent num den =
     (let k = log2_floor num - log2_floor den;
          reaches = (if 0 \<le> k then den * 2 ^ nat k \<le> num else den \<le> num * 2 ^ nat (- k))
      in max (-1022) (if reaches then k else k - 1))"

text \<open>The value nearest to \<open>num / den\<close>.\<close>

definition f64_of_ratio :: "bool \<Rightarrow> int \<Rightarrow> int \<Rightarrow> f64" where
  "f64_of_ratio neg num den =
     (if num = 0 then f64_make neg 0 0
      else
        let e = ratio_exponent num den;
            s = e - 52;
            m = (if 0 \<le> s then round_half_even num (den * 2 ^ nat s)
                 else round_half_even (num * 2 ^ nat (- s)) den);
            (e', m') = (if m = 2 ^ 53 then (e + 1, 2 ^ 52) else (e, m))
        in if 1023 < e' then f64_infinity neg
           else if m' < 2 ^ 52 then f64_make neg 0 m'
           else f64_make neg (e' + 1023) (m' - 2 ^ 52))"

definition f64_of_int :: "int \<Rightarrow> f64" where
  "f64_of_int i = f64_of_ratio (i < 0) \<bar>i\<bar> 1"

section \<open>64-bit signed integers\<close>

abbreviation i64_max :: int where
  "i64_max \<equiv> 9223372036854775807"

abbreviation i64_min :: int where
  "i64_min \<equiv> -9223372036854775808"

definition in_i64 :: "int \<Rightarrow> bool" where
  "in_i64 i \<longleftrightarrow> i64_min \<le> i \<and> i \<le> i64_max"

definition clamp_i64 :: "int \<Rightarrow> int" where
  "clamp_i64 i = max i64_min (min i64_max i)"

definition checked_add_i64 :: "int \<Rightarrow> int \<Rightarrow> int option" where
  "checked_add_i64 a b = (if in_i64 (a + b) then Some (a + b) else None)"

text \<open>\<open>value as i64\<close>: truncation towards zero, saturating; a NaN gives zero.\<close>

definition f64_to_i64 :: "f64 \<Rightarrow> int" where
  "f64_to_i64 x =
     (if f64_is_nan x then 0
      else if \<not> f64_is_finite x then (if f64_sign x then i64_min else i64_max)
      else
        let e = f64_exponent x;
            magnitude = (if 0 \<le> e then f64_significand x * 2 ^ nat e
                         else f64_significand x div 2 ^ nat (- e))
        in clamp_i64 (if f64_sign x then - magnitude else magnitude))"

end
