(* ===== verification/Numeric_String.thy ===== *)
theory Numeric_String
  imports Byte_Kernel_Proofs Decimal F64 "HOL-Library.AList"
begin

text \<open>
  PHP numeric strings (\<open>crates/php_runtime/src/numeric_string.rs\<close>): the classification of a
  byte string as an integer, a float, a leading-numeric or a non-numeric string, the
  request-local classification cache, and the array-key rule. The main result is that a string
  becomes an integer array key exactly when it is the decimal rendering of a 64-bit integer.
\<close>

section \<open>Parsing of numbers by the standard library\<close>

text \<open>\<open>str::parse::<i64>\<close>.\<close>

definition digits_int :: "bytes \<Rightarrow> int" where
  "digits_int ds = foldl (\<lambda>v c. v * 10 + int (digit_value c)) 0 ds"

definition strip_sign :: "bytes \<Rightarrow> bool \<times> bytes" where
  "strip_sign text =
     (case text of
        [] \<Rightarrow> (False, [])
      | c # cs \<Rightarrow> if c = CHR ''-'' then (True, cs) else if c = CHR ''+'' then (False, cs) else (False, text))"

definition parse_i64 :: "bytes \<Rightarrow> int option" where
  "parse_i64 text =
     (let (negative, digits) = strip_sign text
      in if digits = [] \<or> \<not> list_all is_ascii_digit digits then None
         else
           let value = (if negative then - digits_int digits else digits_int digits)
           in if in_i64 value then Some value else None)"

text \<open>
  \<open>str::parse::<f64>\<close> on the texts the classifier passes: an optional sign, digits with an
  optional point, and an optional exponent. The result is the float nearest to the exact
  decimal value.
\<close>

definition parse_f64 :: "bytes \<Rightarrow> f64 option" where
  "parse_f64 text =
     (let (negative, body) = strip_sign text;
          whole = takeWhile is_ascii_digit body;
          r1 = dropWhile is_ascii_digit body;
          (fraction, r2) =
            (case r1 of
               c # cs \<Rightarrow> if c = CHR ''.'' then (takeWhile is_ascii_digit cs, dropWhile is_ascii_digit cs) else ([], r1)
             | [] \<Rightarrow> ([], []));
          significand = digits_int (whole @ fraction);
          build = (\<lambda>e. let p = e - int (length fraction)
                        in if 0 \<le> p then f64_of_ratio negative (significand * 10 ^ nat p) 1
                           else f64_of_ratio negative significand (10 ^ nat (- p)))
      in if whole = [] \<and> fraction = [] then None
         else
           case r2 of
             [] \<Rightarrow> Some (build 0)
           | c # cs \<Rightarrow>
               if c = CHR ''e'' \<or> c = CHR ''E'' then
                 let (eneg, ds) = strip_sign cs
                 in if ds = [] \<or> \<not> list_all is_ascii_digit ds then None
                    else Some (build (if eneg then - digits_int ds else digits_int ds))
               else None)"

section \<open>Classification\<close>

datatype numeric_string_value = NsInt int | NsFloat f64

primrec as_f64 :: "numeric_string_value \<Rightarrow> f64" where
  "as_f64 (NsInt value) = f64_of_int value"
| "as_f64 (NsFloat value) = value"

primrec to_i64 :: "numeric_string_value \<Rightarrow> int" where
  "to_i64 (NsInt value) = value"
| "to_i64 (NsFloat value) = f64_to_i64 value"

primrec is_float :: "numeric_string_value \<Rightarrow> bool" where
  "is_float (NsInt _) = False"
| "is_float (NsFloat _) = True"

datatype numeric_string_kind = IntString | FloatString | LeadingNumeric | NonNumeric

datatype numeric_string_canonical_kind = CanonNone | CanonInteger | CanonFloat

datatype numeric_string_array_key = NsInteger int | NsString

record numeric_string =
  ns_kind :: numeric_string_kind
  ns_value :: "numeric_string_value option"
  ns_canonical :: numeric_string_canonical_kind
  overflow_or_precision_sensitive :: bool

definition has_numeric_value :: "numeric_string \<Rightarrow> bool" where
  "has_numeric_value n = (ns_value n \<noteq> None)"

definition non_numeric :: numeric_string where
  "non_numeric = \<lparr>ns_kind = NonNumeric, ns_value = None, ns_canonical = CanonNone,
     overflow_or_precision_sensitive = False\<rparr>"

definition is_sign :: "byte option \<Rightarrow> bool" where
  "is_sign b = (b = Some (CHR ''+'') \<or> b = Some (CHR ''-''))"

definition is_exponent_marker :: "byte option \<Rightarrow> bool" where
  "is_exponent_marker b = (b = Some (CHR ''e'') \<or> b = Some (CHR ''E''))"

text \<open>The two last tests of the source both return \<open>index\<close>.\<close>

definition numeric_prefix_len :: "byte_env \<Rightarrow> bytes \<Rightarrow> nat option" where
  "numeric_prefix_len E bytes =
     (let start = (if is_sign (get_at bytes 0) then 1 else 0);
          integer_digits = ascii_digit_run_len E (drop start bytes);
          index1 = start + integer_digits;
          (index2, digits) =
            (if get_at bytes index1 = Some (CHR ''.'') then
               let fraction_digits = ascii_digit_run_len E (drop (index1 + 1) bytes)
               in (index1 + 1 + fraction_digits, integer_digits + fraction_digits)
             else (index1, integer_digits))
      in if digits = 0 then None
         else if is_exponent_marker (get_at bytes index2) then
           let exponent_start = index2 + 1 + (if is_sign (get_at bytes (index2 + 1)) then 1 else 0);
               index3 = exponent_start + ascii_digit_run_len E (drop exponent_start bytes)
           in Some (if index3 = exponent_start then index2 else index3)
         else Some index2)"

definition significant_digits_count :: "bytes \<Rightarrow> nat" where
  "significant_digits_count bytes = length (dropWhile (\<lambda>c. c = CHR ''0'') (filter is_ascii_digit bytes))"

definition is_float_byte :: "byte \<Rightarrow> bool" where
  "is_float_byte c = (c = CHR ''.'' \<or> c = CHR ''e'' \<or> c = CHR ''E'')"

text \<open>\<open>ParsedNumeric\<close> is the value with the overflow flag.\<close>

definition parse_numeric_prefix :: "bytes \<Rightarrow> (numeric_string_value \<times> bool) option" where
  "parse_numeric_prefix bytes =
     (if \<not> utf8_valid bytes then None
      else if list_ex is_float_byte bytes then
        map_option (\<lambda>value. (NsFloat value, \<not> f64_is_finite value \<or> 15 < significant_digits_count bytes))
          (parse_f64 bytes)
      else
        case parse_i64 bytes of
          Some value \<Rightarrow> Some (NsInt value, False)
        | None \<Rightarrow> map_option (\<lambda>value. (NsFloat value, True)) (parse_f64 bytes))"

definition canonical_integer_value :: "byte_env \<Rightarrow> bytes \<Rightarrow> numeric_string_value \<Rightarrow> int option" where
  "canonical_integer_value E bytes v =
     (case v of
        NsFloat _ \<Rightarrow> None
      | NsInt value \<Rightarrow>
          let (negative, digits) = (if take 1 bytes = ''-'' then (True, drop 1 bytes) else (False, bytes))
          in if take 1 bytes = ''+'' \<or> digits = [] \<or> \<not> all_ascii_digits E digits then None
             else if 1 < length digits \<and> take 1 digits = ''0'' then None
             else if negative \<and> value = 0 then None
             else Some value)"

definition canonical_kind ::
    "byte_env \<Rightarrow> bytes \<Rightarrow> bytes \<Rightarrow> bool \<Rightarrow> numeric_string_value \<Rightarrow> numeric_string_canonical_kind" where
  "canonical_kind E original numeric_prefix has_surrounding_whitespace value =
     (if has_surrounding_whitespace \<or> original \<noteq> numeric_prefix then CanonNone
      else if canonical_integer_value E numeric_prefix value \<noteq> None then CanonInteger
      else if is_float value \<and> list_ex is_float_byte numeric_prefix then CanonFloat
      else CanonNone)"

definition classify :: "byte_env \<Rightarrow> bytes \<Rightarrow> numeric_string" where
  "classify E bytes =
     (let start = unwrap_or (find_non_ascii_whitespace E bytes) (length bytes);
          trimmed_start = drop start bytes
      in if trimmed_start = [] then non_numeric
         else
           case numeric_prefix_len E trimmed_start of
             None \<Rightarrow> non_numeric
           | Some prefix \<Rightarrow>
               case parse_numeric_prefix (take prefix trimmed_start) of
                 None \<Rightarrow> non_numeric
               | Some (value, sensitive) \<Rightarrow>
                   let trailing = drop prefix trimmed_start
                   in if all_ascii_whitespace E trailing then
                        \<lparr>ns_kind = (if is_float value then FloatString else IntString),
                         ns_value = Some value,
                         ns_canonical = canonical_kind E bytes (take prefix trimmed_start)
                           (start \<noteq> 0 \<or> trailing \<noteq> []) value,
                         overflow_or_precision_sensitive = sensitive\<rparr>
                      else
                        \<lparr>ns_kind = LeadingNumeric, ns_value = Some value, ns_canonical = CanonNone,
                         overflow_or_precision_sensitive = sensitive\<rparr>)"

section \<open>Array keys\<close>

definition starts_like_integer :: "bytes \<Rightarrow> bool" where
  "starts_like_integer bytes = is_some_and (get_at bytes 0) (\<lambda>b. b = CHR ''-'' \<or> is_ascii_digit b)"

definition array_key_integer_bytes :: "byte_env \<Rightarrow> bytes \<Rightarrow> int option" where
  "array_key_integer_bytes E value =
     (if \<not> starts_like_integer value then None
      else
        let classified = classify E value
        in case (ns_canonical classified, ns_value classified) of
             (CanonInteger, Some (NsInt v)) \<Rightarrow> Some v
           | _ \<Rightarrow> None)"

section \<open>The classification cache\<close>

unbundle bit_operations_syntax

text \<open>FNV-1a.\<close>

definition fingerprint :: "bytes \<Rightarrow> 64 word" where
  "fingerprint bytes =
     foldl (\<lambda>hash byte. (hash XOR of_nat (byte_val byte)) * 0x100000001b3) 0xcbf29ce484222325 bytes"

text \<open>A PHP string handle: the identity of its storage and its bytes.\<close>

record php_string =
  ps_storage :: nat
  ps_bytes :: bytes

record numeric_string_cache_key =
  ck_storage_id :: nat
  ck_len :: nat
  ck_fingerprint :: "64 word"

record numeric_string_cache_stats =
  classify_calls :: nat
  cache_hits :: nat
  cache_misses :: nat
  warning_sensitive_fallbacks :: nat
  overflow_precision_fallbacks :: nat

text \<open>The thread-local cells and the gate of the statistics.\<close>

record numeric_string_state =
  classification_cache :: "(numeric_string_cache_key \<times> numeric_string) list"
  classification_stats :: numeric_string_cache_stats
  stats_enabled :: bool

definition CACHE_LIMIT :: nat where
  "CACHE_LIMIT = 4096"

definition empty_stats :: numeric_string_cache_stats where
  "empty_stats = \<lparr>classify_calls = 0, cache_hits = 0, cache_misses = 0,
     warning_sensitive_fallbacks = 0, overflow_precision_fallbacks = 0\<rparr>"

definition record_sensitive_classification ::
    "numeric_string \<Rightarrow> numeric_string_cache_stats \<Rightarrow> numeric_string_cache_stats" where
  "record_sensitive_classification n st =
     (let st1 = (if ns_kind n = LeadingNumeric
                 then st\<lparr>warning_sensitive_fallbacks := warning_sensitive_fallbacks st + 1\<rparr> else st)
      in if overflow_or_precision_sensitive n
         then st1\<lparr>overflow_precision_fallbacks := overflow_precision_fallbacks st1 + 1\<rparr> else st1)"

definition count_stats ::
    "(numeric_string_cache_stats \<Rightarrow> numeric_string_cache_stats) \<Rightarrow> numeric_string_state \<Rightarrow> numeric_string_state" where
  "count_stats f S = (if stats_enabled S then S\<lparr>classification_stats := f (classification_stats S)\<rparr> else S)"

definition cache_key_of :: "php_string \<Rightarrow> numeric_string_cache_key" where
  "cache_key_of value = \<lparr>ck_storage_id = ps_storage value, ck_len = length (ps_bytes value),
     ck_fingerprint = fingerprint (ps_bytes value)\<rparr>"

definition classify_php_string ::
    "byte_env \<Rightarrow> php_string \<Rightarrow> numeric_string_state \<Rightarrow> numeric_string \<times> numeric_string_state" where
  "classify_php_string E value S0 =
     (let S1 = count_stats (\<lambda>st. st\<lparr>classify_calls := classify_calls st + 1\<rparr>) S0;
          key = cache_key_of value
      in case map_of (classification_cache S1) key of
           Some classified \<Rightarrow>
             (classified, count_stats (\<lambda>st. record_sensitive_classification classified
                 (st\<lparr>cache_hits := cache_hits st + 1\<rparr>)) S1)
         | None \<Rightarrow>
             let classified = classify E (ps_bytes value);
                 cache = (if CACHE_LIMIT \<le> length (classification_cache S1) then []
                          else classification_cache S1);
                 S2 = S1\<lparr>classification_cache := AList.update key classified cache\<rparr>
             in (classified, count_stats (\<lambda>st. record_sensitive_classification classified
                   (st\<lparr>cache_misses := cache_misses st + 1\<rparr>)) S2))"

definition classify_array_key ::
    "byte_env \<Rightarrow> php_string \<Rightarrow> numeric_string_state \<Rightarrow> numeric_string_array_key \<times> numeric_string_state" where
  "classify_array_key E value S =
     (if \<not> starts_like_integer (ps_bytes value) then (NsString, S)
      else
        let (classified, S') = classify_php_string E value S
        in (case (ns_canonical classified, ns_value classified) of
              (CanonInteger, Some (NsInt v)) \<Rightarrow> NsInteger v
            | _ \<Rightarrow> NsString, S'))"

definition array_key_has_numeric_string_ambiguity ::
    "byte_env \<Rightarrow> php_string \<Rightarrow> numeric_string_state \<Rightarrow> bool \<times> numeric_string_state" where
  "array_key_has_numeric_string_ambiguity E value S =
     (case get_at (ps_bytes value) 0 of
        None \<Rightarrow> (False, S)
      | Some first \<Rightarrow>
          if \<not> (is_ascii_digit first \<or> first \<in> {CHR ''+'', CHR ''-'', CHR '' '', CHR 0x09, CHR 0x0A, CHR 0x0D})
          then (False, S)
          else let (k, S') = classify_array_key E value S in (k = NsString, S'))"

definition reset_cache_stats :: "numeric_string_state \<Rightarrow> numeric_string_state" where
  "reset_cache_stats S = S\<lparr>stats_enabled := True, classification_stats := empty_stats\<rparr>"

definition reset_cache_and_stats :: "numeric_string_state \<Rightarrow> numeric_string_state" where
  "reset_cache_and_stats S = reset_cache_stats (S\<lparr>classification_cache := []\<rparr>)"

definition take_cache_stats :: "numeric_string_state \<Rightarrow> numeric_string_cache_stats \<times> numeric_string_state" where
  "take_cache_stats S = (classification_stats S, S\<lparr>classification_stats := empty_stats\<rparr>)"

section \<open>The array-key rule\<close>

lemma digits_int_value: "digits_int ds = int (digits_value 10 ds)"
proof (induction ds rule: rev_induct)
  case (snoc c ds)
  then show ?case by (simp add: digits_int_def digits_value_snoc)
qed (simp add: digits_int_def)

lemma digit_bytes:
  assumes "is_ascii_digit c"
  shows "c \<noteq> CHR ''-''" "c \<noteq> CHR ''+''" "c \<noteq> CHR ''.''" "\<not> is_float_byte c" "\<not> is_ascii_whitespace c"
    "byte_val c < 0x80"
  using assms by (auto simp: byte_classes is_float_byte_def byte_val_def)

lemma minus_bytes:
  "\<not> is_ascii_digit (CHR ''-'')" "\<not> is_float_byte (CHR ''-'')" "\<not> is_ascii_whitespace (CHR ''-'')"
  "byte_val (CHR ''-'') < 0x80"
  by (auto simp: byte_classes is_float_byte_def byte_val_def)

lemma utf8_valid_ascii: "list_all (\<lambda>c. byte_val c < 0x80) bs \<Longrightarrow> utf8_valid bs"
  by (induction bs) auto

text \<open>The texts of the integers: an optional minus sign and canonical digits.\<close>

definition integer_text :: "bytes \<Rightarrow> bool \<Rightarrow> bytes \<Rightarrow> bool" where
  "integer_text v negative ds \<longleftrightarrow> v = (if negative then CHR ''-'' # ds else ds) \<and> ds \<noteq> [] \<and> list_all is_ascii_digit ds"

lemma integer_text_first:
  assumes "integer_text v negative ds"
  obtains c cs where "v = c # cs" "\<not> is_ascii_whitespace c" "c \<noteq> CHR ''+''" "c = CHR ''-'' \<longleftrightarrow> negative"
    "c = CHR ''-'' \<or> is_ascii_digit c"
  using assms digit_bytes minus_bytes
  by (cases ds) (auto simp: integer_text_def split: if_splits)

lemma run_len_all: "list_all is_ascii_digit ds \<Longrightarrow> ascii_digit_run_len E ds = length ds"
  by (simp add: ascii_digit_run_len_eq ascii_digit_run_len_scalar_eq list_all_iff flip: takeWhile_eq_all_conv)

lemma integer_text_prefix:
  assumes "integer_text v negative ds"
  shows "numeric_prefix_len E v = Some (length v)"
proof -
  have ds: "list_all is_ascii_digit ds" "ds \<noteq> []" and v: "v = (if negative then CHR ''-'' # ds else ds)"
    using assms by (auto simp: integer_text_def)
  from ds(2) obtain c cs where c: "ds = c # cs" by (cases ds) auto
  then have "is_ascii_digit c" using ds(1) by simp
  define start where "start = (if is_sign (get_at v 0) then 1 else 0 :: nat)"
  have start: "drop start v = ds" "start + length ds = length v"
    using \<open>is_ascii_digit c\<close> digit_bytes [of c] by (auto simp: start_def v c is_sign_def)
  have "ds \<noteq> []" by (simp add: c)
  then show ?thesis
    unfolding numeric_prefix_len_def start_def [symmetric] Let_def start(1) run_len_all [OF ds(1)] start(2)
    by (simp add: is_exponent_marker_def get_at_def)
qed

lemma integer_text_parse:
  assumes "integer_text v negative ds"
  shows "\<not> list_ex is_float_byte v" "utf8_valid v"
    "parse_i64 v = (let value = (if negative then - digits_int ds else digits_int ds)
       in if in_i64 value then Some value else None)"
proof -
  have ds: "list_all is_ascii_digit ds" "ds \<noteq> []" and v: "v = (if negative then CHR ''-'' # ds else ds)"
    using assms by (auto simp: integer_text_def)
  show "\<not> list_ex is_float_byte v" "utf8_valid v"
    using ds minus_bytes digit_bytes(4,6)
    unfolding v list_ex_iff list_all_iff by (auto intro!: utf8_valid_ascii simp: list_all_iff)
  from ds(2) obtain c cs where c: "ds = c # cs" by (cases ds) auto
  then have "c \<noteq> CHR ''-''" "c \<noteq> CHR ''+''" using ds(1) digit_bytes [of c] by auto
  then have "strip_sign v = (negative, ds)" by (simp add: v c strip_sign_def)
  then show "parse_i64 v = (let value = (if negative then - digits_int ds else digits_int ds)
       in if in_i64 value then Some value else None)"
    using ds by (simp add: parse_i64_def)
qed

lemma show_int_text:
  "integer_text (show_int i) (i < 0) (show_nat (nat \<bar>i\<bar>))"
  "canonical_digits (show_nat (nat \<bar>i\<bar>))"
  "(if i < 0 then - digits_int (show_nat (nat \<bar>i\<bar>)) else digits_int (show_nat (nat \<bar>i\<bar>))) = i"
  using canonical_show_nat [of "nat \<bar>i\<bar>"] show_nat_digits [of "nat \<bar>i\<bar>"]
  by (auto simp: integer_text_def show_int_def digits_below_10 [symmetric] digits_int_value)

text \<open>Canonical digits after an optional sign, and no negative zero: a rendering.\<close>

lemma canonical_text_show:
  assumes "integer_text v negative ds" "canonical_digits ds"
    "value = (if negative then - digits_int ds else digits_int ds)" "\<not> (negative \<and> value = 0)"
  shows "v = show_int value"
proof -
  have v: "v = (if negative then CHR ''-'' # ds else ds)" using assms(1) by (simp add: integer_text_def)
  show ?thesis
    using assms(3,4) show_nat_digits_value [OF assms(2)] unfolding v show_int_def
    by (cases negative) (auto simp: digits_int_value)
qed

lemma classify_integer_text:
  assumes "integer_text v negative ds" "value = (if negative then - digits_int ds else digits_int ds)" "in_i64 value"
  shows "ns_value (classify E v) = Some (NsInt value)"
    "ns_canonical (classify E v) = (if canonical_digits ds \<and> \<not> (negative \<and> value = 0) then CanonInteger else CanonNone)"
proof -
  obtain c cs where c: "v = c # cs" "\<not> is_ascii_whitespace c" "c \<noteq> CHR ''+''" "c = CHR ''-'' \<longleftrightarrow> negative"
    "c = CHR ''-'' \<or> is_ascii_digit c"
    using assms(1) by (rule integer_text_first)
  have "v \<noteq> []" by (simp add: c(1))
  have start: "find_non_ascii_whitespace E v = Some 0"
    using c(2) by (simp add: find_non_ascii_whitespace_eq find_non_ascii_whitespace_scalar_def c(1))
  have parse: "parse_numeric_prefix v = Some (NsInt value, False)"
    using integer_text_parse [OF assms(1)] assms(2,3) by (simp add: parse_numeric_prefix_def)
  have trail: "all_ascii_whitespace E []"
    by (simp add: all_ascii_whitespace_eq all_ascii_whitespace_scalar_def)
  have ds: "list_all is_ascii_digit ds" "ds \<noteq> []" and v: "v = (if negative then CHR ''-'' # ds else ds)"
    using assms(1) by (auto simp: integer_text_def)
  have pair: "(if take 1 v = ''-'' then (True, drop 1 v) else (False, v)) = (negative, ds)"
    using c(1,4) v by (auto split: if_splits)
  have plus: "take 1 v \<noteq> ''+''" using c(1,3) by simp
  have zero: "1 < length ds \<and> take 1 ds = ''0'' \<longleftrightarrow> \<not> canonical_digits ds"
    using ds digits_below_10 [of ds] by (cases ds) (auto simp: canonical_digits_def simp del: digits_below_Cons)
  have "canonical_integer_value E v (NsInt value)
      = (if canonical_digits ds \<and> \<not> (negative \<and> value = 0) then Some value else None)"
    unfolding canonical_integer_value_def numeric_string_value.case pair Let_def prod.case zero
    using ds plus by (simp add: all_ascii_digits_eq all_ascii_digits_scalar_def)
  then have canon: "canonical_kind E v v False (NsInt value)
      = (if canonical_digits ds \<and> \<not> (negative \<and> value = 0) then CanonInteger else CanonNone)"
    by (simp add: canonical_kind_def)
  show "ns_value (classify E v) = Some (NsInt value)"
    "ns_canonical (classify E v) = (if canonical_digits ds \<and> \<not> (negative \<and> value = 0) then CanonInteger else CanonNone)"
    using parse trail canon \<open>v \<noteq> []\<close>
    by (simp_all add: classify_def Let_def start integer_text_prefix [OF assms(1)])
qed

lemma array_key_show_int:
  assumes "in_i64 i"
  shows "array_key_integer_bytes E (show_int i) = Some i"
proof -
  note text_i = show_int_text(1) [of i]
  note class_i = classify_integer_text [OF text_i show_int_text(3) [symmetric] assms, of E]
  obtain c cs where "show_int i = c # cs" "c = CHR ''-'' \<or> is_ascii_digit c"
    using text_i by (rule integer_text_first)
  then have "starts_like_integer (show_int i)" by (simp add: starts_like_integer_def)
  moreover have "ns_canonical (classify E (show_int i)) = CanonInteger"
    using class_i(2) show_int_text(2) [of i] by simp
  ultimately show ?thesis using class_i(1) by (simp add: array_key_integer_bytes_def)
qed

lemma canonical_integer_text:
  assumes "canonical_integer_value E v (NsInt i) = Some j" "parse_i64 v = Some i"
  shows "v = show_int i \<and> in_i64 i"
proof -
  define negative ds where "negative = (take 1 v = ''-'')" and "ds = (if negative then drop 1 v else v)"
  have pair: "(if take 1 v = ''-'' then (True, drop 1 v) else (False, v)) = (negative, ds)"
    by (simp add: negative_def ds_def)
  have v: "v = (if negative then CHR ''-'' # ds else ds)"
    by (cases v) (auto simp: negative_def ds_def)
  from assms(1) have facts: "take 1 v \<noteq> ''+''" "ds \<noteq> []" "list_all is_ascii_digit ds"
    "\<not> (1 < length ds \<and> take 1 ds = ''0'')" "\<not> (negative \<and> i = 0)"
    unfolding canonical_integer_value_def numeric_string_value.case pair Let_def prod.case
    by (auto simp: all_ascii_digits_eq all_ascii_digits_scalar_def split: if_splits)
  have int_text: "integer_text v negative ds" using v facts by (simp add: integer_text_def)
  have "canonical_digits ds"
    using facts digits_below_10 [of ds] by (cases ds) (auto simp: canonical_digits_def)
  moreover have "i = (if negative then - digits_int ds else digits_int ds) \<and> in_i64 i"
    using assms(2) integer_text_parse(3) [OF int_text] by (auto simp: Let_def split: if_splits)
  ultimately show ?thesis using canonical_text_show [OF int_text] facts(5) by blast
qed

lemma array_key_integer_only:
  assumes "array_key_integer_bytes E v = Some i"
  shows "v = show_int i \<and> in_i64 i"
proof -
  from assms have c: "ns_canonical (classify E v) = CanonInteger" "ns_value (classify E v) = Some (NsInt i)"
    by (auto simp: array_key_integer_bytes_def Let_def
        split: if_splits numeric_string_canonical_kind.splits option.splits numeric_string_value.splits)
  define start where "start = unwrap_or (find_non_ascii_whitespace E v) (length v)"
  obtain prefix sensitive where p: "parse_numeric_prefix (take prefix (drop start v)) = Some (NsInt i, sensitive)"
    "canonical_kind E v (take prefix (drop start v)) (start \<noteq> 0 \<or> drop prefix (drop start v) \<noteq> []) (NsInt i) = CanonInteger"
    using c by (auto simp: classify_def Let_def start_def [symmetric] non_numeric_def split: if_splits option.splits)
  then have v: "take prefix (drop start v) = v" and "canonical_integer_value E v (NsInt i) \<noteq> None"
    by (auto simp: canonical_kind_def split: if_splits)
  then obtain j where "canonical_integer_value E v (NsInt i) = Some j" by blast
  moreover have "parse_i64 v = Some i"
    using p(1) unfolding v by (auto simp: parse_numeric_prefix_def split: if_splits option.splits)
  ultimately show ?thesis by (rule canonical_integer_text)
qed

text \<open>C12. A string normalises to an integer array key exactly when it is the decimal rendering
  of a 64-bit signed integer, and then to that integer.\<close>

theorem array_key_integer_iff:
  "array_key_integer_bytes E v = Some i \<longleftrightarrow> v = show_int i \<and> in_i64 i"
  using array_key_integer_only array_key_show_int by blast

section \<open>What the cache returns\<close>

text \<open>Every entry is the classification of some string of its length and fingerprint.\<close>

definition cache_ok :: "byte_env \<Rightarrow> numeric_string_state \<Rightarrow> bool" where
  "cache_ok E S \<longleftrightarrow> distinct (map fst (classification_cache S)) \<and>
     length (classification_cache S) \<le> CACHE_LIMIT \<and>
     (\<forall>(k, n) \<in> set (classification_cache S).
        \<exists>bs. length bs = ck_len k \<and> fingerprint bs = ck_fingerprint k \<and> n = classify E bs)"

lemma cache_of_count_stats [simp]: "classification_cache (count_stats f S) = classification_cache S"
  by (simp add: count_stats_def)

lemma length_alist_update: "length (AList.update k v xs) \<le> Suc (length xs)"
  by (induction xs) auto

lemma cache_ok_update:
  assumes "cache_ok E S" "length xs < CACHE_LIMIT" "xs = [] \<or> xs = classification_cache S"
  shows "cache_ok E (S\<lparr>classification_cache := AList.update (cache_key_of value) (classify E (ps_bytes value)) xs\<rparr>)"
proof -
  have old: "distinct (map fst xs)"
    "\<forall>(k, n) \<in> set xs. \<exists>bs. length bs = ck_len k \<and> fingerprint bs = ck_fingerprint k \<and> n = classify E bs"
    using assms(1,3) by (auto simp: cache_ok_def)
  have "set (AList.update k v xs) \<subseteq> insert (k, v) (set xs)" for k v by (induction xs) auto
  moreover have "\<exists>bs. length bs = ck_len (cache_key_of value) \<and> fingerprint bs = ck_fingerprint (cache_key_of value) \<and>
      classify E (ps_bytes value) = classify E bs"
    by (rule exI [of _ "ps_bytes value"]) (simp add: cache_key_of_def)
  ultimately have "\<forall>(k, n) \<in> set (AList.update (cache_key_of value) (classify E (ps_bytes value)) xs).
      \<exists>bs. length bs = ck_len k \<and> fingerprint bs = ck_fingerprint k \<and> n = classify E bs"
    using old(2) by fast
  then show ?thesis
    using old(1) distinct_update [OF old(1)] assms(2)
      length_alist_update [of "cache_key_of value" "classify E (ps_bytes value)" xs]
    by (simp add: cache_ok_def)
qed


definition empty_state :: numeric_string_state where
  "empty_state = \<lparr>classification_cache = [], classification_stats = empty_stats, stats_enabled = False\<rparr>"


section \<open>Collisions of the fingerprint\<close>

text \<open>
  The 64-bit integers have distinct classifications and can all be written in twenty bytes;
  with one float more there are more strings than fingerprints.
\<close>

definition padded :: "int \<Rightarrow> bytes" where
  "padded i =
     (if i < 0 then CHR ''-'' # replicate (19 - length (show_nat (nat \<bar>i\<bar>))) (CHR ''0'') @ show_nat (nat \<bar>i\<bar>)
      else replicate (20 - length (show_nat (nat \<bar>i\<bar>))) (CHR ''0'') @ show_nat (nat \<bar>i\<bar>))"

lemma length_show_nat: "n < 10 ^ k \<Longrightarrow> 0 < k \<Longrightarrow> length (show_nat n) \<le> k"
proof (induction n arbitrary: k rule: show_nat.induct)
  case (1 n)
  show ?case
  proof (cases "n < 10")
    case True
    then show ?thesis using 1(3) by (subst show_nat.simps) simp
  next
    case False
    obtain j where j: "k = Suc j" using 1(3) by (cases k) auto
    then have "j \<noteq> 0" using False 1(2) by (intro notI) simp
    with j have k: "k = Suc j" "0 < j" by simp_all
    then have "length (show_nat (n div 10)) \<le> j" using 1(1) [of j] 1(2) False by (simp add: less_mult_imp_div_less mult.commute)
    then show ?thesis using False k by (subst show_nat.simps) simp
  qed
qed

lemma digits_value_zeros: "digits_value 10 (replicate k (CHR ''0'') @ ds) = digits_value 10 ds"
  by (induction k) (simp_all add: digits_value_Cons digit_value_def byte_val_def)

lemma padded_text:
  assumes "in_i64 i"
  shows "length (padded i) = 20" "ns_value (classify E (padded i)) = Some (NsInt i)"
proof -
  have "nat \<bar>i\<bar> < 10 ^ 19" using assms by (simp add: in_i64_def nat_less_iff abs_if split: if_splits)
  then have len: "length (show_nat (nat \<bar>i\<bar>)) \<le> 19" by (intro length_show_nat) simp_all
  then show "length (padded i) = 20" by (cases "i < 0") (simp_all add: padded_def)
  define k where "k = (if i < 0 then 19 else 20) - length (show_nat (nat \<bar>i\<bar>))"
  have p: "padded i = (if i < 0 then CHR ''-'' # replicate k (CHR ''0'') @ show_nat (nat \<bar>i\<bar>)
      else replicate k (CHR ''0'') @ show_nat (nat \<bar>i\<bar>))"
    by (simp add: padded_def k_def)
  have zero: "is_ascii_digit (CHR ''0'')" by (simp add: is_ascii_digit_def byte_val_def)
  have digits: "list_all is_ascii_digit (show_nat (nat \<bar>i\<bar>))" using show_nat_digits by (simp add: digits_below_10)
  have "integer_text (padded i) (i < 0) (replicate k (CHR ''0'') @ show_nat (nat \<bar>i\<bar>))"
    using zero digits by (auto simp: integer_text_def p list_all_iff)
  moreover have "i = (if i < 0 then - digits_int (replicate k (CHR ''0'') @ show_nat (nat \<bar>i\<bar>))
      else digits_int (replicate k (CHR ''0'') @ show_nat (nat \<bar>i\<bar>)))"
    by (simp add: digits_int_value digits_value_zeros)
  ultimately show "ns_value (classify E (padded i)) = Some (NsInt i)"
    using assms by (rule classify_integer_text)
qed

definition nines :: bytes where
  "nines = replicate 20 (CHR ''9'')"

lemma nines_class: "length nines = 20" "ns_value (classify E nines) \<noteq> Some (NsInt i)"
proof -
  show "length nines = 20" by (simp add: nines_def)
  have nine: "is_ascii_digit (CHR ''9'')" by (simp add: is_ascii_digit_def byte_val_def)
  have int_text: "integer_text nines False nines" using nine by (simp add: integer_text_def nines_def list_all_iff)
  have "digits_int nines = 99999999999999999999"
    by (simp add: nines_def digits_int_def numeral_eq_Suc digit_value_def byte_val_def)
  then have none: "parse_i64 nines = None"
    using integer_text_parse(3) [OF int_text] by (simp add: in_i64_def)
  have start: "find_non_ascii_whitespace E nines = Some 0"
    using digit_bytes(5) [OF nine]
    by (simp add: find_non_ascii_whitespace_eq find_non_ascii_whitespace_scalar_def nines_def numeral_eq_Suc)
  show "ns_value (classify E nines) \<noteq> Some (NsInt i)"
    using none integer_text_parse(1) [OF int_text]
    by (auto simp: classify_def Let_def start integer_text_prefix [OF int_text] non_numeric_def
        parse_numeric_prefix_def split: option.splits)
qed

lemma card_i64: "card {i. in_i64 i} = 2 ^ 64"
proof -
  have "{i. in_i64 i} = {i64_min..i64_max}" by (auto simp: in_i64_def)
  then show ?thesis by simp
qed

lemma classification_collision:
  obtains a b where "length a = 20" "length b = 20" "fingerprint a = fingerprint b" "classify E a \<noteq> classify E b"
proof -
  define A where "A = insert nines (padded ` {i. in_i64 i})"
  have fin: "finite {i. in_i64 i}" using card_i64 by (intro card_ge_0_finite) simp
  have inj: "inj_on padded {i. in_i64 i}"
    using padded_text(2) [of _ E] by (metis (no_types, lifting) inj_onI mem_Collect_eq numeric_string_value.inject(1) option.inject)
  have "nines \<notin> padded ` {i. in_i64 i}" using padded_text(2) nines_class(2) by fastforce
  then have "card A = Suc (2 ^ 64)" using fin card_image [OF inj] card_i64 by (simp add: A_def)
  moreover have "card (fingerprint ` A) \<le> 2 ^ 64"
    using card_mono [of "UNIV :: 64 word set" "fingerprint ` A"] by (simp add: card_word)
  ultimately have "\<not> inj_on fingerprint A" by (intro pigeonhole) simp
  then obtain a b where ab: "a \<in> A" "b \<in> A" "a \<noteq> b" "fingerprint a = fingerprint b"
    by (auto simp: inj_on_def)
  moreover have "length a = 20" "length b = 20" using ab(1,2) padded_text(1) nines_class(1) by (auto simp: A_def)
  moreover have "classify E a \<noteq> classify E b"
    using ab(1-3) padded_text(2) nines_class(2) unfolding A_def
    by (metis (no_types, lifting) imageE insertE mem_Collect_eq numeric_string_value.inject(1) option.inject)
  ultimately show ?thesis using that by blast
qed

text \<open>C26. The fingerprint does not tell all strings of one length apart: after the bytes of one
  storage change, the cache can answer with the classification of the old bytes.\<close>

theorem stale_classification:
  "\<exists>a b. a \<noteq> b \<and> (let S = snd (classify_php_string E \<lparr>ps_storage = k, ps_bytes = a\<rparr> empty_state)
     in fst (classify_php_string E \<lparr>ps_storage = k, ps_bytes = b\<rparr> S) = classify E a \<and> classify E a \<noteq> classify E b)"
proof -
  obtain a b where ab: "length a = 20" "length b = 20" "fingerprint a = fingerprint b" "classify E a \<noteq> classify E b"
    by (rule classification_collision)
  then have "cache_key_of \<lparr>ps_storage = k, ps_bytes = b\<rparr> = cache_key_of \<lparr>ps_storage = k, ps_bytes = a\<rparr>"
    by (simp add: cache_key_of_def)
  then have "fst (classify_php_string E \<lparr>ps_storage = k, ps_bytes = b\<rparr>
      (snd (classify_php_string E \<lparr>ps_storage = k, ps_bytes = a\<rparr> empty_state))) = classify E a"
    by (simp add: classify_php_string_def Let_def empty_state_def count_stats_def CACHE_LIMIT_def)
  then show ?thesis using ab(4) by (metis (no_types, lifting))
qed

end
