(* ===== verification/Php_Value.thy ===== *)
theory Php_Value
  imports Numeric_String
begin

text \<open>
  Runtime values (\<open>crates/php_runtime/src/value.rs\<close>) and array keys. Strings are their bytes;
  the heap variants are handles to shared cells, as in the source, where each is one pointer.
\<close>

type_synonym handle = nat

datatype php_value =
    VNull | VBool bool | VInt int | VFloat f64 | VString bytes | VUninitialized
  | VArray handle | VObject handle | VResource nat | VFiber handle | VGenerator handle
  | VCallable handle | VReference handle

definition is_reference :: "php_value \<Rightarrow> bool" where
  "is_reference v = (case v of VReference _ \<Rightarrow> True | _ \<Rightarrow> False)"

definition is_int :: "php_value \<Rightarrow> bool" where
  "is_int v = (case v of VInt _ \<Rightarrow> True | _ \<Rightarrow> False)"

datatype array_key = IntKey int | StringKey bytes

primrec as_int :: "array_key \<Rightarrow> int option" where
  "as_int (IntKey i) = Some i"
| "as_int (StringKey _) = None"

primrec as_string :: "array_key \<Rightarrow> bytes option" where
  "as_string (IntKey _) = None"
| "as_string (StringKey s) = Some s"

text \<open>The classification through the cache, when no fingerprints collide.\<close>

definition from_php_string :: "byte_env \<Rightarrow> bytes \<Rightarrow> array_key" where
  "from_php_string E s = (case array_key_integer_bytes E s of Some i \<Rightarrow> IntKey i | None \<Rightarrow> StringKey s)"

definition key_ambiguous :: "byte_env \<Rightarrow> bytes \<Rightarrow> bool" where
  "key_ambiguous E s =
     (is_some_and (get_at s 0) (\<lambda>first. is_ascii_digit first \<or>
         first \<in> {CHR ''+'', CHR ''-'', CHR '' '', CHR 0x09, CHR 0x0A, CHR 0x0D}) \<and>
      array_key_integer_bytes E s = None)"

end
