(* ===== verification/Php_Array.thy ===== *)
theory Php_Array
  imports Php_Value
begin

text \<open>
  The storage of PHP arrays (\<open>crates/php_runtime/src/array.rs\<close>): ordered maps in one of three
  layouts. \<open>PackedStorage\<close> holds values only, with the keys \<open>0..len\<close>; \<open>RecordStorage\<close> holds values
  behind a key shape; \<open>MixedStorage\<close> holds entries with tombstones and a hash index. Every
  operation that changes the storage is a function to the new storage; the copy-on-write
  handle around it is in \<open>Php_Array_Cow\<close>. The functions of the source that only count layout
  statistics have no part in the model.
\<close>

section \<open>Metadata\<close>

record array_cached_metadata =
  md_len :: nat
  md_reference_values :: nat
  md_int_values :: nat
  md_int_keys :: nat
  md_string_keys :: nat
  md_ambiguous_keys :: nat
  md_shared_string_keys :: nat

definition metadata_default :: array_cached_metadata where
  "metadata_default = \<lparr>md_len = 0, md_reference_values = 0, md_int_values = 0, md_int_keys = 0,
     md_string_keys = 0, md_ambiguous_keys = 0, md_shared_string_keys = 0\<rparr>"

record array_entry =
  ae_key :: array_key
  ae_value :: php_value
  string_key_shared_for_shape :: bool

text \<open>\<open>shared\<close> is \<open>key.is_shared()\<close> of the string handle that carries the key.\<close>

definition array_entry_new :: "array_key \<Rightarrow> bool \<Rightarrow> php_value \<Rightarrow> array_entry" where
  "array_entry_new key shared value =
     \<lparr>ae_key = key, ae_value = value,
      string_key_shared_for_shape = (case key of IntKey _ \<Rightarrow> False | StringKey _ \<Rightarrow> shared)\<rparr>"

definition bool_nat :: "bool \<Rightarrow> nat" where
  "bool_nat b = (if b then 1 else 0)"

definition add_value :: "php_value \<Rightarrow> array_cached_metadata \<Rightarrow> array_cached_metadata" where
  "add_value value m =
     m\<lparr>md_len := md_len m + 1,
       md_reference_values := md_reference_values m + bool_nat (is_reference value),
       md_int_values := md_int_values m + bool_nat (is_int value)\<rparr>"

definition remove_value :: "php_value \<Rightarrow> array_cached_metadata \<Rightarrow> array_cached_metadata" where
  "remove_value value m =
     m\<lparr>md_len := md_len m - 1,
       md_reference_values := md_reference_values m - bool_nat (is_reference value),
       md_int_values := md_int_values m - bool_nat (is_int value)\<rparr>"

definition add_packed_value :: "php_value \<Rightarrow> array_cached_metadata \<Rightarrow> array_cached_metadata" where
  "add_packed_value value m = (add_value value m)\<lparr>md_int_keys := md_int_keys m + 1\<rparr>"

definition add_record_value :: "php_value \<Rightarrow> array_cached_metadata \<Rightarrow> array_cached_metadata" where
  "add_record_value value m =
     (add_value value m)\<lparr>md_string_keys := md_string_keys m + 1,
       md_shared_string_keys := md_shared_string_keys m + 1\<rparr>"

definition remove_packed_value :: "php_value \<Rightarrow> array_cached_metadata \<Rightarrow> array_cached_metadata" where
  "remove_packed_value value m = (remove_value value m)\<lparr>md_int_keys := md_int_keys m - 1\<rparr>"

definition add_entry :: "byte_env \<Rightarrow> array_entry \<Rightarrow> array_cached_metadata \<Rightarrow> array_cached_metadata" where
  "add_entry E entry m =
     (let m' = add_value (ae_value entry) m
      in case ae_key entry of
           IntKey _ \<Rightarrow> m'\<lparr>md_int_keys := md_int_keys m + 1\<rparr>
         | StringKey key \<Rightarrow>
             m'\<lparr>md_string_keys := md_string_keys m + 1,
                md_ambiguous_keys := md_ambiguous_keys m + bool_nat (key_ambiguous E key),
                md_shared_string_keys := md_shared_string_keys m
                  + bool_nat (string_key_shared_for_shape entry)\<rparr>)"

definition remove_entry :: "byte_env \<Rightarrow> array_entry \<Rightarrow> array_cached_metadata \<Rightarrow> array_cached_metadata" where
  "remove_entry E entry m =
     (let m' = remove_value (ae_value entry) m
      in case ae_key entry of
           IntKey _ \<Rightarrow> m'\<lparr>md_int_keys := md_int_keys m - 1\<rparr>
         | StringKey key \<Rightarrow>
             m'\<lparr>md_string_keys := md_string_keys m - 1,
                md_ambiguous_keys := md_ambiguous_keys m - bool_nat (key_ambiguous E key),
                md_shared_string_keys := md_shared_string_keys m
                  - bool_nat (string_key_shared_for_shape entry)\<rparr>)"

definition replace_value_flags ::
    "bool \<Rightarrow> bool \<Rightarrow> bool \<Rightarrow> bool \<Rightarrow> array_cached_metadata \<Rightarrow> array_cached_metadata" where
  "replace_value_flags old_ref new_ref old_int new_int m =
     m\<lparr>md_reference_values := md_reference_values m - bool_nat old_ref + bool_nat new_ref,
       md_int_values := md_int_values m - bool_nat old_int + bool_nat new_int\<rparr>"

text \<open>The metadata counted from the elements, as the consistency check of the source does.\<close>

definition metadata_of_packed :: "php_value list \<Rightarrow> array_cached_metadata" where
  "metadata_of_packed values = foldl (\<lambda>m v. add_packed_value v m) metadata_default values"

definition metadata_of_record :: "php_value list \<Rightarrow> array_cached_metadata" where
  "metadata_of_record values = foldl (\<lambda>m v. add_record_value v m) metadata_default values"

definition metadata_of_entries :: "byte_env \<Rightarrow> array_entry list \<Rightarrow> array_cached_metadata" where
  "metadata_of_entries E entries = foldl (\<lambda>m e. add_entry E e m) metadata_default entries"

datatype element_summary = SummaryEmpty | AllInt | SummaryMixed

datatype key_kind_summary = KeysEmpty | SequentialInt | IntOnly | StringOnly | KeysMixed

definition contains_references :: "array_cached_metadata \<Rightarrow> bool" where
  "contains_references m = (0 < md_reference_values m)"

definition element_summary_of :: "array_cached_metadata \<Rightarrow> element_summary" where
  "element_summary_of m =
     (if md_len m = 0 then SummaryEmpty else if md_int_values m = md_len m then AllInt else SummaryMixed)"

definition key_kind_summary_of :: "array_cached_metadata \<Rightarrow> bool \<Rightarrow> key_kind_summary" where
  "key_kind_summary_of m is_packed =
     (if md_len m = 0 then KeysEmpty
      else if is_packed then SequentialInt
      else if md_int_keys m = md_len m then IntOnly
      else if md_string_keys m = md_len m then StringOnly
      else KeysMixed)"

definition has_numeric_string_key_ambiguity :: "array_cached_metadata \<Rightarrow> bool" where
  "has_numeric_string_key_ambiguity m = (0 < md_ambiguous_keys m)"

definition string_keys_share_storage :: "array_cached_metadata \<Rightarrow> bool" where
  "string_keys_share_storage m = (md_string_keys m = md_shared_string_keys m)"

section \<open>Storage\<close>

text \<open>The key shape of a record array: its keys in order and their slots.\<close>

record record_shape =
  shape_keys :: "bytes list"
  slot_by_key :: "bytes \<Rightarrow> nat option"

definition shape_empty :: record_shape where
  "shape_empty = \<lparr>shape_keys = [], slot_by_key = (\<lambda>_. None)\<rparr>"

definition shape_extended :: "record_shape \<Rightarrow> bytes \<Rightarrow> record_shape" where
  "shape_extended shape key =
     \<lparr>shape_keys = shape_keys shape @ [key],
      slot_by_key = (slot_by_key shape)(key \<mapsto> length (shape_keys shape))\<rparr>"

text \<open>The fields every layout has.\<close>

record array_header =
  storage_id :: nat
  next_append_key :: "int option"
  internal_pointer :: "nat option"
  mutation_epoch :: "64 word"
  cached_metadata :: array_cached_metadata

record packed_array_storage = array_header +
  packed_values :: "php_value list"

record record_array_storage = array_header +
  record_array_shape :: record_shape
  record_values :: "php_value list"

record mixed_array_storage = array_header +
  mixed_entries :: "array_entry option list"
  live_len :: nat
  mixed_index :: "array_key \<Rightarrow> nat option"

datatype array_storage =
    PackedStorage packed_array_storage
  | RecordStorage record_array_storage
  | MixedStorage mixed_array_storage

definition header :: "array_storage \<Rightarrow> array_header" where
  "header st = (case st of
     PackedStorage s \<Rightarrow> array_header.truncate s
   | RecordStorage s \<Rightarrow> array_header.truncate s
   | MixedStorage s \<Rightarrow> array_header.truncate s)"

definition set_storage_id :: "nat \<Rightarrow> array_storage \<Rightarrow> array_storage" where
  "set_storage_id i st = (case st of
     PackedStorage s \<Rightarrow> PackedStorage (s\<lparr>storage_id := i\<rparr>)
   | RecordStorage s \<Rightarrow> RecordStorage (s\<lparr>storage_id := i\<rparr>)
   | MixedStorage s \<Rightarrow> MixedStorage (s\<lparr>storage_id := i\<rparr>))"

definition set_next_append_key :: "int option \<Rightarrow> array_storage \<Rightarrow> array_storage" where
  "set_next_append_key k st = (case st of
     PackedStorage s \<Rightarrow> PackedStorage (s\<lparr>next_append_key := k\<rparr>)
   | RecordStorage s \<Rightarrow> RecordStorage (s\<lparr>next_append_key := k\<rparr>)
   | MixedStorage s \<Rightarrow> MixedStorage (s\<lparr>next_append_key := k\<rparr>))"

definition set_internal_pointer :: "nat option \<Rightarrow> array_storage \<Rightarrow> array_storage" where
  "set_internal_pointer p st = (case st of
     PackedStorage s \<Rightarrow> PackedStorage (s\<lparr>internal_pointer := p\<rparr>)
   | RecordStorage s \<Rightarrow> RecordStorage (s\<lparr>internal_pointer := p\<rparr>)
   | MixedStorage s \<Rightarrow> MixedStorage (s\<lparr>internal_pointer := p\<rparr>))"

definition set_mutation_epoch :: "64 word \<Rightarrow> array_storage \<Rightarrow> array_storage" where
  "set_mutation_epoch e st = (case st of
     PackedStorage s \<Rightarrow> PackedStorage (s\<lparr>mutation_epoch := e\<rparr>)
   | RecordStorage s \<Rightarrow> RecordStorage (s\<lparr>mutation_epoch := e\<rparr>)
   | MixedStorage s \<Rightarrow> MixedStorage (s\<lparr>mutation_epoch := e\<rparr>))"

definition update_metadata ::
    "(array_cached_metadata \<Rightarrow> array_cached_metadata) \<Rightarrow> array_storage \<Rightarrow> array_storage" where
  "update_metadata f st = (case st of
     PackedStorage s \<Rightarrow> PackedStorage (s\<lparr>cached_metadata := f (cached_metadata s)\<rparr>)
   | RecordStorage s \<Rightarrow> RecordStorage (s\<lparr>cached_metadata := f (cached_metadata s)\<rparr>)
   | MixedStorage s \<Rightarrow> MixedStorage (s\<lparr>cached_metadata := f (cached_metadata s)\<rparr>))"

abbreviation st_metadata :: "array_storage \<Rightarrow> array_cached_metadata" where
  "st_metadata st \<equiv> cached_metadata (header st)"

abbreviation st_next_append_key :: "array_storage \<Rightarrow> int option" where
  "st_next_append_key st \<equiv> next_append_key (header st)"

abbreviation st_pointer :: "array_storage \<Rightarrow> nat option" where
  "st_pointer st \<equiv> internal_pointer (header st)"

abbreviation st_epoch :: "array_storage \<Rightarrow> 64 word" where
  "st_epoch st \<equiv> mutation_epoch (header st)"

text \<open>\<open>storage_empty\<close> is \<open>ArrayStorage::default\<close> and the storage of \<open>PhpArray::new\<close>.\<close>

definition storage_empty :: "nat \<Rightarrow> array_storage" where
  "storage_empty ident = PackedStorage
     \<lparr>storage_id = ident, next_append_key = None, internal_pointer = None, mutation_epoch = 0,
      cached_metadata = metadata_default, packed_values = []\<rparr>"

definition storage_from_packed :: "nat \<Rightarrow> php_value list \<Rightarrow> array_storage" where
  "storage_from_packed ident elements = PackedStorage
     \<lparr>storage_id = ident,
      next_append_key = (if 0 < length elements \<and> in_i64 (int (length elements))
                         then Some (int (length elements)) else None),
      internal_pointer = (if 0 < length elements then Some 0 else None),
      mutation_epoch = of_nat (length elements),
      cached_metadata = metadata_of_packed elements, packed_values = elements\<rparr>"

section \<open>Reading\<close>

definition live_entries :: "array_entry option list \<Rightarrow> array_entry list" where
  "live_entries entries = List.map_filter (\<lambda>e. e) entries"

definition storage_len :: "array_storage \<Rightarrow> nat" where
  "storage_len st = (case st of
     PackedStorage s \<Rightarrow> length (packed_values s)
   | RecordStorage s \<Rightarrow> length (record_values s)
   | MixedStorage s \<Rightarrow> live_len s)"

definition storage_is_empty :: "array_storage \<Rightarrow> bool" where
  "storage_is_empty st = (storage_len st = 0)"

text \<open>\<open>value_at\<close> indexes: a position out of range, or a tombstone, panics (\<open>None\<close>).\<close>

definition get_value :: "array_storage \<Rightarrow> nat \<Rightarrow> php_value option" where
  "get_value st index = (case st of
     PackedStorage s \<Rightarrow> get_at (packed_values s) index
   | RecordStorage s \<Rightarrow> get_at (record_values s) index
   | MixedStorage s \<Rightarrow>
       (case get_at (mixed_entries s) index of Some (Some entry) \<Rightarrow> Some (ae_value entry) | _ \<Rightarrow> None))"

definition key_at :: "array_storage \<Rightarrow> nat \<Rightarrow> array_key option" where
  "key_at st index = (case st of
     PackedStorage s \<Rightarrow> if index < length (packed_values s) then Some (IntKey (int index)) else None
   | RecordStorage s \<Rightarrow> map_option StringKey (get_at (shape_keys (record_array_shape s)) index)
   | MixedStorage s \<Rightarrow>
       (case get_at (mixed_entries s) index of Some (Some entry) \<Rightarrow> Some (ae_key entry) | _ \<Rightarrow> None))"

text \<open>The pairs \<open>PhpArrayIter\<close> yields, in insertion order.\<close>

definition iter_pairs :: "array_storage \<Rightarrow> (array_key \<times> php_value) list" where
  "iter_pairs st = (case st of
     PackedStorage s \<Rightarrow> map (\<lambda>(i, v). (IntKey (int i), v)) (enumerate 0 (packed_values s))
   | RecordStorage s \<Rightarrow> zip (map StringKey (shape_keys (record_array_shape s))) (record_values s)
   | MixedStorage s \<Rightarrow> map (\<lambda>e. (ae_key e, ae_value e)) (live_entries (mixed_entries s)))"

definition first_index :: "array_storage \<Rightarrow> nat option" where
  "first_index st = (case st of
     PackedStorage s \<Rightarrow> if packed_values s \<noteq> [] then Some 0 else None
   | RecordStorage s \<Rightarrow> if record_values s \<noteq> [] then Some 0 else None
   | MixedStorage s \<Rightarrow> position (\<lambda>e. e \<noteq> None) (mixed_entries s))"

definition last_index :: "array_storage \<Rightarrow> nat option" where
  "last_index st = (case st of
     PackedStorage s \<Rightarrow> if packed_values s \<noteq> [] then Some (length (packed_values s) - 1) else None
   | RecordStorage s \<Rightarrow> if record_values s \<noteq> [] then Some (length (record_values s) - 1) else None
   | MixedStorage s \<Rightarrow> rposition (\<lambda>e. e \<noteq> None) (mixed_entries s))"

definition next_index :: "array_storage \<Rightarrow> nat \<Rightarrow> nat option" where
  "next_index st index = (case st of
     PackedStorage s \<Rightarrow> if index + 1 < length (packed_values s) then Some (index + 1) else None
   | RecordStorage s \<Rightarrow> if index + 1 < length (record_values s) then Some (index + 1) else None
   | MixedStorage s \<Rightarrow>
       map_option (\<lambda>k. index + 1 + k) (position (\<lambda>e. e \<noteq> None) (drop (index + 1) (mixed_entries s))))"

definition previous_index :: "array_storage \<Rightarrow> nat \<Rightarrow> nat option" where
  "previous_index st index = (case st of
     MixedStorage s \<Rightarrow> rposition (\<lambda>e. e \<noteq> None) (take index (mixed_entries s))
   | _ \<Rightarrow> if index = 0 then None else Some (index - 1))"

definition is_packed :: "array_storage \<Rightarrow> bool" where
  "is_packed st = (case st of PackedStorage _ \<Rightarrow> True | _ \<Rightarrow> False)"

definition is_record :: "array_storage \<Rightarrow> bool" where
  "is_record st = (case st of RecordStorage _ \<Rightarrow> True | _ \<Rightarrow> False)"

definition packed_key_index :: "nat \<Rightarrow> array_key \<Rightarrow> nat option" where
  "packed_key_index len key = (case key of
     StringKey _ \<Rightarrow> None
   | IntKey index \<Rightarrow> if index < 0 then None else if nat index < len then Some (nat index) else None)"

definition find_index :: "array_storage \<Rightarrow> array_key \<Rightarrow> nat option" where
  "find_index st key = (case st of
     PackedStorage s \<Rightarrow> packed_key_index (length (packed_values s)) key
   | RecordStorage s \<Rightarrow>
       (case key of IntKey _ \<Rightarrow> None | StringKey name \<Rightarrow> slot_by_key (record_array_shape s) name)
   | MixedStorage s \<Rightarrow> mixed_index s key)"

definition array_get :: "array_storage \<Rightarrow> array_key \<Rightarrow> php_value option" where
  "array_get st key = (case st of
     PackedStorage s \<Rightarrow>
       (case packed_key_index (length (packed_values s)) key of
          None \<Rightarrow> None | Some index \<Rightarrow> get_at (packed_values s) index)
   | RecordStorage s \<Rightarrow>
       (case key of
          IntKey _ \<Rightarrow> None
        | StringKey name \<Rightarrow>
            (case slot_by_key (record_array_shape s) name of
               None \<Rightarrow> None | Some slot \<Rightarrow> get_at (record_values s) slot))
   | MixedStorage s \<Rightarrow>
       (case mixed_index s key of
          None \<Rightarrow> None
        | Some index \<Rightarrow>
            (case get_at (mixed_entries s) index of Some (Some entry) \<Rightarrow> Some (ae_value entry) | _ \<Rightarrow> None)))"

section \<open>Changing the layout\<close>

definition build_index :: "array_entry list \<Rightarrow> array_key \<Rightarrow> nat option" where
  "build_index entries = foldl (\<lambda>index (i, entry). index(ae_key entry \<mapsto> i)) (\<lambda>_. None) (enumerate 0 entries)"

definition mixed_from_entries :: "array_header \<Rightarrow> array_entry list \<Rightarrow> array_storage" where
  "mixed_from_entries h entries = MixedStorage
     \<lparr>storage_id = storage_id h, next_append_key = next_append_key h,
      internal_pointer = internal_pointer h, mutation_epoch = mutation_epoch h,
      cached_metadata = cached_metadata h, mixed_entries = map Some entries,
      live_len = length entries, mixed_index = build_index entries\<rparr>"

definition promote_empty_to_record :: "array_storage \<Rightarrow> array_storage" where
  "promote_empty_to_record st = RecordStorage
     \<lparr>storage_id = storage_id (header st), next_append_key = st_next_append_key st,
      internal_pointer = st_pointer st, mutation_epoch = st_epoch st,
      cached_metadata = metadata_default, record_array_shape = shape_empty, record_values = []\<rparr>"

text \<open>The keys of a shape are interned strings, which the interner shares.\<close>

definition make_record_mixed :: "array_storage \<Rightarrow> array_storage" where
  "make_record_mixed st = (case st of
     RecordStorage s \<Rightarrow>
       mixed_from_entries (header st)
         (map (\<lambda>(value, key). array_entry_new (StringKey key) True value)
           (zip (record_values s) (shape_keys (record_array_shape s))))
   | _ \<Rightarrow> st)"

definition make_mixed :: "array_storage \<Rightarrow> array_storage" where
  "make_mixed st = (case st of
     RecordStorage _ \<Rightarrow> make_record_mixed st
   | PackedStorage s \<Rightarrow>
       mixed_from_entries (header st)
         (map (\<lambda>(index, value). array_entry_new (IntKey (int index)) False value)
           (enumerate 0 (packed_values s)))
   | MixedStorage _ \<Rightarrow> st)"

definition MIXED_COMPACTION_MIN_TOMBSTONES :: nat where
  "MIXED_COMPACTION_MIN_TOMBSTONES = 32"

text \<open>The loop over the old entries: the new entries, the new index and the moved pointer.\<close>

fun compact_loop :: "nat option \<Rightarrow> nat \<Rightarrow> array_entry option list \<Rightarrow>
    array_entry option list \<Rightarrow> (array_key \<Rightarrow> nat option) \<Rightarrow> nat option \<Rightarrow>
    array_entry option list \<times> (array_key \<Rightarrow> nat option) \<times> nat option" where
  "compact_loop old_pointer old_index [] entries index pointer = (entries, index, pointer)"
| "compact_loop old_pointer old_index (None # es) entries index pointer =
     compact_loop old_pointer (old_index + 1) es entries index pointer"
| "compact_loop old_pointer old_index (Some entry # es) entries index pointer =
     compact_loop old_pointer (old_index + 1) es (entries @ [Some entry])
       (index(ae_key entry \<mapsto> length entries))
       (if old_pointer = Some old_index then Some (length entries) else pointer)"

definition compact_mixed_if_needed :: "array_storage \<Rightarrow> array_storage" where
  "compact_mixed_if_needed st = (case st of
     MixedStorage s \<Rightarrow>
       let tombstones = length (mixed_entries s) - live_len s
       in if tombstones < MIXED_COMPACTION_MIN_TOMBSTONES \<or> tombstones * 2 < length (mixed_entries s) then st
          else
            let (entries, index, pointer) =
                  compact_loop (internal_pointer s) 0 (mixed_entries s) [] (\<lambda>_. None) None
            in MixedStorage (s\<lparr>mixed_entries := entries, mixed_index := index, internal_pointer := pointer\<rparr>)
   | _ \<Rightarrow> st)"

section \<open>Changing elements\<close>

text \<open>A record push carries a string key and a packed push the next integer key.\<close>

definition push_entry :: "byte_env \<Rightarrow> array_entry \<Rightarrow> array_storage \<Rightarrow> array_storage" where
  "push_entry E entry st = (case st of
     RecordStorage s \<Rightarrow>
       (case ae_key entry of
          StringKey key \<Rightarrow> RecordStorage (s\<lparr>record_array_shape := shape_extended (record_array_shape s) key,
              cached_metadata := add_record_value (ae_value entry) (cached_metadata s),
              record_values := record_values s @ [ae_value entry]\<rparr>)
        | IntKey _ \<Rightarrow> st)
   | PackedStorage s \<Rightarrow> PackedStorage (s\<lparr>
       cached_metadata := add_packed_value (ae_value entry) (cached_metadata s),
       packed_values := packed_values s @ [ae_value entry]\<rparr>)
   | MixedStorage s \<Rightarrow> MixedStorage (s\<lparr>
       mixed_index := (mixed_index s)(ae_key entry \<mapsto> length (mixed_entries s)),
       cached_metadata := add_entry E entry (cached_metadata s),
       mixed_entries := mixed_entries s @ [Some entry],
       live_len := live_len s + 1\<rparr>))"

definition set_value_at :: "nat \<Rightarrow> php_value \<Rightarrow> array_storage \<Rightarrow> array_storage" where
  "set_value_at index value st = (case st of
     PackedStorage s \<Rightarrow> PackedStorage (s\<lparr>packed_values := (packed_values s)[index := value]\<rparr>)
   | RecordStorage s \<Rightarrow> RecordStorage (s\<lparr>record_values := (record_values s)[index := value]\<rparr>)
   | MixedStorage s \<Rightarrow> MixedStorage (s\<lparr>mixed_entries :=
       (mixed_entries s)[index := map_option (\<lambda>e. e\<lparr>ae_value := value\<rparr>) (mixed_entries s ! index)]\<rparr>))"

text \<open>\<open>None\<close> stands for the panic of an index that is not live.\<close>

definition replace_value :: "nat \<Rightarrow> php_value \<Rightarrow> array_storage \<Rightarrow> (php_value \<times> array_storage) option" where
  "replace_value index value st =
     (case get_value st index of
        None \<Rightarrow> None
      | Some old \<Rightarrow>
          Some (old, update_metadata
            (replace_value_flags (is_reference old) (is_reference value) (is_int old) (is_int value))
            (set_value_at index value st)))"

definition remove_index :: "byte_env \<Rightarrow> nat \<Rightarrow> array_storage \<Rightarrow> ((array_key \<times> php_value) \<times> array_storage) option" where
  "remove_index E index st = (case st of
     RecordStorage _ \<Rightarrow> None
   | PackedStorage s \<Rightarrow>
       (case get_at (packed_values s) index of
          None \<Rightarrow> None
        | Some value \<Rightarrow>
            Some ((IntKey (int index), value),
              PackedStorage (s\<lparr>packed_values := take index (packed_values s) @ drop (index + 1) (packed_values s),
                cached_metadata := remove_packed_value value (cached_metadata s)\<rparr>)))
   | MixedStorage s \<Rightarrow>
       (case get_at (mixed_entries s) index of
          Some (Some entry) \<Rightarrow>
            Some ((ae_key entry, ae_value entry),
              MixedStorage (s\<lparr>mixed_entries := (mixed_entries s)[index := None],
                cached_metadata := remove_entry E entry (cached_metadata s),
                mixed_index := (mixed_index s)(ae_key entry := None),
                live_len := live_len s - 1\<rparr>))
        | _ \<Rightarrow> None))"

definition bump_append_key :: "array_key \<Rightarrow> array_storage \<Rightarrow> array_storage" where
  "bump_append_key key st = (case key of
     StringKey _ \<Rightarrow> st
   | IntKey value \<Rightarrow>
       let next = clamp_i64 (value + 1)
       in (case st_next_append_key st of
             None \<Rightarrow> set_next_append_key (Some next) st
           | Some current \<Rightarrow> if current < next then set_next_append_key (Some next) st else st))"

definition bump_mutation_epoch :: "array_storage \<Rightarrow> array_storage" where
  "bump_mutation_epoch st = set_mutation_epoch (st_epoch st + 1) st"

definition adjust_pointer_after_remove :: "nat \<Rightarrow> array_storage \<Rightarrow> array_storage" where
  "adjust_pointer_after_remove removed st =
     (case st_pointer st of
        None \<Rightarrow> st
      | Some pointer \<Rightarrow>
          set_internal_pointer
            (case st of
               MixedStorage _ \<Rightarrow>
                 if storage_is_empty st then None
                 else if pointer = removed then next_index st removed else Some pointer
             | _ \<Rightarrow>
                 if storage_is_empty st then None
                 else if removed < pointer then Some (pointer - 1)
                 else if storage_len st \<le> pointer then None else Some pointer)
            st)"

section \<open>The operations of \<open>PhpArray\<close>\<close>

definition start_pointer :: "array_storage \<Rightarrow> array_storage" where
  "start_pointer st = (if st_pointer st = None then set_internal_pointer (first_index st) st else st)"

text \<open>The layout a new key needs.\<close>

definition prepare_insert :: "byte_env \<Rightarrow> array_key \<Rightarrow> array_storage \<Rightarrow> array_storage" where
  "prepare_insert E key st =
     (if is_packed st \<and> key = IntKey (int (storage_len st)) then st
      else if is_record st then
        (case key of
           IntKey _ \<Rightarrow> make_record_mixed st
         | StringKey name \<Rightarrow> if key_ambiguous E name then make_record_mixed st else st)
      else if is_packed st \<and> storage_len st = 0 \<and>
              (case key of StringKey name \<Rightarrow> \<not> key_ambiguous E name | IntKey _ \<Rightarrow> False)
      then promote_empty_to_record st
      else make_mixed st)"

definition array_insert ::
    "byte_env \<Rightarrow> array_key \<Rightarrow> bool \<Rightarrow> php_value \<Rightarrow> array_storage \<Rightarrow> (php_value option \<times> array_storage) option" where
  "array_insert E key shared value st0 =
     (let st = bump_append_key key st0
      in case find_index st key of
           Some index \<Rightarrow>
             map_option (\<lambda>(old, st'). (Some old, st')) (replace_value index value (bump_mutation_epoch st))
         | None \<Rightarrow>
             Some (None, bump_mutation_epoch (start_pointer
               (push_entry E (array_entry_new key shared value) (prepare_insert E key st)))))"

definition can_append :: "array_storage \<Rightarrow> bool" where
  "can_append st =
     (unwrap_or (st_next_append_key st) 0 \<noteq> i64_max \<or> find_index st (IntKey i64_max) = None)"

datatype append_error = PhpArrayAppendError

definition try_append ::
    "byte_env \<Rightarrow> php_value \<Rightarrow> array_storage \<Rightarrow> append_error + (array_key \<times> array_storage)" where
  "try_append E value st0 =
     (if \<not> can_append st0 then Inl PhpArrayAppendError
      else
        let st1 = (if is_record st0 then make_record_mixed st0 else st0);
            key = IntKey (unwrap_or (st_next_append_key st1) 0);
            remains_packed = (is_packed st1 \<and> key = IntKey (int (storage_len st1)));
            st2 = bump_append_key key st1;
            st3 = (if remains_packed then st2 else make_mixed st2)
        in Inr (key, bump_mutation_epoch (start_pointer (push_entry E (array_entry_new key False value) st3))))"

definition array_append :: "byte_env \<Rightarrow> php_value \<Rightarrow> array_storage \<Rightarrow> array_key \<times> array_storage" where
  "array_append E value st = (case try_append E value st of Inl _ \<Rightarrow> (IntKey i64_max, st) | Inr r \<Rightarrow> r)"

text \<open>Array unpacking: integer keys are appended, string keys inserted.\<close>

definition spread_step :: "byte_env \<Rightarrow> array_storage option \<Rightarrow> array_key \<times> php_value \<Rightarrow> array_storage option" where
  "spread_step E st pair = (case (st, pair) of
     (None, _) \<Rightarrow> None
   | (Some s, (IntKey _, value)) \<Rightarrow> Some (snd (array_append E value s))
   | (Some s, (StringKey key, value)) \<Rightarrow> map_option snd (array_insert E (StringKey key) True value s))"

definition spread_extend :: "byte_env \<Rightarrow> array_storage \<Rightarrow> array_storage \<Rightarrow> array_storage option" where
  "spread_extend E source st = foldl (spread_step E) (Some st) (iter_pairs source)"

text \<open>\<open>get_mut\<close>, a change \<open>f\<close> of the borrowed value, and the drop of the guard. The result is \<open>None\<close>
  when the key is absent.\<close>

definition array_modify ::
    "array_key \<Rightarrow> (php_value \<Rightarrow> php_value) \<Rightarrow> array_storage \<Rightarrow> (php_value \<times> array_storage) option" where
  "array_modify key f st =
     (case find_index st key of
        None \<Rightarrow> None
      | Some index \<Rightarrow>
          (case get_value st index of
             None \<Rightarrow> None
           | Some old \<Rightarrow> replace_value index (f old) (bump_mutation_epoch st)))"

definition array_remove :: "byte_env \<Rightarrow> array_key \<Rightarrow> array_storage \<Rightarrow> (php_value \<times> array_storage) option" where
  "array_remove E key st =
     (case find_index st key of
        None \<Rightarrow> None
      | Some index \<Rightarrow>
          let st1 = (if is_record st then make_record_mixed st
                     else if is_packed st \<and> index + 1 \<noteq> storage_len st then make_mixed st
                     else st)
          in map_option (\<lambda>((k, value), st2). (value, bump_mutation_epoch
                (compact_mixed_if_needed (adjust_pointer_after_remove index st2))))
               (remove_index E index st1))"

definition array_pop :: "byte_env \<Rightarrow> array_storage \<Rightarrow> (php_value \<times> array_storage) option" where
  "array_pop E st =
     (case last_index st of
        None \<Rightarrow> None
      | Some index \<Rightarrow>
          (case key_at st index of
             None \<Rightarrow> None
           | Some last_key \<Rightarrow>
               map_option (\<lambda>(value, st').
                   (value, case last_key of
                      IntKey key \<Rightarrow>
                        if st_next_append_key st = Some (clamp_i64 (key + 1))
                        then set_next_append_key (Some key) st' else st'
                    | StringKey _ \<Rightarrow> st'))
                 (array_remove E last_key st)))"

subsection \<open>The internal pointer\<close>

definition pointer_value :: "array_storage \<Rightarrow> php_value option" where
  "pointer_value st = (case st_pointer st of None \<Rightarrow> None | Some index \<Rightarrow> get_value st index)"

definition pointer_key :: "array_storage \<Rightarrow> array_key option" where
  "pointer_key st = (case st_pointer st of None \<Rightarrow> None | Some index \<Rightarrow> key_at st index)"

definition reset_pointer :: "array_storage \<Rightarrow> php_value option \<times> array_storage" where
  "reset_pointer st =
     (if storage_is_empty st then (None, set_internal_pointer None st)
      else case first_index st of
             None \<Rightarrow> (None, st)
           | Some first \<Rightarrow> (get_value st first, set_internal_pointer (Some first) st))"

definition end_pointer :: "array_storage \<Rightarrow> php_value option \<times> array_storage" where
  "end_pointer st =
     (case last_index st of
        None \<Rightarrow> (None, st)
      | Some final \<Rightarrow> (get_value st final, set_internal_pointer (Some final) st))"

definition next_pointer :: "array_storage \<Rightarrow> php_value option \<times> array_storage" where
  "next_pointer st =
     (case st_pointer st of
        None \<Rightarrow> (None, st)
      | Some current \<Rightarrow>
          (case next_index st current of
             None \<Rightarrow> (None, set_internal_pointer None st)
           | Some next \<Rightarrow> (get_value st next, set_internal_pointer (Some next) st)))"

definition prev_pointer :: "array_storage \<Rightarrow> php_value option \<times> array_storage" where
  "prev_pointer st =
     (case st_pointer st of
        None \<Rightarrow> (None, st)
      | Some current \<Rightarrow>
          (case previous_index st current of
             None \<Rightarrow> (None, set_internal_pointer None st)
           | Some previous \<Rightarrow> (get_value st previous, set_internal_pointer (Some previous) st)))"

text \<open>The loop of \<open>native_pointer_position\<close>; the index moves up to the length of the storage.\<close>

definition slots :: "array_storage \<Rightarrow> nat" where
  "slots st = (case st of
     PackedStorage s \<Rightarrow> length (packed_values s)
   | RecordStorage s \<Rightarrow> length (record_values s)
   | MixedStorage s \<Rightarrow> length (mixed_entries s))"

lemma next_index_less: "next_index st i = Some j \<Longrightarrow> i < j \<and> j < slots st"
  by (auto simp: next_index_def slots_def position_Some_iff split: array_storage.splits if_splits)

function pointer_position_from :: "array_storage \<Rightarrow> nat \<Rightarrow> nat \<Rightarrow> nat \<Rightarrow> nat option" where
  "pointer_position_from st target index pos =
     (if index = target then Some pos
      else case next_index st index of
             None \<Rightarrow> None
           | Some next \<Rightarrow> pointer_position_from st target next (pos + 1))"
  by pat_completeness auto
termination
  by (relation "measure (\<lambda>(st, target, index, pos). slots st - index)") (auto dest!: next_index_less)

declare pointer_position_from.simps [simp del]

definition native_pointer_position :: "array_storage \<Rightarrow> nat option" where
  "native_pointer_position st =
     (case st_pointer st of
        None \<Rightarrow> None
      | Some target \<Rightarrow>
          (case first_index st of None \<Rightarrow> None | Some index \<Rightarrow> pointer_position_from st target index 0))"

primrec advance_index :: "array_storage \<Rightarrow> nat \<Rightarrow> nat option \<Rightarrow> nat option" where
  "advance_index st 0 index = index"
| "advance_index st (Suc n) index =
     (case index of None \<Rightarrow> None | Some i \<Rightarrow> advance_index st n (next_index st i))"

definition set_native_pointer_position :: "nat option \<Rightarrow> array_storage \<Rightarrow> array_storage" where
  "set_native_pointer_position pos st =
     set_internal_pointer
       (case pos of None \<Rightarrow> None | Some p \<Rightarrow> advance_index st p (first_index st)) st"

subsection \<open>Iteration and summaries\<close>

definition into_pairs :: "array_storage \<Rightarrow> (array_key \<times> php_value) list" where
  "into_pairs st = iter_pairs st"

definition pair_at :: "array_storage \<Rightarrow> nat \<Rightarrow> (array_key \<times> php_value) option" where
  "pair_at st index = (case st of
     MixedStorage s \<Rightarrow> map_option (\<lambda>e. (ae_key e, ae_value e)) (get_at (live_entries (mixed_entries s)) index)
   | _ \<Rightarrow>
       (case key_at st index of
          None \<Rightarrow> None
        | Some key \<Rightarrow> map_option (\<lambda>value. (key, value)) (get_value st index)))"

function mixed_cursor :: "array_entry option list \<Rightarrow> nat \<Rightarrow> (array_key \<times> php_value) option \<times> nat" where
  "mixed_cursor entries cursor =
     (if cursor < length entries then
        (case entries ! cursor of
           None \<Rightarrow> mixed_cursor entries (cursor + 1)
         | Some entry \<Rightarrow> (Some (ae_key entry, ae_value entry), cursor + 1))
      else (None, cursor))"
  by pat_completeness auto
termination
  by (relation "measure (\<lambda>(entries, cursor). length entries - cursor)") auto

declare mixed_cursor.simps [simp del]

definition next_pair_at_cursor :: "array_storage \<Rightarrow> nat \<Rightarrow> (array_key \<times> php_value) option \<times> nat" where
  "next_pair_at_cursor st cursor = (case st of
     MixedStorage s \<Rightarrow> mixed_cursor (mixed_entries s) cursor
   | _ \<Rightarrow> (case pair_at st cursor of None \<Rightarrow> (None, cursor) | Some pair \<Rightarrow> (Some pair, cursor + 1)))"

definition packed_elements :: "array_storage \<Rightarrow> php_value list option" where
  "packed_elements st = (case st of
     PackedStorage s \<Rightarrow> Some (packed_values s)
   | RecordStorage _ \<Rightarrow> None
   | MixedStorage s \<Rightarrow>
       let entries = live_entries (mixed_entries s)
       in if list_all (\<lambda>(index, entry). ae_key entry = IntKey (int index)) (enumerate 0 entries)
          then Some (map ae_value entries) else None)"

definition packed_element :: "array_storage \<Rightarrow> nat \<Rightarrow> php_value option" where
  "packed_element st index = (case st of
     PackedStorage s \<Rightarrow> get_at (packed_values s) index
   | RecordStorage _ \<Rightarrow> None
   | MixedStorage s \<Rightarrow>
       let entries = live_entries (mixed_entries s)
       in if list_all (\<lambda>(index, entry). ae_key entry = IntKey (int index)) (enumerate 0 entries)
          then map_option ae_value (get_at entries index) else None)"

definition packed_element_fast :: "array_storage \<Rightarrow> nat \<Rightarrow> php_value option" where
  "packed_element_fast st index = (if is_packed st then get_value st index else None)"

definition record_slot_for_symbol :: "array_storage \<Rightarrow> bytes \<Rightarrow> nat option" where
  "record_slot_for_symbol st key = (case st of
     RecordStorage s \<Rightarrow> slot_by_key (record_array_shape s) key | _ \<Rightarrow> None)"

definition record_get_symbol :: "array_storage \<Rightarrow> bytes \<Rightarrow> php_value option" where
  "record_get_symbol st key = (case st of
     RecordStorage s \<Rightarrow>
       (case slot_by_key (record_array_shape s) key of
          None \<Rightarrow> None | Some slot \<Rightarrow> get_at (record_values s) slot)
   | _ \<Rightarrow> None)"

text \<open>The flag tells whether the key was present; \<open>None\<close> is a panic.\<close>

definition record_set_symbol :: "bytes \<Rightarrow> php_value \<Rightarrow> array_storage \<Rightarrow> (bool \<times> array_storage) option" where
  "record_set_symbol key value st =
     (case record_slot_for_symbol st key of
        None \<Rightarrow> Some (False, st)
      | Some slot \<Rightarrow> map_option (\<lambda>(old, st'). (True, bump_mutation_epoch st')) (replace_value slot value st))"

end
