(* ===== verification/Owners.thy ===== *)
theory Owners
  imports Prelude "HOL-Library.Multiset"
begin

text \<open>
  Lists with holes: slots of a hash table after removals, and variables that own a handle or none.
  The handles that a list of variables owns form a multiset, which an assignment changes by one.
\<close>

section \<open>Lists with holes\<close>

fun live :: "'a option list \<Rightarrow> 'a list" where
  "live [] = []"
| "live (None # xs) = live xs"
| "live (Some x # xs) = x # live xs"

lemma live_append [simp]: "live (xs @ ys) = live xs @ live ys"
  by (induction xs rule: live.induct) auto

lemma live_map_Some [simp]: "live (map Some zs) = zs"
  by (induction zs) auto

lemma set_live: "set (live xs) = {x. Some x \<in> set xs}"
  by (induction xs rule: live.induct) auto

lemma live_map: "live (map (map_option f) xs) = map f (live xs)"
  by (induction xs rule: live.induct) auto

lemma length_live_le: "length (live xs) \<le> length xs"
  by (induction xs rule: live.induct) auto

lemma live_split: "i < length xs \<Longrightarrow> xs ! i = Some x \<Longrightarrow> live xs = live (take i xs) @ x # live (drop (Suc i) xs)"
  by (metis id_take_nth_drop live.simps(3) live_append)

lemma live_update_Some: "i < length xs \<Longrightarrow> live (xs[i := Some x]) = live (take i xs) @ x # live (drop (Suc i) xs)"
  by (simp add: upd_conv_take_nth_drop)

lemma live_update_None: "i < length xs \<Longrightarrow> live (xs[i := None]) = live (take i xs) @ live (drop (Suc i) xs)"
  by (simp add: upd_conv_take_nth_drop)

section \<open>The multiset of owned handles\<close>

definition opt_mset :: "'a option \<Rightarrow> 'a multiset" where
  "opt_mset v = (case v of None \<Rightarrow> {#} | Some x \<Rightarrow> {#x#})"

lemma mset_live_update:
  assumes "x < length xs"
  shows "mset (live (xs[x := v])) + opt_mset (xs ! x) = mset (live xs) + opt_mset v"
proof -
  have "mset (live xs) = mset (live (take x xs)) + opt_mset (xs ! x) + mset (live (drop (Suc x) xs))"
    using live_split [OF assms] by (subst id_take_nth_drop [OF assms]) (cases "xs ! x"; simp add: opt_mset_def)
  moreover have "mset (live (xs[x := v])) = mset (live (take x xs)) + opt_mset v + mset (live (drop (Suc x) xs))"
    by (cases v) (simp_all add: upd_conv_take_nth_drop [OF assms] opt_mset_def)
  ultimately show ?thesis by simp
qed

lemma mset_live_nth: "x < length xs \<Longrightarrow> xs ! x = Some p \<Longrightarrow> p \<in># mset (live xs)"
  by (metis nth_mem set_live mem_Collect_eq set_mset_mset)

lemma size_live: "size (mset (live xs)) \<le> length xs"
  by (induction xs rule: live.induct) simp_all

lemma count_live_le: "count (mset (live xs)) p \<le> length xs"
  using count_le_size [of "mset (live xs)" p] size_live [of xs] by linarith

end
