(* ===== verification/Php_Array_Proofs.thy ===== *)
theory Php_Array_Proofs
  imports Php_Array Owners
begin

text \<open>
  The invariant of the array storage and the effect of its operations on the ordered list of
  pairs. The three layouts are read through one view, \<open>slot_list\<close>: the pairs of the slots, with
  tombstones as \<open>None\<close>.
\<close>

section \<open>Lists with tombstones\<close>

lemma live_entries_live: "live_entries es = live es"
  unfolding live_entries_def by (induction es rule: live.induct) (auto simp: map_filter_simps)

text \<open>Positions of a key in a list of slots.\<close>

definition has_slot :: "('k \<times> 'v) option list \<Rightarrow> 'k \<Rightarrow> nat \<Rightarrow> bool" where
  "has_slot xs k i \<longleftrightarrow> (\<exists>v. get_at xs i = Some (Some (k, v)))"

lemma update_append_other: "k \<notin> fst ` set xs \<Longrightarrow> AList.update k v (xs @ ys) = xs @ AList.update k v ys"
  by (induction xs) auto

lemma delete_append: "AList.delete k (xs @ ys) = AList.delete k xs @ AList.delete k ys"
  by (simp add: AList.delete_eq)

lemma delete_other: "k \<notin> fst ` set xs \<Longrightarrow> AList.delete k xs = xs"
  by (induction xs) (auto simp: AList.delete_eq)

lemma live_replace:
  assumes "has_slot xs k i" "distinct (map fst (live xs))"
  shows "live (xs[i := Some (k, v)]) = AList.update k v (live xs)"
    "live (xs[i := None]) = AList.delete k (live xs)"
proof -
  from assms(1) obtain w where i: "i < length xs" "xs ! i = Some (k, w)"
    by (auto simp: has_slot_def get_at_Some_iff)
  note split = live_split [OF i]
  have no: "k \<notin> fst ` set (live (take i xs))" "k \<notin> fst ` set (live (drop (Suc i) xs))"
    using assms(2) unfolding split by auto
  show "live (xs[i := Some (k, v)]) = AList.update k v (live xs)"
    unfolding live_update_Some [OF i(1)] split by (simp add: update_append_other [OF no(1)])
  show "live (xs[i := None]) = AList.delete k (live xs)"
    unfolding live_update_None [OF i(1)] split by (simp add: delete_append delete_other no)
qed

lemma update_new: "k \<notin> fst ` set xs \<Longrightarrow> AList.update k v xs = xs @ [(k, v)]"
  by (induction xs) auto

lemma has_slot_lookup:
  assumes "has_slot xs k i" "distinct (map fst (live xs))"
  shows "get_at xs i = Some (Some (k, v)) \<longleftrightarrow> map_of (live xs) k = Some v"
proof -
  from assms(1) obtain w where i: "i < length xs" "xs ! i = Some (k, w)"
    by (auto simp: has_slot_def get_at_Some_iff)
  then have "Some (k, w) \<in> set xs" by (metis nth_mem)
  then have "map_of (live xs) k = Some w" using assms(2) by (simp add: set_live)
  then show ?thesis using i by (auto simp: get_at_def)
qed

lemma no_slot_lookup:
  assumes "\<And>i. \<not> has_slot xs k i"
  shows "map_of (live xs) k = None" "k \<notin> fst ` set (live xs)"
proof -
  show *: "k \<notin> fst ` set (live xs)"
  proof
    assume "k \<in> fst ` set (live xs)"
    then obtain v where "Some (k, v) \<in> set xs" by (auto simp: set_live)
    then obtain i where "i < length xs" "xs ! i = Some (k, v)" by (auto simp: in_set_conv_nth)
    then show False using assms [of i] by (auto simp: has_slot_def get_at_def)
  qed
  then show "map_of (live xs) k = None" by (simp add: map_of_eq_None_iff)
qed

lemma has_slot_unique:
  assumes "distinct (map fst (live xs))" "has_slot xs k i" "has_slot xs k j"
  shows "i = j"
proof (rule ccontr)
  have False if lt: "a < b" and slots: "has_slot xs k a" "has_slot xs k b" for a b
  proof -
    from slots obtain v w where a: "a < length xs" "xs ! a = Some (k, v)" and b: "b < length xs" "xs ! b = Some (k, w)"
      by (auto simp: has_slot_def get_at_Some_iff)
    have "drop (Suc a) xs ! (b - Suc a) = Some (k, w)" "b - Suc a < length (drop (Suc a) xs)"
      using b lt by auto
    then have "Some (k, w) \<in> set (drop (Suc a) xs)" by (metis nth_mem)
    then show False using assms(1) unfolding live_split [OF a] by (force simp: set_live)
  qed
  moreover assume "i \<noteq> j"
  ultimately show False using assms(2,3) by (metis linorder_neqE_nat)
qed

section \<open>The view of the storage\<close>

definition entry_pair :: "array_entry \<Rightarrow> array_key \<times> php_value" where
  "entry_pair e = (ae_key e, ae_value e)"

definition slot_list :: "array_storage \<Rightarrow> (array_key \<times> php_value) option list" where
  "slot_list st = (case st of
     MixedStorage s \<Rightarrow> map (map_option entry_pair) (mixed_entries s)
   | _ \<Rightarrow> map Some (iter_pairs st))"

lemma iter_pairs_slots: "iter_pairs st = live (slot_list st)"
  by (cases st) (simp_all add: slot_list_def iter_pairs_def live_map live_entries_live entry_pair_def [abs_def]
    del: list.map_comp map_map)

text \<open>The shape of a record: its slots are the positions of its keys.\<close>

definition shape_ok :: "record_shape \<Rightarrow> bool" where
  "shape_ok shape \<longleftrightarrow> distinct (shape_keys shape) \<and>
     (\<forall>k i. slot_by_key shape k = Some i \<longleftrightarrow> get_at (shape_keys shape) i = Some k)"

definition layout_ok :: "byte_env \<Rightarrow> array_storage \<Rightarrow> bool" where
  "layout_ok E st = (case st of
     PackedStorage s \<Rightarrow> cached_metadata s = metadata_of_packed (packed_values s)
   | RecordStorage s \<Rightarrow>
       shape_ok (record_array_shape s) \<and> length (shape_keys (record_array_shape s)) = length (record_values s) \<and>
       (\<forall>k\<in>set (shape_keys (record_array_shape s)). \<not> key_ambiguous E k) \<and>
       cached_metadata s = metadata_of_record (record_values s)
   | MixedStorage s \<Rightarrow>
       distinct (map ae_key (live (mixed_entries s))) \<and>
       (\<forall>k i. mixed_index s k = Some i \<longleftrightarrow> (\<exists>e. get_at (mixed_entries s) i = Some (Some e) \<and> ae_key e = k)) \<and>
       live_len s = length (live (mixed_entries s)) \<and>
       cached_metadata s = metadata_of_entries E (live (mixed_entries s)))"

definition pointer_ok :: "array_storage \<Rightarrow> bool" where
  "pointer_ok st \<longleftrightarrow> (\<forall>i. st_pointer st = Some i \<longrightarrow> (\<exists>p. get_at (slot_list st) i = Some (Some p)))"

text \<open>No integer key reaches the next append key, except the largest one.\<close>

definition append_ok :: "array_storage \<Rightarrow> bool" where
  "append_ok st \<longleftrightarrow>
     (\<forall>n. st_next_append_key st = Some n \<longrightarrow> in_i64 n) \<and>
     (\<forall>k. IntKey k \<in> fst ` set (iter_pairs st) \<longrightarrow>
        in_i64 k \<and> (\<exists>n. st_next_append_key st = Some n \<and> (k < n \<or> k = i64_max)))"

definition storage_ok :: "byte_env \<Rightarrow> array_storage \<Rightarrow> bool" where
  "storage_ok E st \<longleftrightarrow> layout_ok E st \<and> pointer_ok st \<and> append_ok st"

subsection \<open>Reading through the view\<close>

lemma packed_pairs: "iter_pairs (PackedStorage s) = map (\<lambda>(i, v). (IntKey (int i), v)) (enumerate 0 (packed_values s))"
  by (simp add: iter_pairs_def)

lemma get_at_map: "get_at (map f xs) i = map_option f (get_at xs i)"
  by (simp add: get_at_def)

lemma get_at_enumerate: "get_at (enumerate 0 xs) i = map_option (\<lambda>x. (i, x)) (get_at xs i)"
  by (simp add: get_at_def nth_enumerate_eq)

lemma get_at_zip: "length xs = length ys \<Longrightarrow>
    get_at (zip xs ys) i = (case get_at xs i of None \<Rightarrow> None | Some x \<Rightarrow> map_option (\<lambda>y. (x, y)) (get_at ys i))"
  by (simp add: get_at_def)

lemma slot_packed: "get_at (slot_list (PackedStorage s)) i = map_option (\<lambda>v. Some (IntKey (int i), v)) (get_at (packed_values s) i)"
  by (simp add: slot_list_def packed_pairs get_at_map get_at_enumerate option.map_comp comp_def)

lemma slot_record: "layout_ok E (RecordStorage s) \<Longrightarrow> get_at (slot_list (RecordStorage s)) i
    = (case get_at (shape_keys (record_array_shape s)) i of None \<Rightarrow> None
       | Some k \<Rightarrow> map_option (\<lambda>v. Some (StringKey k, v)) (get_at (record_values s) i))"
  by (simp add: slot_list_def iter_pairs_def layout_ok_def get_at_map get_at_zip option.map_comp comp_def
      split: option.split)

lemma slot_mixed: "get_at (slot_list (MixedStorage s)) i = map_option (map_option entry_pair) (get_at (mixed_entries s) i)"
  by (simp add: slot_list_def get_at_map)

lemma get_value_slot:
  assumes "layout_ok E st"
  shows "get_value st i = (case get_at (slot_list st) i of Some (Some p) \<Rightarrow> Some (snd p) | _ \<Rightarrow> None)"
proof (cases st)
  case (PackedStorage s)
  then show ?thesis by (simp add: get_value_def slot_packed split: option.split)
next
  case (RecordStorage s)
  have "length (shape_keys (record_array_shape s)) = length (record_values s)"
    using assms RecordStorage by (simp add: layout_ok_def)
  then show ?thesis using assms unfolding RecordStorage
    by (auto simp: get_value_def slot_record dest: get_at_Some_less split: option.split)
next
  case (MixedStorage s)
  then show ?thesis by (auto simp: get_value_def slot_mixed entry_pair_def dest: get_at_Some_less split: option.split)
qed

lemma key_at_slot:
  assumes "layout_ok E st"
  shows "key_at st i = (case get_at (slot_list st) i of Some (Some p) \<Rightarrow> Some (fst p) | _ \<Rightarrow> None)"
proof (cases st)
  case (PackedStorage s)
  then show ?thesis by (auto simp: key_at_def slot_packed dest: get_at_Some_less split: option.split)
next
  case (RecordStorage s)
  have "length (shape_keys (record_array_shape s)) = length (record_values s)"
    using assms RecordStorage by (simp add: layout_ok_def)
  then show ?thesis using assms unfolding RecordStorage
    by (auto simp: key_at_def slot_record dest: get_at_Some_less split: option.split)
next
  case (MixedStorage s)
  then show ?thesis by (auto simp: key_at_def slot_mixed entry_pair_def dest: get_at_Some_less split: option.split)
qed

lemma find_index_slot:
  assumes "layout_ok E st"
  shows "find_index st k = Some i \<longleftrightarrow> has_slot (slot_list st) k i"
proof (cases st)
  case (PackedStorage s)
  then show ?thesis
    by (auto simp: find_index_def packed_key_index_def has_slot_def slot_packed get_at_Some_iff split: array_key.splits)
next
  case (RecordStorage s)
  have ok: "shape_ok (record_array_shape s)" "length (shape_keys (record_array_shape s)) = length (record_values s)"
    using assms RecordStorage by (simp_all add: layout_ok_def)
  show ?thesis
    using assms ok unfolding RecordStorage has_slot_def
    by (auto simp: find_index_def slot_record shape_ok_def get_at_Some_iff split: array_key.splits option.splits)
next
  case (MixedStorage s)
  then show ?thesis
    using assms by (auto simp: find_index_def layout_ok_def has_slot_def slot_mixed entry_pair_def)
qed

lemma find_index_None_slot:
  "layout_ok E st \<Longrightarrow> find_index st k = None \<longleftrightarrow> (\<forall>i. \<not> has_slot (slot_list st) k i)"
  using find_index_slot [of E st k] by (metis not_None_eq)

lemma distinct_pairs:
  assumes "layout_ok E st"
  shows "distinct (map fst (iter_pairs st))"
proof (cases st)
  case (PackedStorage s)
  have "map fst (iter_pairs st) = map (\<lambda>i. IntKey (int i)) [0..<length (packed_values s)]"
    by (simp add: PackedStorage packed_pairs comp_def split_def flip: map_map [of IntKey] list.map_comp)
       (metis (no_types, lifting) add_0 list.map_comp map_fst_enumerate map_eq_conv comp_apply)
  then show ?thesis by (simp add: distinct_map inj_on_def)
next
  case (RecordStorage s)
  then show ?thesis
    using assms by (simp add: iter_pairs_def layout_ok_def shape_ok_def distinct_map inj_on_def)
next
  case (MixedStorage s)
  then show ?thesis
    using assms by (simp add: iter_pairs_def layout_ok_def live_entries_live comp_def)
qed

section \<open>Metadata as counts\<close>

definition cnt :: "('a \<Rightarrow> bool) \<Rightarrow> 'a list \<Rightarrow> nat" where
  "cnt P xs = length (filter P xs)"

lemma cnt_simps [simp]:
  "cnt P [] = 0" "cnt P (x # xs) = bool_nat (P x) + cnt P xs" "cnt P (xs @ ys) = cnt P xs + cnt P ys"
  by (simp_all add: cnt_def bool_nat_def)

lemma cnt_map: "cnt P (map f xs) = cnt (P \<circ> f) xs"
  by (induction xs) simp_all

lemma cnt_all: "(\<And>x. x \<in> set xs \<Longrightarrow> P x) \<Longrightarrow> cnt P xs = length xs"
  by (simp add: cnt_def)

lemma cnt_none: "(\<And>x. x \<in> set xs \<Longrightarrow> \<not> P x) \<Longrightarrow> cnt P xs = 0"
  by (simp add: cnt_def)

definition value_counts :: "php_value list \<Rightarrow> nat \<Rightarrow> nat \<Rightarrow> nat \<Rightarrow> nat \<Rightarrow> array_cached_metadata" where
  "value_counts vs ints strings ambiguous shared =
     \<lparr>md_len = length vs, md_reference_values = cnt is_reference vs, md_int_values = cnt is_int vs,
      md_int_keys = ints, md_string_keys = strings, md_ambiguous_keys = ambiguous,
      md_shared_string_keys = shared\<rparr>"

definition entry_is_int :: "array_entry \<Rightarrow> bool" where
  "entry_is_int e = (case ae_key e of IntKey _ \<Rightarrow> True | StringKey _ \<Rightarrow> False)"

definition entry_ambiguous :: "byte_env \<Rightarrow> array_entry \<Rightarrow> bool" where
  "entry_ambiguous E e = (case ae_key e of IntKey _ \<Rightarrow> False | StringKey k \<Rightarrow> key_ambiguous E k)"

definition entry_shared :: "array_entry \<Rightarrow> bool" where
  "entry_shared e = (case ae_key e of IntKey _ \<Rightarrow> False | StringKey k \<Rightarrow> string_key_shared_for_shape e)"

lemma bool_nat_simps [simp]: "bool_nat True = 1" "bool_nat False = 0"
  by (simp_all add: bool_nat_def)

lemma metadata_of_packed_counts: "metadata_of_packed vs = value_counts vs (length vs) 0 0 0"
  unfolding metadata_of_packed_def
  by (induction vs rule: rev_induct)
     (simp_all add: metadata_default_def value_counts_def add_packed_value_def add_value_def)

lemma metadata_of_record_counts: "metadata_of_record vs = value_counts vs 0 (length vs) 0 (length vs)"
  unfolding metadata_of_record_def
  by (induction vs rule: rev_induct)
     (simp_all add: metadata_default_def value_counts_def add_record_value_def add_value_def)

lemma metadata_of_entries_counts:
  "metadata_of_entries E es = value_counts (map ae_value es) (cnt entry_is_int es) (cnt (\<lambda>e. \<not> entry_is_int e) es)
     (cnt (entry_ambiguous E) es) (cnt entry_shared es)"
  unfolding metadata_of_entries_def
  by (induction es rule: rev_induct)
     (simp_all add: metadata_default_def value_counts_def add_entry_def add_value_def entry_is_int_def
        entry_ambiguous_def entry_shared_def split: array_key.split)

lemmas metadata_counts = metadata_of_packed_counts metadata_of_record_counts metadata_of_entries_counts

lemma metadata_push:
  "metadata_of_packed (vs @ [v]) = add_packed_value v (metadata_of_packed vs)"
  "metadata_of_record (vs @ [v]) = add_record_value v (metadata_of_record vs)"
  "metadata_of_entries E (es @ [e]) = add_entry E e (metadata_of_entries E es)"
  by (simp_all add: metadata_of_packed_def metadata_of_record_def metadata_of_entries_def)

lemma value_counts_replace:
  "value_counts (xs @ v # ys) a b c d
   = replace_value_flags (is_reference old) (is_reference v) (is_int old) (is_int v) (value_counts (xs @ old # ys) a b c d)"
  by (simp add: value_counts_def replace_value_flags_def)

lemma value_counts_update:
  "get_at vs i = Some old \<Longrightarrow> value_counts (vs[i := v]) a b c d
   = replace_value_flags (is_reference old) (is_reference v) (is_int old) (is_int v) (value_counts vs a b c d)"
  by (metis get_at_Some_iff id_take_nth_drop upd_conv_take_nth_drop value_counts_replace)

lemma metadata_of_entries_remove:
  "metadata_of_entries E (xs @ ys) = remove_entry E e (metadata_of_entries E (xs @ e # ys))"
  by (simp add: metadata_counts value_counts_def remove_entry_def remove_value_def entry_is_int_def
      entry_ambiguous_def entry_shared_def split: array_key.split)

lemma metadata_of_packed_remove:
  "metadata_of_packed (xs @ ys) = remove_packed_value v (metadata_of_packed (xs @ v # ys))"
  by (simp add: metadata_counts value_counts_def remove_packed_value_def remove_value_def)

section \<open>The effect of the changes\<close>

lemmas header_simps = header_def array_header.truncate_def set_next_append_key_def set_internal_pointer_def
  set_mutation_epoch_def update_metadata_def

text \<open>Setting a field of the header leaves the layout alone.\<close>

lemma layout_ok_set [simp]:
  "layout_ok E (set_next_append_key a st) = layout_ok E st"
  "layout_ok E (set_internal_pointer p st) = layout_ok E st"
  "layout_ok E (set_mutation_epoch e st) = layout_ok E st"
  by (simp_all add: layout_ok_def header_simps split: array_storage.split)

lemma slot_list_set [simp]:
  "slot_list (set_next_append_key a st) = slot_list st"
  "slot_list (set_internal_pointer p st) = slot_list st"
  "slot_list (set_mutation_epoch e st) = slot_list st"
  "slot_list (update_metadata f st) = slot_list st"
  by (simp_all add: slot_list_def iter_pairs_def header_simps split: array_storage.split)

lemma iter_pairs_set [simp]:
  "iter_pairs (set_next_append_key a st) = iter_pairs st"
  "iter_pairs (set_internal_pointer p st) = iter_pairs st"
  "iter_pairs (set_mutation_epoch e st) = iter_pairs st"
  "iter_pairs (update_metadata f st) = iter_pairs st"
  by (simp_all add: iter_pairs_slots)

lemma header_set [simp]:
  "header (set_next_append_key a st) = (header st)\<lparr>next_append_key := a\<rparr>"
  "header (set_internal_pointer p st) = (header st)\<lparr>internal_pointer := p\<rparr>"
  "header (set_mutation_epoch e st) = (header st)\<lparr>mutation_epoch := e\<rparr>"
  "header (update_metadata f st) = (header st)\<lparr>cached_metadata := f (cached_metadata (header st))\<rparr>"
  by (simp_all add: header_simps split: array_storage.split)

lemma is_packed_set [simp]:
  "is_packed (set_next_append_key a st) = is_packed st"
  "is_packed (set_internal_pointer p st) = is_packed st"
  "is_packed (set_mutation_epoch e st) = is_packed st"
  "is_record (set_next_append_key a st) = is_record st"
  "is_record (set_internal_pointer p st) = is_record st"
  "is_record (set_mutation_epoch e st) = is_record st"
  by (simp_all add: is_packed_def is_record_def header_simps split: array_storage.split)

lemma storage_len_pairs: "layout_ok E st \<Longrightarrow> storage_len st = length (iter_pairs st)"
  by (cases st) (simp_all add: storage_len_def iter_pairs_def layout_ok_def live_entries_live)

definition pushable :: "byte_env \<Rightarrow> array_key \<Rightarrow> array_storage \<Rightarrow> bool" where
  "pushable E key st = (case st of
     PackedStorage s \<Rightarrow> key = IntKey (int (length (packed_values s)))
   | RecordStorage _ \<Rightarrow> (case key of IntKey _ \<Rightarrow> False | StringKey name \<Rightarrow> \<not> key_ambiguous E name)
   | MixedStorage _ \<Rightarrow> True)"

lemma get_at_append: "get_at (xs @ ys) i = (if i < length xs then get_at xs i else get_at ys (i - length xs))"
  by (auto simp: get_at_def nth_append)

lemma get_at_singleton: "get_at [x] i = (if i = 0 then Some x else None)"
  by (auto simp: get_at_def)

lemma get_at_set: "get_at xs i = Some x \<Longrightarrow> x \<in> set xs"
  by (auto simp: get_at_Some_iff)

lemma shape_ok_extended:
  assumes "shape_ok shape" "name \<notin> set (shape_keys shape)"
  shows "shape_ok (shape_extended shape name)"
proof -
  have "slot_by_key shape name = None"
    using assms get_at_set unfolding shape_ok_def by (metis not_None_eq)
  moreover have "get_at (shape_keys shape) i \<noteq> Some name" for i
    using assms(2) get_at_set by metis
  ultimately show ?thesis
    using assms by (auto simp: shape_ok_def shape_extended_def get_at_append get_at_singleton dest: get_at_Some_less)
qed

lemma push_slots:
  assumes "layout_ok E st" "pushable E k st"
  shows "slot_list (push_entry E (array_entry_new k shared v) st) = slot_list st @ [Some (k, v)]"
  using assms
  by (cases st) (auto simp: slot_list_def iter_pairs_def push_entry_def pushable_def array_entry_new_def entry_pair_def
      layout_ok_def shape_extended_def enumerate_append_eq split: array_key.splits)

lemma fst_set_zip: "length xs = length ys \<Longrightarrow> fst ` set (zip xs ys) = set xs"
  by (metis list.set_map map_fst_zip)

lemma push_layout_ok:
  assumes ok: "layout_ok E st" and "pushable E k st" and fresh: "k \<notin> fst ` set (iter_pairs st)"
  shows "layout_ok E (push_entry E (array_entry_new k shared v) st)"
proof (cases st)
  case (PackedStorage s)
  then show ?thesis
    using ok by (simp add: layout_ok_def push_entry_def array_entry_new_def metadata_push)
next
  case (RecordStorage s)
  then obtain name where k: "k = StringKey name" "\<not> key_ambiguous E name"
    using assms(2) by (auto simp: pushable_def split: array_key.splits)
  have len: "length (shape_keys (record_array_shape s)) = length (record_values s)"
    using ok RecordStorage by (simp add: layout_ok_def)
  have "fst ` set (iter_pairs st) = StringKey ` set (shape_keys (record_array_shape s))"
    by (simp add: RecordStorage iter_pairs_def fst_set_zip len)
  then have "name \<notin> set (shape_keys (record_array_shape s))" using fresh k by auto
  then show ?thesis
    using ok k len RecordStorage
    by (auto simp: layout_ok_def push_entry_def array_entry_new_def metadata_push shape_ok_extended)
       (auto simp: shape_extended_def)
next
  case (MixedStorage s)
  have live: "e \<in> set (live (mixed_entries s))" if "get_at (mixed_entries s) i = Some (Some e)" for i e
    using that by (auto simp: set_live dest: get_at_set)
  have new: "k \<notin> ae_key ` set (live (mixed_entries s))"
    using fresh by (simp add: MixedStorage iter_pairs_def live_entries_live image_image)
  have ix: "mixed_index s k' = Some i \<longleftrightarrow> (\<exists>e. get_at (mixed_entries s) i = Some (Some e) \<and> ae_key e = k')" for k' i
    using ok by (simp add: MixedStorage layout_ok_def)
  let ?e = "array_entry_new k shared v"
  have [simp]: "ae_key ?e = k" by (simp add: array_entry_new_def)
  have "((mixed_index s)(k \<mapsto> length (mixed_entries s))) k' = Some i
      \<longleftrightarrow> (\<exists>e. get_at (mixed_entries s @ [Some ?e]) i = Some (Some e) \<and> ae_key e = k')" for k' i
  proof (cases "i < length (mixed_entries s)")
    case True
    then have "get_at (mixed_entries s @ [Some ?e]) i = get_at (mixed_entries s) i" by (simp add: get_at_append)
    moreover have "ae_key e \<noteq> k" if "get_at (mixed_entries s) i = Some (Some e)" for e using new live [OF that] by auto
    ultimately show ?thesis using True ix [of k' i] by auto
  next
    case False
    then show ?thesis using ix [of k' i] by (auto simp: get_at_append get_at_singleton dest: get_at_Some_less)
  qed
  then show ?thesis
    using ok new unfolding MixedStorage by (simp add: layout_ok_def push_entry_def metadata_push)
qed

lemma header_push [simp]:
  "next_append_key (header (push_entry E entry st)) = next_append_key (header st)"
  "internal_pointer (header (push_entry E entry st)) = internal_pointer (header st)"
  "mutation_epoch (header (push_entry E entry st)) = mutation_epoch (header st)"
  by (simp_all add: push_entry_def header_simps array_header.defs split: array_storage.split array_key.split)

lemma set_value_slots:
  assumes "layout_ok E st" "get_at (slot_list st) i = Some (Some (k, old))"
  shows "slot_list (set_value_at i v st) = (slot_list st)[i := Some (k, v)]"
proof (cases st)
  case (PackedStorage s)
  have "i < length (packed_values s)" "k = IntKey (int i)"
    using assms(2) by (auto simp: PackedStorage slot_packed get_at_Some_iff)
  then show ?thesis
    by (simp add: PackedStorage slot_list_def set_value_at_def packed_pairs list_eq_iff_nth_eq nth_enumerate_eq nth_list_update)
next
  case (RecordStorage s)
  have "length (shape_keys (record_array_shape s)) = length (record_values s)"
    using assms(1) RecordStorage by (simp add: layout_ok_def)
  moreover have "i < length (record_values s)" "k = StringKey (shape_keys (record_array_shape s) ! i)"
    using assms unfolding RecordStorage by (auto simp: slot_record get_at_Some_iff split: option.splits)
  ultimately show ?thesis
    by (auto simp: RecordStorage slot_list_def set_value_at_def iter_pairs_def list_eq_iff_nth_eq nth_list_update)
next
  case (MixedStorage s)
  obtain e where "i < length (mixed_entries s)" "mixed_entries s ! i = Some e" "ae_key e = k"
    using assms(2) by (auto simp: MixedStorage slot_mixed entry_pair_def get_at_Some_iff)
  then show ?thesis
    by (auto simp: MixedStorage slot_list_def set_value_at_def map_update entry_pair_def)
qed

lemma replace_value_ok:
  assumes ok: "layout_ok E st" and at: "get_at (slot_list st) i = Some (Some (k, old))"
  obtains st' where "replace_value i v st = Some (old, st')" "layout_ok E st'"
    "slot_list st' = (slot_list st)[i := Some (k, v)]"
    "next_append_key (header st') = next_append_key (header st)" "internal_pointer (header st') = internal_pointer (header st)"
    "mutation_epoch (header st') = mutation_epoch (header st)"
proof
  let ?new = "update_metadata (replace_value_flags (is_reference old) (is_reference v) (is_int old) (is_int v)) (set_value_at i v st)"
  show "replace_value i v st = Some (old, ?new)"
    using at by (simp add: replace_value_def get_value_slot [OF ok])
  show "slot_list ?new = (slot_list st)[i := Some (k, v)]"
    by (simp add: set_value_slots [OF ok at])
  show "next_append_key (header ?new) = next_append_key (header st)" "internal_pointer (header ?new) = internal_pointer (header st)"
    "mutation_epoch (header ?new) = mutation_epoch (header st)"
    by (simp_all add: header_simps set_value_at_def array_header.defs split: array_storage.split)
  show "layout_ok E ?new"
  proof (cases st)
    case (PackedStorage s)
    have "get_at (packed_values s) i = Some old"
      using at by (auto simp: PackedStorage slot_packed)
    then show ?thesis
      using ok by (simp add: PackedStorage layout_ok_def set_value_at_def update_metadata_def metadata_counts value_counts_update)
  next
    case (RecordStorage s)
    have "get_at (record_values s) i = Some old"
      using ok at unfolding RecordStorage by (auto simp: slot_record split: option.splits)
    then show ?thesis
      using ok by (simp add: RecordStorage layout_ok_def set_value_at_def update_metadata_def metadata_counts value_counts_update)
  next
    case (MixedStorage s)
    obtain e where e: "i < length (mixed_entries s)" "mixed_entries s ! i = Some e" "ae_key e = k" "ae_value e = old"
      using at by (auto simp: MixedStorage slot_mixed entry_pair_def get_at_Some_iff)
    let ?e = "e\<lparr>ae_value := v\<rparr>"
    have same: "entry_is_int ?e = entry_is_int e" "entry_ambiguous E ?e = entry_ambiguous E e" "entry_shared ?e = entry_shared e"
      by (simp_all add: entry_is_int_def entry_ambiguous_def entry_shared_def split: array_key.split)
    have "metadata_of_entries E (live ((mixed_entries s)[i := Some ?e]))
        = replace_value_flags (is_reference old) (is_reference v) (is_int old) (is_int v) (metadata_of_entries E (live (mixed_entries s)))"
      unfolding live_update_Some [OF e(1)] live_split [OF e(1,2)] metadata_counts
      using value_counts_replace e(4) same by simp
    moreover have "(\<exists>x. get_at ((mixed_entries s)[i := Some ?e]) j = Some (Some x) \<and> ae_key x = k')
        \<longleftrightarrow> (\<exists>x. get_at (mixed_entries s) j = Some (Some x) \<and> ae_key x = k')" for j k'
      using e by (auto simp: get_at_Some_iff nth_list_update)
    moreover have "map ae_key (live ((mixed_entries s)[i := Some ?e])) = map ae_key (live (mixed_entries s))"
      using e by (simp add: live_update_Some live_split [OF e(1,2)])
    then have "distinct (map ae_key (live ((mixed_entries s)[i := Some ?e]))) = distinct (map ae_key (live (mixed_entries s)))"
      "length (live ((mixed_entries s)[i := Some ?e])) = length (live (mixed_entries s))"
      by (metis, metis length_map)
    ultimately show ?thesis
      using ok e(2) unfolding MixedStorage by (simp add: layout_ok_def set_value_at_def update_metadata_def)
  qed
qed

subsection \<open>Changing the layout\<close>

lemma build_index_iff:
  assumes "distinct (map ae_key es)"
  shows "build_index es k = Some i \<longleftrightarrow> (\<exists>e. get_at es i = Some e \<and> ae_key e = k)"
  using assms unfolding build_index_def
proof (induction es arbitrary: i rule: rev_induct)
  case (snoc e es)
  have "ae_key e \<notin> ae_key ` set es" using snoc.prems by simp
  then have "get_at es i = Some x \<Longrightarrow> ae_key x \<noteq> ae_key e" for x
    by (metis get_at_set imageI)
  then show ?case
    using snoc by (auto simp: enumerate_append_eq get_at_append get_at_singleton dest: get_at_Some_less)
qed simp

lemma mixed_from_entries_ok:
  assumes "distinct (map ae_key es)" "cached_metadata h = metadata_of_entries E es"
  shows "layout_ok E (mixed_from_entries h es)" "slot_list (mixed_from_entries h es) = map (Some \<circ> entry_pair) es"
    "header (mixed_from_entries h es) = h"
  using assms
  by (simp_all add: mixed_from_entries_def layout_ok_def slot_list_def header_simps array_header.defs build_index_iff
      get_at_map)

lemma metadata_uniform_entries:
  "(\<And>e. e \<in> set es \<Longrightarrow> \<not> entry_is_int e \<and> \<not> entry_ambiguous E e \<and> entry_shared e) \<Longrightarrow>
    metadata_of_entries E es = metadata_of_record (map ae_value es)"
  "(\<And>e. e \<in> set es \<Longrightarrow> entry_is_int e \<and> \<not> entry_ambiguous E e \<and> \<not> entry_shared e) \<Longrightarrow>
    metadata_of_entries E es = metadata_of_packed (map ae_value es)"
  by (simp_all add: metadata_counts cnt_all cnt_none)

lemma make_record_mixed_ok:
  assumes "layout_ok E st" "is_record st"
  shows "layout_ok E (make_record_mixed st) \<and> slot_list (make_record_mixed st) = slot_list st \<and> header (make_record_mixed st) = header st"
proof -
  from assms(2) obtain s where st: "st = RecordStorage s" by (auto simp: is_record_def split: array_storage.splits)
  let ?es = "map (\<lambda>(value, key). array_entry_new (StringKey key) True value) (zip (record_values s) (shape_keys (record_array_shape s)))"
  have len: "length (shape_keys (record_array_shape s)) = length (record_values s)"
    and unamb: "\<And>k. k \<in> set (shape_keys (record_array_shape s)) \<Longrightarrow> \<not> key_ambiguous E k"
    and dist: "distinct (shape_keys (record_array_shape s))"
    using assms(1) by (auto simp: st layout_ok_def shape_ok_def)
  have keys: "map ae_key ?es = map StringKey (shape_keys (record_array_shape s))"
    and vals: "map ae_value ?es = record_values s"
    by (simp_all add: array_entry_new_def list_eq_iff_nth_eq len)
  have es: "\<not> entry_is_int e \<and> \<not> entry_ambiguous E e \<and> entry_shared e" if "e \<in> set ?es" for e
    using that unamb by (auto simp: array_entry_new_def entry_is_int_def entry_ambiguous_def entry_shared_def dest: set_zip_rightD)
  have meta: "metadata_of_entries E ?es = metadata_of_record (map ae_value ?es)"
    by (rule metadata_uniform_entries(1)) (rule es)
  have "distinct (map ae_key ?es)" unfolding keys using dist by (simp add: distinct_map inj_on_def)
  moreover have "cached_metadata (header st) = metadata_of_entries E ?es"
    using assms(1) meta unfolding vals by (simp add: st layout_ok_def header_simps)
  moreover have "make_record_mixed st = mixed_from_entries (header st) ?es" by (simp add: st make_record_mixed_def)
  moreover have "map (Some \<circ> entry_pair) ?es = slot_list st"
    by (simp add: st slot_list_def iter_pairs_def entry_pair_def array_entry_new_def list_eq_iff_nth_eq len)
  ultimately show ?thesis using mixed_from_entries_ok by simp
qed

lemma make_mixed_ok:
  assumes "layout_ok E st"
  shows "layout_ok E (make_mixed st) \<and> slot_list (make_mixed st) = slot_list st \<and> header (make_mixed st) = header st"
proof (cases st)
  case (PackedStorage s)
  let ?es = "map (\<lambda>(index, value). array_entry_new (IntKey (int index)) False value) (enumerate 0 (packed_values s))"
  have keys: "map ae_key ?es = map (\<lambda>i. IntKey (int i)) [0..<length (packed_values s)]"
    and vals: "map ae_value ?es = packed_values s"
    by (rule nth_equalityI; simp add: array_entry_new_def nth_enumerate_eq)+
  have es: "entry_is_int e \<and> \<not> entry_ambiguous E e \<and> \<not> entry_shared e" if "e \<in> set ?es" for e
    using that by (auto simp: array_entry_new_def entry_is_int_def entry_ambiguous_def entry_shared_def)
  have meta: "metadata_of_entries E ?es = metadata_of_packed (map ae_value ?es)"
    by (rule metadata_uniform_entries(2)) (rule es)
  have "distinct (map ae_key ?es)" unfolding keys by (simp add: distinct_map inj_on_def)
  moreover have "cached_metadata (header st) = metadata_of_entries E ?es"
    using assms meta unfolding vals by (simp add: PackedStorage layout_ok_def header_simps)
  moreover have "make_mixed st = mixed_from_entries (header st) ?es" by (simp add: PackedStorage make_mixed_def)
  moreover have "map (Some \<circ> entry_pair) ?es = slot_list st"
    by (rule nth_equalityI)
       (simp_all add: PackedStorage slot_list_def iter_pairs_def entry_pair_def array_entry_new_def nth_enumerate_eq)
  ultimately show ?thesis using mixed_from_entries_ok by simp
next
  case (RecordStorage s)
  then show ?thesis using make_record_mixed_ok [OF assms] by (simp add: make_mixed_def is_record_def)
next
  case (MixedStorage s)
  then show ?thesis using assms by (simp add: make_mixed_def)
qed

lemma make_mixed_kind [simp]: "\<not> is_packed (make_mixed st)" "\<not> is_record (make_mixed st)"
  "is_record st \<Longrightarrow> \<not> is_packed (make_record_mixed st)" "is_record st \<Longrightarrow> \<not> is_record (make_record_mixed st)"
  by (cases st; simp add: make_mixed_def make_record_mixed_def mixed_from_entries_def is_packed_def is_record_def)+

lemma pushable_mixed: "\<not> is_packed st \<Longrightarrow> \<not> is_record st \<Longrightarrow> pushable E k st"
  by (cases st) (simp_all add: is_packed_def is_record_def pushable_def)

lemma promote_empty_ok:
  assumes "layout_ok E st" "storage_len st = 0" "is_packed st"
  shows "layout_ok E (promote_empty_to_record st) \<and> slot_list (promote_empty_to_record st) = slot_list st \<and>
    next_append_key (header (promote_empty_to_record st)) = next_append_key (header st) \<and>
    internal_pointer (header (promote_empty_to_record st)) = internal_pointer (header st) \<and>
    mutation_epoch (header (promote_empty_to_record st)) = mutation_epoch (header st)"
  using assms
  by (cases st) (simp_all add: promote_empty_to_record_def layout_ok_def shape_ok_def shape_empty_def slot_list_def iter_pairs_def
      storage_len_def is_packed_def header_simps array_header.defs metadata_of_record_def)

text \<open>The layout of a new key: the pairs stay, and the key can be pushed.\<close>

lemma prepare_insert_ok:
  assumes "layout_ok E st"
  shows "layout_ok E (prepare_insert E k st) \<and> slot_list (prepare_insert E k st) = slot_list st \<and>
    next_append_key (header (prepare_insert E k st)) = next_append_key (header st) \<and>
    internal_pointer (header (prepare_insert E k st)) = internal_pointer (header st) \<and>
    mutation_epoch (header (prepare_insert E k st)) = mutation_epoch (header st) \<and>
    pushable E k (prepare_insert E k st)"
proof -
  have kinds: "is_record st \<Longrightarrow> \<not> is_packed st"
    by (cases st) (simp_all add: is_record_def is_packed_def)
  let ?append = "is_packed st \<and> k = IntKey (int (storage_len st))"
  consider ?append
    | name where "is_record st" "k = StringKey name" "\<not> key_ambiguous E name"
    | "is_record st" "\<And>name. k = StringKey name \<Longrightarrow> key_ambiguous E name"
    | name where "is_packed st" "storage_len st = 0" "k = StringKey name" "\<not> key_ambiguous E name"
    | "\<not> ?append" "\<not> is_record st"
      "\<not> (is_packed st \<and> storage_len st = 0 \<and> (case k of StringKey name \<Rightarrow> \<not> key_ambiguous E name | IntKey _ \<Rightarrow> False))"
    by (cases k) (use kinds in auto)
  then show ?thesis
  proof cases
    case 1
    then have "prepare_insert E k st = st" by (simp add: prepare_insert_def)
    then show ?thesis
      using assms 1 by (auto simp: pushable_def storage_len_def is_packed_def split: array_storage.splits)
  next
    case 2
    then have "prepare_insert E k st = st" using kinds by (simp add: prepare_insert_def)
    then show ?thesis
      using assms 2 by (auto simp: pushable_def is_record_def split: array_storage.splits)
  next
    case 3
    then have "prepare_insert E k st = make_record_mixed st" using kinds by (simp add: prepare_insert_def split: array_key.split)
    then show ?thesis using 3 make_record_mixed_ok [OF assms] by (simp add: pushable_mixed)
  next
    case 4
    then have "prepare_insert E k st = promote_empty_to_record st" using kinds by (auto simp: prepare_insert_def)
    then show ?thesis
      using promote_empty_ok [OF assms 4(2,1)] 4 by (simp add: pushable_def promote_empty_to_record_def)
  next
    case 5
    then have "prepare_insert E k st = make_mixed st" by (simp only: prepare_insert_def if_False)
    then show ?thesis using make_mixed_ok [OF assms] by (simp add: pushable_mixed)
  qed
qed

subsection \<open>Removing\<close>

lemma remove_index_mixed:
  assumes ok: "layout_ok E st" and kind: "\<not> is_packed st" "\<not> is_record st"
    and at: "get_at (slot_list st) i = Some (Some (k, v))"
  obtains st' where "remove_index E i st = Some ((k, v), st')" "layout_ok E st'" "slot_list st' = (slot_list st)[i := None]"
    "\<not> is_packed st'" "\<not> is_record st'" "st_next_append_key st' = st_next_append_key st" "st_pointer st' = st_pointer st"
    "st_epoch st' = st_epoch st"
proof -
  from kind obtain s where st: "st = MixedStorage s" by (cases st) (auto simp: is_packed_def is_record_def)
  from at obtain e where e: "get_at (mixed_entries s) i = Some (Some e)" "ae_key e = k" "ae_value e = v"
    by (auto simp: st slot_mixed entry_pair_def)
  then have i: "i < length (mixed_entries s)" "mixed_entries s ! i = Some e" by (auto simp: get_at_Some_iff)
  define s' where "s' = s\<lparr>mixed_entries := (mixed_entries s)[i := None],
    cached_metadata := remove_entry E e (cached_metadata s), mixed_index := (mixed_index s)(k := None), live_len := live_len s - 1\<rparr>"
  have dist: "distinct (map ae_key (live (mixed_entries s)))"
    and ix: "\<And>k j. mixed_index s k = Some j \<longleftrightarrow> (\<exists>e. get_at (mixed_entries s) j = Some (Some e) \<and> ae_key e = k)"
    and rest: "live_len s = length (live (mixed_entries s))" "cached_metadata s = metadata_of_entries E (live (mixed_entries s))"
    using ok by (auto simp: st layout_ok_def)
  have uniq: "j = i" if "get_at (mixed_entries s) j = Some (Some x)" "ae_key x = k" for j x
    using ix [of k j] ix [of k i] e that by auto
  have "((mixed_index s)(k := None)) k' = Some j
      \<longleftrightarrow> (\<exists>x. get_at ((mixed_entries s)[i := None]) j = Some (Some x) \<and> ae_key x = k')" for k' j
  proof (cases "j = i")
    case True
    then show ?thesis using ix [of k' i] e i by (auto simp: get_at_def)
  next
    case False
    then have "get_at ((mixed_entries s)[i := None]) j = get_at (mixed_entries s) j" by (simp add: get_at_def)
    then show ?thesis using ix [of k' j] False uniq [of j] by auto
  qed
  then have "layout_ok E (MixedStorage s')"
    using dist rest unfolding live_split [OF i]
    by (simp add: layout_ok_def s'_def live_update_None [OF i(1)] metadata_of_entries_remove [of E _ _ e, symmetric])
  moreover have "remove_index E i st = Some ((k, v), MixedStorage s')"
    using e by (simp add: remove_index_def st s'_def)
  ultimately show thesis
    by (intro that [of "MixedStorage s'"])
       (simp_all add: s'_def st slot_list_def map_update is_packed_def is_record_def header_simps)
qed

lemma remove_index_packed:
  assumes ok: "layout_ok E st" and kind: "is_packed st" and last: "i + 1 = storage_len st"
    and at: "get_at (slot_list st) i = Some (Some (k, v))"
  obtains st' where "remove_index E i st = Some ((k, v), st')" "layout_ok E st'" "slot_list st' = butlast (slot_list st)"
    "is_packed st'" "storage_len st' = i" "st_next_append_key st' = st_next_append_key st" "st_pointer st' = st_pointer st"
    "st_epoch st' = st_epoch st"
proof -
  from kind obtain s where st: "st = PackedStorage s" by (cases st) (auto simp: is_packed_def)
  have len: "length (packed_values s) = i + 1" using last by (simp add: st storage_len_def)
  then have v: "get_at (packed_values s) i = Some v" "k = IntKey (int i)"
    using at by (auto simp: st slot_packed)
  then have vs: "packed_values s = take i (packed_values s) @ [v]"
    using len take_Suc_conv_app_nth [of i "packed_values s"] by (simp add: get_at_def)
  define s' where "s' = s\<lparr>packed_values := take i (packed_values s), cached_metadata := remove_packed_value v (cached_metadata s)\<rparr>"
  have "metadata_of_packed (take i (packed_values s)) = remove_packed_value v (metadata_of_packed (packed_values s))"
    using metadata_of_packed_remove [of "take i (packed_values s)" "[]" v] vs by simp
  then have "layout_ok E (PackedStorage s')" using ok by (simp add: st layout_ok_def s'_def)
  moreover have "remove_index E i st = Some ((k, v), PackedStorage s')"
    using v len by (simp add: remove_index_def st s'_def)
  moreover have "enumerate 0 (packed_values s) = enumerate 0 (take i (packed_values s)) @ [(i, v)]"
    using len by (subst vs) (simp add: enumerate_append_eq)
  then have "slot_list (PackedStorage s') = butlast (slot_list st)"
    by (simp add: s'_def st slot_list_def packed_pairs)
  ultimately show thesis
    by (intro that [of "PackedStorage s'"]) (simp_all add: s'_def st len is_packed_def storage_len_def header_simps)
qed

subsection \<open>Compaction\<close>

definition compacted_pointer :: "nat option \<Rightarrow> nat \<Rightarrow> 'a option list \<Rightarrow> nat \<Rightarrow> nat option \<Rightarrow> nat option" where
  "compacted_pointer old_pointer old_index es n pointer =
     (case old_pointer of
        None \<Rightarrow> pointer
      | Some j \<Rightarrow>
          if old_index \<le> j \<and> j < old_index + length es \<and> es ! (j - old_index) \<noteq> None
          then Some (n + length (live (take (j - old_index) es))) else pointer)"

lemma build_index_snoc: "build_index (es @ [e]) = (build_index es)(ae_key e \<mapsto> length es)"
  by (simp add: build_index_def enumerate_append_eq)

lemma compacted_pointer_Cons:
  "compacted_pointer op oi (None # es) n p = compacted_pointer op (Suc oi) es n p"
  "compacted_pointer op oi (Some e # es) n p = compacted_pointer op (Suc oi) es (Suc n) (if op = Some oi then Some n else p)"
proof -
  have "compacted_pointer (Some j) oi (None # es) n p = compacted_pointer (Some j) (Suc oi) es n p \<and>
      compacted_pointer (Some j) oi (Some e # es) n p = compacted_pointer (Some j) (Suc oi) es (Suc n) (if j = oi then Some n else p)" for j
  proof (cases "Suc oi \<le> j")
    case True
    then obtain d where "j = Suc (oi + d)" using nat_le_iff_add by auto
    then show ?thesis by (auto simp: compacted_pointer_def)
  qed (auto simp: compacted_pointer_def)
  then show "compacted_pointer op oi (None # es) n p = compacted_pointer op (Suc oi) es n p"
    "compacted_pointer op oi (Some e # es) n p = compacted_pointer op (Suc oi) es (Suc n) (if op = Some oi then Some n else p)"
    by (cases op; simp add: compacted_pointer_def [of None])+
qed

lemma compact_loop_eq:
  "compact_loop old_pointer old_index es (map Some acc) (build_index acc) pointer
   = (map Some (acc @ live es), build_index (acc @ live es), compacted_pointer old_pointer old_index es (length acc) pointer)"
proof (induction es arbitrary: old_index acc pointer)
  case (Cons x es)
  show ?case
  proof (cases x)
    case None
    then show ?thesis using Cons.IH [of "old_index + 1" acc pointer] by (simp add: compacted_pointer_Cons)
  next
    case (Some e)
    then show ?thesis
      using Cons.IH [of "old_index + 1" "acc @ [e]" "if old_pointer = Some old_index then Some (length acc) else pointer"]
      by (simp add: compacted_pointer_Cons flip: build_index_snoc split del: if_split cong: if_cong)
  qed
qed (auto simp: compacted_pointer_def split: option.split)

subsection \<open>Ranks\<close>

text \<open>The position of a slot among the live slots.\<close>

definition rank :: "'a option list \<Rightarrow> nat \<Rightarrow> nat" where
  "rank xs i = length (live (take i xs))"

lemma rank_0 [simp]: "rank xs 0 = 0"
  by (simp add: rank_def)

lemma get_at_rank:
  assumes "get_at xs i = Some (Some p)"
  shows "get_at (live xs) (rank xs i) = Some p" "rank xs i < length (live xs)"
proof -
  have "live xs = live (take i xs) @ p # live (drop (Suc i) xs)"
    using assms by (auto simp: get_at_Some_iff intro: live_split)
  then show "get_at (live xs) (rank xs i) = Some p" "rank xs i < length (live xs)"
    by (simp_all add: rank_def get_at_append)
qed

lemma rank_none_between: "i \<le> j \<Longrightarrow> (\<And>k. i \<le> k \<Longrightarrow> k < j \<Longrightarrow> k < length xs \<Longrightarrow> xs ! k = None) \<Longrightarrow> rank xs j = rank xs i"
proof (induction j)
  case (Suc j)
  show ?case
  proof (cases "i = Suc j")
    case False
    then have "i \<le> j" using Suc.prems by simp
    moreover have "rank xs (Suc j) = rank xs j"
      using Suc.prems(2) [of j] \<open>i \<le> j\<close>
      by (cases "j < length xs") (simp_all add: rank_def take_Suc_conv_app_nth)
    ultimately show ?thesis using Suc by simp
  qed simp
qed simp

lemma rank_Suc: "get_at xs i = Some (Some p) \<Longrightarrow> rank xs (Suc i) = Suc (rank xs i)"
  by (simp add: rank_def get_at_Some_iff take_Suc_conv_app_nth)

lemma rank_mono: "i \<le> j \<Longrightarrow> rank xs i \<le> rank xs j"
  unfolding rank_def by (metis le_add1 le_add_diff_inverse length_append live_append take_add)

lemma rank_strict: "get_at xs i = Some (Some p) \<Longrightarrow> i < j \<Longrightarrow> rank xs i < rank xs j"
  using rank_mono [of "Suc i" j xs] rank_Suc [of xs i p] by simp

lemma rank_inject:
  "get_at xs i = Some (Some p) \<Longrightarrow> get_at xs j = Some (Some q) \<Longrightarrow> rank xs i = rank xs j \<longleftrightarrow> i = j"
  by (metis linorder_neqE_nat nat_less_le rank_strict)

lemma rank_map_Some [simp]: "i \<le> length ys \<Longrightarrow> rank (map Some ys) i = i"
  by (simp add: rank_def take_map)

lemma rank_length: "length xs \<le> i \<Longrightarrow> rank xs i = length (live xs)"
  by (simp add: rank_def)

lemma rank_update: "get_at xs i = Some (Some p) \<Longrightarrow> rank (xs[i := Some q]) j = rank xs j"
proof -
  assume "get_at xs i = Some (Some p)"
  then have i: "i < length xs" "xs ! i = Some p" by (auto simp: get_at_Some_iff)
  have "length (live (ys[i := Some q])) = length (live ys)" if "ys ! i = Some p \<or> length ys \<le> i" for ys
    using that live_split [of i ys p] by (cases "i < length ys") (simp_all add: live_update_Some list_update_beyond)
  then show ?thesis using i by (cases "j \<le> i") (simp_all add: rank_def take_update_cancel take_update_swap)
qed

lemma rank_append: "i \<le> length xs \<Longrightarrow> rank (xs @ ys) i = rank xs i"
  by (simp add: rank_def)

lemma rank_remove:
  assumes "get_at xs i = Some (Some p)"
  shows "rank (xs[i := None]) j = (if i < j then rank xs j - 1 else rank xs j)"
proof -
  have i: "i < length xs" "xs ! i = Some p" using assms by (auto simp: get_at_Some_iff)
  show ?thesis
  proof (cases "i < j")
    case True
    then have "live (take j xs) = live (take i (take j xs)) @ p # live (drop (Suc i) (take j xs))"
      using i by (intro live_split) simp_all
    moreover have "live ((take j xs)[i := None]) = live (take i (take j xs)) @ live (drop (Suc i) (take j xs))"
      using i True by (intro live_update_None) simp
    ultimately show ?thesis using True by (simp add: rank_def take_update_swap)
  next
    case False
    then show ?thesis by (simp add: rank_def take_update_cancel)
  qed
qed

lemma compact_ok:
  assumes ok: "layout_ok E st" and ptr: "pointer_ok st"
  shows "layout_ok E (compact_mixed_if_needed st) \<and> iter_pairs (compact_mixed_if_needed st) = iter_pairs st \<and>
    pointer_ok (compact_mixed_if_needed st) \<and>
    map_option (rank (slot_list (compact_mixed_if_needed st))) (st_pointer (compact_mixed_if_needed st))
      = map_option (rank (slot_list st)) (st_pointer st) \<and>
    st_next_append_key (compact_mixed_if_needed st) = st_next_append_key st"
proof (cases "compact_mixed_if_needed st = st")
  case False
  then obtain s where st: "st = MixedStorage s" by (cases st) (auto simp: compact_mixed_if_needed_def)
  define s' where "s' = s\<lparr>mixed_entries := map Some (live (mixed_entries s)), mixed_index := build_index (live (mixed_entries s)),
    internal_pointer := compacted_pointer (internal_pointer s) 0 (mixed_entries s) 0 None\<rparr>"
  have "compact_mixed_if_needed st = MixedStorage s'"
    using False compact_loop_eq [of "internal_pointer s" 0 "mixed_entries s" "[]" None]
    by (auto simp: compact_mixed_if_needed_def st s'_def build_index_def Let_def split: if_splits)
  moreover have "layout_ok E (MixedStorage s')"
    using ok by (simp add: st layout_ok_def s'_def build_index_iff get_at_map)
  moreover have slots: "slot_list (MixedStorage s') = map Some (iter_pairs st)"
    by (simp add: s'_def slot_list_def st iter_pairs_def live_entries_live entry_pair_def [abs_def])
  moreover have ptr': "internal_pointer s' = map_option (rank (slot_list st)) (internal_pointer s)"
    using ptr by (auto simp: s'_def compacted_pointer_def pointer_ok_def st header_simps slot_mixed get_at_Some_iff
        rank_def slot_list_def take_map live_map split: option.split)
  moreover have "pointer_ok (MixedStorage s')"
    unfolding pointer_ok_def slots
  proof (intro allI impI)
    fix j
    assume "st_pointer (MixedStorage s') = Some j"
    then obtain i where i: "st_pointer st = Some i" "j = rank (slot_list st) i" by (auto simp: header_simps ptr' st)
    then obtain p where "get_at (slot_list st) i = Some (Some p)" using ptr by (auto simp: pointer_ok_def)
    then show "\<exists>p. get_at (map Some (iter_pairs st)) j = Some (Some p)"
      using get_at_rank(1) [of "slot_list st" i p] i(2) by (cases p) (simp add: get_at_map iter_pairs_slots)
  qed
  moreover have "rank (slot_list st) i \<le> length (iter_pairs st)" for i
    using rank_mono [of i "max i (length (slot_list st))" "slot_list st"] by (simp add: rank_length iter_pairs_slots)
  then have "map_option (rank (map Some (iter_pairs st))) (internal_pointer s') = map_option (rank (slot_list st)) (st_pointer st)"
    unfolding ptr' by (simp add: st header_simps option.map_comp comp_def)
  moreover have "iter_pairs (MixedStorage s') = iter_pairs st"
    unfolding iter_pairs_slots [of "MixedStorage s'"] slots by simp
  ultimately show ?thesis by (simp add: st header_simps s'_def)
qed (use assms in simp)

end
