(* ===== verification/Php_Array_Spec.thy ===== *)
theory Php_Array_Spec
  imports Php_Array_Proofs
begin

text \<open>
  The contract of \<open>PhpArray\<close>: an ordered array is a list of pairs with distinct keys, a position in
  that list, and the next append key. Every operation on the storage, in each of its three layouts
  and across the changes of layout, implements the corresponding operation on ordered arrays.
\<close>

section \<open>Ordered arrays\<close>

record ordered_array =
  oa_pairs :: "(array_key \<times> php_value) list"
  oa_position :: "nat option"
  oa_next_key :: "int option"

definition abs_array :: "array_storage \<Rightarrow> ordered_array" where
  "abs_array st = \<lparr>oa_pairs = iter_pairs st, oa_position = map_option (rank (slot_list st)) (st_pointer st),
     oa_next_key = st_next_append_key st\<rparr>"

definition key_in_range :: "array_key \<Rightarrow> bool" where
  "key_in_range key = (case key of IntKey i \<Rightarrow> in_i64 i | StringKey _ \<Rightarrow> True)"

definition spec_next_key :: "array_key \<Rightarrow> int option \<Rightarrow> int option" where
  "spec_next_key key next = (case key of
     StringKey _ \<Rightarrow> next
   | IntKey i \<Rightarrow> Some (case next of None \<Rightarrow> clamp_i64 (i + 1) | Some n \<Rightarrow> max n (clamp_i64 (i + 1))))"

definition spec_insert :: "array_key \<Rightarrow> php_value \<Rightarrow> ordered_array \<Rightarrow> php_value option \<times> ordered_array" where
  "spec_insert key value a =
     (map_of (oa_pairs a) key,
      a\<lparr>oa_pairs := AList.update key value (oa_pairs a),
        oa_position := (if oa_position a = None \<and> map_of (oa_pairs a) key = None then Some 0 else oa_position a),
        oa_next_key := spec_next_key key (oa_next_key a)\<rparr>)"

definition spec_append :: "php_value \<Rightarrow> ordered_array \<Rightarrow> append_error + (array_key \<times> ordered_array)" where
  "spec_append value a =
     (let key = IntKey (unwrap_or (oa_next_key a) 0)
      in if key \<in> fst ` set (oa_pairs a) then Inl PhpArrayAppendError
         else Inr (key, snd (spec_insert key value a)))"

text \<open>The position after the removal of pair \<open>i\<close> of \<open>len\<close> pairs moves with its pair; when its own pair goes, it moves to the next one.\<close>

definition position_after_remove :: "nat \<Rightarrow> nat \<Rightarrow> nat option \<Rightarrow> nat option" where
  "position_after_remove i len pos = (case pos of
     None \<Rightarrow> None
   | Some p \<Rightarrow> if i < p then Some (p - 1) else if p + 1 < len then Some p else None)"

definition spec_remove :: "array_key \<Rightarrow> ordered_array \<Rightarrow> (php_value \<times> ordered_array) option" where
  "spec_remove key a =
     (case (map_of (oa_pairs a) key, position (\<lambda>p. fst p = key) (oa_pairs a)) of
        (Some value, Some i) \<Rightarrow>
          Some (value, a\<lparr>oa_pairs := AList.delete key (oa_pairs a),
            oa_position := position_after_remove i (length (oa_pairs a)) (oa_position a)\<rparr>)
      | _ \<Rightarrow> None)"

definition spec_pop :: "ordered_array \<Rightarrow> (php_value \<times> ordered_array) option" where
  "spec_pop a =
     (if oa_pairs a = [] then None
      else
        let (key, value) = last (oa_pairs a)
        in Some (value, a\<lparr>oa_pairs := butlast (oa_pairs a),
             oa_position := position_after_remove (length (oa_pairs a) - 1) (length (oa_pairs a)) (oa_position a),
             oa_next_key := (case key of
                StringKey _ \<Rightarrow> oa_next_key a
              | IntKey i \<Rightarrow> if oa_next_key a = Some (clamp_i64 (i + 1)) then Some i else oa_next_key a)\<rparr>))"

definition spec_current :: "ordered_array \<Rightarrow> (array_key \<times> php_value) option" where
  "spec_current a = (case oa_position a of None \<Rightarrow> None | Some p \<Rightarrow> get_at (oa_pairs a) p)"

definition spec_move :: "nat option \<Rightarrow> ordered_array \<Rightarrow> php_value option \<times> ordered_array" where
  "spec_move p a = (let b = a\<lparr>oa_position := p\<rparr> in (map_option snd (spec_current b), b))"

definition spec_reset :: "ordered_array \<Rightarrow> php_value option \<times> ordered_array" where
  "spec_reset a = spec_move (if oa_pairs a = [] then None else Some 0) a"

definition spec_end :: "ordered_array \<Rightarrow> php_value option \<times> ordered_array" where
  "spec_end a = spec_move (if oa_pairs a = [] then None else Some (length (oa_pairs a) - 1)) a"

definition spec_next :: "ordered_array \<Rightarrow> php_value option \<times> ordered_array" where
  "spec_next a = spec_move (case oa_position a of
     None \<Rightarrow> None | Some p \<Rightarrow> if p + 1 < length (oa_pairs a) then Some (p + 1) else None) a"

definition spec_prev :: "ordered_array \<Rightarrow> php_value option \<times> ordered_array" where
  "spec_prev a = spec_move (case oa_position a of
     None \<Rightarrow> None | Some p \<Rightarrow> if p = 0 then None else Some (p - 1)) a"

section \<open>Live slots\<close>

abbreviation is_live :: "'a option list \<Rightarrow> nat \<Rightarrow> bool" where
  "is_live xs i \<equiv> \<exists>p. get_at xs i = Some (Some p)"

lemma first_live:
  "position (\<lambda>e. e \<noteq> None) xs = Some i \<Longrightarrow> is_live xs i \<and> rank xs i = 0"
  "position (\<lambda>e. e \<noteq> None) xs = None \<longleftrightarrow> live xs = []"
proof -
  assume "position (\<lambda>e. e \<noteq> None) xs = Some i"
  then have "i < length xs" "xs ! i \<noteq> None" "\<forall>j<i. xs ! j = None" by (auto simp: position_Some_iff)
  then show "is_live xs i \<and> rank xs i = 0"
    using rank_none_between [of 0 i xs] by (auto simp: get_at_Some_iff)
next
  show "position (\<lambda>e. e \<noteq> None) xs = None \<longleftrightarrow> live xs = []"
    by (induction xs rule: live.induct) auto
qed

lemma last_live:
  "rposition (\<lambda>e. e \<noteq> None) xs = Some i \<Longrightarrow> is_live xs i \<and> Suc (rank xs i) = length (live xs)"
  "rposition (\<lambda>e. e \<noteq> None) xs = None \<longleftrightarrow> live xs = []"
proof -
  assume "rposition (\<lambda>e. e \<noteq> None) xs = Some i"
  then have i: "i < length xs" "xs ! i \<noteq> None" "\<forall>j. i < j \<and> j < length xs \<longrightarrow> xs ! j = None"
    by (auto simp: rposition_Some_iff)
  then obtain p where p: "get_at xs i = Some (Some p)" by (auto simp: get_at_def)
  have "rank xs (length xs) = rank xs (Suc i)" using i by (intro rank_none_between) auto
  then show "is_live xs i \<and> Suc (rank xs i) = length (live xs)"
    using p rank_Suc [OF p] by (simp add: rank_length)
next
  show "rposition (\<lambda>e. e \<noteq> None) xs = None \<longleftrightarrow> live xs = []"
    by (induction xs rule: live.induct) (auto split: option.splits)
qed

definition next_live :: "'a option list \<Rightarrow> nat \<Rightarrow> nat option" where
  "next_live xs i = map_option (\<lambda>k. i + 1 + k) (position (\<lambda>e. e \<noteq> None) (drop (i + 1) xs))"

lemma rank_drop: "rank xs (i + j) = rank xs i + rank (drop i xs) j"
  by (simp add: rank_def take_add)

lemma length_live_drop: "length (live xs) = rank xs i + length (live (drop i xs))"
  by (metis append_take_drop_id length_append live_append rank_def)

lemma next_live:
  assumes "is_live xs i"
  shows "next_live xs i = Some j \<Longrightarrow> is_live xs j \<and> rank xs j = Suc (rank xs i)"
    "next_live xs i = None \<longleftrightarrow> length (live xs) = Suc (rank xs i)"
proof -
  from assms have suc: "rank xs (Suc i) = Suc (rank xs i)" by (auto dest: rank_Suc)
  show "next_live xs i = None \<longleftrightarrow> length (live xs) = Suc (rank xs i)"
    using length_live_drop [of xs "Suc i"] suc by (simp add: next_live_def first_live del: not_None_eq)
  assume "next_live xs i = Some j"
  then obtain k where k: "position (\<lambda>e. e \<noteq> None) (drop (Suc i) xs) = Some k" "j = Suc i + k"
    by (auto simp: next_live_def)
  show "is_live xs j \<and> rank xs j = Suc (rank xs i)"
    using first_live(1) [OF k(1)] suc rank_drop [of xs "Suc i" k] by (simp add: k(2) get_at_drop)
qed

lemma prev_live:
  assumes "is_live xs i"
  shows "rposition (\<lambda>e. e \<noteq> None) (take i xs) = Some j \<Longrightarrow> is_live xs j \<and> Suc (rank xs j) = rank xs i"
    "rposition (\<lambda>e. e \<noteq> None) (take i xs) = None \<longleftrightarrow> rank xs i = 0"
proof -
  show "rposition (\<lambda>e. e \<noteq> None) (take i xs) = None \<longleftrightarrow> rank xs i = 0"
    by (simp add: last_live rank_def del: not_None_eq)
  assume "rposition (\<lambda>e. e \<noteq> None) (take i xs) = Some j"
  from last_live(1) [OF this] show "is_live xs j \<and> Suc (rank xs j) = rank xs i"
    by (auto simp: rank_def get_at_Some_iff min_absorb1)
qed

lemma position_map_Some: "position (\<lambda>e. e \<noteq> None) (map Some ys) = (if ys = [] then None else Some 0)"
  by (cases ys) auto

lemma rposition_map_Some: "rposition (\<lambda>e. e \<noteq> None) (map Some ys) = (if ys = [] then None else Some (length ys - 1))"
  by (induction ys) auto

lemma position_map: "position P (map f xs) = position (P \<circ> f) xs"
  by (induction xs) auto

lemma rposition_map: "rposition P (map f xs) = rposition (P \<circ> f) xs"
  by (induction xs) (auto split: option.split)

lemma slots_live: "layout_ok E st \<Longrightarrow> \<exists>ys. (\<forall>s. st \<noteq> MixedStorage s) \<longrightarrow> slot_list st = map Some ys \<and> length ys = storage_len st"
  by (cases st) (auto simp: slot_list_def storage_len_pairs)

lemma index_slots:
  assumes "layout_ok E st"
  shows "first_index st = position (\<lambda>e. e \<noteq> None) (slot_list st)"
    "last_index st = rposition (\<lambda>e. e \<noteq> None) (slot_list st)"
    "next_index st i = next_live (slot_list st) i"
    "i \<le> length (slot_list st) \<Longrightarrow> previous_index st i = rposition (\<lambda>e. e \<noteq> None) (take i (slot_list st))"
proof -
  have "first_index st = position (\<lambda>e. e \<noteq> None) (slot_list st) \<and> last_index st = rposition (\<lambda>e. e \<noteq> None) (slot_list st) \<and>
    next_index st i = next_live (slot_list st) i \<and>
    (i \<le> length (slot_list st) \<longrightarrow> previous_index st i = rposition (\<lambda>e. e \<noteq> None) (take i (slot_list st)))"
  proof (cases "\<exists>s. st = MixedStorage s")
    case True
    then show ?thesis
      by (auto simp: first_index_def last_index_def next_index_def previous_index_def slot_list_def next_live_def
          position_map rposition_map drop_map take_map comp_def simp del: not_None_eq intro!: option.map_cong)
  next
    case False
    then obtain ys where ys: "slot_list st = map Some ys" "length ys = storage_len st"
      using slots_live [OF assms] by blast
    have "storage_len st = 0 \<longleftrightarrow> ys = []" using ys(2) by (metis length_0_conv)
    then have "first_index st = (if ys = [] then None else Some 0)" "last_index st = (if ys = [] then None else Some (length ys - 1))"
      "next_index st i = (if i + 1 < length ys then Some (i + 1) else None)" "previous_index st i = (if i = 0 then None else Some (i - 1))"
      using False ys(2) by (cases st; simp add: first_index_def last_index_def next_index_def previous_index_def storage_len_def)+
    then show ?thesis
      by (auto simp: ys(1) position_map_Some rposition_map_Some next_live_def drop_map take_map min_def simp del: not_None_eq)
  qed
  then show "first_index st = position (\<lambda>e. e \<noteq> None) (slot_list st)"
    "last_index st = rposition (\<lambda>e. e \<noteq> None) (slot_list st)"
    "next_index st i = next_live (slot_list st) i"
    "i \<le> length (slot_list st) \<Longrightarrow> previous_index st i = rposition (\<lambda>e. e \<noteq> None) (take i (slot_list st))" by auto
qed

section \<open>Lookup and the append key\<close>

definition next_ok :: "int option \<Rightarrow> array_key set \<Rightarrow> bool" where
  "next_ok next keys \<longleftrightarrow> (\<forall>n. next = Some n \<longrightarrow> in_i64 n) \<and>
     (\<forall>k. IntKey k \<in> keys \<longrightarrow> in_i64 k \<and> (\<exists>n. next = Some n \<and> (k < n \<or> k = i64_max)))"

lemma append_ok_iff: "append_ok st \<longleftrightarrow> next_ok (st_next_append_key st) (fst ` set (iter_pairs st))"
  by (simp add: append_ok_def next_ok_def)

lemma next_ok_mono: "next_ok n K \<Longrightarrow> K' \<subseteq> K \<Longrightarrow> next_ok n K'"
  by (auto simp: next_ok_def)

lemma next_ok_insert:
  assumes "next_ok n K" "key_in_range k"
  shows "next_ok (spec_next_key k n) (insert k K)"
proof (cases k)
  case (IntKey i)
  then have i: "in_i64 i" using assms(2) by (simp add: key_in_range_def)
  then have c: "in_i64 (clamp_i64 (i + 1))" "i < clamp_i64 (i + 1) \<or> i = i64_max"
    by (auto simp: in_i64_def clamp_i64_def)
  show ?thesis
    using assms(1) i c by (cases n) (auto simp: IntKey next_ok_def spec_next_key_def max_def)
qed (use assms in \<open>auto simp: next_ok_def spec_next_key_def\<close>)

lemma key_in_range_keys: "next_ok n K \<Longrightarrow> k \<in> K \<Longrightarrow> key_in_range k"
  by (cases k) (auto simp: next_ok_def key_in_range_def)

lemma bump_append_key_header:
  "st_next_append_key (bump_append_key k st) = spec_next_key k (st_next_append_key st)"
  by (auto simp: bump_append_key_def spec_next_key_def Let_def max_def split: array_key.split option.split)

lemma bump_append_key_same [simp]:
  "layout_ok E (bump_append_key k st) = layout_ok E st" "slot_list (bump_append_key k st) = slot_list st"
  "st_pointer (bump_append_key k st) = st_pointer st" "iter_pairs (bump_append_key k st) = iter_pairs st"
  by (simp_all add: bump_append_key_def Let_def split: array_key.split option.split)

lemma bump_mutation_epoch_same [simp]:
  "layout_ok E (bump_mutation_epoch st) = layout_ok E st" "slot_list (bump_mutation_epoch st) = slot_list st"
  "st_pointer (bump_mutation_epoch st) = st_pointer st" "iter_pairs (bump_mutation_epoch st) = iter_pairs st"
  "st_next_append_key (bump_mutation_epoch st) = st_next_append_key st" "pointer_ok (bump_mutation_epoch st) = pointer_ok st"
  by (simp_all add: bump_mutation_epoch_def pointer_ok_def)

lemma abs_array_simps [simp]:
  "oa_pairs (abs_array st) = iter_pairs st"
  "oa_position (abs_array st) = map_option (rank (slot_list st)) (st_pointer st)"
  "oa_next_key (abs_array st) = st_next_append_key st"
  by (simp_all add: abs_array_def)

lemma storage_okI:
  "layout_ok E st \<Longrightarrow> pointer_ok st \<Longrightarrow> next_ok (st_next_append_key st) (fst ` set (iter_pairs st)) \<Longrightarrow> storage_ok E st"
  by (simp add: storage_ok_def append_ok_iff)

lemma storage_okD:
  assumes "storage_ok E st"
  shows "layout_ok E st" "pointer_ok st" "next_ok (st_next_append_key st) (fst ` set (iter_pairs st))"
    "distinct (map fst (live (slot_list st)))"
  using assms distinct_pairs [of E st] by (simp_all add: storage_ok_def append_ok_iff iter_pairs_slots)

lemma find_index_lookup:
  assumes "layout_ok E st"
  shows "find_index st k = Some i \<Longrightarrow> \<exists>v. get_at (slot_list st) i = Some (Some (k, v)) \<and> map_of (iter_pairs st) k = Some v"
    "find_index st k = None \<longleftrightarrow> k \<notin> fst ` set (iter_pairs st)"
proof -
  note dist = distinct_pairs [OF assms, unfolded iter_pairs_slots]
  have found: "\<exists>v. get_at (slot_list st) i = Some (Some (k, v)) \<and> map_of (iter_pairs st) k = Some v" if "find_index st k = Some i" for i
    using that has_slot_lookup [OF _ dist, of k i] find_index_slot [OF assms, of k i]
    by (auto simp: iter_pairs_slots has_slot_def)
  then show "find_index st k = Some i \<Longrightarrow> \<exists>v. get_at (slot_list st) i = Some (Some (k, v)) \<and> map_of (iter_pairs st) k = Some v" .
  show "find_index st k = None \<longleftrightarrow> k \<notin> fst ` set (iter_pairs st)"
  proof (cases "find_index st k")
    case None
    then show ?thesis
      using find_index_None_slot [OF assms, of k] no_slot_lookup(2) [of "slot_list st" k] by (simp add: iter_pairs_slots)
  next
    case (Some i)
    then obtain v where "map_of (iter_pairs st) k = Some v" using found by blast
    then show ?thesis using Some by (force dest: map_of_SomeD)
  qed
qed

lemma array_get_find: "array_get st k = (case find_index st k of None \<Rightarrow> None | Some i \<Rightarrow> get_value st i)"
  by (auto simp: array_get_def find_index_def get_value_def split: array_storage.split array_key.split option.split)

lemma array_get_map_of: "layout_ok E st \<Longrightarrow> array_get st k = map_of (iter_pairs st) k"
  using find_index_lookup [of E st k] map_of_eq_None_iff [of "iter_pairs st" k]
  by (cases "find_index st k") (auto simp: array_get_find get_value_slot)

section \<open>Insertion\<close>

lemma start_pointer_ok:
  assumes "layout_ok E st" "pointer_ok st" "iter_pairs st \<noteq> []"
  shows "layout_ok E (start_pointer st) \<and> slot_list (start_pointer st) = slot_list st \<and> pointer_ok (start_pointer st) \<and>
    st_next_append_key (start_pointer st) = st_next_append_key st \<and>
    map_option (rank (slot_list st)) (st_pointer (start_pointer st))
      = (if st_pointer st = None then Some 0 else map_option (rank (slot_list st)) (st_pointer st))"
proof (cases "st_pointer st")
  case None
  obtain i where i: "first_index st = Some i"
    using assms(3) first_live(2) [of "slot_list st"] unfolding index_slots(1) [OF assms(1)] iter_pairs_slots by blast
  then have "is_live (slot_list st) i \<and> rank (slot_list st) i = 0"
    using first_live(1) unfolding index_slots(1) [OF assms(1)] by blast
  then show ?thesis
    using assms(1) None i by (simp add: start_pointer_def pointer_ok_def)
next
  case (Some a)
  then show ?thesis using assms by (simp add: start_pointer_def)
qed

lemma storage_push:
  fixes shared :: bool and v :: php_value
  assumes ok: "layout_ok E st" and pushable: "pushable E k st" and fresh: "k \<notin> fst ` set (iter_pairs st)" and ptr: "pointer_ok st"
    and next_ok: "next_ok (st_next_append_key st) (insert k (fst ` set (iter_pairs st)))"
  defines "new \<equiv> bump_mutation_epoch (start_pointer (push_entry E (array_entry_new k shared v) st))"
  shows "storage_ok E new" "iter_pairs new = iter_pairs st @ [(k, v)]" "st_next_append_key new = st_next_append_key st"
    "oa_position (abs_array new) = (if st_pointer st = None then Some 0 else map_option (rank (slot_list st)) (st_pointer st))"
proof -
  let ?p = "push_entry E (array_entry_new k shared v) st"
  have p: "layout_ok E ?p" "slot_list ?p = slot_list st @ [Some (k, v)]"
    using push_layout_ok [OF ok pushable fresh] push_slots [OF ok pushable] by auto
  then have pairs: "iter_pairs ?p = iter_pairs st @ [(k, v)]" by (simp add: iter_pairs_slots)
  have live: "is_live (slot_list st) i \<Longrightarrow> i \<le> length (slot_list st) \<and> is_live (slot_list ?p) i" for i
    by (auto simp: p(2) get_at_append dest: get_at_Some_less)
  then have ptr': "pointer_ok ?p" using ptr by (simp add: pointer_ok_def)
  have rank: "map_option (rank (slot_list ?p)) (st_pointer st) = map_option (rank (slot_list st)) (st_pointer st)"
    using ptr live by (cases "st_pointer st") (auto simp: pointer_ok_def p(2) rank_append)
  note start = start_pointer_ok [OF p(1) ptr', unfolded pairs]
  have pairs': "iter_pairs (start_pointer ?p) = iter_pairs st @ [(k, v)]" using start pairs by (simp add: iter_pairs_slots)
  then show "iter_pairs new = iter_pairs st @ [(k, v)]" by (simp add: new_def)
  show "st_next_append_key new = st_next_append_key st" using start by (simp add: new_def)
  show "storage_ok E new"
    using start next_ok pairs' by (intro storage_okI) (simp_all add: new_def)
  show "oa_position (abs_array new) = (if st_pointer st = None then Some 0 else map_option (rank (slot_list st)) (st_pointer st))"
    using start rank by (simp add: new_def)
qed

lemma live_update: "get_at xs i = Some (Some p) \<Longrightarrow> is_live (xs[i := Some q]) j = is_live xs j"
  by (cases "i = j") (auto simp: get_at_Some_iff)

lemma bump_append_key_kind [simp]:
  "is_packed (bump_append_key k st) = is_packed st" "storage_len (bump_append_key k st) = storage_len st"
  by (auto simp: bump_append_key_def Let_def storage_len_def is_packed_def set_next_append_key_def
      split: array_key.split option.split array_storage.split)

lemma insert_refines:
  assumes ok: "storage_ok E st" and key: "key_in_range k"
  shows "\<exists>st'. array_insert E k shared v st = Some (fst (spec_insert k v (abs_array st)), st') \<and>
    storage_ok E st' \<and> abs_array st' = snd (spec_insert k v (abs_array st))"
proof -
  note ok' = storage_okD [OF ok]
  let ?b = "bump_append_key k st"
  have b: "layout_ok E ?b" "slot_list ?b = slot_list st" "iter_pairs ?b = iter_pairs st" using ok'(1) by simp_all
  have nxt: "next_ok (spec_next_key k (st_next_append_key st)) (insert k (fst ` set (iter_pairs st)))"
    by (rule next_ok_insert [OF ok'(3) key])
  show ?thesis
  proof (cases "find_index ?b k")
    case (Some i)
    from find_index_lookup(1) [OF b(1) Some] obtain old where
      at: "get_at (slot_list st) i = Some (Some (k, old))" and old: "map_of (iter_pairs st) k = Some old" by auto
    obtain st' where st': "replace_value i v (bump_mutation_epoch ?b) = Some (old, st')" "layout_ok E st'"
      "slot_list st' = (slot_list st)[i := Some (k, v)]" "st_next_append_key st' = spec_next_key k (st_next_append_key st)"
      "st_pointer st' = st_pointer st"
      using replace_value_ok [of E "bump_mutation_epoch ?b" i k old v] b(1) at by (auto simp: bump_append_key_header)
    have pairs: "iter_pairs st' = AList.update k v (iter_pairs st)"
      using live_replace(1) [of "slot_list st" k i v] at ok'(4) by (simp add: iter_pairs_slots st'(3) has_slot_def)
    have "pointer_ok st'"
      using ok'(2) live_update [OF at] by (simp add: pointer_ok_def st'(3,5))
    then have "storage_ok E st'"
      using st' pairs nxt old by (intro storage_okI) (auto simp: dom_update [unfolded dom_map_of_conv_image_fst])
    moreover have "array_insert E k shared v st = Some (Some old, st')" using Some st'(1) by (simp add: array_insert_def Let_def)
    moreover have "abs_array st' = snd (spec_insert k v (abs_array st))"
      using old rank_update [OF at] by (simp add: spec_insert_def abs_array_def pairs st' cong: option.map_cong)
    ultimately show ?thesis using old by (auto simp: spec_insert_def)
  next
    case None
    then have fresh: "k \<notin> fst ` set (iter_pairs st)" using find_index_lookup(2) [OF b(1)] by simp
    let ?p = "prepare_insert E k ?b"
    have p: "layout_ok E ?p" "slot_list ?p = slot_list st" "st_next_append_key ?p = spec_next_key k (st_next_append_key st)"
      "st_pointer ?p = st_pointer st" "pushable E k ?p"
      using prepare_insert_ok [OF b(1), of k] by (simp_all add: bump_append_key_header)
    have pairs: "iter_pairs ?p = iter_pairs st" by (simp add: iter_pairs_slots p(2))
    have "pointer_ok ?p" using ok'(2) by (simp add: pointer_ok_def p)
    note push = storage_push [OF p(1,5) _ this, unfolded pairs p(2-4), OF fresh nxt, of shared v]
    have "array_insert E k shared v st
        = Some (None, bump_mutation_epoch (start_pointer (push_entry E (array_entry_new k shared v) ?p)))"
      using None by (simp add: array_insert_def Let_def)
    moreover have "map_of (iter_pairs st) k = None" using fresh by (simp add: map_of_eq_None_iff)
    then have "fst (spec_insert k v (abs_array st)) = None"
      "abs_array (bump_mutation_epoch (start_pointer (push_entry E (array_entry_new k shared v) ?p))) = snd (spec_insert k v (abs_array st))"
      using push(2-4) fresh by (auto intro!: ordered_array.equality simp: spec_insert_def update_new)
    ultimately show ?thesis using push(1) by metis
  qed
qed

lemma can_append_iff:
  assumes "storage_ok E st"
  shows "can_append st \<longleftrightarrow> IntKey (unwrap_or (st_next_append_key st) 0) \<notin> fst ` set (iter_pairs st)"
proof -
  note ok = storage_okD [OF assms]
  show ?thesis
    using ok(3) find_index_lookup(2) [OF ok(1), of "IntKey i64_max"]
    by (cases "st_next_append_key st") (auto simp: can_append_def next_ok_def)
qed

lemma append_refines:
  assumes ok: "storage_ok E st"
  shows "case spec_append v (abs_array st) of
      Inl e \<Rightarrow> try_append E v st = Inl e
    | Inr (k, a) \<Rightarrow> (\<exists>st'. try_append E v st = Inr (k, st') \<and> storage_ok E st' \<and> abs_array st' = a)"
proof (cases "can_append st")
  case False
  then show ?thesis using can_append_iff [OF ok] by (simp add: spec_append_def try_append_def Let_def)
next
  case True
  note ok' = storage_okD [OF ok]
  define k where "k = IntKey (unwrap_or (st_next_append_key st) 0)"
  have fresh: "k \<notin> fst ` set (iter_pairs st)" using True can_append_iff [OF ok] by (simp add: k_def)
  have "key_in_range k"
    using ok'(3) by (cases "st_next_append_key st") (auto simp: k_def key_in_range_def next_ok_def in_i64_def)
  then have nxt: "next_ok (spec_next_key k (st_next_append_key st)) (insert k (fst ` set (iter_pairs st)))"
    by (rule next_ok_insert [OF ok'(3)])
  define st1 where "st1 = (if is_record st then make_record_mixed st else st)"
  have st1: "layout_ok E st1" "slot_list st1 = slot_list st" "header st1 = header st" "\<not> is_record st1"
    using make_record_mixed_ok [OF ok'(1)] ok'(1) by (auto simp: st1_def)
  define st3 where "st3 = (if is_packed st1 \<and> k = IntKey (int (storage_len st1)) then bump_append_key k st1 else make_mixed (bump_append_key k st1))"
  have b: "layout_ok E (bump_append_key k st1)" using st1(1) by simp
  have st3: "layout_ok E st3" "slot_list st3 = slot_list st" "st_next_append_key st3 = spec_next_key k (st_next_append_key st)"
    "st_pointer st3 = st_pointer st"
    using make_mixed_ok [OF b] st1 by (auto simp: st3_def bump_append_key_header)
  have pushable: "pushable E k st3"
  proof (cases "is_packed st1 \<and> k = IntKey (int (storage_len st1))")
    case True
    then have "is_packed (bump_append_key k st1)" "k = IntKey (int (storage_len (bump_append_key k st1)))" by simp_all
    then have "pushable E k (bump_append_key k st1)"
      by (cases "bump_append_key k st1") (auto simp: is_packed_def storage_len_def pushable_def)
    then show ?thesis using True by (simp add: st3_def)
  next
    case False
    then have "st3 = make_mixed (bump_append_key k st1)" unfolding st3_def by (rule if_not_P)
    then show ?thesis by (simp add: pushable_mixed)
  qed
  have pairs: "iter_pairs st3 = iter_pairs st" by (simp add: iter_pairs_slots st3(2))
  have "pointer_ok st3" using ok'(2) by (simp add: pointer_ok_def st3)
  note push = storage_push [OF st3(1) pushable _ this, unfolded pairs st3(2-4), OF fresh nxt, of False v]
  have "try_append E v st = Inr (k, bump_mutation_epoch (start_pointer (push_entry E (array_entry_new k False v) st3)))"
    using True st1(3) by (simp add: try_append_def Let_def k_def st3_def flip: st1_def)
  moreover have "map_of (iter_pairs st) k = None" using fresh by (simp add: map_of_eq_None_iff)
  then have "abs_array (bump_mutation_epoch (start_pointer (push_entry E (array_entry_new k False v) st3))) = snd (spec_insert k v (abs_array st))"
    using push(2-4) fresh by (auto intro!: ordered_array.equality simp: spec_insert_def update_new)
  ultimately show ?thesis using push(1) fresh by (simp add: spec_append_def Let_def flip: k_def)
qed

section \<open>Removal\<close>

lemma position_distinct:
  assumes "distinct (map fst ys)" "get_at ys j = Some (k, v)"
  shows "position (\<lambda>p. fst p = k) ys = Some j"
  unfolding position_Some_iff
proof (intro conjI allI impI)
  from assms(2) have j: "j < length ys" "ys ! j = (k, v)" by (auto simp: get_at_Some_iff)
  then show "j < length ys" "fst (ys ! j) = k" by simp_all
  show "fst (ys ! i) \<noteq> k" if "i < j" for i
    using nth_eq_iff_index_eq [OF assms(1), of i j] that j by auto
qed

lemma spec_remove_slot:
  assumes "distinct (map fst (live xs))" "get_at xs i = Some (Some (k, v))" "oa_pairs a = live xs"
  shows "spec_remove k a = Some (v, a\<lparr>oa_pairs := AList.delete k (live xs),
    oa_position := position_after_remove (rank xs i) (length (live xs)) (oa_position a)\<rparr>)"
proof -
  have "map_of (live xs) k = Some v"
    using has_slot_lookup [of xs k i v] assms by (auto simp: has_slot_def)
  moreover have "position (\<lambda>p. fst p = k) (live xs) = Some (rank xs i)"
    using position_distinct [OF assms(1)] get_at_rank [OF assms(2)] by blast
  ultimately show ?thesis by (simp add: spec_remove_def assms(3))
qed

text \<open>The pointer of a mixed array after a removal.\<close>

lemma remove_mixed_pointer:
  assumes at: "get_at xs i = Some (Some q)" and ptr: "\<And>p. ptr = Some p \<Longrightarrow> is_live xs p"
  defines "ptr' \<equiv> (case ptr of None \<Rightarrow> None
    | Some p \<Rightarrow> if live (xs[i := None]) = [] then None else if p = i then next_live xs i else Some p)"
  shows "ptr' = Some j \<Longrightarrow> is_live (xs[i := None]) j"
    "map_option (rank (xs[i := None])) ptr' = position_after_remove (rank xs i) (length (live xs)) (map_option (rank xs) ptr)"
proof -
  have i: "i < length xs" using at by (simp add: get_at_Some_iff)
  have other: "is_live (xs[i := None]) j \<longleftrightarrow> j \<noteq> i \<and> is_live xs j" for j
    using i by (cases "j = i") (auto simp: get_at_Some_iff)
  have len: "length (live xs) = Suc (length (live (xs[i := None])))"
    using at live_split [of i xs] live_update_None [of i xs] by (auto simp: get_at_Some_iff)
  note next_at = next_live [of xs i, OF exI, OF at]
  have next_ne: "next_live xs i = Some j \<Longrightarrow> i < j" for j by (auto simp: next_live_def)
  show "is_live (xs[i := None]) j" if "ptr' = Some j"
    using that ptr next_at(1) [of j] next_ne [of j] by (auto simp: ptr'_def other split: option.splits if_splits)
  show "map_option (rank (xs[i := None])) ptr' = position_after_remove (rank xs i) (length (live xs)) (map_option (rank xs) ptr)"
  proof (cases ptr)
    case None
    then show ?thesis by (simp add: ptr'_def position_after_remove_def)
  next
    case (Some p)
    then obtain r where p: "get_at xs p = Some (Some r)" using ptr by blast
    have ri: "rank xs i < length (live xs)" "rank xs p < length (live xs)"
      using get_at_rank(2) [OF at] get_at_rank(2) [OF p] by auto
    consider "p = i" | "i < p" | "p < i" by linarith
    then show ?thesis
    proof cases
      case 1
      show ?thesis
      proof (cases "next_live xs i")
        case None
        then show ?thesis using Some 1 next_at(2) by (simp add: ptr'_def position_after_remove_def)
      next
        case (Some j)
        then have "length (live xs) \<noteq> Suc (rank xs i)" "i < j" "rank xs j = Suc (rank xs i)"
          using next_at next_ne by auto
        then show ?thesis
          using ri \<open>ptr = Some p\<close> 1 Some len rank_remove [OF at, of j]
          by (auto simp: ptr'_def position_after_remove_def)
      qed
    next
      case 2
      then have "rank xs i < rank xs p" using rank_strict [OF at] by simp
      then show ?thesis
        using Some 2 ri len rank_remove [OF at, of p] by (auto simp: ptr'_def position_after_remove_def)
    next
      case 3
      then have "rank xs p < rank xs i" using rank_strict [OF p] by simp
      then show ?thesis
        using Some 3 ri len rank_remove [OF at, of p] by (auto simp: ptr'_def position_after_remove_def)
    qed
  qed
qed

lemma remove_mixed_refines:
  assumes ok: "layout_ok E st" and kind: "\<not> is_packed st" "\<not> is_record st" and ptr: "pointer_ok st"
    and at: "get_at (slot_list st) i = Some (Some (k, v))"
  obtains st2 where "remove_index E i st = Some ((k, v), st2)"
    "layout_ok E (adjust_pointer_after_remove i st2)" "pointer_ok (adjust_pointer_after_remove i st2)"
    "slot_list (adjust_pointer_after_remove i st2) = (slot_list st)[i := None]"
    "st_next_append_key (adjust_pointer_after_remove i st2) = st_next_append_key st"
    "oa_position (abs_array (adjust_pointer_after_remove i st2))
      = position_after_remove (rank (slot_list st) i) (length (iter_pairs st)) (oa_position (abs_array st))"
proof -
  obtain st2 where st2: "remove_index E i st = Some ((k, v), st2)" "layout_ok E st2" "slot_list st2 = (slot_list st)[i := None]"
    "\<not> is_packed st2" "\<not> is_record st2" "st_next_append_key st2 = st_next_append_key st" "st_pointer st2 = st_pointer st"
    by (rule remove_index_mixed [OF ok kind at])
  from st2(4,5) obtain s where s: "st2 = MixedStorage s" by (cases st2) (auto simp: is_packed_def is_record_def)
  let ?xs = "slot_list st"
  define ptr' where "ptr' = (case st_pointer st of None \<Rightarrow> None
    | Some p \<Rightarrow> if live (?xs[i := None]) = [] then None else if p = i then next_live ?xs i else Some p)"
  have empty: "storage_is_empty st2 \<longleftrightarrow> live (?xs[i := None]) = []"
    using storage_len_pairs [OF st2(2)] by (simp add: storage_is_empty_def iter_pairs_slots st2(3))
  have next_same: "next_index st2 i = next_live ?xs i"
    by (simp add: index_slots(3) [OF st2(2)] st2(3) next_live_def)
  have adj: "adjust_pointer_after_remove i st2 = set_internal_pointer ptr' st2"
  proof (cases "st_pointer st2")
    case None
    then have "set_internal_pointer None st2 = st2" by (simp add: s header_simps)
    then show ?thesis using None by (simp add: adjust_pointer_after_remove_def ptr'_def st2(7) [symmetric])
  next
    case (Some p)
    then show ?thesis
      using empty next_same by (simp add: adjust_pointer_after_remove_def ptr'_def st2(7) [symmetric] s)
  qed
  have live: "\<And>p. st_pointer st = Some p \<Longrightarrow> is_live ?xs p" using ptr by (simp add: pointer_ok_def)
  note moved = remove_mixed_pointer [of ?xs i "(k, v)" "st_pointer st", OF at live, folded ptr'_def]
  then have "pointer_ok (set_internal_pointer ptr' st2)" by (simp add: pointer_ok_def st2(3))
  then show thesis
    using that [OF st2(1)] moved(2) by (simp add: adj st2 iter_pairs_slots)
qed

lemma remove_packed_refines:
  assumes ok: "layout_ok E st" and kind: "is_packed st" and last: "i + 1 = storage_len st" and ptr: "pointer_ok st"
    and at: "get_at (slot_list st) i = Some (Some (k, v))"
  obtains st2 where "remove_index E i st = Some ((k, v), st2)"
    "layout_ok E (adjust_pointer_after_remove i st2)" "pointer_ok (adjust_pointer_after_remove i st2)"
    "iter_pairs (adjust_pointer_after_remove i st2) = butlast (iter_pairs st)"
    "st_next_append_key (adjust_pointer_after_remove i st2) = st_next_append_key st"
    "oa_position (abs_array (adjust_pointer_after_remove i st2))
      = position_after_remove (rank (slot_list st) i) (length (iter_pairs st)) (oa_position (abs_array st))"
proof -
  obtain st2 where st2: "remove_index E i st = Some ((k, v), st2)" "layout_ok E st2" "slot_list st2 = butlast (slot_list st)"
    "is_packed st2" "storage_len st2 = i" "st_next_append_key st2 = st_next_append_key st" "st_pointer st2 = st_pointer st"
    by (rule remove_index_packed [OF ok kind last at])
  from st2(4) obtain s where s: "st2 = PackedStorage s" by (cases st2) (auto simp: is_packed_def)
  have slots: "slot_list st = map Some (iter_pairs st)" using kind by (cases st) (auto simp: slot_list_def is_packed_def)
  have len: "length (iter_pairs st) = i + 1" using storage_len_pairs [OF ok] last by simp
  have live: "p < i + 1" if "st_pointer st = Some p" for p
    using ptr that len by (auto simp: pointer_ok_def slots get_at_Some_iff)
  define ptr' where "ptr' = (case st_pointer st of None \<Rightarrow> None | Some p \<Rightarrow> if p < i then Some p else None)"
  have adj: "adjust_pointer_after_remove i st2 = set_internal_pointer ptr' st2"
  proof (cases "st_pointer st2")
    case None
    then have "set_internal_pointer None st2 = st2" by (simp add: s header_simps)
    then show ?thesis using None by (simp add: adjust_pointer_after_remove_def ptr'_def st2(7) [symmetric])
  next
    case (Some p)
    then show ?thesis
      using st2(5) live [of p] by (auto simp: adjust_pointer_after_remove_def ptr'_def st2(7) [symmetric] s storage_is_empty_def)
  qed
  have slots2: "slot_list st2 = map Some (butlast (iter_pairs st))" by (simp add: st2(3) slots map_butlast)
  have "is_live (slot_list st2) p" if "p < i" for p using that len by (auto simp: slots2 get_at_def nth_butlast)
  then have "pointer_ok (set_internal_pointer ptr' st2)" by (auto simp: pointer_ok_def ptr'_def split: option.splits if_splits)
  moreover have "map_option (rank (slot_list st2)) ptr' = position_after_remove i (i + 1) (map_option (rank (slot_list st)) (st_pointer st))"
    using live len by (auto simp: ptr'_def slots2 slots position_after_remove_def split: option.split)
  moreover have "rank (slot_list st) i = i" using len by (simp add: slots)
  moreover have "iter_pairs st2 = butlast (iter_pairs st)" unfolding iter_pairs_slots [of st2] slots2 by simp
  ultimately show thesis using that [OF st2(1)] by (simp add: adj st2 len)
qed

lemma set_delete_keys: "fst ` set (AList.delete k ys) \<subseteq> fst ` set ys"
  by (auto simp: AList.delete_eq)

lemma delete_last_pair:
  assumes "distinct (map fst ys)" "get_at ys j = Some (k, v)" "length ys = Suc j"
  shows "AList.delete k ys = butlast ys"
proof -
  from assms(2,3) have ys: "ys = butlast ys @ [(k, v)]"
    by (metis append_butlast_last_id diff_Suc_1 get_at_Some_iff last_conv_nth length_greater_0_conv zero_less_Suc)
  then have "k \<notin> fst ` set (butlast ys)" using assms(1)
    by (metis distinct_append distinct_map fst_conv list.set_map map_append not_distinct_conv_prefix list.simps(9) list.set_intros(1) disjoint_iff)
  then show ?thesis by (subst ys) (simp add: delete_append delete_other)
qed

lemma compact_adjusted:
  assumes "layout_ok E st" "pointer_ok st" "next_ok (st_next_append_key st) (fst ` set (iter_pairs st))"
  shows "storage_ok E (bump_mutation_epoch (compact_mixed_if_needed st)) \<and>
    abs_array (bump_mutation_epoch (compact_mixed_if_needed st)) = abs_array st"
  using compact_ok [OF assms(1,2)] assms(3) by (auto intro!: storage_okI ordered_array.equality)

lemma remove_refines:
  assumes ok: "storage_ok E st"
  shows "case spec_remove k (abs_array st) of
      None \<Rightarrow> array_remove E k st = None
    | Some (v, a) \<Rightarrow> (\<exists>st'. array_remove E k st = Some (v, st') \<and> storage_ok E st' \<and> abs_array st' = a)"
proof (cases "find_index st k")
  case None
  then have "map_of (iter_pairs st) k = None"
    using find_index_lookup(2) [OF storage_okD(1) [OF ok]] by (simp add: map_of_eq_None_iff)
  then show ?thesis using None by (simp add: spec_remove_def array_remove_def)
next
  case (Some i)
  note ok' = storage_okD [OF ok]
  obtain v where at: "get_at (slot_list st) i = Some (Some (k, v))" using find_index_lookup(1) [OF ok'(1) Some] by blast
  define st1 where "st1 = (if is_record st then make_record_mixed st
    else if is_packed st \<and> i + 1 \<noteq> storage_len st then make_mixed st else st)"
  have st1: "layout_ok E st1" "slot_list st1 = slot_list st" "header st1 = header st"
    using make_record_mixed_ok [OF ok'(1)] make_mixed_ok [OF ok'(1)] ok'(1) by (auto simp: st1_def)
  have ptr: "pointer_ok st1" using ok'(2) by (simp add: pointer_ok_def st1)
  have pairs: "iter_pairs st1 = iter_pairs st" by (simp add: iter_pairs_slots st1(2))
  let ?pos = "position_after_remove (rank (slot_list st) i) (length (iter_pairs st)) (oa_position (abs_array st))"
  have "\<exists>st2. remove_index E i st1 = Some ((k, v), st2) \<and> layout_ok E (adjust_pointer_after_remove i st2) \<and>
      pointer_ok (adjust_pointer_after_remove i st2) \<and>
      iter_pairs (adjust_pointer_after_remove i st2) = AList.delete k (iter_pairs st) \<and>
      st_next_append_key (adjust_pointer_after_remove i st2) = st_next_append_key st \<and>
      oa_position (abs_array (adjust_pointer_after_remove i st2)) = ?pos"
  proof (cases "is_packed st1")
    case True
    then have st1_st: "st1 = st" and last: "i + 1 = storage_len st1" by (auto simp: st1_def split: if_splits)
    have slots: "slot_list st = map Some (iter_pairs st)" using True st1_st by (cases st) (auto simp: slot_list_def is_packed_def)
    have "length (iter_pairs st) = Suc i" using storage_len_pairs [OF ok'(1)] last st1_st by simp
    then have "AList.delete k (iter_pairs st) = butlast (iter_pairs st)"
      using delete_last_pair [of "iter_pairs st" i k v] at ok'(4) by (auto simp: slots get_at_map)
    then show ?thesis
      using remove_packed_refines [OF st1(1) True last ptr] at by (metis st1_st)
  next
    case False
    have rec: "\<not> is_record st1" by (auto simp: st1_def)
    have del: "live ((slot_list st)[i := None]) = AList.delete k (live (slot_list st))"
      using live_replace(2) [of "slot_list st" k i] at ok'(4) by (simp add: has_slot_def)
    obtain st2 where "remove_index E i st1 = Some ((k, v), st2)"
      "layout_ok E (adjust_pointer_after_remove i st2)" "pointer_ok (adjust_pointer_after_remove i st2)"
      "slot_list (adjust_pointer_after_remove i st2) = (slot_list st1)[i := None]"
      "st_next_append_key (adjust_pointer_after_remove i st2) = st_next_append_key st1"
      "oa_position (abs_array (adjust_pointer_after_remove i st2))
        = position_after_remove (rank (slot_list st1) i) (length (iter_pairs st1)) (oa_position (abs_array st1))"
      by (rule remove_mixed_refines [OF st1(1) False rec ptr]) (use at st1(2) in auto)
    then show ?thesis using del by (simp add: st1 pairs iter_pairs_slots)
  qed
  then obtain st2 where st2: "remove_index E i st1 = Some ((k, v), st2)" "layout_ok E (adjust_pointer_after_remove i st2)"
    "pointer_ok (adjust_pointer_after_remove i st2)"
    "iter_pairs (adjust_pointer_after_remove i st2) = AList.delete k (iter_pairs st)"
    "st_next_append_key (adjust_pointer_after_remove i st2) = st_next_append_key st"
    "oa_position (abs_array (adjust_pointer_after_remove i st2)) = ?pos" by blast
  have "next_ok (st_next_append_key st) (fst ` set (AList.delete k (iter_pairs st)))"
    by (rule next_ok_mono [OF ok'(3) set_delete_keys])
  then have final: "storage_ok E (bump_mutation_epoch (compact_mixed_if_needed (adjust_pointer_after_remove i st2))) \<and>
      abs_array (bump_mutation_epoch (compact_mixed_if_needed (adjust_pointer_after_remove i st2)))
        = abs_array (adjust_pointer_after_remove i st2)"
    using compact_adjusted [OF st2(2,3)] st2(4,5) by simp
  have "array_remove E k st = Some (v, bump_mutation_epoch (compact_mixed_if_needed (adjust_pointer_after_remove i st2)))"
    using Some st2(1) by (simp add: array_remove_def Let_def flip: st1_def)
  moreover have "spec_remove k (abs_array st) = Some (v, abs_array (adjust_pointer_after_remove i st2))"
    using spec_remove_slot [OF ok'(4) at, of "abs_array st"] st2(4-6) by (auto simp: iter_pairs_slots intro!: ordered_array.equality)
  ultimately show ?thesis using final by simp
qed

lemma next_ok_pop:
  assumes "next_ok (Some (clamp_i64 (i + 1))) K" "IntKey i \<in> K" "K' \<subseteq> K - {IntKey i}"
  shows "next_ok (Some i) K'"
  using assms unfolding next_ok_def clamp_i64_def in_i64_def by (auto split: if_splits) force+

lemma pop_refines:
  assumes ok: "storage_ok E st"
  shows "case spec_pop (abs_array st) of
      None \<Rightarrow> array_pop E st = None
    | Some (v, a) \<Rightarrow> (\<exists>st'. array_pop E st = Some (v, st') \<and> storage_ok E st' \<and> abs_array st' = a)"
proof (cases "last_index st")
  case None
  then have "iter_pairs st = []" using index_slots(2) [OF storage_okD(1) [OF ok]] last_live(2) [of "slot_list st"] by (simp add: iter_pairs_slots)
  then show ?thesis using None by (simp add: spec_pop_def array_pop_def)
next
  case (Some i)
  note ok' = storage_okD [OF ok]
  have "is_live (slot_list st) i \<and> Suc (rank (slot_list st) i) = length (iter_pairs st)"
    using Some index_slots(2) [OF ok'(1)] last_live(1) [of "slot_list st" i] by (simp add: iter_pairs_slots)
  then obtain k v where at: "get_at (slot_list st) i = Some (Some (k, v))"
    and rank: "rank (slot_list st) i = length (iter_pairs st) - 1" "length (iter_pairs st) = Suc (length (iter_pairs st) - 1)"
    by (metis diff_Suc_1 surj_pair)
  have last_pair: "get_at (iter_pairs st) (length (iter_pairs st) - 1) = Some (k, v)"
    using get_at_rank(1) [OF at] rank by (simp add: iter_pairs_slots)
  moreover have ne: "iter_pairs st \<noteq> []" using rank(2) by force
  ultimately have last: "last (iter_pairs st) = (k, v)" "iter_pairs st \<noteq> []" "(k, v) \<in> set (iter_pairs st)"
    using last_conv_nth [OF ne] last_in_set [OF ne] by (auto simp: get_at_Some_iff)
  have del: "AList.delete k (iter_pairs st) = butlast (iter_pairs st)"
    using delete_last_pair [OF _ last_pair rank(2)] ok'(4) by (simp add: iter_pairs_slots)
  have "spec_remove k (abs_array st) = Some (v, (abs_array st)\<lparr>oa_pairs := butlast (iter_pairs st),
      oa_position := position_after_remove (length (iter_pairs st) - 1) (length (iter_pairs st)) (oa_position (abs_array st))\<rparr>)"
    using spec_remove_slot [OF ok'(4) at, of "abs_array st"] del rank by (simp add: iter_pairs_slots)
  with remove_refines [OF ok, of k] obtain st' where st': "array_remove E k st = Some (v, st')" "storage_ok E st'"
    "abs_array st' = (abs_array st)\<lparr>oa_pairs := butlast (iter_pairs st),
      oa_position := position_after_remove (length (iter_pairs st) - 1) (length (iter_pairs st)) (oa_position (abs_array st))\<rparr>"
    by auto
  from arg_cong [OF st'(3), of oa_pairs] arg_cong [OF st'(3), of oa_next_key] arg_cong [OF st'(3), of oa_position]
  have abs: "iter_pairs st' = butlast (iter_pairs st)" "st_next_append_key st' = st_next_append_key st"
    "map_option (rank (slot_list st')) (st_pointer st') = position_after_remove (length (iter_pairs st) - 1) (length (iter_pairs st))
       (map_option (rank (slot_list st)) (st_pointer st))" by simp_all
  have key: "key_at st i = Some k" using at by (simp add: key_at_slot [OF ok'(1)])
  have sub: "fst ` set (butlast (iter_pairs st)) \<subseteq> fst ` set (iter_pairs st) - {k}"
    using del by (auto simp: AList.delete_eq simp flip: del)
  show ?thesis
  proof (cases "\<exists>j. k = IntKey j \<and> st_next_append_key st = Some (clamp_i64 (j + 1))")
    case True
    then obtain j where j: "k = IntKey j" "st_next_append_key st = Some (clamp_i64 (j + 1))" by blast
    have "storage_ok E (set_next_append_key (Some j) st')"
      using storage_okD [OF st'(2)] next_ok_pop [of j "fst ` set (iter_pairs st)"] ok'(3) j last(3) sub
      by (intro storage_okI) (force simp: pointer_ok_def abs(1))+
    then show ?thesis
      using last(1,2) Some key st'(1) j abs by (auto simp: spec_pop_def array_pop_def intro!: ordered_array.equality)
  next
    case False
    then have "array_pop E st = Some (v, st')"
      using Some key st'(1) by (auto simp: array_pop_def split: array_key.split)
    moreover have "spec_pop (abs_array st) = Some (v, abs_array st')"
      using last(1,2) abs False by (auto simp: spec_pop_def intro!: ordered_array.equality split: array_key.split)
    ultimately show ?thesis using st'(2) by simp
  qed
qed

section \<open>The internal pointer\<close>

lemma pointer_current:
  assumes "storage_ok E st"
  shows "pointer_value st = map_option snd (spec_current (abs_array st))" "pointer_key st = map_option fst (spec_current (abs_array st))"
proof -
  note ok = storage_okD [OF assms]
  have "pointer_value st = map_option snd (spec_current (abs_array st)) \<and> pointer_key st = map_option fst (spec_current (abs_array st))"
  proof (cases "st_pointer st")
    case None
    then show ?thesis by (simp add: pointer_value_def pointer_key_def spec_current_def)
  next
    case (Some i)
    then obtain p where p: "get_at (slot_list st) i = Some (Some p)" using ok(2) by (auto simp: pointer_ok_def)
    then show ?thesis
      using Some get_at_rank(1) [OF p]
      by (simp add: pointer_value_def pointer_key_def spec_current_def get_value_slot [OF ok(1)] key_at_slot [OF ok(1)] iter_pairs_slots)
  qed
  then show "pointer_value st = map_option snd (spec_current (abs_array st))" "pointer_key st = map_option fst (spec_current (abs_array st))" by auto
qed

lemma move_refines:
  assumes ok: "storage_ok E st" and "\<And>i. ptr = Some i \<Longrightarrow> is_live (slot_list st) i"
  shows "storage_ok E (set_internal_pointer ptr st)"
    "abs_array (set_internal_pointer ptr st) = (abs_array st)\<lparr>oa_position := map_option (rank (slot_list st)) ptr\<rparr>"
    "(case ptr of None \<Rightarrow> None | Some i \<Rightarrow> get_value st i) = fst (spec_move (map_option (rank (slot_list st)) ptr) (abs_array st))"
proof -
  note ok' = storage_okD [OF ok]
  show "storage_ok E (set_internal_pointer ptr st)"
    using ok' assms(2) by (intro storage_okI) (simp_all add: pointer_ok_def)
  show "abs_array (set_internal_pointer ptr st) = (abs_array st)\<lparr>oa_position := map_option (rank (slot_list st)) ptr\<rparr>"
    by (simp add: abs_array_def)
  show "(case ptr of None \<Rightarrow> None | Some i \<Rightarrow> get_value st i) = fst (spec_move (map_option (rank (slot_list st)) ptr) (abs_array st))"
  proof (cases ptr)
    case (Some i)
    then obtain p where p: "get_at (slot_list st) i = Some (Some p)" using assms(2) by blast
    then show ?thesis using Some get_at_rank(1) [OF p]
      by (simp add: spec_move_def Let_def spec_current_def get_value_slot [OF ok'(1)] iter_pairs_slots)
  qed (simp add: spec_move_def Let_def spec_current_def)
qed

lemma storage_empty_iff: "layout_ok E st \<Longrightarrow> storage_is_empty st \<longleftrightarrow> iter_pairs st = []"
  by (simp add: storage_is_empty_def storage_len_pairs)

text \<open>\<open>refines\<close> relates the result of a pointer operation with that of its specification.\<close>

definition refines :: "byte_env \<Rightarrow> 'a \<times> array_storage \<Rightarrow> 'a \<times> ordered_array \<Rightarrow> bool" where
  "refines E r s \<longleftrightarrow> fst r = fst s \<and> storage_ok E (snd r) \<and> abs_array (snd r) = snd s"

lemma refines_move:
  assumes "storage_ok E st" "\<And>i. ptr = Some i \<Longrightarrow> is_live (slot_list st) i" "pos = map_option (rank (slot_list st)) ptr"
    "r = (case ptr of None \<Rightarrow> None | Some i \<Rightarrow> get_value st i)"
  shows "refines E (r, set_internal_pointer ptr st) (spec_move pos (abs_array st))"
  using move_refines [OF assms(1,2)] assms(3,4) by (simp add: refines_def spec_move_def Let_def)

lemma set_pointer_same: "set_internal_pointer (st_pointer st) st = st"
  by (cases st) (simp_all add: header_simps)

lemma pointer_ops_refine:
  assumes ok: "storage_ok E st"
  shows "refines E (reset_pointer st) (spec_reset (abs_array st))" "refines E (end_pointer st) (spec_end (abs_array st))"
    "refines E (next_pointer st) (spec_next (abs_array st))" "refines E (prev_pointer st) (spec_prev (abs_array st))"
proof -
  note ok' = storage_okD [OF ok]
  note ix = index_slots [OF ok'(1)]
  show "refines E (reset_pointer st) (spec_reset (abs_array st))"
  proof (cases "first_index st")
    case None
    then have "iter_pairs st = []" using first_live(2) [of "slot_list st"] by (simp add: ix iter_pairs_slots)
    then show ?thesis
      using refines_move [OF ok, of None] by (simp add: reset_pointer_def storage_empty_iff [OF ok'(1)] spec_reset_def)
  next
    case (Some i)
    then have i: "is_live (slot_list st) i \<and> rank (slot_list st) i = 0" using first_live(1) [of "slot_list st" i] by (simp add: ix)
    then have "iter_pairs st \<noteq> []" using get_at_rank(2) [of "slot_list st" i] by (force simp: iter_pairs_slots)
    then show ?thesis
      using refines_move [OF ok, of "Some i"] i Some
      by (simp add: reset_pointer_def storage_empty_iff [OF ok'(1)] spec_reset_def)
  qed
  show "refines E (end_pointer st) (spec_end (abs_array st))"
  proof (cases "last_index st")
    case None
    then have "iter_pairs st = []" using last_live(2) [of "slot_list st"] by (simp add: ix iter_pairs_slots)
    moreover have "st_pointer st = None"
      using ok'(2) get_at_rank(2) [of "slot_list st"] calculation by (cases "st_pointer st") (auto simp: pointer_ok_def iter_pairs_slots)
    ultimately show ?thesis
      using None refines_move [OF ok, of None] set_pointer_same [of st] by (simp add: end_pointer_def spec_end_def)
  next
    case (Some i)
    then have i: "is_live (slot_list st) i \<and> Suc (rank (slot_list st) i) = length (iter_pairs st)"
      using last_live(1) [of "slot_list st" i] by (simp add: ix iter_pairs_slots)
    then have "iter_pairs st \<noteq> []" "rank (slot_list st) i = length (iter_pairs st) - 1" by auto
    then show ?thesis using refines_move [OF ok, of "Some i"] i Some by (simp add: end_pointer_def spec_end_def)
  qed
  have "refines E (next_pointer st) (spec_next (abs_array st)) \<and> refines E (prev_pointer st) (spec_prev (abs_array st))"
  proof (cases "st_pointer st")
    case None
    then show ?thesis
      using refines_move [OF ok, of None] set_pointer_same [of st]
      by (simp add: next_pointer_def prev_pointer_def spec_next_def spec_prev_def)
  next
    case (Some i)
    then have live: "is_live (slot_list st) i" using ok'(2) by (simp add: pointer_ok_def)
    then have le: "i \<le> length (slot_list st)" and len: "rank (slot_list st) i < length (iter_pairs st)"
      using get_at_rank(2) [of "slot_list st" i] by (auto simp: get_at_Some_iff iter_pairs_slots)
    have "refines E (next_pointer st) (spec_next (abs_array st))"
    proof (cases "next_index st i")
      case None
      then show ?thesis
        using refines_move [OF ok, of None] Some next_live(2) [OF live]
        by (simp add: ix next_pointer_def spec_next_def iter_pairs_slots)
    next
      case (Some j)
      then have j: "is_live (slot_list st) j \<and> rank (slot_list st) j = Suc (rank (slot_list st) i)"
        using next_live(1) [OF live] by (simp add: ix)
      then have "Suc (rank (slot_list st) i) < length (iter_pairs st)"
        using get_at_rank(2) [of "slot_list st" j] by (auto simp: iter_pairs_slots)
      then show ?thesis
        using refines_move [OF ok, of "Some j"] j Some \<open>st_pointer st = Some i\<close> by (simp add: next_pointer_def spec_next_def)
    qed
    moreover have "refines E (prev_pointer st) (spec_prev (abs_array st))"
    proof (cases "previous_index st i")
      case None
      then show ?thesis
        using refines_move [OF ok, of None] Some prev_live(2) [OF live] by (simp add: ix le prev_pointer_def spec_prev_def)
    next
      case (Some j)
      then have j: "is_live (slot_list st) j \<and> Suc (rank (slot_list st) j) = rank (slot_list st) i"
        using prev_live(1) [OF live] by (simp add: ix le)
      then have "rank (slot_list st) i \<noteq> 0" "rank (slot_list st) i - 1 = rank (slot_list st) j" by auto
      then show ?thesis
        using refines_move [OF ok, of "Some j"] j Some \<open>st_pointer st = Some i\<close> by (simp add: prev_pointer_def spec_prev_def)
    qed
    ultimately show ?thesis ..
  qed
  then show "refines E (next_pointer st) (spec_next (abs_array st))" "refines E (prev_pointer st) (spec_prev (abs_array st))" by auto
qed

subsection \<open>Positions of the pointer\<close>

lemma pointer_position_rank:
  assumes ok: "layout_ok E st" and target: "is_live (slot_list st) target"
  shows "is_live (slot_list st) i \<Longrightarrow> i \<le> target \<Longrightarrow>
    pointer_position_from st target i pos = Some (pos + (rank (slot_list st) target - rank (slot_list st) i))"
proof (induction "rank (slot_list st) target - rank (slot_list st) i" arbitrary: i pos rule: less_induct)
  case less
  let ?xs = "slot_list st"
  show ?case
  proof (cases "i = target")
    case True
    then show ?thesis by (simp add: pointer_position_from.simps)
  next
    case False
    then have lt: "rank ?xs i < rank ?xs target" using less.prems rank_strict by force
    have "rank ?xs target < length (live ?xs)" using target by (auto dest: get_at_rank(2))
    then obtain j where j: "next_index st i = Some j"
      using lt next_live(2) [OF less.prems(1)] by (cases "next_index st i") (auto simp: index_slots(3) [OF ok])
    then have live: "is_live ?xs j" "rank ?xs j = Suc (rank ?xs i)"
      using next_live(1) [OF less.prems(1), of j] by (simp_all add: index_slots(3) [OF ok])
    have "j \<le> target" using live lt target rank_strict [of ?xs target _ j] by (metis leD le_less_linear not_less_eq)
    then have "pointer_position_from st target j (pos + 1) = Some (pos + 1 + (rank ?xs target - rank ?xs j))"
      using less.hyps [of j] live lt by simp
    then show ?thesis
      using False j live lt by (subst pointer_position_from.simps) simp
  qed
qed

lemma advance_index_rank:
  assumes ok: "layout_ok E st" and "is_live (slot_list st) i"
  shows "(case advance_index st n (Some i) of
      None \<Rightarrow> length (iter_pairs st) \<le> rank (slot_list st) i + n
    | Some j \<Rightarrow> is_live (slot_list st) j \<and> rank (slot_list st) j = rank (slot_list st) i + n)"
  using assms(2)
proof (induction n arbitrary: i)
  case (Suc n)
  show ?case
  proof (cases "next_index st i")
    case None
    then have "advance_index st (Suc n) (Some i) = None" by (cases n) simp_all
    then show ?thesis using None next_live(2) [OF Suc.prems] by (simp add: index_slots(3) [OF ok] iter_pairs_slots)
  next
    case (Some j)
    then show ?thesis
      using Suc.IH [of j] next_live(1) [OF Suc.prems, of j] by (simp add: index_slots(3) [OF ok] split: option.splits)
  qed
qed simp

lemma native_pointer_position_rank:
  assumes "storage_ok E st"
  shows "native_pointer_position st = oa_position (abs_array st)"
proof (cases "st_pointer st")
  case (Some target)
  note ok = storage_okD [OF assms]
  have target: "is_live (slot_list st) target" using Some ok(2) by (simp add: pointer_ok_def)
  then obtain i where i: "first_index st = Some i"
    using first_live(2) [of "slot_list st"] get_at_rank(2) [of "slot_list st" target]
    by (cases "first_index st") (auto simp: index_slots(1) [OF ok(1)])
  then have first: "is_live (slot_list st) i" "rank (slot_list st) i = 0"
    using first_live(1) [of "slot_list st" i] by (simp_all add: index_slots(1) [OF ok(1)])
  then have "i \<le> target" using target rank_strict [of "slot_list st" target _ i] by (metis leI less_zeroE)
  then show ?thesis
    using Some i first pointer_position_rank [OF ok(1) target first(1), of 0] by (simp add: native_pointer_position_def)
qed (simp add: native_pointer_position_def)

lemma set_native_pointer_position_rank:
  assumes "storage_ok E st"
  shows "storage_ok E (set_native_pointer_position pos st) \<and>
    abs_array (set_native_pointer_position pos st) = (abs_array st)\<lparr>oa_position :=
      (case pos of None \<Rightarrow> None | Some p \<Rightarrow> if p < length (iter_pairs st) then Some p else None)\<rparr>"
proof -
  note ok = storage_okD [OF assms]
  define ptr where "ptr = (case pos of None \<Rightarrow> None | Some p \<Rightarrow> advance_index st p (first_index st))"
  have *: "(\<forall>i. ptr = Some i \<longrightarrow> is_live (slot_list st) i) \<and> map_option (rank (slot_list st)) ptr =
      (case pos of None \<Rightarrow> None | Some p \<Rightarrow> if p < length (iter_pairs st) then Some p else None)"
  proof (cases "first_index st")
    case None
    then have "iter_pairs st = []" using first_live(2) [of "slot_list st"] by (simp add: index_slots(1) [OF ok(1)] iter_pairs_slots)
    moreover have "advance_index st p None = None" for p by (cases p) simp_all
    ultimately show ?thesis using None by (simp add: ptr_def split: option.split)
  next
    case (Some i)
    then have "is_live (slot_list st) i \<and> rank (slot_list st) i = 0"
      using first_live(1) [of "slot_list st" i] by (simp add: index_slots(1) [OF ok(1)])
    then show ?thesis
      using advance_index_rank [OF ok(1), of i "the pos"] Some get_at_rank(2) [of "slot_list st"]
      by (cases pos) (auto simp: ptr_def iter_pairs_slots split: option.splits)
  qed
  then show ?thesis
    using move_refines(1,2) [OF assms, of ptr] by (simp add: set_native_pointer_position_def flip: ptr_def)
qed

lemma position_in_range: "storage_ok E st \<Longrightarrow> oa_position (abs_array st) = Some p \<Longrightarrow> p < length (iter_pairs st)"
  using get_at_rank(2) [of "slot_list st"] by (auto simp: storage_ok_def pointer_ok_def iter_pairs_slots)

lemma set_native_pointer_position_same:
  assumes "storage_ok E st"
  shows "set_native_pointer_position (native_pointer_position st) st = st"
proof -
  note ok = storage_okD [OF assms]
  define st' where "st' = set_native_pointer_position (native_pointer_position st) st"
  have st': "st' = set_internal_pointer (st_pointer st') st"
    by (cases st) (simp_all add: st'_def set_native_pointer_position_def header_simps)
  have slots: "slot_list st' = slot_list st" by (simp add: st'_def set_native_pointer_position_def)
  have "oa_position (abs_array st') = oa_position (abs_array st)"
    using set_native_pointer_position_rank [OF assms, of "native_pointer_position st"] position_in_range [OF assms]
    by (auto simp: st'_def native_pointer_position_rank [OF assms] split: option.splits)
  moreover have "pointer_ok st'"
    using set_native_pointer_position_rank [OF assms, of "native_pointer_position st"] by (simp add: st'_def storage_ok_def)
  ultimately have "st_pointer st' = st_pointer st"
    using ok(2) rank_inject by (cases "st_pointer st'"; cases "st_pointer st") (fastforce simp: pointer_ok_def slots)+
  then show ?thesis using st' set_pointer_same [of st] by (simp add: st'_def)
qed

section \<open>Iteration by cursor\<close>

lemma mixed_cursor_step:
  "case mixed_cursor es c of
     (None, c') \<Rightarrow> live (drop c es) = []
   | (Some p, c') \<Rightarrow> c < c' \<and> c' \<le> length es \<and> map entry_pair (live (drop c es)) = p # map entry_pair (live (drop c' es))"
proof (induction es c rule: mixed_cursor.induct)
  case (1 es c)
  show ?case
  proof (cases "c < length es")
    case True
    then have d: "drop c es = es ! c # drop (Suc c) es" by (simp add: Cons_nth_drop_Suc)
    show ?thesis
    proof (cases "es ! c")
      case None
      then show ?thesis
        using "1.IH" [OF True None] True d by (subst mixed_cursor.simps) (auto split: prod.splits option.splits)
    next
      case (Some e)
      then show ?thesis using True d by (subst mixed_cursor.simps) (simp add: entry_pair_def)
    qed
  qed (subst mixed_cursor.simps, simp)
qed

lemma cursor_step:
  assumes "layout_ok E st"
  shows "case next_pair_at_cursor st c of
     (None, c') \<Rightarrow> live (drop c (slot_list st)) = []
   | (Some p, c') \<Rightarrow> c < c' \<and> c' \<le> length (slot_list st) \<and> live (drop c (slot_list st)) = p # live (drop c' (slot_list st))"
proof (cases "\<exists>s. st = MixedStorage s")
  case True
  then obtain s where "st = MixedStorage s" by blast
  then show ?thesis
    using mixed_cursor_step [of c "mixed_entries s"]
    by (cases "mixed_cursor (mixed_entries s) c") (simp add: next_pair_at_cursor_def slot_list_def drop_map live_map split: option.splits)
next
  case False
  then have slots: "slot_list st = map Some (iter_pairs st)" by (cases st) (auto simp: slot_list_def)
  have "pair_at st c = (case key_at st c of None \<Rightarrow> None | Some key \<Rightarrow> map_option (\<lambda>value. (key, value)) (get_value st c))"
    using False by (cases st) (simp_all add: pair_at_def cong: option.case_cong)
  then have pair: "pair_at st c = get_at (iter_pairs st) c"
    by (cases "get_at (iter_pairs st) c")
       (simp_all add: key_at_slot [OF assms] get_value_slot [OF assms] slots get_at_map del: get_at_None_iff)
  show ?thesis
  proof (cases "c < length (iter_pairs st)")
    case True
    then have "next_pair_at_cursor st c = (Some (iter_pairs st ! c), c + 1)"
      using False pair by (cases st) (simp_all add: next_pair_at_cursor_def get_at_def)
    then show ?thesis using True by (simp add: slots drop_map Cons_nth_drop_Suc [symmetric])
  next
    case out: False
    then have "next_pair_at_cursor st c = (None, c)"
      using False pair by (cases st) (simp_all add: next_pair_at_cursor_def get_at_def)
    then show ?thesis using out by (simp add: slots)
  qed
qed

end
