(* ===== verification/Php_Array_Map.thy ===== *)
theory Php_Array_Map
  imports Php_Array_Spec
begin

text \<open>
  Arrays as ordered maps: the laws a client of \<open>PhpArray\<close> relies on, as a locale that the storage
  interprets, the runs of whole sequences of operations, and the properties of the array component.
\<close>

section \<open>Ordered maps\<close>

locale ordered_map =
  fixes good :: "'s \<Rightarrow> bool"
    and pairs :: "'s \<Rightarrow> ('k \<times> 'v) list"
    and key_ok :: "'k \<Rightarrow> bool"
    and put :: "'k \<Rightarrow> 'v \<Rightarrow> 's \<Rightarrow> 's"
    and del :: "'k \<Rightarrow> 's \<Rightarrow> 's"
    and lookup :: "'s \<Rightarrow> 'k \<Rightarrow> 'v option"
  assumes distinct_keys: "good s \<Longrightarrow> distinct (map fst (pairs s))"
    and lookup_pairs: "good s \<Longrightarrow> lookup s k = map_of (pairs s) k"
    and put_good: "good s \<Longrightarrow> key_ok k \<Longrightarrow> good (put k v s)"
    and put_pairs: "good s \<Longrightarrow> key_ok k \<Longrightarrow> pairs (put k v s) = AList.update k v (pairs s)"
    and del_good: "good s \<Longrightarrow> good (del k s)"
    and del_pairs: "good s \<Longrightarrow> pairs (del k s) = AList.delete k (pairs s)"
begin

lemma lookup_put: "good s \<Longrightarrow> key_ok k \<Longrightarrow> lookup (put k v s) k' = (if k' = k then Some v else lookup s k')"
  by (simp add: lookup_pairs put_good put_pairs update_conv')

lemma lookup_del: "good s \<Longrightarrow> lookup (del k s) k' = (if k' = k then None else lookup s k')"
  by (simp add: lookup_pairs del_good del_pairs delete_conv')

lemma put_keeps_order:
  "good s \<Longrightarrow> key_ok k \<Longrightarrow>
    map fst (pairs (put k v s)) = (if k \<in> fst ` set (pairs s) then map fst (pairs s) else map fst (pairs s) @ [k])"
  by (simp add: put_pairs update_keys)

definition put_all :: "('k \<times> 'v) list \<Rightarrow> 's \<Rightarrow> 's" where
  "put_all kvs s = foldl (\<lambda>s (k, v). put k v s) s kvs"

lemma put_all_spec:
  "good s \<Longrightarrow> list_all (\<lambda>kv. key_ok (fst kv)) kvs \<Longrightarrow>
    good (put_all kvs s) \<and> pairs (put_all kvs s) = AList.updates (map fst kvs) (map snd kvs) (pairs s)"
proof (induction kvs arbitrary: s)
  case (Cons kv kvs)
  obtain k v where kv: "kv = (k, v)" by (cases kv)
  then show ?case using Cons.IH [of "put k v s"] Cons.prems by (simp add: put_all_def put_good put_pairs)
qed (simp add: put_all_def)

text \<open>The last binding of a key wins, as in \<open>map_of\<close> of the reversed list.\<close>

lemma lookup_put_all:
  assumes "good s" "list_all (\<lambda>kv. key_ok (fst kv)) kvs"
  shows "lookup (put_all kvs s) k = (case map_of (rev kvs) k of None \<Rightarrow> lookup s k | Some v \<Rightarrow> Some v)"
  using assms
proof (induction kvs arbitrary: s)
  case (Cons kv kvs)
  obtain k' v where kv: "kv = (k', v)" by (cases kv)
  then show ?case
    using Cons.IH [of "put k' v s"] Cons.prems
    by (simp add: put_all_def put_good lookup_put map_add_def split: option.split)
qed (simp add: put_all_def)

end

definition insert_st :: "byte_env \<Rightarrow> bool \<Rightarrow> array_key \<Rightarrow> php_value \<Rightarrow> array_storage \<Rightarrow> array_storage" where
  "insert_st E shared key value st = (case array_insert E key shared value st of None \<Rightarrow> st | Some (_, st') \<Rightarrow> st')"

definition remove_st :: "byte_env \<Rightarrow> array_key \<Rightarrow> array_storage \<Rightarrow> array_storage" where
  "remove_st E key st = (case array_remove E key st of None \<Rightarrow> st | Some (_, st') \<Rightarrow> st')"

lemma insert_st_spec:
  assumes "storage_ok E st" "key_in_range k"
  shows "storage_ok E (insert_st E shared k v st) \<and> abs_array (insert_st E shared k v st) = snd (spec_insert k v (abs_array st))"
  using insert_refines [OF assms, of shared v] by (auto simp: insert_st_def)

lemma spec_remove_pairs:
  assumes "distinct (map fst (oa_pairs a))"
  shows "oa_pairs (case spec_remove k a of None \<Rightarrow> a | Some (_, b) \<Rightarrow> b) = AList.delete k (oa_pairs a)"
proof (cases "map_of (oa_pairs a) k")
  case None
  then have "AList.delete k (oa_pairs a) = oa_pairs a" by (simp add: delete_other map_of_eq_None_iff)
  then show ?thesis using None by (simp add: spec_remove_def)
next
  case (Some v)
  then have "position (\<lambda>p. fst p = k) (oa_pairs a) \<noteq> None"
    using map_of_SomeD [OF Some] by (auto simp: position_None_iff simp del: not_None_eq intro!: bexI [of _ "(k, v)"])
  then show ?thesis using Some by (auto simp: spec_remove_def)
qed

lemma remove_st_spec:
  assumes "storage_ok E st"
  shows "storage_ok E (remove_st E k st) \<and>
    abs_array (remove_st E k st) = (case spec_remove k (abs_array st) of None \<Rightarrow> abs_array st | Some (_, b) \<Rightarrow> b)"
  using remove_refines [OF assms, of k] assms by (auto simp: remove_st_def split: option.splits)

interpretation array_map: ordered_map "storage_ok E" iter_pairs key_in_range "insert_st E shared" "remove_st E" array_get
  for E shared
proof unfold_locales
  fix s :: array_storage and k v
  assume ok: "storage_ok E s"
  note ok' = storage_okD [OF ok]
  show "distinct (map fst (iter_pairs s))" using ok'(4) by (simp add: iter_pairs_slots)
  show "array_get s k = map_of (iter_pairs s) k" by (rule array_get_map_of [OF ok'(1)])
  show "storage_ok E (remove_st E k s)" using remove_st_spec [OF ok] by simp
  show "iter_pairs (remove_st E k s) = AList.delete k (iter_pairs s)"
    using remove_st_spec [OF ok, of k] spec_remove_pairs [of "abs_array s" k] ok'(4)
    by (metis abs_array_simps(1) iter_pairs_slots)
  assume key: "key_in_range k"
  show "storage_ok E (insert_st E shared k v s)" using insert_st_spec [OF ok key] by simp
  show "iter_pairs (insert_st E shared k v s) = AList.update k v (iter_pairs s)"
    using arg_cong [OF conjunct2 [OF insert_st_spec [OF ok key, of shared v]], of oa_pairs] by (simp add: spec_insert_def)
qed

section \<open>Starting points\<close>

lemma storage_empty_ok: "storage_ok E (storage_empty ident)"
  by (rule storage_okI)
     (simp_all add: storage_empty_def layout_ok_def pointer_ok_def next_ok_def header_simps iter_pairs_def metadata_of_packed_def)

lemma storage_from_packed_ok:
  assumes "in_i64 (int (length vs))"
  shows "storage_ok E (storage_from_packed ident vs)"
    "iter_pairs (storage_from_packed ident vs) = map (\<lambda>(i, v). (IntKey (int i), v)) (enumerate 0 vs)"
proof -
  show pairs: "iter_pairs (storage_from_packed ident vs) = map (\<lambda>(i, v). (IntKey (int i), v)) (enumerate 0 vs)"
    by (simp add: storage_from_packed_def iter_pairs_def)
  have "pointer_ok (storage_from_packed ident vs)"
    by (simp add: storage_from_packed_def pointer_ok_def header_simps slot_packed) (cases vs, simp_all)
  moreover have "next_ok (st_next_append_key (storage_from_packed ident vs)) (fst ` set (iter_pairs (storage_from_packed ident vs)))"
    using assms unfolding pairs
    by (auto simp: storage_from_packed_def header_simps next_ok_def in_i64_def in_set_enumerate_eq)
  ultimately show "storage_ok E (storage_from_packed ident vs)"
    by (intro storage_okI) (simp_all add: storage_from_packed_def layout_ok_def)
qed

definition demo_array :: array_storage where
  "demo_array = storage_from_packed 1 [VInt 7, VString ''a'', VInt 9]"

lemma demo_array_ok: "storage_ok E demo_array"
  unfolding demo_array_def by (rule storage_from_packed_ok) (simp add: in_i64_def)

section \<open>Sequences of operations\<close>

datatype array_op = OpInsert array_key bool php_value | OpAppend php_value | OpRemove array_key | OpPop
  | OpReset | OpEnd | OpNext | OpPrev | OpSeek "nat option"

text \<open>A step is \<open>None\<close> when the operation panics.\<close>

definition array_step :: "byte_env \<Rightarrow> array_op \<Rightarrow> array_storage \<Rightarrow> array_storage option" where
  "array_step E op st = (case op of
     OpInsert key shared value \<Rightarrow> map_option snd (array_insert E key shared value st)
   | OpAppend value \<Rightarrow> Some (snd (array_append E value st))
   | OpRemove key \<Rightarrow> if find_index st key = None then Some st else map_option snd (array_remove E key st)
   | OpPop \<Rightarrow> if last_index st = None then Some st else map_option snd (array_pop E st)
   | OpReset \<Rightarrow> Some (snd (reset_pointer st))
   | OpEnd \<Rightarrow> Some (snd (end_pointer st))
   | OpNext \<Rightarrow> Some (snd (next_pointer st))
   | OpPrev \<Rightarrow> Some (snd (prev_pointer st))
   | OpSeek pos \<Rightarrow> Some (set_native_pointer_position pos st))"

definition spec_step :: "array_op \<Rightarrow> ordered_array \<Rightarrow> ordered_array" where
  "spec_step op a = (case op of
     OpInsert key shared value \<Rightarrow> snd (spec_insert key value a)
   | OpAppend value \<Rightarrow> (case spec_append value a of Inl _ \<Rightarrow> a | Inr (_, b) \<Rightarrow> b)
   | OpRemove key \<Rightarrow> (case spec_remove key a of None \<Rightarrow> a | Some (_, b) \<Rightarrow> b)
   | OpPop \<Rightarrow> (case spec_pop a of None \<Rightarrow> a | Some (_, b) \<Rightarrow> b)
   | OpReset \<Rightarrow> snd (spec_reset a)
   | OpEnd \<Rightarrow> snd (spec_end a)
   | OpNext \<Rightarrow> snd (spec_next a)
   | OpPrev \<Rightarrow> snd (spec_prev a)
   | OpSeek pos \<Rightarrow> a\<lparr>oa_position := (case pos of None \<Rightarrow> None
       | Some p \<Rightarrow> if p < length (oa_pairs a) then Some p else None)\<rparr>)"

definition op_in_range :: "array_op \<Rightarrow> bool" where
  "op_in_range op = (case op of OpInsert key _ _ \<Rightarrow> key_in_range key | _ \<Rightarrow> True)"

primrec array_run :: "byte_env \<Rightarrow> array_op list \<Rightarrow> array_storage \<Rightarrow> array_storage option" where
  "array_run E [] st = Some st"
| "array_run E (op # ops) st = (case array_step E op st of None \<Rightarrow> None | Some st' \<Rightarrow> array_run E ops st')"

lemma find_index_spec_remove:
  "storage_ok E st \<Longrightarrow> find_index st k = None \<longleftrightarrow> spec_remove k (abs_array st) = None"
proof -
  assume ok: "storage_ok E st"
  note ok' = storage_okD [OF ok]
  show ?thesis
  proof (cases "find_index st k")
    case None
    then have "map_of (iter_pairs st) k = None" using find_index_lookup(2) [OF ok'(1)] by (simp add: map_of_eq_None_iff)
    then show ?thesis using None by (simp add: spec_remove_def)
  next
    case (Some i)
    then obtain v where "get_at (slot_list st) i = Some (Some (k, v))" using find_index_lookup(1) [OF ok'(1)] by blast
    then show ?thesis using spec_remove_slot [OF ok'(4), of i k v "abs_array st"] Some by (simp add: iter_pairs_slots)
  qed
qed

lemma last_index_spec_pop:
  "storage_ok E st \<Longrightarrow> last_index st = None \<longleftrightarrow> spec_pop (abs_array st) = None"
  using last_live(2) [of "slot_list st"] index_slots(2) [OF storage_okD(1), of E st]
  by (simp add: spec_pop_def iter_pairs_slots split: prod.split)

lemma step_refines:
  assumes ok: "storage_ok E st" and op: "op_in_range op"
  shows "\<exists>st'. array_step E op st = Some st' \<and> storage_ok E st' \<and> abs_array st' = spec_step op (abs_array st)"
proof (cases op)
  case (OpInsert key shared v)
  then show ?thesis using insert_refines [OF ok, of key shared v] op by (auto simp: array_step_def spec_step_def op_in_range_def)
next
  case (OpAppend v)
  then show ?thesis
    using append_refines [OF ok, of v] ok
    by (auto simp: array_step_def spec_step_def array_append_def split: sum.splits prod.splits)
next
  case (OpRemove key)
  then show ?thesis
    using remove_refines [OF ok, of key] ok find_index_spec_remove [OF ok, of key]
    by (auto simp: array_step_def spec_step_def split: option.splits)
next
  case OpPop
  then show ?thesis
    using pop_refines [OF ok] ok last_index_spec_pop [OF ok]
    by (auto simp: array_step_def spec_step_def split: option.splits)
next
  case (OpSeek pos)
  then show ?thesis using set_native_pointer_position_rank [OF ok, of pos] by (simp add: array_step_def spec_step_def cong: option.case_cong)
qed (use pointer_ops_refine [OF ok] in \<open>simp_all add: array_step_def spec_step_def refines_def\<close>)

lemma run_refines:
  "storage_ok E st \<Longrightarrow> list_all op_in_range ops \<Longrightarrow>
    \<exists>st'. array_run E ops st = Some st' \<and> storage_ok E st' \<and> abs_array st' = foldl (\<lambda>a op. spec_step op a) (abs_array st) ops"
proof (induction ops arbitrary: st)
  case (Cons op ops)
  then obtain st1 where st1: "array_step E op st = Some st1" "storage_ok E st1" "abs_array st1 = spec_step op (abs_array st)"
    using step_refines [of E st op] by auto
  then show ?case using Cons.IH [of st1] Cons.prems by simp
qed simp

text \<open>Unpacking into an array is the append of each value with an integer key and the insertion of the others.\<close>

definition spread_op :: "array_key \<times> php_value \<Rightarrow> array_op" where
  "spread_op pair = (case pair of (IntKey _, v) \<Rightarrow> OpAppend v | (StringKey k, v) \<Rightarrow> OpInsert (StringKey k) True v)"

lemma spread_step_simps:
  "spread_step E None kv = None"
  "spread_step E (Some st) (IntKey i, v) = Some (snd (array_append E v st))"
  "spread_step E (Some st) (StringKey s, v) = map_option snd (array_insert E (StringKey s) True v st)"
  by (simp_all add: spread_step_def)

lemma spread_op_simps: "spread_op (IntKey i, v) = OpAppend v" "spread_op (StringKey s, v) = OpInsert (StringKey s) True v"
  by (simp_all add: spread_op_def)

lemma spread_run: "foldl (spread_step E) (Some st) kvs = array_run E (map spread_op kvs) st"
proof (induction kvs arbitrary: st)
  case (Cons kv kvs)
  have none: "foldl (spread_step E) None kvs = None" by (induction kvs) (simp_all add: spread_step_simps)
  obtain k v where kv: "kv = (k, v)" by (cases kv)
  show ?case
  proof (cases k)
    case (IntKey i)
    then show ?thesis using Cons.IH by (simp add: kv spread_step_simps spread_op_simps array_step_def)
  next
    case (StringKey s)
    then show ?thesis
      using Cons.IH none by (cases "array_insert E (StringKey s) True v st") (simp_all add: kv spread_step_simps spread_op_simps array_step_def)
  qed
qed simp

section \<open>Summaries\<close>

definition key_is_int :: "array_key \<Rightarrow> bool" where
  "key_is_int k = (case k of IntKey _ \<Rightarrow> True | StringKey _ \<Rightarrow> False)"

definition key_is_ambiguous :: "byte_env \<Rightarrow> array_key \<Rightarrow> bool" where
  "key_is_ambiguous E k = (case k of IntKey _ \<Rightarrow> False | StringKey s \<Rightarrow> key_ambiguous E s)"

text \<open>The cached counters are those of the pairs, whatever the layout.\<close>

lemma metadata_pairs:
  assumes ok: "layout_ok E st"
  shows "\<exists>shared. st_metadata st = value_counts (map snd (iter_pairs st)) (cnt key_is_int (map fst (iter_pairs st)))
    (cnt (\<lambda>k. \<not> key_is_int k) (map fst (iter_pairs st))) (cnt (key_is_ambiguous E) (map fst (iter_pairs st))) shared"
proof (cases st)
  case (PackedStorage s)
  have "map fst (iter_pairs st) = map (\<lambda>i. IntKey (int i)) [0..<length (packed_values s)]" "map snd (iter_pairs st) = packed_values s"
    unfolding PackedStorage packed_pairs by (rule nth_equalityI; simp add: nth_enumerate_eq)+
  then show ?thesis
    using ok by (intro exI [of _ 0]) (simp add: PackedStorage layout_ok_def header_simps metadata_counts cnt_map comp_def
        key_is_int_def key_is_ambiguous_def cnt_all cnt_none)
next
  case (RecordStorage s)
  have len: "length (shape_keys (record_array_shape s)) = length (record_values s)"
    and amb: "\<And>k. k \<in> set (shape_keys (record_array_shape s)) \<Longrightarrow> \<not> key_ambiguous E k"
    using ok by (auto simp: RecordStorage layout_ok_def)
  have "map fst (iter_pairs st) = map StringKey (shape_keys (record_array_shape s))" "map snd (iter_pairs st) = record_values s"
    by (simp_all add: RecordStorage iter_pairs_def len)
  then show ?thesis
    using ok amb by (intro exI [of _ "length (record_values s)"]) (simp add: RecordStorage layout_ok_def header_simps metadata_counts
        cnt_map comp_def key_is_int_def key_is_ambiguous_def cnt_all cnt_none)
next
  case (MixedStorage s)
  have eqs: "entry_is_int = (\<lambda>e. key_is_int (ae_key e))" "entry_ambiguous E = (\<lambda>e. key_is_ambiguous E (ae_key e))"
    by (simp_all add: fun_eq_iff entry_is_int_def key_is_int_def entry_ambiguous_def key_is_ambiguous_def)
  have "cached_metadata s = metadata_of_entries E (live (mixed_entries s))" using ok by (simp add: MixedStorage layout_ok_def)
  then show ?thesis unfolding metadata_of_entries_counts eqs
    by (intro exI [of _ "cnt entry_shared (live (mixed_entries s))"])
       (simp add: MixedStorage header_simps iter_pairs_def live_entries_live cnt_map comp_def)
qed

lemma cnt_pos: "0 < cnt P xs \<longleftrightarrow> (\<exists>x\<in>set xs. P x)"
  by (induction xs) (auto simp: bool_nat_def)

lemma cnt_le: "cnt P xs \<le> length xs"
  by (simp add: cnt_def)

lemma cnt_full: "cnt P xs = length xs \<longleftrightarrow> (\<forall>x\<in>set xs. P x)"
  by (cases "\<forall>x\<in>set xs. P x") (auto simp: cnt_def dest: length_filter_less)

section \<open>The properties\<close>

text \<open>C27: insertion of a key into an array in any layout never panics, returns the value the key had,
  keeps the invariant (counters, hash index, distinct keys, live pointer, append key) and changes the
  ordered pairs, the position and the next append key as the specification of insertion says.\<close>

theorem array_insert_refines:
  assumes "storage_ok E st" "key_in_range key"
  shows "\<exists>st'. array_insert E key shared value st = Some (fst (spec_insert key value (abs_array st)), st') \<and>
    storage_ok E st' \<and> abs_array st' = snd (spec_insert key value (abs_array st))"
  by (rule insert_refines [OF assms])

theorem array_insert_refines_witness:
  "key_in_range (StringKey ''k'') \<and> (\<exists>st'. array_insert (scalar_env Sse2 False) (StringKey ''k'') True (VInt 5) demo_array = Some (None, st') \<and>
    iter_pairs st' = [(IntKey 0, VInt 7), (IntKey 1, VString ''a''), (IntKey 2, VInt 9), (StringKey ''k'', VInt 5)])"
proof -
  have key: "key_in_range (StringKey ''k'')" by (simp add: key_in_range_def)
  have pairs: "iter_pairs demo_array = [(IntKey 0, VInt 7), (IntKey 1, VString ''a''), (IntKey 2, VInt 9)]"
    by (simp add: demo_array_def storage_from_packed_def iter_pairs_def)
  obtain st' where st': "array_insert (scalar_env Sse2 False) (StringKey ''k'') True (VInt 5) demo_array = Some (None, st')"
    "abs_array st' = snd (spec_insert (StringKey ''k'') (VInt 5) (abs_array demo_array))"
    using array_insert_refines [OF demo_array_ok key, of "scalar_env Sse2 False" True "VInt 5"] by (auto simp: spec_insert_def pairs)
  have "iter_pairs st' = oa_pairs (abs_array st')" by simp
  then show ?thesis unfolding st'(2) using st'(1) key by (simp add: spec_insert_def pairs)
qed

text \<open>C28: an append takes the next append key exactly when that key is free, which the guard of the source
  tests with one comparison and at most one lookup; otherwise it is an error and nothing changes.\<close>

theorem array_append_refines:
  assumes "storage_ok E st"
  shows "case spec_append value (abs_array st) of
      Inl e \<Rightarrow> try_append E value st = Inl e \<and> array_append E value st = (IntKey i64_max, st)
    | Inr (key, a) \<Rightarrow> (\<exists>st'. try_append E value st = Inr (key, st') \<and> array_append E value st = (key, st') \<and>
        storage_ok E st' \<and> abs_array st' = a)"
  using append_refines [OF assms, of "value"] by (auto simp: array_append_def split: sum.splits)

theorem array_append_refines_witness:
  "\<exists>st'. try_append (scalar_env Sse2 False) (VBool True) demo_array = Inr (IntKey 3, st') \<and> map fst (iter_pairs st') = map IntKey [0, 1, 2, 3]"
proof -
  have pairs: "iter_pairs demo_array = [(IntKey 0, VInt 7), (IntKey 1, VString ''a''), (IntKey 2, VInt 9)]"
    "st_next_append_key demo_array = Some 3"
    by (simp_all add: demo_array_def storage_from_packed_def iter_pairs_def header_simps in_i64_def)
  have spec: "spec_append (VBool True) (abs_array demo_array) = Inr (IntKey 3, snd (spec_insert (IntKey 3) (VBool True) (abs_array demo_array)))"
    by (simp add: spec_append_def pairs Let_def)
  then obtain st' where st': "try_append (scalar_env Sse2 False) (VBool True) demo_array = Inr (IntKey 3, st')"
    "abs_array st' = snd (spec_insert (IntKey 3) (VBool True) (abs_array demo_array))"
    using array_append_refines [OF demo_array_ok, of "scalar_env Sse2 False" "VBool True"] by auto
  have "iter_pairs st' = oa_pairs (abs_array st')" by simp
  then show ?thesis unfolding st'(2) using st'(1) by (simp add: spec_insert_def pairs)
qed

text \<open>C29: removing a key from an array in any layout never panics, returns its value, deletes its pair and
  keeps the order of the others; the pointer stays on its pair, moves to the next pair when its own
  goes, and survives the compaction of tombstones. An absent key changes nothing.\<close>

theorem array_remove_refines:
  assumes "storage_ok E st"
  shows "case spec_remove key (abs_array st) of
      None \<Rightarrow> array_remove E key st = None \<and> key \<notin> fst ` set (iter_pairs st)
    | Some (value, a) \<Rightarrow> (\<exists>st'. array_remove E key st = Some (value, st') \<and> storage_ok E st' \<and> abs_array st' = a)"
proof (cases "spec_remove key (abs_array st)")
  case None
  then have "find_index st key = None" using find_index_spec_remove [OF assms] by simp
  then show ?thesis
    using None remove_refines [OF assms, of key] find_index_lookup(2) [OF storage_okD(1) [OF assms], of key] by simp
next
  case (Some r)
  then show ?thesis using remove_refines [OF assms, of key] by simp
qed

theorem array_remove_refines_witness:
  "\<exists>st'. array_remove (scalar_env Sse2 False) (IntKey 0) demo_array = Some (VInt 7, st') \<and>
    map fst (iter_pairs st') = [IntKey 1, IntKey 2] \<and> oa_position (abs_array st') = Some 0"
proof -
  have demo: "iter_pairs demo_array = [(IntKey 0, VInt 7), (IntKey 1, VString ''a''), (IntKey 2, VInt 9)]"
    "st_pointer demo_array = Some 0"
    by (simp_all add: demo_array_def storage_from_packed_def iter_pairs_def header_simps)
  have spec: "spec_remove (IntKey 0) (abs_array demo_array)
      = Some (VInt 7, (abs_array demo_array)\<lparr>oa_pairs := [(IntKey 1, VString ''a''), (IntKey 2, VInt 9)], oa_position := Some 0\<rparr>)"
    by (simp add: spec_remove_def demo position_after_remove_def)
  obtain st' where st': "array_remove (scalar_env Sse2 False) (IntKey 0) demo_array = Some (VInt 7, st')"
    "abs_array st' = (abs_array demo_array)\<lparr>oa_pairs := [(IntKey 1, VString ''a''), (IntKey 2, VInt 9)], oa_position := Some 0\<rparr>"
    using array_remove_refines [OF demo_array_ok, of "scalar_env Sse2 False" "IntKey 0"] by (auto simp: spec)
  have "iter_pairs st' = oa_pairs (abs_array st')" by simp
  then have "map fst (iter_pairs st') = [IntKey 1, IntKey 2]" unfolding st'(2) by simp
  moreover have "oa_position (abs_array st') = Some 0" unfolding st'(2) by simp
  ultimately show ?thesis by (intro exI [of _ st'] conjI st'(1))
qed



text \<open>C31: \<open>reset\<close>, \<open>end\<close>, \<open>next\<close> and \<open>prev\<close> move the internal pointer over the pairs in insertion order,
  tombstones unseen, and return the value they arrive at; \<open>current\<close> and \<open>key\<close> read the pair there.\<close>

theorem array_pointer_refines:
  assumes "storage_ok E st"
  shows "refines E (reset_pointer st) (spec_reset (abs_array st)) \<and> refines E (end_pointer st) (spec_end (abs_array st)) \<and>
    refines E (next_pointer st) (spec_next (abs_array st)) \<and> refines E (prev_pointer st) (spec_prev (abs_array st)) \<and>
    pointer_value st = map_option snd (spec_current (abs_array st)) \<and> pointer_key st = map_option fst (spec_current (abs_array st))"
  using pointer_ops_refine [OF assms] pointer_current [OF assms] by simp

theorem array_pointer_refines_witness:
  "fst (end_pointer demo_array) = Some (VInt 9) \<and> fst (next_pointer demo_array) = Some (VString ''a'')"
proof -
  have "iter_pairs demo_array = [(IntKey 0, VInt 7), (IntKey 1, VString ''a''), (IntKey 2, VInt 9)]" "st_pointer demo_array = Some 0"
    by (simp_all add: demo_array_def storage_from_packed_def iter_pairs_def header_simps)
  then have "fst (spec_end (abs_array demo_array)) = Some (VInt 9)" "fst (spec_next (abs_array demo_array)) = Some (VString ''a'')"
    by (simp_all add: spec_end_def spec_next_def spec_move_def spec_current_def get_at_def)
  then show ?thesis
    using array_pointer_refines [OF demo_array_ok, of "scalar_env Sse2 False"] by (simp add: refines_def)
qed

text \<open>C32: the logical pointer position that crosses the native boundary determines the pointer: writing
  back the position that was read restores the storage, and the position is the index of the current pair.\<close>

theorem array_pointer_roundtrip:
  assumes "storage_ok E st"
  shows "set_native_pointer_position (native_pointer_position st) st = st \<and>
    native_pointer_position (set_native_pointer_position (Some p) st) = (if p < length (iter_pairs st) then Some p else None)"
proof
  show "set_native_pointer_position (native_pointer_position st) st = st" by (rule set_native_pointer_position_same [OF assms])
  note seek = set_native_pointer_position_rank [OF assms, of "Some p"]
  show "native_pointer_position (set_native_pointer_position (Some p) st) = (if p < length (iter_pairs st) then Some p else None)"
    unfolding native_pointer_position_rank [OF conjunct1 [OF seek]] conjunct2 [OF seek] by simp
qed

theorem array_pointer_roundtrip_witness:
  "native_pointer_position (set_native_pointer_position (Some 2) demo_array) = Some 2"
  using array_pointer_roundtrip [OF demo_array_ok, of 2]
  by (simp add: demo_array_def storage_from_packed_def iter_pairs_def)

text \<open>The loop of a \<open>foreach\<close> over a storage cursor, with a bound on its steps.\<close>

fun cursor_pairs :: "array_storage \<Rightarrow> nat \<Rightarrow> nat \<Rightarrow> (array_key \<times> php_value) list option" where
  "cursor_pairs st 0 cursor = None"
| "cursor_pairs st (Suc fuel) cursor =
     (case next_pair_at_cursor st cursor of
        (None, _) \<Rightarrow> Some []
      | (Some pair, cursor') \<Rightarrow> map_option (\<lambda>rest. pair # rest) (cursor_pairs st fuel cursor'))"

lemma cursor_pairs_live:
  assumes "layout_ok E st"
  shows "length (slot_list st) - cursor < fuel \<Longrightarrow> cursor_pairs st fuel cursor = Some (live (drop cursor (slot_list st)))"
proof (induction fuel arbitrary: cursor)
  case (Suc fuel)
  obtain r c where step: "next_pair_at_cursor st cursor = (r, c)" by (cases "next_pair_at_cursor st cursor")
  show ?case
  proof (cases r)
    case None
    then show ?thesis using step cursor_step [OF assms, of cursor] by simp
  next
    case (Some p)
    then have "cursor < c" "c \<le> length (slot_list st)" "live (drop cursor (slot_list st)) = p # live (drop c (slot_list st))"
      using step cursor_step [OF assms, of cursor] by simp_all
    moreover have "length (slot_list st) - c < fuel" using Suc.prems calculation(1,2) by linarith
    ultimately show ?thesis using step Some Suc.IH [of c] by simp
  qed
qed simp

text \<open>C33: iterating a storage with the cursor ends after at most one step per slot and yields the pairs of the
  array in insertion order, each once, tombstones skipped.\<close>

theorem array_cursor_iteration:
  assumes "storage_ok E st" "slots st < fuel"
  shows "cursor_pairs st fuel 0 = Some (iter_pairs st)"
proof -
  note ok = storage_okD(1) [OF assms(1)]
  have "length (slot_list st) = slots st"
    using ok by (cases st) (simp_all add: slot_list_def slots_def iter_pairs_def layout_ok_def)
  then show ?thesis using cursor_pairs_live [OF ok, of 0 fuel] assms(2) by (simp add: iter_pairs_slots)
qed

theorem array_cursor_iteration_witness:
  "slots demo_array < 4 \<and> cursor_pairs demo_array 4 0 = Some [(IntKey 0, VInt 7), (IntKey 1, VString ''a''), (IntKey 2, VInt 9)]"
proof -
  have "slots demo_array < 4" "iter_pairs demo_array = [(IntKey 0, VInt 7), (IntKey 1, VString ''a''), (IntKey 2, VInt 9)]"
    by (simp_all add: demo_array_def storage_from_packed_def iter_pairs_def slots_def)
  then show ?thesis using array_cursor_iteration [OF demo_array_ok, of 4] by simp
qed

text \<open>C5: any sequence of insertions, appends, removals, pops and pointer moves, started on the empty array, runs
  without a panic through every change of layout and compaction it meets; the invariant holds at the end
  and the pairs, the position and the append key are those the specification computes.\<close>

theorem array_run_refines:
  assumes "list_all op_in_range ops"
  shows "\<exists>st. array_run E ops (storage_empty ident) = Some st \<and> storage_ok E st \<and>
    abs_array st = foldl (\<lambda>a op. spec_step op a) \<lparr>oa_pairs = [], oa_position = None, oa_next_key = None\<rparr> ops"
proof -
  have "abs_array (storage_empty ident) = \<lparr>oa_pairs = [], oa_position = None, oa_next_key = None\<rparr>"
    by (simp add: abs_array_def storage_empty_def iter_pairs_def header_simps)
  then show ?thesis using run_refines [OF storage_empty_ok assms, of E ident] by simp
qed

theorem array_run_refines_witness:
  "\<exists>st. array_run (scalar_env Sse2 False) [OpInsert (IntKey 5) False (VInt 1), OpAppend VNull, OpRemove (IntKey 5), OpNext] (storage_empty 1) = Some st \<and>
    iter_pairs st = [(IntKey 6, VNull)] \<and> st_pointer st = None"
proof -
  let ?ops = "[OpInsert (IntKey 5) False (VInt 1), OpAppend VNull, OpRemove (IntKey 5), OpNext]"
  have "list_all op_in_range ?ops" by (simp add: op_in_range_def key_in_range_def in_i64_def)
  from array_run_refines [OF this, of "scalar_env Sse2 False" 1] obtain st where
    st: "array_run (scalar_env Sse2 False) ?ops (storage_empty 1) = Some st"
    "abs_array st = foldl (\<lambda>a op. spec_step op a) \<lparr>oa_pairs = [], oa_position = None, oa_next_key = None\<rparr> ?ops" by blast
  have "foldl (\<lambda>a op. spec_step op a) \<lparr>oa_pairs = [], oa_position = None, oa_next_key = None\<rparr> ?ops
      = \<lparr>oa_pairs = [(IntKey 6, VNull)], oa_position = None, oa_next_key = Some 7\<rparr>"
    by (simp add: spec_step_def spec_insert_def spec_next_key_def clamp_i64_def spec_append_def Let_def spec_remove_def
        position_after_remove_def spec_next_def spec_move_def)
  then have "oa_pairs (abs_array st) = [(IntKey 6, VNull)]" "oa_position (abs_array st) = None" using st(2) by simp_all
  then show ?thesis by (intro exI [of _ st] conjI st(1)) simp_all
qed

text \<open>C34: unpacking one array into another never panics: values under integer keys are appended, string keys
  are inserted, in the order of the source array.\<close>

theorem spread_extend_refines:
  assumes "storage_ok E st"
  shows "\<exists>st'. spread_extend E source st = Some st' \<and> storage_ok E st' \<and>
    abs_array st' = foldl (\<lambda>a pair. spec_step (spread_op pair) a) (abs_array st) (iter_pairs source)"
proof -
  have "list_all op_in_range (map spread_op kvs)" for kvs
    by (induction kvs) (auto simp: spread_op_def op_in_range_def key_in_range_def split: prod.split array_key.split)
  from run_refines [OF assms this, of "iter_pairs source"] show ?thesis
    by (simp add: spread_extend_def spread_run foldl_map)
qed

theorem spread_extend_refines_witness:
  "\<exists>st'. spread_extend (scalar_env Sse2 False) demo_array demo_array = Some st' \<and> map fst (iter_pairs st') = map IntKey [0, 1, 2, 3, 4, 5]"
proof -
  obtain st' where st': "spread_extend (scalar_env Sse2 False) demo_array demo_array = Some st'"
    "abs_array st' = foldl (\<lambda>a pair. spec_step (spread_op pair) a) (abs_array demo_array) (iter_pairs demo_array)"
    using spread_extend_refines [OF demo_array_ok, of "scalar_env Sse2 False" demo_array] by blast
  have demo: "abs_array demo_array = \<lparr>oa_pairs = [(IntKey 0, VInt 7), (IntKey 1, VString ''a''), (IntKey 2, VInt 9)],
      oa_position = Some 0, oa_next_key = Some 3\<rparr>"
    by (simp add: abs_array_def demo_array_def storage_from_packed_def iter_pairs_def header_simps in_i64_def)
  have "map fst (oa_pairs (abs_array st')) = map IntKey [0, 1, 2, 3, 4, 5]"
    unfolding st'(2) abs_array_simps(1) [symmetric] demo
    by (simp add: spread_op_def spec_step_def spec_append_def Let_def spec_insert_def spec_next_key_def clamp_i64_def)
  then show ?thesis using st'(1) by (intro exI [of _ st']) simp
qed



end
