(* ===== verification/Runtime_Memory.thy ===== *)
theory Runtime_Memory
  imports Prelude "HOL-Library.Word" "HOL-Library.Multiset"
begin

text \<open>
  The reference-counted storage of the runtime (\<open>crates/php_runtime/src/runtime_memory.rs\<close>): \<open>Shared\<close>
  and \<open>WeakShared\<close>. The heap maps addresses to blocks, a freed block is absent, and a
  payload that was dropped or moved out is \<open>None\<close>; touching either is undefined behaviour and an
  outcome of its own, so that its absence is a theorem. Cloning the payload (\<open>T::clone\<close>) gives an
  equal payload; handles stored inside payloads are not followed.
\<close>

datatype 'a outcome = Done 'a | Aborts | Panics | Undefined

primrec bind_outcome :: "'a outcome \<Rightarrow> ('a \<Rightarrow> 'b outcome) \<Rightarrow> 'b outcome" where
  "bind_outcome (Done x) f = f x"
| "bind_outcome Aborts f = Aborts"
| "bind_outcome Panics f = Panics"
| "bind_outcome Undefined f = Undefined"

type_synonym addr = nat
type_synonym usize = "64 word"

abbreviation usize_max :: usize where
  "usize_max \<equiv> - 1"

section \<open>Shared storage\<close>

record 'a shared_header =
  strong :: usize
  weak :: usize
  payload :: "'a option"

type_synonym 'a heap = "addr \<Rightarrow> 'a shared_header option"

definition header_at :: "addr \<Rightarrow> 'a heap \<Rightarrow> 'a shared_header outcome" where
  "header_at ptr h = (case h ptr of None \<Rightarrow> Undefined | Some blk \<Rightarrow> Done blk)"

text \<open>\<open>ptr\<close> is the address \<open>Box::new\<close> returns.\<close>

definition shared_new :: "addr \<Rightarrow> 'a \<Rightarrow> 'a heap \<Rightarrow> 'a heap" where
  "shared_new ptr value h = h(ptr \<mapsto> \<lparr>strong = 1, weak = 1, payload = Some value\<rparr>)"

definition strong_count :: "addr \<Rightarrow> 'a heap \<Rightarrow> usize outcome" where
  "strong_count ptr h = bind_outcome (header_at ptr h) (\<lambda>blk. Done (strong blk))"

definition shared_deref :: "addr \<Rightarrow> 'a heap \<Rightarrow> 'a outcome" where
  "shared_deref ptr h = bind_outcome (header_at ptr h) (\<lambda>blk.
     case payload blk of None \<Rightarrow> Undefined | Some value \<Rightarrow> Done value)"

definition downgrade :: "addr \<Rightarrow> 'a heap \<Rightarrow> 'a heap outcome" where
  "downgrade ptr h = bind_outcome (header_at ptr h) (\<lambda>blk.
     if weak blk = usize_max then Aborts else Done (h(ptr \<mapsto> blk\<lparr>weak := weak blk + 1\<rparr>)))"

definition shared_clone :: "addr \<Rightarrow> 'a heap \<Rightarrow> 'a heap outcome" where
  "shared_clone ptr h = bind_outcome (header_at ptr h) (\<lambda>blk.
     if strong blk = usize_max then Aborts else Done (h(ptr \<mapsto> blk\<lparr>strong := strong blk + 1\<rparr>)))"

text \<open>The implicit weak owner goes with the last strong one; the block is freed with the last weak one.\<close>

definition retire_weak :: "addr \<Rightarrow> 'a shared_header \<Rightarrow> 'a heap \<Rightarrow> 'a heap" where
  "retire_weak ptr blk h =
     (let w = weak blk - 1
      in if w = 0 then h(ptr := None) else h(ptr \<mapsto> blk\<lparr>weak := w\<rparr>))"

definition shared_drop :: "addr \<Rightarrow> 'a heap \<Rightarrow> 'a heap outcome" where
  "shared_drop ptr h = bind_outcome (header_at ptr h) (\<lambda>blk.
     if strong blk > 1 then Done (h(ptr \<mapsto> blk\<lparr>strong := strong blk - 1\<rparr>))
     else case payload blk of
            None \<Rightarrow> Undefined
          | Some _ \<Rightarrow> Done (retire_weak ptr (blk\<lparr>strong := 0, payload := None\<rparr>) h))"

text \<open>Separation before a write: the address of the storage that is then the handle's own. \<open>fresh\<close> is
  the address \<open>Shared::new\<close> allocates.\<close>

definition make_mut :: "addr \<Rightarrow> addr \<Rightarrow> 'a heap \<Rightarrow> (addr \<times> 'a heap) outcome" where
  "make_mut ptr fresh h = bind_outcome (strong_count ptr h) (\<lambda>n.
     if n \<noteq> 1 then
       bind_outcome (shared_deref ptr h) (\<lambda>separated.
         bind_outcome (shared_drop ptr (shared_new fresh separated h)) (\<lambda>h'. Done (fresh, h')))
     else Done (ptr, h))"

text \<open>A write through the reference \<open>make_mut\<close> returns.\<close>

definition shared_write :: "addr \<Rightarrow> 'a \<Rightarrow> 'a heap \<Rightarrow> 'a heap outcome" where
  "shared_write ptr value h = bind_outcome (header_at ptr h) (\<lambda>blk.
     case payload blk of None \<Rightarrow> Undefined | Some _ \<Rightarrow> Done (h(ptr \<mapsto> blk\<lparr>payload := Some value\<rparr>)))"

text \<open>\<open>Inr\<close> is the value moved out, \<open>Inl\<close> the handle given back.\<close>

definition try_unwrap :: "addr \<Rightarrow> 'a heap \<Rightarrow> ((addr + 'a) \<times> 'a heap) outcome" where
  "try_unwrap ptr h = bind_outcome (header_at ptr h) (\<lambda>blk.
     if strong blk \<noteq> 1 then Done (Inl ptr, h)
     else case payload blk of
            None \<Rightarrow> Undefined
          | Some value \<Rightarrow> Done (Inr value, retire_weak ptr (blk\<lparr>strong := 0, payload := None\<rparr>) h))"

definition clone_from_strong_count_address :: "addr \<Rightarrow> 'a heap \<Rightarrow> (addr option \<times> 'a heap) outcome" where
  "clone_from_strong_count_address address h =
     (if address = 0 then Done (None, h)
      else bind_outcome (header_at address h) (\<lambda>blk.
        if strong blk = 0 then Done (None, h)
        else if strong blk = usize_max then Aborts
        else Done (Some address, h(address \<mapsto> blk\<lparr>strong := strong blk + 1\<rparr>))))"

definition from_retained_strong_count_address :: "addr \<Rightarrow> 'a heap \<Rightarrow> addr option outcome" where
  "from_retained_strong_count_address address h =
     (if address = 0 then Done None
      else bind_outcome (header_at address h) (\<lambda>blk. Done (if strong blk = 0 then None else Some address)))"

definition weak_upgrade :: "addr \<Rightarrow> 'a heap \<Rightarrow> (addr option \<times> 'a heap) outcome" where
  "weak_upgrade ptr h = bind_outcome (header_at ptr h) (\<lambda>blk.
     if strong blk = 0 then Done (None, h)
     else if strong blk = usize_max then Aborts
     else Done (Some ptr, h(ptr \<mapsto> blk\<lparr>strong := strong blk + 1\<rparr>)))"

definition weak_clone :: "addr \<Rightarrow> 'a heap \<Rightarrow> 'a heap outcome" where
  "weak_clone ptr h = bind_outcome (header_at ptr h) (\<lambda>blk.
     if weak blk = usize_max then Aborts else Done (h(ptr \<mapsto> blk\<lparr>weak := weak blk + 1\<rparr>)))"

definition weak_drop :: "addr \<Rightarrow> 'a heap \<Rightarrow> 'a heap outcome" where
  "weak_drop ptr h = bind_outcome (header_at ptr h) (\<lambda>blk.
     let w = weak blk - 1
     in if w = 0 then (if strong blk \<noteq> 0 then Panics else Done (h(ptr := None)))
        else Done (h(ptr \<mapsto> blk\<lparr>weak := w\<rparr>)))"

section \<open>Programs with handles\<close>

text \<open>A state is the heap with the strong and weak handles that programs hold.\<close>

record 'a world =
  mem :: "'a heap"
  strongs :: "addr multiset"
  weaks :: "addr multiset"

definition empty_world :: "'a world" where
  "empty_world = \<lparr>mem = (\<lambda>_. None), strongs = {#}, weaks = {#}\<rparr>"

text \<open>The operations a program can run on a handle it holds; an allocation takes any free address.\<close>

inductive mem_step :: "'a world \<Rightarrow> 'a world \<Rightarrow> bool" where
  step_new: "mem w p = None \<Longrightarrow> p \<noteq> 0 \<Longrightarrow>
    mem_step w (w\<lparr>mem := shared_new p v (mem w), strongs := strongs w + {#p#}\<rparr>)"
| step_clone: "p \<in># strongs w \<Longrightarrow> shared_clone p (mem w) = Done h \<Longrightarrow>
    mem_step w (w\<lparr>mem := h, strongs := strongs w + {#p#}\<rparr>)"
| step_drop: "p \<in># strongs w \<Longrightarrow> shared_drop p (mem w) = Done h \<Longrightarrow>
    mem_step w (w\<lparr>mem := h, strongs := strongs w - {#p#}\<rparr>)"
| step_separate: "p \<in># strongs w \<Longrightarrow> mem w f = None \<Longrightarrow> f \<noteq> 0 \<Longrightarrow> make_mut p f (mem w) = Done (q, h) \<Longrightarrow>
    mem_step w (w\<lparr>mem := h, strongs := strongs w - {#p#} + {#q#}\<rparr>)"
| step_write: "p \<in># strongs w \<Longrightarrow> count (strongs w) p = 1 \<Longrightarrow> shared_write p v (mem w) = Done h \<Longrightarrow> mem_step w (w\<lparr>mem := h\<rparr>)"
| step_unwrap: "p \<in># strongs w \<Longrightarrow> try_unwrap p (mem w) = Done (Inr v, h) \<Longrightarrow>
    mem_step w (w\<lparr>mem := h, strongs := strongs w - {#p#}\<rparr>)"
| step_downgrade: "p \<in># strongs w \<Longrightarrow> downgrade p (mem w) = Done h \<Longrightarrow>
    mem_step w (w\<lparr>mem := h, weaks := weaks w + {#p#}\<rparr>)"
| step_weak_clone: "p \<in># weaks w \<Longrightarrow> weak_clone p (mem w) = Done h \<Longrightarrow>
    mem_step w (w\<lparr>mem := h, weaks := weaks w + {#p#}\<rparr>)"
| step_weak_drop: "p \<in># weaks w \<Longrightarrow> weak_drop p (mem w) = Done h \<Longrightarrow>
    mem_step w (w\<lparr>mem := h, weaks := weaks w - {#p#}\<rparr>)"
| step_upgrade: "p \<in># weaks w \<Longrightarrow> weak_upgrade p (mem w) = Done (Some q, h) \<Longrightarrow>
    mem_step w (w\<lparr>mem := h, strongs := strongs w + {#q#}\<rparr>)"
| step_retain: "p \<in># strongs w \<Longrightarrow> clone_from_strong_count_address p (mem w) = Done (Some q, h) \<Longrightarrow>
    mem_step w (w\<lparr>mem := h, strongs := strongs w + {#q#}\<rparr>)"

inductive mem_reachable :: "'a world \<Rightarrow> bool" where
  reach_empty: "mem_reachable empty_world"
| reach_step: "mem_reachable w \<Longrightarrow> mem_step w w' \<Longrightarrow> mem_reachable w'"

section \<open>The invariant\<close>

text \<open>The counters count the handles, and a block lives exactly as long as one of them does.\<close>

definition block_ok :: "nat \<Rightarrow> nat \<Rightarrow> 'a shared_header option \<Rightarrow> bool" where
  "block_ok s w b = (case b of
     None \<Rightarrow> s = 0 \<and> w = 0
   | Some blk \<Rightarrow> unat (strong blk) = s \<and> unat (weak blk) = w + (if 0 < s then 1 else 0) \<and>
       (payload blk \<noteq> None \<longleftrightarrow> 0 < s) \<and> (0 < s \<or> 0 < w))"

definition world_ok :: "'a world \<Rightarrow> bool" where
  "world_ok w \<longleftrightarrow> mem w 0 = None \<and> (\<forall>p. block_ok (count (strongs w) p) (count (weaks w) p) (mem w p))"

lemma world_okD: "world_ok w \<Longrightarrow> block_ok (count (strongs w) p) (count (weaks w) p) (mem w p)"
  by (simp add: world_ok_def)

lemma world_okI:
  assumes "h 0 = None" "\<And>p. block_ok (count s p) (count k p) (h p)"
  shows "world_ok \<lparr>mem = h, strongs = s, weaks = k\<rparr>"
  using assms by (simp add: world_ok_def)

lemma unat_plus_one: "w \<noteq> usize_max \<Longrightarrow> unat (w + 1) = Suc (unat w)" for w :: usize
proof -
  assume "w \<noteq> usize_max"
  then have nz: "w + 1 \<noteq> 0" by (simp add: eq_neg_iff_add_eq_0)
  then have "0 < unat (w + 1)" by (simp add: unat_gt_0)
  then show ?thesis using unat_minus_one [OF nz] by simp
qed

lemma unat_is_1: "unat w = Suc 0 \<longleftrightarrow> w = 1" for w :: usize
  by (metis One_nat_def unsigned_1 word_eq_iff_unsigned)

lemma unat_minus: "0 < unat w \<Longrightarrow> unat (w - 1) = unat w - 1" for w :: usize
  by (simp add: unat_gt_0 unat_minus_one)

lemma word_gt_1: "1 < w \<longleftrightarrow> 1 < unat w" for w :: usize
  by (simp add: word_less_nat_alt)

lemma word_zero_unat: "w = 0 \<longleftrightarrow> unat w = 0" for w :: usize
  by (metis unsigned_eq_0_iff)

definition retired :: "'a shared_header \<Rightarrow> 'a shared_header option" where
  "retired blk = (if weak blk - 1 = 0 then None else Some (blk\<lparr>weak := weak blk - 1\<rparr>))"

lemma retire_weak_retired: "retire_weak p blk h = h(p := retired blk)"
  by (simp add: retire_weak_def retired_def Let_def)

lemma block_okD:
  assumes "block_ok s w (Some blk)"
  shows "unat (strong blk) = s" "unat (weak blk) = w + (if 0 < s then 1 else 0)" "payload blk \<noteq> None \<longleftrightarrow> 0 < s" "0 < s \<or> 0 < w"
  using assms by (simp_all add: block_ok_def)

lemma block_ok_live: "block_ok s w b \<Longrightarrow> 0 < s \<or> 0 < w \<Longrightarrow> \<exists>blk. b = Some blk"
  by (auto simp: block_ok_def split: option.splits)

lemma block_ok_new: "block_ok 1 0 (Some \<lparr>strong = 1, weak = 1, payload = Some v\<rparr>)"
  by (simp add: block_ok_def)

lemma block_ok_strong_inc:
  "block_ok s w (Some blk) \<Longrightarrow> 0 < s \<Longrightarrow> strong blk \<noteq> usize_max \<Longrightarrow> block_ok (Suc s) w (Some (blk\<lparr>strong := strong blk + 1\<rparr>))"
  by (simp add: block_ok_def unat_plus_one)

lemma block_ok_weak_inc:
  "block_ok s w (Some blk) \<Longrightarrow> weak blk \<noteq> usize_max \<Longrightarrow> block_ok s (Suc w) (Some (blk\<lparr>weak := weak blk + 1\<rparr>))"
  by (simp add: block_ok_def unat_plus_one)

lemma block_ok_retired:
  assumes "block_ok (Suc 0) w (Some blk)"
  shows "block_ok 0 w (retired (blk\<lparr>strong := 0, payload := None\<rparr>))"
proof -
  have "unat (weak blk) = Suc w" using block_okD(2) [OF assms] by simp
  moreover from this have "unat (weak blk - 1) = w" by (simp add: unat_minus)
  moreover from this have "weak blk - 1 = 0 \<longleftrightarrow> w = 0" unfolding word_zero_unat by simp
  ultimately show ?thesis by (simp add: block_ok_def retired_def)
qed

lemma block_ok_strong_dec:
  "block_ok (Suc (Suc s)) w (Some blk) \<Longrightarrow> block_ok (Suc s) w (Some (blk\<lparr>strong := strong blk - 1\<rparr>))"
  by (simp add: block_ok_def unat_minus)

lemma block_ok_weak_dec:
  assumes "block_ok s (Suc w) (Some blk)"
  shows "block_ok s w (if weak blk - 1 = 0 then None else Some (blk\<lparr>weak := weak blk - 1\<rparr>))" "weak blk - 1 = 0 \<Longrightarrow> strong blk = 0"
proof -
  have weak: "unat (weak blk) = Suc w + (if 0 < s then 1 else 0)" using block_okD(2) [OF assms] by simp
  then have minus: "unat (weak blk - 1) = w + (if 0 < s then 1 else 0)" by (simp add: unat_minus)
  then have zero: "weak blk - 1 = 0 \<longleftrightarrow> w = 0 \<and> s = 0" unfolding word_zero_unat by simp
  show "block_ok s w (if weak blk - 1 = 0 then None else Some (blk\<lparr>weak := weak blk - 1\<rparr>))"
    using assms minus zero by (auto simp: block_ok_def)
  show "strong blk = 0" if "weak blk - 1 = 0"
    using that zero block_okD(1) [OF assms] by (simp add: word_zero_unat [of "strong blk"])
qed

lemma world_ok_upd:
  assumes "world_ok w" "p \<noteq> 0 \<or> b = None" "block_ok (count s p) (count k p) b"
    "\<And>q. q \<noteq> p \<Longrightarrow> count s q = count (strongs w) q \<and> count k q = count (weaks w) q"
  shows "world_ok (w\<lparr>mem := (mem w)(p := b), strongs := s, weaks := k\<rparr>)"
  using assms by (auto simp: world_ok_def)

lemma handle_block:
  assumes "world_ok w" "p \<in># strongs w \<or> p \<in># weaks w"
  obtains blk where "mem w p = Some blk" "block_ok (count (strongs w) p) (count (weaks w) p) (Some blk)" "p \<noteq> 0"
proof -
  have "0 < count (strongs w) p \<or> 0 < count (weaks w) p" using assms(2) by (auto simp: count_greater_zero_iff)
  then obtain blk where "mem w p = Some blk" using block_ok_live [OF world_okD [OF assms(1)]] by metis
  moreover from this have "p \<noteq> 0" using assms(1) by (metis option.distinct(1) world_ok_def)
  ultimately show thesis using that world_okD [OF assms(1), of p] by simp
qed

lemma handle_strong:
  assumes "world_ok w" "p \<in># strongs w"
  obtains blk v s where "mem w p = Some blk" "block_ok (Suc s) (count (weaks w) p) (Some blk)" "p \<noteq> 0"
    "payload blk = Some v" "count (strongs w) p = Suc s" "unat (strong blk) = Suc s"
proof -
  obtain blk where b: "mem w p = Some blk" "block_ok (count (strongs w) p) (count (weaks w) p) (Some blk)" "p \<noteq> 0"
    using handle_block [OF assms(1), of p] assms(2) by blast
  obtain s where s: "count (strongs w) p = Suc s" using assms(2) by (metis count_eq_zero_iff not0_implies_Suc)
  then show thesis using that b block_okD [OF b(2)] by auto
qed

section \<open>The operations under the invariant\<close>

lemma clone_ok:
  assumes "world_ok w" "p \<in># strongs w"
  shows "shared_clone p (mem w) = Aborts \<or>
    (\<exists>h. shared_clone p (mem w) = Done h \<and> world_ok (w\<lparr>mem := h, strongs := strongs w + {#p#}\<rparr>))"
proof -
  obtain blk v s where b: "mem w p = Some blk" "block_ok (Suc s) (count (weaks w) p) (Some blk)" "p \<noteq> 0" "count (strongs w) p = Suc s"
    using handle_strong [OF assms] by metis
  show ?thesis
  proof (cases "strong blk = usize_max")
    case False
    then have "block_ok (Suc (Suc s)) (count (weaks w) p) (Some (blk\<lparr>strong := strong blk + 1\<rparr>))"
      using block_ok_strong_inc [OF b(2)] by simp
    then have "world_ok (w\<lparr>mem := (mem w)(p \<mapsto> blk\<lparr>strong := strong blk + 1\<rparr>), strongs := strongs w + {#p#}, weaks := weaks w\<rparr>)"
      using assms(1) b by (intro world_ok_upd) auto
    then show ?thesis using b False by (simp add: shared_clone_def header_at_def)
  qed (use b in \<open>simp add: shared_clone_def header_at_def\<close>)
qed

lemma drop_ok:
  assumes "world_ok w" "p \<in># strongs w"
  shows "\<exists>h. shared_drop p (mem w) = Done h \<and> world_ok (w\<lparr>mem := h, strongs := strongs w - {#p#}\<rparr>)"
proof -
  obtain blk v s where b: "mem w p = Some blk" "block_ok (Suc s) (count (weaks w) p) (Some blk)" "p \<noteq> 0"
    "payload blk = Some v" "count (strongs w) p = Suc s" "unat (strong blk) = Suc s"
    using handle_strong [OF assms] by metis
  show ?thesis
  proof (cases "strong blk > 1")
    case True
    then obtain r where r: "s = Suc r" using b(6) by (cases s) (auto simp: word_gt_1)
    then have "block_ok (Suc r) (count (weaks w) p) (Some (blk\<lparr>strong := strong blk - 1\<rparr>))"
      using block_ok_strong_dec b(2) by simp
    then have "world_ok (w\<lparr>mem := (mem w)(p \<mapsto> blk\<lparr>strong := strong blk - 1\<rparr>), strongs := strongs w - {#p#}, weaks := weaks w\<rparr>)"
      using assms(1) b r by (intro world_ok_upd) auto
    then show ?thesis using b True by (simp add: shared_drop_def header_at_def)
  next
    case False
    then have "s = 0" using b(6) by (auto simp: word_gt_1)
    then have "block_ok 0 (count (weaks w) p) (retired (blk\<lparr>strong := 0, payload := None\<rparr>))"
      using block_ok_retired b(2) by simp
    then have "world_ok (w\<lparr>mem := (mem w)(p := retired (blk\<lparr>strong := 0, payload := None\<rparr>)), strongs := strongs w - {#p#}, weaks := weaks w\<rparr>)"
      using assms(1) b \<open>s = 0\<close> by (intro world_ok_upd) auto
    then show ?thesis using b False by (simp add: shared_drop_def header_at_def retire_weak_retired)
  qed
qed

lemma new_ok:
  assumes "world_ok w" "mem w p = None" "p \<noteq> 0"
  shows "world_ok (w\<lparr>mem := shared_new p v (mem w), strongs := strongs w + {#p#}\<rparr>)"
proof -
  have "count (strongs w) p = 0" "count (weaks w) p = 0" using world_okD [OF assms(1), of p] assms(2) by (simp_all add: block_ok_def)
  then have "world_ok (w\<lparr>mem := (mem w)(p \<mapsto> \<lparr>strong = 1, weak = 1, payload = Some v\<rparr>), strongs := strongs w + {#p#}, weaks := weaks w\<rparr>)"
    using assms block_ok_new [of v] by (intro world_ok_upd) auto
  then show ?thesis by (simp add: shared_new_def)
qed

lemma deref_ok: "world_ok w \<Longrightarrow> p \<in># strongs w \<Longrightarrow> \<exists>v. shared_deref p (mem w) = Done v"
  by (erule handle_strong) (auto simp: shared_deref_def header_at_def)

lemma strong_count_ok:
  "world_ok w \<Longrightarrow> p \<in># strongs w \<Longrightarrow> \<exists>n. strong_count p (mem w) = Done n \<and> unat n = count (strongs w) p"
  by (erule handle_strong) (auto simp: strong_count_def header_at_def)

lemma make_mut_ok:
  assumes "world_ok w" "p \<in># strongs w" "mem w f = None" "f \<noteq> 0"
  shows "\<exists>q h. make_mut p f (mem w) = Done (q, h) \<and> world_ok (w\<lparr>mem := h, strongs := strongs w - {#p#} + {#q#}\<rparr>) \<and>
    (if count (strongs w) p = 1 then q = p \<and> h = mem w else q = f)"
proof -
  obtain n where n: "strong_count p (mem w) = Done n" "unat n = count (strongs w) p" using strong_count_ok [OF assms(1,2)] by blast
  show ?thesis
  proof (cases "n = 1")
    case True
    then have "count (strongs w) p = 1" using n(2) by simp
    moreover have "strongs w - {#p#} + {#p#} = strongs w" using assms(2) by simp
    ultimately show ?thesis using n True assms(1) by (simp add: make_mut_def)
  next
    case False
    then have count: "count (strongs w) p \<noteq> 1" using n(2) unat_is_1 [of n] by auto
    obtain v where v: "shared_deref p (mem w) = Done v" using deref_ok [OF assms(1,2)] by blast
    let ?w = "w\<lparr>mem := shared_new f v (mem w), strongs := strongs w + {#f#}\<rparr>"
    have "world_ok ?w" by (rule new_ok [OF assms(1,3,4)])
    moreover have "p \<in># strongs ?w" using assms(2) by simp
    ultimately obtain h where h: "shared_drop p (shared_new f v (mem w)) = Done h" "world_ok (?w\<lparr>mem := h, strongs := strongs ?w - {#p#}\<rparr>)"
      using drop_ok [of ?w p] by auto
    have "strongs w + {#f#} - {#p#} = strongs w - {#p#} + {#f#}" using assms(2) by (simp add: multiset_eq_iff)
    then show ?thesis using n False v h count by (simp add: make_mut_def)
  qed
qed

lemma write_ok:
  assumes "world_ok w" "p \<in># strongs w"
  shows "\<exists>h. shared_write p v (mem w) = Done h \<and> world_ok (w\<lparr>mem := h\<rparr>) \<and> shared_deref p h = Done v \<and>
    (\<forall>q. q \<noteq> p \<longrightarrow> shared_deref q h = shared_deref q (mem w))"
proof -
  obtain blk u s where b: "mem w p = Some blk" "block_ok (Suc s) (count (weaks w) p) (Some blk)" "p \<noteq> 0"
    "payload blk = Some u" "count (strongs w) p = Suc s" using handle_strong [OF assms] by metis
  then have "block_ok (Suc s) (count (weaks w) p) (Some (blk\<lparr>payload := Some v\<rparr>))" by (simp add: block_ok_def)
  then have "world_ok (w\<lparr>mem := (mem w)(p \<mapsto> blk\<lparr>payload := Some v\<rparr>), strongs := strongs w, weaks := weaks w\<rparr>)"
    using assms(1) b by (intro world_ok_upd) auto
  then show ?thesis using b by (simp add: shared_write_def header_at_def shared_deref_def)
qed

lemma unwrap_ok:
  assumes "world_ok w" "p \<in># strongs w"
  shows "\<exists>r h. try_unwrap p (mem w) = Done (r, h) \<and>
    (case r of Inl q \<Rightarrow> q = p \<and> h = mem w \<and> count (strongs w) p \<noteq> 1
     | Inr v \<Rightarrow> shared_deref p (mem w) = Done v \<and> count (strongs w) p = 1 \<and> world_ok (w\<lparr>mem := h, strongs := strongs w - {#p#}\<rparr>))"
proof -
  obtain blk v s where b: "mem w p = Some blk" "block_ok (Suc s) (count (weaks w) p) (Some blk)" "p \<noteq> 0"
    "payload blk = Some v" "count (strongs w) p = Suc s" "unat (strong blk) = Suc s"
    using handle_strong [OF assms] by metis
  show ?thesis
  proof (cases "strong blk = 1")
    case True
    then have s: "s = 0" using b(6) by simp
    then have "world_ok (w\<lparr>mem := (mem w)(p := retired (blk\<lparr>strong := 0, payload := None\<rparr>)), strongs := strongs w - {#p#}, weaks := weaks w\<rparr>)"
      using assms(1) b block_ok_retired [of "count (weaks w) p" blk] by (intro world_ok_upd) auto
    then show ?thesis using b True s by (simp add: try_unwrap_def header_at_def retire_weak_retired shared_deref_def)
  next
    case False
    then have "count (strongs w) p \<noteq> 1" using b(5,6) unat_is_1 [of "strong blk"] by auto
    then show ?thesis using b False by (simp add: try_unwrap_def header_at_def)
  qed
qed

lemma weak_inc_ok:
  assumes "world_ok w" "p \<in># strongs w \<or> p \<in># weaks w"
  shows "downgrade p (mem w) = Aborts \<or>
    (\<exists>h. downgrade p (mem w) = Done h \<and> world_ok (w\<lparr>mem := h, weaks := weaks w + {#p#}\<rparr>))"
    "weak_clone p (mem w) = downgrade p (mem w)"
proof -
  obtain blk where b: "mem w p = Some blk" "block_ok (count (strongs w) p) (count (weaks w) p) (Some blk)" "p \<noteq> 0"
    using handle_block [OF assms] .
  show "weak_clone p (mem w) = downgrade p (mem w)" by (simp add: weak_clone_def downgrade_def)
  show "downgrade p (mem w) = Aborts \<or> (\<exists>h. downgrade p (mem w) = Done h \<and> world_ok (w\<lparr>mem := h, weaks := weaks w + {#p#}\<rparr>))"
  proof (cases "weak blk = usize_max")
    case False
    then have "world_ok (w\<lparr>mem := (mem w)(p \<mapsto> blk\<lparr>weak := weak blk + 1\<rparr>), strongs := strongs w, weaks := weaks w + {#p#}\<rparr>)"
      using assms(1) b block_ok_weak_inc [OF b(2)] by (intro world_ok_upd) auto
    then show ?thesis using b False by (simp add: downgrade_def header_at_def)
  qed (use b in \<open>simp add: downgrade_def header_at_def\<close>)
qed

lemma weak_drop_ok:
  assumes "world_ok w" "p \<in># weaks w"
  shows "\<exists>h. weak_drop p (mem w) = Done h \<and> world_ok (w\<lparr>mem := h, weaks := weaks w - {#p#}\<rparr>)"
proof -
  obtain blk where b: "mem w p = Some blk" "block_ok (count (strongs w) p) (count (weaks w) p) (Some blk)" "p \<noteq> 0"
    using handle_block [OF assms(1)] assms(2) by blast
  obtain k where k: "count (weaks w) p = Suc k" using assms(2) by (metis count_eq_zero_iff not0_implies_Suc)
  note dec = block_ok_weak_dec [OF b(2) [unfolded k]]
  define b' where "b' = (if weak blk - 1 = 0 then None else Some (blk\<lparr>weak := weak blk - 1\<rparr>))"
  have "weak_drop p (mem w) = Done ((mem w)(p := b'))"
    using b dec(2) by (auto simp: weak_drop_def header_at_def Let_def b'_def)
  moreover have "world_ok (w\<lparr>mem := (mem w)(p := b'), strongs := strongs w, weaks := weaks w - {#p#}\<rparr>)"
    using assms(1) b(3) k dec(1) by (intro world_ok_upd) (auto simp: b'_def)
  ultimately show ?thesis by simp
qed

lemma upgrade_ok:
  assumes "world_ok w" "p \<in># strongs w \<or> p \<in># weaks w"
  shows "p \<notin># strongs w \<Longrightarrow> weak_upgrade p (mem w) = Done (None, mem w)"
    "p \<in># strongs w \<Longrightarrow> weak_upgrade p (mem w) = Aborts \<or>
      (\<exists>h. weak_upgrade p (mem w) = Done (Some p, h) \<and> world_ok (w\<lparr>mem := h, strongs := strongs w + {#p#}\<rparr>))"
    "clone_from_strong_count_address p (mem w) = weak_upgrade p (mem w)"
proof -
  obtain blk where b: "mem w p = Some blk" "block_ok (count (strongs w) p) (count (weaks w) p) (Some blk)" "p \<noteq> 0"
    using handle_block [OF assms] .
  show "clone_from_strong_count_address p (mem w) = weak_upgrade p (mem w)"
    using b(3) by (simp add: clone_from_strong_count_address_def weak_upgrade_def)
  have zero: "strong blk = 0 \<longleftrightarrow> p \<notin># strongs w"
    using block_okD(1) [OF b(2)] unfolding word_zero_unat [of "strong blk"] by (simp add: not_in_iff)
  show "weak_upgrade p (mem w) = Done (None, mem w)" if "p \<notin># strongs w"
    using that b zero by (simp add: weak_upgrade_def header_at_def)
  show "weak_upgrade p (mem w) = Aborts \<or>
      (\<exists>h. weak_upgrade p (mem w) = Done (Some p, h) \<and> world_ok (w\<lparr>mem := h, strongs := strongs w + {#p#}\<rparr>))"
    if "p \<in># strongs w"
    using clone_ok [OF assms(1) that] b zero that by (auto simp: weak_upgrade_def shared_clone_def header_at_def)
qed

lemma mem_step_ok:
  assumes "mem_step w w'" "world_ok w"
  shows "world_ok w'"
  using assms
proof (cases rule: mem_step.cases)
  case (step_new p v)
  then show ?thesis using new_ok [OF assms(2)] by simp
next
  case (step_clone p h)
  then show ?thesis using clone_ok [OF assms(2), of p] by simp
next
  case (step_drop p h)
  then show ?thesis using drop_ok [OF assms(2), of p] by simp
next
  case (step_separate p f q h)
  then show ?thesis using make_mut_ok [OF assms(2), of p f] by (simp split: if_splits)
next
  case (step_write p v h)
  then show ?thesis using write_ok [OF assms(2), of p v] by simp
next
  case (step_unwrap p v h)
  then show ?thesis using unwrap_ok [OF assms(2), of p] by simp
next
  case (step_downgrade p h)
  then show ?thesis using weak_inc_ok [OF assms(2), of p] by simp
next
  case (step_weak_clone p h)
  then show ?thesis using weak_inc_ok [OF assms(2), of p] by simp
next
  case (step_weak_drop p h)
  then show ?thesis using weak_drop_ok [OF assms(2), of p] by simp
next
  case (step_upgrade p q h)
  then show ?thesis using upgrade_ok(1,2) [OF assms(2), of p] by (cases "p \<in># strongs w") simp_all
next
  case (step_retain p q h)
  then show ?thesis using upgrade_ok(2,3) [OF assms(2), of p] by simp
qed

lemma reachable_ok: "mem_reachable w \<Longrightarrow> world_ok w"
proof (induction rule: mem_reachable.induct)
  case reach_empty
  then show ?case by (simp add: empty_world_def world_ok_def block_ok_def)
qed (rule mem_step_ok)

lemma handle_alive: "world_ok w \<Longrightarrow> p \<in># strongs w \<Longrightarrow> mem w p \<noteq> None"
  by (erule handle_strong) auto

lemma drop_keeps_others:
  assumes ok: "world_ok w" and "p \<in># strongs w" and r: "r \<in># strongs w - {#p#}" and drop: "shared_drop p (mem w) = Done h"
  shows "shared_deref r h = shared_deref r (mem w)"
proof -
  obtain blk v s where b: "mem w p = Some blk" "payload blk = Some v" "count (strongs w) p = Suc s" "unat (strong blk) = Suc s"
    using handle_strong [OF assms(1,2)] by metis
  show ?thesis
  proof (cases "r = p")
    case True
    then have "0 < s" using r b(3) by (metis count_diff count_greater_zero_iff count_single diff_Suc_1)
    then have "1 < strong blk" using b(4) by (simp add: word_gt_1)
    then show ?thesis using drop b True by (auto simp: shared_drop_def header_at_def shared_deref_def)
  next
    case False
    then have "h r = mem w r" using drop b by (auto simp: shared_drop_def header_at_def retire_weak_retired split: if_splits)
    then show ?thesis by (simp add: shared_deref_def header_at_def)
  qed
qed

lemma separate_isolates:
  assumes ok: "world_ok w" and p: "p \<in># strongs w" and f: "mem w f = None" "f \<noteq> 0"
  shows "\<exists>q h h'. make_mut p f (mem w) = Done (q, h) \<and> shared_write q v h = Done h' \<and>
    world_ok (w\<lparr>mem := h', strongs := strongs w - {#p#} + {#q#}\<rparr>) \<and>
    shared_deref q h = shared_deref p (mem w) \<and> shared_deref q h' = Done v \<and>
    (\<forall>r. r \<in># strongs w - {#p#} \<longrightarrow> r \<noteq> q \<and> shared_deref r h' = shared_deref r (mem w))"
proof -
  obtain q h where m: "make_mut p f (mem w) = Done (q, h)" "world_ok (w\<lparr>mem := h, strongs := strongs w - {#p#} + {#q#}\<rparr>)"
    "if count (strongs w) p = 1 then q = p \<and> h = mem w else q = f" using make_mut_ok [OF ok p f] by blast
  let ?w = "w\<lparr>mem := h, strongs := strongs w - {#p#} + {#q#}\<rparr>"
  have "q \<in># strongs ?w" and [simp]: "mem ?w = h" by simp_all
  from write_ok [OF m(2) this(1), of v, unfolded this(2)] obtain h' where h': "shared_write q v h = Done h'" "world_ok (?w\<lparr>mem := h'\<rparr>)"
    "shared_deref q h' = Done v" "\<forall>r. r \<noteq> q \<longrightarrow> shared_deref r h' = shared_deref r h" by blast
  have alive: "mem w r \<noteq> None" if "r \<in># strongs w - {#p#}" for r
    by (rule handle_alive [OF ok in_diffD [OF that]])
  have "shared_deref q h = shared_deref p (mem w) \<and> (\<forall>r. r \<in># strongs w - {#p#} \<longrightarrow> r \<noteq> q \<and> shared_deref r h = shared_deref r (mem w))"
  proof (cases "count (strongs w) p = 1")
    case True
    then have "p \<notin># strongs w - {#p#}" by (simp add: not_in_iff)
    then show ?thesis using True m(3) by auto
  next
    case False
    then have q: "q = f" using m(3) by simp
    obtain n where n: "strong_count p (mem w) = Done n" "unat n = count (strongs w) p" using strong_count_ok [OF ok p] by blast
    then have "n \<noteq> 1" using False by auto
    moreover obtain u where u: "shared_deref p (mem w) = Done u" using deref_ok [OF ok p] by blast
    ultimately have drop: "shared_drop p (shared_new f u (mem w)) = Done h"
      using m(1) n(1) by (cases "shared_drop p (shared_new f u (mem w))") (simp_all add: make_mut_def)
    let ?v = "w\<lparr>mem := shared_new f u (mem w), strongs := strongs w + {#f#}\<rparr>"
    have v: "world_ok ?v" "p \<in># strongs ?v" using new_ok [OF ok f] p by simp_all
    have ne: "p \<noteq> f" using handle_alive [OF ok p] f(1) by metis
    have others: "shared_deref r h = shared_deref r (shared_new f u (mem w))" if "r \<in># strongs ?v - {#p#}" for r
      using drop_keeps_others [OF v that] drop by simp
    have old: "shared_deref r (shared_new f u (mem w)) = shared_deref r (mem w)" if "r \<noteq> f" for r
      using that by (simp add: shared_new_def shared_deref_def header_at_def)
    have "f \<in># strongs ?v - {#p#}" using ne by (simp add: in_diff_count)
    from others [OF this] have "shared_deref q h = shared_deref p (mem w)"
      using u q by (simp add: shared_new_def shared_deref_def header_at_def)
    moreover have "r \<noteq> q \<and> shared_deref r h = shared_deref r (mem w)" if "r \<in># strongs w - {#p#}" for r
    proof -
      have rf: "r \<noteq> f" using alive [OF that] f(1) by metis
      have "r \<in># strongs ?v - {#p#}" using that by (simp add: in_diff_count)
      from others [OF this] old [OF rf] rf q show ?thesis by simp
    qed
    ultimately show ?thesis by blast
  qed
  moreover have "world_ok (w\<lparr>mem := h', strongs := strongs w - {#p#} + {#q#}\<rparr>)" using h'(2) by (cases w) simp
  ultimately show ?thesis
    using m(1) h' by - (rule exI [of _ q], rule exI [of _ h], rule exI [of _ h'], simp)
qed

section \<open>The properties\<close>

abbreviation sound :: "'a outcome \<Rightarrow> bool" where
  "sound r \<equiv> r \<noteq> Undefined \<and> r \<noteq> Panics"

text \<open>C8: reference-counted storage is memory safe. In every state programs reach, an operation on a strong
  handle they hold never touches a freed block or a dropped payload and never drops one twice, and an
  operation on a weak handle never does either nor fails the assertion on freeing; at most they abort
  on a counter that would overflow.\<close>

theorem shared_memory_safe:
  assumes "mem_reachable w" "mem w f = None" "f \<noteq> 0"
  shows "(p \<in># strongs w \<longrightarrow> sound (shared_clone p (mem w)) \<and> sound (shared_deref p (mem w)) \<and> sound (shared_drop p (mem w)) \<and>
      sound (make_mut p f (mem w)) \<and> sound (shared_write p v (mem w)) \<and> sound (try_unwrap p (mem w)) \<and>
      sound (downgrade p (mem w)) \<and> sound (clone_from_strong_count_address p (mem w))) \<and>
    (q \<in># weaks w \<longrightarrow> sound (weak_clone q (mem w)) \<and> sound (weak_drop q (mem w)) \<and> sound (weak_upgrade q (mem w)))"
proof (intro conjI [where P = "_ \<longrightarrow> _"] impI)
  note ok = reachable_ok [OF assms(1)]
  have up: "sound (weak_upgrade r (mem w))" if "r \<in># strongs w \<or> r \<in># weaks w" for r
    using upgrade_ok(1,2) [OF ok that] by (cases "r \<in># strongs w") auto
  {
    assume p: "p \<in># strongs w"
    then have p': "p \<in># strongs w \<or> p \<in># weaks w" by simp
    have "sound (shared_clone p (mem w))" using clone_ok [OF ok p] by auto
    moreover have "sound (shared_deref p (mem w))" using deref_ok [OF ok p] by auto
    moreover have "sound (shared_drop p (mem w))" using drop_ok [OF ok p] by auto
    moreover have "sound (make_mut p f (mem w))" using make_mut_ok [OF ok p assms(2,3)] by force
    moreover have "sound (shared_write p v (mem w))" using write_ok [OF ok p, of v] by force
    moreover have "sound (try_unwrap p (mem w))" using unwrap_ok [OF ok p] by force
    moreover have "sound (downgrade p (mem w))" using weak_inc_ok(1) [OF ok p'] by force
    moreover have "sound (clone_from_strong_count_address p (mem w))" using up [OF p'] upgrade_ok(3) [OF ok p'] by simp
    ultimately show "sound (shared_clone p (mem w)) \<and> sound (shared_deref p (mem w)) \<and> sound (shared_drop p (mem w)) \<and>
      sound (make_mut p f (mem w)) \<and> sound (shared_write p v (mem w)) \<and> sound (try_unwrap p (mem w)) \<and>
      sound (downgrade p (mem w)) \<and> sound (clone_from_strong_count_address p (mem w))" by blast
  }
  assume q: "q \<in># weaks w"
  then have q': "q \<in># strongs w \<or> q \<in># weaks w" by simp
  have "sound (weak_clone q (mem w))" using weak_inc_ok [OF ok q'] by force
  moreover have "sound (weak_drop q (mem w))" using weak_drop_ok [OF ok q] by force
  ultimately show "sound (weak_clone q (mem w)) \<and> sound (weak_drop q (mem w)) \<and> sound (weak_upgrade q (mem w))"
    using up [OF q'] by blast
qed



text \<open>C38: copy on write isolates. Separating the storage of a handle and writing through it succeeds, starts
  from the value the handle saw, and no other handle sees the write, also those that shared the storage.\<close>

theorem make_mut_isolates:
  assumes "mem_reachable w" "p \<in># strongs w" "mem w f = None" "f \<noteq> 0"
  shows "\<exists>q h h'. make_mut p f (mem w) = Done (q, h) \<and> shared_write q v h = Done h' \<and>
    shared_deref q h = shared_deref p (mem w) \<and> shared_deref q h' = Done v \<and>
    (\<forall>r. r \<in># strongs w - {#p#} \<longrightarrow> shared_deref r h' = shared_deref r (mem w))"
  using separate_isolates [OF reachable_ok [OF assms(1)] assms(2-4), of v] by blast

text \<open>Two handles to one block and a weak one, for the witnesses.\<close>

definition demo_world :: "nat world" where
  "demo_world = \<lparr>mem = [1 \<mapsto> \<lparr>strong = 2, weak = 2, payload = Some 7\<rparr>], strongs = {#1, 1#}, weaks = {#1#}\<rparr>"

lemma demo_world_reachable: "mem_reachable demo_world"
proof -
  define w1 :: "nat world" where "w1 = \<lparr>mem = [1 \<mapsto> \<lparr>strong = 1, weak = 1, payload = Some 7\<rparr>], strongs = {#1#}, weaks = {#}\<rparr>"
  define w2 :: "nat world" where "w2 = \<lparr>mem = [1 \<mapsto> \<lparr>strong = 2, weak = 1, payload = Some 7\<rparr>], strongs = {#1, 1#}, weaks = {#}\<rparr>"
  have "mem_step empty_world w1"
    using step_new [of empty_world 1 7] by (simp add: w1_def empty_world_def shared_new_def)
  moreover have "mem_step w1 w2"
    using step_clone [of 1 w1 "mem w2"] by (simp add: w1_def w2_def shared_clone_def header_at_def)
  moreover have "mem_step w2 demo_world"
    using step_downgrade [of 1 w2 "mem demo_world"] by (simp add: demo_world_def w2_def downgrade_def header_at_def)
  ultimately show ?thesis by (meson reach_empty reach_step)
qed

theorem shared_memory_safe_witness: "sound (make_mut 1 2 (mem demo_world)) \<and> sound (weak_drop 1 (mem demo_world))"
  using shared_memory_safe [OF demo_world_reachable, of 2 1 0 1] by (simp add: demo_world_def)



theorem make_mut_isolates_witness:
  "\<exists>q h h'. make_mut 1 2 (mem demo_world) = Done (q, h) \<and> shared_write q 9 h = Done h' \<and> shared_deref q h' = Done 9 \<and> shared_deref 1 h' = Done 7"
proof -
  have "1 \<in># strongs demo_world" "mem demo_world 2 = None" "1 \<in># strongs demo_world - {#1#}" "shared_deref 1 (mem demo_world) = Done 7"
    by (simp_all add: demo_world_def shared_deref_def header_at_def)
  then show ?thesis using make_mut_isolates [OF demo_world_reachable, of 1 2 9] by auto
qed

end
