(* ===== verification/Php_Array_Cow.thy ===== *)
theory Php_Array_Cow
  imports Php_Array_Map Runtime_Memory
begin

text \<open>
  Copy on write: \<open>PhpArray\<close> as a handle to shared storage (\<open>crates/php_runtime/src/array.rs\<close> over
  \<open>runtime_memory.rs\<close>). Every operation that changes an array goes through \<open>storage_mut_for\<close>, which
  separates shared storage first. Arrays held in variables then behave as values: a program with
  copies, updates and drops computes what it would with a copy of the array at each assignment.
  \<open>alloc\<close> is the allocator, which returns a free address.
\<close>

record cow_state =
  cow_mem :: "array_storage heap"
  next_storage_id :: nat

abbreviation set_mem :: "array_storage heap \<Rightarrow> cow_state \<Rightarrow> cow_state" where
  "set_mem h cs \<equiv> cs\<lparr>cow_mem := h\<rparr>"

definition array_is_shared :: "addr \<Rightarrow> cow_state \<Rightarrow> bool outcome" where
  "array_is_shared ptr cs = bind_outcome (strong_count ptr (cow_mem cs)) (\<lambda>n. Done (1 < n))"

text \<open>The handle that owns its storage afterwards, and the state.\<close>

definition storage_mut_for ::
    "(array_storage heap \<Rightarrow> addr) \<Rightarrow> addr \<Rightarrow> cow_state \<Rightarrow> (addr \<times> cow_state) outcome" where
  "storage_mut_for alloc ptr cs =
     bind_outcome (array_is_shared ptr cs) (\<lambda>shared.
       bind_outcome (make_mut ptr (alloc (cow_mem cs)) (cow_mem cs)) (\<lambda>(q, h).
         if shared then
           bind_outcome (shared_deref q h) (\<lambda>st.
             bind_outcome (shared_write q (set_storage_id (next_storage_id cs) st) h) (\<lambda>h'.
               Done (q, (set_mem h' cs)\<lparr>next_storage_id := next_storage_id cs + 1\<rparr>)))
         else Done (q, set_mem h cs)))"

text \<open>An update of the storage behind a handle; \<open>None\<close> is a panic of the update.\<close>

definition write_through ::
    "(array_storage heap \<Rightarrow> addr) \<Rightarrow> addr \<Rightarrow> (array_storage \<Rightarrow> ('r \<times> array_storage) option) \<Rightarrow> cow_state \<Rightarrow>
     ('r \<times> addr \<times> cow_state) outcome" where
  "write_through alloc ptr g cs =
     bind_outcome (storage_mut_for alloc ptr cs) (\<lambda>(q, cs').
       bind_outcome (shared_deref q (cow_mem cs')) (\<lambda>st.
         case g st of
           None \<Rightarrow> Panics
         | Some (r, st') \<Rightarrow>
             bind_outcome (shared_write q st' (cow_mem cs')) (\<lambda>h. Done (r, q, set_mem h cs'))))"

definition php_insert :: "byte_env \<Rightarrow> (array_storage heap \<Rightarrow> addr) \<Rightarrow> addr \<Rightarrow> array_key \<Rightarrow> bool \<Rightarrow> php_value \<Rightarrow>
    cow_state \<Rightarrow> (php_value option \<times> addr \<times> cow_state) outcome" where
  "php_insert E alloc ptr key shared value cs = write_through alloc ptr (array_insert E key shared value) cs"

definition php_try_append :: "byte_env \<Rightarrow> (array_storage heap \<Rightarrow> addr) \<Rightarrow> addr \<Rightarrow> php_value \<Rightarrow>
    cow_state \<Rightarrow> ((append_error + array_key) \<times> addr \<times> cow_state) outcome" where
  "php_try_append E alloc ptr value cs =
     bind_outcome (shared_deref ptr (cow_mem cs)) (\<lambda>st.
       if \<not> can_append st then Done (Inl PhpArrayAppendError, ptr, cs)
       else write_through alloc ptr (\<lambda>st. case try_append E value st of
              Inl _ \<Rightarrow> None | Inr (key, st') \<Rightarrow> Some (Inr key, st')) cs)"

definition php_remove :: "byte_env \<Rightarrow> (array_storage heap \<Rightarrow> addr) \<Rightarrow> addr \<Rightarrow> array_key \<Rightarrow>
    cow_state \<Rightarrow> (php_value option \<times> addr \<times> cow_state) outcome" where
  "php_remove E alloc ptr key cs =
     write_through alloc ptr (\<lambda>st.
       if find_index st key = None then Some (None, st)
       else map_option (\<lambda>(value, st'). (Some value, st')) (array_remove E key st)) cs"

text \<open>The second \<open>storage_mut_for\<close> of \<open>pop\<close>, after the removal, finds storage of its own.\<close>

definition php_pop :: "byte_env \<Rightarrow> (array_storage heap \<Rightarrow> addr) \<Rightarrow> addr \<Rightarrow>
    cow_state \<Rightarrow> (php_value option \<times> addr \<times> cow_state) outcome" where
  "php_pop E alloc ptr cs =
     bind_outcome (shared_deref ptr (cow_mem cs)) (\<lambda>st.
       if last_index st = None then Done (None, ptr, cs)
       else write_through alloc ptr (\<lambda>st. map_option (\<lambda>(value, st'). (Some value, st')) (array_pop E st)) cs)"

definition php_move :: "(array_storage heap \<Rightarrow> addr) \<Rightarrow> addr \<Rightarrow> (array_storage \<Rightarrow> php_value option \<times> array_storage) \<Rightarrow>
    cow_state \<Rightarrow> (php_value option \<times> addr \<times> cow_state) outcome" where
  "php_move alloc ptr move cs = write_through alloc ptr (\<lambda>st. Some (move st)) cs"

definition php_get :: "addr \<Rightarrow> array_key \<Rightarrow> cow_state \<Rightarrow> php_value option outcome" where
  "php_get ptr key cs = bind_outcome (shared_deref ptr (cow_mem cs)) (\<lambda>st. Done (array_get st key))"

section \<open>Programs over array variables\<close>

text \<open>A program state: the shared storages and the handles the variables hold.\<close>

record cow_program =
  cow :: cow_state
  vars :: "addr option list"

datatype cow_command = ArrayNew nat | ArrayCopy nat nat | ArrayDrop nat | ArrayOp nat array_op

text \<open>An operation through a handle, its result ignored.\<close>

definition run_op :: "byte_env \<Rightarrow> (array_storage heap \<Rightarrow> addr) \<Rightarrow> addr \<Rightarrow> array_op \<Rightarrow> cow_state \<Rightarrow> (addr \<times> cow_state) outcome" where
  "run_op E alloc ptr op cs = (case op of
     OpInsert key shared value \<Rightarrow> bind_outcome (php_insert E alloc ptr key shared value cs) (\<lambda>(_, r). Done r)
   | OpAppend value \<Rightarrow> bind_outcome (php_try_append E alloc ptr value cs) (\<lambda>(_, r). Done r)
   | OpRemove key \<Rightarrow> bind_outcome (php_remove E alloc ptr key cs) (\<lambda>(_, r). Done r)
   | OpPop \<Rightarrow> bind_outcome (php_pop E alloc ptr cs) (\<lambda>(_, r). Done r)
   | OpReset \<Rightarrow> bind_outcome (php_move alloc ptr reset_pointer cs) (\<lambda>(_, r). Done r)
   | OpEnd \<Rightarrow> bind_outcome (php_move alloc ptr end_pointer cs) (\<lambda>(_, r). Done r)
   | OpNext \<Rightarrow> bind_outcome (php_move alloc ptr next_pointer cs) (\<lambda>(_, r). Done r)
   | OpPrev \<Rightarrow> bind_outcome (php_move alloc ptr prev_pointer cs) (\<lambda>(_, r). Done r)
   | OpSeek pos \<Rightarrow> bind_outcome (php_move alloc ptr (\<lambda>st. (None, set_native_pointer_position pos st)) cs) (\<lambda>(_, r). Done r))"

text \<open>Assignment to a variable drops the handle it held.\<close>

definition assign_var :: "nat \<Rightarrow> addr option \<Rightarrow> cow_program \<Rightarrow> cow_program outcome" where
  "assign_var x v p =
     (case vars p ! x of
        None \<Rightarrow> Done (p\<lparr>vars := (vars p)[x := v]\<rparr>)
      | Some old \<Rightarrow> bind_outcome (shared_drop old (cow_mem (cow p))) (\<lambda>h.
          Done \<lparr>cow = set_mem h (cow p), vars = (vars p)[x := v]\<rparr>))"

definition cow_step :: "byte_env \<Rightarrow> (array_storage heap \<Rightarrow> addr) \<Rightarrow> cow_command \<Rightarrow> cow_program \<Rightarrow> cow_program outcome" where
  "cow_step E alloc cmd p = (case cmd of
     ArrayNew x \<Rightarrow>
       let f = alloc (cow_mem (cow p))
       in assign_var x (Some f)
            (p\<lparr>cow := \<lparr>cow_mem = shared_new f (storage_empty (next_storage_id (cow p))) (cow_mem (cow p)),
                      next_storage_id = next_storage_id (cow p) + 1\<rparr>\<rparr>)
   | ArrayCopy x y \<Rightarrow>
       (case vars p ! y of
          None \<Rightarrow> assign_var x None p
        | Some ptr \<Rightarrow> bind_outcome (shared_clone ptr (cow_mem (cow p))) (\<lambda>h.
            assign_var x (Some ptr) (p\<lparr>cow := set_mem h (cow p)\<rparr>)))
   | ArrayDrop x \<Rightarrow> assign_var x None p
   | ArrayOp x op \<Rightarrow>
       (case vars p ! x of
          None \<Rightarrow> Done p
        | Some ptr \<Rightarrow> bind_outcome (run_op E alloc ptr op (cow p)) (\<lambda>(q, cs).
            Done \<lparr>cow = cs, vars = (vars p)[x := Some q]\<rparr>)))"

primrec cow_run :: "byte_env \<Rightarrow> (array_storage heap \<Rightarrow> addr) \<Rightarrow> cow_command list \<Rightarrow> cow_program \<Rightarrow> cow_program outcome" where
  "cow_run E alloc [] p = Done p"
| "cow_run E alloc (cmd # cmds) p = bind_outcome (cow_step E alloc cmd p) (cow_run E alloc cmds)"

definition cow_start :: "nat \<Rightarrow> cow_program" where
  "cow_start n = \<lparr>cow = \<lparr>cow_mem = (\<lambda>_. None), next_storage_id = 1\<rparr>, vars = replicate n None\<rparr>"

text \<open>The same program when every variable holds an array of its own.\<close>

abbreviation empty_array :: ordered_array where
  "empty_array \<equiv> \<lparr>oa_pairs = [], oa_position = None, oa_next_key = None\<rparr>"

definition value_step :: "cow_command \<Rightarrow> ordered_array option list \<Rightarrow> ordered_array option list" where
  "value_step cmd vs = (case cmd of
     ArrayNew x \<Rightarrow> vs[x := Some empty_array]
   | ArrayCopy x y \<Rightarrow> vs[x := vs ! y]
   | ArrayDrop x \<Rightarrow> vs[x := None]
   | ArrayOp x op \<Rightarrow> vs[x := map_option (spec_step op) (vs ! x)])"

definition command_ok :: "nat \<Rightarrow> cow_command \<Rightarrow> bool" where
  "command_ok n cmd = (case cmd of
     ArrayNew x \<Rightarrow> x < n
   | ArrayCopy x y \<Rightarrow> x < n \<and> y < n
   | ArrayDrop x \<Rightarrow> x < n
   | ArrayOp x op \<Rightarrow> x < n \<and> op_in_range op)"

text \<open>The allocator returns a free address that is not null.\<close>

definition alloc_ok :: "(array_storage heap \<Rightarrow> addr) \<Rightarrow> bool" where
  "alloc_ok alloc \<longleftrightarrow> (\<forall>h. finite (dom h) \<longrightarrow> h (alloc h) = None \<and> alloc h \<noteq> 0)"

section \<open>Simulation\<close>

abbreviation handles :: "array_storage heap \<Rightarrow> addr multiset \<Rightarrow> array_storage world" where
  "handles h S \<equiv> \<lparr>mem = h, strongs = S, weaks = {#}\<rparr>"

definition holds :: "byte_env \<Rightarrow> array_storage heap \<Rightarrow> addr \<Rightarrow> ordered_array \<Rightarrow> bool" where
  "holds E h p a \<longleftrightarrow> (\<exists>st. shared_deref p h = Done st \<and> storage_ok E st \<and> abs_array st = a)"

text \<open>The identity of the storage plays no part in the array.\<close>

lemma set_storage_id_same:
  "storage_ok E (set_storage_id i st) = storage_ok E st" "abs_array (set_storage_id i st) = abs_array st"
  by (cases st; simp add: set_storage_id_def storage_ok_def layout_ok_def pointer_ok_def append_ok_def abs_array_def slot_list_def
      iter_pairs_def header_simps)+

lemma finite_heap: "world_ok w \<Longrightarrow> finite (dom (mem w))"
proof (rule finite_subset)
  assume ok: "world_ok w"
  show "dom (mem w) \<subseteq> set_mset (strongs w) \<union> set_mset (weaks w)"
  proof
    fix p
    assume "p \<in> dom (mem w)"
    then show "p \<in> set_mset (strongs w) \<union> set_mset (weaks w)"
      using world_okD [OF ok, of p] by (auto simp: block_ok_def)
  qed
qed simp

lemma storage_mut_sim:
  assumes ok: "world_ok (handles (cow_mem cs) S)" and p: "p \<in># S" and alloc: "alloc_ok alloc"
    and st: "shared_deref p (cow_mem cs) = Done st" "storage_ok E st"
  shows "\<exists>q cs' st'. storage_mut_for alloc p cs = Done (q, cs') \<and> world_ok (handles (cow_mem cs') (S - {#p#} + {#q#})) \<and>
    shared_deref q (cow_mem cs') = Done st' \<and> storage_ok E st' \<and> abs_array st' = abs_array st \<and>
    (\<forall>r. r \<in># S - {#p#} \<longrightarrow> r \<noteq> q \<and> shared_deref r (cow_mem cs') = shared_deref r (cow_mem cs))"
proof -
  let ?f = "alloc (cow_mem cs)" and ?w = "handles (cow_mem cs) S"
  have f: "mem ?w ?f = None" "?f \<noteq> 0" using alloc finite_heap [OF ok] by (simp_all add: alloc_ok_def)
  have p': "p \<in># strongs ?w" using p by simp
  obtain n where n: "strong_count p (cow_mem cs) = Done n" "unat n = count S p" using strong_count_ok [OF ok p'] by auto
  let ?st = "set_storage_id (next_storage_id cs) st"
  obtain q h h' where m: "make_mut p ?f (cow_mem cs) = Done (q, h)" "shared_write q ?st h = Done h'"
    "world_ok (handles h' (S - {#p#} + {#q#}))" "shared_deref q h = Done st" "shared_deref q h' = Done ?st"
    "\<forall>r. r \<in># S - {#p#} \<longrightarrow> r \<noteq> q \<and> shared_deref r h' = shared_deref r (cow_mem cs)"
    using separate_isolates [OF ok p' f, of ?st] st(1) by auto
  show ?thesis
  proof (cases "1 < n")
    case True
    then have "storage_mut_for alloc p cs = Done (q, (set_mem h' cs)\<lparr>next_storage_id := next_storage_id cs + 1\<rparr>)"
      using n(1) m(1,2,4) by (simp add: storage_mut_for_def array_is_shared_def)
    then show ?thesis using m(3,5,6) st(2) by (simp add: set_storage_id_same)
  next
    case False
    then have "count S p = 1" using n(2) p by (metis count_greater_zero_iff less_one linorder_neqE_nat not_less_eq word_gt_1 One_nat_def)
    then have q: "q = p" "h = cow_mem cs" using make_mut_ok [OF ok p' f] m(1) by auto
    have "storage_mut_for alloc p cs = Done (p, cs)" using False n(1) m(1) q by (simp add: storage_mut_for_def array_is_shared_def)
    moreover have "r \<noteq> p" if "r \<in># S - {#p#}" for r using that \<open>count S p = 1\<close> by (metis count_diff count_single diff_self_eq_0 count_greater_zero_iff less_irrefl)
    moreover have "S - {#p#} + {#p#} = S" using p by simp
    ultimately show ?thesis using ok st by (intro exI [of _ p] exI [of _ cs] exI [of _ st]) auto
  qed
qed

definition implements :: "byte_env \<Rightarrow> (array_storage \<Rightarrow> ('r \<times> array_storage) option) \<Rightarrow> (ordered_array \<Rightarrow> 'r \<times> ordered_array) \<Rightarrow> array_storage \<Rightarrow> bool" where
  "implements E g G st0 \<longleftrightarrow> (\<forall>st. storage_ok E st \<and> abs_array st = abs_array st0 \<longrightarrow>
     (\<exists>st'. g st = Some (fst (G (abs_array st)), st') \<and> storage_ok E st' \<and> abs_array st' = snd (G (abs_array st))))"

lemma write_through_sim:
  assumes ok: "world_ok (handles (cow_mem cs) S)" and p: "p \<in># S" and alloc: "alloc_ok alloc"
    and st: "shared_deref p (cow_mem cs) = Done st" "storage_ok E st" and g: "implements E g G st"
  shows "\<exists>q cs'. write_through alloc p g cs = Done (fst (G (abs_array st)), q, cs') \<and>
    world_ok (handles (cow_mem cs') (S - {#p#} + {#q#})) \<and> holds E (cow_mem cs') q (snd (G (abs_array st))) \<and>
    (\<forall>r. r \<in># S - {#p#} \<longrightarrow> r \<noteq> q \<and> shared_deref r (cow_mem cs') = shared_deref r (cow_mem cs))"
proof -
  obtain q cs1 st1 where s: "storage_mut_for alloc p cs = Done (q, cs1)" "world_ok (handles (cow_mem cs1) (S - {#p#} + {#q#}))"
    "shared_deref q (cow_mem cs1) = Done st1" "storage_ok E st1" "abs_array st1 = abs_array st"
    "\<forall>r. r \<in># S - {#p#} \<longrightarrow> r \<noteq> q \<and> shared_deref r (cow_mem cs1) = shared_deref r (cow_mem cs)"
    using storage_mut_sim [OF ok p alloc st] by blast
  obtain st2 where g': "g st1 = Some (fst (G (abs_array st)), st2)" "storage_ok E st2" "abs_array st2 = snd (G (abs_array st))"
    using g s(4,5) by (force simp: implements_def)
  have "q \<in># strongs (handles (cow_mem cs1) (S - {#p#} + {#q#}))" by simp
  from write_ok [OF s(2) this, of st2] obtain h where h: "shared_write q st2 (cow_mem cs1) = Done h"
    "world_ok (handles h (S - {#p#} + {#q#}))" "shared_deref q h = Done st2" "\<forall>r. r \<noteq> q \<longrightarrow> shared_deref r h = shared_deref r (cow_mem cs1)"
    by auto
  have "write_through alloc p g cs = Done (fst (G (abs_array st)), q, set_mem h cs1)"
    using s(1,3) g'(1) h(1) by (simp add: write_through_def)
  then show ?thesis using h s(6) g' by (intro exI [of _ q] exI [of _ "set_mem h cs1"]) (simp add: holds_def)
qed

text \<open>The operations of the storage implement the operations on ordered arrays.\<close>

lemma implementsI:
  "(\<And>st. storage_ok E st \<Longrightarrow> abs_array st = abs_array st0 \<Longrightarrow>
      \<exists>st'. g st = Some (fst (G (abs_array st)), st') \<and> storage_ok E st' \<and> abs_array st' = snd (G (abs_array st))) \<Longrightarrow>
    implements E g G st0"
  by (simp add: implements_def)

lemma implements_insert: "key_in_range key \<Longrightarrow> implements E (array_insert E key shared v) (spec_insert key v) st0"
  by (rule implementsI) (rule insert_refines)

lemma implements_append:
  assumes "spec_append v (abs_array st0) = Inr (k, b)"
  shows "implements E (\<lambda>st. case try_append E v st of Inl _ \<Rightarrow> None | Inr (key, st') \<Rightarrow> Some (Inr key, st'))
    (\<lambda>a. (Inr k, b) :: (append_error + array_key) \<times> ordered_array) st0"
proof (rule implementsI)
  fix st
  assume "storage_ok E st" "abs_array st = abs_array st0"
  then show "\<exists>st'. (case try_append E v st of Inl _ \<Rightarrow> None | Inr (key, st') \<Rightarrow> Some (Inr key, st'))
      = Some (fst (Inr k, b), st') \<and> storage_ok E st' \<and> abs_array st' = snd (Inr k, b)"
    using append_refines [of E st v] assms by auto
qed

lemma implements_remove:
  "implements E (\<lambda>st. if find_index st key = None then Some (None, st)
      else map_option (\<lambda>(value, st'). (Some value, st')) (array_remove E key st))
    (\<lambda>a. case spec_remove key a of None \<Rightarrow> (None, a) | Some (v, b) \<Rightarrow> (Some v, b)) st0"
proof (rule implementsI)
  fix st
  assume ok: "storage_ok E st"
  show "\<exists>st'. (if find_index st key = None then Some (None, st)
        else map_option (\<lambda>(value, st'). (Some value, st')) (array_remove E key st))
      = Some (fst (case spec_remove key (abs_array st) of None \<Rightarrow> (None, abs_array st) | Some (v, b) \<Rightarrow> (Some v, b)), st') \<and>
      storage_ok E st' \<and> abs_array st' = snd (case spec_remove key (abs_array st) of None \<Rightarrow> (None, abs_array st) | Some (v, b) \<Rightarrow> (Some v, b))"
    using remove_refines [OF ok, of key] find_index_spec_remove [OF ok, of key] ok
    by (cases "spec_remove key (abs_array st)") auto
qed

lemma implements_pop:
  assumes "spec_pop (abs_array st0) = Some (v, b)"
  shows "implements E (\<lambda>st. map_option (\<lambda>(value, st'). (Some value, st')) (array_pop E st)) (\<lambda>a. (Some v, b)) st0"
proof (rule implementsI)
  fix st
  assume "storage_ok E st" "abs_array st = abs_array st0"
  then show "\<exists>st'. map_option (\<lambda>(value, st'). (Some value, st')) (array_pop E st) = Some (fst (Some v, b), st') \<and>
      storage_ok E st' \<and> abs_array st' = snd (Some v, b)"
    using pop_refines [of E st] assms by auto
qed

lemma implements_move:
  assumes "\<And>st. storage_ok E st \<Longrightarrow> refines E (m st) (M (abs_array st))"
  shows "implements E (\<lambda>st. Some (m st)) M st0"
proof (rule implementsI)
  fix st
  assume "storage_ok E st"
  from assms [OF this] show "\<exists>st'. Some (m st) = Some (fst (M (abs_array st)), st') \<and> storage_ok E st' \<and> abs_array st' = snd (M (abs_array st))"
    by (intro exI [of _ "snd (m st)"]) (simp add: refines_def prod_eq_iff)
qed

lemma seek_refines:
  "storage_ok E st \<Longrightarrow> refines E (None :: php_value option, set_native_pointer_position pos st) (None, spec_step (OpSeek pos) (abs_array st))"
  using set_native_pointer_position_rank [of E st pos] by (simp add: refines_def spec_step_def cong: option.case_cong)

lemma can_append_spec: "storage_ok E st \<Longrightarrow> can_append st \<longleftrightarrow> (\<exists>r. spec_append v (abs_array st) = Inr r)"
  unfolding can_append_iff spec_append_def Let_def by simp

lemma run_op_sim:
  assumes ok: "world_ok (handles (cow_mem cs) S)" and p: "p \<in># S" and alloc: "alloc_ok alloc"
    and a: "holds E (cow_mem cs) p a" and op: "op_in_range op"
  shows "\<exists>q cs'. run_op E alloc p op cs = Done (q, cs') \<and>
    world_ok (handles (cow_mem cs') (S - {#p#} + {#q#})) \<and> holds E (cow_mem cs') q (spec_step op a) \<and>
    (\<forall>r. r \<in># S - {#p#} \<longrightarrow> shared_deref r (cow_mem cs') = shared_deref r (cow_mem cs))"
    (is "\<exists>q cs'. _ = _ \<and> ?sim q cs' (spec_step op a)")
proof -
  from a obtain st where st: "shared_deref p (cow_mem cs) = Done st" "storage_ok E st" "abs_array st = a" by (auto simp: holds_def)
  have sim: "\<exists>q cs'. bind_outcome (write_through alloc p g cs) (\<lambda>(_, r). Done r) = Done (q, cs') \<and> ?sim q cs' (snd (G a))"
    if "implements E g G st" for g :: "array_storage \<Rightarrow> ('r \<times> array_storage) option" and G
    using write_through_sim [OF ok p alloc st(1,2) that] unfolding st(3) by auto
  have idle: "?sim p cs a" using ok a p by simp
  show ?thesis
  proof (cases op)
    case (OpInsert key shared v)
    then have "key_in_range key" using op by (simp add: op_in_range_def)
    from sim [OF implements_insert [OF this]] show ?thesis by (simp add: OpInsert run_op_def php_insert_def spec_step_def)
  next
    case (OpAppend v)
    show ?thesis
    proof (cases "spec_append v a")
      case (Inl e)
      then have "\<not> can_append st" using can_append_spec [OF st(2), of v] st(3) by simp
      then show ?thesis
        using st(1) idle Inl by (simp add: OpAppend run_op_def php_try_append_def spec_step_def)
    next
      case (Inr r)
      obtain k b where r: "r = (k, b)" by (cases r)
      have "can_append st" using Inr can_append_spec [OF st(2), of v] st(3) by simp
      then show ?thesis
        using st(1) Inr r sim [OF implements_append [of v st k b]] st(3)
        by (simp add: OpAppend run_op_def php_try_append_def spec_step_def)
    qed
  next
    case (OpRemove key)
    from sim [OF implements_remove, of key] show ?thesis
      by (auto simp: OpRemove run_op_def php_remove_def spec_step_def split: option.splits prod.splits)
  next
    case OpPop
    show ?thesis
    proof (cases "spec_pop a")
      case None
      then have "last_index st = None" using last_index_spec_pop [OF st(2)] st(3) by simp
      then show ?thesis using st(1) idle None by (simp add: OpPop run_op_def php_pop_def spec_step_def)
    next
      case (Some r)
      obtain v b where r: "r = (v, b)" by (cases r)
      have "last_index st \<noteq> None" using last_index_spec_pop [OF st(2)] st(3) Some by simp
      then show ?thesis
        using st(1) Some r sim [OF implements_pop [of st v b]] st(3) by (simp add: OpPop run_op_def php_pop_def spec_step_def del: not_None_eq)
    qed
  next
    case OpReset
    from sim [OF implements_move [of E reset_pointer spec_reset, OF pointer_ops_refine(1)]] show ?thesis by (simp add: OpReset run_op_def php_move_def spec_step_def)
  next
    case OpEnd
    from sim [OF implements_move [of E end_pointer spec_end, OF pointer_ops_refine(2)]] show ?thesis by (simp add: OpEnd run_op_def php_move_def spec_step_def)
  next
    case OpNext
    from sim [OF implements_move [of E next_pointer spec_next, OF pointer_ops_refine(3)]] show ?thesis by (simp add: OpNext run_op_def php_move_def spec_step_def)
  next
    case OpPrev
    from sim [OF implements_move [of E prev_pointer spec_prev, OF pointer_ops_refine(4)]] show ?thesis by (simp add: OpPrev run_op_def php_move_def spec_step_def)
  next
    case (OpSeek pos)
    from sim [OF implements_move [of E "\<lambda>st. (None, set_native_pointer_position pos st)" "\<lambda>a. (None, spec_step (OpSeek pos) a)", OF seek_refines]] show ?thesis by (simp add: OpSeek run_op_def php_move_def)
  qed
qed

subsection \<open>Programs\<close>

text \<open>Each variable holds an array with the value it should have.\<close>

definition vars_hold :: "byte_env \<Rightarrow> array_storage heap \<Rightarrow> addr option list \<Rightarrow> ordered_array option list \<Rightarrow> bool" where
  "vars_hold E h ps vs \<longleftrightarrow> list_all2 (rel_option (holds E h)) ps vs"

definition program_sim :: "byte_env \<Rightarrow> cow_program \<Rightarrow> ordered_array option list \<Rightarrow> bool" where
  "program_sim E p vs \<longleftrightarrow> world_ok (handles (cow_mem (cow p)) (mset (live (vars p)))) \<and> vars_hold E (cow_mem (cow p)) (vars p) vs"

lemma holds_mono: "holds E h p a \<Longrightarrow> shared_deref p h' = shared_deref p h \<Longrightarrow> holds E h' p a"
  by (simp add: holds_def)

lemma vars_hold_mono:
  assumes "vars_hold E h ps vs" "\<And>p. p \<in># mset (live ps) \<Longrightarrow> shared_deref p h' = shared_deref p h"
  shows "vars_hold E h' ps vs"
proof -
  have "rel_option (holds E h') (ps ! x) (vs ! x)" if "x < length ps" for x
  proof (cases "ps ! x")
    case None
    then show ?thesis using assms(1) that by (auto simp: vars_hold_def list_all2_conv_all_nth)
  next
    case (Some p)
    then have same: "shared_deref p h' = shared_deref p h" using assms(2) mset_live_nth [OF that] by blast
    have "rel_option (holds E h) (Some p) (vs ! x)" using assms(1) that unfolding Some [symmetric] by (simp add: vars_hold_def list_all2_conv_all_nth)
    then show ?thesis unfolding Some using same by (cases "vs ! x") (simp_all add: holds_def)
  qed
  then show ?thesis using assms(1) by (simp add: vars_hold_def list_all2_conv_all_nth)
qed

lemma vars_hold_update:
  "vars_hold E h ps vs \<Longrightarrow> rel_option (holds E h) p v \<Longrightarrow> vars_hold E h (ps[x := p]) (vs[x := v])"
  by (simp add: vars_hold_def list_all2_update_cong)

lemma vars_hold_nth: "vars_hold E h ps vs \<Longrightarrow> x < length ps \<Longrightarrow> rel_option (holds E h) (ps ! x) (vs ! x)"
  by (simp add: vars_hold_def list_all2_conv_all_nth)

lemma assign_sim:
  assumes ok: "world_ok (handles (cow_mem (cow p)) (mset (live (vars p)) + opt_mset q))" and x: "x < length (vars p)"
    and vs: "vars_hold E (cow_mem (cow p)) ((vars p)[x := q]) (vs[x := v])"
  shows "\<exists>p'. assign_var x q p = Done p' \<and> program_sim E p' (vs[x := v]) \<and> length (vars p') = length (vars p)"
proof (cases "vars p ! x")
  case None
  then have "mset (live ((vars p)[x := q])) = mset (live (vars p)) + opt_mset q"
    using mset_live_update [OF x, of q] by (simp add: opt_mset_def)
  then show ?thesis using None ok vs by (simp add: assign_var_def program_sim_def)
next
  case (Some old)
  let ?S = "mset (live (vars p)) + opt_mset q" and ?h = "cow_mem (cow p)"
  have S: "mset (live ((vars p)[x := q])) = ?S - {#old#}"
    using mset_live_update [OF x, of q] Some by (simp add: opt_mset_def) (metis add_mset_remove_trivial)
  have old: "old \<in># strongs (handles ?h ?S)" using mset_live_nth [OF x Some] by simp
  obtain h where h: "shared_drop old ?h = Done h" "world_ok (handles h (?S - {#old#}))" using drop_ok [OF ok old] by auto
  have "shared_deref r h = shared_deref r ?h" if "r \<in># mset (live ((vars p)[x := q]))" for r
    using drop_keeps_others [OF ok old, of r h] that S h(1) by simp
  then have "vars_hold E h ((vars p)[x := q]) (vs[x := v])" using vars_hold_mono [OF vs] by blast
  then show ?thesis using Some h S by (simp add: assign_var_def program_sim_def)
qed

lemma clone_done:
  assumes "world_ok w" "p \<in># strongs w" "count (strongs w) p < 2 ^ 64 - 1"
  shows "\<exists>h. shared_clone p (mem w) = Done h \<and> world_ok (w\<lparr>mem := h, strongs := strongs w + {#p#}\<rparr>) \<and>
    (\<forall>r. shared_deref r h = shared_deref r (mem w))"
proof -
  obtain blk v s where b: "mem w p = Some blk" "payload blk = Some v" "count (strongs w) p = Suc s" "unat (strong blk) = Suc s" "p \<noteq> 0"
    using handle_strong [OF assms(1,2)] by metis
  have "strong blk \<noteq> usize_max"
  proof
    assume "strong blk = usize_max"
    then have "unat (strong blk) = 2 ^ 64 - 1" by (simp add: unsigned_minus_1_eq_mask mask_eq_exp_minus_1)
    then show False using assms(3) b(3,4) by simp
  qed
  then have c: "shared_clone p (mem w) = Done ((mem w)(p \<mapsto> blk\<lparr>strong := strong blk + 1\<rparr>))"
    using b by (simp add: shared_clone_def header_at_def)
  moreover have "shared_deref r ((mem w)(p \<mapsto> blk\<lparr>strong := strong blk + 1\<rparr>)) = shared_deref r (mem w)" for r
    using b by (simp add: shared_deref_def header_at_def)
  ultimately show ?thesis using clone_ok [OF assms(1,2)] by auto
qed

lemma empty_storage_holds: "storage_ok E (storage_empty i)" "abs_array (storage_empty i) = empty_array"
  by (rule storage_empty_ok) (simp add: storage_empty_def abs_array_def slot_list_def iter_pairs_def header_simps)

lemma deref_new: "shared_deref r (shared_new f v h) = (if r = f then Done v else shared_deref r h)"
  by (simp add: shared_deref_def shared_new_def header_at_def)

lemma new_sim:
  assumes sim: "program_sim E p vs" and x: "x < length (vars p)" and alloc: "alloc_ok alloc"
  shows "\<exists>p'. cow_step E alloc (ArrayNew x) p = Done p' \<and> program_sim E p' (value_step (ArrayNew x) vs) \<and> length (vars p') = length (vars p)"
proof -
  let ?h = "cow_mem (cow p)" and ?S = "mset (live (vars p))"
  let ?f = "alloc ?h" and ?st = "storage_empty (next_storage_id (cow p))"
  let ?p = "p\<lparr>cow := \<lparr>cow_mem = shared_new ?f ?st ?h, next_storage_id = next_storage_id (cow p) + 1\<rparr>\<rparr>"
  have ok: "world_ok (handles ?h ?S)" and vs: "vars_hold E ?h (vars p) vs" using sim by (simp_all add: program_sim_def)
  have f: "mem (handles ?h ?S) ?f = None" "?f \<noteq> 0" using alloc finite_heap [OF ok] by (simp_all add: alloc_ok_def)
  have "world_ok (handles (shared_new ?f ?st ?h) (?S + {#?f#}))" using new_ok [OF ok f, of ?st] by simp
  moreover have "r \<noteq> ?f" if "r \<in># ?S" for r using deref_ok [OF ok, of r] that f by (auto simp: shared_deref_def header_at_def)
  then have "vars_hold E (shared_new ?f ?st ?h) (vars p) vs" using vars_hold_mono [OF vs] by (simp add: deref_new)
  then have "vars_hold E (shared_new ?f ?st ?h) ((vars p)[x := Some ?f]) (vs[x := Some empty_array])"
    by (rule vars_hold_update) (simp add: holds_def deref_new empty_storage_holds)
  ultimately have "\<exists>p'. assign_var x (Some ?f) ?p = Done p' \<and> program_sim E p' (vs[x := Some empty_array]) \<and> length (vars p') = length (vars ?p)"
    using x by (intro assign_sim) (simp_all add: opt_mset_def)
  then show ?thesis by (simp add: cow_step_def value_step_def Let_def)
qed

lemma vars_hold_None: "vars_hold E h ps vs \<Longrightarrow> x < length ps \<Longrightarrow> ps ! x = None \<Longrightarrow> vs ! x = None"
  using vars_hold_nth by fastforce

lemma vars_hold_Some: "vars_hold E h ps vs \<Longrightarrow> x < length ps \<Longrightarrow> ps ! x = Some q \<Longrightarrow> \<exists>a. vs ! x = Some a \<and> holds E h q a"
  using vars_hold_nth [of E h ps vs x] by (simp add: option_rel_Some1)

lemma clear_sim:
  assumes sim: "program_sim E p vs" and x: "x < length (vars p)"
  shows "\<exists>p'. assign_var x None p = Done p' \<and> program_sim E p' (vs[x := None]) \<and> length (vars p') = length (vars p)"
  using sim x by (intro assign_sim) (simp_all add: program_sim_def opt_mset_def vars_hold_update)

lemma copy_sim:
  assumes sim: "program_sim E p vs" and x: "x < length (vars p)" "y < length (vars p)" and n: "length (vars p) < 2 ^ 64 - 1"
  shows "\<exists>p'. cow_step E alloc (ArrayCopy x y) p = Done p' \<and> program_sim E p' (value_step (ArrayCopy x y) vs) \<and> length (vars p') = length (vars p)"
proof (cases "vars p ! y")
  case None
  then have "vs ! y = None" using sim x(2) by (auto simp: program_sim_def intro: vars_hold_None)
  then show ?thesis using clear_sim [OF sim x(1)] None by (simp add: cow_step_def value_step_def)
next
  case (Some q)
  let ?h = "cow_mem (cow p)" and ?S = "mset (live (vars p))"
  have ok: "world_ok (handles ?h ?S)" and vs: "vars_hold E ?h (vars p) vs" using sim by (simp_all add: program_sim_def)
  obtain a where a: "vs ! y = Some a" "holds E ?h q a" using vars_hold_Some [OF vs x(2) Some] by blast
  have "q \<in># strongs (handles ?h ?S)" using mset_live_nth [OF x(2) Some] by simp
  moreover have "count ?S q < 2 ^ 64 - 1" using count_live_le [of "vars p" q] n by linarith
  ultimately obtain h where h: "shared_clone q ?h = Done h" "world_ok (handles h (?S + {#q#}))" "\<forall>r. shared_deref r h = shared_deref r ?h"
    using clone_done [OF ok, of q] by auto
  have "vars_hold E h (vars p) vs" using vars_hold_mono [OF vs] h(3) by blast
  then have "vars_hold E h ((vars p)[x := Some q]) (vs[x := Some a])"
    by (rule vars_hold_update) (use a(2) h(3) in \<open>simp add: holds_def\<close>)
  then have "\<exists>p'. assign_var x (Some q) (p\<lparr>cow := set_mem h (cow p)\<rparr>) = Done p' \<and> program_sim E p' (vs[x := Some a]) \<and>
      length (vars p') = length (vars (p\<lparr>cow := set_mem h (cow p)\<rparr>))"
    using x(1) h(2) by (intro assign_sim) (simp_all add: opt_mset_def)
  then show ?thesis using Some h(1) a(1) by (simp add: cow_step_def value_step_def)
qed

lemma op_sim:
  assumes sim: "program_sim E p vs" and x: "x < length (vars p)" and alloc: "alloc_ok alloc" and op: "op_in_range op"
  shows "\<exists>p'. cow_step E alloc (ArrayOp x op) p = Done p' \<and> program_sim E p' (value_step (ArrayOp x op) vs) \<and> length (vars p') = length (vars p)"
proof (cases "vars p ! x")
  case None
  then have "vs ! x = None" using sim x by (auto simp: program_sim_def intro: vars_hold_None)
  then have "value_step (ArrayOp x op) vs = vs" unfolding value_step_def by simp (metis list_update_id)
  then show ?thesis using sim None by (simp add: cow_step_def)
next
  case (Some q)
  let ?h = "cow_mem (cow p)" and ?S = "mset (live (vars p))"
  have ok: "world_ok (handles ?h ?S)" and vs: "vars_hold E ?h (vars p) vs" using sim by (simp_all add: program_sim_def)
  obtain a where a: "vs ! x = Some a" "holds E ?h q a" using vars_hold_Some [OF vs x Some] by blast
  obtain r cs where r: "run_op E alloc q op (cow p) = Done (r, cs)" "world_ok (handles (cow_mem cs) (?S - {#q#} + {#r#}))"
    "holds E (cow_mem cs) r (spec_step op a)" "\<forall>t. t \<in># ?S - {#q#} \<longrightarrow> shared_deref t (cow_mem cs) = shared_deref t ?h"
    using run_op_sim [OF ok mset_live_nth [OF x Some] alloc a(2) op] by blast
  obtain T where T: "?S = add_mset q T" using multi_member_split [OF mset_live_nth [OF x Some]] by blast
  have S: "mset (live ((vars p)[x := Some r])) = ?S - {#q#} + {#r#}" "mset (live ((vars p)[x := None])) = ?S - {#q#}"
    using mset_live_update [OF x, of "Some r"] mset_live_update [OF x, of None] by (simp_all add: opt_mset_def Some T)
  have "vars_hold E (cow_mem cs) ((vars p)[x := None]) (vs[x := None])"
    by (rule vars_hold_mono [OF vars_hold_update [OF vs]]) (use r(4) S(2) in simp_all)
  from vars_hold_update [OF this, of "Some r" "Some (spec_step op a)" x]
  have "vars_hold E (cow_mem cs) ((vars p)[x := Some r]) (vs[x := Some (spec_step op a)])" using r(3) by simp
  then show ?thesis using Some r(1,2) S(1) a(1) by (simp add: cow_step_def value_step_def program_sim_def)
qed

lemma cow_step_sim:
  assumes sim: "program_sim E p vs" and n: "length (vars p) < 2 ^ 64 - 1" and alloc: "alloc_ok alloc"
    and cmd: "command_ok (length (vars p)) cmd"
  shows "\<exists>p'. cow_step E alloc cmd p = Done p' \<and> program_sim E p' (value_step cmd vs) \<and> length (vars p') = length (vars p)"
proof (cases cmd)
  case (ArrayNew x)
  then show ?thesis using new_sim [OF sim _ alloc, of x] cmd by (simp add: command_ok_def)
next
  case (ArrayCopy x y)
  then show ?thesis using copy_sim [OF sim _ _ n, of x y] cmd by (simp add: command_ok_def)
next
  case (ArrayDrop x)
  then show ?thesis using clear_sim [OF sim, of x] cmd by (simp add: command_ok_def cow_step_def value_step_def)
next
  case (ArrayOp x op)
  then show ?thesis using op_sim [OF sim _ alloc, of x op] cmd by (simp add: command_ok_def)
qed

lemma cow_run_sim:
  assumes "program_sim E p vs" "length (vars p) < 2 ^ 64 - 1" "alloc_ok alloc" "list_all (command_ok (length (vars p))) cmds"
  shows "\<exists>p'. cow_run E alloc cmds p = Done p' \<and> program_sim E p' (foldl (\<lambda>vs cmd. value_step cmd vs) vs cmds)"
  using assms
proof (induction cmds arbitrary: p vs)
  case (Cons cmd cmds)
  from Cons.prems obtain p1 where p1: "cow_step E alloc cmd p = Done p1" "program_sim E p1 (value_step cmd vs)" "length (vars p1) = length (vars p)"
    using cow_step_sim [of E p vs alloc cmd] by auto
  then show ?case using Cons.IH [OF p1(2)] Cons.prems by simp
qed simp

lemma cow_start_sim: "program_sim E (cow_start n) (replicate n None)"
proof -
  have "live (replicate n None) = ([] :: addr list)" by (induction n) simp_all
  then show ?thesis
    by (simp add: program_sim_def cow_start_def vars_hold_def list_all2_conv_all_nth world_ok_def block_ok_def)
qed

section \<open>Value semantics\<close>

text \<open>What a variable reads: the array behind its handle.\<close>

definition read_var :: "cow_program \<Rightarrow> nat \<Rightarrow> ordered_array option outcome" where
  "read_var p x = (case vars p ! x of
     None \<Rightarrow> Done None
   | Some ptr \<Rightarrow> bind_outcome (shared_deref ptr (cow_mem (cow p))) (\<lambda>st. Done (Some (abs_array st))))"

lemma read_var_sim:
  assumes "program_sim E p vs" "x < length vs"
  shows "read_var p x = Done (vs ! x)"
proof -
  have len: "length (vars p) = length vs" and rel: "rel_option (holds E (cow_mem (cow p))) (vars p ! x) (vs ! x)"
    using assms vars_hold_nth by (auto simp: program_sim_def vars_hold_def list_all2_conv_all_nth)
  then show ?thesis by (cases "vars p ! x"; cases "vs ! x") (auto simp: read_var_def holds_def)
qed

lemma length_value_steps: "length (foldl (\<lambda>vs cmd. value_step cmd vs) vs cmds) = length vs"
  by (induction cmds arbitrary: vs) (auto simp: value_step_def split: cow_command.split)

definition first_free :: "array_storage heap \<Rightarrow> addr" where
  "first_free h = (LEAST p. p \<noteq> 0 \<and> h p = None)"

lemma first_free_ok: "alloc_ok first_free"
proof -
  have "first_free h \<noteq> 0 \<and> h (first_free h) = None" if "finite (dom h)" for h :: "array_storage heap"
  proof -
    have "finite (insert 0 (dom h))" using that by simp
    then obtain p where "p \<notin> insert 0 (dom h)" using ex_new_if_finite [OF infinite_UNIV_nat] by metis
    then show ?thesis unfolding first_free_def using LeastI [of "\<lambda>p. p \<noteq> 0 \<and> h p = None" p] by (simp add: domIff)
  qed
  then show ?thesis by (simp add: alloc_ok_def)
qed

text \<open>C3: arrays that share storage behave as values.  A program over array variables creates, copies, drops
  and updates arrays; copies share one reference counted storage until a write separates it.  The program
  runs without a panic, an abort or an access to freed memory, and every variable reads what it would read
  if each copy had copied the whole array.\<close>

theorem cow_value_semantics:
  assumes "alloc_ok alloc" "n < 2 ^ 64 - 1" "list_all (command_ok n) cmds"
  shows "\<exists>p. cow_run E alloc cmds (cow_start n) = Done p \<and>
    (\<forall>x. x < n \<longrightarrow> read_var p x = Done (foldl (\<lambda>vs cmd. value_step cmd vs) (replicate n None) cmds ! x))"
proof -
  have "length (vars (cow_start n)) = n" by (simp add: cow_start_def)
  then obtain p where p: "cow_run E alloc cmds (cow_start n) = Done p"
    "program_sim E p (foldl (\<lambda>vs cmd. value_step cmd vs) (replicate n None) cmds)"
    using cow_run_sim [OF cow_start_sim _ assms(1)] assms(2,3) by metis
  then show ?thesis using read_var_sim [OF p(2)] by (simp add: length_value_steps)
qed

theorem cow_value_semantics_witness:
  "\<exists>p. cow_run (scalar_env Sse2 False) first_free
      [ArrayNew 0, ArrayOp 0 (OpAppend (VInt 7)), ArrayCopy 1 0, ArrayOp 1 (OpInsert (IntKey 0) False (VInt 8)), ArrayDrop 2] (cow_start 3) = Done p \<and>
    read_var p 0 = Done (Some \<lparr>oa_pairs = [(IntKey 0, VInt 7)], oa_position = Some 0, oa_next_key = Some 1\<rparr>) \<and>
    read_var p 1 = Done (Some \<lparr>oa_pairs = [(IntKey 0, VInt 8)], oa_position = Some 0, oa_next_key = Some 1\<rparr>)"
proof -
  let ?cmds = "[ArrayNew 0, ArrayOp 0 (OpAppend (VInt 7)), ArrayCopy 1 0, ArrayOp 1 (OpInsert (IntKey 0) False (VInt 8)), ArrayDrop 2]"
  have vs: "foldl (\<lambda>vs cmd. value_step cmd vs) (replicate 3 None) ?cmds =
      [Some \<lparr>oa_pairs = [(IntKey 0, VInt 7)], oa_position = Some 0, oa_next_key = Some 1\<rparr>,
       Some \<lparr>oa_pairs = [(IntKey 0, VInt 8)], oa_position = Some 0, oa_next_key = Some 1\<rparr>, None]"
    by (simp add: value_step_def spec_step_def spec_append_def spec_insert_def spec_next_key_def clamp_i64_def numeral_3_eq_3 numeral_2_eq_2 Let_def)
  have "list_all (command_ok 3) ?cmds" by (simp add: command_ok_def op_in_range_def key_in_range_def in_i64_def)
  then obtain p where p: "cow_run (scalar_env Sse2 False) first_free ?cmds (cow_start 3) = Done p"
    "\<forall>x. x < 3 \<longrightarrow> read_var p x = Done (foldl (\<lambda>vs cmd. value_step cmd vs) (replicate 3 None) ?cmds ! x)"
    using cow_value_semantics [OF first_free_ok, of 3 ?cmds "scalar_env Sse2 False"] by auto
  show ?thesis using p(1) p(2) [rule_format, of 0] p(2) [rule_format, of 1] unfolding vs by simp
qed

end
