(* ===== verification/Syntax_Kind.thy ===== *)
theory Syntax_Kind
  imports Lexer_Token
begin

text \<open>
  Kinds of syntax elements (\<open>crates/php_syntax/src/syntax_kind.rs\<close>) and parser diagnostics
  (\<open>diagnostics.rs\<close>). \<open>N_X\<close> is the source's \<open>SyntaxNodeKind::X\<close>;
  the one flat enumeration of the source is the sum of three smaller ones.
\<close>

section \<open>Kinds\<close>

datatype statement_kind =
    Sk_SourceFile | Sk_PhpBlock | Sk_InlineHtml | Sk_StatementList | Sk_Error | Sk_EmptyStmt |
    Sk_ExprStmt | Sk_EchoStmt | Sk_ReturnStmt | Sk_ThrowStmt | Sk_BreakStmt | Sk_ContinueStmt |
    Sk_BlockStmt | Sk_IfStmt | Sk_WhileStmt | Sk_DoWhileStmt | Sk_ForStmt | Sk_ForeachStmt |
    Sk_SwitchStmt | Sk_TryStmt | Sk_CatchClause | Sk_FinallyClause | Sk_DeclareStmt |
    Sk_GlobalStmt | Sk_StaticStmt | Sk_UnsetStmt | Sk_GotoStmt | Sk_LabelStmt

datatype declaration_kind =
    Dk_NamespaceStmt | Dk_UseDecl | Dk_ConstDecl | Dk_FunctionDecl | Dk_ParamList | Dk_Param |
    Dk_ClassDecl | Dk_InterfaceDecl | Dk_TraitDecl | Dk_EnumDecl | Dk_ClassMemberList |
    Dk_MethodDecl | Dk_PropertyDecl | Dk_PropertyHookDecl | Dk_ClassConstDecl | Dk_TraitUseDecl
    | Dk_AttributeGroup | Dk_Attribute | Dk_Type | Dk_UnionType | Dk_IntersectionType |
    Dk_NullableType | Dk_DnfType

datatype expression_kind =
    Ek_Expr | Ek_Literal | Ek_Name | Ek_Variable | Ek_ParenthesizedExpr | Ek_PrefixExpr |
    Ek_PostfixExpr | Ek_VoidCastExpr | Ek_BinaryExpr | Ek_AssignExpr | Ek_TernaryExpr |
    Ek_CallExpr | Ek_ArrayDimFetchExpr | Ek_PropertyFetchExpr | Ek_StaticAccessExpr |
    Ek_ArrayExpr | Ek_ArrayPair | Ek_MatchExpr | Ek_ThrowExpr | Ek_ConstructExpr | Ek_YieldExpr
    | Ek_ClosureExpr | Ek_ArrowFunctionExpr | Ek_NewExpr | Ek_CloneExpr | Ek_CloneWithExpr |
    Ek_PipeExpr | Ek_String | Ek_Encapsed | Ek_Heredoc

datatype syntax_node_kind =
    Sk statement_kind | Dk declaration_kind | Ek expression_kind

abbreviation N_SourceFile :: syntax_node_kind where "N_SourceFile \<equiv> Sk Sk_SourceFile"
abbreviation N_PhpBlock :: syntax_node_kind where "N_PhpBlock \<equiv> Sk Sk_PhpBlock"
abbreviation N_InlineHtml :: syntax_node_kind where "N_InlineHtml \<equiv> Sk Sk_InlineHtml"
abbreviation N_StatementList :: syntax_node_kind where "N_StatementList \<equiv> Sk Sk_StatementList"
abbreviation N_Error :: syntax_node_kind where "N_Error \<equiv> Sk Sk_Error"
abbreviation N_EmptyStmt :: syntax_node_kind where "N_EmptyStmt \<equiv> Sk Sk_EmptyStmt"
abbreviation N_ExprStmt :: syntax_node_kind where "N_ExprStmt \<equiv> Sk Sk_ExprStmt"
abbreviation N_EchoStmt :: syntax_node_kind where "N_EchoStmt \<equiv> Sk Sk_EchoStmt"
abbreviation N_ReturnStmt :: syntax_node_kind where "N_ReturnStmt \<equiv> Sk Sk_ReturnStmt"
abbreviation N_ThrowStmt :: syntax_node_kind where "N_ThrowStmt \<equiv> Sk Sk_ThrowStmt"
abbreviation N_BreakStmt :: syntax_node_kind where "N_BreakStmt \<equiv> Sk Sk_BreakStmt"
abbreviation N_ContinueStmt :: syntax_node_kind where "N_ContinueStmt \<equiv> Sk Sk_ContinueStmt"
abbreviation N_BlockStmt :: syntax_node_kind where "N_BlockStmt \<equiv> Sk Sk_BlockStmt"
abbreviation N_IfStmt :: syntax_node_kind where "N_IfStmt \<equiv> Sk Sk_IfStmt"
abbreviation N_WhileStmt :: syntax_node_kind where "N_WhileStmt \<equiv> Sk Sk_WhileStmt"
abbreviation N_DoWhileStmt :: syntax_node_kind where "N_DoWhileStmt \<equiv> Sk Sk_DoWhileStmt"
abbreviation N_ForStmt :: syntax_node_kind where "N_ForStmt \<equiv> Sk Sk_ForStmt"
abbreviation N_ForeachStmt :: syntax_node_kind where "N_ForeachStmt \<equiv> Sk Sk_ForeachStmt"
abbreviation N_SwitchStmt :: syntax_node_kind where "N_SwitchStmt \<equiv> Sk Sk_SwitchStmt"
abbreviation N_TryStmt :: syntax_node_kind where "N_TryStmt \<equiv> Sk Sk_TryStmt"
abbreviation N_CatchClause :: syntax_node_kind where "N_CatchClause \<equiv> Sk Sk_CatchClause"
abbreviation N_FinallyClause :: syntax_node_kind where "N_FinallyClause \<equiv> Sk Sk_FinallyClause"
abbreviation N_DeclareStmt :: syntax_node_kind where "N_DeclareStmt \<equiv> Sk Sk_DeclareStmt"
abbreviation N_GlobalStmt :: syntax_node_kind where "N_GlobalStmt \<equiv> Sk Sk_GlobalStmt"
abbreviation N_StaticStmt :: syntax_node_kind where "N_StaticStmt \<equiv> Sk Sk_StaticStmt"
abbreviation N_UnsetStmt :: syntax_node_kind where "N_UnsetStmt \<equiv> Sk Sk_UnsetStmt"
abbreviation N_GotoStmt :: syntax_node_kind where "N_GotoStmt \<equiv> Sk Sk_GotoStmt"
abbreviation N_LabelStmt :: syntax_node_kind where "N_LabelStmt \<equiv> Sk Sk_LabelStmt"
abbreviation N_NamespaceStmt :: syntax_node_kind where "N_NamespaceStmt \<equiv> Dk Dk_NamespaceStmt"
abbreviation N_UseDecl :: syntax_node_kind where "N_UseDecl \<equiv> Dk Dk_UseDecl"
abbreviation N_ConstDecl :: syntax_node_kind where "N_ConstDecl \<equiv> Dk Dk_ConstDecl"
abbreviation N_FunctionDecl :: syntax_node_kind where "N_FunctionDecl \<equiv> Dk Dk_FunctionDecl"
abbreviation N_ParamList :: syntax_node_kind where "N_ParamList \<equiv> Dk Dk_ParamList"
abbreviation N_Param :: syntax_node_kind where "N_Param \<equiv> Dk Dk_Param"
abbreviation N_ClassDecl :: syntax_node_kind where "N_ClassDecl \<equiv> Dk Dk_ClassDecl"
abbreviation N_InterfaceDecl :: syntax_node_kind where "N_InterfaceDecl \<equiv> Dk Dk_InterfaceDecl"
abbreviation N_TraitDecl :: syntax_node_kind where "N_TraitDecl \<equiv> Dk Dk_TraitDecl"
abbreviation N_EnumDecl :: syntax_node_kind where "N_EnumDecl \<equiv> Dk Dk_EnumDecl"
abbreviation N_ClassMemberList :: syntax_node_kind where "N_ClassMemberList \<equiv> Dk Dk_ClassMemberList"
abbreviation N_MethodDecl :: syntax_node_kind where "N_MethodDecl \<equiv> Dk Dk_MethodDecl"
abbreviation N_PropertyDecl :: syntax_node_kind where "N_PropertyDecl \<equiv> Dk Dk_PropertyDecl"
abbreviation N_PropertyHookDecl :: syntax_node_kind where "N_PropertyHookDecl \<equiv> Dk Dk_PropertyHookDecl"
abbreviation N_ClassConstDecl :: syntax_node_kind where "N_ClassConstDecl \<equiv> Dk Dk_ClassConstDecl"
abbreviation N_TraitUseDecl :: syntax_node_kind where "N_TraitUseDecl \<equiv> Dk Dk_TraitUseDecl"
abbreviation N_AttributeGroup :: syntax_node_kind where "N_AttributeGroup \<equiv> Dk Dk_AttributeGroup"
abbreviation N_Attribute :: syntax_node_kind where "N_Attribute \<equiv> Dk Dk_Attribute"
abbreviation N_Type :: syntax_node_kind where "N_Type \<equiv> Dk Dk_Type"
abbreviation N_UnionType :: syntax_node_kind where "N_UnionType \<equiv> Dk Dk_UnionType"
abbreviation N_IntersectionType :: syntax_node_kind where "N_IntersectionType \<equiv> Dk Dk_IntersectionType"
abbreviation N_NullableType :: syntax_node_kind where "N_NullableType \<equiv> Dk Dk_NullableType"
abbreviation N_DnfType :: syntax_node_kind where "N_DnfType \<equiv> Dk Dk_DnfType"
abbreviation N_Expr :: syntax_node_kind where "N_Expr \<equiv> Ek Ek_Expr"
abbreviation N_Literal :: syntax_node_kind where "N_Literal \<equiv> Ek Ek_Literal"
abbreviation N_Name :: syntax_node_kind where "N_Name \<equiv> Ek Ek_Name"
abbreviation N_Variable :: syntax_node_kind where "N_Variable \<equiv> Ek Ek_Variable"
abbreviation N_ParenthesizedExpr :: syntax_node_kind where "N_ParenthesizedExpr \<equiv> Ek Ek_ParenthesizedExpr"
abbreviation N_PrefixExpr :: syntax_node_kind where "N_PrefixExpr \<equiv> Ek Ek_PrefixExpr"
abbreviation N_PostfixExpr :: syntax_node_kind where "N_PostfixExpr \<equiv> Ek Ek_PostfixExpr"
abbreviation N_VoidCastExpr :: syntax_node_kind where "N_VoidCastExpr \<equiv> Ek Ek_VoidCastExpr"
abbreviation N_BinaryExpr :: syntax_node_kind where "N_BinaryExpr \<equiv> Ek Ek_BinaryExpr"
abbreviation N_AssignExpr :: syntax_node_kind where "N_AssignExpr \<equiv> Ek Ek_AssignExpr"
abbreviation N_TernaryExpr :: syntax_node_kind where "N_TernaryExpr \<equiv> Ek Ek_TernaryExpr"
abbreviation N_CallExpr :: syntax_node_kind where "N_CallExpr \<equiv> Ek Ek_CallExpr"
abbreviation N_ArrayDimFetchExpr :: syntax_node_kind where "N_ArrayDimFetchExpr \<equiv> Ek Ek_ArrayDimFetchExpr"
abbreviation N_PropertyFetchExpr :: syntax_node_kind where "N_PropertyFetchExpr \<equiv> Ek Ek_PropertyFetchExpr"
abbreviation N_StaticAccessExpr :: syntax_node_kind where "N_StaticAccessExpr \<equiv> Ek Ek_StaticAccessExpr"
abbreviation N_ArrayExpr :: syntax_node_kind where "N_ArrayExpr \<equiv> Ek Ek_ArrayExpr"
abbreviation N_ArrayPair :: syntax_node_kind where "N_ArrayPair \<equiv> Ek Ek_ArrayPair"
abbreviation N_MatchExpr :: syntax_node_kind where "N_MatchExpr \<equiv> Ek Ek_MatchExpr"
abbreviation N_ThrowExpr :: syntax_node_kind where "N_ThrowExpr \<equiv> Ek Ek_ThrowExpr"
abbreviation N_ConstructExpr :: syntax_node_kind where "N_ConstructExpr \<equiv> Ek Ek_ConstructExpr"
abbreviation N_YieldExpr :: syntax_node_kind where "N_YieldExpr \<equiv> Ek Ek_YieldExpr"
abbreviation N_ClosureExpr :: syntax_node_kind where "N_ClosureExpr \<equiv> Ek Ek_ClosureExpr"
abbreviation N_ArrowFunctionExpr :: syntax_node_kind where "N_ArrowFunctionExpr \<equiv> Ek Ek_ArrowFunctionExpr"
abbreviation N_NewExpr :: syntax_node_kind where "N_NewExpr \<equiv> Ek Ek_NewExpr"
abbreviation N_CloneExpr :: syntax_node_kind where "N_CloneExpr \<equiv> Ek Ek_CloneExpr"
abbreviation N_CloneWithExpr :: syntax_node_kind where "N_CloneWithExpr \<equiv> Ek Ek_CloneWithExpr"
abbreviation N_PipeExpr :: syntax_node_kind where "N_PipeExpr \<equiv> Ek Ek_PipeExpr"
abbreviation N_String :: syntax_node_kind where "N_String \<equiv> Ek Ek_String"
abbreviation N_Encapsed :: syntax_node_kind where "N_Encapsed \<equiv> Ek Ek_Encapsed"
abbreviation N_Heredoc :: syntax_node_kind where "N_Heredoc \<equiv> Ek Ek_Heredoc"

datatype syntax_kind = TokenK token_kind | NodeK syntax_node_kind

text \<open>\<open>SyntaxTokenKind\<close> has the three variants of the lexer's \<open>TokenKind\<close>, which \<open>from_token_kind\<close>
  maps one to one; the model uses the lexer's type for both.\<close>

definition from_token_kind :: "token_kind \<Rightarrow> syntax_kind" where
  "from_token_kind kind = TokenK kind"

abbreviation SOURCE_FILE :: syntax_kind where "SOURCE_FILE \<equiv> NodeK N_SourceFile"
abbreviation ERROR :: syntax_kind where "ERROR \<equiv> NodeK N_Error"

definition named :: "token_name \<Rightarrow> syntax_kind" where
  "named name = from_token_kind (Named name)"

definition symbol :: "byte \<Rightarrow> syntax_kind" where
  "symbol b = from_token_kind (Symbol (SymChar b))"

definition is_trivia :: "syntax_kind \<Rightarrow> bool" where
  "is_trivia k \<longleftrightarrow> k = named T_Whitespace \<or> k = named T_Comment \<or> k = named T_DocComment"

primrec is_token :: "syntax_kind \<Rightarrow> bool" where
  "is_token (TokenK _) = True"
| "is_token (NodeK _) = False"

primrec is_node :: "syntax_kind \<Rightarrow> bool" where
  "is_node (TokenK _) = False"
| "is_node (NodeK _) = True"

primrec statement_kind_name :: "statement_kind \<Rightarrow> string" where
  "statement_kind_name Sk_SourceFile = ''SOURCE_FILE''"
| "statement_kind_name Sk_PhpBlock = ''PHP_BLOCK''"
| "statement_kind_name Sk_InlineHtml = ''INLINE_HTML''"
| "statement_kind_name Sk_StatementList = ''STATEMENT_LIST''"
| "statement_kind_name Sk_Error = ''ERROR''"
| "statement_kind_name Sk_EmptyStmt = ''EMPTY_STMT''"
| "statement_kind_name Sk_ExprStmt = ''EXPR_STMT''"
| "statement_kind_name Sk_EchoStmt = ''ECHO_STMT''"
| "statement_kind_name Sk_ReturnStmt = ''RETURN_STMT''"
| "statement_kind_name Sk_ThrowStmt = ''THROW_STMT''"
| "statement_kind_name Sk_BreakStmt = ''BREAK_STMT''"
| "statement_kind_name Sk_ContinueStmt = ''CONTINUE_STMT''"
| "statement_kind_name Sk_BlockStmt = ''BLOCK_STMT''"
| "statement_kind_name Sk_IfStmt = ''IF_STMT''"
| "statement_kind_name Sk_WhileStmt = ''WHILE_STMT''"
| "statement_kind_name Sk_DoWhileStmt = ''DO_WHILE_STMT''"
| "statement_kind_name Sk_ForStmt = ''FOR_STMT''"
| "statement_kind_name Sk_ForeachStmt = ''FOREACH_STMT''"
| "statement_kind_name Sk_SwitchStmt = ''SWITCH_STMT''"
| "statement_kind_name Sk_TryStmt = ''TRY_STMT''"
| "statement_kind_name Sk_CatchClause = ''CATCH_CLAUSE''"
| "statement_kind_name Sk_FinallyClause = ''FINALLY_CLAUSE''"
| "statement_kind_name Sk_DeclareStmt = ''DECLARE_STMT''"
| "statement_kind_name Sk_GlobalStmt = ''GLOBAL_STMT''"
| "statement_kind_name Sk_StaticStmt = ''STATIC_STMT''"
| "statement_kind_name Sk_UnsetStmt = ''UNSET_STMT''"
| "statement_kind_name Sk_GotoStmt = ''GOTO_STMT''"
| "statement_kind_name Sk_LabelStmt = ''LABEL_STMT''"

primrec declaration_kind_name :: "declaration_kind \<Rightarrow> string" where
  "declaration_kind_name Dk_NamespaceStmt = ''NAMESPACE_STMT''"
| "declaration_kind_name Dk_UseDecl = ''USE_DECL''"
| "declaration_kind_name Dk_ConstDecl = ''CONST_DECL''"
| "declaration_kind_name Dk_FunctionDecl = ''FUNCTION_DECL''"
| "declaration_kind_name Dk_ParamList = ''PARAM_LIST''"
| "declaration_kind_name Dk_Param = ''PARAM''"
| "declaration_kind_name Dk_ClassDecl = ''CLASS_DECL''"
| "declaration_kind_name Dk_InterfaceDecl = ''INTERFACE_DECL''"
| "declaration_kind_name Dk_TraitDecl = ''TRAIT_DECL''"
| "declaration_kind_name Dk_EnumDecl = ''ENUM_DECL''"
| "declaration_kind_name Dk_ClassMemberList = ''CLASS_MEMBER_LIST''"
| "declaration_kind_name Dk_MethodDecl = ''METHOD_DECL''"
| "declaration_kind_name Dk_PropertyDecl = ''PROPERTY_DECL''"
| "declaration_kind_name Dk_PropertyHookDecl = ''PROPERTY_HOOK_DECL''"
| "declaration_kind_name Dk_ClassConstDecl = ''CLASS_CONST_DECL''"
| "declaration_kind_name Dk_TraitUseDecl = ''TRAIT_USE_DECL''"
| "declaration_kind_name Dk_AttributeGroup = ''ATTRIBUTE_GROUP''"
| "declaration_kind_name Dk_Attribute = ''ATTRIBUTE''"
| "declaration_kind_name Dk_Type = ''TYPE''"
| "declaration_kind_name Dk_UnionType = ''UNION_TYPE''"
| "declaration_kind_name Dk_IntersectionType = ''INTERSECTION_TYPE''"
| "declaration_kind_name Dk_NullableType = ''NULLABLE_TYPE''"
| "declaration_kind_name Dk_DnfType = ''DNF_TYPE''"

primrec expression_kind_name :: "expression_kind \<Rightarrow> string" where
  "expression_kind_name Ek_Expr = ''EXPR''"
| "expression_kind_name Ek_Literal = ''LITERAL''"
| "expression_kind_name Ek_Name = ''NAME''"
| "expression_kind_name Ek_Variable = ''VARIABLE''"
| "expression_kind_name Ek_ParenthesizedExpr = ''PARENTHESIZED_EXPR''"
| "expression_kind_name Ek_PrefixExpr = ''PREFIX_EXPR''"
| "expression_kind_name Ek_PostfixExpr = ''POSTFIX_EXPR''"
| "expression_kind_name Ek_VoidCastExpr = ''VOID_CAST_EXPR''"
| "expression_kind_name Ek_BinaryExpr = ''BINARY_EXPR''"
| "expression_kind_name Ek_AssignExpr = ''ASSIGN_EXPR''"
| "expression_kind_name Ek_TernaryExpr = ''TERNARY_EXPR''"
| "expression_kind_name Ek_CallExpr = ''CALL_EXPR''"
| "expression_kind_name Ek_ArrayDimFetchExpr = ''ARRAY_DIM_FETCH_EXPR''"
| "expression_kind_name Ek_PropertyFetchExpr = ''PROPERTY_FETCH_EXPR''"
| "expression_kind_name Ek_StaticAccessExpr = ''STATIC_ACCESS_EXPR''"
| "expression_kind_name Ek_ArrayExpr = ''ARRAY_EXPR''"
| "expression_kind_name Ek_ArrayPair = ''ARRAY_PAIR''"
| "expression_kind_name Ek_MatchExpr = ''MATCH_EXPR''"
| "expression_kind_name Ek_ThrowExpr = ''THROW_EXPR''"
| "expression_kind_name Ek_ConstructExpr = ''CONSTRUCT_EXPR''"
| "expression_kind_name Ek_YieldExpr = ''YIELD_EXPR''"
| "expression_kind_name Ek_ClosureExpr = ''CLOSURE_EXPR''"
| "expression_kind_name Ek_ArrowFunctionExpr = ''ARROW_FUNCTION_EXPR''"
| "expression_kind_name Ek_NewExpr = ''NEW_EXPR''"
| "expression_kind_name Ek_CloneExpr = ''CLONE_EXPR''"
| "expression_kind_name Ek_CloneWithExpr = ''CLONE_WITH_EXPR''"
| "expression_kind_name Ek_PipeExpr = ''PIPE_EXPR''"
| "expression_kind_name Ek_String = ''STRING''"
| "expression_kind_name Ek_Encapsed = ''ENCAPSED''"
| "expression_kind_name Ek_Heredoc = ''HEREDOC''"

primrec node_kind_name :: "syntax_node_kind \<Rightarrow> string" where
  "node_kind_name (Sk k) = statement_kind_name k"
| "node_kind_name (Dk k) = declaration_kind_name k"
| "node_kind_name (Ek k) = expression_kind_name k"

text \<open>\<open>SymbolKind::reference_name\<close>: an ASCII byte itself, any other byte as \<open>\x\<close> and two hexadecimal digits.\<close>

primrec reference_name :: "symbol_kind \<Rightarrow> string" where
  "reference_name (SymChar b) =
     (if byte_val b < 128 then [b]
      else [CHR 0x5C, CHR ''x'', ''0123456789ABCDEF'' ! (byte_val b div 16), ''0123456789ABCDEF'' ! (byte_val b mod 16)])"

text \<open>\<open>SyntaxKind::name\<close>.\<close>

fun syntax_kind_name :: "syntax_kind \<Rightarrow> string" where
  "syntax_kind_name (TokenK (Named name)) = as_php_name name"
| "syntax_kind_name (TokenK (Symbol s)) = reference_name s"
| "syntax_kind_name (TokenK Eof) = ''EOF''"
| "syntax_kind_name (NodeK node) = node_kind_name node"

section \<open>Diagnostics\<close>

datatype parse_diagnostic_id =
    LexerDiagnostic | UnexpectedToken | ExpectedToken | ExpectedExpression | ExpectedStatement
    | ExpectedType | ExpectedIdentifier | UnclosedDelimiter

primrec diagnostic_id_as_str :: "parse_diagnostic_id \<Rightarrow> string" where
  "diagnostic_id_as_str LexerDiagnostic = ''lexer_diagnostic''"
| "diagnostic_id_as_str UnexpectedToken = ''unexpected_token''"
| "diagnostic_id_as_str ExpectedToken = ''expected_token''"
| "diagnostic_id_as_str ExpectedExpression = ''expected_expression''"
| "diagnostic_id_as_str ExpectedStatement = ''expected_statement''"
| "diagnostic_id_as_str ExpectedType = ''expected_type''"
| "diagnostic_id_as_str ExpectedIdentifier = ''expected_identifier''"
| "diagnostic_id_as_str UnclosedDelimiter = ''unclosed_delimiter''"

primrec diagnostic_id_code :: "parse_diagnostic_id \<Rightarrow> string" where
  "diagnostic_id_code LexerDiagnostic = ''E_PHP_PARSE_LEXER_DIAGNOSTIC''"
| "diagnostic_id_code UnexpectedToken = ''E_PHP_PARSE_UNEXPECTED_TOKEN''"
| "diagnostic_id_code ExpectedToken = ''E_PHP_PARSE_EXPECTED_TOKEN''"
| "diagnostic_id_code ExpectedExpression = ''E_PHP_PARSE_EXPECTED_EXPRESSION''"
| "diagnostic_id_code ExpectedStatement = ''E_PHP_PARSE_EXPECTED_STATEMENT''"
| "diagnostic_id_code ExpectedType = ''E_PHP_PARSE_EXPECTED_TYPE''"
| "diagnostic_id_code ExpectedIdentifier = ''E_PHP_PARSE_EXPECTED_IDENTIFIER''"
| "diagnostic_id_code UnclosedDelimiter = ''E_PHP_PARSE_UNCLOSED_DELIMITER''"

primrec diagnostic_id_suggestion :: "parse_diagnostic_id \<Rightarrow> string option" where
  "diagnostic_id_suggestion LexerDiagnostic = None"
| "diagnostic_id_suggestion UnexpectedToken = Some ''remove the unexpected token or add the expected syntax''"
| "diagnostic_id_suggestion ExpectedToken = Some ''insert the expected token''"
| "diagnostic_id_suggestion ExpectedExpression = Some ''insert a valid expression''"
| "diagnostic_id_suggestion ExpectedStatement = Some ''insert a valid statement''"
| "diagnostic_id_suggestion ExpectedType = Some ''insert a valid type''"
| "diagnostic_id_suggestion ExpectedIdentifier = Some ''insert a valid identifier or name''"
| "diagnostic_id_suggestion UnclosedDelimiter = Some ''add the matching closing delimiter''"

text \<open>The severity has the single value \<open>Error\<close> and is left out.\<close>

record parse_diagnostic =
  pd_id :: parse_diagnostic_id
  pd_message :: string
  pd_span :: text_range
  pd_expected :: "string list"

definition parse_diagnostic_new :: "parse_diagnostic_id \<Rightarrow> string \<Rightarrow> text_range \<Rightarrow> parse_diagnostic" where
  "parse_diagnostic_new i message span = \<lparr>pd_id = i, pd_message = message, pd_span = span, pd_expected = []\<rparr>"

definition with_expected :: "string list \<Rightarrow> parse_diagnostic \<Rightarrow> parse_diagnostic" where
  "with_expected expected d = d\<lparr>pd_expected := expected\<rparr>"

section \<open>Equality of kinds\<close>

lemma named_eq [simp]: "named a = named b \<longleftrightarrow> a = b" "symbol c = symbol d \<longleftrightarrow> c = d"
  "named a \<noteq> symbol c" "symbol c \<noteq> named a" "named a \<noteq> TokenK Eof" "symbol c \<noteq> TokenK Eof"
  "TokenK Eof \<noteq> named a" "TokenK Eof \<noteq> symbol c" "named a \<noteq> NodeK k" "symbol c \<noteq> NodeK k"
  "NodeK k \<noteq> named a" "NodeK k \<noteq> symbol c"
  by (simp_all add: named_def symbol_def from_token_kind_def)

lemma is_trivia_simps [simp]: "\<not> is_trivia (symbol c)" "\<not> is_trivia (TokenK Eof)" "\<not> is_trivia (NodeK k)"
  "is_trivia (named a) \<longleftrightarrow> a = T_Whitespace \<or> a = T_Comment \<or> a = T_DocComment"
  by (auto simp: is_trivia_def)

end
