(* ===== verification/Parser_Core.thy ===== *)
theory Parser_Core
  imports Syntax_Kind "HOL-Library.State_Monad"
begin

text \<open>
  The event-based parser core of \<open>crates/php_syntax\<close>: the token cursor (\<open>token_source.rs\<close>), the
  parser state and its primitives (\<open>parser/core.rs\<close>, \<open>event.rs\<close>, \<open>marker.rs\<close>), the recovery sets
  (\<open>recovery.rs\<close>) and the binding powers (\<open>precedence.rs\<close>).

  Grammar code is a state transformer over the parser. A loop of the source that has no bound of its own
  runs on fuel; when the fuel is used up the field \<open>out_of_fuel\<close> is set and stays set, and a run
  that ends with it set counts as a run that does not return.
\<close>

section \<open>Text of tokens\<close>

fun str_contains :: "string \<Rightarrow> string \<Rightarrow> bool" where
  "str_contains needle [] \<longleftrightarrow> needle = []"
| "str_contains needle (c # cs) \<longleftrightarrow> take (length needle) (c # cs) = needle \<or> str_contains needle cs"

text \<open>The code points of a UTF-8 string, and \<open>char::escape_default\<close> of each.\<close>

fun utf8_decode :: "bytes \<Rightarrow> nat list" where
  "utf8_decode [] = []"
| "utf8_decode (b # bs) =
     (let v = byte_val b;
          n = (if v < 192 then 0 else if v < 224 then 1 else if v < 240 then 2 else 3);
          lead = (if v < 192 then v else v mod 2 ^ (6 - n))
      in foldl (\<lambda>c b. c * 64 + byte_val b mod 64) lead (take n bs) # utf8_decode (drop n bs))"

fun hex_lower :: "nat \<Rightarrow> string" where
  "hex_lower n = (if n < 16 then [''0123456789abcdef'' ! n] else hex_lower (n div 16) @ [''0123456789abcdef'' ! (n mod 16)])"

definition escape_char :: "nat \<Rightarrow> string" where
  "escape_char c =
     (if c = 9 then [CHR 0x5C, CHR ''t''] else if c = 10 then [CHR 0x5C, CHR ''n''] else if c = 13 then [CHR 0x5C, CHR ''r'']
      else if c = 34 \<or> c = 39 \<or> c = 92 then [CHR 0x5C, byte_of c]
      else if 32 \<le> c \<and> c < 127 then [byte_of c]
      else [CHR 0x5C, CHR ''u'', CHR 0x7B] @ hex_lower c @ [CHR 0x7D])"

definition escape_default :: "bytes \<Rightarrow> string" where
  "escape_default text = concat (map escape_char (utf8_decode text))"

section \<open>Token source\<close>

record token_source =
  ts_source :: bytes
  ts_tokens :: "token list"
  ts_cursor :: nat

definition token_source_new :: "bytes \<Rightarrow> token list \<Rightarrow> token_source" where
  "token_source_new source tokens = \<lparr>ts_source = source, ts_tokens = tokens, ts_cursor = 0\<rparr>"

definition ts_nth :: "token_source \<Rightarrow> nat \<Rightarrow> syntax_kind" where
  "ts_nth ts n = (case get_at (ts_tokens ts) (ts_cursor ts + n) of
     None \<Rightarrow> from_token_kind Eof | Some token \<Rightarrow> from_token_kind (tok_kind token))"

definition ts_current_text :: "token_source \<Rightarrow> bytes" where
  "ts_current_text ts = (case get_at (ts_tokens ts) (ts_cursor ts) of
     None \<Rightarrow> [] | Some token \<Rightarrow> unwrap_or (token_text token (ts_source ts)) [])"

definition ts_current_range :: "token_source \<Rightarrow> text_range" where
  "ts_current_range ts = (case get_at (ts_tokens ts) (ts_cursor ts) of
     None \<Rightarrow> text_range_empty (length (ts_source ts)) | Some token \<Rightarrow> tok_range token)"

definition ts_bump :: "token_source \<Rightarrow> token_source" where
  "ts_bump ts = (if ts_cursor ts < length (ts_tokens ts) then ts\<lparr>ts_cursor := ts_cursor ts + 1\<rparr> else ts)"

definition ts_is_eof :: "token_source \<Rightarrow> bool" where
  "ts_is_eof ts \<longleftrightarrow> length (ts_tokens ts) \<le> ts_cursor ts"

definition is_contextual_name_token :: "token_name \<Rightarrow> bool" where
  "is_contextual_name_token n \<longleftrightarrow> n \<in> set
     [T_String, T_NameFullyQualified, T_NameQualified, T_NameRelative, T_If, T_Else, T_ElseIf, T_EndIf,
      T_Function, T_Class, T_Abstract, T_Final, T_Interface, T_Trait, T_Enum, T_Namespace, T_Use, T_As,
      T_InsteadOf, T_Match, T_Readonly, T_Fn, T_Yield, T_Case, T_Default, T_Echo, T_Print, T_Return,
      T_Break, T_Continue, T_Extends, T_Implements, T_Public, T_Protected, T_Private, T_Static, T_Const,
      T_Var, T_Declare, T_EndDeclare, T_Global, T_Callable, T_Clone, T_New, T_While, T_EndWhile, T_Do,
      T_For, T_EndFor, T_Foreach, T_EndForeach, T_Switch, T_EndSwitch, T_Try, T_Throw, T_Catch,
      T_Finally, T_Include, T_IncludeOnce, T_Require, T_RequireOnce, T_Eval, T_Isset, T_Empty, T_Unset,
      T_List, T_Array, T_Instanceof, T_Goto, T_Exit, T_HaltCompiler]"

definition is_name_start :: "byte \<Rightarrow> bool" where
  "is_name_start b \<longleftrightarrow> b = CHR ''_'' \<or> b = CHR 0x5C \<or> is_ascii_alphabetic b \<or> 128 \<le> byte_val b"

definition is_name_continue :: "byte \<Rightarrow> bool" where
  "is_name_continue b \<longleftrightarrow> is_name_start b \<or> is_ascii_digit b"

definition is_contextual_name_text :: "bytes \<Rightarrow> bool" where
  "is_contextual_name_text text = (case text of
     [] \<Rightarrow> False | first # rest \<Rightarrow> is_name_start first \<and> list_all is_name_continue rest)"

text \<open>The token name and text of a keyword or name in a contextual position.\<close>

definition ts_current_keyword_context :: "token_source \<Rightarrow> (token_name \<times> bytes) option" where
  "ts_current_keyword_context ts = (case get_at (ts_tokens ts) (ts_cursor ts) of
     None \<Rightarrow> None
   | Some token \<Rightarrow> (case tok_kind token of
       Named name \<Rightarrow> (case token_text token (ts_source ts) of
         None \<Rightarrow> None
       | Some text \<Rightarrow> if is_contextual_name_token name \<and> is_contextual_name_text text then Some (name, text) else None)
     | _ \<Rightarrow> None))"

section \<open>Parser state\<close>

datatype event = Placeholder | StartNode syntax_kind | AddToken | ErrorEvent parse_diagnostic | FinishNode

record parser =
  tokens_of :: token_source
  events :: "event list"
  diagnostics :: "parse_diagnostic list"
  out_of_fuel :: bool

definition parser_new :: "token_source \<Rightarrow> parser" where
  "parser_new ts = \<lparr>tokens_of = ts, events = [], diagnostics = [], out_of_fuel = False\<rparr>"

definition nth_kind :: "nat \<Rightarrow> parser \<Rightarrow> syntax_kind" where
  "nth_kind n p = ts_nth (tokens_of p) n"

definition current :: "parser \<Rightarrow> syntax_kind" where
  "current p = nth_kind 0 p"

definition at :: "syntax_kind \<Rightarrow> parser \<Rightarrow> bool" where
  "at kind p \<longleftrightarrow> current p = kind"

definition at_eof :: "parser \<Rightarrow> bool" where
  "at_eof p = ts_is_eof (tokens_of p)"

definition parser_position :: "parser \<Rightarrow> nat" where
  "parser_position p = ts_cursor (tokens_of p)"

definition current_text :: "parser \<Rightarrow> bytes" where
  "current_text p = ts_current_text (tokens_of p)"

definition current_range :: "parser \<Rightarrow> text_range" where
  "current_range p = ts_current_range (tokens_of p)"

definition at_contextual_identifier :: "parser \<Rightarrow> bool" where
  "at_contextual_identifier p \<longleftrightarrow> ts_current_keyword_context (tokens_of p) \<noteq> None"

definition at_trivia :: "parser \<Rightarrow> bool" where
  "at_trivia p = is_trivia (current p)"

section \<open>Parser actions\<close>

type_synonym 'a pm = "(parser, 'a) state"

abbreviation ret :: "'a \<Rightarrow> 'a pm" where
  "ret \<equiv> State_Monad.return"

abbreviation skip :: "unit pm" where
  "skip \<equiv> ret ()"

definition modify :: "(parser \<Rightarrow> parser) \<Rightarrow> unit pm" where
  "modify f = State (\<lambda>p. ((), f p))"

definition peek :: "(parser \<Rightarrow> 'a) \<Rightarrow> 'a pm" where
  "peek f = State (\<lambda>p. (f p, p))"

definition pif :: "(parser \<Rightarrow> bool) \<Rightarrow> 'a pm \<Rightarrow> 'a pm \<Rightarrow> 'a pm" where
  "pif t a b = do { c \<leftarrow> peek t; if c then a else b }"

abbreviation pwhen :: "(parser \<Rightarrow> bool) \<Rightarrow> unit pm \<Rightarrow> unit pm" where
  "pwhen t a \<equiv> pif t a skip"

definition exhausted :: "unit pm" where
  "exhausted = modify (\<lambda>p. p\<lparr>out_of_fuel := True\<rparr>)"

text \<open>A \<open>while\<close> loop, and a \<open>loop\<close> whose body says whether to go on and carries the loop's variables.\<close>

primrec pwhile :: "nat \<Rightarrow> (parser \<Rightarrow> bool) \<Rightarrow> unit pm \<Rightarrow> unit pm" where
  "pwhile 0 t body = pwhen t exhausted"
| "pwhile (Suc n) t body = pwhen t (do { body; pwhile n t body })"

primrec ploop :: "nat \<Rightarrow> ('v \<Rightarrow> ('v \<times> bool) pm) \<Rightarrow> 'v \<Rightarrow> 'v pm" where
  "ploop 0 body v = do { exhausted; ret v }"
| "ploop (Suc n) body v = do { (v', continue) \<leftarrow> body v; if continue then ploop n body v' else ret v' }"

definition bump :: "unit pm" where
  "bump = modify (\<lambda>p. if at_eof p then p
     else p\<lparr>events := events p @ [AddToken], tokens_of := ts_bump (tokens_of p)\<rparr>)"

text \<open>Loops that only consume tokens need no more turns than tokens are left.\<close>

definition bump_while :: "(parser \<Rightarrow> bool) \<Rightarrow> unit pm" where
  "bump_while t = do {
     left \<leftarrow> peek (\<lambda>p. length (ts_tokens (tokens_of p)) - ts_cursor (tokens_of p));
     pwhile left t bump }"

definition bump_trivia :: "unit pm" where
  "bump_trivia = bump_while at_trivia"

definition parser_error :: "parse_diagnostic \<Rightarrow> unit pm" where
  "parser_error d = modify (\<lambda>p. p\<lparr>events := events p @ [ErrorEvent d], diagnostics := diagnostics p @ [d]\<rparr>)"

definition error_and_bump :: "string \<Rightarrow> unit pm" where
  "error_and_bump expected = do {
     text \<leftarrow> peek current_text;
     range \<leftarrow> peek current_range;
     parser_error (with_expected [expected] (parse_diagnostic_new UnexpectedToken
       (''unexpected token `'' @ escape_default text @ ''`, expected '' @ expected) range));
     bump }"

definition is_unclosed_delimiter :: "string \<Rightarrow> string list \<Rightarrow> bool" where
  "is_unclosed_delimiter message expected \<longleftrightarrow>
     str_contains ''to close'' message \<or> str_contains ''after interpolation'' message \<or>
     length expected = 1 \<and> list_ex (\<lambda>item. item \<in> set ['')'', '']'', ''}'', ''T_END_HEREDOC'']) expected"

definition classify_expected_diagnostic :: "string \<Rightarrow> string list \<Rightarrow> parse_diagnostic_id" where
  "classify_expected_diagnostic message expected =
     (if is_unclosed_delimiter message expected then UnclosedDelimiter
      else if ''expression'' \<in> set expected then ExpectedExpression
      else if list_ex (\<lambda>item. item \<in> set [''statement'', ''declaration'']) expected then ExpectedStatement
      else if ''type'' \<in> set expected then ExpectedType
      else if list_ex (\<lambda>item. item \<in> set [''name'', ''T_STRING'', ''T_VARIABLE'']) expected
        \<or> str_contains ''identifier'' message \<or> str_contains ''name'' message then ExpectedIdentifier
      else if expected = [] then UnexpectedToken
      else ExpectedToken)"

definition error_expected_with_id :: "parse_diagnostic_id \<Rightarrow> string \<Rightarrow> string list \<Rightarrow> unit pm" where
  "error_expected_with_id i message expected = do {
     range \<leftarrow> peek current_range;
     parser_error (with_expected expected (parse_diagnostic_new i message range)) }"

definition error_expected :: "string \<Rightarrow> string list \<Rightarrow> unit pm" where
  "error_expected message expected =
     error_expected_with_id (classify_expected_diagnostic message expected) message expected"

text \<open>Markers: \<open>start\<close> leaves a placeholder, \<open>complete\<close> turns it into the start of a node. The grammar completes every
  marker it starts, as the last action on every path; \<open>node\<close> is a marker with the code between.\<close>

definition start :: "nat pm" where
  "start = do {
     pos \<leftarrow> peek (\<lambda>p. length (events p));
     modify (\<lambda>p. p\<lparr>events := events p @ [Placeholder]\<rparr>);
     ret pos }"

definition complete_marker :: "nat \<Rightarrow> syntax_kind \<Rightarrow> unit pm" where
  "complete_marker pos kind = modify (\<lambda>p. p\<lparr>events := (events p)[pos := StartNode kind] @ [FinishNode]\<rparr>)"

definition node_with :: "(syntax_kind \<times> 'a) pm \<Rightarrow> 'a pm" where
  "node_with body = do { marker \<leftarrow> start; (kind, r) \<leftarrow> body; complete_marker marker kind; ret r }"

definition node :: "syntax_node_kind \<Rightarrow> unit pm \<Rightarrow> unit pm" where
  "node kind body = node_with (do { body; ret (NodeK kind, ()) })"

section \<open>Recovery\<close>

definition STATEMENT_TERMINATORS :: "string list" where
  "STATEMENT_TERMINATORS = ['';'', ''}'', ''T_CLOSE_TAG'', ''EOF'']"

definition at_statement_recovery_token :: "parser \<Rightarrow> bool" where
  "at_statement_recovery_token p \<longleftrightarrow>
     at_eof p \<or> at (symbol CHR '';'') p \<or> at (symbol CHR ''}'') p \<or> at (named T_CloseTag) p"

definition at_expr_recovery_token :: "parser \<Rightarrow> bool" where
  "at_expr_recovery_token p \<longleftrightarrow>
     at_statement_recovery_token p \<or> at (symbol CHR '','') p \<or> at (symbol CHR '')'') p \<or> at (symbol CHR '']'') p"

text \<open>\<open>recover_until\<close> leaves its loop when a bump makes no progress, which happens only at the end of
  the tokens; every boundary holds there.\<close>

definition recover_until :: "(parser \<Rightarrow> bool) \<Rightarrow> unit pm" where
  "recover_until boundary = bump_while (\<lambda>p. \<not> boundary p)"

definition recover_to_statement_boundary :: "unit pm" where
  "recover_to_statement_boundary = recover_until at_statement_recovery_token"

definition recover_to_expression_boundary :: "unit pm" where
  "recover_to_expression_boundary = recover_until at_expr_recovery_token"

section \<open>Binding powers\<close>

datatype associativity = LeftAssoc | RightAssoc

record binary_op =
  bo_kind :: syntax_kind
  left_bp :: nat
  right_bp :: nat
  assoc :: associativity

definition left_op :: "syntax_kind \<Rightarrow> nat \<Rightarrow> binary_op" where
  "left_op kind bp = \<lparr>bo_kind = kind, left_bp = bp, right_bp = bp + 1, assoc = LeftAssoc\<rparr>"

definition right_op :: "syntax_kind \<Rightarrow> nat \<Rightarrow> binary_op" where
  "right_op kind bp = \<lparr>bo_kind = kind, left_bp = bp, right_bp = bp, assoc = RightAssoc\<rparr>"

definition is_pipe_operator :: "syntax_kind \<Rightarrow> bool" where
  "is_pipe_operator kind \<longleftrightarrow> kind = named T_Pipe"

definition is_void_cast :: "syntax_kind \<Rightarrow> bool" where
  "is_void_cast kind \<longleftrightarrow> kind = named T_VoidCast"

definition is_clone_keyword :: "syntax_kind \<Rightarrow> bool" where
  "is_clone_keyword kind \<longleftrightarrow> kind = named T_Clone"

definition is_assignment_operator :: "syntax_kind \<Rightarrow> bool" where
  "is_assignment_operator kind \<longleftrightarrow> kind \<in> set
     [symbol CHR ''='', named T_PlusEqual, named T_MinusEqual, named T_MulEqual, named T_DivEqual, named T_ModEqual,
      named T_ConcatEqual, named T_AndEqual, named T_OrEqual, named T_XorEqual, named T_SlEqual, named T_SrEqual,
      named T_PowEqual, named T_CoalesceEqual]"

definition is_bitwise_and_operator :: "syntax_kind \<Rightarrow> bool" where
  "is_bitwise_and_operator kind \<longleftrightarrow> kind \<in> set
     [symbol CHR ''&'', named T_AmpersandFollowedByVarOrVararg, named T_AmpersandNotFollowedByVarOrVararg]"

definition is_equality_operator :: "syntax_kind \<Rightarrow> bool" where
  "is_equality_operator kind \<longleftrightarrow> kind \<in> set
     [named T_IsEqual, named T_IsNotEqual, named T_IsIdentical, named T_IsNotIdentical]"

definition is_comparison_operator :: "syntax_kind \<Rightarrow> bool" where
  "is_comparison_operator kind \<longleftrightarrow> kind \<in> set
     [symbol CHR ''<'', symbol CHR ''>'', named T_IsSmallerOrEqual, named T_IsGreaterOrEqual, named T_Spaceship]"

definition binary_operator :: "syntax_kind \<Rightarrow> binary_op option" where
  "binary_operator kind =
     (if kind = named T_LogicalOr then Some (left_op kind 10)
      else if kind = named T_LogicalXor then Some (left_op kind 20)
      else if kind = named T_LogicalAnd then Some (left_op kind 30)
      else if is_assignment_operator kind then Some (right_op kind 35)
      else if kind = named T_Coalesce then Some (right_op kind 40)
      else if kind = named T_BooleanOr then Some (left_op kind 50)
      else if kind = named T_BooleanAnd then Some (left_op kind 60)
      else if kind = symbol CHR ''|'' then Some (left_op kind 65)
      else if kind = symbol CHR ''^'' then Some (left_op kind 66)
      else if is_bitwise_and_operator kind then Some (left_op kind 67)
      else if is_equality_operator kind then Some (left_op kind 70)
      else if kind = named T_Instanceof then Some (left_op kind 126)
      else if is_comparison_operator kind then Some (left_op kind 80)
      else if kind = named T_Sl \<or> kind = named T_Sr then Some (left_op kind 90)
      else if kind = symbol CHR ''.'' then Some (left_op kind 100)
      else if kind = symbol CHR ''+'' \<or> kind = symbol CHR ''-'' then Some (left_op kind 110)
      else if is_pipe_operator kind then Some (left_op kind 115)
      else if kind = symbol CHR ''*'' \<or> kind = symbol CHR ''/'' \<or> kind = symbol CHR ''%'' then Some (left_op kind 120)
      else if kind = named T_Pow then Some (right_op kind 130)
      else None)"

definition TERNARY_BP :: nat where "TERNARY_BP = 36"
definition PREFIX_RIGHT_BP :: nat where "PREFIX_RIGHT_BP = 125"
definition PRINT_RIGHT_BP :: nat where "PRINT_RIGHT_BP = 31"

end
