(* ===== verification/Parser_Grammar.thy ===== *)
theory Parser_Grammar
  imports Parser_Core
begin

text \<open>
  The PHP grammar of \<open>crates/php_syntax/src/grammar\<close>: names, types, strings, attributes, arrays,
  variables, functions, classes, expressions, statements, declarations and source files, one
  definition per function of the source. The mutual recursion goes through a record of the
  recursive entry points, which \<open>grammar\<close> ties with a bound on the depth of the recursion; the
  same bound limits the turns of the loops that call back into the grammar.
\<close>

section \<open>Recursive entry points\<close>

record type_shape =
  contains_union :: bool
  contains_intersection :: bool
  contains_nullable :: bool
  contains_dnf :: bool
  parenthesized :: bool

definition type_shape_default :: type_shape where
  "type_shape_default = \<lparr>contains_union = False, contains_intersection = False, contains_nullable = False,
     contains_dnf = False, parenthesized = False\<rparr>"

record grammar_rec =
  rec_expression_bp :: "nat \<Rightarrow> bool pm"
  rec_prefix_or_primary :: "bool pm"
  rec_simple_variable :: "bool pm"
  rec_statement :: "unit pm"
  rec_intersection_type :: "type_shape pm"
  rec_use_import_clause :: "bool \<Rightarrow> unit pm"
  turns :: nat

definition parse_expression :: "grammar_rec \<Rightarrow> bool pm" where
  "parse_expression g = rec_expression_bp g 0"

text \<open>\<open>if !m { e }\<close>.\<close>

definition or_else :: "bool pm \<Rightarrow> unit pm \<Rightarrow> unit pm" where
  "or_else m e = do { ok \<leftarrow> m; if ok then skip else e }"

text \<open>\<open>if parser.at(kind) { parser.bump(); } else { e }\<close>.\<close>

abbreviation bump_or :: "syntax_kind \<Rightarrow> unit pm \<Rightarrow> unit pm" where
  "bump_or kind e \<equiv> pif (at kind) bump e"

section \<open>Lookahead\<close>

definition kinds_from :: "nat \<Rightarrow> parser \<Rightarrow> syntax_kind list" where
  "kinds_from n p = map (\<lambda>t. from_token_kind (tok_kind t)) (drop (ts_cursor (tokens_of p) + n) (ts_tokens (tokens_of p)))"

fun first_non_trivia :: "syntax_kind list \<Rightarrow> syntax_kind" where
  "first_non_trivia [] = from_token_kind Eof"
| "first_non_trivia (k # ks) = (if is_trivia k then first_non_trivia ks else k)"

definition next_non_trivia_is :: "nat \<Rightarrow> syntax_kind \<Rightarrow> parser \<Rightarrow> bool" where
  "next_non_trivia_is n expected p \<longleftrightarrow> first_non_trivia (kinds_from n p) = expected"

section \<open>Names\<close>

definition at_name_start :: "parser \<Rightarrow> bool" where
  "at_name_start p \<longleftrightarrow> at (named T_String) p \<or> at (named T_NameFullyQualified) p \<or> at (named T_NameQualified) p
     \<or> at (named T_NameRelative) p"

definition name_segments :: "unit \<Rightarrow> (unit \<times> bool) pm" where
  "name_segments v = do {
     bump_trivia;
     pif (at (named T_NsSeparator))
       (pif (next_non_trivia_is 1 (symbol CHR ''{'')) (ret (v, False))
         (do {
           bump;
           bump_trivia;
           pif (at (named T_String)) (do { bump; ret (v, True) })
             (do {
               error_expected ''expected name segment after namespace separator'' [''T_STRING''];
               ret (v, False) }) }))
       (ret (v, False)) }"

definition parse_name :: "grammar_rec \<Rightarrow> bool pm" where
  "parse_name g = pif at_name_start
     (do { node N_Name (do { bump; ploop (turns g) name_segments () }); ret True })
     (ret False)"

section \<open>Types\<close>

definition node_kind :: "type_shape \<Rightarrow> syntax_node_kind" where
  "node_kind shape =
     (if contains_dnf shape then N_DnfType else if contains_union shape then N_UnionType
      else if contains_intersection shape then N_IntersectionType
      else if contains_nullable shape then N_NullableType else N_Type)"

definition at_type_start :: "parser \<Rightarrow> bool" where
  "at_type_start p \<longleftrightarrow> at (symbol CHR ''?'') p \<or> at (symbol CHR ''('') p \<or> at (named T_String) p
     \<or> at (named T_NameFullyQualified) p \<or> at (named T_NameQualified) p \<or> at (named T_NameRelative) p
     \<or> at (named T_Array) p \<or> at (named T_Callable) p \<or> at (named T_Static) p"

definition at_intersection_operator :: "parser \<Rightarrow> bool" where
  "at_intersection_operator p \<longleftrightarrow> at (symbol CHR ''&'') p \<or> at (named T_AmpersandNotFollowedByVarOrVararg) p"

definition parse_type_atom :: "grammar_rec \<Rightarrow> bool pm" where
  "parse_type_atom g = pif (\<lambda>p. at (named T_Array) p \<or> at (named T_Callable) p \<or> at (named T_Static) p)
     (do { bump; ret True }) (parse_name g)"

definition parse_type_primary :: "grammar_rec \<Rightarrow> type_shape pm" where
  "parse_type_primary g = do {
     shape \<leftarrow> pif (at (symbol CHR ''?''))
       (do { bump; bump_trivia; ret (type_shape_default\<lparr>contains_nullable := True\<rparr>) })
       (ret type_shape_default);
     pif (at (symbol CHR ''(''))
       (do {
         bump;
         bump_trivia;
         inner \<leftarrow> rec_intersection_type g;
         bump_or (symbol CHR '')'') (error_expected ''expected `)` to close parenthesized type'' ['')'']);
         ret (shape\<lparr>parenthesized := True, contains_nullable := contains_nullable shape \<or> contains_nullable inner,
           contains_intersection := contains_intersection shape \<or> contains_intersection inner\<rparr>) })
       (do {
         or_else (parse_type_atom g) (error_expected ''expected type'' [''type'']);
         ret shape }) }"

text \<open>The loops carry the shape and whether an operator was seen.\<close>

definition intersection_tail :: "grammar_rec \<Rightarrow> type_shape \<times> bool \<Rightarrow> ((type_shape \<times> bool) \<times> bool) pm" where
  "intersection_tail g v = (case v of (shape, saw_intersection) \<Rightarrow> do {
     bump_trivia;
     pif at_intersection_operator
       (do {
         bump;
         bump_trivia;
         pif at_type_start
           (do {
             rhs \<leftarrow> parse_type_primary g;
             ret ((shape\<lparr>contains_nullable := contains_nullable shape \<or> contains_nullable rhs,
                    parenthesized := parenthesized shape \<or> parenthesized rhs\<rparr>, True), True) })
           (do { error_expected ''expected type after `&`'' [''type'']; ret ((shape, True), False) }) })
       (ret (v, False)) })"

definition parse_intersection_type :: "grammar_rec \<Rightarrow> type_shape pm" where
  "parse_intersection_type g = do {
     shape \<leftarrow> parse_type_primary g;
     (shape', saw_intersection) \<leftarrow> ploop (turns g) (intersection_tail g) (shape, False);
     ret (if saw_intersection then shape'\<lparr>contains_intersection := True\<rparr> else shape') }"

definition union_tail :: "grammar_rec \<Rightarrow> type_shape \<times> bool \<times> bool \<Rightarrow> ((type_shape \<times> bool \<times> bool) \<times> bool) pm" where
  "union_tail g v = (case v of (shape, saw_union, saw_dnf_term) \<Rightarrow> do {
     bump_trivia;
     pif (at (symbol CHR ''|''))
       (do {
         bump;
         bump_trivia;
         pif at_type_start
           (do {
             rhs \<leftarrow> parse_intersection_type g;
             ret ((shape\<lparr>contains_nullable := contains_nullable shape \<or> contains_nullable rhs,
                    contains_intersection := contains_intersection shape \<or> contains_intersection rhs\<rparr>, True,
                   saw_dnf_term \<or> contains_intersection rhs \<or> parenthesized rhs), True) })
           (do { error_expected ''expected type after `|`'' [''type'']; ret ((shape, True, saw_dnf_term), False) }) })
       (ret (v, False)) })"

definition parse_union_type :: "grammar_rec \<Rightarrow> type_shape pm" where
  "parse_union_type g = do {
     shape \<leftarrow> parse_intersection_type g;
     (shape', saw_union, saw_dnf_term) \<leftarrow>
       ploop (turns g) (union_tail g) (shape, False, contains_intersection shape \<or> parenthesized shape);
     ret (if saw_union then shape'\<lparr>contains_union := True, contains_dnf := saw_dnf_term\<rparr> else shape') }"

definition parse_type :: "grammar_rec \<Rightarrow> unit pm" where
  "parse_type g = node_with (do { shape \<leftarrow> parse_union_type g; ret (NodeK (node_kind shape), ()) })"

definition parse_optional_type :: "grammar_rec \<Rightarrow> bool pm" where
  "parse_optional_type g = pif at_type_start (do { parse_type g; ret True }) (ret False)"

definition parse_optional_return_type :: "grammar_rec \<Rightarrow> unit pm" where
  "parse_optional_return_type g = do {
     bump_trivia;
     pwhen (at (symbol CHR '':'')) (do {
       bump;
       bump_trivia;
       or_else (parse_optional_type g) (error_expected ''expected return type after `:`'' [''type'']) }) }"

section \<open>Strings\<close>

definition consume_string_offset :: "unit pm" where
  "consume_string_offset = do {
     bump;
     bump_while (\<lambda>p. \<not> at_eof p \<and> \<not> at (symbol CHR '']'') p
       \<and> \<not> (at (named T_EncapsedAndWhitespace) p \<and> CHR '']'' \<in> set (current_text p))
       \<and> \<not> at (symbol CHR 0x22) p \<and> \<not> at (symbol CHR 0x60) p \<and> \<not> at (named T_EndHeredoc) p);
     pif (\<lambda>p. \<not> at_eof p \<and> (at (symbol CHR '']'') p
         \<or> at (named T_EncapsedAndWhitespace) p \<and> CHR '']'' \<in> set (current_text p)))
       bump (error_expected ''expected interpolation offset close delimiter'' ['']'']) }"

definition interpolation_tail :: "bool \<Rightarrow> (bool \<times> bool) pm" where
  "interpolation_tail parsed_offset =
     pif (at (symbol CHR ''['')) (do { consume_string_offset; ret (True, True) })
       (pif (\<lambda>p. \<not> parsed_offset \<and> at (named T_ObjectOperator) p)
         (do {
           bump;
           pif (at (named T_String)) (do { bump; ret (parsed_offset, True) })
             (do { error_expected ''expected interpolated property name'' [''T_STRING'']; ret (parsed_offset, False) }) })
         (ret (parsed_offset, False)))"

definition parse_simple_interpolation :: "grammar_rec \<Rightarrow> unit pm" where
  "parse_simple_interpolation g = node N_Variable (do {
     bump;
     _ \<leftarrow> ploop (turns g) interpolation_tail False;
     skip })"

definition parse_complex_interpolation :: "grammar_rec \<Rightarrow> unit pm" where
  "parse_complex_interpolation g = node N_Expr (do {
     bump;
     pif (at (named T_StringVarName)) (node N_Variable bump)
       (pwhen (at (named T_Variable)) (parse_simple_interpolation g));
     bump_while (\<lambda>p. \<not> at_eof p \<and> \<not> at (symbol CHR ''}'') p);
     bump_or (symbol CHR ''}'') (error_expected ''expected `}` after interpolation'' [''}'']) })"

definition parse_encapsed_part :: "grammar_rec \<Rightarrow> unit pm" where
  "parse_encapsed_part g =
     pif (at (named T_Variable)) (parse_simple_interpolation g)
       (pif (\<lambda>p. at (named T_CurlyOpen) p \<or> at (named T_DollarOpenCurlyBraces) p) (parse_complex_interpolation g) bump)"

definition delimiter_name :: "byte \<Rightarrow> string" where
  "delimiter_name delimiter =
     (if delimiter = CHR 0x22 then [CHR 0x22] else if delimiter = CHR 0x60 then [CHR 0x60] else ''delimiter'')"

definition parse_encapsed_string :: "grammar_rec \<Rightarrow> byte \<Rightarrow> unit pm" where
  "parse_encapsed_string g delimiter = node N_Encapsed (do {
     bump;
     pwhile (turns g) (\<lambda>p. \<not> at_eof p \<and> \<not> at (symbol delimiter) p) (parse_encapsed_part g);
     bump_or (symbol delimiter) (error_expected ''expected string delimiter'' [delimiter_name delimiter]) })"

definition parse_heredoc :: "grammar_rec \<Rightarrow> unit pm" where
  "parse_heredoc g = node N_Heredoc (do {
     bump;
     pwhile (turns g) (\<lambda>p. \<not> at_eof p \<and> \<not> at (named T_EndHeredoc) p) (parse_encapsed_part g);
     bump_or (named T_EndHeredoc) (error_expected ''expected heredoc terminator'' [''T_END_HEREDOC'']) })"

definition parse_string_like :: "grammar_rec \<Rightarrow> bool pm" where
  "parse_string_like g =
     pif (at (named T_ConstantEncapsedString)) (do { node N_String bump; ret True })
       (pif (at (symbol CHR 0x22)) (do { parse_encapsed_string g CHR 0x22; ret True })
         (pif (at (symbol CHR 0x60)) (do { parse_encapsed_string g CHR 0x60; ret True })
           (pif (at (named T_StartHeredoc)) (do { parse_heredoc g; ret True }) (ret False))))"

section \<open>Attributes\<close>

definition is_attribute_recovery_kind :: "syntax_kind \<Rightarrow> bool" where
  "is_attribute_recovery_kind kind \<longleftrightarrow> kind \<in> set
     [named T_Function, named T_Class, named T_Interface, named T_Trait, named T_Enum, named T_Fn, named T_Static,
      named T_Public, named T_Protected, named T_Private, named T_Readonly, named T_Variable, named T_CloseTag,
      symbol CHR '')'', symbol CHR ''{'', symbol CHR ''}'', symbol CHR '';'']"

definition is_attribute_argument_recovery_kind :: "syntax_kind \<Rightarrow> bool" where
  "is_attribute_argument_recovery_kind kind \<longleftrightarrow> kind \<in> set
     [named T_Class, named T_Interface, named T_Trait, named T_Enum, named T_Public, named T_Protected, named T_Private,
      named T_Readonly, named T_Variable, named T_CloseTag, symbol CHR '')'', symbol CHR ''}'', symbol CHR '';'']"

definition at_attribute_recovery_end :: "parser \<Rightarrow> bool" where
  "at_attribute_recovery_end p = is_attribute_recovery_kind (current p)"

definition at_attribute_argument_recovery_end :: "parser \<Rightarrow> bool" where
  "at_attribute_argument_recovery_end p = is_attribute_argument_recovery_kind (current p)"

definition recover_to_attribute_boundary :: "unit pm" where
  "recover_to_attribute_boundary = bump_while (\<lambda>p.
     \<not> at_eof p \<and> \<not> at (symbol CHR '','') p \<and> \<not> at (symbol CHR '']'') p \<and> \<not> at_attribute_recovery_end p)"

text \<open>The depths of open parentheses, brackets and braces after one more token.\<close>

definition track_depth :: "syntax_kind \<Rightarrow> nat \<times> nat \<times> nat \<Rightarrow> nat \<times> nat \<times> nat" where
  "track_depth kind d = (case d of (paren, bracket, brace) \<Rightarrow>
     if kind = symbol CHR ''('' then (paren + 1, bracket, brace)
     else if kind = symbol CHR '')'' \<and> 0 < paren then (paren - 1, bracket, brace)
     else if kind = symbol CHR ''['' then (paren, bracket + 1, brace)
     else if kind = symbol CHR '']'' \<and> 0 < bracket then (paren, bracket - 1, brace)
     else if kind = symbol CHR ''{'' then (paren, bracket, brace + 1)
     else if kind = symbol CHR ''}'' \<and> 0 < brace then (paren, bracket, brace - 1)
     else d)"

definition argument_boundary_step :: "nat \<times> nat \<times> nat \<Rightarrow> ((nat \<times> nat \<times> nat) \<times> bool) pm" where
  "argument_boundary_step d =
     pif (\<lambda>p. at_eof p \<or> d = (0, 0, 0) \<and> (at (symbol CHR '','') p \<or> at (symbol CHR '')'') p \<or> at (symbol CHR '']'') p))
       (ret (d, False))
       (do { kind \<leftarrow> peek current; bump; ret (track_depth kind d, True) })"

definition recover_to_attribute_argument_boundary :: "grammar_rec \<Rightarrow> unit pm" where
  "recover_to_attribute_argument_boundary g = do { _ \<leftarrow> ploop (turns g) argument_boundary_step (0, 0, 0); skip }"

text \<open>The first token that is not trivia after one or more attribute groups. The first argument is \<open>None\<close> between
  the groups and holds the depths inside a group.\<close>

fun after_attribute_groups :: "(nat \<times> nat \<times> nat) option \<Rightarrow> syntax_kind list \<Rightarrow> syntax_kind" where
  "after_attribute_groups d [] = from_token_kind Eof"
| "after_attribute_groups None (kind # ks) =
     (if is_trivia kind then after_attribute_groups None ks
      else if kind \<noteq> named T_Attribute then kind else after_attribute_groups (Some (0, 0, 0)) ks)"
| "after_attribute_groups (Some d) (kind # ks) =
     (if kind = from_token_kind Eof then kind
      else if d = (0, 0, 0) \<and> is_attribute_recovery_kind kind then kind
      else if d = (0, 0, 0) \<and> kind = symbol CHR '']'' then after_attribute_groups None ks
      else after_attribute_groups (Some (track_depth kind d)) ks)"

definition first_token_after_attribute_groups :: "parser \<Rightarrow> syntax_kind" where
  "first_token_after_attribute_groups p = after_attribute_groups None (kinds_from 0 p)"

definition at_named_argument_label :: "parser \<Rightarrow> bool" where
  "at_named_argument_label p \<longleftrightarrow> at_contextual_identifier p \<and> next_non_trivia_is 1 (symbol CHR '':'') p"

definition attribute_argument_step :: "grammar_rec \<Rightarrow> unit \<Rightarrow> (unit \<times> bool) pm" where
  "attribute_argument_step g v =
     pif (\<lambda>p. at_eof p \<or> at (symbol CHR '')'') p \<or> at (symbol CHR '']'') p \<or> at_attribute_argument_recovery_end p)
       (ret (v, False))
       (do {
         bump_trivia;
         pif (at (symbol CHR '','')) (do { bump; ret (v, True) })
           (pif (\<lambda>p. at (symbol CHR '')'') p \<or> at (symbol CHR '']'') p) (ret (v, False))
             (do {
               pwhen at_named_argument_label (do { bump; bump_trivia; bump; bump_trivia });
               or_else (parse_expression g) (do {
                 error_expected ''expected attribute argument expression'' [''expression''];
                 recover_to_attribute_argument_boundary g });
               bump_trivia;
               pif (at (symbol CHR '','')) bump
                 (pif (\<lambda>p. \<not> at (symbol CHR '')'') p \<and> \<not> at (symbol CHR '']'') p)
                   (do {
                     error_expected ''expected `,` or `)` in attribute argument list'' ['','', '')''];
                     recover_to_attribute_argument_boundary g;
                     pwhen (at (symbol CHR '','')) bump })
                   skip);
               ret (v, True) })) })"

definition parse_attribute_argument_list :: "grammar_rec \<Rightarrow> unit pm" where
  "parse_attribute_argument_list g = do {
     bump;
     ploop (turns g) (attribute_argument_step g) ();
     bump_or (symbol CHR '')'') (error_expected ''expected `)` to close attribute argument list'' ['')'']) }"

definition parse_attribute :: "grammar_rec \<Rightarrow> unit pm" where
  "parse_attribute g = node N_Attribute (do {
     ok \<leftarrow> parse_name g;
     if ok then do {
       bump_trivia;
       pwhen (at (symbol CHR ''('')) (parse_attribute_argument_list g) }
     else do {
       error_expected ''expected attribute name'' [''name''];
       recover_to_attribute_boundary } })"

definition attribute_group_step :: "grammar_rec \<Rightarrow> bool \<Rightarrow> (bool \<times> bool) pm" where
  "attribute_group_step g parsed_attribute =
     pif (\<lambda>p. at_eof p \<or> at (symbol CHR '']'') p \<or> at_attribute_recovery_end p) (ret (parsed_attribute, False))
       (do {
         bump_trivia;
         pif (at (symbol CHR '',''))
           (do {
             (if parsed_attribute then skip else error_expected ''expected attribute name'' [''name'']);
             bump;
             ret (parsed_attribute, True) })
           (do {
             parse_attribute g;
             bump_trivia;
             pif (at (symbol CHR '','')) bump
               (pif (\<lambda>p. \<not> at (symbol CHR '']'') p \<and> \<not> at_attribute_recovery_end p)
                 (do {
                   error_expected ''expected `,` or `]` in attribute group'' ['','', '']''];
                   recover_to_attribute_boundary })
                 skip);
             ret (True, True) }) })"

definition parse_attribute_group :: "grammar_rec \<Rightarrow> unit pm" where
  "parse_attribute_group g = node N_AttributeGroup (do {
     bump;
     parsed_attribute \<leftarrow> ploop (turns g) (attribute_group_step g) False;
     pif (at (symbol CHR '']''))
       (do {
         (if parsed_attribute then skip else error_expected ''expected attribute name'' [''name'']);
         bump })
       (error_expected ''expected `]` to close attribute group'' ['']'']) })"

definition parse_attribute_groups :: "grammar_rec \<Rightarrow> unit pm" where
  "parse_attribute_groups g = pwhile (turns g) (at (named T_Attribute)) (parse_attribute_group g)"

section \<open>Arrays and variables\<close>

definition at_by_ref :: "parser \<Rightarrow> bool" where
  "at_by_ref p \<longleftrightarrow> at (symbol CHR ''&'') p \<or> at (named T_AmpersandFollowedByVarOrVararg) p
     \<or> at (named T_AmpersandNotFollowedByVarOrVararg) p"

definition parse_array_pair :: "grammar_rec \<Rightarrow> unit pm" where
  "parse_array_pair g = node N_ArrayPair (do {
     pwhen (\<lambda>p. at_by_ref p \<or> at (named T_Ellipsis) p) bump;
     or_else (parse_expression g) (error_expected ''expected array element'' [''expression'']);
     pwhen (at (named T_DoubleArrow)) (do {
       bump;
       bump_trivia;
       pwhen at_by_ref (do { bump; bump_trivia });
       or_else (parse_expression g) (error_expected ''expected array value after `=>`'' [''expression'']) }) })"

definition array_pair_step :: "grammar_rec \<Rightarrow> byte \<Rightarrow> unit pm" where
  "array_pair_step g close =
     pif (\<lambda>p. at_trivia p \<or> at (symbol CHR '','') p) bump
       (do {
         parse_array_pair g;
         pif (at (symbol CHR '','')) bump
           (pif (\<lambda>p. \<not> at (symbol close) p)
             (do {
               error_expected ''expected `,` or array terminator'' ['','', '']'', '')''];
               bump_while (\<lambda>p. \<not> at_eof p \<and> \<not> at (symbol CHR '','') p \<and> \<not> at (symbol close) p) })
             skip) })"

definition parse_array_pairs_until :: "grammar_rec \<Rightarrow> byte \<Rightarrow> unit pm" where
  "parse_array_pairs_until g close =
     pwhile (turns g) (\<lambda>p. \<not> at_eof p \<and> \<not> at (symbol close) p) (array_pair_step g close)"

definition parse_array_body :: "grammar_rec \<Rightarrow> byte \<Rightarrow> syntax_node_kind \<Rightarrow> unit pm" where
  "parse_array_body g close kind = node kind (do {
     bump;
     parse_array_pairs_until g close;
     bump_or (symbol close)
       (error_expected ''expected array terminator'' [if close = CHR '']'' then '']'' else '')'']) })"

definition parse_array_expression :: "grammar_rec \<Rightarrow> bool pm" where
  "parse_array_expression g =
     pif (at (symbol CHR ''['')) (do { parse_array_body g CHR '']'' N_ArrayExpr; ret True })
       (pif (\<lambda>p. at (named T_Array) p \<or> at (named T_List) p)
         (do {
           node N_ArrayExpr (do {
             bump;
             bump_trivia;
             pif (at (symbol CHR ''(''))
               (do {
                 bump;
                 parse_array_pairs_until g CHR '')'';
                 bump_or (symbol CHR '')'') (error_expected ''expected `)` to close array/list expression'' ['')'']) })
               (error_expected ''expected `(` after array/list keyword'' [''('']) });
           ret True })
         (ret False))"

definition parse_dim_fetch_tail :: "grammar_rec \<Rightarrow> byte \<Rightarrow> unit pm" where
  "parse_dim_fetch_tail g close = node N_ArrayDimFetchExpr (do {
     bump;
     pif (\<lambda>p. \<not> at (symbol close) p)
       (or_else (parse_expression g) (do {
         error_expected ''expected dimension expression'' [''expression''];
         bump_while (\<lambda>p. \<not> at_eof p \<and> \<not> at (symbol close) p) }))
       skip;
     bump_or (symbol close)
       (error_expected ''expected dimension fetch terminator'' [if close = CHR '']'' then '']'' else ''}'']) })"

definition parse_simple_variable :: "grammar_rec \<Rightarrow> bool pm" where
  "parse_simple_variable g =
     pif (\<lambda>p. at (named T_Variable) p \<or> at (symbol CHR ''$'') p)
       (do {
         node N_Variable
           (pif (at (named T_Variable)) bump
             (do {
               bump;
               bump_trivia;
               pif (at (symbol CHR ''{''))
                 (do {
                   bump;
                   bump_trivia;
                   or_else (parse_expression g) (error_expected ''expected expression in braced variable'' [''expression'']);
                   bump_trivia;
                   bump_or (symbol CHR ''}'') (error_expected ''expected `}` after braced variable'' [''}'']) })
                 (pif (\<lambda>p. at (named T_Variable) p \<or> at (symbol CHR ''$'') p)
                   (do { _ \<leftarrow> rec_simple_variable g; skip })
                   (error_expected ''expected variable after variable-variable sigil'' [''T_VARIABLE'', ''{''])) }));
         ret True })
       (ret False)"

section \<open>Statement lists\<close>

definition parse_short_echo_statement :: "grammar_rec \<Rightarrow> unit pm" where
  "parse_short_echo_statement g = node N_EchoStmt
     (or_else (parse_expression g) (error_expected ''expected expression after short echo tag'' [''expression'']))"

text \<open>A statement, with the error and the skipped token when it consumes nothing.\<close>

definition guarded_statement :: "grammar_rec \<Rightarrow> unit pm" where
  "guarded_statement g = do {
     before \<leftarrow> peek parser_position;
     rec_statement g;
     pif (\<lambda>p. \<not> at_eof p \<and> parser_position p = before)
       (do { error_expected ''expected statement parser to make progress'' [''statement'']; bump })
       skip }"

definition parse_statement_list_contents :: "grammar_rec \<Rightarrow> unit pm" where
  "parse_statement_list_contents g =
     pwhile (turns g) (\<lambda>p. \<not> at_eof p \<and> \<not> at (named T_CloseTag) p \<and> \<not> at (symbol CHR ''}'') p)
       (pif at_trivia bump (guarded_statement g))"

definition at_nested_php_mode_boundary :: "parser \<Rightarrow> bool" where
  "at_nested_php_mode_boundary p \<longleftrightarrow> at (named T_CloseTag) p \<or> at (named T_InlineHtml) p \<or> at (named T_OpenTag) p
     \<or> at (named T_OpenTagWithEcho) p"

definition parse_inline_html :: "unit pm" where
  "parse_inline_html = node N_InlineHtml (bump_while (at (named T_InlineHtml)))"

definition parse_nested_php_mode_boundary :: "grammar_rec \<Rightarrow> unit pm" where
  "parse_nested_php_mode_boundary g = do {
     pwhen (at (named T_CloseTag)) bump;
     pwhen (at (named T_InlineHtml)) parse_inline_html;
     pif (at (named T_OpenTagWithEcho)) (do { bump; parse_short_echo_statement g })
       (pwhen (at (named T_OpenTag)) bump) }"

definition parse_nested_statement_list_contents :: "grammar_rec \<Rightarrow> (parser \<Rightarrow> bool) \<Rightarrow> unit pm" where
  "parse_nested_statement_list_contents g at_end =
     pwhile (turns g) (\<lambda>p. \<not> at_eof p \<and> \<not> at_end p)
       (pif at_trivia bump
         (pif at_nested_php_mode_boundary (parse_nested_php_mode_boundary g) (guarded_statement g)))"

abbreviation parse_statements_until :: "grammar_rec \<Rightarrow> (parser \<Rightarrow> bool) \<Rightarrow> unit pm" where
  "parse_statements_until \<equiv> parse_nested_statement_list_contents"

definition parse_block_statement :: "grammar_rec \<Rightarrow> unit pm" where
  "parse_block_statement g = node N_BlockStmt (do {
     bump;
     pwhile (turns g) (\<lambda>p. \<not> at_eof p \<and> \<not> at (symbol CHR ''}'') p)
       (pif at_trivia bump
         (pif at_nested_php_mode_boundary (parse_nested_php_mode_boundary g) (rec_statement g)));
     bump_or (symbol CHR ''}'') (error_expected ''expected `}` to close block statement'' [''}'']) })"

section \<open>Calls\<close>

definition at_expression_stop :: "parser \<Rightarrow> bool" where
  "at_expression_stop p \<longleftrightarrow> at_expr_recovery_token p \<or> at (named T_Echo) p"

text \<open>The boundary of \<open>expressions.rs\<close>, which stops at a close tag as well.\<close>

definition recover_to_argument_boundary :: "unit pm" where
  "recover_to_argument_boundary = bump_while (\<lambda>p.
     \<not> at_eof p \<and> \<not> at (symbol CHR '','') p \<and> \<not> at (symbol CHR '')'') p \<and> \<not> at (named T_CloseTag) p)"

definition argument_expression :: "grammar_rec \<Rightarrow> unit pm" where
  "argument_expression g = do {
     pwhen at_by_ref (do { bump; bump_trivia });
     or_else (parse_expression g) (do {
       error_expected ''expected argument expression'' [''expression''];
       recover_to_argument_boundary }) }"

definition parse_argument :: "grammar_rec \<Rightarrow> unit pm" where
  "parse_argument g = do {
     pwhen at_named_argument_label (do { bump; bump_trivia; bump; bump_trivia });
     pif (at (named T_Ellipsis))
       (do { bump; bump_trivia; pif (at (symbol CHR '')'')) skip (argument_expression g) })
       (argument_expression g) }"

definition unexpected_comma :: "bool \<Rightarrow> unit pm" where
  "unexpected_comma saw_argument =
     (let quoted = (\<lambda>c. [CHR 0x22, c, CHR 0x22])
      in if saw_argument
         then error_expected_with_id UnexpectedToken
           (''syntax error, unexpected token '' @ quoted CHR '','' @ '', expecting '' @ quoted CHR '')'') ['')'']
         else error_expected_with_id UnexpectedToken (''syntax error, unexpected token '' @ quoted CHR '','') [])"

definition call_argument_step :: "grammar_rec \<Rightarrow> bool \<Rightarrow> (bool \<times> bool) pm" where
  "call_argument_step g saw_argument =
     pif (\<lambda>p. at_eof p \<or> at (symbol CHR '')'') p) (ret (saw_argument, False))
       (do {
         bump_trivia;
         pif (at (symbol CHR '')'')) (ret (saw_argument, False))
           (pif (at (symbol CHR '','')) (do { unexpected_comma saw_argument; bump; ret (saw_argument, True) })
             (do {
               parse_argument g;
               bump_trivia;
               pif (at (symbol CHR '','')) bump
                 (pif (\<lambda>p. \<not> at (symbol CHR '')'') p)
                   (do {
                     error_expected ''expected `,` or `)` in argument list'' ['','', '')''];
                     recover_to_argument_boundary;
                     pwhen (at (symbol CHR '','')) bump })
                   skip);
               ret (True, True) })) })"

definition parse_call_tail :: "grammar_rec \<Rightarrow> unit pm" where
  "parse_call_tail g = node N_CallExpr (do {
     bump;
     _ \<leftarrow> ploop (turns g) (call_argument_step g) False;
     bump_or (symbol CHR '')'') (error_expected ''expected `)` to close argument list'' ['')'']) })"

section \<open>Functions\<close>

definition expect_function_keyword :: "unit pm" where
  "expect_function_keyword = bump_or (named T_Function) (error_expected ''expected `function`'' [''T_FUNCTION''])"

definition parse_optional_ampersand :: "unit pm" where
  "parse_optional_ampersand = pwhen at_by_ref bump"

definition recover_to_parameter_boundary :: "unit pm" where
  "recover_to_parameter_boundary = bump_while (\<lambda>p.
     \<not> at_eof p \<and> \<not> at (symbol CHR '','') p \<and> \<not> at (symbol CHR '')'') p \<and> \<not> at (symbol CHR ''{'') p
     \<and> \<not> at (symbol CHR ''}'') p \<and> \<not> at_statement_recovery_token p)"

definition at_parameter_list_end :: "parser \<Rightarrow> bool" where
  "at_parameter_list_end p \<longleftrightarrow> at_eof p \<or> at (symbol CHR '')'') p \<or> at (symbol CHR ''{'') p \<or> at (symbol CHR ''}'') p
     \<or> at_statement_recovery_token p"

definition at_promotion_modifier :: "parser \<Rightarrow> bool" where
  "at_promotion_modifier p \<longleftrightarrow> current p \<in> set
     [named T_Public, named T_Protected, named T_Private, named T_Readonly, named T_PublicSet, named T_ProtectedSet,
      named T_PrivateSet]"

definition parse_promoted_parameter_modifiers :: "grammar_rec \<Rightarrow> unit pm" where
  "parse_promoted_parameter_modifiers g = pwhile (turns g) at_promotion_modifier (do { bump; bump_trivia })"

definition parse_parameter :: "grammar_rec \<Rightarrow> unit pm" where
  "parse_parameter g = node N_Param (do {
     parse_attribute_groups g;
     bump_trivia;
     parse_promoted_parameter_modifiers g;
     bump_trivia;
     _ \<leftarrow> parse_optional_type g;
     bump_trivia;
     parse_optional_ampersand;
     bump_trivia;
     pwhen (at (named T_Ellipsis)) bump;
     bump_trivia;
     bump_or (named T_Variable) (do {
       error_expected ''expected parameter variable'' [''T_VARIABLE''];
       recover_to_parameter_boundary });
     bump_trivia;
     pwhen (at (symbol CHR ''='')) (do {
       bump;
       or_else (parse_expression g) (error_expected ''expected default value expression'' [''expression'']) }) })"

definition parameter_step :: "grammar_rec \<Rightarrow> unit \<Rightarrow> (unit \<times> bool) pm" where
  "parameter_step g v =
     pif at_parameter_list_end (ret (v, False))
       (do {
         bump_trivia;
         pif at_parameter_list_end (ret (v, False))
           (pif (at (symbol CHR '','')) (do { bump; ret (v, True) })
             (do {
               parse_parameter g;
               bump_trivia;
               pif (at (symbol CHR '','')) bump
                 (pif (\<lambda>p. \<not> at (symbol CHR '')'') p)
                   (do {
                     error_expected ''expected `,` or `)` in parameter list'' ['','', '')''];
                     recover_to_parameter_boundary;
                     pwhen (at (symbol CHR '','')) bump })
                   skip);
               ret (v, True) })) })"

definition parse_parameter_list :: "grammar_rec \<Rightarrow> unit pm" where
  "parse_parameter_list g = do {
     bump_trivia;
     node N_ParamList
       (pif (at (symbol CHR ''(''))
         (do {
           bump;
           ploop (turns g) (parameter_step g) ();
           bump_or (symbol CHR '')'') (error_expected ''expected `)` to close parameter list'' ['')'']) })
         (error_expected ''expected parameter list'' [''(''])) }"

definition closure_use_step :: "grammar_rec \<Rightarrow> unit \<Rightarrow> (unit \<times> bool) pm" where
  "closure_use_step g v =
     pif (\<lambda>p. at_eof p \<or> at (symbol CHR '')'') p) (ret (v, False))
       (do {
         bump_trivia;
         pif (at (symbol CHR '')'')) (ret (v, False))
           (pif (at (symbol CHR '','')) (do { bump; ret (v, True) })
             (do {
               node N_Param (do {
                 parse_optional_ampersand;
                 bump_trivia;
                 bump_or (named T_Variable) (do {
                   error_expected ''expected closure use variable'' [''T_VARIABLE''];
                   recover_to_parameter_boundary }) });
               bump_trivia;
               pif (at (symbol CHR '','')) bump
                 (pif (\<lambda>p. \<not> at (symbol CHR '')'') p)
                   (do {
                     error_expected ''expected `,` or `)` in closure use list'' ['','', '')''];
                     recover_to_parameter_boundary })
                   skip);
               ret (v, True) })) })"

definition parse_optional_closure_use_list :: "grammar_rec \<Rightarrow> unit pm" where
  "parse_optional_closure_use_list g = do {
     bump_trivia;
     pwhen (at (named T_Use))
       (node N_ParamList (do {
         bump;
         bump_trivia;
         pif (at (symbol CHR ''(''))
           (do {
             bump;
             ploop (turns g) (closure_use_step g) ();
             bump_or (symbol CHR '')'') (error_expected ''expected `)` to close closure use list'' ['')'']) })
           (error_expected ''expected `(` after closure use'' [''('']) })) }"

definition parse_required_block_body :: "grammar_rec \<Rightarrow> string \<Rightarrow> unit pm" where
  "parse_required_block_body g context = do {
     bump_trivia;
     pif (at (symbol CHR ''{'')) (parse_block_statement g)
       (do {
         error_expected (''expected body for '' @ context) [''{''];
         recover_to_statement_boundary;
         pwhen (at (symbol CHR '';'')) bump }) }"

definition parse_optional_function_body :: "grammar_rec \<Rightarrow> string \<Rightarrow> unit pm" where
  "parse_optional_function_body g context = do {
     bump_trivia;
     pif (at (symbol CHR '';'')) bump (parse_required_block_body g context) }"

text \<open>The part after the attributes that functions and methods share in shape.\<close>

definition function_rest :: "grammar_rec \<Rightarrow> string \<Rightarrow> string \<Rightarrow> unit pm" where
  "function_rest g name_message context = do {
     bump_trivia;
     expect_function_keyword;
     bump_trivia;
     parse_optional_ampersand;
     bump_trivia;
     pif at_contextual_identifier bump (error_expected name_message [''T_STRING'']);
     parse_parameter_list g;
     parse_optional_return_type g;
     parse_optional_function_body g context }"

definition parse_function_declaration :: "grammar_rec \<Rightarrow> unit pm" where
  "parse_function_declaration g = node N_FunctionDecl (do {
     parse_attribute_groups g;
     function_rest g ''expected function name'' ''function declaration'' })"

definition parse_method_member_body :: "grammar_rec \<Rightarrow> unit pm" where
  "parse_method_member_body g = function_rest g ''expected method name'' ''method declaration''"

definition at_closure_start :: "parser \<Rightarrow> bool" where
  "at_closure_start p \<longleftrightarrow> at (named T_Function) p
     \<or> at (named T_Static) p \<and> next_non_trivia_is 1 (named T_Function) p
     \<or> at (named T_Attribute) p \<and> first_token_after_attribute_groups p = named T_Function"

definition at_arrow_function_start :: "parser \<Rightarrow> bool" where
  "at_arrow_function_start p \<longleftrightarrow> at (named T_Fn) p
     \<or> at (named T_Static) p \<and> next_non_trivia_is 1 (named T_Fn) p
     \<or> at (named T_Attribute) p \<and> first_token_after_attribute_groups p = named T_Fn"

definition parse_closure_expression :: "grammar_rec \<Rightarrow> bool pm" where
  "parse_closure_expression g =
     pif at_closure_start
       (do {
         node N_ClosureExpr (do {
           parse_attribute_groups g;
           bump_trivia;
           pwhen (at (named T_Static)) (do { bump; bump_trivia });
           expect_function_keyword;
           bump_trivia;
           parse_optional_ampersand;
           parse_parameter_list g;
           parse_optional_closure_use_list g;
           parse_optional_return_type g;
           parse_required_block_body g ''closure'' });
         ret True })
       (ret False)"

definition parse_arrow_function_expression :: "grammar_rec \<Rightarrow> bool pm" where
  "parse_arrow_function_expression g =
     pif at_arrow_function_start
       (do {
         node N_ArrowFunctionExpr (do {
           parse_attribute_groups g;
           bump_trivia;
           pwhen (at (named T_Static)) (do { bump; bump_trivia });
           bump_or (named T_Fn) (error_expected ''expected `fn`'' [''T_FN'']);
           parse_parameter_list g;
           parse_optional_return_type g;
           bump_trivia;
           pif (at (named T_DoubleArrow))
             (do {
               bump;
               or_else (parse_expression g) (error_expected ''expected expression after `=>`'' [''expression'']) })
             (error_expected ''expected `=>` in arrow function'' [''T_DOUBLE_ARROW'']) });
         ret True })
       (ret False)"

section \<open>Classes\<close>

definition at_class_like_declaration :: "parser \<Rightarrow> bool" where
  "at_class_like_declaration p \<longleftrightarrow> current p \<in> set
     [named T_Class, named T_Interface, named T_Trait, named T_Enum, named T_Abstract, named T_Final, named T_Readonly]"

definition at_modifier :: "parser \<Rightarrow> bool" where
  "at_modifier p \<longleftrightarrow> current p \<in> set
     [named T_Abstract, named T_Final, named T_Readonly, named T_Public, named T_Protected, named T_Private,
      named T_PublicSet, named T_ProtectedSet, named T_PrivateSet, named T_Static, named T_Var]"

definition modifier_step :: "unit \<Rightarrow> (unit \<times> bool) pm" where
  "modifier_step v = do { bump_trivia; pif at_modifier (do { bump; ret (v, True) }) (ret (v, False)) }"

definition parse_modifiers :: "grammar_rec \<Rightarrow> unit pm" where
  "parse_modifiers g = ploop (turns g) modifier_step ()"

definition consume_until_class_body :: "unit pm" where
  "consume_until_class_body = bump_while (\<lambda>p.
     \<not> at_eof p \<and> \<not> at (symbol CHR ''{'') p \<and> \<not> at (symbol CHR '';'') p \<and> \<not> at (named T_CloseTag) p)"

definition recover_to_property_hook_boundary :: "unit pm" where
  "recover_to_property_hook_boundary = do {
     bump_while (\<lambda>p. \<not> at_eof p \<and> \<not> at (symbol CHR '';'') p \<and> \<not> at (symbol CHR ''}'') p \<and> \<not> at (named T_CloseTag) p);
     pwhen (at (symbol CHR '';'')) bump }"

definition recover_to_class_const_boundary :: "unit pm" where
  "recover_to_class_const_boundary = bump_while (\<lambda>p.
     \<not> at_eof p \<and> \<not> at (symbol CHR '','') p \<and> \<not> at (symbol CHR '';'') p \<and> \<not> at (symbol CHR ''}'') p
     \<and> \<not> at (named T_CloseTag) p)"

definition recover_to_property_boundary :: "unit pm" where
  "recover_to_property_boundary = bump_while (\<lambda>p.
     \<not> at_eof p \<and> \<not> at (symbol CHR '','') p \<and> \<not> at (symbol CHR '';'') p \<and> \<not> at (symbol CHR ''{'') p
     \<and> \<not> at (symbol CHR ''}'') p \<and> \<not> at (named T_CloseTag) p)"

definition property_hook_body :: "grammar_rec \<Rightarrow> unit pm" where
  "property_hook_body g =
     pif (at (symbol CHR ''{''))
       (do {
         bump;
         parse_statement_list_contents g;
         bump_or (symbol CHR ''}'') (error_expected ''expected `}` to close property hook body'' [''}'']) })
       (pif (at (named T_DoubleArrow))
         (do {
           bump;
           or_else (parse_expression g) (error_expected ''expected property hook expression'' [''expression'']);
           bump_or (symbol CHR '';'') (do {
             error_expected ''expected `;` after property hook expression'' ['';''];
             recover_to_property_hook_boundary }) })
         (do {
           error_expected ''expected property hook body'' [''{'', ''=>''];
           recover_to_property_hook_boundary }))"

definition parse_property_hook :: "grammar_rec \<Rightarrow> unit pm" where
  "parse_property_hook g = node N_PropertyHookDecl (do {
     parse_modifiers g;
     bump_trivia;
     pif at_contextual_identifier bump (do {
       error_expected ''expected property hook name'' [''get'', ''set''];
       recover_to_property_hook_boundary });
     bump_trivia;
     property_hook_body g })"

definition parse_property_hook_list :: "grammar_rec \<Rightarrow> unit pm" where
  "parse_property_hook_list g = do {
     bump;
     pwhile (turns g) (\<lambda>p. \<not> at_eof p \<and> \<not> at (symbol CHR ''}'') p)
       (pif (\<lambda>p. at_trivia p \<or> at (symbol CHR '';'') p) bump (parse_property_hook g));
     bump_or (symbol CHR ''}'') (error_expected ''expected `}` to close property hook list'' [''}'']) }"

definition property_tokens_step :: "grammar_rec \<Rightarrow> unit pm" where
  "property_tokens_step g =
     pif (at (symbol CHR ''=''))
       (do {
         bump;
         or_else (parse_expression g) (do {
           error_expected ''expected property default expression'' [''expression''];
           recover_to_property_boundary }) })
       bump"

definition consume_property_member :: "grammar_rec \<Rightarrow> unit pm" where
  "consume_property_member g = do {
     pwhile (turns g) (\<lambda>p. \<not> at_eof p \<and> \<not> at (symbol CHR '';'') p \<and> \<not> at (symbol CHR ''{'') p
         \<and> \<not> at (symbol CHR ''}'') p \<and> \<not> at (named T_CloseTag) p)
       (property_tokens_step g);
     pif (at (symbol CHR '';'')) bump
       (pif (at (symbol CHR ''{'')) (parse_property_hook_list g)
         (pif (\<lambda>p. \<not> at (symbol CHR ''}'') p)
           (do {
             error_expected ''expected `;` or property hook body'' ['';'', ''{''];
             recover_to_statement_boundary })
           skip)) }"

text \<open>The depth of \<open>consume_balanced_block\<close>; the caller stands at an opening brace, so that \<open>depth -= 1\<close> never underflows.\<close>

definition balanced_block_step :: "nat \<times> bool \<Rightarrow> ((nat \<times> bool) \<times> bool) pm" where
  "balanced_block_step v = (case v of (depth, closed) \<Rightarrow>
     pif at_eof (ret ((depth, False), False))
       (pif (at (symbol CHR ''{'')) (do { bump; ret ((depth + 1, closed), True) })
         (pif (at (symbol CHR ''}''))
           (do { bump; ret (if depth - 1 = 0 then ((0, True), False) else ((depth - 1, closed), True)) })
           (do { bump; ret (v, True) }))))"

definition consume_balanced_block :: "grammar_rec \<Rightarrow> unit pm" where
  "consume_balanced_block g = do {
     (depth, closed) \<leftarrow> ploop (turns g) balanced_block_step (0, False);
     if closed then skip else error_expected ''expected `}` to close block'' [''}''] }"

definition consume_member_with_optional_body :: "grammar_rec \<Rightarrow> unit pm" where
  "consume_member_with_optional_body g = do {
     bump_while (\<lambda>p. \<not> at_eof p \<and> \<not> at (symbol CHR ''{'') p \<and> \<not> at (symbol CHR '';'') p
       \<and> \<not> at (symbol CHR ''}'') p \<and> \<not> at (named T_CloseTag) p);
     pif (at (symbol CHR ''{'')) (consume_balanced_block g)
       (pif (at (symbol CHR '';'')) bump
         (pif (\<lambda>p. \<not> at (symbol CHR ''}'') p) (error_expected ''expected method body or `;`'' [''{'', '';'']) skip)) }"

definition is_identifier_kind :: "syntax_kind \<Rightarrow> bool" where
  "is_identifier_kind kind \<longleftrightarrow> kind \<in> set [named T_String, named T_Match, named T_Readonly, named T_Include]"

text \<open>The significant kinds before \<open>=\<close>, or \<open>None\<close> when a separator or the end comes first.\<close>

fun significant_before_equals :: "syntax_kind list \<Rightarrow> syntax_kind list option" where
  "significant_before_equals [] = None"
| "significant_before_equals (kind # ks) =
     (if is_trivia kind then significant_before_equals ks
      else if kind = symbol CHR ''='' then Some []
      else if kind = symbol CHR '','' \<or> kind = symbol CHR '';'' \<or> kind = from_token_kind Eof then None
      else map_option (\<lambda>sig. kind # sig) (significant_before_equals ks))"

definition at_typed_class_const :: "parser \<Rightarrow> bool" where
  "at_typed_class_const p \<longleftrightarrow> at_type_start p \<and>
     (case significant_before_equals (kinds_from 0 p) of
        None \<Rightarrow> False
      | Some significant \<Rightarrow> 2 \<le> length significant \<and> is_identifier_kind (last significant))"

definition class_const_step :: "grammar_rec \<Rightarrow> unit \<Rightarrow> (unit \<times> bool) pm" where
  "class_const_step g v = do {
     bump_trivia;
     pif at_contextual_identifier
       (do {
         bump;
         bump_trivia;
         pif (at (symbol CHR ''=''))
           (do {
             bump;
             or_else (parse_expression g) (do {
               error_expected ''expected class constant value expression'' [''expression''];
               recover_to_class_const_boundary }) })
           (do {
             error_expected ''expected `=` in class constant declaration'' [''=''];
             recover_to_class_const_boundary });
         bump_trivia;
         pif (at (symbol CHR '','')) (do { bump; ret (v, True) }) (ret (v, False)) })
       (do {
         error_expected ''expected class constant name'' [''T_STRING''];
         recover_to_class_const_boundary;
         ret (v, False) }) }"

definition parse_class_const_member :: "grammar_rec \<Rightarrow> unit pm" where
  "parse_class_const_member g = do {
     bump;
     bump_trivia;
     pwhen at_typed_class_const (parse_type g);
     ploop (turns g) (class_const_step g) ();
     bump_or (symbol CHR '';'') (do {
       error_expected ''expected `;` after class constant declaration'' ['';''];
       recover_to_statement_boundary;
       pwhen (at (symbol CHR '';'')) bump }) }"

definition parse_member :: "grammar_rec \<Rightarrow> unit pm" where
  "parse_member g = node_with (do {
     parse_attribute_groups g;
     parse_modifiers g;
     pif (at (named T_Function)) (do { parse_method_member_body g; ret (NodeK N_MethodDecl, ()) })
       (pif (at (named T_Const)) (do { parse_class_const_member g; ret (NodeK N_ClassConstDecl, ()) })
         (pif (at (named T_Use)) (do { consume_member_with_optional_body g; ret (NodeK N_TraitUseDecl, ()) })
           (do { consume_property_member g; ret (NodeK N_PropertyDecl, ()) }))) })"

definition parse_member_list :: "grammar_rec \<Rightarrow> unit pm" where
  "parse_member_list g = node N_ClassMemberList (do {
     bump;
     pwhile (turns g) (\<lambda>p. \<not> at_eof p \<and> \<not> at (symbol CHR ''}'') p)
       (pif (\<lambda>p. at_trivia p \<or> at (symbol CHR '';'') p) bump (parse_member g));
     bump_or (symbol CHR ''}'') (error_expected ''expected `}` to close class member list'' [''}'']) })"

definition class_like_rest :: "grammar_rec \<Rightarrow> bool \<Rightarrow> unit pm" where
  "class_like_rest g named_required = do {
     bump_trivia;
     (if named_required
      then bump_or (named T_String) (error_expected ''expected class-like declaration name'' [''T_STRING''])
      else pwhen (at (symbol CHR ''('')) (parse_call_tail g));
     consume_until_class_body;
     pif (at (symbol CHR ''{'')) (parse_member_list g)
       (do {
         error_expected ''expected class-like declaration body'' [''{''];
         recover_to_statement_boundary }) }"

definition parse_class_like :: "grammar_rec \<Rightarrow> bool \<Rightarrow> unit pm" where
  "parse_class_like g named_required = node_with (do {
     parse_attribute_groups g;
     parse_modifiers g;
     pif (at (named T_Class)) (do { bump; class_like_rest g named_required; ret (NodeK N_ClassDecl, ()) })
       (pif (at (named T_Interface)) (do { bump; class_like_rest g named_required; ret (NodeK N_InterfaceDecl, ()) })
         (pif (at (named T_Trait)) (do { bump; class_like_rest g named_required; ret (NodeK N_TraitDecl, ()) })
           (pif (at (named T_Enum)) (do { bump; class_like_rest g named_required; ret (NodeK N_EnumDecl, ()) })
             (do {
               error_expected ''expected class-like declaration'' [''class'', ''interface'', ''trait'', ''enum''];
               recover_to_statement_boundary;
               ret (ERROR, ()) })))) })"

abbreviation parse_class_like_declaration :: "grammar_rec \<Rightarrow> unit pm" where
  "parse_class_like_declaration g \<equiv> parse_class_like g True"

abbreviation parse_anonymous_class :: "grammar_rec \<Rightarrow> unit pm" where
  "parse_anonymous_class g \<equiv> parse_class_like g False"

section \<open>Expressions\<close>

definition at_prefix_operator :: "parser \<Rightarrow> bool" where
  "at_prefix_operator p \<longleftrightarrow> current p \<in> set
     [symbol CHR ''+'', symbol CHR ''-'', symbol CHR ''!'', symbol CHR ''~'', symbol CHR ''@'', named T_Inc, named T_Dec,
      named T_IntCast, named T_DoubleCast, named T_StringCast, named T_ArrayCast, named T_ObjectCast, named T_BoolCast,
      named T_UnsetCast, named T_VoidCast]"

definition at_static_class_context_name :: "parser \<Rightarrow> bool" where
  "at_static_class_context_name p \<longleftrightarrow> at (named T_Static) p \<and> next_non_trivia_is 1 (named T_DoubleColon) p"

definition at_literal :: "parser \<Rightarrow> bool" where
  "at_literal p \<longleftrightarrow> current p \<in> set
     [named T_LNumber, named T_DNumber, named T_ConstantEncapsedString, named T_Line, named T_File, named T_Dir,
      named T_ClassC, named T_TraitC, named T_MethodC, named T_FuncC, named T_NamespaceC, named T_PropertyC]
     \<or> current p = named T_String \<and> map to_ascii_lowercase (current_text p) \<in> set [''null'', ''true'', ''false'']"

definition at_construct_expression :: "parser \<Rightarrow> bool" where
  "at_construct_expression p \<longleftrightarrow> current p \<in> set
     [named T_Include, named T_IncludeOnce, named T_Require, named T_RequireOnce, named T_Print, named T_Isset,
      named T_Empty, named T_Eval, named T_Exit]"

definition at_dynamic_new_class_reference_start :: "parser \<Rightarrow> bool" where
  "at_dynamic_new_class_reference_start p \<longleftrightarrow> at (named T_Variable) p \<or> at (symbol CHR ''('') p"

definition at_member_access :: "parser \<Rightarrow> bool" where
  "at_member_access p \<longleftrightarrow> at (named T_ObjectOperator) p \<or> at (named T_NullsafeObjectOperator) p"

definition has_by_ref_marker_after_trivia :: "parser \<Rightarrow> bool" where
  "has_by_ref_marker_after_trivia p \<longleftrightarrow>
     next_non_trivia_is 0 (named T_AmpersandFollowedByVarOrVararg) p
     \<or> next_non_trivia_is 0 (named T_AmpersandNotFollowedByVarOrVararg) p"

definition parse_postfix_update_tail :: "unit pm" where
  "parse_postfix_update_tail = node N_PostfixExpr bump"

definition parse_property_fetch_tail :: "grammar_rec \<Rightarrow> unit pm" where
  "parse_property_fetch_tail g = node N_PropertyFetchExpr (do {
     bump;
     pif (\<lambda>p. at (named T_Variable) p \<or> at_contextual_identifier p) bump
       (pif (at (symbol CHR ''{''))
         (do {
           bump;
           _ \<leftarrow> rec_expression_bp g 0;
           bump_or (symbol CHR ''}'') (error_expected ''expected `}` after property expression'' [''}'']) })
         (error_expected ''expected property name'' [''T_STRING'', ''T_VARIABLE'', ''{''])) })"

definition parse_static_access_tail :: "unit pm" where
  "parse_static_access_tail = node N_StaticAccessExpr (do {
     bump;
     pif (\<lambda>p. at (named T_Variable) p \<or> at_contextual_identifier p) bump
       (error_expected ''expected static member name'' [''T_STRING'', ''T_CLASS'', ''T_VARIABLE'']) })"

definition parse_yield_expression :: "grammar_rec \<Rightarrow> unit pm" where
  "parse_yield_expression g = node N_YieldExpr (do {
     is_yield_from \<leftarrow> peek (at (named T_YieldFrom));
     bump;
     if is_yield_from
     then or_else (rec_expression_bp g 0) (error_expected ''expected expression after `yield from`'' [''expression''])
     else pif (\<lambda>p. \<not> at_expression_stop p)
       (do {
         ok \<leftarrow> rec_expression_bp g 0;
         if ok then pwhen (at (named T_DoubleArrow)) (do {
           bump;
           or_else (rec_expression_bp g 0) (error_expected ''expected yield value after `=>`'' [''expression'']) })
         else skip })
       skip })"

definition parse_throw_expression :: "grammar_rec \<Rightarrow> unit pm" where
  "parse_throw_expression g = node N_ThrowExpr (do {
     bump;
     or_else (rec_expression_bp g PREFIX_RIGHT_BP) (error_expected ''expected expression after `throw`'' [''expression'']) })"

text \<open>The conditions of one match arm after the first.\<close>

definition match_condition_step :: "grammar_rec \<Rightarrow> unit \<Rightarrow> (unit \<times> bool) pm" where
  "match_condition_step g v =
     pif (at (symbol CHR '',''))
       (do {
         bump;
         bump_trivia;
         pif (at (named T_DoubleArrow)) (ret (v, False))
           (do {
             ok \<leftarrow> rec_expression_bp g 0;
             if ok then do { bump_trivia; ret (v, True) }
             else do { error_expected ''expected match arm condition'' [''expression'']; ret (v, False) } }) })
       (ret (v, False))"

definition match_arm_body :: "grammar_rec \<Rightarrow> unit \<Rightarrow> (unit \<times> bool) pm" where
  "match_arm_body g v = do {
     bump_trivia;
     pif (at (named T_DoubleArrow))
       (do {
         bump;
         ok \<leftarrow> rec_expression_bp g 0;
         if ok then do {
           bump_trivia;
           pif (at (symbol CHR '','')) (do { bump; ret (v, True) }) (ret (v, False)) }
         else do { error_expected ''expected match arm expression'' [''expression'']; ret (v, False) } })
       (do { error_expected ''expected `=>` in match arm'' [''T_DOUBLE_ARROW'']; ret (v, False) }) }"

definition match_arm_step :: "grammar_rec \<Rightarrow> unit \<Rightarrow> (unit \<times> bool) pm" where
  "match_arm_step g v = do {
     bump_trivia;
     pif (\<lambda>p. at_eof p \<or> at (symbol CHR ''}'') p \<or> at (named T_CloseTag) p) (ret (v, False))
       (pif (at (named T_Default)) (do { bump; match_arm_body g v })
         (do {
           ok \<leftarrow> rec_expression_bp g 0;
           if ok then do { ploop (turns g) (match_condition_step g) (); match_arm_body g v }
           else do {
             error_expected ''expected match arm condition'' [''expression'', ''default''];
             recover_to_statement_boundary;
             ret (v, False) } })) }"

definition parse_match_arms :: "grammar_rec \<Rightarrow> unit pm" where
  "parse_match_arms g = ploop (turns g) (match_arm_step g) ()"

definition parse_match_expression :: "grammar_rec \<Rightarrow> unit pm" where
  "parse_match_expression g = node N_MatchExpr (do {
     bump;
     bump_trivia;
     pif (at (symbol CHR ''(''))
       (do {
         bump;
         or_else (rec_expression_bp g 0) (error_expected ''expected match subject expression'' [''expression'']);
         bump_trivia;
         bump_or (symbol CHR '')'') (error_expected ''expected `)` after match subject'' ['')'']) })
       (error_expected ''expected `(` after match'' [''('']);
     bump_trivia;
     pif (at (symbol CHR ''{''))
       (do {
         bump;
         parse_match_arms g;
         bump_or (symbol CHR ''}'') (error_expected ''expected `}` after match arms'' [''}'']) })
       (error_expected ''expected match arm list'' [''{'']) })"

definition construct_argument_step :: "grammar_rec \<Rightarrow> bool \<Rightarrow> unit \<Rightarrow> (unit \<times> bool) pm" where
  "construct_argument_step g allow_multiple v = do {
     or_else (rec_expression_bp g 0) (do {
       error_expected ''expected construct argument expression'' [''expression''];
       recover_to_argument_boundary });
     bump_trivia;
     pif (at (symbol CHR '',''))
       (do {
         (if allow_multiple then skip else error_expected ''expected `)` after construct argument'' ['')'']);
         bump;
         bump_trivia;
         pif (at (symbol CHR '')''))
           (do { error_expected ''expected construct argument after comma'' [''expression'']; ret (v, False) })
           (ret (v, True)) })
       (ret (v, False)) }"

definition parse_parenthesized_construct_arguments :: "grammar_rec \<Rightarrow> bool \<Rightarrow> bool \<Rightarrow> unit pm" where
  "parse_parenthesized_construct_arguments g allow_multiple allow_empty =
     pif (at (symbol CHR ''(''))
       (do {
         bump;
         bump_trivia;
         pif (at (symbol CHR '')''))
           (do {
             (if allow_empty then skip else error_expected ''expected construct argument expression'' [''expression'']);
             bump })
           (do {
             ploop (turns g) (construct_argument_step g allow_multiple) ();
             bump_or (symbol CHR '')'') (do {
               error_expected ''expected `)` to close construct argument list'' ['')''];
               recover_to_argument_boundary;
               pwhen (at (symbol CHR '')'')) bump }) }) })
       (error_expected ''expected construct argument list'' [''(''])"

text \<open>The second branch of the source for \<open>include\<close> and \<open>require\<close> comes after one that already takes them.\<close>

definition parse_construct_expression :: "grammar_rec \<Rightarrow> unit pm" where
  "parse_construct_expression g = node N_ConstructExpr (do {
     token \<leftarrow> peek current;
     bump;
     bump_trivia;
     at_paren \<leftarrow> peek (at (symbol CHR ''(''));
     if token = named T_Isset \<or> token = named T_Empty \<or> token = named T_Eval \<or> token = named T_Exit \<and> at_paren
     then parse_parenthesized_construct_arguments g (token = named T_Isset) (token = named T_Exit)
     else if token = named T_Exit
     then pif (\<lambda>p. \<not> at_expression_stop p) (do { _ \<leftarrow> rec_expression_bp g PREFIX_RIGHT_BP; skip }) skip
     else if token \<in> set [named T_Print, named T_Include, named T_IncludeOnce, named T_Require, named T_RequireOnce]
     then or_else (rec_expression_bp g PRINT_RIGHT_BP)
       (error_expected ''expected construct expression argument'' [''expression''])
     else or_else (rec_expression_bp g PREFIX_RIGHT_BP)
       (error_expected ''expected construct expression argument'' [''expression'']) })"

definition parse_static_class_name :: "bool pm" where
  "parse_static_class_name = pif (at (named T_Static)) (do { node N_Name bump; ret True }) (ret False)"

definition class_reference_step :: "grammar_rec \<Rightarrow> unit \<Rightarrow> (unit \<times> bool) pm" where
  "class_reference_step g v = do {
     bump_trivia;
     pif (\<lambda>p. at (symbol CHR ''('') p \<or> at_expression_stop p) (ret (v, False))
       (pif (at (symbol CHR ''['')) (do { parse_dim_fetch_tail g CHR '']''; ret (v, True) })
         (pif (at (symbol CHR ''{'')) (do { parse_dim_fetch_tail g CHR ''}''; ret (v, True) })
           (pif at_member_access (do { parse_property_fetch_tail g; ret (v, True) })
             (pif (at (named T_DoubleColon)) (do { parse_static_access_tail; ret (v, True) }) (ret (v, False)))))) }"

definition parse_dynamic_new_class_reference :: "grammar_rec \<Rightarrow> bool pm" where
  "parse_dynamic_new_class_reference g =
     pif at_dynamic_new_class_reference_start
       (node_with (do {
         ok \<leftarrow> rec_prefix_or_primary g;
         if ok then do { ploop (turns g) (class_reference_step g) (); ret (NodeK N_Expr, True) }
         else ret (ERROR, False) }))
       (ret False)"

text \<open>\<open>a || b\<close> on parser actions.\<close>

definition por :: "bool pm \<Rightarrow> bool pm \<Rightarrow> bool pm" where
  "por a b = do { r \<leftarrow> a; if r then ret True else b }"

definition parse_new_expression :: "grammar_rec \<Rightarrow> unit pm" where
  "parse_new_expression g = node N_NewExpr (do {
     bump;
     bump_trivia;
     pif (at (named T_Class)) (parse_anonymous_class g)
       (do {
         ok \<leftarrow> por (parse_name g) (por parse_static_class_name (parse_dynamic_new_class_reference g));
         if ok then do { bump_trivia; pwhen (at (symbol CHR ''('')) (parse_call_tail g) }
         else error_expected ''expected class name or anonymous class after `new`'' [''class'', ''name''] }) })"

definition parse_clone_expression :: "grammar_rec \<Rightarrow> unit pm" where
  "parse_clone_expression g = node_with (do {
     bump;
     bump_trivia;
     pif (at (symbol CHR ''('')) (do { parse_call_tail g; ret (NodeK N_CloneWithExpr, ()) })
       (do {
         or_else (rec_expression_bp g PREFIX_RIGHT_BP) (error_expected ''expected expression after `clone`'' [''expression'']);
         ret (NodeK N_CloneExpr, ()) }) })"

definition parse_parenthesized :: "grammar_rec \<Rightarrow> unit pm" where
  "parse_parenthesized g = node N_ParenthesizedExpr (do {
     bump;
     _ \<leftarrow> rec_expression_bp g 0;
     bump_or (symbol CHR '')'') (error_expected ''expected `)` after parenthesized expression'' ['')'']) })"

definition parse_primary :: "grammar_rec \<Rightarrow> bool pm" where
  "parse_primary g =
     pif (\<lambda>p. at (named T_Yield) p \<or> at (named T_YieldFrom) p) (do { parse_yield_expression g; ret True })
       (pif (at (named T_New)) (do { parse_new_expression g; ret True })
         (pif (\<lambda>p. is_clone_keyword (current p)) (do { parse_clone_expression g; ret True })
           (pif (at (named T_Throw)) (do { parse_throw_expression g; ret True })
             (pif (at (named T_Match)) (do { parse_match_expression g; ret True })
               (pif at_construct_expression (do { parse_construct_expression g; ret True })
                 (por (parse_string_like g)
                   (por (parse_array_expression g)
                     (por (parse_closure_expression g)
                       (por (parse_arrow_function_expression g)
                         (por (parse_simple_variable g)
                           (pif at_literal (do { node N_Literal bump; ret True })
                             (pif (\<lambda>p. at_static_class_context_name p \<or> at_name_start p) (do { node N_Name bump; ret True })
                               (pif (at (symbol CHR ''('')) (do { parse_parenthesized g; ret True }) (ret False))))))))))))))"

definition parse_prefix_or_primary :: "grammar_rec \<Rightarrow> bool pm" where
  "parse_prefix_or_primary g = do {
     bump_trivia;
     pif at_prefix_operator
       (node_with (do {
         void_cast \<leftarrow> peek (\<lambda>p. is_void_cast (current p));
         bump;
         or_else (rec_expression_bp g PREFIX_RIGHT_BP)
           (error_expected ''expected expression after prefix operator'' [''expression'']);
         ret (NodeK (if void_cast then N_VoidCastExpr else N_PrefixExpr), True) }))
       (parse_primary g) }"

text \<open>The flags of the operator loop.\<close>

record expression_flags =
  binary :: bool
  assignment :: bool
  pipe :: bool
  ternary :: bool

definition parse_ternary_tail :: "grammar_rec \<Rightarrow> unit pm" where
  "parse_ternary_tail g = do {
     bump;
     pif (\<lambda>p. \<not> at (symbol CHR '':'') p)
       (or_else (rec_expression_bp g 0) (error_expected ''expected expression after `?`'' [''expression'', '':'']))
       skip;
     pif (at (symbol CHR '':''))
       (do {
         bump;
         or_else (rec_expression_bp g TERNARY_BP) (error_expected ''expected expression after `:`'' [''expression'']) })
       (error_expected ''expected `:` in ternary expression'' ['':'']) }"

definition parse_binary_tail :: "grammar_rec \<Rightarrow> nat \<Rightarrow> expression_flags \<Rightarrow> (expression_flags \<times> bool) pm" where
  "parse_binary_tail g min_bp v = do {
     kind \<leftarrow> peek current;
     case binary_operator kind of
       None \<Rightarrow> ret (v, False)
     | Some operator \<Rightarrow>
         if left_bp operator < min_bp then ret (v, False)
         else do {
           bump;
           pif (\<lambda>p. kind = symbol CHR ''='' \<and> has_by_ref_marker_after_trivia p) (do { bump_trivia; bump }) skip;
           ok \<leftarrow> rec_expression_bp g (right_bp operator);
           (if ok then skip else error_expected ''expected expression after binary operator'' [''expression'']);
           ret (v\<lparr>binary := True, assignment := assignment v \<or> is_assignment_operator kind,
                  pipe := pipe v \<or> is_pipe_operator kind\<rparr>, ok) } }"

definition expression_tail_step :: "grammar_rec \<Rightarrow> nat \<Rightarrow> expression_flags \<Rightarrow> (expression_flags \<times> bool) pm" where
  "expression_tail_step g min_bp v = do {
     bump_trivia;
     pif at_expression_stop (ret (v, False))
       (pif (at (symbol CHR ''('')) (do { parse_call_tail g; ret (v, True) })
         (pif (at (symbol CHR ''['')) (do { parse_dim_fetch_tail g CHR '']''; ret (v, True) })
           (pif (at (symbol CHR ''{'')) (do { parse_dim_fetch_tail g CHR ''}''; ret (v, True) })
             (pif at_member_access (do { parse_property_fetch_tail g; ret (v, True) })
               (pif (at (named T_DoubleColon)) (do { parse_static_access_tail; ret (v, True) })
                 (pif (\<lambda>p. at (named T_Inc) p \<or> at (named T_Dec) p) (do { parse_postfix_update_tail; ret (v, True) })
                   (pif (at (symbol CHR ''?''))
                     (if TERNARY_BP < min_bp then ret (v, False)
                      else do { parse_ternary_tail g; ret (v\<lparr>ternary := True\<rparr>, True) })
                     (parse_binary_tail g min_bp v)))))))) }"

definition expression_node_kind :: "expression_flags \<Rightarrow> syntax_node_kind" where
  "expression_node_kind v =
     (if ternary v then N_TernaryExpr else if pipe v then N_PipeExpr
      else if binary v then (if assignment v then N_AssignExpr else N_BinaryExpr) else N_Expr)"

definition parse_expression_bp :: "grammar_rec \<Rightarrow> nat \<Rightarrow> bool pm" where
  "parse_expression_bp g min_bp =
     pif at_expression_stop (ret False)
       (node_with (do {
         bump_trivia;
         ok \<leftarrow> parse_prefix_or_primary g;
         if ok then do {
           v \<leftarrow> ploop (turns g) (expression_tail_step g min_bp)
             \<lparr>binary = False, assignment = False, pipe = False, ternary = False\<rparr>;
           ret (NodeK (expression_node_kind v), True) }
         else do {
           error_expected ''expected expression'' [''expression''];
           recover_to_expression_boundary;
           ret (ERROR, False) } }))"

section \<open>Declarations\<close>

definition at_attributed_declaration :: "parser \<Rightarrow> bool" where
  "at_attributed_declaration p \<longleftrightarrow> at (named T_Attribute) p \<and> first_token_after_attribute_groups p \<in> set
     [named T_Function, named T_Class, named T_Interface, named T_Trait, named T_Enum, named T_Abstract, named T_Final,
      named T_Readonly]"

definition parse_attributed_declaration :: "grammar_rec \<Rightarrow> unit pm" where
  "parse_attributed_declaration g = do {
     next \<leftarrow> peek first_token_after_attribute_groups;
     if next = named T_Function then parse_function_declaration g
     else if next \<in> set [named T_Class, named T_Interface, named T_Trait, named T_Enum, named T_Abstract, named T_Final,
       named T_Readonly] then parse_class_like_declaration g
     else do {
       error_expected ''expected declaration after attributes'' [''declaration''];
       parse_attribute_groups g } }"

text \<open>The end of the declarations that finish with a semicolon.\<close>

definition expect_semicolon :: "string \<Rightarrow> unit pm" where
  "expect_semicolon message = bump_or (symbol CHR '';'') (do {
     error_expected message ['';''];
     recover_to_statement_boundary;
     pwhen (at (symbol CHR '';'')) bump })"

definition const_step :: "grammar_rec \<Rightarrow> unit \<Rightarrow> (unit \<times> bool) pm" where
  "const_step g v = do {
     bump_trivia;
     pif (at (named T_String))
       (do {
         bump;
         bump_trivia;
         pif (at (symbol CHR ''=''))
           (do {
             bump;
             or_else (parse_expression g) (error_expected ''expected constant value expression'' [''expression'']);
             bump_trivia;
             pif (at (symbol CHR '','')) (do { bump; ret (v, True) }) (ret (v, False)) })
           (do {
             error_expected ''expected `=` in const declaration'' [''=''];
             recover_to_statement_boundary;
             ret (v, False) }) })
       (do {
         error_expected ''expected constant name'' [''T_STRING''];
         recover_to_statement_boundary;
         ret (v, False) }) }"

definition parse_const_declaration :: "grammar_rec \<Rightarrow> unit pm" where
  "parse_const_declaration g = node N_ConstDecl (do {
     bump;
     ploop (turns g) (const_step g) ();
     bump_trivia;
     expect_semicolon ''expected `;` after const declaration'' })"

definition parse_namespace_declaration :: "grammar_rec \<Rightarrow> unit pm" where
  "parse_namespace_declaration g = node N_NamespaceStmt (do {
     bump;
     bump_trivia;
     pif (at (symbol CHR ''{'')) (parse_block_statement g)
       (do {
         or_else (parse_name g) (error_expected ''expected namespace name or body'' [''name'', ''{'']);
         bump_trivia;
         pif (at (symbol CHR ''{'')) (parse_block_statement g)
           (bump_or (symbol CHR '';'') (do {
             error_expected ''expected `;` or namespace body'' ['';'', ''{''];
             recover_to_statement_boundary;
             pwhen (at (symbol CHR '';'')) bump })) }) })"

definition parse_optional_use_kind :: "unit pm" where
  "parse_optional_use_kind = pwhen (\<lambda>p. at (named T_Function) p \<or> at (named T_Const) p) (do { bump; bump_trivia })"

definition parse_optional_alias :: "unit pm" where
  "parse_optional_alias = do {
     bump_trivia;
     pwhen (at (named T_As)) (do {
       bump;
       bump_trivia;
       bump_or (named T_String) (error_expected ''expected import alias'' [''T_STRING'']) }) }"

definition recover_to_use_boundary :: "unit pm" where
  "recover_to_use_boundary = bump_while (\<lambda>p.
     \<not> at_eof p \<and> \<not> at (symbol CHR '','') p \<and> \<not> at (symbol CHR '';'') p \<and> \<not> at (symbol CHR ''}'') p
     \<and> \<not> at_statement_recovery_token p)"

definition recover_to_group_use_boundary :: "unit pm" where
  "recover_to_group_use_boundary = bump_while (\<lambda>p.
     \<not> at_eof p \<and> \<not> at (symbol CHR '','') p \<and> \<not> at (symbol CHR ''}'') p \<and> \<not> at (symbol CHR '';'') p)"

definition at_group_use_end :: "parser \<Rightarrow> bool" where
  "at_group_use_end p \<longleftrightarrow> at_eof p \<or> at (symbol CHR ''}'') p \<or> at (symbol CHR '';'') p \<or> at (named T_CloseTag) p"

definition group_use_step :: "grammar_rec \<Rightarrow> unit \<Rightarrow> (unit \<times> bool) pm" where
  "group_use_step g v =
     pif at_group_use_end (ret (v, False))
       (do {
         bump_trivia;
         pif at_group_use_end (ret (v, False))
           (pif (at (symbol CHR '','')) (do { bump; ret (v, True) })
             (do {
               rec_use_import_clause g True;
               bump_trivia;
               pif (at (symbol CHR '','')) bump
                 (pif (\<lambda>p. \<not> at (symbol CHR ''}'') p)
                   (do {
                     error_expected ''expected `,` or `}` in group use declaration'' ['','', ''}''];
                     recover_to_group_use_boundary;
                     pwhen (at (symbol CHR '','')) bump })
                   skip);
               ret (v, True) })) })"

definition parse_group_use_list :: "grammar_rec \<Rightarrow> unit pm" where
  "parse_group_use_list g = do {
     bump_trivia;
     pif (at (symbol CHR ''{''))
       (do {
         bump;
         ploop (turns g) (group_use_step g) ();
         bump_or (symbol CHR ''}'') (error_expected ''expected `}` to close group use declaration'' [''}'']) })
       (error_expected ''expected `{` in group use declaration'' [''{'']) }"

definition parse_use_import_clause :: "grammar_rec \<Rightarrow> bool \<Rightarrow> unit pm" where
  "parse_use_import_clause g allow_item_kind = do {
     bump_trivia;
     (if allow_item_kind then parse_optional_use_kind else skip);
     ok \<leftarrow> parse_name g;
     if ok then do {
       bump_trivia;
       pif (\<lambda>p. at (named T_NsSeparator) p \<and> next_non_trivia_is 1 (symbol CHR ''{'') p)
         (do { bump; parse_group_use_list g })
         parse_optional_alias }
     else do {
       error_expected ''expected import name'' [''name''];
       recover_to_use_boundary } }"

definition use_step :: "grammar_rec \<Rightarrow> unit \<Rightarrow> (unit \<times> bool) pm" where
  "use_step g v = do {
     bump_trivia;
     pif (at (symbol CHR '',''))
       (do { bump; parse_use_import_clause g False; ret (v, True) })
       (ret (v, False)) }"

definition parse_use_declaration :: "grammar_rec \<Rightarrow> unit pm" where
  "parse_use_declaration g = node N_UseDecl (do {
     bump;
     bump_trivia;
     parse_optional_use_kind;
     parse_use_import_clause g False;
     ploop (turns g) (use_step g) ();
     bump_trivia;
     expect_semicolon ''expected `;` after use declaration'' })"

section \<open>Statements\<close>

definition consume_statement_terminator :: "unit pm" where
  "consume_statement_terminator =
     pif (at (symbol CHR '';'')) bump
       (pif (at (named T_CloseTag)) skip
         (do {
           error_expected ''expected statement terminator'' STATEMENT_TERMINATORS;
           recover_to_statement_boundary;
           pwhen (at (symbol CHR '';'')) bump }))"

definition consume_end_keyword :: "token_name \<Rightarrow> string \<Rightarrow> unit pm" where
  "consume_end_keyword keyword message = do {
     bump_trivia;
     bump_or (named keyword) (error_expected message [as_php_name keyword]) }"

definition at_if_end :: "parser \<Rightarrow> bool" where
  "at_if_end p = at (named T_EndIf) p"

definition at_if_alternative_boundary :: "parser \<Rightarrow> bool" where
  "at_if_alternative_boundary p \<longleftrightarrow> at (named T_ElseIf) p \<or> at (named T_Else) p \<or> at_if_end p"

definition at_switch_alternative_end :: "parser \<Rightarrow> bool" where
  "at_switch_alternative_end p = at (named T_EndSwitch) p"

definition at_simple_statement_end :: "parser \<Rightarrow> bool" where
  "at_simple_statement_end p \<longleftrightarrow> at (symbol CHR '';'') p \<or> at (named T_CloseTag) p \<or> at (symbol CHR ''}'') p"

definition at_label_statement :: "parser \<Rightarrow> bool" where
  "at_label_statement p \<longleftrightarrow> at (named T_String) p \<and> nth_kind 1 p = symbol CHR '':''"

definition static_statement_follows :: "parser \<Rightarrow> bool" where
  "static_statement_follows p = next_non_trivia_is 1 (named T_Variable) p"

text \<open>The depth of open parentheses: after the one that starts a header, and while skipping to its end.\<close>

definition header_step :: "nat \<Rightarrow> (nat \<times> bool) pm" where
  "header_step depth =
     pif (\<lambda>p. at_eof p \<or> depth = 0) (ret (depth, False))
       (pif (at (symbol CHR ''('')) (do { bump; ret (depth + 1, True) })
         (pif (at (symbol CHR '')'')) (do { bump; ret (depth - 1, True) }) (do { bump; ret (depth, True) })))"

definition parse_parenthesized_header :: "grammar_rec \<Rightarrow> string \<Rightarrow> unit pm" where
  "parse_parenthesized_header g context = do {
     bump_trivia;
     pif (at (symbol CHR ''(''))
       (do {
         bump;
         depth \<leftarrow> ploop (turns g) header_step 1;
         if 0 < depth then error_expected (''expected `)` to close '' @ context) ['')''] else skip })
       (error_expected (''expected `(` to start '' @ context) [''('']) }"

definition recover_header_step :: "nat \<Rightarrow> (nat \<times> bool) pm" where
  "recover_header_step depth =
     pif at_eof (ret (depth, False))
       (pif (at (symbol CHR ''('')) (do { bump; ret (depth + 1, True) })
         (pif (at (symbol CHR '')''))
           (do { bump; ret (if depth = 0 then (depth, False) else (depth - 1, True)) })
           (do { bump; ret (depth, True) })))"

definition recover_parenthesized_header :: "grammar_rec \<Rightarrow> unit pm" where
  "recover_parenthesized_header g = do { _ \<leftarrow> ploop (turns g) recover_header_step 0; skip }"

definition close_header :: "grammar_rec \<Rightarrow> string \<Rightarrow> unit pm" where
  "close_header g message = do {
     bump_trivia;
     bump_or (symbol CHR '')'') (do { error_expected message ['')'']; recover_parenthesized_header g }) }"

definition expression_list_step :: "grammar_rec \<Rightarrow> string \<Rightarrow> syntax_kind \<Rightarrow> unit \<Rightarrow> (unit \<times> bool) pm" where
  "expression_list_step g context end_kind v = do {
     bump_trivia;
     pif (at end_kind)
       (do { error_expected (''expected expression in '' @ context) [''expression'']; ret (v, False) })
       (do {
         or_else (parse_expression g) (do {
           error_expected (''expected expression in '' @ context) [''expression''];
           bump_while (\<lambda>p. \<not> at_eof p \<and> \<not> at (symbol CHR '','') p \<and> \<not> at end_kind p) });
         bump_trivia;
         pif (at (symbol CHR '','')) (do { bump; ret (v, True) }) (ret (v, False)) }) }"

definition parse_expression_list :: "grammar_rec \<Rightarrow> string \<Rightarrow> syntax_kind \<Rightarrow> unit pm" where
  "parse_expression_list g context end_kind = ploop (turns g) (expression_list_step g context end_kind) ()"

definition parse_parenthesized_expression_list :: "grammar_rec \<Rightarrow> string \<Rightarrow> bool \<Rightarrow> unit pm" where
  "parse_parenthesized_expression_list g context allow_empty = do {
     bump_trivia;
     pif (at (symbol CHR ''(''))
       (do {
         bump;
         bump_trivia;
         pif (at (symbol CHR '')''))
           (do {
             (if allow_empty then skip
              else error_expected (''expected expression in '' @ context) [''expression'']);
             bump })
           (do {
             parse_expression_list g context (symbol CHR '')'');
             close_header g (''expected `)` to close '' @ context) }) })
       (error_expected (''expected `(` to start '' @ context) [''('']) }"

definition parse_parenthesized_expression_header :: "grammar_rec \<Rightarrow> string \<Rightarrow> unit pm" where
  "parse_parenthesized_expression_header g context = do {
     bump_trivia;
     pif (at (symbol CHR ''(''))
       (do {
         bump;
         bump_trivia;
         pif (\<lambda>p. \<not> at (symbol CHR '')'') p)
           (or_else (parse_expression g) (error_expected (''expected expression in '' @ context) [''expression'']))
           skip;
         close_header g (''expected `)` to close '' @ context) })
       (error_expected (''expected `(` to start '' @ context) [''('']) }"

definition at_named_by_ref :: "parser \<Rightarrow> bool" where
  "at_named_by_ref p \<longleftrightarrow> at (named T_AmpersandFollowedByVarOrVararg) p \<or> at (named T_AmpersandNotFollowedByVarOrVararg) p"

text \<open>A target of \<open>foreach\<close>; the rest of the header follows when there is one.\<close>

definition foreach_target :: "grammar_rec \<Rightarrow> string \<Rightarrow> unit pm \<Rightarrow> unit pm" where
  "foreach_target g message rest = do {
     bump_trivia;
     pwhen at_named_by_ref (do { bump; bump_trivia });
     ok \<leftarrow> parse_expression g;
     if ok then rest
     else do { error_expected message [''expression'']; recover_parenthesized_header g } }"

definition parse_foreach_header :: "grammar_rec \<Rightarrow> unit pm" where
  "parse_foreach_header g = do {
     bump_trivia;
     pif (at (symbol CHR ''(''))
       (do {
         bump;
         bump_trivia;
         ok \<leftarrow> parse_expression g;
         if ok then do {
           bump_trivia;
           pif (at (named T_As))
             (do {
               bump;
               foreach_target g ''expected foreach value target'' (do {
                 bump_trivia;
                 pif (at (named T_DoubleArrow))
                   (do {
                     bump;
                     foreach_target g ''expected foreach value target after `=>`''
                       (close_header g ''expected `)` to close foreach header'') })
                   (close_header g ''expected `)` to close foreach header'') }) })
             (do {
               error_expected ''expected `as` in foreach header'' [''T_AS''];
               recover_parenthesized_header g }) }
         else do {
           error_expected ''expected foreach expression'' [''expression''];
           recover_parenthesized_header g } })
       (error_expected ''expected `(` to start foreach header'' [''('']) }"

definition recover_for_header_section :: "unit pm" where
  "recover_for_header_section = bump_while (\<lambda>p. \<not> at_eof p \<and> \<not> at (symbol CHR '';'') p \<and> \<not> at (symbol CHR '')'') p)"

definition at_for_section_end :: "parser \<Rightarrow> bool" where
  "at_for_section_end p \<longleftrightarrow> at (symbol CHR '';'') p \<or> at (symbol CHR '')'') p"

definition for_section_step :: "grammar_rec \<Rightarrow> string \<Rightarrow> unit \<Rightarrow> (unit \<times> bool) pm" where
  "for_section_step g context v =
     pif (at (symbol CHR '',''))
       (do {
         bump;
         bump_trivia;
         pif at_for_section_end
           (do { error_expected (''expected expression in '' @ context) [''expression'']; ret (v, False) })
           (do {
             ok \<leftarrow> parse_expression g;
             if ok then do { bump_trivia; ret (v, True) }
             else do {
               error_expected (''expected expression in '' @ context) [''expression''];
               recover_for_header_section;
               ret (v, False) } }) })
       (ret (v, False))"

definition parse_for_header_section :: "grammar_rec \<Rightarrow> string \<Rightarrow> unit pm" where
  "parse_for_header_section g context = do {
     bump_trivia;
     pif at_for_section_end skip
       (do {
         ok \<leftarrow> parse_expression g;
         if ok then do { bump_trivia; ploop (turns g) (for_section_step g context) () }
         else do {
           error_expected (''expected expression in '' @ context) [''expression''];
           recover_for_header_section } }) }"

definition consume_for_header_separator :: "string \<Rightarrow> unit pm" where
  "consume_for_header_separator message = do {
     bump_trivia;
     bump_or (symbol CHR '';'') (do { error_expected message ['';'']; recover_for_header_section }) }"

definition parse_for_header :: "grammar_rec \<Rightarrow> unit pm" where
  "parse_for_header g = do {
     bump_trivia;
     pif (at (symbol CHR ''(''))
       (do {
         bump;
         parse_for_header_section g ''for initializer'';
         consume_for_header_separator ''expected `;` after for initializer'';
         parse_for_header_section g ''for condition'';
         consume_for_header_separator ''expected `;` after for condition'';
         parse_for_header_section g ''for update'';
         close_header g ''expected `)` to close for header'' })
       (error_expected ''expected `(` to start for header'' [''('']) }"

definition parse_required_block :: "grammar_rec \<Rightarrow> string \<Rightarrow> unit pm" where
  "parse_required_block g message = do {
     bump_trivia;
     pif (at (symbol CHR ''{'')) (parse_block_statement g)
       (do { error_expected message [''{'']; recover_to_statement_boundary }) }"

definition at_control_body_end :: "parser \<Rightarrow> bool" where
  "at_control_body_end p \<longleftrightarrow> at (named T_ElseIf) p \<or> at (named T_Else) p \<or> at (symbol CHR ''}'') p"

definition parse_control_body :: "grammar_rec \<Rightarrow> unit pm" where
  "parse_control_body g = do {
     bump_trivia;
     pif at_eof (error_expected ''expected control-flow body'' [''statement''])
       (pif at_nested_php_mode_boundary
         (node N_BlockStmt (parse_nested_statement_list_contents g at_control_body_end))
         (rec_statement g)) }"

definition parse_echo_step :: "grammar_rec \<Rightarrow> unit \<Rightarrow> (unit \<times> bool) pm" where
  "parse_echo_step g v =
     pif (at (symbol CHR '',''))
       (do {
         bump;
         ok \<leftarrow> parse_expression g;
         (if ok then skip else error_expected ''expected expression after comma'' [''expression'']);
         ret (v, ok) })
       (ret (v, False))"

definition parse_echo_statement :: "grammar_rec \<Rightarrow> unit pm" where
  "parse_echo_statement g = node N_EchoStmt (do {
     bump;
     or_else (parse_expression g) (error_expected ''expected expression after echo'' [''expression'']);
     ploop (turns g) (parse_echo_step g) ();
     consume_statement_terminator })"

definition parse_if_alternative :: "grammar_rec \<Rightarrow> unit pm" where
  "parse_if_alternative g = do {
     bump;
     parse_statements_until g at_if_alternative_boundary;
     pwhile (turns g) (at (named T_ElseIf)) (do {
       bump;
       parse_parenthesized_expression_header g ''elseif condition'';
       bump_trivia;
       bump_or (symbol CHR '':'') (error_expected ''expected `:` after elseif condition'' ['':'']);
       parse_statements_until g at_if_alternative_boundary });
     pwhen (at (named T_Else)) (do {
       bump;
       bump_trivia;
       bump_or (symbol CHR '':'') (error_expected ''expected `:` after else'' ['':'']);
       parse_statements_until g at_if_end });
     consume_end_keyword T_EndIf ''expected `endif`'';
     consume_statement_terminator }"

definition parse_if_branches :: "grammar_rec \<Rightarrow> unit pm" where
  "parse_if_branches g = do {
     parse_control_body g;
     bump_trivia;
     pwhile (turns g) (at (named T_ElseIf)) (do {
       bump;
       parse_parenthesized_expression_header g ''elseif condition'';
       parse_control_body g;
       bump_trivia });
     pwhen (at (named T_Else)) (do { bump; parse_control_body g }) }"

definition parse_if_statement :: "grammar_rec \<Rightarrow> unit pm" where
  "parse_if_statement g = node N_IfStmt (do {
     bump;
     parse_parenthesized_expression_header g ''if condition'';
     bump_trivia;
     pif (at (symbol CHR '':'')) (parse_if_alternative g) (parse_if_branches g) })"

definition parse_loop_statement :: "grammar_rec \<Rightarrow> token_name \<Rightarrow> token_name \<Rightarrow> syntax_node_kind \<Rightarrow> unit pm" where
  "parse_loop_statement g start_keyword end_keyword kind = node kind (do {
     bump;
     (if start_keyword = T_For then parse_for_header g
      else if start_keyword = T_While then parse_parenthesized_expression_header g ''while condition''
      else if start_keyword = T_Foreach then parse_foreach_header g
      else parse_parenthesized_header g ''loop header'');
     bump_trivia;
     pif (at (symbol CHR '':''))
       (do {
         bump;
         parse_statements_until g (at (named end_keyword));
         consume_end_keyword end_keyword ''expected loop end keyword'';
         consume_statement_terminator })
       (parse_control_body g) })"

definition parse_do_while_statement :: "grammar_rec \<Rightarrow> unit pm" where
  "parse_do_while_statement g = node N_DoWhileStmt (do {
     bump;
     parse_control_body g;
     bump_trivia;
     pif (at (named T_While))
       (do {
         bump;
         parse_parenthesized_expression_header g ''do-while condition'';
         consume_statement_terminator })
       (do {
         error_expected ''expected `while` after do body'' [''T_WHILE''];
         recover_to_statement_boundary }) })"

definition parse_switch_label :: "grammar_rec \<Rightarrow> unit pm" where
  "parse_switch_label g = do {
     pif (at (named T_Case))
       (do {
         bump;
         bump_trivia;
         or_else (parse_expression g) (error_expected ''expected case expression'' [''expression'']) })
       (pwhen (at (named T_Default)) bump);
     bump_trivia;
     pif (\<lambda>p. at (symbol CHR '':'') p \<or> at (symbol CHR '';'') p) bump
       (error_expected ''expected switch label separator'' ['':'', '';'']) }"

definition switch_body_step :: "grammar_rec \<Rightarrow> (parser \<Rightarrow> bool) \<Rightarrow> unit pm" where
  "switch_body_step g at_end =
     pif (\<lambda>p. at_trivia p \<or> at (symbol CHR '';'') p) bump
       (pif at_nested_php_mode_boundary (parse_nested_php_mode_boundary g)
         (pif (\<lambda>p. at (named T_Case) p \<or> at (named T_Default) p)
           (do {
             parse_switch_label g;
             parse_statements_until g (\<lambda>p. at (named T_Case) p \<or> at (named T_Default) p \<or> at_end p) })
           (do {
             error_expected ''expected switch case or default'' [''case'', ''default''];
             rec_statement g })))"

definition parse_switch_body :: "grammar_rec \<Rightarrow> (parser \<Rightarrow> bool) \<Rightarrow> unit pm" where
  "parse_switch_body g at_end = pwhile (turns g) (\<lambda>p. \<not> at_eof p \<and> \<not> at_end p) (switch_body_step g at_end)"

definition parse_switch_statement :: "grammar_rec \<Rightarrow> unit pm" where
  "parse_switch_statement g = node N_SwitchStmt (do {
     bump;
     parse_parenthesized_expression_header g ''switch expression'';
     bump_trivia;
     pif (at (symbol CHR '':''))
       (do {
         bump;
         parse_switch_body g at_switch_alternative_end;
         consume_end_keyword T_EndSwitch ''expected `endswitch`'';
         consume_statement_terminator })
       (pif (at (symbol CHR ''{''))
         (do {
           bump;
           parse_switch_body g (at (symbol CHR ''}''));
           bump_or (symbol CHR ''}'') (error_expected ''expected `}` to close switch'' [''}'']) })
         (do {
           error_expected ''expected switch body'' [''{'', '':''];
           recover_to_statement_boundary })) })"

definition parse_catch_clause :: "grammar_rec \<Rightarrow> unit pm" where
  "parse_catch_clause g = node N_CatchClause (do {
     bump;
     parse_parenthesized_header g ''catch clause'';
     parse_required_block g ''expected catch block'' })"

definition catch_step :: "grammar_rec \<Rightarrow> bool \<Rightarrow> (bool \<times> bool) pm" where
  "catch_step g has_handler = do {
     bump_trivia;
     pif (at (named T_Catch)) (do { parse_catch_clause g; ret (True, True) }) (ret (has_handler, False)) }"

definition parse_try_statement :: "grammar_rec \<Rightarrow> unit pm" where
  "parse_try_statement g = node N_TryStmt (do {
     bump;
     parse_required_block g ''expected try block'';
     has_handler \<leftarrow> ploop (turns g) (catch_step g) False;
     bump_trivia;
     has_handler' \<leftarrow> pif (at (named T_Finally))
       (do {
         node N_FinallyClause (do { bump; parse_required_block g ''expected finally block'' });
         ret True })
       (ret has_handler);
     if has_handler' then skip
     else error_expected ''expected catch or finally after try block'' [''catch'', ''finally''] })"

definition parse_declare_statement :: "grammar_rec \<Rightarrow> unit pm" where
  "parse_declare_statement g = node N_DeclareStmt (do {
     bump;
     parse_parenthesized_expression_list g ''declare directive list'' False;
     bump_trivia;
     pif (at (symbol CHR '';'')) bump
       (pif (at (symbol CHR ''{'')) (parse_block_statement g)
         (pif (at (symbol CHR '':''))
           (do {
             bump;
             parse_statements_until g (at (named T_EndDeclare));
             consume_end_keyword T_EndDeclare ''expected `enddeclare`'';
             consume_statement_terminator })
           (do {
             error_expected ''expected declare body or terminator'' ['';'', ''{'', '':''];
             recover_to_statement_boundary }))) })"

definition parse_misc_until_semicolon_statement :: "syntax_node_kind \<Rightarrow> unit pm" where
  "parse_misc_until_semicolon_statement kind = node kind (do {
     bump;
     bump_while (\<lambda>p. \<not> at_eof p \<and> \<not> at (symbol CHR '';'') p \<and> \<not> at (symbol CHR ''}'') p \<and> \<not> at (named T_CloseTag) p);
     consume_statement_terminator })"

definition parse_expression_list_statement :: "grammar_rec \<Rightarrow> syntax_node_kind \<Rightarrow> string \<Rightarrow> unit pm" where
  "parse_expression_list_statement g kind context = node kind (do {
     bump;
     parse_expression_list g context (symbol CHR '';'');
     consume_statement_terminator })"

abbreviation parse_static_statement :: "grammar_rec \<Rightarrow> unit pm" where
  "parse_static_statement g \<equiv> parse_expression_list_statement g N_StaticStmt ''static local''"

definition parse_parenthesized_construct_statement :: "grammar_rec \<Rightarrow> syntax_node_kind \<Rightarrow> unit pm" where
  "parse_parenthesized_construct_statement g kind = node kind (do {
     bump;
     parse_parenthesized_expression_list g ''statement argument list'' False;
     consume_statement_terminator })"

definition parse_label_statement :: "unit pm" where
  "parse_label_statement = node N_LabelStmt (do { bump; bump })"

definition parse_optional_expression_statement :: "grammar_rec \<Rightarrow> syntax_node_kind \<Rightarrow> unit pm" where
  "parse_optional_expression_statement g kind = node kind (do {
     bump;
     bump_trivia;
     pif at_simple_statement_end skip (do { _ \<leftarrow> parse_expression g; skip });
     consume_statement_terminator })"

definition parse_required_expression_statement :: "grammar_rec \<Rightarrow> syntax_node_kind \<Rightarrow> unit pm" where
  "parse_required_expression_statement g kind = node kind (do {
     bump;
     bump_trivia;
     or_else (parse_expression g) (error_expected ''expected expression'' [''expression'']);
     consume_statement_terminator })"

definition parse_expression_statement :: "grammar_rec \<Rightarrow> unit pm" where
  "parse_expression_statement g = node N_ExprStmt (do {
     or_else (parse_expression g) (do {
       error_expected ''expected expression statement'' [''expression''];
       recover_to_statement_boundary });
     consume_statement_terminator })"

text \<open>The dispatch on the current token is cut in two at the labels.\<close>

definition parse_declaration_or_expression :: "grammar_rec \<Rightarrow> unit pm" where
  "parse_declaration_or_expression g =
     pif at_label_statement parse_label_statement
       (pif at_attributed_declaration (parse_attributed_declaration g)
         (pif (at (named T_Namespace)) (parse_namespace_declaration g)
           (pif (at (named T_Use)) (parse_use_declaration g)
             (pif (at (named T_Const)) (parse_const_declaration g)
               (pif (at (named T_Function)) (parse_function_declaration g)
                 (pif at_class_like_declaration (parse_class_like_declaration g)
                   (pif (at (symbol CHR ''{'')) (parse_block_statement g) (parse_expression_statement g))))))))"

definition parse_statement :: "grammar_rec \<Rightarrow> unit pm" where
  "parse_statement g =
     pif (at (symbol CHR '';'')) (node N_EmptyStmt bump)
       (pif (at (named T_Echo)) (parse_echo_statement g)
         (pif (at (named T_If)) (parse_if_statement g)
           (pif (at (named T_While)) (parse_loop_statement g T_While T_EndWhile N_WhileStmt)
             (pif (at (named T_Do)) (parse_do_while_statement g)
               (pif (at (named T_For)) (parse_loop_statement g T_For T_EndFor N_ForStmt)
                 (pif (at (named T_Foreach)) (parse_loop_statement g T_Foreach T_EndForeach N_ForeachStmt)
                   (pif (at (named T_Switch)) (parse_switch_statement g)
                     (pif (at (named T_Break)) (parse_optional_expression_statement g N_BreakStmt)
                       (pif (at (named T_Continue)) (parse_optional_expression_statement g N_ContinueStmt)
                         (pif (at (named T_Return)) (parse_optional_expression_statement g N_ReturnStmt)
                           (pif (at (named T_Throw)) (parse_required_expression_statement g N_ThrowStmt)
                             (pif (at (named T_Try)) (parse_try_statement g)
                               (pif (at (named T_Declare)) (parse_declare_statement g)
                                 (pif (at (named T_Global))
                                   (parse_expression_list_statement g N_GlobalStmt ''global variable'')
                                   (pif (\<lambda>p. at (named T_Static) p \<and> static_statement_follows p) (parse_static_statement g)
                                     (pif (at (named T_Unset)) (parse_parenthesized_construct_statement g N_UnsetStmt)
                                       (pif (at (named T_Goto)) (parse_misc_until_semicolon_statement N_GotoStmt)
                                         (parse_declaration_or_expression g))))))))))))))))))"

section \<open>Source files\<close>

definition parse_php_block :: "grammar_rec \<Rightarrow> unit pm" where
  "parse_php_block g = node N_PhpBlock (do {
     is_short_echo \<leftarrow> peek (at (named T_OpenTagWithEcho));
     bump;
     node N_StatementList
       (if is_short_echo then parse_short_echo_statement g else parse_statement_list_contents g);
     pwhen (at (named T_CloseTag)) bump })"

definition source_file_step :: "grammar_rec \<Rightarrow> unit pm" where
  "source_file_step g =
     pif (at (named T_InlineHtml)) parse_inline_html
       (pif (\<lambda>p. at (named T_OpenTag) p \<or> at (named T_OpenTagWithEcho) p) (parse_php_block g)
         (node N_Error (error_and_bump ''inline HTML or PHP open tag'')))"

definition parse_file :: "grammar_rec \<Rightarrow> unit pm" where
  "parse_file g = node N_SourceFile (pwhile (turns g) (\<lambda>p. \<not> at_eof p) (source_file_step g))"

section \<open>The knot\<close>

primrec grammar :: "nat \<Rightarrow> grammar_rec" where
  "grammar 0 = \<lparr>rec_expression_bp = (\<lambda>_. do { exhausted; ret False }), rec_prefix_or_primary = do { exhausted; ret False },
     rec_simple_variable = do { exhausted; ret False }, rec_statement = exhausted,
     rec_intersection_type = do { exhausted; ret type_shape_default }, rec_use_import_clause = (\<lambda>_. exhausted), turns = 0\<rparr>"
| "grammar (Suc n) = (let g = grammar n in
     \<lparr>rec_expression_bp = parse_expression_bp g, rec_prefix_or_primary = parse_prefix_or_primary g,
     rec_simple_variable = parse_simple_variable g, rec_statement = parse_statement g,
     rec_intersection_type = parse_intersection_type g, rec_use_import_clause = parse_use_import_clause g, turns = Suc n\<rparr>)"

end
