(* ===== verification/Parser_Growth.thy ===== *)
theory Parser_Growth
  imports Parser_Grammar
begin

text \<open>
  What every piece of grammar code does to the parser: it appends a balanced sequence of events, moves the
  cursor by one for each token event, reports its errors in the event order, and never takes back that the
  fuel ran out. The rules follow the shape of the code, so that the lemma of each grammar function is one
  application of them.
\<close>

section \<open>Balanced events\<close>

inductive balanced :: "event list \<Rightarrow> bool" where
  balanced_Nil: "balanced []"
| balanced_token: "balanced es \<Longrightarrow> balanced (AddToken # es)"
| balanced_error: "balanced es \<Longrightarrow> balanced (ErrorEvent d # es)"
| balanced_node: "balanced as \<Longrightarrow> balanced bs \<Longrightarrow> balanced (StartNode (NodeK k) # as @ FinishNode # bs)"

lemma balanced_append: "balanced as \<Longrightarrow> balanced bs \<Longrightarrow> balanced (as @ bs)"
  by (induction rule: balanced.induct) (auto intro: balanced.intros)

definition token_events :: "event list \<Rightarrow> nat" where
  "token_events es = length (filter (\<lambda>e. e = AddToken) es)"

definition error_events :: "event list \<Rightarrow> parse_diagnostic list" where
  "error_events es = concat (map (\<lambda>e. case e of ErrorEvent d \<Rightarrow> [d] | _ \<Rightarrow> []) es)"

lemma event_counts [simp]:
  "token_events [] = 0" "token_events (as @ bs) = token_events as + token_events bs"
  "token_events (AddToken # es) = Suc (token_events es)" "token_events (ErrorEvent d # es) = token_events es"
  "token_events (StartNode k # es) = token_events es" "token_events (FinishNode # es) = token_events es"
  "error_events [] = []" "error_events (as @ bs) = error_events as @ error_events bs"
  "error_events (AddToken # es) = error_events es" "error_events (ErrorEvent d # es) = d # error_events es"
  "error_events (StartNode k # es) = error_events es" "error_events (FinishNode # es) = error_events es"
  by (simp_all add: token_events_def error_events_def)

section \<open>Growth of the parser state\<close>

abbreviation cur :: "parser \<Rightarrow> nat" where
  "cur p \<equiv> ts_cursor (tokens_of p)"

abbreviation toks :: "parser \<Rightarrow> token list" where
  "toks p \<equiv> ts_tokens (tokens_of p)"

abbreviation src_of :: "parser \<Rightarrow> bytes" where
  "src_of p \<equiv> ts_source (tokens_of p)"

definition extends :: "parser \<Rightarrow> parser \<Rightarrow> bool" where
  "extends p p' \<longleftrightarrow> toks p' = toks p \<and> src_of p' = src_of p \<and> (out_of_fuel p \<longrightarrow> out_of_fuel p') \<and>
     (cur p \<le> length (toks p) \<longrightarrow> cur p' \<le> length (toks p)) \<and>
     (\<exists>es. events p' = events p @ es \<and> balanced es \<and> cur p' = cur p + token_events es \<and>
        diagnostics p' = diagnostics p @ error_events es)"

lemma extends_refl: "extends p p"
  unfolding extends_def by (auto intro: exI [of _ "[]"] balanced_Nil)

lemma extends_trans: "extends p q \<Longrightarrow> extends q r \<Longrightarrow> extends p r"
  unfolding extends_def by (auto intro: balanced_append)

definition grows :: "('a \<Rightarrow> bool) \<Rightarrow> 'a pm \<Rightarrow> bool" where
  "grows R m \<longleftrightarrow> (\<forall>p. extends p (snd (run_state m p)) \<and> R (fst (run_state m p)))"

abbreviation any :: "'a \<Rightarrow> bool" where
  "any \<equiv> \<lambda>_. True"

named_theorems grows_rules \<open>growth, by the shape of the code\<close>

lemma grows_return [grows_rules]: "R x \<Longrightarrow> grows R (ret x)"
  by (simp add: grows_def extends_refl)

lemma grows_bind [grows_rules]: "grows any m \<Longrightarrow> (\<And>x. grows R (f x)) \<Longrightarrow> grows R (State_Monad.bind m f)"
  unfolding grows_def by (auto intro: extends_trans split: prod.split)

lemma grows_peek [grows_rules]: "grows any (peek f)"
  by (simp add: grows_def peek_def extends_refl)

lemma grows_if [grows_rules]: "(b \<Longrightarrow> grows R m) \<Longrightarrow> (\<not> b \<Longrightarrow> grows R n) \<Longrightarrow> grows R (if b then m else n)"
  by simp

lemma grows_case_prod [grows_rules]: "(\<And>x y. grows R (f x y)) \<Longrightarrow> grows R (case v of (x, y) \<Rightarrow> f x y)"
  by (cases v) simp

lemma grows_case_option [grows_rules]:
  "grows R m \<Longrightarrow> (\<And>x. grows R (f x)) \<Longrightarrow> grows R (case v of None \<Rightarrow> m | Some x \<Rightarrow> f x)"
  by (cases v) simp_all

lemma grows_let [grows_rules]: "(\<And>x. grows R (f x)) \<Longrightarrow> grows R (let x = v in f x)"
  by simp

lemma grows_pif [grows_rules]: "grows R m \<Longrightarrow> grows R n \<Longrightarrow> grows R (pif t m n)"
  unfolding pif_def by (intro grows_rules)

lemma grows_exhausted [grows_rules]: "grows any exhausted"
  by (auto simp: grows_def exhausted_def modify_def extends_def intro: exI [of _ "[]"] balanced_Nil)

lemma grows_pwhile [grows_rules]: "grows any body \<Longrightarrow> grows any (pwhile n t body)"
  by (induction n) (simp_all add: grows_rules)

lemma grows_ploop [grows_rules]: "(\<And>v. grows any (body v)) \<Longrightarrow> grows any (ploop n body v)"
  by (induction n arbitrary: v) (auto intro!: grows_rules)

lemma grows_bump [grows_rules]: "grows any bump"
  by (auto simp: grows_def bump_def modify_def extends_def at_eof_def ts_is_eof_def ts_bump_def
      intro: exI [of _ "[]"] exI [of _ "[AddToken]"] balanced.intros)

lemma grows_bump_while [grows_rules]: "grows any (bump_while t)"
  unfolding bump_while_def by (intro grows_rules)

lemma grows_parser_error [grows_rules]: "grows any (parser_error d)"
  by (auto simp: grows_def parser_error_def modify_def extends_def intro: exI [of _ "[ErrorEvent d]"] balanced.intros)

lemma grows_error_expected_with_id [grows_rules]: "grows any (error_expected_with_id i message expected)"
  unfolding error_expected_with_id_def by (intro grows_rules)

lemma grows_error_expected [grows_rules]: "grows any (error_expected message expected)"
  unfolding error_expected_def by (intro grows_rules)

lemma grows_error_and_bump [grows_rules]: "grows any (error_and_bump expected)"
  unfolding error_and_bump_def by (intro grows_rules)

text \<open>A node turns its placeholder into the start of what its body appended.\<close>

lemma run_node_with:
  assumes "run_state body (p\<lparr>events := events p @ [Placeholder]\<rparr>) = ((k, r), p')" "events p' = events p @ Placeholder # es"
  shows "run_state (node_with body) p = (r, p'\<lparr>events := events p @ StartNode k # es @ [FinishNode]\<rparr>)"
  using assms by (simp add: node_with_def start_def peek_def modify_def complete_marker_def)

lemma grows_node_with [grows_rules]:
  assumes "grows (\<lambda>(k, r). is_node k \<and> R r) body"
  shows "grows R (node_with body)"
  unfolding grows_def
proof
  fix p :: parser
  define q where "q = p\<lparr>events := events p @ [Placeholder]\<rparr>"
  obtain k r p' where run: "run_state body q = ((k, r), p')" by (metis prod.exhaust)
  have ok: "extends q p'" "is_node k" "R r" using assms run unfolding grows_def by (metis case_prodD fst_conv snd_conv)+
  obtain es where es: "events p' = events q @ es" "balanced es" "cur p' = cur q + token_events es"
      "diagnostics p' = diagnostics q @ error_events es"
    using ok(1) unfolding extends_def by blast
  obtain n where k: "k = NodeK n" using ok(2) by (cases k) simp_all
  have "run_state (node_with body) p =
      (r, p'\<lparr>events := events p @ StartNode k # es @ [FinishNode]\<rparr>)"
    using run es(1) run_node_with [of body p k r p' es] by (simp add: q_def)
  moreover have "extends p (p'\<lparr>events := events p @ StartNode k # es @ [FinishNode]\<rparr>)"
    using ok(1) es balanced_node [OF es(2) balanced_Nil, of n]
    unfolding extends_def k by (auto simp: q_def intro!: exI [of _ "StartNode (NodeK n) # es @ [FinishNode]"])
  ultimately show "extends p (snd (run_state (node_with body) p)) \<and> R (fst (run_state (node_with body) p))"
    using ok(3) by simp
qed

lemma grows_node [grows_rules]: "grows any body \<Longrightarrow> grows any (node kind body)"
  unfolding node_def by (intro grows_rules) simp_all

lemma grows_recovery [grows_rules]:
  "grows any bump_trivia" "grows any (recover_until b)" "grows any recover_to_statement_boundary" "grows any recover_to_expression_boundary"
  unfolding bump_trivia_def recover_to_statement_boundary_def recover_to_expression_boundary_def recover_until_def
  by (intro grows_rules)+

section \<open>Code that does not call back\<close>

lemma grows_or_else [grows_rules]: "grows any m \<Longrightarrow> grows any e \<Longrightarrow> grows any (or_else m e)"
  unfolding or_else_def by (intro grows_rules; simp)

lemma grows_name_segments [grows_rules]: "grows any (name_segments v)"
  unfolding name_segments_def by (intro grows_rules; simp)

lemma grows_consume_string_offset [grows_rules]: "grows any consume_string_offset"
  unfolding consume_string_offset_def by (intro grows_rules; simp)

lemma grows_interpolation_tail [grows_rules]: "grows any (interpolation_tail parsed_offset)"
  unfolding interpolation_tail_def by (intro grows_rules; simp)

lemma grows_recover_to_attribute_boundary [grows_rules]: "grows any recover_to_attribute_boundary"
  unfolding recover_to_attribute_boundary_def by (intro grows_rules; simp)

lemma grows_argument_boundary_step [grows_rules]: "grows any (argument_boundary_step d)"
  unfolding argument_boundary_step_def by (intro grows_rules; simp)

lemma grows_parse_inline_html [grows_rules]: "grows any parse_inline_html"
  unfolding parse_inline_html_def by (intro grows_rules; simp)

lemma grows_recover_to_argument_boundary [grows_rules]: "grows any recover_to_argument_boundary"
  unfolding recover_to_argument_boundary_def by (intro grows_rules; simp)

lemma grows_unexpected_comma [grows_rules]: "grows any (unexpected_comma saw_argument)"
  unfolding unexpected_comma_def by (intro grows_rules; simp)

lemma grows_expect_function_keyword [grows_rules]: "grows any expect_function_keyword"
  unfolding expect_function_keyword_def by (intro grows_rules; simp)

lemma grows_parse_optional_ampersand [grows_rules]: "grows any parse_optional_ampersand"
  unfolding parse_optional_ampersand_def by (intro grows_rules; simp)

lemma grows_recover_to_parameter_boundary [grows_rules]: "grows any recover_to_parameter_boundary"
  unfolding recover_to_parameter_boundary_def by (intro grows_rules; simp)

lemma grows_modifier_step [grows_rules]: "grows any (modifier_step v)"
  unfolding modifier_step_def by (intro grows_rules; simp)

lemma grows_consume_until_class_body [grows_rules]: "grows any consume_until_class_body"
  unfolding consume_until_class_body_def by (intro grows_rules; simp)

lemma grows_recover_to_property_hook_boundary [grows_rules]: "grows any recover_to_property_hook_boundary"
  unfolding recover_to_property_hook_boundary_def by (intro grows_rules; simp)

lemma grows_recover_to_class_const_boundary [grows_rules]: "grows any recover_to_class_const_boundary"
  unfolding recover_to_class_const_boundary_def by (intro grows_rules; simp)

lemma grows_recover_to_property_boundary [grows_rules]: "grows any recover_to_property_boundary"
  unfolding recover_to_property_boundary_def by (intro grows_rules; simp)

lemma grows_balanced_block_step [grows_rules]: "grows any (balanced_block_step v)"
  unfolding balanced_block_step_def by (intro grows_rules; simp)

lemma grows_parse_postfix_update_tail [grows_rules]: "grows any parse_postfix_update_tail"
  unfolding parse_postfix_update_tail_def by (intro grows_rules; simp)

lemma grows_parse_static_access_tail [grows_rules]: "grows any parse_static_access_tail"
  unfolding parse_static_access_tail_def by (intro grows_rules; simp)

lemma grows_parse_static_class_name [grows_rules]: "grows any parse_static_class_name"
  unfolding parse_static_class_name_def by (intro grows_rules; simp)

lemma grows_por [grows_rules]: "grows any a \<Longrightarrow> grows any b \<Longrightarrow> grows any (por a b)"
  unfolding por_def by (intro grows_rules; simp)

lemma grows_expect_semicolon [grows_rules]: "grows any (expect_semicolon message)"
  unfolding expect_semicolon_def by (intro grows_rules; simp)

lemma grows_parse_optional_use_kind [grows_rules]: "grows any parse_optional_use_kind"
  unfolding parse_optional_use_kind_def by (intro grows_rules; simp)

lemma grows_parse_optional_alias [grows_rules]: "grows any parse_optional_alias"
  unfolding parse_optional_alias_def by (intro grows_rules; simp)

lemma grows_recover_to_use_boundary [grows_rules]: "grows any recover_to_use_boundary"
  unfolding recover_to_use_boundary_def by (intro grows_rules; simp)

lemma grows_recover_to_group_use_boundary [grows_rules]: "grows any recover_to_group_use_boundary"
  unfolding recover_to_group_use_boundary_def by (intro grows_rules; simp)

lemma grows_consume_statement_terminator [grows_rules]: "grows any consume_statement_terminator"
  unfolding consume_statement_terminator_def by (intro grows_rules; simp)

lemma grows_consume_end_keyword [grows_rules]: "grows any (consume_end_keyword keyword message)"
  unfolding consume_end_keyword_def by (intro grows_rules; simp)

lemma grows_header_step [grows_rules]: "grows any (header_step depth)"
  unfolding header_step_def by (intro grows_rules; simp)

lemma grows_recover_header_step [grows_rules]: "grows any (recover_header_step depth)"
  unfolding recover_header_step_def by (intro grows_rules; simp)

lemma grows_recover_for_header_section [grows_rules]: "grows any recover_for_header_section"
  unfolding recover_for_header_section_def by (intro grows_rules; simp)

lemma grows_consume_for_header_separator [grows_rules]: "grows any (consume_for_header_separator message)"
  unfolding consume_for_header_separator_def by (intro grows_rules; simp)

lemma grows_parse_misc_until_semicolon_statement [grows_rules]: "grows any (parse_misc_until_semicolon_statement kind)"
  unfolding parse_misc_until_semicolon_statement_def by (intro grows_rules; simp)

lemma grows_parse_label_statement [grows_rules]: "grows any parse_label_statement"
  unfolding parse_label_statement_def by (intro grows_rules; simp)

section \<open>The grammar\<close>

text \<open>What the grammar functions rely on: the entry points they call back grow the parser.\<close>

locale growing_grammar =
  fixes g :: grammar_rec
  assumes expression_grows: "grows any (rec_expression_bp g n)"
    and primary_grows: "grows any (rec_prefix_or_primary g)"
    and variable_grows: "grows any (rec_simple_variable g)"
    and statement_grows: "grows any (rec_statement g)"
    and intersection_grows: "grows any (rec_intersection_type g)"
    and use_clause_grows: "grows any (rec_use_import_clause g b)"
begin

lemmas entry_points_grow [grows_rules] = expression_grows primary_grows variable_grows statement_grows intersection_grows use_clause_grows

lemma grows_parse_expression [grows_rules]: "grows any (parse_expression g)"
  unfolding parse_expression_def by (intro grows_rules; simp)

lemma grows_parse_name [grows_rules]: "grows any (parse_name g)"
  unfolding parse_name_def by (intro grows_rules; simp)

lemma grows_parse_type_atom [grows_rules]: "grows any (parse_type_atom g)"
  unfolding parse_type_atom_def by (intro grows_rules; simp)

lemma grows_parse_type_primary [grows_rules]: "grows any (parse_type_primary g)"
  unfolding parse_type_primary_def by (intro grows_rules; simp)

lemma grows_intersection_tail [grows_rules]: "grows any (intersection_tail g v)"
  unfolding intersection_tail_def by (intro grows_rules; simp)

lemma grows_parse_intersection_type [grows_rules]: "grows any (parse_intersection_type g)"
  unfolding parse_intersection_type_def by (intro grows_rules; simp)

lemma grows_union_tail [grows_rules]: "grows any (union_tail g v)"
  unfolding union_tail_def by (intro grows_rules; simp)

lemma grows_parse_union_type [grows_rules]: "grows any (parse_union_type g)"
  unfolding parse_union_type_def by (intro grows_rules; simp)

lemma grows_parse_type [grows_rules]: "grows any (parse_type g)"
  unfolding parse_type_def by (intro grows_rules; simp)

lemma grows_parse_optional_type [grows_rules]: "grows any (parse_optional_type g)"
  unfolding parse_optional_type_def by (intro grows_rules; simp)

lemma grows_parse_optional_return_type [grows_rules]: "grows any (parse_optional_return_type g)"
  unfolding parse_optional_return_type_def by (intro grows_rules; simp)

lemma grows_parse_simple_interpolation [grows_rules]: "grows any (parse_simple_interpolation g)"
  unfolding parse_simple_interpolation_def by (intro grows_rules; simp)

lemma grows_parse_complex_interpolation [grows_rules]: "grows any (parse_complex_interpolation g)"
  unfolding parse_complex_interpolation_def by (intro grows_rules; simp)

lemma grows_parse_encapsed_part [grows_rules]: "grows any (parse_encapsed_part g)"
  unfolding parse_encapsed_part_def by (intro grows_rules; simp)

lemma grows_parse_encapsed_string [grows_rules]: "grows any (parse_encapsed_string g delimiter)"
  unfolding parse_encapsed_string_def by (intro grows_rules; simp)

lemma grows_parse_heredoc [grows_rules]: "grows any (parse_heredoc g)"
  unfolding parse_heredoc_def by (intro grows_rules; simp)

lemma grows_parse_string_like [grows_rules]: "grows any (parse_string_like g)"
  unfolding parse_string_like_def by (intro grows_rules; simp)

lemma grows_recover_to_attribute_argument_boundary [grows_rules]: "grows any (recover_to_attribute_argument_boundary g)"
  unfolding recover_to_attribute_argument_boundary_def by (intro grows_rules; simp)

lemma grows_attribute_argument_step [grows_rules]: "grows any (attribute_argument_step g v)"
  unfolding attribute_argument_step_def by (intro grows_rules; simp)

lemma grows_parse_attribute_argument_list [grows_rules]: "grows any (parse_attribute_argument_list g)"
  unfolding parse_attribute_argument_list_def by (intro grows_rules; simp)

lemma grows_parse_attribute [grows_rules]: "grows any (parse_attribute g)"
  unfolding parse_attribute_def by (intro grows_rules; simp)

lemma grows_attribute_group_step [grows_rules]: "grows any (attribute_group_step g parsed_attribute)"
  unfolding attribute_group_step_def by (intro grows_rules; simp)

lemma grows_parse_attribute_group [grows_rules]: "grows any (parse_attribute_group g)"
  unfolding parse_attribute_group_def by (intro grows_rules; simp)

lemma grows_parse_attribute_groups [grows_rules]: "grows any (parse_attribute_groups g)"
  unfolding parse_attribute_groups_def by (intro grows_rules; simp)

lemma grows_parse_array_pair [grows_rules]: "grows any (parse_array_pair g)"
  unfolding parse_array_pair_def by (intro grows_rules; simp)

lemma grows_array_pair_step [grows_rules]: "grows any (array_pair_step g close)"
  unfolding array_pair_step_def by (intro grows_rules; simp)

lemma grows_parse_array_pairs_until [grows_rules]: "grows any (parse_array_pairs_until g close)"
  unfolding parse_array_pairs_until_def by (intro grows_rules; simp)

lemma grows_parse_array_body [grows_rules]: "grows any (parse_array_body g close kind)"
  unfolding parse_array_body_def by (intro grows_rules; simp)

lemma grows_parse_array_expression [grows_rules]: "grows any (parse_array_expression g)"
  unfolding parse_array_expression_def by (intro grows_rules; simp)

lemma grows_parse_dim_fetch_tail [grows_rules]: "grows any (parse_dim_fetch_tail g close)"
  unfolding parse_dim_fetch_tail_def by (intro grows_rules; simp)

lemma grows_parse_simple_variable [grows_rules]: "grows any (parse_simple_variable g)"
  unfolding parse_simple_variable_def by (intro grows_rules; simp)

lemma grows_parse_short_echo_statement [grows_rules]: "grows any (parse_short_echo_statement g)"
  unfolding parse_short_echo_statement_def by (intro grows_rules; simp)

lemma grows_guarded_statement [grows_rules]: "grows any (guarded_statement g)"
  unfolding guarded_statement_def by (intro grows_rules; simp)

lemma grows_parse_statement_list_contents [grows_rules]: "grows any (parse_statement_list_contents g)"
  unfolding parse_statement_list_contents_def by (intro grows_rules; simp)

lemma grows_parse_nested_php_mode_boundary [grows_rules]: "grows any (parse_nested_php_mode_boundary g)"
  unfolding parse_nested_php_mode_boundary_def by (intro grows_rules; simp)

lemma grows_parse_nested_statement_list_contents [grows_rules]: "grows any (parse_nested_statement_list_contents g at_end)"
  unfolding parse_nested_statement_list_contents_def by (intro grows_rules; simp)

lemma grows_parse_block_statement [grows_rules]: "grows any (parse_block_statement g)"
  unfolding parse_block_statement_def by (intro grows_rules; simp)

lemma grows_argument_expression [grows_rules]: "grows any (argument_expression g)"
  unfolding argument_expression_def by (intro grows_rules; simp)

lemma grows_parse_argument [grows_rules]: "grows any (parse_argument g)"
  unfolding parse_argument_def by (intro grows_rules; simp)

lemma grows_call_argument_step [grows_rules]: "grows any (call_argument_step g saw_argument)"
  unfolding call_argument_step_def by (intro grows_rules; simp)

lemma grows_parse_call_tail [grows_rules]: "grows any (parse_call_tail g)"
  unfolding parse_call_tail_def by (intro grows_rules; simp)

lemma grows_parse_promoted_parameter_modifiers [grows_rules]: "grows any (parse_promoted_parameter_modifiers g)"
  unfolding parse_promoted_parameter_modifiers_def by (intro grows_rules; simp)

lemma grows_parse_parameter [grows_rules]: "grows any (parse_parameter g)"
  unfolding parse_parameter_def by (intro grows_rules; simp)

lemma grows_parameter_step [grows_rules]: "grows any (parameter_step g v)"
  unfolding parameter_step_def by (intro grows_rules; simp)

lemma grows_parse_parameter_list [grows_rules]: "grows any (parse_parameter_list g)"
  unfolding parse_parameter_list_def by (intro grows_rules; simp)

lemma grows_closure_use_step [grows_rules]: "grows any (closure_use_step g v)"
  unfolding closure_use_step_def by (intro grows_rules; simp)

lemma grows_parse_optional_closure_use_list [grows_rules]: "grows any (parse_optional_closure_use_list g)"
  unfolding parse_optional_closure_use_list_def by (intro grows_rules; simp)

lemma grows_parse_required_block_body [grows_rules]: "grows any (parse_required_block_body g context)"
  unfolding parse_required_block_body_def by (intro grows_rules; simp)

lemma grows_parse_optional_function_body [grows_rules]: "grows any (parse_optional_function_body g context)"
  unfolding parse_optional_function_body_def by (intro grows_rules; simp)

lemma grows_function_rest [grows_rules]: "grows any (function_rest g name_message context)"
  unfolding function_rest_def by (intro grows_rules; simp)

lemma grows_parse_function_declaration [grows_rules]: "grows any (parse_function_declaration g)"
  unfolding parse_function_declaration_def by (intro grows_rules; simp)

lemma grows_parse_method_member_body [grows_rules]: "grows any (parse_method_member_body g)"
  unfolding parse_method_member_body_def by (intro grows_rules; simp)

lemma grows_parse_closure_expression [grows_rules]: "grows any (parse_closure_expression g)"
  unfolding parse_closure_expression_def by (intro grows_rules; simp)

lemma grows_parse_arrow_function_expression [grows_rules]: "grows any (parse_arrow_function_expression g)"
  unfolding parse_arrow_function_expression_def by (intro grows_rules; simp)

lemma grows_parse_modifiers [grows_rules]: "grows any (parse_modifiers g)"
  unfolding parse_modifiers_def by (intro grows_rules; simp)

lemma grows_property_hook_body [grows_rules]: "grows any (property_hook_body g)"
  unfolding property_hook_body_def by (intro grows_rules; simp)

lemma grows_parse_property_hook [grows_rules]: "grows any (parse_property_hook g)"
  unfolding parse_property_hook_def by (intro grows_rules; simp)

lemma grows_parse_property_hook_list [grows_rules]: "grows any (parse_property_hook_list g)"
  unfolding parse_property_hook_list_def by (intro grows_rules; simp)

lemma grows_property_tokens_step [grows_rules]: "grows any (property_tokens_step g)"
  unfolding property_tokens_step_def by (intro grows_rules; simp)

lemma grows_consume_property_member [grows_rules]: "grows any (consume_property_member g)"
  unfolding consume_property_member_def by (intro grows_rules; simp)

lemma grows_consume_balanced_block [grows_rules]: "grows any (consume_balanced_block g)"
  unfolding consume_balanced_block_def by (intro grows_rules; simp)

lemma grows_consume_member_with_optional_body [grows_rules]: "grows any (consume_member_with_optional_body g)"
  unfolding consume_member_with_optional_body_def by (intro grows_rules; simp)

lemma grows_class_const_step [grows_rules]: "grows any (class_const_step g v)"
  unfolding class_const_step_def by (intro grows_rules; simp)

lemma grows_parse_class_const_member [grows_rules]: "grows any (parse_class_const_member g)"
  unfolding parse_class_const_member_def by (intro grows_rules; simp)

lemma grows_parse_member [grows_rules]: "grows any (parse_member g)"
  unfolding parse_member_def by (intro grows_rules; simp)

lemma grows_parse_member_list [grows_rules]: "grows any (parse_member_list g)"
  unfolding parse_member_list_def by (intro grows_rules; simp)

lemma grows_class_like_rest [grows_rules]: "grows any (class_like_rest g named_required)"
  unfolding class_like_rest_def by (intro grows_rules; simp)

lemma grows_parse_class_like [grows_rules]: "grows any (parse_class_like g named_required)"
  unfolding parse_class_like_def by (intro grows_rules; simp)

lemma grows_parse_property_fetch_tail [grows_rules]: "grows any (parse_property_fetch_tail g)"
  unfolding parse_property_fetch_tail_def by (intro grows_rules; simp)

lemma grows_parse_yield_expression [grows_rules]: "grows any (parse_yield_expression g)"
  unfolding parse_yield_expression_def by (intro grows_rules; simp)

lemma grows_parse_throw_expression [grows_rules]: "grows any (parse_throw_expression g)"
  unfolding parse_throw_expression_def by (intro grows_rules; simp)

lemma grows_match_condition_step [grows_rules]: "grows any (match_condition_step g v)"
  unfolding match_condition_step_def by (intro grows_rules; simp)

lemma grows_match_arm_body [grows_rules]: "grows any (match_arm_body g v)"
  unfolding match_arm_body_def by (intro grows_rules; simp)

lemma grows_match_arm_step [grows_rules]: "grows any (match_arm_step g v)"
  unfolding match_arm_step_def by (intro grows_rules; simp)

lemma grows_parse_match_arms [grows_rules]: "grows any (parse_match_arms g)"
  unfolding parse_match_arms_def by (intro grows_rules; simp)

lemma grows_parse_match_expression [grows_rules]: "grows any (parse_match_expression g)"
  unfolding parse_match_expression_def by (intro grows_rules; simp)

lemma grows_construct_argument_step [grows_rules]: "grows any (construct_argument_step g allow_multiple v)"
  unfolding construct_argument_step_def by (intro grows_rules; simp)

lemma grows_parse_parenthesized_construct_arguments [grows_rules]: "grows any (parse_parenthesized_construct_arguments g allow_multiple allow_empty)"
  unfolding parse_parenthesized_construct_arguments_def by (intro grows_rules; simp)

lemma grows_parse_construct_expression [grows_rules]: "grows any (parse_construct_expression g)"
  unfolding parse_construct_expression_def by (intro grows_rules; simp)

lemma grows_class_reference_step [grows_rules]: "grows any (class_reference_step g v)"
  unfolding class_reference_step_def by (intro grows_rules; simp)

lemma grows_parse_dynamic_new_class_reference [grows_rules]: "grows any (parse_dynamic_new_class_reference g)"
  unfolding parse_dynamic_new_class_reference_def by (intro grows_rules; simp)

lemma grows_parse_new_expression [grows_rules]: "grows any (parse_new_expression g)"
  unfolding parse_new_expression_def by (intro grows_rules; simp)

lemma grows_parse_clone_expression [grows_rules]: "grows any (parse_clone_expression g)"
  unfolding parse_clone_expression_def by (intro grows_rules; simp)

lemma grows_parse_parenthesized [grows_rules]: "grows any (parse_parenthesized g)"
  unfolding parse_parenthesized_def by (intro grows_rules; simp)

lemma grows_parse_primary [grows_rules]: "grows any (parse_primary g)"
  unfolding parse_primary_def by (intro grows_rules; simp)

lemma grows_parse_prefix_or_primary [grows_rules]: "grows any (parse_prefix_or_primary g)"
  unfolding parse_prefix_or_primary_def by (intro grows_rules; simp)

lemma grows_parse_ternary_tail [grows_rules]: "grows any (parse_ternary_tail g)"
  unfolding parse_ternary_tail_def by (intro grows_rules; simp)

lemma grows_parse_binary_tail [grows_rules]: "grows any (parse_binary_tail g min_bp v)"
  unfolding parse_binary_tail_def by (intro grows_rules; simp)

lemma grows_expression_tail_step [grows_rules]: "grows any (expression_tail_step g min_bp v)"
  unfolding expression_tail_step_def by (intro grows_rules; simp)

lemma grows_parse_expression_bp [grows_rules]: "grows any (parse_expression_bp g min_bp)"
  unfolding parse_expression_bp_def by (intro grows_rules; simp)

lemma grows_parse_attributed_declaration [grows_rules]: "grows any (parse_attributed_declaration g)"
  unfolding parse_attributed_declaration_def by (intro grows_rules; simp)

lemma grows_const_step [grows_rules]: "grows any (const_step g v)"
  unfolding const_step_def by (intro grows_rules; simp)

lemma grows_parse_const_declaration [grows_rules]: "grows any (parse_const_declaration g)"
  unfolding parse_const_declaration_def by (intro grows_rules; simp)

lemma grows_parse_namespace_declaration [grows_rules]: "grows any (parse_namespace_declaration g)"
  unfolding parse_namespace_declaration_def by (intro grows_rules; simp)

lemma grows_group_use_step [grows_rules]: "grows any (group_use_step g v)"
  unfolding group_use_step_def by (intro grows_rules; simp)

lemma grows_parse_group_use_list [grows_rules]: "grows any (parse_group_use_list g)"
  unfolding parse_group_use_list_def by (intro grows_rules; simp)

lemma grows_parse_use_import_clause [grows_rules]: "grows any (parse_use_import_clause g allow_item_kind)"
  unfolding parse_use_import_clause_def by (intro grows_rules; simp)

lemma grows_use_step [grows_rules]: "grows any (use_step g v)"
  unfolding use_step_def by (intro grows_rules; simp)

lemma grows_parse_use_declaration [grows_rules]: "grows any (parse_use_declaration g)"
  unfolding parse_use_declaration_def by (intro grows_rules; simp)

lemma grows_parse_parenthesized_header [grows_rules]: "grows any (parse_parenthesized_header g context)"
  unfolding parse_parenthesized_header_def by (intro grows_rules; simp)

lemma grows_recover_parenthesized_header [grows_rules]: "grows any (recover_parenthesized_header g)"
  unfolding recover_parenthesized_header_def by (intro grows_rules; simp)

lemma grows_close_header [grows_rules]: "grows any (close_header g message)"
  unfolding close_header_def by (intro grows_rules; simp)

lemma grows_expression_list_step [grows_rules]: "grows any (expression_list_step g context end_kind v)"
  unfolding expression_list_step_def by (intro grows_rules; simp)

lemma grows_parse_expression_list [grows_rules]: "grows any (parse_expression_list g context end_kind)"
  unfolding parse_expression_list_def by (intro grows_rules; simp)

lemma grows_parse_parenthesized_expression_list [grows_rules]: "grows any (parse_parenthesized_expression_list g context allow_empty)"
  unfolding parse_parenthesized_expression_list_def by (intro grows_rules; simp)

lemma grows_parse_parenthesized_expression_header [grows_rules]: "grows any (parse_parenthesized_expression_header g context)"
  unfolding parse_parenthesized_expression_header_def by (intro grows_rules; simp)

lemma grows_foreach_target [grows_rules]: "grows any rest \<Longrightarrow> grows any (foreach_target g message rest)"
  unfolding foreach_target_def by (intro grows_rules; simp)

lemma grows_parse_foreach_header [grows_rules]: "grows any (parse_foreach_header g)"
  unfolding parse_foreach_header_def by (intro grows_rules; simp)

lemma grows_for_section_step [grows_rules]: "grows any (for_section_step g context v)"
  unfolding for_section_step_def by (intro grows_rules; simp)

lemma grows_parse_for_header_section [grows_rules]: "grows any (parse_for_header_section g context)"
  unfolding parse_for_header_section_def by (intro grows_rules; simp)

lemma grows_parse_for_header [grows_rules]: "grows any (parse_for_header g)"
  unfolding parse_for_header_def by (intro grows_rules; simp)

lemma grows_parse_required_block [grows_rules]: "grows any (parse_required_block g message)"
  unfolding parse_required_block_def by (intro grows_rules; simp)

lemma grows_parse_control_body [grows_rules]: "grows any (parse_control_body g)"
  unfolding parse_control_body_def by (intro grows_rules; simp)

lemma grows_parse_echo_step [grows_rules]: "grows any (parse_echo_step g v)"
  unfolding parse_echo_step_def by (intro grows_rules; simp)

lemma grows_parse_echo_statement [grows_rules]: "grows any (parse_echo_statement g)"
  unfolding parse_echo_statement_def by (intro grows_rules; simp)

lemma grows_parse_if_alternative [grows_rules]: "grows any (parse_if_alternative g)"
  unfolding parse_if_alternative_def by (intro grows_rules; simp)

lemma grows_parse_if_branches [grows_rules]: "grows any (parse_if_branches g)"
  unfolding parse_if_branches_def by (intro grows_rules; simp)

lemma grows_parse_if_statement [grows_rules]: "grows any (parse_if_statement g)"
  unfolding parse_if_statement_def by (intro grows_rules; simp)

lemma grows_parse_loop_statement [grows_rules]: "grows any (parse_loop_statement g start_keyword end_keyword kind)"
  unfolding parse_loop_statement_def by (intro grows_rules; simp)

lemma grows_parse_do_while_statement [grows_rules]: "grows any (parse_do_while_statement g)"
  unfolding parse_do_while_statement_def by (intro grows_rules; simp)

lemma grows_parse_switch_label [grows_rules]: "grows any (parse_switch_label g)"
  unfolding parse_switch_label_def by (intro grows_rules; simp)

lemma grows_switch_body_step [grows_rules]: "grows any (switch_body_step g at_end)"
  unfolding switch_body_step_def by (intro grows_rules; simp)

lemma grows_parse_switch_body [grows_rules]: "grows any (parse_switch_body g at_end)"
  unfolding parse_switch_body_def by (intro grows_rules; simp)

lemma grows_parse_switch_statement [grows_rules]: "grows any (parse_switch_statement g)"
  unfolding parse_switch_statement_def by (intro grows_rules; simp)

lemma grows_parse_catch_clause [grows_rules]: "grows any (parse_catch_clause g)"
  unfolding parse_catch_clause_def by (intro grows_rules; simp)

lemma grows_catch_step [grows_rules]: "grows any (catch_step g has_handler)"
  unfolding catch_step_def by (intro grows_rules; simp)

lemma grows_parse_try_statement [grows_rules]: "grows any (parse_try_statement g)"
  unfolding parse_try_statement_def by (intro grows_rules; simp)

lemma grows_parse_declare_statement [grows_rules]: "grows any (parse_declare_statement g)"
  unfolding parse_declare_statement_def by (intro grows_rules; simp)

lemma grows_parse_expression_list_statement [grows_rules]: "grows any (parse_expression_list_statement g kind context)"
  unfolding parse_expression_list_statement_def by (intro grows_rules; simp)

lemma grows_parse_parenthesized_construct_statement [grows_rules]: "grows any (parse_parenthesized_construct_statement g kind)"
  unfolding parse_parenthesized_construct_statement_def by (intro grows_rules; simp)

lemma grows_parse_optional_expression_statement [grows_rules]: "grows any (parse_optional_expression_statement g kind)"
  unfolding parse_optional_expression_statement_def by (intro grows_rules; simp)

lemma grows_parse_required_expression_statement [grows_rules]: "grows any (parse_required_expression_statement g kind)"
  unfolding parse_required_expression_statement_def by (intro grows_rules; simp)

lemma grows_parse_expression_statement [grows_rules]: "grows any (parse_expression_statement g)"
  unfolding parse_expression_statement_def by (intro grows_rules; simp)

lemma grows_parse_declaration_or_expression [grows_rules]: "grows any (parse_declaration_or_expression g)"
  unfolding parse_declaration_or_expression_def by (intro grows_rules; simp)

lemma grows_parse_statement [grows_rules]: "grows any (parse_statement g)"
  unfolding parse_statement_def by (intro grows_rules; simp)

lemma grows_parse_php_block [grows_rules]: "grows any (parse_php_block g)"
  unfolding parse_php_block_def by (intro grows_rules; simp)

lemma grows_source_file_step [grows_rules]: "grows any (source_file_step g)"
  unfolding source_file_step_def by (intro grows_rules; simp)

lemma grows_parse_file [grows_rules]: "grows any (parse_file g)"
  unfolding parse_file_def by (intro grows_rules; simp)

end

lemma grammar_grows: "growing_grammar (grammar n)"
proof (induction n)
  case 0
  show ?case by unfold_locales (simp; intro grows_rules; simp)+
next
  case (Suc n)
  note rules = growing_grammar.grows_parse_expression_bp [OF Suc] growing_grammar.grows_parse_prefix_or_primary [OF Suc]
    growing_grammar.grows_parse_simple_variable [OF Suc] growing_grammar.grows_parse_statement [OF Suc]
    growing_grammar.grows_parse_intersection_type [OF Suc] growing_grammar.grows_parse_use_import_clause [OF Suc]
  show ?case by unfold_locales (simp add: Let_def rules)+
qed

interpretation grammar: growing_grammar "grammar n" for n
  by (rule grammar_grows)

end
