(* ===== verification/Parser_Rules.thy ===== *)
theory Parser_Rules
  imports Parser_Growth
begin

text \<open>
  Two judgements on grammar code, with rules that follow its shape. \<open>returns\<close>: with fuel for two turns per
  token that is left, and some slack, the code does not run out of fuel. \<open>advances\<close>: unless it runs out of
  fuel, the code consumes a token. Both assume that the tokens are \<open>tame\<close>: that they hold none of
  the three constructs at which a loop of the grammar can turn without consuming anything.
\<close>

section \<open>Tame tokens\<close>

definition kinds_of :: "token list \<Rightarrow> syntax_kind list" where
  "kinds_of ts = map (\<lambda>t. from_token_kind (tok_kind t)) ts"

text \<open>A \<open>use\<close> keyword with an opening parenthesis: the variables a closure captures.\<close>

fun closure_use :: "syntax_kind list \<Rightarrow> bool" where
  "closure_use [] = False"
| "closure_use (k # ks) \<longleftrightarrow> k = named T_Use \<and> first_non_trivia ks = symbol CHR ''('' \<or> closure_use ks"

definition tame :: "token list \<Rightarrow> bool" where
  "tame ts \<longleftrightarrow> named T_CloseTag \<notin> set (kinds_of ts) \<and> named T_Switch \<notin> set (kinds_of ts) \<and> \<not> closure_use (kinds_of ts)"

section \<open>The tokens of a parser\<close>

text \<open>Tests look at the tokens only: at the stub, which has nothing else.\<close>

definition stub :: "parser \<Rightarrow> parser" where
  "stub p = parser_new (tokens_of p)"

named_theorems stub_simps \<open>tests on stubs\<close>

lemma stub_tokens [simp]: "tokens_of (stub p) = tokens_of p"
  by (simp add: stub_def parser_new_def)

lemma stub_eq: "tokens_of q = tokens_of p \<Longrightarrow> stub q = stub p"
  by (simp add: stub_def)

lemma stub_current [stub_simps]: "nth_kind n (stub p) = nth_kind n p" "current (stub p) = current p" "at k (stub p) = at k p"
  "at_eof (stub p) = at_eof p" "parser_position (stub p) = parser_position p" "current_text (stub p) = current_text p"
  "at_contextual_identifier (stub p) = at_contextual_identifier p" "at_trivia (stub p) = at_trivia p"
  "kinds_from n (stub p) = kinds_from n p" "next_non_trivia_is n k (stub p) = next_non_trivia_is n k p"
  by (simp_all add: nth_kind_def current_def at_def at_eof_def parser_position_def current_text_def
      at_contextual_identifier_def at_trivia_def kinds_from_def next_non_trivia_is_def)

lemma eof_current: "at_eof p \<Longrightarrow> current p = TokenK Eof"
  by (simp add: at_eof_def ts_is_eof_def current_def nth_kind_def ts_nth_def get_at_def from_token_kind_def)

lemma contextual_not_eof: "at_contextual_identifier p \<Longrightarrow> \<not> at_eof p"
  by (auto simp: at_contextual_identifier_def ts_current_keyword_context_def at_eof_def ts_is_eof_def get_at_def)

lemma current_in_kinds: "\<not> at_eof p \<Longrightarrow> current p \<in> set (kinds_of (toks p))"
  by (auto simp: at_eof_def ts_is_eof_def current_def nth_kind_def ts_nth_def get_at_def kinds_of_def)

lemma tame_current: "tame (toks p) \<Longrightarrow> \<not> at (named T_CloseTag) p \<and> \<not> at (named T_Switch) p"
  using eof_current [of p] current_in_kinds [of p] by (cases "at_eof p") (auto simp: tame_def at_def)

definition tokens_left :: "parser \<Rightarrow> nat" where
  "tokens_left p = length (toks p) - cur p"

lemma extends_stub: "extends p q \<Longrightarrow> cur q = cur p \<Longrightarrow> stub q = stub p"
  by (intro stub_eq) (auto simp: extends_def)

lemma extends_facts:
  assumes "extends p q"
  shows "toks q = toks p" "out_of_fuel p \<Longrightarrow> out_of_fuel q" "cur p \<le> cur q" "tokens_left q \<le> tokens_left p"
    "cur p \<le> length (toks p) \<Longrightarrow> cur q \<le> length (toks p)"
  using assms by (auto simp: extends_def tokens_left_def)

section \<open>Fuel\<close>

text \<open>\<open>n\<close> turns, of which two belong to each token that is left and \<open>k\<close> are slack.\<close>

definition fueled :: "nat \<Rightarrow> nat \<Rightarrow> parser \<Rightarrow> bool" where
  "fueled n k p \<longleftrightarrow> \<not> out_of_fuel p \<and> tame (toks p) \<and> cur p \<le> length (toks p) \<and> 2 * tokens_left p + k \<le> n"

lemma fueled_extends: "fueled n k p \<Longrightarrow> extends p q \<Longrightarrow> \<not> out_of_fuel q \<Longrightarrow> fueled n k q"
  using extends_facts [of p q] by (auto simp: fueled_def)

lemma fueled_mono: "fueled n k p \<Longrightarrow> j \<le> k \<Longrightarrow> fueled n j p"
  by (simp add: fueled_def)

definition returns :: "nat \<Rightarrow> (parser \<Rightarrow> bool) \<Rightarrow> nat \<Rightarrow> 'a pm \<Rightarrow> bool" where
  "returns n P k m \<longleftrightarrow> grows any m \<and> (\<forall>p. fueled n k p \<longrightarrow> P (stub p) \<longrightarrow> \<not> out_of_fuel (snd (run_state m p)))"

definition advances :: "(parser \<Rightarrow> bool) \<Rightarrow> ('a \<Rightarrow> bool) \<Rightarrow> 'a pm \<Rightarrow> bool" where
  "advances P R m \<longleftrightarrow> grows any m \<and> (\<forall>p. tame (toks p) \<longrightarrow> P (stub p) \<longrightarrow> \<not> out_of_fuel (snd (run_state m p)) \<longrightarrow>
     R (fst (run_state m p)) \<longrightarrow> cur p < cur (snd (run_state m p)))"

named_theorems returns_rules \<open>fuel suffices, by the shape of the code\<close>
named_theorems advances_rules \<open>a token is consumed, by the shape of the code\<close>

lemma returns_grows: "returns n P k m \<Longrightarrow> grows any m"
  by (simp add: returns_def)

lemma advances_grows: "advances P R m \<Longrightarrow> grows any m"
  by (simp add: advances_def)

lemma run_grows: "grows any m \<Longrightarrow> run_state m p = (x, q) \<Longrightarrow> extends p q"
  by (metis grows_def snd_conv)

lemma returnsI:
  assumes "grows any m" "\<And>p. fueled n k p \<Longrightarrow> P (stub p) \<Longrightarrow> \<not> out_of_fuel (snd (run_state m p))"
  shows "returns n P k m"
  using assms by (simp add: returns_def)

lemma returns_run: "returns n P k m \<Longrightarrow> fueled n k p \<Longrightarrow> P (stub p) \<Longrightarrow> run_state m p = (x, q) \<Longrightarrow> fueled n k q"
  by (metis returns_def fueled_extends run_grows snd_conv)

lemma advancesI:
  assumes "grows any m" "\<And>p x q. tame (toks p) \<Longrightarrow> P (stub p) \<Longrightarrow> run_state m p = (x, q) \<Longrightarrow> \<not> out_of_fuel q \<Longrightarrow> R x \<Longrightarrow> cur p < cur q"
  shows "advances P R m"
  using assms by (metis advances_def prod.collapse)

lemma advances_run:
  "advances P R m \<Longrightarrow> tame (toks p) \<Longrightarrow> P (stub p) \<Longrightarrow> run_state m p = (x, q) \<Longrightarrow> \<not> out_of_fuel q \<Longrightarrow> R x \<Longrightarrow> cur p < cur q"
  by (metis advances_def fst_conv snd_conv)

lemma returns_weaken:
  assumes "returns n P j m" "\<And>p. tame (toks p) \<Longrightarrow> Q p \<Longrightarrow> P p" "j \<le> k"
  shows "returns n Q k m"
  using assms fueled_mono [of n k _ j] unfolding returns_def by (auto simp: fueled_def)

lemma advances_weaken:
  assumes "advances P R m" "\<And>p. tame (toks p) \<Longrightarrow> Q p \<Longrightarrow> P p" "\<And>x. S x \<Longrightarrow> R x"
  shows "advances Q S m"
  using assms unfolding advances_def by auto

lemma returns_Suc: "returns n P k m \<Longrightarrow> returns (Suc n) P (Suc k) m"
  by (simp add: returns_def fueled_def)

section \<open>Rules for returning\<close>

lemma returns_return [returns_rules]: "returns n P k (ret x)"
  by (auto simp: returns_def fueled_def intro: grows_rules)

lemma returns_bind [returns_rules]:
  assumes "returns n P k m" "\<And>x. returns n any k (f x)"
  shows "returns n P k (State_Monad.bind m f)"
proof (rule returnsI)
  show "grows any (State_Monad.bind m f)" using assms by (intro grows_rules returns_grows)
  fix p assume p: "fueled n k p" "P (stub p)"
  obtain x q where run: "run_state m p = (x, q)" by (metis prod.exhaust)
  then have "fueled n k q" using returns_run [OF assms(1) p] by blast
  then show "\<not> out_of_fuel (snd (run_state (State_Monad.bind m f) p))"
    using assms(2) [of x] run by (simp add: returns_def)
qed

lemma returns_peek_bind [returns_rules]:
  assumes "\<And>p. f (stub p) = f p" "\<And>x. returns n (\<lambda>p. P p \<and> f p = x) k (h x)"
  shows "returns n P k (State_Monad.bind (peek f) h)"
proof (rule returnsI)
  show "grows any (State_Monad.bind (peek f) h)" using assms(2) by (intro grows_rules returns_grows)
  fix p assume "fueled n k p" "P (stub p)"
  then show "\<not> out_of_fuel (snd (run_state (State_Monad.bind (peek f) h) p))"
    using assms(1) assms(2) [of "f p"] by (simp add: returns_def peek_def)
qed

lemma returns_pif [returns_rules]:
  assumes "\<And>p. t (stub p) = t p" "returns n (\<lambda>p. P p \<and> t p) k a" "returns n (\<lambda>p. P p \<and> \<not> t p) k b"
  shows "returns n P k (pif t a b)"
proof (rule returnsI)
  show "grows any (pif t a b)" using assms by (intro grows_rules returns_grows)
  fix p assume "fueled n k p" "P (stub p)"
  then show "\<not> out_of_fuel (snd (run_state (pif t a b) p))"
    using assms(2,3) by (simp add: pif_def peek_def returns_def assms(1))
qed

lemma returns_if [returns_rules]:
  "(b \<Longrightarrow> returns n P k m) \<Longrightarrow> (\<not> b \<Longrightarrow> returns n P k m') \<Longrightarrow> returns n P k (if b then m else m')"
  by simp

lemma returns_case_prod [returns_rules]: "(\<And>x y. returns n P k (f x y)) \<Longrightarrow> returns n P k (case v of (x, y) \<Rightarrow> f x y)"
  by (cases v) simp

lemma returns_case_option [returns_rules]:
  "(v = None \<Longrightarrow> returns n P k m) \<Longrightarrow> (\<And>x. v = Some x \<Longrightarrow> returns n P k (f x)) \<Longrightarrow>
    returns n P k (case v of None \<Rightarrow> m | Some x \<Rightarrow> f x)"
  by (cases v) simp_all

lemma returns_let [returns_rules]: "(\<And>x. returns n P k (f x)) \<Longrightarrow> returns n P k (let x = v in f x)"
  by simp

text \<open>A consumed token gives back two turns.\<close>

lemma run_bump: "run_state bump p = ((), if at_eof p then p else p\<lparr>events := events p @ [AddToken], tokens_of := ts_bump (tokens_of p)\<rparr>)"
  by (simp add: bump_def modify_def)

lemma bump_advances: "\<not> at_eof p \<Longrightarrow> cur (snd (run_state bump p)) = Suc (cur p)"
  by (simp add: run_bump at_eof_def ts_is_eof_def ts_bump_def)

lemma bump_keeps: "out_of_fuel (snd (run_state bump p)) = out_of_fuel p" "toks (snd (run_state bump p)) = toks p"
  by (simp_all add: run_bump ts_bump_def)

lemma fueled_bump: "fueled n k p \<Longrightarrow> \<not> at_eof p \<Longrightarrow> fueled n (k + 2) (snd (run_state bump p))"
  using bump_advances [of p] bump_keeps [of p] by (auto simp: fueled_def tokens_left_def at_eof_def ts_is_eof_def)

lemma returns_bump [returns_rules]: "returns n P k bump"
  by (auto simp: returns_def fueled_def bump_keeps intro: grows_rules)

lemma returns_bump_bind:
  assumes "\<And>p. tame (toks p) \<Longrightarrow> P p \<Longrightarrow> \<not> at_eof p" "\<And>x. returns n any (k + 2) (f x)"
  shows "returns n P k (State_Monad.bind bump f)"
proof (rule returnsI)
  show "grows any (State_Monad.bind bump f)" using assms(2) by (intro grows_rules returns_grows)
  fix p assume p: "fueled n k p" "P (stub p)"
  then have "\<not> at_eof p" using assms(1) [of "stub p"] by (simp add: fueled_def stub_simps)
  then show "\<not> out_of_fuel (snd (run_state (State_Monad.bind bump f) p))"
    using assms(2) fueled_bump [OF p(1)] by (auto simp: returns_def split: prod.split)
qed

lemma returns_node_with [returns_rules]:
  assumes "returns n P k body" "grows (\<lambda>(kind, r). is_node kind) body"
  shows "returns n P k (node_with body)"
proof (rule returnsI)
  show "grows any (node_with body)" using grows_node_with [of any body] assms(2) by (simp add: case_prod_unfold)
  fix p assume p: "fueled n k p" "P (stub p)"
  let ?q = "p\<lparr>events := events p @ [Placeholder]\<rparr>"
  obtain kind r p' where run: "run_state body ?q = ((kind, r), p')" by (metis prod.exhaust)
  have "fueled n k ?q" "stub ?q = stub p" using p(1) by (simp_all add: fueled_def tokens_left_def stub_def)
  then have "\<not> out_of_fuel p'" using assms(1) p(2) run by (simp add: returns_def) (metis snd_conv)
  then show "\<not> out_of_fuel (snd (run_state (node_with body) p))"
    using run by (simp add: node_with_def start_def peek_def modify_def complete_marker_def)
qed

lemma grows_node_result: "grows any body \<Longrightarrow> grows (\<lambda>(kind, r). is_node kind) (do { body; ret (NodeK k, ()) })"
  by (intro grows_rules) simp_all

lemma returns_node [returns_rules]: "returns n P k body \<Longrightarrow> returns n P k (node kind body)"
  unfolding node_def using grows_node_result [OF returns_grows [of n P k body]]
  by (intro returns_rules) simp_all

text \<open>Actions that leave the fuel alone.\<close>

lemma returns_calm:
  "grows any m \<Longrightarrow> (\<And>p. out_of_fuel (snd (run_state m p)) = out_of_fuel p) \<Longrightarrow> returns n P k m"
  by (simp add: returns_def fueled_def)

lemma returns_error [returns_rules]: "returns n P k (parser_error d)" "returns n P k (error_expected_with_id i message expected)"
    "returns n P k (error_expected message expected)" "returns n P k (error_and_bump e)"
  by (intro returns_calm grows_rules;
      simp add: parser_error_def error_expected_def error_expected_with_id_def error_and_bump_def peek_def modify_def bump_def)+

lemma pwhile_bump_fuel:
  assumes "\<And>p. at_eof p \<Longrightarrow> \<not> t p"
  shows "tokens_left p \<le> n \<Longrightarrow> out_of_fuel (snd (run_state (pwhile n t bump) p)) = out_of_fuel p"
proof (induction n arbitrary: p)
  case 0
  then have "\<not> t p" using assms [of p] by (simp add: tokens_left_def at_eof_def ts_is_eof_def)
  then show ?case by (simp add: pif_def peek_def)
next
  case (Suc n)
  show ?case
  proof (cases "t p")
    case True
    then have "\<not> at_eof p" using assms by blast
    then have "tokens_left (snd (run_state bump p)) \<le> n"
      using bump_advances [of p] Suc.prems by (simp add: tokens_left_def bump_keeps)
    then have "out_of_fuel (snd (run_state (pwhile n t bump) (snd (run_state bump p)))) = out_of_fuel p"
      using Suc.IH by (simp add: bump_keeps)
    then show ?thesis using True by (simp add: pif_def peek_def case_prod_unfold)
  qed (simp add: pif_def peek_def)
qed

lemma returns_bump_while [returns_rules]: "(\<And>p. at_eof p \<Longrightarrow> \<not> t p) \<Longrightarrow> returns n P k (bump_while t)"
  by (intro returns_calm grows_rules; simp add: bump_while_def peek_def pwhile_bump_fuel tokens_left_def)

text \<open>A loop whose turns consume a token ends within its fuel.\<close>

lemma returns_pwhile [returns_rules]:
  assumes "1 \<le> k" "\<And>p. t (stub p) = t p" "returns n t k body" "advances t any body"
  shows "returns n P k (pwhile n t body)"
proof (rule returnsI)
  show "grows any (pwhile n t body)" using assms(3) by (intro grows_rules returns_grows)
  have "\<not> out_of_fuel (snd (run_state (pwhile j t body) p))" if "fueled n k p" "tokens_left p < j" for j p
    using that
  proof (induction j arbitrary: p)
    case (Suc j)
    show ?case
    proof (cases "t p")
      case True
      obtain x q where run: "run_state body p = (x, q)" by (metis prod.exhaust)
      have q: "fueled n k q" using returns_run [OF assms(3) Suc.prems(1) _ run] True assms(2) by simp
      then have "cur p < cur q" using advances_run [OF assms(4) _ _ run] Suc.prems(1) True assms(2) by (simp add: fueled_def)
      then have "tokens_left q < j"
        using Suc.prems q extends_facts(1) [OF run_grows [OF returns_grows [OF assms(3)] run]]
        by (auto simp: fueled_def tokens_left_def)
      then show ?thesis using Suc.IH [OF q] run True by (simp add: pif_def peek_def)
    qed (use Suc.prems in \<open>simp add: pif_def peek_def fueled_def\<close>)
  qed simp
  then show "\<not> out_of_fuel (snd (run_state (pwhile n t body) p))" if "fueled n k p" for p
    using that assms(1) by (simp add: fueled_def)
qed

lemma returns_ploop [returns_rules]:
  assumes "1 \<le> k" "\<And>v. returns n any k (body v)" "\<And>v. advances any snd (body v)"
  shows "returns n P k (ploop n body v)"
proof (rule returnsI)
  show "grows any (ploop n body v)" using assms(2) by (intro grows_rules returns_grows)
  have "\<not> out_of_fuel (snd (run_state (ploop j body v) p))" if "fueled n k p" "tokens_left p < j" for j p v
    using that
  proof (induction j arbitrary: p v)
    case (Suc j)
    obtain v' c q where run: "run_state (body v) p = ((v', c), q)" by (metis prod.exhaust)
    have q: "fueled n k q" using returns_run [OF assms(2) Suc.prems(1) _ run] by simp
    show ?case
    proof (cases c)
      case True
      then have "cur p < cur q" using advances_run [OF assms(3) _ _ run] Suc.prems(1) q by (simp add: fueled_def)
      then have "tokens_left q < j"
        using Suc.prems q extends_facts(1) [OF run_grows [OF returns_grows [OF assms(2)] run]]
        by (auto simp: fueled_def tokens_left_def)
      then show ?thesis using Suc.IH [OF q] run True by simp
    qed (use run q in \<open>simp add: fueled_def\<close>)
  qed simp
  then show "\<not> out_of_fuel (snd (run_state (ploop n body v) p))" if "fueled n k p" for p
    using that assms(1) by (simp add: fueled_def)
qed

section \<open>Rules for advancing\<close>

lemma advances_return [advances_rules]: "(\<And>p. tame (toks p) \<Longrightarrow> P p \<Longrightarrow> \<not> R x) \<Longrightarrow> advances P R (ret x)"
proof (rule advancesI)
  assume R: "\<And>p. tame (toks p) \<Longrightarrow> P p \<Longrightarrow> \<not> R x"
  fix p y q assume "tame (toks p)" "P (stub p)" "run_state (ret x) p = (y, q)" "R y"
  then show "cur p < cur q" using R [of "stub p"] by simp
qed (simp add: grows_return)

text \<open>Either part of a sequence may consume the token; when the first part does not, the second still finds it.\<close>

lemma advances_first:
  assumes "advances P any m" "\<And>x. grows any (f x)"
  shows "advances P R (State_Monad.bind m f)"
proof (rule advancesI)
  show "grows any (State_Monad.bind m f)" using advances_grows [OF assms(1)] assms(2) by (rule grows_bind)
  fix p y q assume a: "tame (toks p)" "P (stub p)" "run_state (State_Monad.bind m f) p = (y, q)" "\<not> out_of_fuel q"
  obtain x p1 where run: "run_state m p = (x, p1)" by (metis prod.exhaust)
  have "extends p1 q" using run_grows [OF assms(2)] a(3) run by simp
  then show "cur p < cur q"
    using advances_run [OF assms(1) a(1,2) run] a(4) extends_facts [of p1 q] by fastforce
qed

lemma advances_then:
  assumes "grows any m" "\<And>x. advances P R (f x)"
  shows "advances P R (State_Monad.bind m f)"
proof (rule advancesI)
  show "grows any (State_Monad.bind m f)" using assms(1) advances_grows [OF assms(2)] by (rule grows_bind)
  fix p y q assume a: "tame (toks p)" "P (stub p)" "run_state (State_Monad.bind m f) p = (y, q)" "\<not> out_of_fuel q" "R y"
  obtain x p1 where run: "run_state m p = (x, p1)" by (metis prod.exhaust)
  have e: "extends p p1" "extends p1 q"
    using run_grows [OF assms(1) run] run_grows [OF advances_grows [OF assms(2)]] a(3) run by simp_all
  show "cur p < cur q"
  proof (cases "cur p1 = cur p")
    case True
    then have "cur p1 < cur q"
      using advances_run [OF assms(2), of p1 x y q] a run e(1) extends_stub [OF e(1)] extends_facts(1) [OF e(1)] by simp
    then show ?thesis using True by simp
  qed (use extends_facts(3) [OF e(1)] extends_facts(3) [OF e(2)] in linarith)
qed

lemma advances_peek_bind [advances_rules]:
  assumes "\<And>p. f (stub p) = f p" "\<And>x. advances (\<lambda>p. P p \<and> f p = x) R (h x)"
  shows "advances P R (State_Monad.bind (peek f) h)"
proof (rule advancesI)
  show "grows any (State_Monad.bind (peek f) h)" using assms(2) by (intro grows_rules advances_grows)
  fix p y q assume "tame (toks p)" "P (stub p)" "run_state (State_Monad.bind (peek f) h) p = (y, q)" "\<not> out_of_fuel q" "R y"
  then show "cur p < cur q" using advances_run [OF assms(2), of p "f p" y q] assms(1) by (simp add: peek_def)
qed

lemma advances_pif [advances_rules]:
  assumes "\<And>p. t (stub p) = t p" "advances (\<lambda>p. P p \<and> t p) R a" "advances (\<lambda>p. P p \<and> \<not> t p) R b"
  shows "advances P R (pif t a b)"
proof (rule advancesI)
  show "grows any (pif t a b)" using assms by (intro grows_rules advances_grows)
  fix p y q assume "tame (toks p)" "P (stub p)" "run_state (pif t a b) p = (y, q)" "\<not> out_of_fuel q" "R y"
  then show "cur p < cur q"
    using advances_run [OF assms(2), of p y q] advances_run [OF assms(3), of p y q] assms(1)
    by (cases "t p") (simp_all add: pif_def peek_def)
qed

text \<open>A test whose failure tells nothing that the rest needs.\<close>

lemma advances_pif_keep:
  assumes "\<And>p. t (stub p) = t p" "advances t R a" "advances P R b"
  shows "advances P R (pif t a b)"
  using assms by (intro advances_pif advances_weaken [OF assms(2)] advances_weaken [OF assms(3)]) simp_all

lemma advances_if [advances_rules]:
  "(b \<Longrightarrow> advances P R m) \<Longrightarrow> (\<not> b \<Longrightarrow> advances P R m') \<Longrightarrow> advances P R (if b then m else m')"
  by simp

lemma advances_case_prod [advances_rules]: "(\<And>x y. advances P R (f x y)) \<Longrightarrow> advances P R (case v of (x, y) \<Rightarrow> f x y)"
  by (cases v) simp

lemma advances_case_option [advances_rules]:
  "(v = None \<Longrightarrow> advances P R m) \<Longrightarrow> (\<And>x. v = Some x \<Longrightarrow> advances P R (f x)) \<Longrightarrow>
    advances P R (case v of None \<Rightarrow> m | Some x \<Rightarrow> f x)"
  by (cases v) simp_all

lemma advances_absurd: "(\<And>p. tame (toks p) \<Longrightarrow> \<not> P p) \<Longrightarrow> grows any m \<Longrightarrow> advances P R m"
  by (auto simp: advances_def)

lemma advances_cases: "advances P R m \<Longrightarrow> advances Q R m \<Longrightarrow> advances (\<lambda>p. P p \<or> Q p) R m"
  by (auto simp: advances_def)

lemma pif_bind: "State_Monad.bind (pif t a b) f = pif t (State_Monad.bind a f) (State_Monad.bind b f)"
  by (simp add: pif_def if_distrib [of "\<lambda>m. State_Monad.bind m f"] cong: if_cong)

lemma advances_bump [advances_rules]: "(\<And>p. tame (toks p) \<Longrightarrow> P p \<Longrightarrow> \<not> at_eof p) \<Longrightarrow> advances P R bump"
proof (rule advancesI)
  assume P: "\<And>p. tame (toks p) \<Longrightarrow> P p \<Longrightarrow> \<not> at_eof p"
  fix p x q assume "tame (toks p)" "P (stub p)" "run_state bump p = (x, q)"
  then show "cur p < cur q" using P [of "stub p"] bump_advances [of p] by (simp add: stub_simps)
qed (rule grows_bump)

lemma advances_node_with [advances_rules]:
  assumes "advances P (\<lambda>(kind, r). R r) body" "grows (\<lambda>(kind, r). is_node kind) body"
  shows "advances P R (node_with body)"
proof (rule advancesI)
  show "grows any (node_with body)" using grows_node_with [of any body] assms(2) by (simp add: case_prod_unfold)
  fix p y q assume a: "tame (toks p)" "P (stub p)" "run_state (node_with body) p = (y, q)" "\<not> out_of_fuel q" "R y"
  let ?p = "p\<lparr>events := events p @ [Placeholder]\<rparr>"
  obtain kind r p' where run: "run_state body ?p = ((kind, r), p')" by (metis prod.exhaust)
  then have "r = y" "cur q = cur p'" "out_of_fuel q = out_of_fuel p'"
    using a(3) by (auto simp: node_with_def start_def peek_def modify_def complete_marker_def)
  then show "cur p < cur q" using advances_run [OF assms(1) _ _ run] a by (simp add: stub_def)
qed

lemma advances_node [advances_rules]: "advances P any body \<Longrightarrow> advances P R (node kind body)"
  unfolding node_def using grows_node_result [OF advances_grows [of P any body]]
  by (intro advances_rules advances_first grows_rules) (simp_all add: case_prod_unfold advances_grows)

lemma advances_exhausted [advances_rules]: "advances P R exhausted"
  by (auto simp: advances_def exhausted_def modify_def intro: grows_rules [unfolded exhausted_def modify_def])

text \<open>Loops advance when their first turn does.\<close>

lemma advances_pwhile:
  assumes "\<And>p. t (stub p) = t p" "\<And>p. tame (toks p) \<Longrightarrow> P p \<Longrightarrow> t p" "advances P any body"
  shows "advances P R (pwhile n t body)"
proof (cases n)
  case 0
  then show ?thesis using assms advances_absurd [of "\<lambda>p. P p \<and> \<not> t p" skip R]
    by (auto intro!: advances_pif advances_exhausted grows_rules)
next
  case (Suc m)
  have "advances (\<lambda>p. P p \<and> t p) any body" using assms(3) by (rule advances_weaken) auto
  then show ?thesis using assms advances_absurd [of "\<lambda>p. P p \<and> \<not> t p" skip R] Suc advances_grows [OF assms(3)]
    by (auto intro!: advances_pif advances_first grows_rules)
qed

lemma advances_ploop: "advances P any (body v) \<Longrightarrow> (\<And>v. grows any (body v)) \<Longrightarrow> advances P R (ploop n body v)"
  by (cases n) (auto intro!: advances_first advances_exhausted grows_rules)

lemma advances_bump_while [advances_rules]:
  assumes "\<And>p. t (stub p) = t p" "\<And>p. tame (toks p) \<Longrightarrow> P p \<Longrightarrow> t p" "\<And>p. tame (toks p) \<Longrightarrow> P p \<Longrightarrow> \<not> at_eof p"
  shows "advances P R (bump_while t)"
  unfolding bump_while_def using assms
  by (intro advances_then grows_rules advances_pwhile advances_bump) blast+

text \<open>Actions that tell by their result whether they advanced.\<close>

lemma advances_choice:
  assumes "advances P id m" "advances P R f" "grows any t"
  shows "advances P R (do { r \<leftarrow> m; if r then t else f })"
proof (rule advancesI)
  show "grows any (do { r \<leftarrow> m; if r then t else f })"
    using advances_grows [OF assms(1)] advances_grows [OF assms(2)] assms(3) by (intro grows_bind grows_if)
  fix p y q assume a: "tame (toks p)" "P (stub p)" "run_state (do { r \<leftarrow> m; if r then t else f }) p = (y, q)" "\<not> out_of_fuel q" "R y"
  obtain x p1 where run: "run_state m p = (x, p1)" by (metis prod.exhaust)
  have e: "extends p p1" using run_grows [OF advances_grows [OF assms(1)] run] .
  show "cur p < cur q"
  proof (cases x)
    case True
    then have "extends p1 q" using run_grows [OF assms(3)] a(3) run by simp
    then show ?thesis using advances_run [OF assms(1) a(1,2) run] True a(4) extends_facts [of p1 q] by fastforce
  next
    case False
    then have f: "run_state f p1 = (y, q)" using a(3) run by simp
    have g: "extends p1 q" using run_grows [OF advances_grows [OF assms(2)] f] .
    have "cur p1 < cur q" if "cur p1 = cur p"
      using advances_run [OF assms(2) _ _ f] a extends_stub [OF e that] extends_facts(1) [OF e] by simp
    then show ?thesis using extends_facts(3) [OF e] extends_facts(3) [OF g] by linarith
  qed
qed

lemma advances_or_else [advances_rules]: "advances P id m \<Longrightarrow> advances P R e \<Longrightarrow> advances P R (or_else m e)"
  unfolding or_else_def by (intro advances_choice grows_rules) simp_all

lemma advances_por [advances_rules]: "advances P id a \<Longrightarrow> advances P R b \<Longrightarrow> advances P R (por a b)"
  unfolding por_def by (intro advances_choice grows_rules) simp_all

end
