(* ===== verification/Parser_Progress.thy ===== *)
theory Parser_Progress
  imports Parser_Rules
begin

text \<open>
  Progress: on tame tokens every turn of a loop of the grammar consumes a token, an expression consumes a
  token unless it starts at a token that stops it, and a statement consumes a token unless it starts at the
  end of a block or of the source.
\<close>

section \<open>Tests\<close>

named_theorems parser_tests \<open>the tests of the grammar, down to the current token\<close>

lemmas test_definitions [parser_tests] = at_def at_name_start_def at_type_start_def at_intersection_operator_def
  at_attribute_recovery_end_def at_attribute_argument_recovery_end_def is_attribute_recovery_kind_def
  is_attribute_argument_recovery_kind_def at_named_argument_label_def at_by_ref_def at_nested_php_mode_boundary_def
  at_expression_stop_def at_expr_recovery_token_def at_statement_recovery_token_def at_parameter_list_end_def
  at_promotion_modifier_def at_closure_start_def at_arrow_function_start_def first_token_after_attribute_groups_def
  at_class_like_declaration_def at_modifier_def at_typed_class_const_def at_prefix_operator_def
  at_static_class_context_name_def at_literal_def at_construct_expression_def at_dynamic_new_class_reference_start_def
  at_member_access_def has_by_ref_marker_after_trivia_def at_attributed_declaration_def at_group_use_end_def
  at_if_end_def at_if_alternative_boundary_def at_switch_alternative_end_def at_simple_statement_end_def
  at_label_statement_def static_statement_follows_def at_named_by_ref_def at_for_section_end_def at_control_body_end_def
  is_clone_keyword_def is_void_cast_def

lemma contextual_current [parser_tests]: "at_eof p \<Longrightarrow> \<not> at_contextual_identifier p"
  using contextual_not_eof by blast

lemma trivia_current [parser_tests]: "at_trivia p \<longleftrightarrow> is_trivia (current p)"
  by (simp add: at_trivia_def)

lemma tame_kinds [parser_tests]: "tame (toks p) \<Longrightarrow> current p \<noteq> named T_CloseTag" "tame (toks p) \<Longrightarrow> current p \<noteq> named T_Switch"
  using tame_current [of p] by (simp_all add: at_def)

lemmas test_facts [parser_tests] = stub_simps eof_current

section \<open>Steps that do not call back\<close>

text \<open>Heads: actions that advance at the front of a sequence.\<close>

named_theorems advances_head \<open>sequences that start with an action that advances\<close>

lemmas bump_head [advances_head] = advances_first [OF advances_bump]

lemma advances_name_segments [advances_rules]:
  "advances any snd (name_segments v)"
  unfolding name_segments_def
  by (intro advances_head advances_rules advances_then grows_rules; auto simp: parser_tests)

lemma advances_modifier_step [advances_rules]:
  "advances any snd (modifier_step v)"
  unfolding modifier_step_def
  by (intro advances_head advances_rules advances_then grows_rules; auto simp: parser_tests)

lemma advances_balanced_block_step [advances_rules]:
  "advances any snd (balanced_block_step v)"
  unfolding balanced_block_step_def
  by (intro advances_head advances_rules advances_then grows_rules; auto simp: parser_tests)

lemma advances_argument_boundary_step [advances_rules]:
  "advances any snd (argument_boundary_step d)"
  unfolding argument_boundary_step_def
  by (intro advances_head advances_rules advances_then grows_rules; auto simp: parser_tests)

lemma advances_header_step [advances_rules]:
  "advances any snd (header_step depth)"
  unfolding header_step_def
  by (intro advances_head advances_rules advances_then grows_rules; auto simp: parser_tests)

lemma advances_recover_header_step [advances_rules]:
  "advances any snd (recover_header_step depth)"
  unfolding recover_header_step_def
  by (intro advances_head advances_rules advances_then grows_rules; auto simp: parser_tests)

lemma advances_consume_string_offset [advances_rules]:
  "(\<And>p. tame (toks p) \<Longrightarrow> P p \<Longrightarrow> \<not> at_eof p) \<Longrightarrow> advances P R consume_string_offset"
  unfolding consume_string_offset_def
  by (intro advances_head advances_rules advances_then grows_rules; auto simp: parser_tests)

lemmas consume_string_offset_head [advances_head] = advances_first [OF advances_consume_string_offset]

lemma advances_interpolation_tail [advances_rules]:
  "advances any snd (interpolation_tail parsed_offset)"
  unfolding interpolation_tail_def
  by (intro advances_head advances_rules advances_then grows_rules; auto simp: parser_tests)

lemma advances_parse_postfix_update_tail [advances_rules]:
  "(\<And>p. tame (toks p) \<Longrightarrow> P p \<Longrightarrow> \<not> at_eof p) \<Longrightarrow> advances P R parse_postfix_update_tail"
  unfolding parse_postfix_update_tail_def
  by (intro advances_head advances_rules advances_then grows_rules; auto simp: parser_tests)

lemmas parse_postfix_update_tail_head [advances_head] = advances_first [OF advances_parse_postfix_update_tail]

lemma advances_parse_static_access_tail [advances_rules]:
  "(\<And>p. tame (toks p) \<Longrightarrow> P p \<Longrightarrow> \<not> at_eof p) \<Longrightarrow> advances P R parse_static_access_tail"
  unfolding parse_static_access_tail_def
  by (intro advances_head advances_rules advances_then grows_rules; auto simp: parser_tests)

lemmas parse_static_access_tail_head [advances_head] = advances_first [OF advances_parse_static_access_tail]

lemma advances_parse_inline_html [advances_rules]:
  "(\<And>p. tame (toks p) \<Longrightarrow> P p \<Longrightarrow> at (named T_InlineHtml) p \<and> \<not> at_eof p) \<Longrightarrow> advances P R parse_inline_html"
  unfolding parse_inline_html_def
  by (intro advances_head advances_rules advances_then grows_rules; auto simp: parser_tests)

lemmas parse_inline_html_head [advances_head] = advances_first [OF advances_parse_inline_html]

lemma advances_recover_to_attribute_boundary [advances_rules]:
  "(\<And>p. tame (toks p) \<Longrightarrow> P p \<Longrightarrow> \<not> at_eof p \<and> \<not> at (symbol CHR '','') p \<and> \<not> at (symbol CHR '']'') p \<and> \<not> at_attribute_recovery_end p) \<Longrightarrow> advances P R recover_to_attribute_boundary"
  unfolding recover_to_attribute_boundary_def
  by (intro advances_head advances_rules advances_then grows_rules; auto simp: parser_tests)

lemmas recover_to_attribute_boundary_head [advances_head] = advances_first [OF advances_recover_to_attribute_boundary]

lemma advances_recover_to_argument_boundary [advances_rules]:
  "(\<And>p. tame (toks p) \<Longrightarrow> P p \<Longrightarrow> \<not> at_eof p \<and> \<not> at (symbol CHR '','') p \<and> \<not> at (symbol CHR '')'') p) \<Longrightarrow> advances P R recover_to_argument_boundary"
  unfolding recover_to_argument_boundary_def
  by (intro advances_head advances_rules advances_then grows_rules; auto simp: parser_tests)

lemmas recover_to_argument_boundary_head [advances_head] = advances_first [OF advances_recover_to_argument_boundary]

lemma advances_recover_to_parameter_boundary [advances_rules]:
  "(\<And>p. tame (toks p) \<Longrightarrow> P p \<Longrightarrow> \<not> at_parameter_list_end p \<and> \<not> at (symbol CHR '','') p) \<Longrightarrow> advances P R recover_to_parameter_boundary"
  unfolding recover_to_parameter_boundary_def
  by (intro advances_head advances_rules advances_then grows_rules; auto simp: parser_tests)

lemmas recover_to_parameter_boundary_head [advances_head] = advances_first [OF advances_recover_to_parameter_boundary]

lemma advances_recover_to_property_hook_boundary [advances_rules]:
  "(\<And>p. tame (toks p) \<Longrightarrow> P p \<Longrightarrow> \<not> at_statement_recovery_token p) \<Longrightarrow> advances P R recover_to_property_hook_boundary"
  unfolding recover_to_property_hook_boundary_def
  by (intro advances_first [OF advances_bump_while] advances_head advances_rules advances_then grows_rules; auto simp: parser_tests)

lemmas recover_to_property_hook_boundary_head [advances_head] = advances_first [OF advances_recover_to_property_hook_boundary]

lemma advances_recover_to_use_boundary [advances_rules]:
  "(\<And>p. tame (toks p) \<Longrightarrow> P p \<Longrightarrow> \<not> at (symbol CHR '','') p \<and> \<not> at_statement_recovery_token p) \<Longrightarrow> advances P R recover_to_use_boundary"
  unfolding recover_to_use_boundary_def
  by (intro advances_head advances_rules advances_then grows_rules; auto simp: parser_tests)

lemmas recover_to_use_boundary_head [advances_head] = advances_first [OF advances_recover_to_use_boundary]

lemma advances_recover_to_statement_boundary [advances_rules]:
  "(\<And>p. tame (toks p) \<Longrightarrow> P p \<Longrightarrow> \<not> at_statement_recovery_token p) \<Longrightarrow> advances P R recover_to_statement_boundary"
  unfolding recover_to_statement_boundary_def recover_until_def
  by (intro advances_head advances_rules advances_then grows_rules; auto simp: parser_tests)

lemmas recover_to_statement_boundary_head [advances_head] = advances_first [OF advances_recover_to_statement_boundary]

lemma advances_recover_to_expression_boundary [advances_rules]:
  "(\<And>p. tame (toks p) \<Longrightarrow> P p \<Longrightarrow> \<not> at_expr_recovery_token p) \<Longrightarrow> advances P R recover_to_expression_boundary"
  unfolding recover_to_expression_boundary_def recover_until_def
  by (intro advances_head advances_rules advances_then grows_rules; auto simp: parser_tests)

lemmas recover_to_expression_boundary_head [advances_head] = advances_first [OF advances_recover_to_expression_boundary]

section \<open>The grammar\<close>

text \<open>What the grammar functions rely on: a true result of an expression, and any result of one that does not
  start at a stop token, means that it advanced; so does a statement that does not start at a closing brace.\<close>

locale advancing_grammar = growing_grammar +
  assumes expression_true_advances: "advances any id (rec_expression_bp g n)"
    and expression_start_advances: "advances (\<lambda>p. \<not> at_expression_stop p) any (rec_expression_bp g n)"
    and statement_start_advances: "advances (\<lambda>p. \<not> at_eof p \<and> \<not> at (symbol CHR ''}'') p) any (rec_statement g)"
    and use_clause_start_advances: "advances (\<lambda>p. \<not> at_group_use_end p \<and> \<not> at (symbol CHR '','') p) any (rec_use_import_clause g b)"
begin

lemma advances_expression_true [advances_rules]: "advances P id (rec_expression_bp g n)" "advances P id (parse_expression g)"
  unfolding parse_expression_def using expression_true_advances by (rule advances_weaken; simp)+

lemma advances_expression_start:
  "(\<And>p. tame (toks p) \<Longrightarrow> P p \<Longrightarrow> \<not> at_expression_stop p) \<Longrightarrow> advances P R (rec_expression_bp g n)"
  "(\<And>p. tame (toks p) \<Longrightarrow> P p \<Longrightarrow> \<not> at_expression_stop p) \<Longrightarrow> advances P R (parse_expression g)"
  unfolding parse_expression_def using expression_start_advances by (rule advances_weaken; blast)+

lemma advances_statement [advances_rules]:
  "(\<And>p. tame (toks p) \<Longrightarrow> P p \<Longrightarrow> \<not> at_eof p \<and> \<not> at (symbol CHR ''}'') p) \<Longrightarrow> advances P R (rec_statement g)"
  using statement_start_advances by (rule advances_weaken; blast)

lemmas statement_head [advances_head] = advances_first [OF advances_statement]

lemma advances_use_clause [advances_rules]:
  "(\<And>p. tame (toks p) \<Longrightarrow> P p \<Longrightarrow> \<not> at_group_use_end p \<and> \<not> at (symbol CHR '','') p) \<Longrightarrow> advances P R (rec_use_import_clause g b)"
  using use_clause_start_advances by (rule advances_weaken; blast)

lemmas use_clause_head [advances_head] = advances_first [OF advances_use_clause]

lemma advances_parse_name [advances_rules]:
  "advances P id (parse_name g)"
  unfolding parse_name_def
  by (intro advances_first [OF advances_node] advances_head advances_rules advances_then grows_rules; auto simp: parser_tests)

lemma advances_intersection_tail [advances_rules]:
  "advances any snd (intersection_tail g v)"
  unfolding intersection_tail_def
  by (intro advances_head advances_rules advances_then grows_rules; auto simp: parser_tests)

lemma advances_union_tail [advances_rules]:
  "advances any snd (union_tail g v)"
  unfolding union_tail_def
  by (intro advances_head advances_rules advances_then grows_rules; auto simp: parser_tests)

lemma advances_parse_simple_interpolation [advances_rules]:
  "(\<And>p. tame (toks p) \<Longrightarrow> P p \<Longrightarrow> \<not> at_eof p) \<Longrightarrow> advances P R (parse_simple_interpolation g)"
  unfolding parse_simple_interpolation_def
  by (intro advances_head advances_rules advances_then grows_rules; auto simp: parser_tests)

lemmas parse_simple_interpolation_head [advances_head] = advances_first [OF advances_parse_simple_interpolation]

lemma advances_parse_complex_interpolation [advances_rules]:
  "(\<And>p. tame (toks p) \<Longrightarrow> P p \<Longrightarrow> \<not> at_eof p) \<Longrightarrow> advances P R (parse_complex_interpolation g)"
  unfolding parse_complex_interpolation_def
  by (intro advances_head advances_rules advances_then grows_rules; auto simp: parser_tests)

lemmas parse_complex_interpolation_head [advances_head] = advances_first [OF advances_parse_complex_interpolation]

lemma advances_parse_encapsed_part [advances_rules]:
  "(\<And>p. tame (toks p) \<Longrightarrow> P p \<Longrightarrow> \<not> at_eof p) \<Longrightarrow> advances P R (parse_encapsed_part g)"
  unfolding parse_encapsed_part_def
  by (intro advances_head advances_rules advances_then grows_rules; auto simp: parser_tests)

lemmas parse_encapsed_part_head [advances_head] = advances_first [OF advances_parse_encapsed_part]

lemma advances_parse_encapsed_string [advances_rules]:
  "(\<And>p. tame (toks p) \<Longrightarrow> P p \<Longrightarrow> \<not> at_eof p) \<Longrightarrow> advances P R (parse_encapsed_string g delimiter)"
  unfolding parse_encapsed_string_def
  by (intro advances_head advances_rules advances_then grows_rules; auto simp: parser_tests)

lemmas parse_encapsed_string_head [advances_head] = advances_first [OF advances_parse_encapsed_string]

lemma advances_parse_heredoc [advances_rules]:
  "(\<And>p. tame (toks p) \<Longrightarrow> P p \<Longrightarrow> \<not> at_eof p) \<Longrightarrow> advances P R (parse_heredoc g)"
  unfolding parse_heredoc_def
  by (intro advances_head advances_rules advances_then grows_rules; auto simp: parser_tests)

lemmas parse_heredoc_head [advances_head] = advances_first [OF advances_parse_heredoc]

lemma advances_parse_string_like [advances_rules]:
  "advances P id (parse_string_like g)"
  unfolding parse_string_like_def
  by (intro advances_first [OF advances_node] advances_head advances_rules advances_then grows_rules; auto simp: parser_tests)

lemma advances_recover_to_attribute_argument_boundary [advances_rules]:
  "(\<And>p. tame (toks p) \<Longrightarrow> P p \<Longrightarrow> \<not> at_eof p \<and> \<not> at (symbol CHR '','') p \<and> \<not> at (symbol CHR '')'') p \<and> \<not> at (symbol CHR '']'') p) \<Longrightarrow> advances P R (recover_to_attribute_argument_boundary g)"
  unfolding recover_to_attribute_argument_boundary_def
  unfolding argument_boundary_step_def
  by (intro advances_first [OF advances_ploop] advances_head advances_rules grows_rules; auto simp: parser_tests)

lemmas recover_to_attribute_argument_boundary_head [advances_head] = advances_first [OF advances_recover_to_attribute_argument_boundary]

lemma advances_parse_attribute_group [advances_rules]:
  "(\<And>p. tame (toks p) \<Longrightarrow> P p \<Longrightarrow> \<not> at_eof p) \<Longrightarrow> advances P R (parse_attribute_group g)"
  unfolding parse_attribute_group_def
  by (intro advances_head advances_rules advances_then grows_rules; auto simp: parser_tests)

lemmas parse_attribute_group_head [advances_head] = advances_first [OF advances_parse_attribute_group]

lemma advances_parse_attribute_groups [advances_rules]:
  "(\<And>p. tame (toks p) \<Longrightarrow> P p \<Longrightarrow> at (named T_Attribute) p \<and> \<not> at_eof p) \<Longrightarrow> advances P R (parse_attribute_groups g)"
  unfolding parse_attribute_groups_def
  by (intro advances_pwhile advances_head advances_rules advances_then grows_rules; auto simp: parser_tests)

lemmas parse_attribute_groups_head [advances_head] = advances_first [OF advances_parse_attribute_groups]

lemma advances_attribute_argument_step [advances_rules]:
  "advances any snd (attribute_argument_step g v)"
  unfolding attribute_argument_step_def
  by (intro advances_first [OF advances_or_else] advances_head advances_rules advances_then grows_rules; auto simp: parser_tests)

lemma advances_parse_attribute [advances_rules]:
  "(\<And>p. tame (toks p) \<Longrightarrow> P p \<Longrightarrow> \<not> at_eof p \<and> \<not> at (symbol CHR '','') p \<and> \<not> at (symbol CHR '']'') p \<and> \<not> at_attribute_recovery_end p) \<Longrightarrow> advances P R (parse_attribute g)"
  unfolding parse_attribute_def
  by (intro advances_choice advances_head advances_rules advances_then grows_rules; auto simp: parser_tests)

lemmas parse_attribute_head [advances_head] = advances_first [OF advances_parse_attribute]

lemma advances_attribute_group_step [advances_rules]:
  "advances any snd (attribute_group_step g parsed_attribute)"
  unfolding attribute_group_step_def
  by (intro advances_head advances_rules advances_then grows_rules; auto simp: parser_tests)

lemma advances_array_pair_step [advances_rules]:
  "(\<And>p. tame (toks p) \<Longrightarrow> P p \<Longrightarrow> \<not> at_eof p \<and> \<not> at (symbol close) p) \<Longrightarrow> advances P R (array_pair_step g close)"
  unfolding array_pair_step_def
  by (intro advances_head advances_rules advances_then grows_rules; auto simp: parser_tests)

lemmas array_pair_step_head [advances_head] = advances_first [OF advances_array_pair_step]

lemma advances_parse_array_body [advances_rules]:
  "(\<And>p. tame (toks p) \<Longrightarrow> P p \<Longrightarrow> \<not> at_eof p) \<Longrightarrow> advances P R (parse_array_body g close kind)"
  unfolding parse_array_body_def
  by (intro advances_head advances_rules advances_then grows_rules; auto simp: parser_tests)

lemmas parse_array_body_head [advances_head] = advances_first [OF advances_parse_array_body]

lemma advances_parse_array_expression [advances_rules]:
  "advances P id (parse_array_expression g)"
  unfolding parse_array_expression_def
  by (intro advances_first [OF advances_node] advances_head advances_rules advances_then grows_rules; auto simp: parser_tests)

lemma advances_parse_dim_fetch_tail [advances_rules]:
  "(\<And>p. tame (toks p) \<Longrightarrow> P p \<Longrightarrow> \<not> at_eof p) \<Longrightarrow> advances P R (parse_dim_fetch_tail g close)"
  unfolding parse_dim_fetch_tail_def
  by (intro advances_head advances_rules advances_then grows_rules; auto simp: parser_tests)

lemmas parse_dim_fetch_tail_head [advances_head] = advances_first [OF advances_parse_dim_fetch_tail]

lemma advances_parse_simple_variable [advances_rules]:
  "advances P id (parse_simple_variable g)"
  unfolding parse_simple_variable_def
  by (intro advances_first [OF advances_node] advances_head advances_rules advances_then grows_rules; auto simp: parser_tests)

lemma advances_parse_nested_php_mode_boundary [advances_rules]:
  "(\<And>p. tame (toks p) \<Longrightarrow> P p \<Longrightarrow> at_nested_php_mode_boundary p \<and> \<not> at_eof p) \<Longrightarrow> advances P R (parse_nested_php_mode_boundary g)"
  unfolding parse_nested_php_mode_boundary_def
  unfolding pif_bind State_Monad.bind_left_identity
  by (intro advances_head advances_rules advances_then grows_rules; auto simp: parser_tests)

lemmas parse_nested_php_mode_boundary_head [advances_head] = advances_first [OF advances_parse_nested_php_mode_boundary]

lemma advances_guarded_statement [advances_rules]:
  "(\<And>p. tame (toks p) \<Longrightarrow> P p \<Longrightarrow> \<not> at_eof p) \<Longrightarrow> advances P R (guarded_statement g)"
  unfolding guarded_statement_def
  by (intro advances_head advances_rules advances_then grows_rules; auto simp: parser_tests)

lemmas guarded_statement_head [advances_head] = advances_first [OF advances_guarded_statement]

lemma advances_parse_block_statement [advances_rules]:
  "(\<And>p. tame (toks p) \<Longrightarrow> P p \<Longrightarrow> \<not> at_eof p) \<Longrightarrow> advances P R (parse_block_statement g)"
  unfolding parse_block_statement_def
  by (intro advances_head advances_rules advances_then grows_rules; auto simp: parser_tests)

lemmas parse_block_statement_head [advances_head] = advances_first [OF advances_parse_block_statement]

lemma advances_argument_expression [advances_rules]:
  "(\<And>p. tame (toks p) \<Longrightarrow> P p \<Longrightarrow> \<not> at_eof p \<and> \<not> at (symbol CHR '','') p \<and> \<not> at (symbol CHR '')'') p) \<Longrightarrow> advances P R (argument_expression g)"
  unfolding argument_expression_def
  by (intro advances_head advances_rules advances_then grows_rules; auto simp: parser_tests)

lemmas argument_expression_head [advances_head] = advances_first [OF advances_argument_expression]

lemma advances_parse_argument [advances_rules]:
  "(\<And>p. tame (toks p) \<Longrightarrow> P p \<Longrightarrow> \<not> at_eof p \<and> \<not> at (symbol CHR '','') p \<and> \<not> at (symbol CHR '')'') p) \<Longrightarrow> advances P R (parse_argument g)"
  unfolding parse_argument_def
  by (intro advances_head advances_rules advances_then grows_rules; auto simp: parser_tests)

lemmas parse_argument_head [advances_head] = advances_first [OF advances_parse_argument]

lemma advances_call_argument_step [advances_rules]:
  "advances any snd (call_argument_step g saw_argument)"
  unfolding call_argument_step_def
  by (intro advances_head advances_rules advances_then grows_rules; auto simp: parser_tests)

lemma advances_parse_call_tail [advances_rules]:
  "(\<And>p. tame (toks p) \<Longrightarrow> P p \<Longrightarrow> \<not> at_eof p) \<Longrightarrow> advances P R (parse_call_tail g)"
  unfolding parse_call_tail_def
  by (intro advances_head advances_rules advances_then grows_rules; auto simp: parser_tests)

lemmas parse_call_tail_head [advances_head] = advances_first [OF advances_parse_call_tail]

lemma advances_expect_function_keyword [advances_rules]:
  "(\<And>p. tame (toks p) \<Longrightarrow> P p \<Longrightarrow> at (named T_Function) p \<and> \<not> at_eof p) \<Longrightarrow> advances P R expect_function_keyword"
  unfolding expect_function_keyword_def
  by (rule advances_pif, simp add: parser_tests, rule advances_bump, blast, rule advances_absurd, blast, intro grows_rules)

lemmas expect_function_keyword_head [advances_head] = advances_first [OF advances_expect_function_keyword]

lemma advances_parse_parameter [advances_rules]:
  "(\<And>p. tame (toks p) \<Longrightarrow> P p \<Longrightarrow> \<not> at_parameter_list_end p \<and> \<not> at (symbol CHR '','') p) \<Longrightarrow> advances P R (parse_parameter g)"
  unfolding parse_parameter_def
  by (intro advances_then [of "parse_attribute_groups g"] advances_then [of bump_trivia] advances_then [of "parse_promoted_parameter_modifiers g"] advances_then [of "parse_optional_type g"] advances_then [of parse_optional_ampersand] advances_then [of "pwhen (at (named T_Ellipsis)) bump"] advances_first [OF advances_pif] advances_head advances_rules advances_then grows_rules; auto simp: parser_tests)

lemmas parse_parameter_head [advances_head] = advances_first [OF advances_parse_parameter]

lemma advances_parameter_step [advances_rules]:
  "advances any snd (parameter_step g v)"
  unfolding parameter_step_def
  by (intro advances_head advances_rules advances_then grows_rules; auto simp: parser_tests)

lemma advances_function_rest [advances_rules]:
  "(\<And>p. tame (toks p) \<Longrightarrow> P p \<Longrightarrow> at (named T_Function) p \<and> \<not> at_eof p) \<Longrightarrow> advances P R (function_rest g name_message context)"
  unfolding function_rest_def
  by (intro advances_head advances_rules advances_then grows_rules; auto simp: parser_tests)

lemmas function_rest_head [advances_head] = advances_first [OF advances_function_rest]

lemma advances_parse_method_member_body [advances_rules]:
  "(\<And>p. tame (toks p) \<Longrightarrow> P p \<Longrightarrow> at (named T_Function) p \<and> \<not> at_eof p) \<Longrightarrow> advances P R (parse_method_member_body g)"
  unfolding parse_method_member_body_def
  by (intro advances_head advances_rules advances_then grows_rules; auto simp: parser_tests)

lemmas parse_method_member_body_head [advances_head] = advances_first [OF advances_parse_method_member_body]

lemma advances_parse_property_hook [advances_rules]:
  "(\<And>p. tame (toks p) \<Longrightarrow> P p \<Longrightarrow> \<not> at_statement_recovery_token p) \<Longrightarrow> advances P R (parse_property_hook g)"
  unfolding parse_property_hook_def
  by (intro advances_then [of "parse_modifiers g"] advances_then [of bump_trivia] advances_first [OF advances_pif] advances_head advances_rules advances_then grows_rules; auto simp: parser_tests)

lemmas parse_property_hook_head [advances_head] = advances_first [OF advances_parse_property_hook]

lemma advances_property_tokens_step [advances_rules]:
  "(\<And>p. tame (toks p) \<Longrightarrow> P p \<Longrightarrow> \<not> at_eof p) \<Longrightarrow> advances P R (property_tokens_step g)"
  unfolding property_tokens_step_def
  by (intro advances_head advances_rules advances_then grows_rules; auto simp: parser_tests)

lemmas property_tokens_step_head [advances_head] = advances_first [OF advances_property_tokens_step]

lemma advances_parse_property_hook_list [advances_rules]:
  "(\<And>p. tame (toks p) \<Longrightarrow> P p \<Longrightarrow> \<not> at_eof p) \<Longrightarrow> advances P R (parse_property_hook_list g)"
  unfolding parse_property_hook_list_def
  by (intro advances_head advances_rules advances_then grows_rules; auto simp: parser_tests)

lemmas parse_property_hook_list_head [advances_head] = advances_first [OF advances_parse_property_hook_list]

lemma advances_consume_property_member [advances_rules]:
  "(\<And>p. tame (toks p) \<Longrightarrow> P p \<Longrightarrow> \<not> at_statement_recovery_token p) \<Longrightarrow> advances P R (consume_property_member g)"
  unfolding consume_property_member_def
  by (intro advances_head advances_rules advances_then grows_rules; auto simp: parser_tests)

lemmas consume_property_member_head [advances_head] = advances_first [OF advances_consume_property_member]

lemma advances_consume_member_with_optional_body [advances_rules]:
  "(\<And>p. tame (toks p) \<Longrightarrow> P p \<Longrightarrow> at (named T_Use) p \<and> \<not> at_eof p) \<Longrightarrow> advances P R (consume_member_with_optional_body g)"
  unfolding consume_member_with_optional_body_def
  by (intro advances_first [OF advances_bump_while] advances_head advances_rules advances_then grows_rules; auto simp: parser_tests)

lemmas consume_member_with_optional_body_head [advances_head] = advances_first [OF advances_consume_member_with_optional_body]

lemma advances_class_const_step [advances_rules]:
  "advances any snd (class_const_step g v)"
  unfolding class_const_step_def
  by (intro advances_head advances_rules advances_then grows_rules; auto simp: parser_tests)

lemma advances_parse_class_const_member [advances_rules]:
  "(\<And>p. tame (toks p) \<Longrightarrow> P p \<Longrightarrow> \<not> at_eof p) \<Longrightarrow> advances P R (parse_class_const_member g)"
  unfolding parse_class_const_member_def
  by (intro advances_head advances_rules advances_then grows_rules; auto simp: parser_tests)

lemmas parse_class_const_member_head [advances_head] = advances_first [OF advances_parse_class_const_member]

lemma advances_parse_member [advances_rules]:
  "(\<And>p. tame (toks p) \<Longrightarrow> P p \<Longrightarrow> \<not> at_statement_recovery_token p) \<Longrightarrow> advances P R (parse_member g)"
  unfolding parse_member_def
  by (intro advances_head advances_rules advances_then grows_rules; auto simp: parser_tests)

lemmas parse_member_head [advances_head] = advances_first [OF advances_parse_member]

lemma advances_parse_property_fetch_tail [advances_rules]:
  "(\<And>p. tame (toks p) \<Longrightarrow> P p \<Longrightarrow> \<not> at_eof p) \<Longrightarrow> advances P R (parse_property_fetch_tail g)"
  unfolding parse_property_fetch_tail_def
  by (intro advances_head advances_rules advances_then grows_rules; auto simp: parser_tests)

lemmas parse_property_fetch_tail_head [advances_head] = advances_first [OF advances_parse_property_fetch_tail]

lemma advances_parse_yield_expression [advances_rules]:
  "(\<And>p. tame (toks p) \<Longrightarrow> P p \<Longrightarrow> \<not> at_eof p) \<Longrightarrow> advances P R (parse_yield_expression g)"
  unfolding parse_yield_expression_def
  by (intro advances_head advances_rules advances_then grows_rules; auto simp: parser_tests)

lemmas parse_yield_expression_head [advances_head] = advances_first [OF advances_parse_yield_expression]

lemma advances_parse_throw_expression [advances_rules]:
  "(\<And>p. tame (toks p) \<Longrightarrow> P p \<Longrightarrow> \<not> at_eof p) \<Longrightarrow> advances P R (parse_throw_expression g)"
  unfolding parse_throw_expression_def
  by (intro advances_head advances_rules advances_then grows_rules; auto simp: parser_tests)

lemmas parse_throw_expression_head [advances_head] = advances_first [OF advances_parse_throw_expression]

lemma advances_match_condition_step [advances_rules]:
  "advances any snd (match_condition_step g v)"
  unfolding match_condition_step_def
  by (intro advances_head advances_rules advances_then grows_rules; auto simp: parser_tests)

lemma advances_match_arm_body [advances_rules]:
  "advances P snd (match_arm_body g v)"
  unfolding match_arm_body_def
  by (intro advances_head advances_rules advances_then grows_rules; auto simp: parser_tests)

lemma advances_match_arm_step [advances_rules]:
  "advances any snd (match_arm_step g v)"
  unfolding match_arm_step_def
  by (intro advances_head advances_rules advances_then grows_rules; auto simp: parser_tests)

lemma advances_parse_match_expression [advances_rules]:
  "(\<And>p. tame (toks p) \<Longrightarrow> P p \<Longrightarrow> \<not> at_eof p) \<Longrightarrow> advances P R (parse_match_expression g)"
  unfolding parse_match_expression_def
  by (intro advances_head advances_rules advances_then grows_rules; auto simp: parser_tests)

lemmas parse_match_expression_head [advances_head] = advances_first [OF advances_parse_match_expression]

lemma advances_construct_argument_step [advances_rules]:
  "advances any snd (construct_argument_step g allow_multiple v)"
  unfolding construct_argument_step_def
  by (intro advances_head advances_rules advances_then grows_rules; auto simp: parser_tests)

lemma advances_parse_construct_expression [advances_rules]:
  "(\<And>p. tame (toks p) \<Longrightarrow> P p \<Longrightarrow> \<not> at_eof p) \<Longrightarrow> advances P R (parse_construct_expression g)"
  unfolding parse_construct_expression_def
  by (intro advances_head advances_rules advances_then grows_rules; auto simp: parser_tests)

lemmas parse_construct_expression_head [advances_head] = advances_first [OF advances_parse_construct_expression]

lemma advances_class_reference_step [advances_rules]:
  "advances any snd (class_reference_step g v)"
  unfolding class_reference_step_def
  by (intro advances_head advances_rules advances_then grows_rules; auto simp: parser_tests)

lemma advances_parse_new_expression [advances_rules]:
  "(\<And>p. tame (toks p) \<Longrightarrow> P p \<Longrightarrow> \<not> at_eof p) \<Longrightarrow> advances P R (parse_new_expression g)"
  unfolding parse_new_expression_def
  by (intro advances_head advances_rules advances_then grows_rules; auto simp: parser_tests)

lemmas parse_new_expression_head [advances_head] = advances_first [OF advances_parse_new_expression]

lemma advances_parse_clone_expression [advances_rules]:
  "(\<And>p. tame (toks p) \<Longrightarrow> P p \<Longrightarrow> \<not> at_eof p) \<Longrightarrow> advances P R (parse_clone_expression g)"
  unfolding parse_clone_expression_def
  by (intro advances_head advances_rules advances_then grows_rules; auto simp: parser_tests)

lemmas parse_clone_expression_head [advances_head] = advances_first [OF advances_parse_clone_expression]

lemma advances_parse_parenthesized [advances_rules]:
  "(\<And>p. tame (toks p) \<Longrightarrow> P p \<Longrightarrow> \<not> at_eof p) \<Longrightarrow> advances P R (parse_parenthesized g)"
  unfolding parse_parenthesized_def
  by (intro advances_head advances_rules advances_then grows_rules; auto simp: parser_tests)

lemmas parse_parenthesized_head [advances_head] = advances_first [OF advances_parse_parenthesized]

lemma advances_parse_ternary_tail [advances_rules]:
  "(\<And>p. tame (toks p) \<Longrightarrow> P p \<Longrightarrow> \<not> at_eof p) \<Longrightarrow> advances P R (parse_ternary_tail g)"
  unfolding parse_ternary_tail_def
  by (intro advances_head advances_rules advances_then grows_rules; auto simp: parser_tests)

lemmas parse_ternary_tail_head [advances_head] = advances_first [OF advances_parse_ternary_tail]

lemma no_operator_at_eof [parser_tests]: "binary_operator (TokenK Eof) = None"
  by (simp add: binary_operator_def is_assignment_operator_def is_bitwise_and_operator_def is_equality_operator_def
      is_comparison_operator_def is_pipe_operator_def)

lemma advances_parse_binary_tail [advances_rules]:
  "advances P snd (parse_binary_tail g min_bp v)"
  unfolding parse_binary_tail_def
  by (intro advances_head advances_rules advances_then grows_rules; auto simp: parser_tests)

lemma advances_expression_tail_step [advances_rules]:
  "advances any snd (expression_tail_step g min_bp v)"
  unfolding expression_tail_step_def
  by (intro advances_head advances_rules advances_then grows_rules; auto simp: parser_tests)

lemma advances_closure_body:
  assumes "\<And>p. tame (toks p) \<Longrightarrow> P p \<Longrightarrow> \<not> at_eof p \<and> (at kind p \<or> at (named T_Static) p \<or> at (named T_Attribute) p)"
    and "advances (at kind) any keyword" "grows any rest"
  shows "advances P any (do { parse_attribute_groups g; bump_trivia; pwhen (at (named T_Static)) (do { bump; bump_trivia }); keyword; rest })"
proof -
  let ?body = "do { parse_attribute_groups g; bump_trivia; pwhen (at (named T_Static)) (do { bump; bump_trivia }); keyword; rest }"
  have k: "grows any keyword" using assms(2) by (rule advances_grows)
  have "advances (at kind) any ?body"
    using k assms(3) by (intro advances_first [OF assms(2)] advances_then grows_rules; simp)
  moreover have "advances (at (named T_Static)) any ?body"
    using k assms(3) unfolding pif_bind State_Monad.bind_left_identity
    by (intro advances_then [of "parse_attribute_groups g"] advances_then [of bump_trivia] advances_pif advances_first [OF advances_head(1)]
        advances_absurd [of "\<lambda>p. at (named T_Static) p \<and> \<not> at (named T_Static) p"] grows_rules; auto simp: parser_tests)
  moreover have "advances (at (named T_Attribute)) any ?body"
    using k assms(3) by (intro advances_head grows_rules; auto simp: parser_tests)
  ultimately have "advances (\<lambda>p. at kind p \<or> at (named T_Static) p \<or> at (named T_Attribute) p) any ?body"
    by (intro advances_cases)
  then show ?thesis by (rule advances_weaken) (use assms(1) in auto)
qed

lemma advances_parse_closure_expression [advances_rules]: "advances P id (parse_closure_expression g)"
  unfolding parse_closure_expression_def
  by (intro advances_pif advances_first [OF advances_node] advances_closure_body [where kind = "named T_Function"]
      advances_rules grows_rules; auto simp: parser_tests)

lemma advances_arrow_keyword: "advances (at (named T_Fn)) any (bump_or (named T_Fn) e)" if "grows any e" for e
  using that by (intro advances_pif advances_bump advances_absurd; auto simp: parser_tests)

lemma advances_parse_arrow_function_expression [advances_rules]: "advances P id (parse_arrow_function_expression g)"
  unfolding parse_arrow_function_expression_def
  by (intro advances_pif advances_first [OF advances_node] advances_closure_body [where kind = "named T_Fn"] advances_arrow_keyword
      advances_rules grows_rules; auto simp: parser_tests)

lemma advances_parse_primary [advances_rules]:
  "advances P id (parse_primary g)"
  unfolding parse_primary_def
  by (intro advances_pif_keep advances_first [OF advances_node] advances_head advances_rules advances_then grows_rules; auto simp: parser_tests)

lemma advances_parse_prefix_or_primary [advances_rules]:
  "advances P id (parse_prefix_or_primary g)"
  unfolding parse_prefix_or_primary_def
  by (intro advances_head advances_rules advances_then grows_rules; auto simp: parser_tests)

lemma advances_parse_expression_bp [advances_rules]: "advances P id (parse_expression_bp g min_bp)"
  unfolding parse_expression_bp_def
  by (intro advances_pif advances_node_with advances_then [of bump_trivia] advances_choice
      advances_rules advances_then grows_rules; auto simp: parser_tests)

lemma advances_parse_expression_bp_start: "advances (\<lambda>p. \<not> at_expression_stop p) any (parse_expression_bp g min_bp)"
  unfolding parse_expression_bp_def
  by (intro advances_pif advances_node_with advances_then [of bump_trivia] advances_choice
      advances_head advances_rules advances_then grows_rules; auto simp: parser_tests)

lemma advances_parse_function_declaration [advances_rules]:
  assumes "\<And>p. tame (toks p) \<Longrightarrow> P p \<Longrightarrow> at (named T_Function) p \<or> at (named T_Attribute) p"
  shows "advances P R (parse_function_declaration g)"
proof -
  have "advances (at (named T_Function)) R (parse_function_declaration g)"
    unfolding parse_function_declaration_def
    by (intro advances_node advances_then [of "parse_attribute_groups g"] advances_function_rest grows_rules; auto simp: parser_tests)
  moreover have "advances (at (named T_Attribute)) R (parse_function_declaration g)"
    unfolding parse_function_declaration_def by (intro advances_node advances_head grows_rules; auto simp: parser_tests)
  ultimately show ?thesis by (rule advances_weaken [OF advances_cases]) (use assms in auto)
qed

lemma advances_parse_modifiers:
  "(\<And>p. tame (toks p) \<Longrightarrow> P p \<Longrightarrow> at_modifier p \<and> \<not> at_eof p) \<Longrightarrow> advances P R (parse_modifiers g)"
  unfolding parse_modifiers_def modifier_step_def
  by (intro advances_ploop advances_head advances_rules advances_then grows_rules; auto simp: parser_tests)

lemma advances_parse_class_like [advances_rules]:
  assumes "\<And>p. tame (toks p) \<Longrightarrow> P p \<Longrightarrow> at_class_like_declaration p \<or> at (named T_Attribute) p"
  shows "advances P R (parse_class_like g named_required)"
proof -
  let ?keyword = "\<lambda>p. current p \<in> set [named T_Class, named T_Interface, named T_Trait, named T_Enum]"
  have "advances at_modifier R (parse_class_like g named_required)"
    unfolding parse_class_like_def
    by (intro advances_node_with advances_then [of "parse_attribute_groups g"] advances_first [OF advances_parse_modifiers] grows_rules;
        auto simp: parser_tests)
  moreover have "advances ?keyword R (parse_class_like g named_required)"
    unfolding parse_class_like_def
    by (intro advances_node_with advances_then [of "parse_attribute_groups g"] advances_then [of "parse_modifiers g"]
          advances_pif advances_head advances_absurd [where m = "State_Monad.bind (error_expected _ _) _"] grows_rules;
        auto simp: parser_tests)
  moreover have "advances (at (named T_Attribute)) R (parse_class_like g named_required)"
    unfolding parse_class_like_def by (intro advances_node_with advances_head grows_rules; auto simp: parser_tests)
  ultimately have "advances (\<lambda>p. at_modifier p \<or> ?keyword p \<or> at (named T_Attribute) p) R (parse_class_like g named_required)"
    by (intro advances_cases)
  then show ?thesis by (rule advances_weaken) (use assms in \<open>fastforce simp: at_class_like_declaration_def at_modifier_def\<close>)+
qed

lemma advances_parse_attributed_declaration [advances_rules]:
  "(\<And>p. tame (toks p) \<Longrightarrow> P p \<Longrightarrow> at (named T_Attribute) p \<and> \<not> at_eof p) \<Longrightarrow> advances P R (parse_attributed_declaration g)"
  unfolding parse_attributed_declaration_def
  by (intro advances_rules advances_then [of "error_expected _ _"] grows_rules; auto simp: parser_tests)

lemma advances_const_step [advances_rules]:
  "advances any snd (const_step g v)"
  unfolding const_step_def
  by (intro advances_head advances_rules advances_then grows_rules; auto simp: parser_tests)

lemma advances_parse_const_declaration [advances_rules]:
  "(\<And>p. tame (toks p) \<Longrightarrow> P p \<Longrightarrow> \<not> at_eof p) \<Longrightarrow> advances P R (parse_const_declaration g)"
  unfolding parse_const_declaration_def
  by (intro advances_head advances_rules advances_then grows_rules; auto simp: parser_tests)

lemmas parse_const_declaration_head [advances_head] = advances_first [OF advances_parse_const_declaration]

lemma advances_parse_namespace_declaration [advances_rules]:
  "(\<And>p. tame (toks p) \<Longrightarrow> P p \<Longrightarrow> \<not> at_eof p) \<Longrightarrow> advances P R (parse_namespace_declaration g)"
  unfolding parse_namespace_declaration_def
  by (intro advances_head advances_rules advances_then grows_rules; auto simp: parser_tests)

lemmas parse_namespace_declaration_head [advances_head] = advances_first [OF advances_parse_namespace_declaration]

lemma advances_parse_use_import_clause [advances_rules]:
  "(\<And>p. tame (toks p) \<Longrightarrow> P p \<Longrightarrow> \<not> at_group_use_end p \<and> \<not> at (symbol CHR '','') p) \<Longrightarrow> advances P R (parse_use_import_clause g b)"
  unfolding parse_use_import_clause_def
  by (intro advances_then [of bump_trivia] advances_then [of "if b then parse_optional_use_kind else skip"] advances_choice advances_head advances_rules advances_then grows_rules; auto simp: parser_tests)

lemmas parse_use_import_clause_head [advances_head] = advances_first [OF advances_parse_use_import_clause]

lemma advances_group_use_step [advances_rules]:
  "advances any snd (group_use_step g v)"
  unfolding group_use_step_def
  by (intro advances_head advances_rules advances_then grows_rules; auto simp: parser_tests)

lemma advances_use_step [advances_rules]:
  "advances any snd (use_step g v)"
  unfolding use_step_def
  by (intro advances_head advances_rules advances_then grows_rules; auto simp: parser_tests)

lemma advances_parse_use_declaration [advances_rules]:
  "(\<And>p. tame (toks p) \<Longrightarrow> P p \<Longrightarrow> \<not> at_eof p) \<Longrightarrow> advances P R (parse_use_declaration g)"
  unfolding parse_use_declaration_def
  by (intro advances_head advances_rules advances_then grows_rules; auto simp: parser_tests)

lemmas parse_use_declaration_head [advances_head] = advances_first [OF advances_parse_use_declaration]

lemma advances_expression_list_step [advances_rules]:
  "advances any snd (expression_list_step g context end_kind v)"
  unfolding expression_list_step_def
  by (intro advances_head advances_rules advances_then grows_rules; auto simp: parser_tests)

lemma advances_for_section_step [advances_rules]:
  "advances any snd (for_section_step g context v)"
  unfolding for_section_step_def
  by (intro advances_head advances_rules advances_then grows_rules; auto simp: parser_tests)

lemma advances_parse_echo_step [advances_rules]:
  "advances any snd (parse_echo_step g v)"
  unfolding parse_echo_step_def
  by (intro advances_head advances_rules advances_then grows_rules; auto simp: parser_tests)

lemma advances_parse_echo_statement [advances_rules]:
  "(\<And>p. tame (toks p) \<Longrightarrow> P p \<Longrightarrow> \<not> at_eof p) \<Longrightarrow> advances P R (parse_echo_statement g)"
  unfolding parse_echo_statement_def
  by (intro advances_head advances_rules advances_then grows_rules; auto simp: parser_tests)

lemmas parse_echo_statement_head [advances_head] = advances_first [OF advances_parse_echo_statement]

lemma advances_parse_if_statement [advances_rules]:
  "(\<And>p. tame (toks p) \<Longrightarrow> P p \<Longrightarrow> \<not> at_eof p) \<Longrightarrow> advances P R (parse_if_statement g)"
  unfolding parse_if_statement_def
  by (intro advances_head advances_rules advances_then grows_rules; auto simp: parser_tests)

lemmas parse_if_statement_head [advances_head] = advances_first [OF advances_parse_if_statement]

lemma advances_parse_loop_statement [advances_rules]:
  "(\<And>p. tame (toks p) \<Longrightarrow> P p \<Longrightarrow> \<not> at_eof p) \<Longrightarrow> advances P R (parse_loop_statement g start_keyword end_keyword kind)"
  unfolding parse_loop_statement_def
  by (intro advances_head advances_rules advances_then grows_rules; auto simp: parser_tests)

lemmas parse_loop_statement_head [advances_head] = advances_first [OF advances_parse_loop_statement]

lemma advances_parse_do_while_statement [advances_rules]:
  "(\<And>p. tame (toks p) \<Longrightarrow> P p \<Longrightarrow> \<not> at_eof p) \<Longrightarrow> advances P R (parse_do_while_statement g)"
  unfolding parse_do_while_statement_def
  by (intro advances_head advances_rules advances_then grows_rules; auto simp: parser_tests)

lemmas parse_do_while_statement_head [advances_head] = advances_first [OF advances_parse_do_while_statement]

lemma advances_parse_switch_statement [advances_rules]:
  "(\<And>p. tame (toks p) \<Longrightarrow> P p \<Longrightarrow> \<not> at_eof p) \<Longrightarrow> advances P R (parse_switch_statement g)"
  unfolding parse_switch_statement_def
  by (intro advances_head advances_rules advances_then grows_rules; auto simp: parser_tests)

lemmas parse_switch_statement_head [advances_head] = advances_first [OF advances_parse_switch_statement]

lemma advances_parse_catch_clause [advances_rules]:
  "(\<And>p. tame (toks p) \<Longrightarrow> P p \<Longrightarrow> \<not> at_eof p) \<Longrightarrow> advances P R (parse_catch_clause g)"
  unfolding parse_catch_clause_def
  by (intro advances_head advances_rules advances_then grows_rules; auto simp: parser_tests)

lemmas parse_catch_clause_head [advances_head] = advances_first [OF advances_parse_catch_clause]

lemma advances_parse_try_statement [advances_rules]:
  "(\<And>p. tame (toks p) \<Longrightarrow> P p \<Longrightarrow> \<not> at_eof p) \<Longrightarrow> advances P R (parse_try_statement g)"
  unfolding parse_try_statement_def
  by (intro advances_head advances_rules advances_then grows_rules; auto simp: parser_tests)

lemmas parse_try_statement_head [advances_head] = advances_first [OF advances_parse_try_statement]

lemma advances_parse_declare_statement [advances_rules]:
  "(\<And>p. tame (toks p) \<Longrightarrow> P p \<Longrightarrow> \<not> at_eof p) \<Longrightarrow> advances P R (parse_declare_statement g)"
  unfolding parse_declare_statement_def
  by (intro advances_head advances_rules advances_then grows_rules; auto simp: parser_tests)

lemmas parse_declare_statement_head [advances_head] = advances_first [OF advances_parse_declare_statement]

lemma advances_parse_misc_until_semicolon_statement [advances_rules]:
  "(\<And>p. tame (toks p) \<Longrightarrow> P p \<Longrightarrow> \<not> at_eof p) \<Longrightarrow> advances P R (parse_misc_until_semicolon_statement kind)"
  unfolding parse_misc_until_semicolon_statement_def
  by (intro advances_head advances_rules advances_then grows_rules; auto simp: parser_tests)

lemmas parse_misc_until_semicolon_statement_head [advances_head] = advances_first [OF advances_parse_misc_until_semicolon_statement]

lemma advances_parse_expression_list_statement [advances_rules]:
  "(\<And>p. tame (toks p) \<Longrightarrow> P p \<Longrightarrow> \<not> at_eof p) \<Longrightarrow> advances P R (parse_expression_list_statement g kind context)"
  unfolding parse_expression_list_statement_def
  by (intro advances_head advances_rules advances_then grows_rules; auto simp: parser_tests)

lemmas parse_expression_list_statement_head [advances_head] = advances_first [OF advances_parse_expression_list_statement]

lemma advances_parse_parenthesized_construct_statement [advances_rules]:
  "(\<And>p. tame (toks p) \<Longrightarrow> P p \<Longrightarrow> \<not> at_eof p) \<Longrightarrow> advances P R (parse_parenthesized_construct_statement g kind)"
  unfolding parse_parenthesized_construct_statement_def
  by (intro advances_head advances_rules advances_then grows_rules; auto simp: parser_tests)

lemmas parse_parenthesized_construct_statement_head [advances_head] = advances_first [OF advances_parse_parenthesized_construct_statement]

lemma advances_parse_label_statement [advances_rules]:
  "(\<And>p. tame (toks p) \<Longrightarrow> P p \<Longrightarrow> \<not> at_eof p) \<Longrightarrow> advances P R parse_label_statement"
  unfolding parse_label_statement_def
  by (intro advances_head advances_rules advances_then grows_rules; auto simp: parser_tests)

lemmas parse_label_statement_head [advances_head] = advances_first [OF advances_parse_label_statement]

lemma advances_parse_optional_expression_statement [advances_rules]:
  "(\<And>p. tame (toks p) \<Longrightarrow> P p \<Longrightarrow> \<not> at_eof p) \<Longrightarrow> advances P R (parse_optional_expression_statement g kind)"
  unfolding parse_optional_expression_statement_def
  by (intro advances_head advances_rules advances_then grows_rules; auto simp: parser_tests)

lemmas parse_optional_expression_statement_head [advances_head] = advances_first [OF advances_parse_optional_expression_statement]

lemma advances_parse_required_expression_statement [advances_rules]:
  "(\<And>p. tame (toks p) \<Longrightarrow> P p \<Longrightarrow> \<not> at_eof p) \<Longrightarrow> advances P R (parse_required_expression_statement g kind)"
  unfolding parse_required_expression_statement_def
  by (intro advances_head advances_rules advances_then grows_rules; auto simp: parser_tests)

lemmas parse_required_expression_statement_head [advances_head] = advances_first [OF advances_parse_required_expression_statement]

lemma advances_catch_step [advances_rules]:
  "advances any snd (catch_step g has_handler)"
  unfolding catch_step_def
  by (intro advances_head advances_rules advances_then grows_rules; auto simp: parser_tests)

lemma advances_parse_expression_statement [advances_rules]:
  "(\<And>p. tame (toks p) \<Longrightarrow> P p \<Longrightarrow> \<not> at_statement_recovery_token p) \<Longrightarrow> advances P R (parse_expression_statement g)"
  unfolding parse_expression_statement_def
  by (intro advances_first [OF advances_or_else] advances_head advances_rules advances_then grows_rules; auto simp: parser_tests)

lemmas parse_expression_statement_head [advances_head] = advances_first [OF advances_parse_expression_statement]

lemma advances_parse_declaration_or_expression [advances_rules]:
  "(\<And>p. tame (toks p) \<Longrightarrow> P p \<Longrightarrow> \<not> at_statement_recovery_token p) \<Longrightarrow> advances P R (parse_declaration_or_expression g)"
  unfolding parse_declaration_or_expression_def
  by (intro advances_pif_keep advances_head advances_rules advances_then grows_rules; auto simp: parser_tests)

lemmas parse_declaration_or_expression_head [advances_head] = advances_first [OF advances_parse_declaration_or_expression]

lemma advances_parse_statement: "advances (\<lambda>p. \<not> at_eof p \<and> \<not> at (symbol CHR ''}'') p) any (parse_statement g)"
  unfolding parse_statement_def
  by (rule advances_pif, simp add: parser_tests) (intro advances_pif_keep advances_rules; auto simp: parser_tests)+

lemma advances_parse_php_block [advances_rules]:
  "(\<And>p. tame (toks p) \<Longrightarrow> P p \<Longrightarrow> \<not> at_eof p) \<Longrightarrow> advances P R (parse_php_block g)"
  unfolding parse_php_block_def
  by (intro advances_head advances_rules advances_then grows_rules; auto simp: parser_tests)

lemmas parse_php_block_head [advances_head] = advances_first [OF advances_parse_php_block]

lemma advances_error_and_bump [advances_rules]:
  "(\<And>p. tame (toks p) \<Longrightarrow> P p \<Longrightarrow> \<not> at_eof p) \<Longrightarrow> advances P R (error_and_bump e)"
  unfolding error_and_bump_def by (intro advances_then [of "peek _"] advances_then [of "parser_error _"] advances_bump grows_rules)

lemma advances_source_file_step [advances_rules]:
  "(\<And>p. tame (toks p) \<Longrightarrow> P p \<Longrightarrow> \<not> at_eof p) \<Longrightarrow> advances P R (source_file_step g)"
  unfolding source_file_step_def
  by (intro advances_head advances_rules advances_then grows_rules; auto simp: parser_tests)

lemmas source_file_step_head [advances_head] = advances_first [OF advances_source_file_step]

end

lemma grammar_advances: "advancing_grammar (grammar n)"
proof (induction n)
  case 0
  show ?case by unfold_locales (simp; intro advances_first [OF advances_exhausted] advances_exhausted grows_rules)+
next
  case (Suc n)
  note rules = advancing_grammar.advances_parse_expression_bp [OF Suc] advancing_grammar.advances_parse_expression_bp_start [OF Suc]
    advancing_grammar.advances_parse_statement [OF Suc] advancing_grammar.advances_parse_use_import_clause [OF Suc]
  show ?case by unfold_locales (simp add: Let_def rules)+
qed

interpretation grammar: advancing_grammar "grammar n" for n
  by (rule grammar_advances)

end
