(* ===== verification/Parser_Termination.thy ===== *)
theory Parser_Termination
  imports Parser_Progress
begin

text \<open>
  The grammar returns: on tame tokens, fuel for two turns per token and one more is enough for every
  function that starts an expression, and one more than that for a statement.
\<close>

section \<open>Steps that do not call back\<close>

lemma returns_bump_any: "(\<And>x. returns n any k (f x)) \<Longrightarrow> returns n any k (State_Monad.bind bump f)"
  by (intro returns_bind returns_bump)

lemma returns_absurd: "(\<And>p. tame (toks p) \<Longrightarrow> \<not> P p) \<Longrightarrow> grows any m \<Longrightarrow> returns n P k m"
  by (auto simp: returns_def fueled_def)

lemma returns_pif_keep:
  assumes "\<And>p. t (stub p) = t p" "returns n t k a" "returns n P k b"
  shows "returns n P k (pif t a b)"
  using assms by (intro returns_pif returns_weaken [OF assms(2)] returns_weaken [OF assms(3)]) simp_all

lemma returns_or_else [returns_rules]: "returns n P k m \<Longrightarrow> returns n any k e \<Longrightarrow> returns n P k (or_else m e)"
  unfolding or_else_def by (intro returns_rules)

lemma returns_por [returns_rules]: "returns n P k a \<Longrightarrow> returns n any k b \<Longrightarrow> returns n P k (por a b)"
  unfolding por_def by (intro returns_rules)

lemma returns_recovery [returns_rules]:
  "returns n P k bump_trivia" "returns n P k recover_to_statement_boundary" "returns n P k recover_to_expression_boundary"
  unfolding bump_trivia_def recover_to_statement_boundary_def recover_to_expression_boundary_def recover_until_def
  by (intro returns_rules; auto simp: parser_tests)+

lemma returns_name_segments [returns_rules]:
  "returns n P k (name_segments v)"
  unfolding name_segments_def
  by (intro returns_rules advances_head advances_rules advances_then grows_rules; auto simp: parser_tests)

lemma returns_consume_string_offset [returns_rules]:
  "returns n P k consume_string_offset"
  unfolding consume_string_offset_def
  by (intro returns_rules advances_head advances_rules advances_then grows_rules; auto simp: parser_tests)

lemma returns_interpolation_tail [returns_rules]:
  "returns n P k (interpolation_tail parsed_offset)"
  unfolding interpolation_tail_def
  by (intro returns_rules advances_head advances_rules advances_then grows_rules; auto simp: parser_tests)

lemma returns_recover_to_attribute_boundary [returns_rules]:
  "returns n P k recover_to_attribute_boundary"
  unfolding recover_to_attribute_boundary_def
  by (intro returns_rules advances_head advances_rules advances_then grows_rules; auto simp: parser_tests)

lemma returns_argument_boundary_step [returns_rules]:
  "returns n P k (argument_boundary_step d)"
  unfolding argument_boundary_step_def
  by (intro returns_rules advances_head advances_rules advances_then grows_rules; auto simp: parser_tests)

lemma returns_parse_inline_html [returns_rules]:
  "returns n P k parse_inline_html"
  unfolding parse_inline_html_def
  by (intro returns_rules advances_head advances_rules advances_then grows_rules; auto simp: parser_tests)

lemma returns_recover_to_argument_boundary [returns_rules]:
  "returns n P k recover_to_argument_boundary"
  unfolding recover_to_argument_boundary_def
  by (intro returns_rules advances_head advances_rules advances_then grows_rules; auto simp: parser_tests)

lemma returns_unexpected_comma [returns_rules]:
  "returns n P k (unexpected_comma saw_argument)"
  unfolding unexpected_comma_def
  by (intro returns_rules advances_head advances_rules advances_then grows_rules; auto simp: parser_tests)

lemma returns_expect_function_keyword [returns_rules]:
  "returns n P k expect_function_keyword"
  unfolding expect_function_keyword_def
  by (intro returns_rules advances_head advances_rules advances_then grows_rules; auto simp: parser_tests)

lemma returns_parse_optional_ampersand [returns_rules]:
  "returns n P k parse_optional_ampersand"
  unfolding parse_optional_ampersand_def
  by (intro returns_rules advances_head advances_rules advances_then grows_rules; auto simp: parser_tests)

lemma returns_recover_to_parameter_boundary [returns_rules]:
  "returns n P k recover_to_parameter_boundary"
  unfolding recover_to_parameter_boundary_def
  by (intro returns_rules advances_head advances_rules advances_then grows_rules; auto simp: parser_tests)

lemma returns_modifier_step [returns_rules]:
  "returns n P k (modifier_step v)"
  unfolding modifier_step_def
  by (intro returns_rules advances_head advances_rules advances_then grows_rules; auto simp: parser_tests)

lemma returns_consume_until_class_body [returns_rules]:
  "returns n P k consume_until_class_body"
  unfolding consume_until_class_body_def
  by (intro returns_rules advances_head advances_rules advances_then grows_rules; auto simp: parser_tests)

lemma returns_recover_to_property_hook_boundary [returns_rules]:
  "returns n P k recover_to_property_hook_boundary"
  unfolding recover_to_property_hook_boundary_def
  by (intro returns_rules advances_head advances_rules advances_then grows_rules; auto simp: parser_tests)

lemma returns_recover_to_class_const_boundary [returns_rules]:
  "returns n P k recover_to_class_const_boundary"
  unfolding recover_to_class_const_boundary_def
  by (intro returns_rules advances_head advances_rules advances_then grows_rules; auto simp: parser_tests)

lemma returns_recover_to_property_boundary [returns_rules]:
  "returns n P k recover_to_property_boundary"
  unfolding recover_to_property_boundary_def
  by (intro returns_rules advances_head advances_rules advances_then grows_rules; auto simp: parser_tests)

lemma returns_balanced_block_step [returns_rules]:
  "returns n P k (balanced_block_step v)"
  unfolding balanced_block_step_def
  by (intro returns_rules advances_head advances_rules advances_then grows_rules; auto simp: parser_tests)

lemma returns_parse_postfix_update_tail [returns_rules]:
  "returns n P k parse_postfix_update_tail"
  unfolding parse_postfix_update_tail_def
  by (intro returns_rules advances_head advances_rules advances_then grows_rules; auto simp: parser_tests)

lemma returns_parse_static_access_tail [returns_rules]:
  "returns n P k parse_static_access_tail"
  unfolding parse_static_access_tail_def
  by (intro returns_rules advances_head advances_rules advances_then grows_rules; auto simp: parser_tests)

lemma returns_parse_static_class_name [returns_rules]:
  "returns n P k parse_static_class_name"
  unfolding parse_static_class_name_def
  by (intro returns_rules advances_head advances_rules advances_then grows_rules; auto simp: parser_tests)

lemma returns_expect_semicolon [returns_rules]:
  "returns n P k (expect_semicolon message)"
  unfolding expect_semicolon_def
  by (intro returns_rules advances_head advances_rules advances_then grows_rules; auto simp: parser_tests)

lemma returns_parse_optional_use_kind [returns_rules]:
  "returns n P k parse_optional_use_kind"
  unfolding parse_optional_use_kind_def
  by (intro returns_rules advances_head advances_rules advances_then grows_rules; auto simp: parser_tests)

lemma returns_parse_optional_alias [returns_rules]:
  "returns n P k parse_optional_alias"
  unfolding parse_optional_alias_def
  by (intro returns_rules advances_head advances_rules advances_then grows_rules; auto simp: parser_tests)

lemma returns_recover_to_use_boundary [returns_rules]:
  "returns n P k recover_to_use_boundary"
  unfolding recover_to_use_boundary_def
  by (intro returns_rules advances_head advances_rules advances_then grows_rules; auto simp: parser_tests)

lemma returns_recover_to_group_use_boundary [returns_rules]:
  "returns n P k recover_to_group_use_boundary"
  unfolding recover_to_group_use_boundary_def
  by (intro returns_rules advances_head advances_rules advances_then grows_rules; auto simp: parser_tests)

lemma returns_consume_statement_terminator [returns_rules]:
  "returns n P k consume_statement_terminator"
  unfolding consume_statement_terminator_def
  by (intro returns_rules advances_head advances_rules advances_then grows_rules; auto simp: parser_tests)

lemma returns_consume_end_keyword [returns_rules]:
  "returns n P k (consume_end_keyword keyword message)"
  unfolding consume_end_keyword_def
  by (intro returns_rules advances_head advances_rules advances_then grows_rules; auto simp: parser_tests)

lemma returns_header_step [returns_rules]:
  "returns n P k (header_step depth)"
  unfolding header_step_def
  by (intro returns_rules advances_head advances_rules advances_then grows_rules; auto simp: parser_tests)

lemma returns_recover_header_step [returns_rules]:
  "returns n P k (recover_header_step depth)"
  unfolding recover_header_step_def
  by (intro returns_rules advances_head advances_rules advances_then grows_rules; auto simp: parser_tests)

lemma returns_recover_for_header_section [returns_rules]:
  "returns n P k recover_for_header_section"
  unfolding recover_for_header_section_def
  by (intro returns_rules advances_head advances_rules advances_then grows_rules; auto simp: parser_tests)

lemma returns_consume_for_header_separator [returns_rules]:
  "returns n P k (consume_for_header_separator message)"
  unfolding consume_for_header_separator_def
  by (intro returns_rules advances_head advances_rules advances_then grows_rules; auto simp: parser_tests)

lemma returns_parse_misc_until_semicolon_statement [returns_rules]:
  "returns n P k (parse_misc_until_semicolon_statement kind)"
  unfolding parse_misc_until_semicolon_statement_def
  by (intro returns_rules advances_head advances_rules advances_then grows_rules; auto simp: parser_tests)

lemma returns_parse_label_statement [returns_rules]:
  "returns n P k parse_label_statement"
  unfolding parse_label_statement_def
  by (intro returns_rules advances_head advances_rules advances_then grows_rules; auto simp: parser_tests)

lemma pwhile_trivia_current:
  "tokens_left p \<le> n \<Longrightarrow> current (snd (run_state (pwhile n at_trivia bump) p)) = first_non_trivia (kinds_from 0 p)"
proof (induction n arbitrary: p)
  case 0
  then have "at_eof p" by (simp add: tokens_left_def at_eof_def ts_is_eof_def)
  then show ?case by (simp add: pif_def peek_def parser_tests kinds_from_def at_eof_def ts_is_eof_def from_token_kind_def)
next
  case (Suc n)
  have kinds: "kinds_from 0 p = current p # kinds_from 0 (snd (run_state bump p))" if "\<not> at_eof p"
    using that by (simp add: kinds_from_def run_bump at_eof_def ts_is_eof_def ts_bump_def current_def nth_kind_def ts_nth_def get_at_def
        Cons_nth_drop_Suc [symmetric])
  show ?case
  proof (cases "at_trivia p")
    case True
    then have "\<not> at_eof p" by (auto simp: parser_tests)
    moreover from this have "tokens_left (snd (run_state bump p)) \<le> n"
      using bump_advances [of p] Suc.prems by (simp add: tokens_left_def bump_keeps)
    ultimately show ?thesis using Suc.IH True kinds by (simp add: pif_def peek_def case_prod_unfold at_trivia_def)
  next
    case False
    then have "current p = first_non_trivia (kinds_from 0 p)"
      using kinds by (cases "at_eof p") (auto simp: parser_tests kinds_from_def at_eof_def ts_is_eof_def from_token_kind_def)
    then show ?thesis using False by (simp add: pif_def peek_def)
  qed
qed

lemma bump_trivia_current: "current (snd (run_state bump_trivia p)) = first_non_trivia (kinds_from 0 p)"
  unfolding bump_trivia_def bump_while_def
  using pwhile_trivia_current [of p "tokens_left p"] by (simp add: peek_def tokens_left_def)

lemma closure_use_drop: "\<not> closure_use ks \<Longrightarrow> i < length ks \<Longrightarrow> ks ! i = named T_Use \<Longrightarrow> first_non_trivia (drop (Suc i) ks) \<noteq> symbol CHR ''(''"
  by (induction ks arbitrary: i) (auto simp: nth_Cons split: nat.splits)

lemma no_closure_use:
  assumes "tame (toks p)" "at (named T_Use) p"
  shows "\<not> at (symbol CHR ''('') (snd (run_state (do { bump; bump_trivia }) p))"
proof -
  have "\<not> at_eof p" using assms(2) by (auto simp: parser_tests)
  then have "cur p < length (toks p)" "kinds_of (toks p) ! cur p = named T_Use"
    using assms(2) by (simp_all add: at_eof_def ts_is_eof_def at_def current_def nth_kind_def ts_nth_def get_at_def kinds_of_def)
  then have "first_non_trivia (drop (Suc (cur p)) (kinds_of (toks p))) \<noteq> symbol CHR ''(''"
    using assms(1) closure_use_drop by (simp add: tame_def kinds_of_def)
  moreover have "kinds_from 0 (snd (run_state bump p)) = drop (Suc (cur p)) (kinds_of (toks p))"
    using bump_advances [OF \<open>\<not> at_eof p\<close>] by (simp add: kinds_from_def kinds_of_def drop_map bump_keeps)
  ultimately show ?thesis by (simp add: at_def bump_trivia_current case_prod_unfold)
qed

section \<open>The grammar\<close>

text \<open>What the grammar functions rely on: the entry points they call back return with one turn less. A statement needs
  one turn more than an expression, which it may start before it consumes anything.\<close>

locale returning_grammar = advancing_grammar +
  assumes expression_returns: "returns (turns g) any 2 (rec_expression_bp g n)"
    and primary_returns: "returns (turns g) any 2 (rec_prefix_or_primary g)"
    and variable_returns: "returns (turns g) any 2 (rec_simple_variable g)"
    and statement_returns: "returns (turns g) any 3 (rec_statement g)"
    and intersection_returns: "returns (turns g) any 2 (rec_intersection_type g)"
    and use_clause_returns: "returns (turns g) any 2 (rec_use_import_clause g b)"
begin

lemma returns_entry_points [returns_rules]:
  "2 \<le> k \<Longrightarrow> returns (turns g) P k (rec_expression_bp g n)" "2 \<le> k \<Longrightarrow> returns (turns g) P k (rec_prefix_or_primary g)"
  "2 \<le> k \<Longrightarrow> returns (turns g) P k (rec_simple_variable g)" "3 \<le> k \<Longrightarrow> returns (turns g) P k (rec_statement g)"
  "2 \<le> k \<Longrightarrow> returns (turns g) P k (rec_intersection_type g)" "2 \<le> k \<Longrightarrow> returns (turns g) P k (rec_use_import_clause g b)"
  "2 \<le> k \<Longrightarrow> returns (turns g) P k (parse_expression g)"
  unfolding parse_expression_def
  using returns_weaken [OF expression_returns] returns_weaken [OF primary_returns] returns_weaken [OF variable_returns]
    returns_weaken [OF statement_returns] returns_weaken [OF intersection_returns] returns_weaken [OF use_clause_returns] by simp_all

lemma returns_parse_name [returns_rules]:
  "1 \<le> k \<Longrightarrow> returns (turns g) P k (parse_name g)"
  unfolding parse_name_def
  by (intro returns_bump_any returns_bump_bind returns_rules advances_head advances_rules advances_then grows_rules; auto simp: parser_tests)

lemma returns_parse_type_atom [returns_rules]:
  "1 \<le> k \<Longrightarrow> returns (turns g) P k (parse_type_atom g)"
  unfolding parse_type_atom_def
  by (intro returns_bump_any returns_bump_bind returns_rules advances_head advances_rules advances_then grows_rules; auto simp: parser_tests)

lemma returns_parse_type_primary [returns_rules]:
  "1 \<le> k \<Longrightarrow> returns (turns g) P k (parse_type_primary g)"
  unfolding parse_type_primary_def
  by (intro returns_bump_any returns_bump_bind returns_rules advances_head advances_rules advances_then grows_rules; auto simp: parser_tests)

lemma returns_intersection_tail [returns_rules]:
  "1 \<le> k \<Longrightarrow> returns (turns g) P k (intersection_tail g v)"
  unfolding intersection_tail_def
  by (intro returns_bump_any returns_bump_bind returns_rules advances_head advances_rules advances_then grows_rules; auto simp: parser_tests)

lemma returns_parse_intersection_type [returns_rules]:
  "1 \<le> k \<Longrightarrow> returns (turns g) P k (parse_intersection_type g)"
  unfolding parse_intersection_type_def
  by (intro returns_bump_any returns_bump_bind returns_rules advances_head advances_rules advances_then grows_rules; auto simp: parser_tests)

lemma returns_union_tail [returns_rules]:
  "1 \<le> k \<Longrightarrow> returns (turns g) P k (union_tail g v)"
  unfolding union_tail_def
  by (intro returns_bump_any returns_bump_bind returns_rules advances_head advances_rules advances_then grows_rules; auto simp: parser_tests)

lemma returns_parse_union_type [returns_rules]:
  "1 \<le> k \<Longrightarrow> returns (turns g) P k (parse_union_type g)"
  unfolding parse_union_type_def
  by (intro returns_bump_any returns_bump_bind returns_rules advances_head advances_rules advances_then grows_rules; auto simp: parser_tests)

lemma returns_parse_type [returns_rules]:
  "1 \<le> k \<Longrightarrow> returns (turns g) P k (parse_type g)"
  unfolding parse_type_def
  by (intro returns_bump_any returns_bump_bind returns_rules advances_head advances_rules advances_then grows_rules; auto simp: parser_tests)

lemma returns_parse_optional_type [returns_rules]:
  "1 \<le> k \<Longrightarrow> returns (turns g) P k (parse_optional_type g)"
  unfolding parse_optional_type_def
  by (intro returns_bump_any returns_bump_bind returns_rules advances_head advances_rules advances_then grows_rules; auto simp: parser_tests)

lemma returns_parse_optional_return_type [returns_rules]:
  "1 \<le> k \<Longrightarrow> returns (turns g) P k (parse_optional_return_type g)"
  unfolding parse_optional_return_type_def
  by (intro returns_bump_any returns_bump_bind returns_rules advances_head advances_rules advances_then grows_rules; auto simp: parser_tests)

lemma returns_parse_simple_interpolation [returns_rules]:
  "1 \<le> k \<Longrightarrow> returns (turns g) P k (parse_simple_interpolation g)"
  unfolding parse_simple_interpolation_def
  by (intro returns_bump_any returns_bump_bind returns_rules advances_head advances_rules advances_then grows_rules; auto simp: parser_tests)

lemma returns_parse_complex_interpolation [returns_rules]:
  "1 \<le> k \<Longrightarrow> returns (turns g) P k (parse_complex_interpolation g)"
  unfolding parse_complex_interpolation_def
  by (intro returns_bump_any returns_bump_bind returns_rules advances_head advances_rules advances_then grows_rules; auto simp: parser_tests)

lemma returns_parse_encapsed_part [returns_rules]:
  "1 \<le> k \<Longrightarrow> returns (turns g) P k (parse_encapsed_part g)"
  unfolding parse_encapsed_part_def
  by (intro returns_bump_any returns_bump_bind returns_rules advances_head advances_rules advances_then grows_rules; auto simp: parser_tests)

lemma returns_parse_encapsed_string [returns_rules]:
  "1 \<le> k \<Longrightarrow> returns (turns g) P k (parse_encapsed_string g delimiter)"
  unfolding parse_encapsed_string_def
  by (intro returns_bump_any returns_bump_bind returns_rules advances_head advances_rules advances_then grows_rules; auto simp: parser_tests)

lemma returns_parse_heredoc [returns_rules]:
  "1 \<le> k \<Longrightarrow> returns (turns g) P k (parse_heredoc g)"
  unfolding parse_heredoc_def
  by (intro returns_bump_any returns_bump_bind returns_rules advances_head advances_rules advances_then grows_rules; auto simp: parser_tests)

lemma returns_parse_string_like [returns_rules]:
  "1 \<le> k \<Longrightarrow> returns (turns g) P k (parse_string_like g)"
  unfolding parse_string_like_def
  by (intro returns_bump_any returns_bump_bind returns_rules advances_head advances_rules advances_then grows_rules; auto simp: parser_tests)

lemma returns_recover_to_attribute_argument_boundary [returns_rules]:
  "1 \<le> k \<Longrightarrow> returns (turns g) P k (recover_to_attribute_argument_boundary g)"
  unfolding recover_to_attribute_argument_boundary_def
  by (intro returns_bump_any returns_bump_bind returns_rules advances_head advances_rules advances_then grows_rules; auto simp: parser_tests)

lemma returns_attribute_argument_step [returns_rules]:
  "2 \<le> k \<Longrightarrow> returns (turns g) P k (attribute_argument_step g v)"
  unfolding attribute_argument_step_def
  by (intro returns_bump_any returns_bump_bind returns_rules advances_head advances_rules advances_then grows_rules; auto simp: parser_tests)

lemma returns_parse_attribute_argument_list [returns_rules]:
  "(\<And>p. tame (toks p) \<Longrightarrow> P p \<Longrightarrow> \<not> at_eof p) \<Longrightarrow> 1 \<le> k \<Longrightarrow> returns (turns g) P k (parse_attribute_argument_list g)"
  unfolding parse_attribute_argument_list_def
  by (intro returns_bump_any returns_bump_bind returns_rules advances_head advances_rules advances_then grows_rules; auto simp: parser_tests)

lemma returns_parse_attribute [returns_rules]:
  "1 \<le> k \<Longrightarrow> returns (turns g) P k (parse_attribute g)"
  unfolding parse_attribute_def
  by (intro returns_bump_any returns_bump_bind returns_rules advances_head advances_rules advances_then grows_rules; auto simp: parser_tests)

lemma returns_attribute_group_step [returns_rules]:
  "1 \<le> k \<Longrightarrow> returns (turns g) P k (attribute_group_step g parsed_attribute)"
  unfolding attribute_group_step_def
  by (intro returns_bump_any returns_bump_bind returns_rules advances_head advances_rules advances_then grows_rules; auto simp: parser_tests)

lemma returns_parse_attribute_group [returns_rules]:
  "1 \<le> k \<Longrightarrow> returns (turns g) P k (parse_attribute_group g)"
  unfolding parse_attribute_group_def
  by (intro returns_rules advances_head advances_rules advances_then grows_rules; auto simp: parser_tests)

lemma returns_parse_attribute_groups [returns_rules]:
  "1 \<le> k \<Longrightarrow> returns (turns g) P k (parse_attribute_groups g)"
  unfolding parse_attribute_groups_def
  by (intro returns_bump_any returns_bump_bind returns_rules advances_head advances_rules advances_then grows_rules; auto simp: parser_tests)

lemma returns_parse_array_pair [returns_rules]:
  "2 \<le> k \<Longrightarrow> returns (turns g) P k (parse_array_pair g)"
  unfolding parse_array_pair_def
  by (intro returns_bump_any returns_bump_bind returns_rules advances_head advances_rules advances_then grows_rules; auto simp: parser_tests)

lemma returns_array_pair_step [returns_rules]:
  "2 \<le> k \<Longrightarrow> returns (turns g) P k (array_pair_step g close)"
  unfolding array_pair_step_def
  by (intro returns_bump_any returns_bump_bind returns_rules advances_head advances_rules advances_then grows_rules; auto simp: parser_tests)

lemma returns_parse_array_pairs_until [returns_rules]:
  "2 \<le> k \<Longrightarrow> returns (turns g) P k (parse_array_pairs_until g close)"
  unfolding parse_array_pairs_until_def
  by (intro returns_bump_any returns_bump_bind returns_rules advances_head advances_rules advances_then grows_rules; auto simp: parser_tests)

lemma returns_parse_array_body [returns_rules]:
  "(\<And>p. tame (toks p) \<Longrightarrow> P p \<Longrightarrow> \<not> at_eof p) \<Longrightarrow> 1 \<le> k \<Longrightarrow> returns (turns g) P k (parse_array_body g close kind)"
  unfolding parse_array_body_def
  by (intro returns_bump_any returns_bump_bind returns_rules advances_head advances_rules advances_then grows_rules; auto simp: parser_tests)

lemma returns_parse_array_expression [returns_rules]:
  "1 \<le> k \<Longrightarrow> returns (turns g) P k (parse_array_expression g)"
  unfolding parse_array_expression_def
  by (intro returns_bump_any returns_bump_bind returns_rules advances_head advances_rules advances_then grows_rules; auto simp: parser_tests)

lemma returns_parse_dim_fetch_tail [returns_rules]:
  "(\<And>p. tame (toks p) \<Longrightarrow> P p \<Longrightarrow> \<not> at_eof p) \<Longrightarrow> 1 \<le> k \<Longrightarrow> returns (turns g) P k (parse_dim_fetch_tail g close)"
  unfolding parse_dim_fetch_tail_def
  by (intro returns_bump_any returns_bump_bind returns_rules advances_head advances_rules advances_then grows_rules; auto simp: parser_tests)

lemma returns_parse_simple_variable [returns_rules]:
  "1 \<le> k \<Longrightarrow> returns (turns g) P k (parse_simple_variable g)"
  unfolding parse_simple_variable_def
  by (intro returns_bump_any returns_bump_bind returns_rules advances_head advances_rules advances_then grows_rules; auto simp: parser_tests)

lemma returns_parse_short_echo_statement [returns_rules]:
  "2 \<le> k \<Longrightarrow> returns (turns g) P k (parse_short_echo_statement g)"
  unfolding parse_short_echo_statement_def
  by (intro returns_bump_any returns_bump_bind returns_rules advances_head advances_rules advances_then grows_rules; auto simp: parser_tests)

lemma returns_guarded_statement [returns_rules]:
  "3 \<le> k \<Longrightarrow> returns (turns g) P k (guarded_statement g)"
  unfolding guarded_statement_def
  by (intro returns_bump_any returns_bump_bind returns_rules advances_head advances_rules advances_then grows_rules; auto simp: parser_tests)

lemma returns_parse_statement_list_contents [returns_rules]:
  "3 \<le> k \<Longrightarrow> returns (turns g) P k (parse_statement_list_contents g)"
  unfolding parse_statement_list_contents_def
  by (intro returns_bump_any returns_bump_bind returns_rules advances_head advances_rules advances_then grows_rules; auto simp: parser_tests)

lemma returns_parse_nested_php_mode_boundary [returns_rules]:
  "1 \<le> k \<Longrightarrow> returns (turns g) P k (parse_nested_php_mode_boundary g)"
  unfolding parse_nested_php_mode_boundary_def
  by (intro returns_bump_any returns_bump_bind returns_rules advances_head advances_rules advances_then grows_rules; auto simp: parser_tests)

lemma returns_parse_nested_statement_list_contents [returns_rules]:
  "(\<And>p. at_end (stub p) = at_end p) \<Longrightarrow> 3 \<le> k \<Longrightarrow> returns (turns g) P k (parse_nested_statement_list_contents g at_end)"
  unfolding parse_nested_statement_list_contents_def
  by (intro returns_bump_any returns_bump_bind returns_rules advances_head advances_rules advances_then grows_rules; auto simp: parser_tests)

lemma returns_parse_block_statement [returns_rules]:
  "(\<And>p. tame (toks p) \<Longrightarrow> P p \<Longrightarrow> \<not> at_eof p) \<Longrightarrow> 1 \<le> k \<Longrightarrow> returns (turns g) P k (parse_block_statement g)"
  unfolding parse_block_statement_def
  by (intro returns_bump_any returns_bump_bind returns_rules advances_head advances_rules advances_then grows_rules; auto simp: parser_tests)

lemma returns_argument_expression [returns_rules]:
  "2 \<le> k \<Longrightarrow> returns (turns g) P k (argument_expression g)"
  unfolding argument_expression_def
  by (intro returns_bump_any returns_bump_bind returns_rules advances_head advances_rules advances_then grows_rules; auto simp: parser_tests)

lemma returns_parse_argument [returns_rules]:
  "2 \<le> k \<Longrightarrow> returns (turns g) P k (parse_argument g)"
  unfolding parse_argument_def
  by (intro returns_bump_any returns_bump_bind returns_rules advances_head advances_rules advances_then grows_rules; auto simp: parser_tests)

lemma returns_call_argument_step [returns_rules]:
  "2 \<le> k \<Longrightarrow> returns (turns g) P k (call_argument_step g saw_argument)"
  unfolding call_argument_step_def
  by (intro returns_bump_any returns_bump_bind returns_rules advances_head advances_rules advances_then grows_rules; auto simp: parser_tests)

lemma returns_parse_call_tail [returns_rules]:
  "(\<And>p. tame (toks p) \<Longrightarrow> P p \<Longrightarrow> \<not> at_eof p) \<Longrightarrow> 1 \<le> k \<Longrightarrow> returns (turns g) P k (parse_call_tail g)"
  unfolding parse_call_tail_def
  by (intro returns_bump_any returns_bump_bind returns_rules advances_head advances_rules advances_then grows_rules; auto simp: parser_tests)

lemma returns_parse_promoted_parameter_modifiers [returns_rules]:
  "1 \<le> k \<Longrightarrow> returns (turns g) P k (parse_promoted_parameter_modifiers g)"
  unfolding parse_promoted_parameter_modifiers_def
  by (intro returns_bump_any returns_bump_bind returns_rules advances_head advances_rules advances_then grows_rules; auto simp: parser_tests)

lemma returns_parse_parameter [returns_rules]:
  "1 \<le> k \<Longrightarrow> returns (turns g) P k (parse_parameter g)"
  unfolding parse_parameter_def
  by (intro returns_bump_any returns_bump_bind returns_rules advances_head advances_rules advances_then grows_rules; auto simp: parser_tests)

lemma returns_parameter_step [returns_rules]:
  "1 \<le> k \<Longrightarrow> returns (turns g) P k (parameter_step g v)"
  unfolding parameter_step_def
  by (intro returns_bump_any returns_bump_bind returns_rules advances_head advances_rules advances_then grows_rules; auto simp: parser_tests)

lemma returns_parse_parameter_list [returns_rules]:
  "1 \<le> k \<Longrightarrow> returns (turns g) P k (parse_parameter_list g)"
  unfolding parse_parameter_list_def
  by (intro returns_bump_any returns_bump_bind returns_rules advances_head advances_rules advances_then grows_rules; auto simp: parser_tests)

text \<open>On tame tokens no opening parenthesis follows the \<open>use\<close> of a closure, and its list is not read.\<close>

lemma returns_parse_optional_closure_use_list [returns_rules]:
  assumes "1 \<le> k"
  shows "returns (turns g) P k (parse_optional_closure_use_list g)"
proof (rule returnsI)
  show "grows any (parse_optional_closure_use_list g)" by (rule grows_parse_optional_closure_use_list)
  fix p assume p: "fueled (turns g) k p"
  let ?list = "do { bump; ploop (turns g) (closure_use_step g) ();
    bump_or (symbol CHR '')'') (error_expected ''expected `)` to close closure use list'' ['')'']) }"
  let ?use = "node N_ParamList (do { bump; bump_trivia;
    pif (at (symbol CHR ''('')) ?list (error_expected ''expected `(` after closure use'' [''('']) })"
  have "returns (turns g) (at (named T_Use)) k ?use"
  proof (rule returns_node, rule returnsI)
    fix q assume q: "fueled (turns g) k q" "at (named T_Use) (stub q)"
    let ?q = "snd (run_state (do { bump; bump_trivia }) q)"
    have "\<not> at (symbol CHR ''('') ?q" using no_closure_use q by (simp add: fueled_def stub_simps)
    moreover have "fueled (turns g) k ?q"
      using q(1) returns_run [of "turns g" any k "do { bump; bump_trivia }" q] by (auto intro!: returns_rules simp: prod_eq_iff)
    ultimately show "\<not> out_of_fuel (snd (run_state (do { bump; bump_trivia;
        pif (at (symbol CHR ''('')) ?list (error_expected ''expected `(` after closure use'' [''('']) }) q))"
      by (simp add: fueled_def pif_def peek_def error_expected_def error_expected_with_id_def parser_error_def modify_def case_prod_unfold)
  qed (intro grows_rules)
  then have use: "returns (turns g) (\<lambda>p. True \<and> at (named T_Use) p) k ?use" by simp
  have "returns (turns g) any k (parse_optional_closure_use_list g)"
    unfolding parse_optional_closure_use_list_def
    by (intro returns_bind returns_recovery returns_pif use returns_return) (simp add: parser_tests)
  then show "\<not> out_of_fuel (snd (run_state (parse_optional_closure_use_list g) p))" using p by (simp add: returns_def)
qed

lemma returns_parse_required_block_body [returns_rules]:
  "1 \<le> k \<Longrightarrow> returns (turns g) P k (parse_required_block_body g context)"
  unfolding parse_required_block_body_def
  by (intro returns_bump_any returns_bump_bind returns_rules advances_head advances_rules advances_then grows_rules; auto simp: parser_tests)

lemma returns_parse_optional_function_body [returns_rules]:
  "1 \<le> k \<Longrightarrow> returns (turns g) P k (parse_optional_function_body g context)"
  unfolding parse_optional_function_body_def
  by (intro returns_bump_any returns_bump_bind returns_rules advances_head advances_rules advances_then grows_rules; auto simp: parser_tests)

lemma returns_function_rest [returns_rules]:
  "1 \<le> k \<Longrightarrow> returns (turns g) P k (function_rest g name_message context)"
  unfolding function_rest_def
  by (intro returns_bump_any returns_bump_bind returns_rules advances_head advances_rules advances_then grows_rules; auto simp: parser_tests)

lemma returns_parse_function_declaration [returns_rules]:
  "1 \<le> k \<Longrightarrow> returns (turns g) P k (parse_function_declaration g)"
  unfolding parse_function_declaration_def
  by (intro returns_bump_any returns_bump_bind returns_rules advances_head advances_rules advances_then grows_rules; auto simp: parser_tests)

lemma returns_parse_method_member_body [returns_rules]:
  "1 \<le> k \<Longrightarrow> returns (turns g) P k (parse_method_member_body g)"
  unfolding parse_method_member_body_def
  by (intro returns_bump_any returns_bump_bind returns_rules advances_head advances_rules advances_then grows_rules; auto simp: parser_tests)

lemma returns_parse_closure_expression [returns_rules]:
  "1 \<le> k \<Longrightarrow> returns (turns g) P k (parse_closure_expression g)"
  unfolding parse_closure_expression_def
  by (intro returns_bump_any returns_rules advances_head advances_rules advances_then grows_rules; auto simp: parser_tests)

lemma returns_parse_arrow_function_expression [returns_rules]:
  "1 \<le> k \<Longrightarrow> returns (turns g) P k (parse_arrow_function_expression g)"
  unfolding parse_arrow_function_expression_def
  by (intro returns_bump_any returns_bump_bind returns_rules advances_head advances_rules advances_then grows_rules; auto simp: parser_tests)

lemma returns_parse_modifiers [returns_rules]:
  "1 \<le> k \<Longrightarrow> returns (turns g) P k (parse_modifiers g)"
  unfolding parse_modifiers_def
  by (intro returns_bump_any returns_bump_bind returns_rules advances_head advances_rules advances_then grows_rules; auto simp: parser_tests)

lemma returns_property_hook_body [returns_rules]:
  "1 \<le> k \<Longrightarrow> returns (turns g) P k (property_hook_body g)"
  unfolding property_hook_body_def
  by (intro returns_bump_any returns_bump_bind returns_rules advances_head advances_rules advances_then grows_rules; auto simp: parser_tests)

lemma returns_parse_property_hook [returns_rules]:
  "1 \<le> k \<Longrightarrow> returns (turns g) P k (parse_property_hook g)"
  unfolding parse_property_hook_def
  by (intro returns_bump_any returns_bump_bind returns_rules advances_head advances_rules advances_then grows_rules; auto simp: parser_tests)

lemma returns_parse_property_hook_list [returns_rules]:
  "1 \<le> k \<Longrightarrow> returns (turns g) P k (parse_property_hook_list g)"
  unfolding parse_property_hook_list_def
  by (intro returns_rules advances_head advances_rules advances_then grows_rules; auto simp: parser_tests)

lemma returns_property_tokens_step [returns_rules]:
  "1 \<le> k \<Longrightarrow> returns (turns g) P k (property_tokens_step g)"
  unfolding property_tokens_step_def
  by (intro returns_bump_any returns_bump_bind returns_rules advances_head advances_rules advances_then grows_rules; auto simp: parser_tests)

lemma returns_consume_property_member [returns_rules]:
  "1 \<le> k \<Longrightarrow> returns (turns g) P k (consume_property_member g)"
  unfolding consume_property_member_def
  by (intro returns_bump_any returns_bump_bind returns_rules advances_head advances_rules advances_then grows_rules; auto simp: parser_tests)

lemma returns_consume_balanced_block [returns_rules]:
  "1 \<le> k \<Longrightarrow> returns (turns g) P k (consume_balanced_block g)"
  unfolding consume_balanced_block_def
  by (intro returns_bump_any returns_bump_bind returns_rules advances_head advances_rules advances_then grows_rules; auto simp: parser_tests)

lemma returns_consume_member_with_optional_body [returns_rules]:
  "1 \<le> k \<Longrightarrow> returns (turns g) P k (consume_member_with_optional_body g)"
  unfolding consume_member_with_optional_body_def
  by (intro returns_bump_any returns_bump_bind returns_rules advances_head advances_rules advances_then grows_rules; auto simp: parser_tests)

lemma returns_class_const_step [returns_rules]:
  "1 \<le> k \<Longrightarrow> returns (turns g) P k (class_const_step g v)"
  unfolding class_const_step_def
  by (intro returns_bump_any returns_bump_bind returns_rules advances_head advances_rules advances_then grows_rules; auto simp: parser_tests)

lemma returns_parse_class_const_member [returns_rules]:
  "1 \<le> k \<Longrightarrow> returns (turns g) P k (parse_class_const_member g)"
  unfolding parse_class_const_member_def
  by (intro returns_rules advances_head advances_rules advances_then grows_rules; auto simp: parser_tests)

lemma returns_parse_member [returns_rules]:
  "1 \<le> k \<Longrightarrow> returns (turns g) P k (parse_member g)"
  unfolding parse_member_def
  by (intro returns_bump_any returns_bump_bind returns_rules advances_head advances_rules advances_then grows_rules; auto simp: parser_tests)

lemma returns_parse_member_list [returns_rules]:
  "1 \<le> k \<Longrightarrow> returns (turns g) P k (parse_member_list g)"
  unfolding parse_member_list_def
  by (intro returns_rules advances_head advances_rules advances_then grows_rules; auto simp: parser_tests)

lemma returns_class_like_rest [returns_rules]:
  "1 \<le> k \<Longrightarrow> returns (turns g) P k (class_like_rest g named_required)"
  unfolding class_like_rest_def
  by (intro returns_bump_any returns_bump_bind returns_rules advances_head advances_rules advances_then grows_rules; auto simp: parser_tests)

lemma returns_parse_class_like [returns_rules]:
  "1 \<le> k \<Longrightarrow> returns (turns g) P k (parse_class_like g named_required)"
  unfolding parse_class_like_def
  by (intro returns_bump_any returns_bump_bind returns_rules advances_head advances_rules advances_then grows_rules; auto simp: parser_tests)

lemma returns_parse_property_fetch_tail [returns_rules]:
  "(\<And>p. tame (toks p) \<Longrightarrow> P p \<Longrightarrow> \<not> at_eof p) \<Longrightarrow> 1 \<le> k \<Longrightarrow> returns (turns g) P k (parse_property_fetch_tail g)"
  unfolding parse_property_fetch_tail_def
  by (intro returns_bump_any returns_bump_bind returns_rules advances_head advances_rules advances_then grows_rules; auto simp: parser_tests)

lemma returns_parse_yield_expression [returns_rules]:
  "(\<And>p. tame (toks p) \<Longrightarrow> P p \<Longrightarrow> \<not> at_eof p) \<Longrightarrow> 1 \<le> k \<Longrightarrow> returns (turns g) P k (parse_yield_expression g)"
  unfolding parse_yield_expression_def
  by (intro returns_bump_any returns_bump_bind returns_rules advances_head advances_rules advances_then grows_rules; auto simp: parser_tests)

lemma returns_parse_throw_expression [returns_rules]:
  "(\<And>p. tame (toks p) \<Longrightarrow> P p \<Longrightarrow> \<not> at_eof p) \<Longrightarrow> 1 \<le> k \<Longrightarrow> returns (turns g) P k (parse_throw_expression g)"
  unfolding parse_throw_expression_def
  by (intro returns_bump_any returns_bump_bind returns_rules advances_head advances_rules advances_then grows_rules; auto simp: parser_tests)

lemma returns_match_condition_step [returns_rules]:
  "1 \<le> k \<Longrightarrow> returns (turns g) P k (match_condition_step g v)"
  unfolding match_condition_step_def
  by (intro returns_bump_any returns_bump_bind returns_rules advances_head advances_rules advances_then grows_rules; auto simp: parser_tests)

lemma returns_match_arm_body [returns_rules]:
  "1 \<le> k \<Longrightarrow> returns (turns g) P k (match_arm_body g v)"
  unfolding match_arm_body_def
  by (intro returns_bump_any returns_bump_bind returns_rules advances_head advances_rules advances_then grows_rules; auto simp: parser_tests)

lemma returns_match_arm_step [returns_rules]:
  "2 \<le> k \<Longrightarrow> returns (turns g) P k (match_arm_step g v)"
  unfolding match_arm_step_def
  by (intro returns_bump_any returns_bump_bind returns_rules advances_head advances_rules advances_then grows_rules; auto simp: parser_tests)

lemma returns_parse_match_arms [returns_rules]:
  "2 \<le> k \<Longrightarrow> returns (turns g) P k (parse_match_arms g)"
  unfolding parse_match_arms_def
  by (intro returns_bump_any returns_bump_bind returns_rules advances_head advances_rules advances_then grows_rules; auto simp: parser_tests)

lemma returns_parse_match_expression [returns_rules]:
  "(\<And>p. tame (toks p) \<Longrightarrow> P p \<Longrightarrow> \<not> at_eof p) \<Longrightarrow> 1 \<le> k \<Longrightarrow> returns (turns g) P k (parse_match_expression g)"
  unfolding parse_match_expression_def
  by (intro returns_bump_any returns_bump_bind returns_rules advances_head advances_rules advances_then grows_rules; auto simp: parser_tests)

lemma returns_construct_argument_step [returns_rules]:
  "2 \<le> k \<Longrightarrow> returns (turns g) P k (construct_argument_step g allow_multiple v)"
  unfolding construct_argument_step_def
  by (intro returns_bump_any returns_bump_bind returns_rules advances_head advances_rules advances_then grows_rules; auto simp: parser_tests)

lemma returns_parse_parenthesized_construct_arguments [returns_rules]:
  "1 \<le> k \<Longrightarrow> returns (turns g) P k (parse_parenthesized_construct_arguments g allow_multiple allow_empty)"
  unfolding parse_parenthesized_construct_arguments_def
  by (intro returns_bump_any returns_bump_bind returns_rules advances_head advances_rules advances_then grows_rules; auto simp: parser_tests)

lemma returns_parse_construct_expression [returns_rules]:
  "(\<And>p. tame (toks p) \<Longrightarrow> P p \<Longrightarrow> \<not> at_eof p) \<Longrightarrow> 1 \<le> k \<Longrightarrow> returns (turns g) P k (parse_construct_expression g)"
  unfolding parse_construct_expression_def
  by (intro returns_bump_any returns_bump_bind returns_rules advances_head advances_rules advances_then grows_rules; auto simp: parser_tests)

lemma returns_class_reference_step [returns_rules]:
  "1 \<le> k \<Longrightarrow> returns (turns g) P k (class_reference_step g v)"
  unfolding class_reference_step_def
  by (intro returns_bump_any returns_bump_bind returns_rules advances_head advances_rules advances_then grows_rules; auto simp: parser_tests)

lemma returns_parse_dynamic_new_class_reference [returns_rules]:
  "2 \<le> k \<Longrightarrow> returns (turns g) P k (parse_dynamic_new_class_reference g)"
  unfolding parse_dynamic_new_class_reference_def
  by (intro returns_bump_any returns_bump_bind returns_rules advances_head advances_rules advances_then grows_rules; auto simp: parser_tests)

lemma returns_parse_new_expression [returns_rules]:
  "(\<And>p. tame (toks p) \<Longrightarrow> P p \<Longrightarrow> \<not> at_eof p) \<Longrightarrow> 1 \<le> k \<Longrightarrow> returns (turns g) P k (parse_new_expression g)"
  unfolding parse_new_expression_def
  by (intro returns_bump_any returns_bump_bind returns_rules advances_head advances_rules advances_then grows_rules; auto simp: parser_tests)

lemma returns_parse_clone_expression [returns_rules]:
  "(\<And>p. tame (toks p) \<Longrightarrow> P p \<Longrightarrow> \<not> at_eof p) \<Longrightarrow> 1 \<le> k \<Longrightarrow> returns (turns g) P k (parse_clone_expression g)"
  unfolding parse_clone_expression_def
  by (intro returns_bump_any returns_bump_bind returns_rules advances_head advances_rules advances_then grows_rules; auto simp: parser_tests)

lemma returns_parse_parenthesized [returns_rules]:
  "(\<And>p. tame (toks p) \<Longrightarrow> P p \<Longrightarrow> \<not> at_eof p) \<Longrightarrow> 1 \<le> k \<Longrightarrow> returns (turns g) P k (parse_parenthesized g)"
  unfolding parse_parenthesized_def
  by (intro returns_bump_any returns_bump_bind returns_rules advances_head advances_rules advances_then grows_rules; auto simp: parser_tests)

lemma returns_parse_ternary_tail [returns_rules]:
  "(\<And>p. tame (toks p) \<Longrightarrow> P p \<Longrightarrow> \<not> at_eof p) \<Longrightarrow> 1 \<le> k \<Longrightarrow> returns (turns g) P k (parse_ternary_tail g)"
  unfolding parse_ternary_tail_def
  by (intro returns_bump_any returns_bump_bind returns_rules advances_head advances_rules advances_then grows_rules; auto simp: parser_tests)

lemma returns_parse_binary_tail [returns_rules]:
  "1 \<le> k \<Longrightarrow> returns (turns g) P k (parse_binary_tail g min_bp v)"
  unfolding parse_binary_tail_def
  by (intro returns_bump_any returns_bump_bind returns_rules advances_head advances_rules advances_then grows_rules; auto simp: parser_tests)

lemma returns_expression_tail_step [returns_rules]:
  "1 \<le> k \<Longrightarrow> returns (turns g) P k (expression_tail_step g min_bp v)"
  unfolding expression_tail_step_def
  by (intro returns_pif_keep returns_bump_any returns_bump_bind returns_rules advances_head advances_rules advances_then grows_rules; auto simp: parser_tests)

lemma returns_parse_primary [returns_rules]:
  "1 \<le> k \<Longrightarrow> returns (turns g) P k (parse_primary g)"
  unfolding parse_primary_def
  by (intro returns_pif_keep returns_bump_any returns_bump_bind returns_rules advances_head advances_rules advances_then grows_rules; auto simp: parser_tests)

lemma returns_parse_prefix_or_primary [returns_rules]:
  "1 \<le> k \<Longrightarrow> returns (turns g) P k (parse_prefix_or_primary g)"
  unfolding parse_prefix_or_primary_def
  by (intro returns_bump_any returns_bump_bind returns_rules advances_head advances_rules advances_then grows_rules; auto simp: parser_tests)

lemma returns_parse_expression_bp [returns_rules]:
  "1 \<le> k \<Longrightarrow> returns (turns g) P k (parse_expression_bp g min_bp)"
  unfolding parse_expression_bp_def
  by (intro returns_bump_any returns_bump_bind returns_rules advances_head advances_rules advances_then grows_rules; auto simp: parser_tests)

lemma returns_parse_attributed_declaration [returns_rules]:
  "1 \<le> k \<Longrightarrow> returns (turns g) P k (parse_attributed_declaration g)"
  unfolding parse_attributed_declaration_def
  by (intro returns_bump_any returns_bump_bind returns_rules advances_head advances_rules advances_then grows_rules; auto simp: parser_tests)

lemma returns_const_step [returns_rules]:
  "1 \<le> k \<Longrightarrow> returns (turns g) P k (const_step g v)"
  unfolding const_step_def
  by (intro returns_bump_any returns_bump_bind returns_rules advances_head advances_rules advances_then grows_rules; auto simp: parser_tests)

lemma returns_parse_const_declaration [returns_rules]:
  "1 \<le> k \<Longrightarrow> returns (turns g) P k (parse_const_declaration g)"
  unfolding parse_const_declaration_def
  by (intro returns_rules advances_head advances_rules advances_then grows_rules; auto simp: parser_tests)

lemma returns_parse_namespace_declaration [returns_rules]:
  "1 \<le> k \<Longrightarrow> returns (turns g) P k (parse_namespace_declaration g)"
  unfolding parse_namespace_declaration_def
  by (intro returns_rules advances_head advances_rules advances_then grows_rules; auto simp: parser_tests)

lemma returns_group_use_step [returns_rules]:
  "2 \<le> k \<Longrightarrow> returns (turns g) P k (group_use_step g v)"
  unfolding group_use_step_def
  by (intro returns_bump_any returns_bump_bind returns_rules advances_head advances_rules advances_then grows_rules; auto simp: parser_tests)

lemma returns_parse_group_use_list [returns_rules]:
  "1 \<le> k \<Longrightarrow> returns (turns g) P k (parse_group_use_list g)"
  unfolding parse_group_use_list_def
  by (intro returns_bump_any returns_bump_bind returns_rules advances_head advances_rules advances_then grows_rules; auto simp: parser_tests)

lemma returns_parse_use_import_clause [returns_rules]:
  "1 \<le> k \<Longrightarrow> returns (turns g) P k (parse_use_import_clause g b)"
  unfolding parse_use_import_clause_def
  by (intro returns_bump_any returns_bump_bind returns_rules advances_head advances_rules advances_then grows_rules; auto simp: parser_tests)

lemma returns_use_step [returns_rules]:
  "1 \<le> k \<Longrightarrow> returns (turns g) P k (use_step g v)"
  unfolding use_step_def
  by (intro returns_bump_any returns_bump_bind returns_rules advances_head advances_rules advances_then grows_rules; auto simp: parser_tests)

lemma returns_parse_use_declaration [returns_rules]:
  "1 \<le> k \<Longrightarrow> returns (turns g) P k (parse_use_declaration g)"
  unfolding parse_use_declaration_def
  by (intro returns_rules advances_head advances_rules advances_then grows_rules; auto simp: parser_tests)

lemma returns_parse_parenthesized_header [returns_rules]:
  "1 \<le> k \<Longrightarrow> returns (turns g) P k (parse_parenthesized_header g context)"
  unfolding parse_parenthesized_header_def
  by (intro returns_bump_any returns_bump_bind returns_rules advances_head advances_rules advances_then grows_rules; auto simp: parser_tests)

lemma returns_recover_parenthesized_header [returns_rules]:
  "1 \<le> k \<Longrightarrow> returns (turns g) P k (recover_parenthesized_header g)"
  unfolding recover_parenthesized_header_def
  by (intro returns_bump_any returns_bump_bind returns_rules advances_head advances_rules advances_then grows_rules; auto simp: parser_tests)

lemma returns_close_header [returns_rules]:
  "1 \<le> k \<Longrightarrow> returns (turns g) P k (close_header g message)"
  unfolding close_header_def
  by (intro returns_bump_any returns_bump_bind returns_rules advances_head advances_rules advances_then grows_rules; auto simp: parser_tests)

lemma returns_expression_list_step [returns_rules]:
  "2 \<le> k \<Longrightarrow> returns (turns g) P k (expression_list_step g context end_kind v)"
  unfolding expression_list_step_def
  by (intro returns_bump_any returns_bump_bind returns_rules advances_head advances_rules advances_then grows_rules; auto simp: parser_tests)

lemma returns_parse_expression_list [returns_rules]:
  "2 \<le> k \<Longrightarrow> returns (turns g) P k (parse_expression_list g context end_kind)"
  unfolding parse_expression_list_def
  by (intro returns_bump_any returns_bump_bind returns_rules advances_head advances_rules advances_then grows_rules; auto simp: parser_tests)

lemma returns_parse_parenthesized_expression_list [returns_rules]:
  "1 \<le> k \<Longrightarrow> returns (turns g) P k (parse_parenthesized_expression_list g context allow_empty)"
  unfolding parse_parenthesized_expression_list_def
  by (intro returns_bump_any returns_bump_bind returns_rules advances_head advances_rules advances_then grows_rules; auto simp: parser_tests)

lemma returns_parse_parenthesized_expression_header [returns_rules]:
  "1 \<le> k \<Longrightarrow> returns (turns g) P k (parse_parenthesized_expression_header g context)"
  unfolding parse_parenthesized_expression_header_def
  by (intro returns_bump_any returns_bump_bind returns_rules advances_head advances_rules advances_then grows_rules; auto simp: parser_tests)

lemma returns_foreach_target [returns_rules]:
  "returns (turns g) any k rest \<Longrightarrow> 2 \<le> k \<Longrightarrow> returns (turns g) P k (foreach_target g message rest)"
  unfolding foreach_target_def
  by (intro returns_bump_any returns_bump_bind returns_rules advances_head advances_rules advances_then grows_rules; auto simp: parser_tests)

lemma returns_parse_foreach_header [returns_rules]:
  "1 \<le> k \<Longrightarrow> returns (turns g) P k (parse_foreach_header g)"
  unfolding parse_foreach_header_def
  by (intro returns_bump_any returns_bump_bind returns_rules advances_head advances_rules advances_then grows_rules; auto simp: parser_tests)

lemma returns_for_section_step [returns_rules]:
  "1 \<le> k \<Longrightarrow> returns (turns g) P k (for_section_step g context v)"
  unfolding for_section_step_def
  by (intro returns_bump_any returns_bump_bind returns_rules advances_head advances_rules advances_then grows_rules; auto simp: parser_tests)

lemma returns_parse_for_header_section [returns_rules]:
  "2 \<le> k \<Longrightarrow> returns (turns g) P k (parse_for_header_section g context)"
  unfolding parse_for_header_section_def
  by (intro returns_bump_any returns_bump_bind returns_rules advances_head advances_rules advances_then grows_rules; auto simp: parser_tests)

lemma returns_parse_for_header [returns_rules]:
  "1 \<le> k \<Longrightarrow> returns (turns g) P k (parse_for_header g)"
  unfolding parse_for_header_def
  by (intro returns_bump_any returns_bump_bind returns_rules advances_head advances_rules advances_then grows_rules; auto simp: parser_tests)

lemma returns_parse_required_block [returns_rules]:
  "1 \<le> k \<Longrightarrow> returns (turns g) P k (parse_required_block g message)"
  unfolding parse_required_block_def
  by (intro returns_bump_any returns_bump_bind returns_rules advances_head advances_rules advances_then grows_rules; auto simp: parser_tests)

lemma returns_parse_control_body [returns_rules]:
  "3 \<le> k \<Longrightarrow> returns (turns g) P k (parse_control_body g)"
  unfolding parse_control_body_def
  by (intro returns_bump_any returns_bump_bind returns_rules advances_head advances_rules advances_then grows_rules; auto simp: parser_tests)

lemma returns_parse_echo_step [returns_rules]:
  "1 \<le> k \<Longrightarrow> returns (turns g) P k (parse_echo_step g v)"
  unfolding parse_echo_step_def
  by (intro returns_bump_any returns_bump_bind returns_rules advances_head advances_rules advances_then grows_rules; auto simp: parser_tests)

lemma returns_parse_echo_statement [returns_rules]:
  "(\<And>p. tame (toks p) \<Longrightarrow> P p \<Longrightarrow> \<not> at_eof p) \<Longrightarrow> 1 \<le> k \<Longrightarrow> returns (turns g) P k (parse_echo_statement g)"
  unfolding parse_echo_statement_def
  by (intro returns_bump_any returns_bump_bind returns_rules advances_head advances_rules advances_then grows_rules; auto simp: parser_tests)

lemma returns_parse_if_alternative [returns_rules]:
  "(\<And>p. tame (toks p) \<Longrightarrow> P p \<Longrightarrow> \<not> at_eof p) \<Longrightarrow> 1 \<le> k \<Longrightarrow> returns (turns g) P k (parse_if_alternative g)"
  unfolding parse_if_alternative_def
  by (intro returns_bump_any returns_bump_bind returns_rules advances_head advances_rules advances_then grows_rules; auto simp: parser_tests)

lemma returns_parse_if_branches [returns_rules]:
  "3 \<le> k \<Longrightarrow> returns (turns g) P k (parse_if_branches g)"
  unfolding parse_if_branches_def
  by (intro returns_bump_any returns_bump_bind returns_rules advances_head advances_rules advances_then grows_rules; auto simp: parser_tests)

lemma returns_parse_if_statement [returns_rules]:
  "(\<And>p. tame (toks p) \<Longrightarrow> P p \<Longrightarrow> \<not> at_eof p) \<Longrightarrow> 1 \<le> k \<Longrightarrow> returns (turns g) P k (parse_if_statement g)"
  unfolding parse_if_statement_def
  by (intro returns_bump_any returns_bump_bind returns_rules advances_head advances_rules advances_then grows_rules; auto simp: parser_tests)

lemma returns_parse_loop_statement [returns_rules]:
  "(\<And>p. tame (toks p) \<Longrightarrow> P p \<Longrightarrow> \<not> at_eof p) \<Longrightarrow> 1 \<le> k \<Longrightarrow> returns (turns g) P k (parse_loop_statement g start_keyword end_keyword kind)"
  unfolding parse_loop_statement_def
  by (intro returns_bump_any returns_bump_bind returns_rules advances_head advances_rules advances_then grows_rules; auto simp: parser_tests)

lemma returns_parse_do_while_statement [returns_rules]:
  "(\<And>p. tame (toks p) \<Longrightarrow> P p \<Longrightarrow> \<not> at_eof p) \<Longrightarrow> 1 \<le> k \<Longrightarrow> returns (turns g) P k (parse_do_while_statement g)"
  unfolding parse_do_while_statement_def
  by (intro returns_bump_any returns_bump_bind returns_rules advances_head advances_rules advances_then grows_rules; auto simp: parser_tests)

lemma returns_parse_catch_clause [returns_rules]:
  "(\<And>p. tame (toks p) \<Longrightarrow> P p \<Longrightarrow> \<not> at_eof p) \<Longrightarrow> 1 \<le> k \<Longrightarrow> returns (turns g) P k (parse_catch_clause g)"
  unfolding parse_catch_clause_def
  by (intro returns_bump_any returns_bump_bind returns_rules advances_head advances_rules advances_then grows_rules; auto simp: parser_tests)

lemma returns_catch_step [returns_rules]:
  "1 \<le> k \<Longrightarrow> returns (turns g) P k (catch_step g has_handler)"
  unfolding catch_step_def
  by (intro returns_bump_any returns_bump_bind returns_rules advances_head advances_rules advances_then grows_rules; auto simp: parser_tests)

lemma returns_parse_try_statement [returns_rules]:
  "(\<And>p. tame (toks p) \<Longrightarrow> P p \<Longrightarrow> \<not> at_eof p) \<Longrightarrow> 1 \<le> k \<Longrightarrow> returns (turns g) P k (parse_try_statement g)"
  unfolding parse_try_statement_def
  by (intro returns_bump_any returns_bump_bind returns_rules advances_head advances_rules advances_then grows_rules; auto simp: parser_tests)

lemma returns_parse_declare_statement [returns_rules]:
  "(\<And>p. tame (toks p) \<Longrightarrow> P p \<Longrightarrow> \<not> at_eof p) \<Longrightarrow> 1 \<le> k \<Longrightarrow> returns (turns g) P k (parse_declare_statement g)"
  unfolding parse_declare_statement_def
  by (intro returns_bump_any returns_bump_bind returns_rules advances_head advances_rules advances_then grows_rules; auto simp: parser_tests)

lemma returns_parse_expression_list_statement [returns_rules]:
  "(\<And>p. tame (toks p) \<Longrightarrow> P p \<Longrightarrow> \<not> at_eof p) \<Longrightarrow> 1 \<le> k \<Longrightarrow> returns (turns g) P k (parse_expression_list_statement g kind context)"
  unfolding parse_expression_list_statement_def
  by (intro returns_bump_any returns_bump_bind returns_rules advances_head advances_rules advances_then grows_rules; auto simp: parser_tests)

lemma returns_parse_parenthesized_construct_statement [returns_rules]:
  "(\<And>p. tame (toks p) \<Longrightarrow> P p \<Longrightarrow> \<not> at_eof p) \<Longrightarrow> 1 \<le> k \<Longrightarrow> returns (turns g) P k (parse_parenthesized_construct_statement g kind)"
  unfolding parse_parenthesized_construct_statement_def
  by (intro returns_bump_any returns_bump_bind returns_rules advances_head advances_rules advances_then grows_rules; auto simp: parser_tests)

lemma returns_parse_optional_expression_statement [returns_rules]:
  "(\<And>p. tame (toks p) \<Longrightarrow> P p \<Longrightarrow> \<not> at_eof p) \<Longrightarrow> 1 \<le> k \<Longrightarrow> returns (turns g) P k (parse_optional_expression_statement g kind)"
  unfolding parse_optional_expression_statement_def
  by (intro returns_bump_any returns_bump_bind returns_rules advances_head advances_rules advances_then grows_rules; auto simp: parser_tests)

lemma returns_parse_required_expression_statement [returns_rules]:
  "(\<And>p. tame (toks p) \<Longrightarrow> P p \<Longrightarrow> \<not> at_eof p) \<Longrightarrow> 1 \<le> k \<Longrightarrow> returns (turns g) P k (parse_required_expression_statement g kind)"
  unfolding parse_required_expression_statement_def
  by (intro returns_bump_any returns_bump_bind returns_rules advances_head advances_rules advances_then grows_rules; auto simp: parser_tests)

lemma returns_parse_expression_statement [returns_rules]:
  "2 \<le> k \<Longrightarrow> returns (turns g) P k (parse_expression_statement g)"
  unfolding parse_expression_statement_def
  by (intro returns_bump_any returns_bump_bind returns_rules advances_head advances_rules advances_then grows_rules; auto simp: parser_tests)

lemma returns_parse_declaration_or_expression [returns_rules]:
  "2 \<le> k \<Longrightarrow> returns (turns g) P k (parse_declaration_or_expression g)"
  unfolding parse_declaration_or_expression_def
  by (intro returns_pif_keep returns_bump_any returns_bump_bind returns_rules advances_head advances_rules advances_then grows_rules; auto simp: parser_tests)

lemma returns_parse_statement [returns_rules]:
  "2 \<le> k \<Longrightarrow> returns (turns g) P k (parse_statement g)"
  unfolding parse_statement_def
  by (intro returns_pif_keep returns_absurd [where P = "at (named T_Switch)"] returns_rules grows_rules; auto simp: parser_tests)

lemma returns_parse_php_block [returns_rules]:
  "(\<And>p. tame (toks p) \<Longrightarrow> P p \<Longrightarrow> \<not> at_eof p) \<Longrightarrow> 1 \<le> k \<Longrightarrow> returns (turns g) P k (parse_php_block g)"
  unfolding parse_php_block_def
  by (intro returns_bump_any returns_bump_bind returns_rules advances_head advances_rules advances_then grows_rules; auto simp: parser_tests)

lemma returns_source_file_step [returns_rules]:
  "1 \<le> k \<Longrightarrow> returns (turns g) P k (source_file_step g)"
  unfolding source_file_step_def
  by (intro returns_bump_any returns_bump_bind returns_rules advances_head advances_rules advances_then grows_rules; auto simp: parser_tests)

lemma returns_parse_file [returns_rules]:
  "1 \<le> k \<Longrightarrow> returns (turns g) P k (parse_file g)"
  unfolding parse_file_def
  by (intro returns_bump_any returns_bump_bind returns_rules advances_head advances_rules advances_then grows_rules; auto simp: parser_tests)

end

lemma turns_grammar [simp]: "turns (grammar n) = n"
  by (cases n) (simp_all add: Let_def)

lemma returns_zero: "0 < k \<Longrightarrow> grows any m \<Longrightarrow> returns 0 P k m"
  by (simp add: returns_def fueled_def)

lemma returns_deeper: "returns (turns (grammar n)) any k m \<Longrightarrow> returns (Suc n) any (Suc k) m"
  using returns_Suc by simp

lemma grammar_returns: "returning_grammar (grammar n)"
proof (induction n)
  case 0
  show ?case
    by (intro returning_grammar.intro grammar_advances returning_grammar_axioms.intro; simp only: turns_grammar)
       (intro returns_zero grammar.entry_points_grow; simp)+
next
  case (Suc n)
  note rules = returning_grammar.returns_parse_expression_bp [OF Suc] returning_grammar.returns_parse_prefix_or_primary [OF Suc]
    returning_grammar.returns_parse_simple_variable [OF Suc] returning_grammar.returns_parse_statement [OF Suc]
    returning_grammar.returns_parse_intersection_type [OF Suc] returning_grammar.returns_parse_use_import_clause [OF Suc]
  show ?case
    by (intro returning_grammar.intro grammar_advances returning_grammar_axioms.intro)
       (simp add: Let_def numeral_eq_Suc returns_deeper [OF rules(1)] returns_deeper [OF rules(2)] returns_deeper [OF rules(3)] returns_deeper [OF rules(4)] returns_deeper [OF rules(5)] returns_deeper [OF rules(6)])+
qed

interpretation grammar: returning_grammar "grammar n" for n
  by (rule grammar_returns)

end
