(* ===== verification/Parser_Hangs.thy ===== *)
theory Parser_Hangs
  imports Parser_Termination
begin

text \<open>
  Loops of the grammar that turn without consuming anything. \<open>idles\<close>: on tokens where a test holds, code runs
  out of fuel or leaves the tokens as they are. A loop with such a body runs out of every fuel: in the
  source it never ends, and every turn pushes more events and diagnostics.
\<close>

section \<open>Idling\<close>

definition idles :: "(parser \<Rightarrow> bool) \<Rightarrow> 'a pm \<Rightarrow> ('a \<Rightarrow> bool) \<Rightarrow> bool" where
  "idles P m R \<longleftrightarrow> grows any m \<and> (\<forall>p. P (stub p) \<longrightarrow> out_of_fuel (snd (run_state m p)) \<or>
     tokens_of (snd (run_state m p)) = tokens_of p \<and> R (fst (run_state m p)))"

named_theorems idles_rules \<open>nothing is consumed, by the shape of the code\<close>

lemma idlesI:
  assumes "grows any m" "\<And>p x q. P (stub p) \<Longrightarrow> run_state m p = (x, q) \<Longrightarrow> \<not> out_of_fuel q \<Longrightarrow> tokens_of q = tokens_of p \<and> R x"
  shows "idles P m R"
  using assms by (metis idles_def prod.collapse)

lemma idles_run: "idles P m R \<Longrightarrow> P (stub p) \<Longrightarrow> run_state m p = (x, q) \<Longrightarrow> \<not> out_of_fuel q \<Longrightarrow> tokens_of q = tokens_of p \<and> R x"
  by (metis idles_def fst_conv snd_conv)

lemma idles_grows: "idles P m R \<Longrightarrow> grows any m"
  by (simp add: idles_def)

lemma idles_weaken: "idles P m R \<Longrightarrow> (\<And>p. Q p \<Longrightarrow> P p) \<Longrightarrow> idles Q m R"
  by (auto simp: idles_def)

lemma idles_return [idles_rules]: "R x \<Longrightarrow> idles P (ret x) R"
  by (auto simp: idles_def intro: grows_rules)

lemma idles_bind:
  assumes "idles P m Q" "\<And>x. grows any (f x)" "\<And>x. Q x \<Longrightarrow> idles P (f x) R"
  shows "idles P (State_Monad.bind m f) R"
proof (rule idlesI)
  show "grows any (State_Monad.bind m f)" using idles_grows [OF assms(1)] assms(2) by (rule grows_bind)
  fix p y q assume a: "P (stub p)" "run_state (State_Monad.bind m f) p = (y, q)" "\<not> out_of_fuel q"
  obtain x p1 where run: "run_state m p = (x, p1)" by (metis prod.exhaust)
  have f: "run_state (f x) p1 = (y, q)" using a(2) run by simp
  have "\<not> out_of_fuel p1" using extends_facts(2) [OF run_grows [OF assms(2) f]] a(3) by blast
  then have "tokens_of p1 = tokens_of p" "Q x" using idles_run [OF assms(1) a(1) run] by simp_all
  then show "tokens_of q = tokens_of p \<and> R y" using idles_run [OF assms(3) _ f a(3)] a(1) stub_eq by metis
qed

lemma idles_pif [idles_rules]:
  assumes "\<And>p. t (stub p) = t p" "\<And>p. P p \<Longrightarrow> t p \<Longrightarrow> idles P a R" "\<And>p. P p \<Longrightarrow> \<not> t p \<Longrightarrow> idles P b R"
    "grows any a" "grows any b"
  shows "idles P (pif t a b) R"
proof (rule idlesI)
  show "grows any (pif t a b)" using assms(4,5) by (rule grows_pif)
  fix p x q assume a: "P (stub p)" "run_state (pif t a b) p = (x, q)" "\<not> out_of_fuel q"
  then show "tokens_of q = tokens_of p \<and> R x"
    using assms(1) idles_run [OF assms(2) [OF a(1)] a(1) _ a(3)] idles_run [OF assms(3) [OF a(1)] a(1) _ a(3)]
    by (cases "t p") (simp_all add: pif_def peek_def)
qed

lemma idles_error [idles_rules]: "idles P (error_expected message expected) any"
  by (auto simp: idles_def error_expected_def error_expected_with_id_def parser_error_def peek_def modify_def
      intro: grows_rules [unfolded error_expected_def error_expected_with_id_def parser_error_def peek_def modify_def])

lemma idles_node_with:
  assumes "idles P body (\<lambda>(kind, r). R r)" "grows (\<lambda>(kind, r). is_node kind) body"
  shows "idles P (node_with body) R"
proof (rule idlesI)
  show "grows any (node_with body)" using grows_node_with [of any body] assms(2) by (simp add: case_prod_unfold)
  fix p y q assume a: "P (stub p)" "run_state (node_with body) p = (y, q)" "\<not> out_of_fuel q"
  let ?p = "p\<lparr>events := events p @ [Placeholder]\<rparr>"
  obtain kind r p' where run: "run_state body ?p = ((kind, r), p')" by (metis prod.exhaust)
  then have "r = y" "tokens_of q = tokens_of p'" "out_of_fuel q = out_of_fuel p'"
    using a(2) by (auto simp: node_with_def start_def peek_def modify_def complete_marker_def)
  then show "tokens_of q = tokens_of p \<and> R y" using idles_run [OF assms(1) _ run] a by (simp add: stub_def)
qed

lemma idles_node [idles_rules]: "idles P body any \<Longrightarrow> idles P (node kind body) any"
  unfolding node_def using grows_node_result [OF idles_grows [of P body any]]
  by (intro idles_node_with idles_bind [where Q = any] idles_return grows_rules) (simp_all add: case_prod_unfold idles_grows)

lemma idles_pwhile:
  assumes "\<And>p. t (stub p) = t p" "\<And>p. P p \<Longrightarrow> \<not> t p" "grows any body"
  shows "idles P (pwhile n t body) any"
  using assms by (cases n) (auto intro!: idles_pif idles_return grows_rules)

lemma idles_bump_while [idles_rules]:
  assumes "\<And>p. t (stub p) = t p" "\<And>p. P p \<Longrightarrow> \<not> t p"
  shows "idles P (bump_while t) any"
proof (rule idlesI)
  fix p x q assume a: "P (stub p)" "run_state (bump_while t) p = (x, q)" "\<not> out_of_fuel q"
  have "idles P (pwhile (tokens_left p) t bump) any" using assms by (intro idles_pwhile grows_bump)
  then show "tokens_of q = tokens_of p \<and> True"
    using idles_run [of P "pwhile (tokens_left p) t bump" any p x q] a by (simp add: bump_while_def peek_def tokens_left_def)
qed (rule grows_bump_while)

lemma idles_exhausted: "idles P exhausted R"
  by (auto simp: idles_def exhausted_def modify_def intro: grows_exhausted [unfolded exhausted_def modify_def])

text \<open>A loop that its first turn ends.\<close>

lemma idles_ploop:
  assumes "idles P (body v) (\<lambda>r. \<not> snd r)" "\<And>v. grows any (body v)"
  shows "idles P (ploop n body v) any"
proof (cases n)
  case 0
  then show ?thesis by (auto intro!: idles_bind [where Q = any] idles_exhausted idles_return grows_rules)
next
  case (Suc m)
  then show ?thesis using assms by (auto intro!: idles_bind [OF assms(1)] idles_return grows_rules)
qed

section \<open>Loops that never end\<close>

lemma pwhile_hangs:
  assumes "idles P body any" "\<And>p. P p \<Longrightarrow> t p" "\<And>p. t (stub p) = t p"
  shows "P (stub p) \<Longrightarrow> out_of_fuel (snd (run_state (pwhile n t body) p))"
proof (induction n arbitrary: p)
  case 0
  then show ?case using assms(2) [of "stub p"] assms(3) by (simp add: pif_def peek_def exhausted_def modify_def)
next
  case (Suc n)
  obtain x q where run: "run_state body p = (x, q)" by (metis prod.exhaust)
  have t: "t p" using assms(2) [of "stub p"] assms(3) Suc.prems by simp
  show ?case
  proof (cases "out_of_fuel q")
    case True
    have "grows any (pwhile n t body)" using idles_grows [OF assms(1)] by (rule grows_pwhile)
    then have "out_of_fuel (snd (run_state (pwhile n t body) q))" using True by (auto simp: grows_def extends_def)
    then show ?thesis using run t by (simp add: pif_def peek_def)
  next
    case False
    then have "stub q = stub p" using idles_run [OF assms(1) Suc.prems run] stub_eq by blast
    then show ?thesis using Suc.IH [of q] Suc.prems run t by (simp add: pif_def peek_def)
  qed
qed

lemma ploop_hangs:
  assumes "\<And>v. idles P (body v) snd"
  shows "P (stub p) \<Longrightarrow> out_of_fuel (snd (run_state (ploop n body v) p))"
proof (induction n arbitrary: p v)
  case 0
  then show ?case by (simp add: exhausted_def modify_def)
next
  case (Suc n)
  obtain v' c q where run: "run_state (body v) p = ((v', c), q)" by (metis prod.exhaust)
  show ?case
  proof (cases "out_of_fuel q")
    case True
    have "grows any (ploop n body v')" using idles_grows [OF assms] by (rule grows_ploop)
    then have "out_of_fuel (snd (run_state (ploop n body v') q))" using True by (auto simp: grows_def extends_def)
    then show ?thesis using run True by simp
  next
    case False
    then have "tokens_of q = tokens_of p" "c" using idles_run [OF assms Suc.prems run] by simp_all
    then have "stub q = stub p" "c" by (simp_all add: stub_def)
    then show ?thesis using Suc.IH [of q v'] Suc.prems run by simp
  qed
qed

section \<open>Code that idles\<close>

lemma idles_or_else [idles_rules]:
  "idles P m (\<lambda>r. \<not> r) \<Longrightarrow> idles P e any \<Longrightarrow> idles P (or_else m e) any"
  unfolding or_else_def by (auto intro!: idles_bind [where Q = "\<lambda>r. \<not> r"] grows_rules dest: idles_grows)

lemma idles_bump_trivia [idles_rules]: "(\<And>p. P p \<Longrightarrow> \<not> at_trivia p) \<Longrightarrow> idles P bump_trivia any"
  unfolding bump_trivia_def by (intro idles_rules; simp add: parser_tests)

text \<open>An expression that starts at a stop token.\<close>

lemma idles_expression [idles_rules]:
  assumes "\<And>p. P p \<Longrightarrow> at_expression_stop p"
  shows "idles P (rec_expression_bp (grammar n) b) (\<lambda>r. \<not> r)" "idles P (parse_expression (grammar n)) (\<lambda>r. \<not> r)"
proof -
  have "idles P (parse_expression_bp (grammar m) c) (\<lambda>r. \<not> r)" for m c
    unfolding parse_expression_bp_def using assms
    by (intro idles_pif idles_return grammar.grows_parse_expression_bp [unfolded parse_expression_bp_def] grows_rules) (auto simp: parser_tests)
  moreover have "idles P (do { exhausted; ret False }) (\<lambda>r. \<not> r)"
    by (intro idles_bind [where Q = any] idles_exhausted idles_return grows_rules) simp_all
  ultimately show "idles P (rec_expression_bp (grammar n) b) (\<lambda>r. \<not> r)" for b
    by (cases n) (simp_all add: Let_def)
  then show "idles P (parse_expression (grammar n)) (\<lambda>r. \<not> r)" by (simp add: parse_expression_def)
qed

lemma not_contextual [parser_tests]:
  "current p = named T_CloseTag \<Longrightarrow> \<not> at_contextual_identifier p" "current p = symbol c \<Longrightarrow> \<not> at_contextual_identifier p"
  by (auto simp: at_contextual_identifier_def ts_current_keyword_context_def current_def nth_kind_def ts_nth_def named_def symbol_def
      from_token_kind_def is_contextual_name_token_def split: option.splits token_kind.splits)

lemma call_argument_step_idles: "idles (at (named T_CloseTag)) (call_argument_step (grammar n) v) snd"
  unfolding call_argument_step_def parse_argument_def argument_expression_def recover_to_argument_boundary_def
  by (intro idles_rules idles_bind [where Q = any] grammar.grows_call_argument_step grows_rules; auto simp: parser_tests)

lemma idles_modifiers [idles_rules]: "(\<And>p. P p \<Longrightarrow> \<not> at_modifier p \<and> \<not> at_trivia p) \<Longrightarrow> idles P (parse_modifiers g) any"
  unfolding parse_modifiers_def modifier_step_def
  by (intro idles_ploop idles_rules idles_bind [where Q = any] grows_rules; auto simp: parser_tests)

lemma idles_attribute_groups [idles_rules]: "(\<And>p. P p \<Longrightarrow> \<not> at (named T_Attribute) p) \<Longrightarrow> idles P (parse_attribute_groups (grammar n)) any"
  unfolding parse_attribute_groups_def by (intro idles_pwhile grammar.grows_parse_attribute_group; auto simp: parser_tests)

lemma idles_statement_boundary [idles_rules]: "(\<And>p. P p \<Longrightarrow> at_statement_recovery_token p) \<Longrightarrow> idles P recover_to_statement_boundary any"
  unfolding recover_to_statement_boundary_def recover_until_def by (intro idles_rules; auto simp: parser_tests)

lemma parse_member_idles: "idles (at (named T_CloseTag)) (parse_member (grammar n)) any"
  unfolding parse_member_def consume_property_member_def
  by (intro idles_node_with idles_pwhile idles_rules idles_bind [where Q = any] grammar.grows_parse_member [unfolded parse_member_def]
      grammar.grows_property_tokens_step grows_rules; auto simp: parser_tests)

lemma parse_property_hook_idles: "idles (at (named T_CloseTag)) (parse_property_hook (grammar n)) any"
  unfolding parse_property_hook_def property_hook_body_def recover_to_property_hook_boundary_def
  by (intro idles_rules idles_bind [where Q = any] grows_rules; auto simp: parser_tests)

lemma closure_use_step_idles:
  assumes "kind = symbol CHR ''{'' \<or> kind = symbol CHR ''}'' \<or> kind = symbol CHR '';'' \<or> kind = named T_CloseTag"
  shows "idles (at kind) (closure_use_step (grammar n) v) snd"
  using assms unfolding closure_use_step_def parse_optional_ampersand_def recover_to_parameter_boundary_def
  by (elim disjE; hypsubst) (intro idles_rules idles_bind [where Q = any] grows_rules; auto simp: parser_tests)+

text \<open>A statement that starts at a closing brace.\<close>

lemma idles_statement: "idles (at (symbol CHR ''}'')) (rec_statement (grammar n)) any"
proof -
  have false: "idles (at (symbol CHR ''}'')) (pif t a b) any"
    if "\<And>p. t (stub p) = t p" "\<And>p. at (symbol CHR ''}'') p \<Longrightarrow> \<not> t p" "idles (at (symbol CHR ''}'')) b any" "grows any a" for t a b
    using that by (intro idles_pif) (auto dest: idles_grows)
  have "idles (at (symbol CHR ''}'')) (parse_expression_statement (grammar m)) any" for m
    unfolding parse_expression_statement_def consume_statement_terminator_def
    by (intro idles_rules idles_bind [where Q = any] grows_rules; auto simp: parser_tests)
  then have "idles (at (symbol CHR ''}'')) (parse_statement (grammar m)) any" for m
    unfolding parse_statement_def parse_declaration_or_expression_def
    by (intro false grows_rules; auto simp: parser_tests)
  then show ?thesis by (cases n) (simp_all add: Let_def idles_exhausted)
qed

lemma switch_body_step_idles: "idles (at (symbol CHR ''}'')) (switch_body_step (grammar n) at_switch_alternative_end) any"
  unfolding switch_body_step_def
  by (intro idles_rules idles_statement idles_bind [where Q = any] grows_rules; auto simp: parser_tests)

section \<open>Reaching a loop that never ends\<close>

text \<open>The kinds of the next tokens.\<close>

definition ahead :: "syntax_kind list \<Rightarrow> parser \<Rightarrow> bool" where
  "ahead ks p \<longleftrightarrow> take (length ks) (kinds_from 0 p) = ks"

lemma ahead_stub [stub_simps]: "ahead ks (stub p) = ahead ks p"
  by (simp add: ahead_def stub_simps)

lemma kinds_from_current: "\<not> at_eof p \<Longrightarrow> kinds_from 0 p = current p # kinds_from 0 (snd (run_state bump p))"
  using bump_advances [of p]
  by (simp add: kinds_from_def bump_keeps at_eof_def ts_is_eof_def current_def nth_kind_def ts_nth_def get_at_def
      Cons_nth_drop_Suc [symmetric])

lemma ahead_not_eof: "ahead (k # ks) p \<Longrightarrow> \<not> at_eof p"
  by (auto simp: ahead_def kinds_from_def at_eof_def ts_is_eof_def)

lemma ahead_Cons:
  assumes "ahead (k # ks) p"
  shows "current p = k" "ahead ks (snd (run_state bump p))"
proof -
  have "kinds_from 0 p = current p # kinds_from 0 (snd (run_state bump p))"
    using ahead_not_eof [OF assms] by (rule kinds_from_current)
  then show "current p = k" "ahead ks (snd (run_state bump p))" using assms by (simp_all add: ahead_def)
qed

lemmas ahead_current = ahead_Cons(1) and ahead_bump = ahead_Cons(2)

text \<open>\<open>leads\<close>: from tokens where \<open>P\<close> holds, code runs out of fuel or gets to tokens where \<open>Q\<close> holds, with a
  result of \<open>R\<close>. Code that leads nowhere runs out of every fuel.\<close>

definition leads :: "(parser \<Rightarrow> bool) \<Rightarrow> 'a pm \<Rightarrow> (parser \<Rightarrow> bool) \<Rightarrow> ('a \<Rightarrow> bool) \<Rightarrow> bool" where
  "leads P m Q R \<longleftrightarrow> (\<forall>p. P (stub p) \<longrightarrow> out_of_fuel (snd (run_state m p)) \<or>
     Q (stub (snd (run_state m p))) \<and> R (fst (run_state m p)))"

abbreviation nowhere :: "parser \<Rightarrow> bool" where
  "nowhere \<equiv> \<lambda>_. False"

lemma leadsI:
  "(\<And>p x q. P (stub p) \<Longrightarrow> run_state m p = (x, q) \<Longrightarrow> \<not> out_of_fuel q \<Longrightarrow> Q (stub q) \<and> R x) \<Longrightarrow> leads P m Q R"
  unfolding leads_def by (metis prod.collapse)

lemma leads_run: "leads P m Q R \<Longrightarrow> P (stub p) \<Longrightarrow> run_state m p = (x, q) \<Longrightarrow> \<not> out_of_fuel q \<Longrightarrow> Q (stub q) \<and> R x"
  by (metis leads_def fst_conv snd_conv)

lemma leads_weaken: "leads P m Q R \<Longrightarrow> (\<And>p. P' p \<Longrightarrow> P p) \<Longrightarrow> leads P' m Q R"
  by (auto simp: leads_def)

lemma leads_idle: "idles P m R \<Longrightarrow> leads P m P R"
  unfolding leads_def idles_def by (metis stub_eq)

lemma leads_return: "R x \<Longrightarrow> leads P (ret x) P R"
  by (simp add: leads_def)

lemma leads_bump: "leads (ahead (k # ks)) bump (ahead ks) any"
  using ahead_bump by (auto simp: leads_def stub_simps)

lemma leads_bind:
  assumes "leads P m Q S" "\<And>x. S x \<Longrightarrow> leads Q (f x) Q' R" "\<And>x. grows any (f x)"
  shows "leads P (State_Monad.bind m f) Q' R"
proof (rule leadsI)
  fix p y q assume a: "P (stub p)" "run_state (State_Monad.bind m f) p = (y, q)" "\<not> out_of_fuel q"
  obtain x p1 where run: "run_state m p = (x, p1)" by (metis prod.exhaust)
  have f: "run_state (f x) p1 = (y, q)" using a(2) run by simp
  have "\<not> out_of_fuel p1" using extends_facts(2) [OF run_grows [OF assms(3) f]] a(3) by blast
  then show "Q' (stub q) \<and> R y" using leads_run [OF assms(1) a(1) run] leads_run [OF assms(2) _ f a(3)] by blast
qed

text \<open>When the first part leads nowhere, the rest does not matter.\<close>

lemma leads_first: "leads P m nowhere any \<Longrightarrow> (\<And>x. grows any (f x)) \<Longrightarrow> leads P (State_Monad.bind m f) Q R"
  by (rule leads_bind [where Q = nowhere]) (auto simp: leads_def)

lemma run_pif: "run_state (pif t a b) p = (if t p then run_state a p else run_state b p)"
  by (simp add: pif_def peek_def)

lemma leads_true: "(\<And>p. t (stub p) = t p) \<Longrightarrow> (\<And>p. P p \<Longrightarrow> t p) \<Longrightarrow> leads P a Q R \<Longrightarrow> leads P (pif t a b) Q R"
  unfolding leads_def by (metis run_pif)

lemma leads_false: "(\<And>p. t (stub p) = t p) \<Longrightarrow> (\<And>p. P p \<Longrightarrow> \<not> t p) \<Longrightarrow> leads P b Q R \<Longrightarrow> leads P (pif t a b) Q R"
  unfolding leads_def by (metis run_pif)

lemma leads_peek:
  "(\<And>p. f (stub p) = f p) \<Longrightarrow> (\<And>x. leads (\<lambda>p. P p \<and> f p = x) (h x) Q R) \<Longrightarrow> leads P (State_Monad.bind (peek f) h) Q R"
  unfolding leads_def by (simp add: peek_def)

lemma leads_peek_value:
  "(\<And>p. f (stub p) = f p) \<Longrightarrow> (\<And>p. P p \<Longrightarrow> f p = v) \<Longrightarrow> leads P (h v) Q R \<Longrightarrow> leads P (State_Monad.bind (peek f) h) Q R"
  unfolding leads_def peek_def by (auto, metis+)

lemma leads_node_with: "leads P body Q (\<lambda>(kind, r). R r) \<Longrightarrow> leads P (node_with body) Q R"
  unfolding leads_def by (auto simp: node_with_def start_def peek_def modify_def complete_marker_def stub_def case_prod_unfold)

lemma leads_node: "leads P body Q any \<Longrightarrow> leads P (node kind body) Q any"
  unfolding node_def by (rule leads_node_with, rule leads_bind [where S = any]) (auto simp: leads_def intro: grows_rules)

lemma leads_pwhile:
  assumes "\<And>p. t (stub p) = t p" "\<And>p. P p \<Longrightarrow> t p" "grows any body" "leads P body nowhere any"
  shows "leads P (pwhile n t body) Q R"
proof (cases n)
  case 0
  have "leads P exhausted Q R" by (simp add: leads_def exhausted_def modify_def)
  then show ?thesis using assms(1,2) by (simp add: 0 leads_true)
next
  case (Suc m)
  have "leads P (do { body; pwhile m t body }) Q R" using assms(3) by (intro leads_first assms(4) grows_pwhile)
  then show ?thesis using assms(1,2) by (simp add: Suc leads_true)
qed

lemma leads_ploop:
  assumes "leads P (body v) nowhere any" "\<And>v. grows any (body v)"
  shows "leads P (ploop n body v) Q R"
proof (cases n)
  case 0
  then show ?thesis by (simp add: leads_def exhausted_def modify_def)
next
  case (Suc m)
  show ?thesis unfolding Suc ploop.simps by (rule leads_first [OF assms(1)]) (intro grows_rules assms(2); simp)
qed

lemma leads_pwhile_idle:
  "idles P body any \<Longrightarrow> (\<And>p. P p \<Longrightarrow> t p) \<Longrightarrow> (\<And>p. t (stub p) = t p) \<Longrightarrow> leads P (pwhile n t body) Q R"
  unfolding leads_def by (intro allI impI disjI1 pwhile_hangs)

lemma leads_ploop_idle: "(\<And>v. idles P (body v) snd) \<Longrightarrow> leads P (ploop n body v) Q R"
  unfolding leads_def by (intro allI impI disjI1 ploop_hangs)

section \<open>The way to each loop\<close>

lemma leads_bump_then:
  "leads (ahead ks) (f ()) Q R \<Longrightarrow> grows any (f ()) \<Longrightarrow> leads (ahead (k # ks)) (State_Monad.bind bump f) Q R"
  by (rule leads_bind [OF leads_bump]) simp_all

lemma leads_idle_then:
  "idles P m any \<Longrightarrow> (\<And>x. leads P (f x) Q R) \<Longrightarrow> (\<And>x. grows any (f x)) \<Longrightarrow> leads P (State_Monad.bind m f) Q R"
  by (rule leads_bind [OF leads_idle])

lemma leads_pif_then:
  "leads P (pif t (State_Monad.bind a f) (State_Monad.bind b f)) Q R \<Longrightarrow> leads P (State_Monad.bind (pif t a b) f) Q R"
  by (simp add: pif_bind)

lemma leads_entry:
  "(\<And>m. leads P (parse_statement (grammar m)) Q R) \<Longrightarrow> leads P (rec_statement (grammar n)) Q R"
  "(\<And>m. leads P (parse_expression_bp (grammar m) b) Q S) \<Longrightarrow> leads P (rec_expression_bp (grammar n) b) Q S"
  by (cases n; simp add: Let_def; simp add: leads_def exhausted_def modify_def)+

lemma ahead_nth: "ahead (a # b # ks) p \<Longrightarrow> nth_kind 1 p = b"
  using ahead_current [of b ks "snd (run_state bump p)"] ahead_bump [of a "b # ks" p] bump_advances [of p] ahead_not_eof [of a "b # ks" p]
  by (simp add: current_def nth_kind_def ts_nth_def bump_keeps)

lemma ahead_next: "ahead (a # b # ks) p \<Longrightarrow> \<not> is_trivia b \<Longrightarrow> next_non_trivia_is 1 k p \<longleftrightarrow> k = b"
proof -
  assume a: "ahead (a # b # ks) p" "\<not> is_trivia b"
  have "kinds_from 1 p = kinds_from 0 (snd (run_state bump p))"
    using bump_advances [OF ahead_not_eof [OF a(1)]] by (simp add: kinds_from_def bump_keeps)
  also have "\<dots> = b # kinds_from 0 (snd (run_state bump (snd (run_state bump p))))"
    using kinds_from_current [OF ahead_not_eof [OF ahead_bump [OF a(1)]]] ahead_current [OF ahead_bump [OF a(1)]] by simp
  finally show "next_non_trivia_is 1 k p \<longleftrightarrow> k = b" using a(2) by (auto simp: next_non_trivia_is_def)
qed

lemmas ahead_tests = ahead_current ahead_not_eof ahead_nth [simplified] ahead_next [simplified]

lemma leads_call_tail: "leads (ahead [symbol CHR ''('', named T_CloseTag]) (parse_call_tail (grammar n)) nowhere any"
  unfolding parse_call_tail_def
  by (rule leads_node, rule leads_bump_then, rule leads_first, rule leads_ploop_idle, rule idles_weaken [OF call_argument_step_idles])
     (auto simp: at_def dest: ahead_current intro!: grows_rules)

lemma leads_member_list: "leads (ahead [symbol CHR ''{'', named T_CloseTag]) (parse_member_list (grammar n)) nowhere any"
proof -
  have "idles (ahead [named T_CloseTag]) (pif (\<lambda>p. at_trivia p \<or> at (symbol CHR '';'') p) bump (parse_member (grammar n))) any"
    by (intro idles_pif idles_weaken [OF parse_member_idles] grows_rules) (auto simp: parser_tests ahead_tests)
  then show ?thesis unfolding parse_member_list_def
    by (intro leads_node leads_bump_then leads_first leads_pwhile_idle grows_rules) (auto simp: parser_tests ahead_tests)
qed

lemma leads_property_hook_list: "leads (ahead [symbol CHR ''{'', named T_CloseTag]) (parse_property_hook_list (grammar n)) nowhere any"
proof -
  have "idles (ahead [named T_CloseTag]) (pif (\<lambda>p. at_trivia p \<or> at (symbol CHR '';'') p) bump (parse_property_hook (grammar n))) any"
    by (intro idles_pif idles_weaken [OF parse_property_hook_idles] grows_rules) (auto simp: parser_tests ahead_tests)
  then show ?thesis unfolding parse_property_hook_list_def
    by (intro leads_bump_then leads_first leads_pwhile_idle grows_rules) (auto simp: parser_tests ahead_tests)
qed

lemma leads_closure_use_list:
  "leads (ahead [named T_Use, symbol CHR ''('', symbol CHR ''{'']) (parse_optional_closure_use_list (grammar n)) nowhere any"
proof -
  have step: "idles (ahead [symbol CHR ''{'']) (closure_use_step (grammar n) v) snd" for v
    by (rule idles_weaken [OF closure_use_step_idles [of "symbol CHR ''{''"]]) (auto simp: at_def ahead_tests)
  show ?thesis unfolding parse_optional_closure_use_list_def
    by (rule leads_idle_then, intro idles_rules, simp add: parser_tests ahead_tests,
        rule leads_true, simp add: parser_tests, simp add: parser_tests ahead_tests, rule leads_node, rule leads_bump_then,
        rule leads_idle_then, intro idles_rules, simp add: parser_tests ahead_tests,
        rule leads_true, simp add: parser_tests, simp add: parser_tests ahead_tests,
        rule leads_bump_then, rule leads_first, rule leads_ploop_idle, rule step; intro grows_rules; simp)
qed

lemma leads_switch_body: "leads (ahead [symbol CHR ''}'']) (parse_switch_body (grammar n) at_switch_alternative_end) nowhere any"
  unfolding parse_switch_body_def
  by (intro leads_pwhile_idle idles_weaken [OF switch_body_step_idles]) (auto simp: parser_tests ahead_tests)

text \<open>From the start of the source to a statement.\<close>

lemma leads_file:
  assumes "\<And>n. leads (ahead (k # ks)) (parse_statement (grammar n)) nowhere any" "\<not> is_trivia k" "k \<noteq> named T_CloseTag" "k \<noteq> symbol CHR ''}''"
  shows "leads (ahead (named T_OpenTag # k # ks)) (parse_file (grammar n)) nowhere any"
proof -
  have "leads (ahead (k # ks)) (guarded_statement (grammar m)) nowhere any" for m
    unfolding guarded_statement_def
    by (intro leads_peek leads_first leads_weaken [OF leads_entry(1) [OF assms(1)]] grows_rules) (auto simp: parser_tests)
  then have "leads (ahead (k # ks)) (pif at_trivia bump (guarded_statement (grammar m))) nowhere any" for m
    by (intro leads_false) (use assms(2) in \<open>auto simp: parser_tests ahead_tests\<close>)
  then have list: "leads (ahead (k # ks)) (parse_statement_list_contents (grammar m)) nowhere any" for m
    unfolding parse_statement_list_contents_def
    by (intro leads_pwhile grows_rules) (use assms(3,4) in \<open>auto simp: parser_tests ahead_tests\<close>)
  have "leads (ahead (named T_OpenTag # k # ks)) (parse_php_block (grammar m)) nowhere any" for m
    unfolding parse_php_block_def
    by (rule leads_node, rule leads_peek_value [where v = False], simp add: parser_tests, simp add: parser_tests ahead_tests)
       (simp, intro leads_bump_then leads_first leads_node list grows_rules; simp)
  then have "leads (ahead (named T_OpenTag # k # ks)) (source_file_step (grammar n)) nowhere any"
    unfolding source_file_step_def by (intro leads_false leads_true) (auto simp: parser_tests ahead_tests)
  then show ?thesis
    unfolding parse_file_def by (intro leads_node leads_pwhile grows_rules) (auto simp: parser_tests ahead_tests)
qed

text \<open>The tests of the statement and of the primary expression, tried in order.\<close>

lemma leads_por: "idles P a (\<lambda>r. \<not> r) \<Longrightarrow> leads P b Q R \<Longrightarrow> grows any b \<Longrightarrow> leads P (por a b) Q R"
  unfolding por_def by (rule leads_bind [OF leads_idle [where R = "\<lambda>r. \<not> r"]]) (auto intro: grows_rules)

lemma idles_false: "(\<And>p. t (stub p) = t p) \<Longrightarrow> (\<And>p. P p \<Longrightarrow> \<not> t p) \<Longrightarrow> grows any a \<Longrightarrow> idles P b R \<Longrightarrow> idles P (pif t a b) R"
  by (intro idles_pif) (auto dest: idles_grows)

lemma leads_pwhile_once:
  assumes "\<And>p. t (stub p) = t p" "\<And>p. P p \<Longrightarrow> t p" "\<And>p. Q p \<Longrightarrow> \<not> t p" "grows any body" "leads P body Q any"
  shows "leads P (pwhile n t body) Q any"
proof (cases n)
  case 0
  have "leads P exhausted Q any" by (simp add: leads_def exhausted_def modify_def)
  then show ?thesis using assms(1,2) by (simp add: 0 leads_true)
next
  case (Suc m)
  have "leads P (do { body; pwhile m t body }) Q any"
    using assms by (intro leads_bind [OF assms(5)] leads_idle idles_pwhile grows_pwhile)
  then show ?thesis using assms(1,2) by (simp add: Suc leads_true)
qed

lemma leads_member:
  "leads (ahead [named T_Variable, symbol CHR ''{'', named T_CloseTag]) (parse_member (grammar n)) nowhere any"
proof -
  have "leads (ahead [named T_Variable, symbol CHR ''{'', named T_CloseTag]) (property_tokens_step (grammar n))
      (ahead [symbol CHR ''{'', named T_CloseTag]) any"
    unfolding property_tokens_step_def by (rule leads_false, simp add: parser_tests, simp add: parser_tests ahead_tests, rule leads_bump)
  then have "leads (ahead [named T_Variable, symbol CHR ''{'', named T_CloseTag]) (consume_property_member (grammar n)) nowhere any"
    unfolding consume_property_member_def
    by (intro leads_bind [OF leads_pwhile_once [where Q = "ahead [symbol CHR ''{'', named T_CloseTag]"]]
          leads_false [OF _ _ leads_true] leads_property_hook_list grows_rules)
       (auto simp: parser_tests ahead_tests)
  then show ?thesis
    unfolding parse_member_def
    by (intro leads_node_with leads_idle_then idles_rules leads_false leads_first grows_rules) (auto simp: parser_tests ahead_tests)
qed

lemma leads_hook_members:
  "leads (ahead [symbol CHR ''{'', named T_Variable, symbol CHR ''{'', named T_CloseTag]) (parse_member_list (grammar n)) nowhere any"
proof -
  have "leads (ahead [named T_Variable, symbol CHR ''{'', named T_CloseTag])
      (pif (\<lambda>p. at_trivia p \<or> at (symbol CHR '';'') p) bump (parse_member (grammar n))) nowhere any"
    by (rule leads_false) (auto simp: parser_tests ahead_tests leads_member)
  then show ?thesis unfolding parse_member_list_def
    by (intro leads_node leads_bump_then leads_first leads_pwhile grows_rules) (auto simp: parser_tests ahead_tests)
qed

lemma leads_class:
  assumes "\<And>n. leads (ahead (symbol CHR ''{'' # ks)) (parse_member_list (grammar n)) nowhere any"
  shows "leads (ahead (named T_Class # symbol CHR ''{'' # ks)) (parse_class_like_declaration (grammar n)) nowhere any"
proof -
  have "leads (ahead (symbol CHR ''{'' # ks)) (class_like_rest (grammar n) True) nowhere any"
    unfolding class_like_rest_def consume_until_class_body_def
    by (simp, intro leads_idle_then idles_rules idles_false leads_true assms grows_rules) (auto simp: parser_tests ahead_tests)
  then show ?thesis
    unfolding parse_class_like_def
    by (intro leads_node_with leads_idle_then idles_rules leads_true leads_bump_then leads_first grows_rules)
       (auto simp: parser_tests ahead_tests)
qed

lemma leads_variable: "leads (ahead (named T_Variable # ks)) (parse_simple_variable (grammar n)) (ahead ks) id"
  unfolding parse_simple_variable_def
  by (rule leads_true, simp add: parser_tests, simp add: parser_tests ahead_tests,
      rule leads_bind [OF leads_node [OF leads_true [OF _ _ leads_bump]]])
     (auto simp: parser_tests ahead_tests intro: leads_return grows_rules)

text \<open>Before the variables of an expression come the primaries that start with another token.\<close>

lemma leads_primary_variable: "leads (ahead (named T_Variable # ks)) (parse_primary (grammar n)) (ahead ks) id"
  unfolding parse_primary_def parse_string_like_def parse_array_expression_def parse_closure_expression_def
    parse_arrow_function_expression_def por_def [of "parse_simple_variable _"]
  by (intro leads_false leads_por idles_false idles_return leads_bind [OF leads_variable] grows_rules)
     (auto simp: parser_tests ahead_tests intro: leads_return)

lemma leads_expression_call:
  "leads (ahead [named T_Variable, symbol CHR ''('', named T_CloseTag]) (parse_expression_bp (grammar n) b) nowhere any"
proof -
  have "leads (ahead [symbol CHR ''('', named T_CloseTag]) (expression_tail_step (grammar n) b v) nowhere any" for v
    unfolding expression_tail_step_def
    by (intro leads_idle_then idles_rules leads_false [OF _ _ leads_true] leads_first leads_call_tail grows_rules)
       (auto simp: parser_tests ahead_tests)
  then have tail: "leads (ahead [symbol CHR ''('', named T_CloseTag]) (ploop m (expression_tail_step (grammar n) b) v) nowhere any" for m v
    by (rule leads_ploop) (intro grows_rules)
  have "leads (ahead [named T_Variable, symbol CHR ''('', named T_CloseTag]) (parse_prefix_or_primary (grammar n))
      (ahead [symbol CHR ''('', named T_CloseTag]) id"
    unfolding parse_prefix_or_primary_def
    by (intro leads_idle_then idles_rules leads_false leads_primary_variable grows_rules) (auto simp: parser_tests ahead_tests)
  then show ?thesis
    unfolding parse_expression_bp_def
    by (intro leads_false leads_node_with leads_idle_then idles_rules leads_bind [where Q = "ahead [symbol CHR ''('', named T_CloseTag]" and S = id] grows_rules)
       (auto simp: parser_tests ahead_tests intro!: leads_first tail grows_rules)
qed

lemma leads_parameter_list:
  "leads (ahead (symbol CHR ''('' # symbol CHR '')'' # ks)) (parse_parameter_list (grammar n)) (ahead ks) any"
proof -
  have "idles (ahead (symbol CHR '')'' # ks)) (parameter_step (grammar n) v) (\<lambda>r. \<not> snd r)" for v
    unfolding parameter_step_def by (intro idles_pif idles_return grows_rules) (auto simp: parser_tests ahead_tests)
  then show ?thesis
    unfolding parse_parameter_list_def
    by (intro leads_idle_then idles_rules leads_node leads_true leads_bump_then idles_ploop leads_bump grows_rules)
       (auto simp: parser_tests ahead_tests)
qed

lemma leads_closure:
  "leads (ahead [named T_Function, symbol CHR ''('', symbol CHR '')'', named T_Use, symbol CHR ''('', symbol CHR ''{''])
     (parse_closure_expression (grammar n)) nowhere any"
  unfolding parse_closure_expression_def expect_function_keyword_def parse_optional_ampersand_def
  by (rule leads_true, simp add: parser_tests, simp add: parser_tests ahead_tests)
     (intro leads_first leads_node leads_idle_then idles_rules idles_false leads_pif_then leads_true leads_bump_then
        leads_bind [OF leads_parameter_list] leads_closure_use_list grows_rules;
      auto simp: parser_tests ahead_tests)

lemma leads_expression_closure:
  "leads (ahead [symbol CHR ''+'', named T_Function, symbol CHR ''('', symbol CHR '')'', named T_Use, symbol CHR ''('', symbol CHR ''{''])
     (parse_expression_bp (grammar n) b) nowhere any"
proof -
  let ?closure = "[named T_Function, symbol CHR ''('', symbol CHR '')'', named T_Use, symbol CHR ''('', symbol CHR ''{'']"
  have "leads (ahead ?closure) (parse_primary (grammar m)) nowhere any" for m
    unfolding parse_primary_def parse_string_like_def parse_array_expression_def por_def [of "parse_closure_expression _"]
    by (intro leads_false leads_por idles_false idles_return leads_first leads_closure grows_rules)
       (auto simp: parser_tests ahead_tests)
  then have "leads (ahead ?closure) (parse_prefix_or_primary (grammar m)) nowhere any" for m
    unfolding parse_prefix_or_primary_def
    by (intro leads_idle_then idles_rules leads_false grows_rules) (auto simp: parser_tests ahead_tests)
  then have inner: "leads (ahead ?closure) (parse_expression_bp (grammar m) c) nowhere any" for m c
    unfolding parse_expression_bp_def
    by (intro leads_false leads_node_with leads_idle_then idles_rules leads_first grows_rules) (auto simp: parser_tests ahead_tests)
  have "leads (ahead (symbol CHR ''+'' # ?closure)) (parse_prefix_or_primary (grammar m)) nowhere any" for m
    unfolding parse_prefix_or_primary_def or_else_def
    by (intro leads_idle_then idles_rules leads_true leads_node_with leads_peek_value [where v = False] leads_bump_then leads_first
          leads_entry inner grows_rules)
       (auto simp: parser_tests ahead_tests)
  then show ?thesis
    unfolding parse_expression_bp_def
    by (intro leads_false leads_node_with leads_idle_then idles_rules leads_first grows_rules) (auto simp: parser_tests ahead_tests)
qed

lemma leads_expression_statement:
  assumes "\<And>m. leads P (parse_expression_bp (grammar m) 0) nowhere any"
  shows "leads P (parse_expression_statement (grammar n)) nowhere any"
  unfolding parse_expression_statement_def or_else_def parse_expression_def
  by (intro leads_node leads_first leads_entry assms grows_rules; simp)

lemma leads_statement_call: "leads (ahead [named T_Variable, symbol CHR ''('', named T_CloseTag]) (parse_statement (grammar n)) nowhere any"
  unfolding parse_statement_def parse_declaration_or_expression_def
  by (intro leads_false leads_expression_statement leads_expression_call) (auto simp: parser_tests ahead_tests)

lemma leads_statement_closure:
  "leads (ahead [symbol CHR ''+'', named T_Function, symbol CHR ''('', symbol CHR '')'', named T_Use, symbol CHR ''('', symbol CHR ''{''])
     (parse_statement (grammar n)) nowhere any"
  unfolding parse_statement_def parse_declaration_or_expression_def
  by (intro leads_false leads_expression_statement leads_expression_closure) (auto simp: parser_tests ahead_tests)

lemma leads_statement_class:
  assumes "\<And>m. leads (ahead (symbol CHR ''{'' # ks)) (parse_member_list (grammar m)) nowhere any"
  shows "leads (ahead (named T_Class # symbol CHR ''{'' # ks)) (parse_statement (grammar n)) nowhere any"
proof -
  have here: "leads (ahead (named T_Class # symbol CHR ''{'' # ks)) (pif at_class_like_declaration (parse_class_like_declaration (grammar n)) b) nowhere any" for b
    by (intro leads_true leads_class assms) (auto simp: parser_tests ahead_tests)
  show ?thesis
    unfolding parse_statement_def parse_declaration_or_expression_def
    by (intro here leads_false) (auto simp: parser_tests ahead_tests)
qed

lemma leads_statement_switch: "leads (ahead [named T_Switch, symbol CHR '':'', symbol CHR ''}'']) (parse_statement (grammar n)) nowhere any"
proof -
  have "leads (ahead [named T_Switch, symbol CHR '':'', symbol CHR ''}'']) (parse_switch_statement (grammar n)) nowhere any"
    unfolding parse_switch_statement_def parse_parenthesized_expression_header_def
    by (intro leads_node leads_bump_then leads_idle_then idles_rules idles_bind [where Q = any] idles_false leads_true leads_first
          leads_switch_body grows_rules)
       (auto simp: parser_tests ahead_tests)
  then have here: "leads (ahead [named T_Switch, symbol CHR '':'', symbol CHR ''}'']) (pif (at (named T_Switch)) (parse_switch_statement (grammar n)) b) nowhere any" for b
    by (intro leads_true) (auto simp: parser_tests ahead_tests)
  show ?thesis unfolding parse_statement_def by (intro here leads_false) (auto simp: parser_tests ahead_tests)
qed

end
