(* ===== verification/Syntax_Tree.thy ===== *)
theory Syntax_Tree
  imports Parser_Termination Lexer_All
begin

text \<open>
  The concrete syntax tree (\<open>crates/php_syntax/src/syntax_node.rs\<close>), its construction from parser events
  (\<open>tree_sink.rs\<close>) and the parse of a whole source (\<open>parse.rs\<close>), which puts lexer, grammar and
  tree together. The tree of a parse that returns is lossless: its leaves are the tokens of the lexer, in
  order.
\<close>

section \<open>Trees\<close>

record syntax_token =
  st_kind :: syntax_kind
  st_text :: bytes
  st_range :: text_range
  st_line :: nat

datatype syntax_node = SyntaxNode (node_syntax_kind: syntax_kind) (node_range: text_range) (node_children: "syntax_element list")
  and syntax_element = NodeElement syntax_node | TokenElement syntax_token

section \<open>Tree sink\<close>

record node_frame =
  frame_kind :: syntax_kind
  frame_children :: "syntax_element list"

text \<open>The state of \<open>TreeSink::finish\<close>; the top of the stack is its first element.\<close>

record tree_sink =
  sink_source :: bytes
  sink_tokens :: "token list"
  token_cursor :: nat
  sink_stack :: "node_frame list"
  sink_root :: "syntax_node option"

definition tree_sink_new :: "bytes \<Rightarrow> token list \<Rightarrow> tree_sink" where
  "tree_sink_new source tokens = \<lparr>sink_source = source, sink_tokens = tokens, token_cursor = 0, sink_stack = [], sink_root = None\<rparr>"

definition sink_token :: "bytes \<Rightarrow> token \<Rightarrow> syntax_token" where
  "sink_token source token = \<lparr>st_kind = from_token_kind (tok_kind token), st_text = unwrap_or (token_text token source) [],
     st_range = tok_range token, st_line = tok_line token\<rparr>"

definition attach_element :: "syntax_element \<Rightarrow> tree_sink \<Rightarrow> tree_sink" where
  "attach_element element sink = (case sink_stack sink of
     frame # frames \<Rightarrow> sink\<lparr>sink_stack := frame\<lparr>frame_children := frame_children frame @ [element]\<rparr> # frames\<rparr>
   | [] \<Rightarrow> (case element of NodeElement n \<Rightarrow> sink\<lparr>sink_root := Some n\<rparr> | TokenElement _ \<Rightarrow> sink))"

primrec element_range :: "syntax_element \<Rightarrow> text_range" where
  "element_range (NodeElement n) = node_range n"
| "element_range (TokenElement t) = st_range t"

definition range_for_children :: "syntax_element list \<Rightarrow> text_range" where
  "range_for_children children =
     (let first = (case children of [] \<Rightarrow> 0 | e # _ \<Rightarrow> range_start (element_range e));
          last_end = (case children of [] \<Rightarrow> first | _ \<Rightarrow> Max (set (map (\<lambda>e. range_end (element_range e)) children)))
      in text_range_new first last_end)"

definition sink_event :: "event \<Rightarrow> tree_sink \<Rightarrow> tree_sink" where
  "sink_event event sink = (case event of
     Placeholder \<Rightarrow> sink
   | StartNode kind \<Rightarrow> sink\<lparr>sink_stack := \<lparr>frame_kind = kind, frame_children = []\<rparr> # sink_stack sink\<rparr>
   | AddToken \<Rightarrow> (case get_at (sink_tokens sink) (token_cursor sink) of
       None \<Rightarrow> sink
     | Some token \<Rightarrow> attach_element (TokenElement (sink_token (sink_source sink) token)) (sink\<lparr>token_cursor := token_cursor sink + 1\<rparr>))
   | ErrorEvent d \<Rightarrow> attach_element (NodeElement (SyntaxNode ERROR (pd_span d) [])) sink
   | FinishNode \<Rightarrow> (case sink_stack sink of
       [] \<Rightarrow> sink
     | frame # frames \<Rightarrow>
         attach_element (NodeElement (SyntaxNode (frame_kind frame) (range_for_children (frame_children frame)) (frame_children frame)))
           (sink\<lparr>sink_stack := frames\<rparr>)))"

definition tree_sink_finish :: "event list \<Rightarrow> tree_sink \<Rightarrow> syntax_node" where
  "tree_sink_finish evs sink =
     (let done = fold sink_event evs sink
      in unwrap_or (sink_root done) (SyntaxNode SOURCE_FILE (text_range_new 0 (length (sink_source sink))) []))"

section \<open>Parsing a source\<close>

primrec reconstruct_text :: "syntax_node \<Rightarrow> bytes"
  and element_text :: "syntax_element \<Rightarrow> bytes" where
  "reconstruct_text (SyntaxNode kind r children) = concat (map element_text children)"
| "element_text (NodeElement n) = reconstruct_text n"
| "element_text (TokenElement t) = st_text t"

record parse_result =
  pr_context :: "string option"
  pr_root :: syntax_node
  pr_diagnostics :: "parse_diagnostic list"
  pr_reconstructed_text :: bytes

definition parse_config :: lexer_config where
  "parse_config = \<lparr>short_open_tag = False, token_parse = False, emit_eof = False\<rparr>"

definition lexer_error :: "lex_diagnostic \<Rightarrow> parse_diagnostic" where
  "lexer_error d = parse_diagnostic_new LexerDiagnostic (diag_message d) (diag_span d)"

primrec parser_errors :: "parse_diagnostic list \<Rightarrow> unit pm" where
  "parser_errors [] = skip"
| "parser_errors (d # ds) = do { parser_error d; parser_errors ds }"

definition run_parser :: "nat \<Rightarrow> bytes \<Rightarrow> lex_result \<Rightarrow> parser" where
  "run_parser fuel source lexed =
     snd (run_state (do { parser_errors (map lexer_error (lr_diagnostics lexed)); parse_file (grammar fuel) })
       (parser_new (token_source_new source (lr_tokens lexed))))"

text \<open>\<open>None\<close> when the fuel does not suffice.\<close>

definition parse_source_file_with_context :: "byte_env \<Rightarrow> nat \<Rightarrow> bytes \<Rightarrow> string option \<Rightarrow> parse_result option" where
  "parse_source_file_with_context E fuel source context = (case lex_all E source parse_config of
     None \<Rightarrow> None
   | Some lexed \<Rightarrow>
       let p = run_parser fuel source lexed;
           root = tree_sink_finish (events p) (tree_sink_new source (ts_tokens (tokens_of p)))
       in if out_of_fuel p then None
          else Some \<lparr>pr_context = context, pr_root = root, pr_diagnostics = diagnostics p,
            pr_reconstructed_text = reconstruct_text root\<rparr>)"

definition parse_source_file :: "byte_env \<Rightarrow> nat \<Rightarrow> bytes \<Rightarrow> parse_result option" where
  "parse_source_file E fuel source = parse_source_file_with_context E fuel source None"

definition has_errors :: "parse_result \<Rightarrow> bool" where
  "has_errors r \<longleftrightarrow> pr_diagnostics r \<noteq> []"

definition root_kind :: "parse_result \<Rightarrow> syntax_kind" where
  "root_kind r = node_syntax_kind (pr_root r)"

section \<open>Balanced events build their leaves\<close>

text \<open>The leaves of a tree, in order.\<close>

primrec node_leaves :: "syntax_node \<Rightarrow> syntax_token list"
  and element_leaves :: "syntax_element \<Rightarrow> syntax_token list" where
  "node_leaves (SyntaxNode kind r children) = concat (map element_leaves children)"
| "element_leaves (NodeElement n) = node_leaves n"
| "element_leaves (TokenElement t) = [t]"

text \<open>Nodes have node kinds and leaves have token kinds.\<close>

primrec node_kinds_ok :: "syntax_node \<Rightarrow> bool"
  and element_kinds_ok :: "syntax_element \<Rightarrow> bool" where
  "node_kinds_ok (SyntaxNode kind r children) \<longleftrightarrow> is_node kind \<and>
     (r = range_for_children children \<or> kind = ERROR \<and> children = []) \<and> list_all id (map element_kinds_ok children)"
| "element_kinds_ok (NodeElement n) \<longleftrightarrow> node_kinds_ok n"
| "element_kinds_ok (TokenElement t) \<longleftrightarrow> is_token (st_kind t)"

lemma sink_balanced:
  assumes "balanced es" "sink_stack sink = frame # frames" "token_cursor sink + token_events es \<le> length (sink_tokens sink)"
  shows "\<exists>els. fold sink_event es sink = sink\<lparr>token_cursor := token_cursor sink + token_events es,
        sink_stack := frame\<lparr>frame_children := frame_children frame @ els\<rparr> # frames\<rparr> \<and>
      concat (map element_leaves els) =
        map (sink_token (sink_source sink)) (sub_slice (sink_tokens sink) (token_cursor sink) (token_cursor sink + token_events es)) \<and>
      list_all element_kinds_ok els"
  using assms
proof (induction es arbitrary: sink frame frames rule: balanced.induct)
  case balanced_Nil
  then show ?case by (intro exI [of _ "[]"]) simp
next
  case (balanced_token es)
  define t where "t = sink_tokens sink ! token_cursor sink"
  define sink1 where "sink1 = sink\<lparr>token_cursor := token_cursor sink + 1,
    sink_stack := frame\<lparr>frame_children := frame_children frame @ [TokenElement (sink_token (sink_source sink) t)]\<rparr> # frames\<rparr>"
  have step: "sink_event AddToken sink = sink1"
    using balanced_token.prems by (simp add: sink_event_def attach_element_def get_at_def sink1_def t_def)
  have "sub_slice (sink_tokens sink) (token_cursor sink) (token_cursor sink + Suc (token_events es))
      = t # sub_slice (sink_tokens sink) (Suc (token_cursor sink)) (Suc (token_cursor sink + token_events es))"
    using balanced_token.prems by (simp add: sub_slice_def t_def Cons_nth_drop_Suc [symmetric])
  moreover obtain els where "fold sink_event es sink1 = sink1\<lparr>token_cursor := token_cursor sink1 + token_events es,
        sink_stack := (hd (sink_stack sink1))\<lparr>frame_children := frame_children (hd (sink_stack sink1)) @ els\<rparr> # frames\<rparr>"
      "concat (map element_leaves els) = map (sink_token (sink_source sink1))
         (sub_slice (sink_tokens sink1) (token_cursor sink1) (token_cursor sink1 + token_events es))" "list_all element_kinds_ok els"
    using balanced_token.IH [of sink1 "hd (sink_stack sink1)" frames] balanced_token.prems by (auto simp: sink1_def)
  ultimately show ?case
    by (intro exI [of _ "TokenElement (sink_token (sink_source sink) t) # els"])
       (simp add: step, simp add: sink1_def sink_token_def from_token_kind_def)
next
  case (balanced_error es d)
  define e where "e = NodeElement (SyntaxNode ERROR (pd_span d) [])"
  define sink1 where "sink1 = sink\<lparr>sink_stack := frame\<lparr>frame_children := frame_children frame @ [e]\<rparr> # frames\<rparr>"
  have step: "sink_event (ErrorEvent d) sink = sink1"
    using balanced_error.prems by (simp add: sink_event_def attach_element_def sink1_def e_def)
  obtain els where "fold sink_event es sink1 = sink1\<lparr>token_cursor := token_cursor sink1 + token_events es,
        sink_stack := (hd (sink_stack sink1))\<lparr>frame_children := frame_children (hd (sink_stack sink1)) @ els\<rparr> # frames\<rparr>"
      "concat (map element_leaves els) = map (sink_token (sink_source sink1))
         (sub_slice (sink_tokens sink1) (token_cursor sink1) (token_cursor sink1 + token_events es))" "list_all element_kinds_ok els"
    using balanced_error.IH [of sink1 "hd (sink_stack sink1)" frames] balanced_error.prems by (auto simp: sink1_def)
  then show ?case
    by (intro exI [of _ "e # els"]) (simp add: step, simp add: sink1_def e_def)
next
  case (balanced_node as bs k)
  let ?n = "token_cursor sink" and ?ts = "sink_tokens sink"
  define sink1 where "sink1 = sink\<lparr>sink_stack := \<lparr>frame_kind = NodeK k, frame_children = []\<rparr> # frame # frames\<rparr>"
  have step1: "sink_event (StartNode (NodeK k)) sink = sink1"
    using balanced_node.prems by (simp add: sink_event_def sink1_def)
  obtain as' where as': "fold sink_event as sink1 = sink1\<lparr>token_cursor := ?n + token_events as,
        sink_stack := \<lparr>frame_kind = NodeK k, frame_children = as'\<rparr> # frame # frames\<rparr>"
      "concat (map element_leaves as') = map (sink_token (sink_source sink)) (sub_slice ?ts ?n (?n + token_events as))"
      "list_all element_kinds_ok as'"
    using balanced_node.IH(1) [of sink1 "\<lparr>frame_kind = NodeK k, frame_children = []\<rparr>" "frame # frames"] balanced_node.prems
    by (auto simp: sink1_def)
  define e where "e = NodeElement (SyntaxNode (NodeK k) (range_for_children as') as')"
  define sink2 where "sink2 = sink\<lparr>token_cursor := ?n + token_events as,
    sink_stack := frame\<lparr>frame_children := frame_children frame @ [e]\<rparr> # frames\<rparr>"
  have step2: "sink_event FinishNode (fold sink_event as sink1) = sink2"
    unfolding as'(1) by (simp add: sink_event_def attach_element_def sink1_def sink2_def e_def)
  obtain bs' where bs': "fold sink_event bs sink2 = sink2\<lparr>token_cursor := ?n + token_events as + token_events bs,
        sink_stack := frame\<lparr>frame_children := frame_children frame @ e # bs'\<rparr> # frames\<rparr>"
      "concat (map element_leaves bs') = map (sink_token (sink_source sink))
         (sub_slice ?ts (?n + token_events as) (?n + token_events as + token_events bs))" "list_all element_kinds_ok bs'"
    using balanced_node.IH(2) [of sink2 "frame\<lparr>frame_children := frame_children frame @ [e]\<rparr>" frames] balanced_node.prems
    by (auto simp: sink2_def)
  have "list_all id (map element_kinds_ok as')" using as'(3) by (simp add: list.pred_map comp_def)
  then show ?case
    using as'(2) bs' slice_append_slice [of ?n "?n + token_events as" "?n + token_events as + token_events bs" ?ts]
    by (intro exI [of _ "e # bs'"])
       (simp add: step1 step2, simp add: sink2_def e_def add.assoc flip: map_append)
qed

section \<open>The tree of a parse\<close>

lemma pwhile_ends:
  "\<not> out_of_fuel (snd (run_state (pwhile n t body) p)) \<Longrightarrow> \<not> t (snd (run_state (pwhile n t body) p))"
  by (induction n arbitrary: p)
     (auto simp: pif_def Parser_Core.peek_def exhausted_def modify_def split: prod.splits)

lemma run_parser_errors:
  "run_state (parser_errors ds) p = ((), p\<lparr>events := events p @ map ErrorEvent ds, diagnostics := diagnostics p @ ds\<rparr>)"
  by (induction ds arbitrary: p) (simp_all add: parser_error_def modify_def)

lemma sink_lexer_errors:
  "sink_stack sink = [] \<Longrightarrow> \<exists>r. fold sink_event (map ErrorEvent ds) sink = sink\<lparr>sink_root := r\<rparr>"
proof (induction ds arbitrary: sink)
  case Nil
  then show ?case by (intro exI [of _ "sink_root sink"]) simp
next
  case (Cons d ds)
  let ?s = "sink\<lparr>sink_root := Some (SyntaxNode ERROR (pd_span d) [])\<rparr>"
  obtain r where "fold sink_event (map ErrorEvent ds) ?s = ?s\<lparr>sink_root := r\<rparr>" using Cons.IH [of ?s] Cons.prems by auto
  moreover have "sink_event (ErrorEvent d) sink = ?s" using Cons.prems by (simp add: sink_event_def attach_element_def)
  ultimately show ?case by (intro exI [of _ r]) simp
qed

text \<open>The parser ends at the end of the tokens; the node of the file holds everything it appended.\<close>

lemma run_parser_events:
  assumes "\<not> out_of_fuel (run_parser fuel src lexed)"
  obtains es where "balanced es" "token_events es = length (lr_tokens lexed)"
    "events (run_parser fuel src lexed) =
       map ErrorEvent (map lexer_error (lr_diagnostics lexed)) @ StartNode SOURCE_FILE # es @ [FinishNode]"
    "diagnostics (run_parser fuel src lexed) = map lexer_error (lr_diagnostics lexed) @ error_events es"
    "ts_tokens (tokens_of (run_parser fuel src lexed)) = lr_tokens lexed"
proof -
  let ?ds = "map lexer_error (lr_diagnostics lexed)"
  define p0 where "p0 = (parser_new (token_source_new src (lr_tokens lexed)))
    \<lparr>events := map ErrorEvent ?ds, diagnostics := ?ds\<rparr>"
  define loop where "loop = pwhile (turns (grammar fuel)) (\<lambda>p. \<not> at_eof p) (source_file_step (grammar fuel))"
  define q where "q = snd (run_state loop (p0\<lparr>events := events p0 @ [Placeholder]\<rparr>))"
  have "grows any loop" unfolding loop_def by (intro grows_rules grammar.grows_source_file_step)
  then have "extends (p0\<lparr>events := events p0 @ [Placeholder]\<rparr>) q" by (simp add: grows_def q_def)
  then obtain es where es: "events q = events p0 @ Placeholder # es" "balanced es" "cur q = token_events es"
      "diagnostics q = ?ds @ error_events es" "toks q = lr_tokens lexed" "cur q \<le> length (lr_tokens lexed)"
    unfolding extends_def by (auto simp: p0_def parser_new_def token_source_new_def)
  have "run_state (parse_file (grammar fuel)) p0 = ((), q\<lparr>events := events p0 @ StartNode SOURCE_FILE # es @ [FinishNode]\<rparr>)"
    unfolding parse_file_def node_def loop_def [symmetric]
    by (rule run_node_with) (use es(1) in \<open>simp_all add: q_def split: prod.split\<close>)
  then have run: "run_parser fuel src lexed = q\<lparr>events := events p0 @ StartNode SOURCE_FILE # es @ [FinishNode]\<rparr>"
    by (simp add: run_parser_def run_parser_errors p0_def parser_new_def)
  then have "at_eof q" using assms pwhile_ends [of "turns (grammar fuel)" "\<lambda>p. \<not> at_eof p"] by (simp add: q_def loop_def)
  then have "token_events es = length (lr_tokens lexed)" using es(3,5,6) by (simp add: at_eof_def ts_is_eof_def)
  then show ?thesis using that [of es] es run by (simp add: p0_def)
qed

lemma parse_source_file_run:
  assumes "parse_source_file_with_context E fuel src context = Some P"
  obtains lexed els where "lex_all E src parse_config = Some lexed"
    "pr_root P = SyntaxNode SOURCE_FILE (range_for_children els) els"
    "concat (map element_leaves els) = map (sink_token src) (lr_tokens lexed)" "list_all element_kinds_ok els"
    "pr_reconstructed_text P = reconstruct_text (pr_root P)"
proof -
  obtain lexed where lexed: "lex_all E src parse_config = Some lexed"
      and fuel: "\<not> out_of_fuel (run_parser fuel src lexed)"
      and P: "P = (let root = tree_sink_finish (events (run_parser fuel src lexed))
            (tree_sink_new src (ts_tokens (tokens_of (run_parser fuel src lexed))))
          in \<lparr>pr_context = context, pr_root = root, pr_diagnostics = diagnostics (run_parser fuel src lexed),
            pr_reconstructed_text = reconstruct_text root\<rparr>)"
    using assms by (auto simp: parse_source_file_with_context_def Let_def split: option.splits if_splits)
  obtain es where es: "balanced es" "token_events es = length (lr_tokens lexed)"
      "events (run_parser fuel src lexed) =
         map ErrorEvent (map lexer_error (lr_diagnostics lexed)) @ StartNode SOURCE_FILE # es @ [FinishNode]"
      "ts_tokens (tokens_of (run_parser fuel src lexed)) = lr_tokens lexed"
    using run_parser_events [OF fuel] .
  let ?s = "tree_sink_new src (lr_tokens lexed)"
  obtain r where r: "fold sink_event (map ErrorEvent (map lexer_error (lr_diagnostics lexed))) ?s = ?s\<lparr>sink_root := r\<rparr>"
    using sink_lexer_errors [of ?s "map lexer_error (lr_diagnostics lexed)"] by (auto simp: tree_sink_new_def)
  let ?s1 = "?s\<lparr>sink_root := r, sink_stack := [\<lparr>frame_kind = SOURCE_FILE, frame_children = []\<rparr>]\<rparr>"
  have start: "sink_event (StartNode SOURCE_FILE) (?s\<lparr>sink_root := r\<rparr>) = ?s1"
    by (simp add: sink_event_def tree_sink_new_def)
  obtain els where els: "fold sink_event es ?s1 = ?s1\<lparr>token_cursor := length (lr_tokens lexed),
        sink_stack := [\<lparr>frame_kind = SOURCE_FILE, frame_children = els\<rparr>]\<rparr>"
      "concat (map element_leaves els) = map (sink_token src) (lr_tokens lexed)" "list_all element_kinds_ok els"
    using sink_balanced [OF es(1), of ?s1 "\<lparr>frame_kind = SOURCE_FILE, frame_children = []\<rparr>" "[]"] es(2)
    by (auto simp: tree_sink_new_def sub_slice_def)
  have "tree_sink_finish (events (run_parser fuel src lexed)) ?s = SyntaxNode SOURCE_FILE (range_for_children els) els"
    unfolding tree_sink_finish_def es(3)
    by (simp add: r start els(1) del: map_map) (simp add: sink_event_def attach_element_def tree_sink_new_def)
  then show ?thesis using that lexed els(2,3) P es(4) by simp
qed

lemma concat_map_concat: "concat (map (\<lambda>x. concat (f x)) xs) = concat (concat (map f xs))"
  by (induction xs) simp_all

lemma reconstruct_leaves:
  "reconstruct_text n = concat (map st_text (node_leaves n))" "element_text e = concat (map st_text (element_leaves e))"
  by (induction n and e) (simp_all add: map_concat comp_def concat_map_concat cong: map_cong)

text \<open>The text of a token is its bytes when they start and end at characters, as all do in an ASCII source.\<close>

definition on_char_boundaries :: "bytes \<Rightarrow> token list \<Rightarrow> bool" where
  "on_char_boundaries src ts \<longleftrightarrow>
     list_all (\<lambda>t. is_char_boundary src (range_start (tok_range t)) \<and> is_char_boundary src (range_end (tok_range t))) ts"

lemma tiles_inside:
  "tiles a ts b \<Longrightarrow> b \<le> length (src :: bytes) \<Longrightarrow> t \<in> set ts \<Longrightarrow>
     range_start (tok_range t) \<le> range_end (tok_range t) \<and> range_end (tok_range t) \<le> length src"
proof (induction ts arbitrary: a)
  case (Cons u us)
  then show ?case using tiles_concat [of "range_end (tok_range u)" us b src] Cons.IH [of "range_end (tok_range u)"] by auto
qed simp

lemma ascii_boundaries:
  assumes "list_all (\<lambda>c. byte_val c < 128) src" "tiles a ts (length src)"
  shows "on_char_boundaries src ts"
proof -
  have "is_char_boundary src i" if "i \<le> length src" for i
    using assms(1) that unfolding is_char_boundary_def by (cases "i < length src") (simp_all add: list_all_length get_at_def)
  then show ?thesis unfolding on_char_boundaries_def list_all_iff using tiles_inside [OF assms(2)] by fastforce
qed

lemma ascii_bom_len: "list_all (\<lambda>c. byte_val c < 128) src \<Longrightarrow> bom_len src config = 0"
  by (cases src) (auto simp: bom_len_def skips_bom_def starts_with_def lexer_new_def byte_val_def)

lemma sink_token_text:
  assumes "on_char_boundaries src ts" "tiles a ts (length src)"
  shows "concat (map (st_text \<circ> sink_token src) ts) = drop a src"
proof -
  have "map (st_text \<circ> sink_token src) ts = map (token_bytes src) ts"
    using assms(1) tiles_inside [OF assms(2)]
    by (auto simp: sink_token_def token_text_def source_text_slice_def token_bytes_def on_char_boundaries_def list_all_iff)
  then have "concat (map (st_text \<circ> sink_token src) ts) = concat (map (token_bytes src) ts)" by (rule arg_cong)
  then show ?thesis using tiles_concat [OF assms(2), of src] by (simp add: sub_slice_def)
qed



section \<open>Parsing returns\<close>

lemma tiles_length: "tiles a ts b \<Longrightarrow> b \<le> length (src :: bytes) \<Longrightarrow> length ts \<le> length src - a"
proof (induction ts arbitrary: a)
  case (Cons t ts)
  then have "a < range_end (tok_range t)" "length ts \<le> length src - range_end (tok_range t)" by auto
  moreover have "range_end (tok_range t) \<le> b" using Cons.prems tiles_concat [of "range_end (tok_range t)" ts b src] by auto
  ultimately show ?case using Cons.prems(2) by simp
qed simp

lemma run_parser_returns:
  assumes "tame (lr_tokens lexed)" "2 * length (lr_tokens lexed) < fuel"
  shows "\<not> out_of_fuel (run_parser fuel src lexed)"
proof -
  let ?ds = "map lexer_error (lr_diagnostics lexed)"
  let ?p = "(parser_new (token_source_new src (lr_tokens lexed)))\<lparr>events := map ErrorEvent ?ds, diagnostics := ?ds\<rparr>"
  have "fueled fuel 1 ?p" using assms by (simp add: fueled_def tokens_left_def parser_new_def token_source_new_def)
  moreover have "returns fuel any 1 (parse_file (grammar fuel))" using grammar.returns_parse_file [of 1 fuel any] by simp
  ultimately show ?thesis by (simp add: returns_def run_parser_def run_parser_errors parser_new_def)
qed

lemma parse_some:
  assumes "lex_all E src parse_config = Some lexed" "tame (lr_tokens lexed)" "2 * length src < fuel"
  obtains P where "parse_source_file_with_context E fuel src context = Some P"
proof -
  have "tiles (bom_len src parse_config) (lr_tokens lexed) (length src)"
    using lex_all_run [of E src parse_config] assms(1) by (auto simp: parse_config_def)
  then have "length (lr_tokens lexed) \<le> length src" using tiles_length [of _ _ "length src" src] by fastforce
  then have "\<not> out_of_fuel (run_parser fuel src lexed)" using run_parser_returns assms(2,3) by simp
  then show ?thesis using that assms(1) by (simp add: parse_source_file_with_context_def Let_def)
qed

text \<open>C2. Parsing returns: with fuel for two turns per byte and one more, every source whose tokens are tame (no close
  tag, no \<open>switch\<close> and no variables captured by a closure) is parsed to a tree.\<close>

theorem parse_returns:
  assumes "lex_all E src parse_config = Some lexed" "tame (lr_tokens lexed)" "2 * length src < fuel"
  shows "\<exists>P. parse_source_file_with_context E fuel src context = Some P"
  using parse_some [OF assms] by blast

section \<open>A source\<close>

definition demo_php :: bytes where
  "demo_php = ''<?php f($x);''"

lemma demo_php_length: "2 * length demo_php < 25"
  by (simp add: demo_php_def)

lemma demo_php_lexed:
  "map_option (tame \<circ> lr_tokens) (lex_all (scalar_env Scalar False) demo_php parse_config) = Some True"
  by code_simp

lemma demo_php_run:
  obtains lexed where "lex_all (scalar_env Scalar False) demo_php parse_config = Some lexed" "tame (lr_tokens lexed)"
  using demo_php_lexed by (auto simp: map_option_case split: option.splits)

lemma demo_php_parsed:
  obtains P where "parse_source_file_with_context (scalar_env Scalar False) 25 demo_php None = Some P"
  using demo_php_run parse_some [of "scalar_env Scalar False" demo_php _ 25 None] by (metis demo_php_length)

theorem parse_returns_witness:
  "\<exists>P. parse_source_file_with_context (scalar_env Scalar False) 25 demo_php None = Some P"
  using demo_php_run parse_returns [of "scalar_env Scalar False" demo_php _ 25 None] by (metis demo_php_length)



end
