(* ===== verification/Parser_Diverges.thy ===== *)
theory Parser_Diverges
  imports Parser_Hangs Syntax_Tree
begin

text \<open>Sources on which the parser of \<open>crates/php_syntax\<close> does not return. \<open>Parser_Hangs\<close> follows the grammar from the
  kinds of the tokens ahead to a loop whose turns consume nothing; here the sources are lexed, so that the statement is
  about \<open>parse_source_file\<close>: no amount of fuel is enough.\<close>

text \<open>The kinds of the tokens of a source.\<close>

definition lexed_kinds :: "byte_env \<Rightarrow> bytes \<Rightarrow> syntax_kind list option" where
  "lexed_kinds E src = map_option (\<lambda>l. map (\<lambda>t. from_token_kind (tok_kind t)) (lr_tokens l)) (lex_all E src parse_config)"

lemma parse_diverges:
  assumes "lexed_kinds E src = Some (named T_OpenTag # k # ks)"
    and "\<And>n. leads (ahead (k # ks)) (parse_statement (grammar n)) nowhere any"
    and "\<not> is_trivia k" "k \<noteq> named T_CloseTag" "k \<noteq> symbol CHR ''}''"
  shows "lex_all E src parse_config \<noteq> None \<and> parse_source_file E fuel src = None"
proof -
  obtain lexed where lexed: "lex_all E src parse_config = Some lexed"
    and kinds: "map (\<lambda>t. from_token_kind (tok_kind t)) (lr_tokens lexed) = named T_OpenTag # k # ks"
    using assms(1) by (auto simp: lexed_kinds_def)
  have "ahead (named T_OpenTag # k # ks) (stub p)" if "tokens_of p = token_source_new src (lr_tokens lexed)" for p
    using that kinds by (simp add: ahead_def kinds_from_def token_source_new_def)
  then have "out_of_fuel (snd (run_state (parse_file (grammar fuel)) p))"
    if "tokens_of p = token_source_new src (lr_tokens lexed)" for p
    using leads_file [OF assms(2-5), of fuel] that by (auto simp: leads_def)
  then have "out_of_fuel (run_parser fuel src lexed)"
    by (simp add: run_parser_def run_parser_errors parser_new_def)
  then show ?thesis using lexed by (simp add: parse_source_file_def parse_source_file_with_context_def Let_def)
qed

text \<open>One source for each of the loops of \<open>parse_call_tail\<close>, \<open>parse_member_list\<close>, \<open>parse_property_hook_list\<close>,
  \<open>parse_optional_closure_use_list\<close> and \<open>parse_switch_body\<close>.\<close>

definition diverging_sources :: "bytes list" where
  "diverging_sources = [''<?php $f(?>'', ''<?php class{?>'', ''<?php class{$a{?>'', ''<?php +function()use({'', ''<?php switch:}'']"

lemma diverging_kinds:
  "lexed_kinds (scalar_env Scalar False) ''<?php $f(?>'' = Some [named T_OpenTag, named T_Variable, symbol CHR ''('', named T_CloseTag]"
  "lexed_kinds (scalar_env Scalar False) ''<?php class{?>'' = Some [named T_OpenTag, named T_Class, symbol CHR ''{'', named T_CloseTag]"
  "lexed_kinds (scalar_env Scalar False) ''<?php class{$a{?>'' =
     Some [named T_OpenTag, named T_Class, symbol CHR ''{'', named T_Variable, symbol CHR ''{'', named T_CloseTag]"
  "lexed_kinds (scalar_env Scalar False) ''<?php +function()use({'' =
     Some [named T_OpenTag, symbol CHR ''+'', named T_Function, symbol CHR ''('', symbol CHR '')'', named T_Use, symbol CHR ''('', symbol CHR ''{'']"
  "lexed_kinds (scalar_env Scalar False) ''<?php switch:}'' = Some [named T_OpenTag, named T_Switch, symbol CHR '':'', symbol CHR ''}'']"
  by code_simp+

text \<open>C10. The parser does not return on these five sources, whatever the fuel: each is lexed, and then a close tag in an
  argument list, in a class body or in a list of property hooks, a brace in the captures of a closure, or a brace in the
  alternative form of \<open>switch\<close> stops a loop from consuming anything without ending it.\<close>

theorem parse_source_file_diverges:
  "list_all (\<lambda>src. lex_all (scalar_env Scalar False) src parse_config \<noteq> None \<and>
     parse_source_file (scalar_env Scalar False) fuel src = None) diverging_sources"
  using parse_diverges [OF diverging_kinds(1) leads_statement_call, of fuel]
    parse_diverges [OF diverging_kinds(2) leads_statement_class [OF leads_member_list], of fuel]
    parse_diverges [OF diverging_kinds(3) leads_statement_class [OF leads_hook_members], of fuel]
    parse_diverges [OF diverging_kinds(4) leads_statement_closure, of fuel]
    parse_diverges [OF diverging_kinds(5) leads_statement_switch, of fuel]
  by (simp add: diverging_sources_def is_trivia_def named_def symbol_def from_token_kind_def)

end
