(* ===== verification/F64_Arith.thy ===== *)
theory F64_Arith
  imports F64
begin

text \<open>
  Arithmetic and comparison of \<open>f64\<close>: the exact result of the operation on the two values rounded once, with the special
  cases of IEEE 754 for infinities, zeros and NaNs. The comparison reads the bit patterns as signed magnitudes, which is
  the order of the values.
\<close>

unbundle bit_operations_syntax

section \<open>Comparison\<close>

datatype ordering = OrdLess | OrdEqual | OrdGreater

text \<open>\<open>Ord::cmp\<close> on integers, on booleans and on byte strings.\<close>

definition cmp_int :: "int \<Rightarrow> int \<Rightarrow> ordering" where
  "cmp_int a b = (if a < b then OrdLess else if a = b then OrdEqual else OrdGreater)"

definition cmp_bool :: "bool \<Rightarrow> bool \<Rightarrow> ordering" where
  "cmp_bool a b = cmp_int (of_bool a) (of_bool b)"

fun cmp_bytes :: "bytes \<Rightarrow> bytes \<Rightarrow> ordering" where
  "cmp_bytes [] [] = OrdEqual"
| "cmp_bytes [] (_ # _) = OrdLess"
| "cmp_bytes (_ # _) [] = OrdGreater"
| "cmp_bytes (a # as) (b # bs) =
     (if a = b then cmp_bytes as bs else cmp_int (int (byte_val a)) (int (byte_val b)))"

primrec reverse_ordering :: "ordering \<Rightarrow> ordering" where
  "reverse_ordering OrdLess = OrdGreater"
| "reverse_ordering OrdEqual = OrdEqual"
| "reverse_ordering OrdGreater = OrdLess"

definition f64_key :: "f64 \<Rightarrow> int" where
  "f64_key x = (if f64_sign x then 2 ^ 63 - uint x else uint x)"

definition f64_partial_cmp :: "f64 \<Rightarrow> f64 \<Rightarrow> ordering option" where
  "f64_partial_cmp x y = (if f64_is_nan x \<or> f64_is_nan y then None else Some (cmp_int (f64_key x) (f64_key y)))"

definition f64_eq :: "f64 \<Rightarrow> f64 \<Rightarrow> bool" where
  "f64_eq x y \<longleftrightarrow> f64_partial_cmp x y = Some OrdEqual"

definition f64_lt :: "f64 \<Rightarrow> f64 \<Rightarrow> bool" where
  "f64_lt x y \<longleftrightarrow> f64_partial_cmp x y = Some OrdLess"

definition f64_is_zero :: "f64 \<Rightarrow> bool" where
  "f64_is_zero x \<longleftrightarrow> f64_key x = 0"

section \<open>Arithmetic\<close>

definition f64_is_infinite :: "f64 \<Rightarrow> bool" where
  "f64_is_infinite x \<longleftrightarrow> \<not> f64_is_finite x \<and> \<not> f64_is_nan x"

definition f64_neg :: "f64 \<Rightarrow> f64" where
  "f64_neg x = x XOR 0x8000000000000000"

text \<open>A finite value as an integral multiple of \<open>2 ^ e\<close>, and back.\<close>

definition f64_scaled :: "f64 \<Rightarrow> int \<Rightarrow> int" where
  "f64_scaled x e = (if f64_sign x then -1 else 1) * f64_significand x * 2 ^ nat (f64_exponent x - e)"

definition f64_of_scaled :: "bool \<Rightarrow> int \<Rightarrow> int \<Rightarrow> f64" where
  "f64_of_scaled neg m e =
     (if 0 \<le> e then f64_of_ratio neg (m * 2 ^ nat e) 1 else f64_of_ratio neg m (2 ^ nat (- e)))"

definition f64_add :: "f64 \<Rightarrow> f64 \<Rightarrow> f64" where
  "f64_add x y =
     (if f64_is_nan x \<or> f64_is_nan y then f64_nan
      else if \<not> f64_is_finite x then (if \<not> f64_is_finite y \<and> f64_sign x \<noteq> f64_sign y then f64_nan else x)
      else if \<not> f64_is_finite y then y
      else
        let e = min (f64_exponent x) (f64_exponent y);
            s = f64_scaled x e + f64_scaled y e
        in if s = 0 then f64_make (f64_sign x \<and> f64_sign y) 0 0 else f64_of_scaled (s < 0) \<bar>s\<bar> e)"

definition f64_sub :: "f64 \<Rightarrow> f64 \<Rightarrow> f64" where
  "f64_sub x y = f64_add x (f64_neg y)"

definition f64_mul :: "f64 \<Rightarrow> f64 \<Rightarrow> f64" where
  "f64_mul x y =
     (let neg = (f64_sign x \<noteq> f64_sign y)
      in if f64_is_nan x \<or> f64_is_nan y then f64_nan
         else if \<not> f64_is_finite x \<or> \<not> f64_is_finite y then
           (if f64_is_zero x \<or> f64_is_zero y then f64_nan else f64_infinity neg)
         else f64_of_scaled neg (f64_significand x * f64_significand y) (f64_exponent x + f64_exponent y))"

definition f64_div :: "f64 \<Rightarrow> f64 \<Rightarrow> f64" where
  "f64_div x y =
     (let neg = (f64_sign x \<noteq> f64_sign y); d = f64_exponent x - f64_exponent y
      in if f64_is_nan x \<or> f64_is_nan y then f64_nan
         else if \<not> f64_is_finite x then (if \<not> f64_is_finite y then f64_nan else f64_infinity neg)
         else if \<not> f64_is_finite y then f64_make neg 0 0
         else if f64_is_zero y then (if f64_is_zero x then f64_nan else f64_infinity neg)
         else f64_of_ratio neg (f64_significand x * 2 ^ nat d) (f64_significand y * 2 ^ nat (- d)))"

text \<open>The remainder of the truncated quotient, with the sign of the dividend; it is exact.\<close>

definition f64_rem :: "f64 \<Rightarrow> f64 \<Rightarrow> f64" where
  "f64_rem x y =
     (if f64_is_nan x \<or> f64_is_nan y \<or> \<not> f64_is_finite x \<or> f64_is_zero y then f64_nan
      else if \<not> f64_is_finite y then x
      else
        let e = min (f64_exponent x) (f64_exponent y)
        in f64_of_scaled (f64_sign x) (\<bar>f64_scaled x e\<bar> mod \<bar>f64_scaled y e\<bar>) e)"

section \<open>Laws of the orderings\<close>

lemma cmp_int_equal [simp]: "cmp_int a b = OrdEqual \<longleftrightarrow> a = b"
  by (simp add: cmp_int_def)

lemma cmp_int_less [simp]: "cmp_int a b = OrdLess \<longleftrightarrow> a < b"
  by (simp add: cmp_int_def)

lemma cmp_int_greater [simp]: "cmp_int a b = OrdGreater \<longleftrightarrow> b < a"
  by (auto simp: cmp_int_def)

lemma cmp_int_swap: "cmp_int b a = reverse_ordering (cmp_int a b)"
  by (auto simp: cmp_int_def)

lemma cmp_bool_swap: "cmp_bool b a = reverse_ordering (cmp_bool a b)"
  unfolding cmp_bool_def by (rule cmp_int_swap)

lemma cmp_bytes_swap: "cmp_bytes bs as = reverse_ordering (cmp_bytes as bs)"
  by (induction as bs rule: cmp_bytes.induct) (auto simp: cmp_int_def)

lemma cmp_bytes_equal [simp]: "cmp_bytes as bs = OrdEqual \<longleftrightarrow> as = bs"
  by (induction as bs rule: cmp_bytes.induct) (auto simp: cmp_int_def)

lemma f64_partial_cmp_swap: "f64_partial_cmp y x = map_option reverse_ordering (f64_partial_cmp x y)"
  unfolding f64_partial_cmp_def using cmp_int_swap [of "f64_key y" "f64_key x"] by simp

lemma reverse_ordering_equal [simp]: "reverse_ordering o1 = OrdEqual \<longleftrightarrow> o1 = OrdEqual"
  by (cases o1) simp_all

lemma reverse_ordering_reverse [simp]: "reverse_ordering (reverse_ordering o1) = o1"
  by (cases o1) simp_all

section \<open>Integers of at most 53 bits are exact\<close>

lemma log2_floor_bounds: "0 < n \<Longrightarrow> 0 \<le> log2_floor n \<and> 2 ^ nat (log2_floor n) \<le> n \<and> n < 2 ^ (nat (log2_floor n) + 1)"
proof (induction n rule: log2_floor.induct)
  case (1 n)
  show ?case
  proof (cases "n \<le> 1")
    case True
    then show ?thesis using "1.prems" by (simp add: log2_floor.simps)
  next
    case False
    then have IH: "0 \<le> log2_floor (n div 2)" "2 ^ nat (log2_floor (n div 2)) \<le> n div 2" "n div 2 < 2 ^ (nat (log2_floor (n div 2)) + 1)"
      using "1.IH" by auto
    have "log2_floor n = 1 + log2_floor (n div 2)" using False by (simp add: log2_floor.simps [of n])
    then have "nat (log2_floor n) = Suc (nat (log2_floor (n div 2)))" using IH(1) by simp
    then show ?thesis using IH \<open>log2_floor n = 1 + _\<close> by (simp, linarith)
  qed
qed

lemma f64_make_uint:
  assumes "0 \<le> ex" "ex < 2048" "0 \<le> frac" "frac < 2 ^ 52"
  shows "uint (f64_make neg ex frac) = (if neg then 2 ^ 63 else 0) + ex * 2 ^ 52 + frac"
proof -
  have "0 \<le> (if neg then 2 ^ 63 else 0) + ex * 2 ^ 52 + frac" "(if neg then 2 ^ 63 else 0) + ex * 2 ^ 52 + frac < 2 ^ 64"
    using assms by auto
  then show ?thesis unfolding f64_make_def uint_word_of_int by (simp only: len_num0 len_bit0 len_num1) (simp add: mod_pos_pos_trivial)
qed

lemma f64_make_fields:
  assumes "0 \<le> ex" "ex < 2048" "0 \<le> frac" "frac < 2 ^ 52"
  shows "f64_sign (f64_make neg ex frac) = neg" "f64_exp_field (f64_make neg ex frac) = ex"
    "f64_frac_field (f64_make neg ex frac) = frac"
proof -
  note u = f64_make_uint [OF assms, of neg]
  show "f64_sign (f64_make neg ex frac) = neg"
    unfolding f64_sign_def u using assms by (auto split: if_splits)
  have "((if neg then 2 ^ 63 else 0) + ex * 2 ^ 52 + frac) div 2 ^ 52 = (if neg then 2048 else 0) + ex"
    using assms by (auto simp: div_add1_eq)
  then show "f64_exp_field (f64_make neg ex frac) = ex"
    unfolding f64_exp_field_def u using assms by (auto simp: mod_add_left_eq)
  show "f64_frac_field (f64_make neg ex frac) = frac"
    unfolding f64_frac_field_def u
    using assms mod_mult_self3 [of "(if neg then 2048 else 0) + ex" "2 ^ 52" frac] by (auto simp: algebra_simps)
qed

lemma f64_of_int_fields:
  assumes "i \<noteq> 0" "\<bar>i\<bar> \<le> 2 ^ 53"
  obtains e m where "f64_of_int i = f64_make (i < 0) (e + 1075) (m - 2 ^ 52)" "2 ^ 52 \<le> m" "m < 2 ^ 53" "-52 \<le> e" "e \<le> 1"
    "\<bar>i\<bar> = (if 0 \<le> e then m * 2 ^ nat e else m div 2 ^ nat (- e))"
proof -
  define a where "a = \<bar>i\<bar>"
  define k where "k = nat (log2_floor a)"
  have a: "0 < a" "a \<le> 2 ^ 53" using assms by (auto simp: a_def)
  have k: "log2_floor a = int k" "2 ^ k \<le> a" "a < 2 ^ (k + 1)" using log2_floor_bounds [OF a(1)] by (auto simp: k_def)
  have "k \<le> 53" using k(2) a(2) power_le_imp_le_exp [of "2 :: int" k 53] by force
  have ratio: "ratio_exponent a 1 = int k" using k by (simp add: ratio_exponent_def log2_floor.simps [of 1])
  show ?thesis
  proof (cases "k = 53")
    case True
    then have "a = 2 ^ 53" using k(2) a(2) by simp
    have "f64_of_int i = f64_make (i < 0) (1 + 1075) (2 ^ 52 - 2 ^ 52)"
      using ratio \<open>a = 2 ^ 53\<close> True unfolding f64_of_int_def f64_of_ratio_def
      by (simp add: a_def [symmetric] Let_def round_half_even_def)
    then show ?thesis using that [of 1 "2 ^ 52"] \<open>a = 2 ^ 53\<close> by (simp add: a_def)
  next
    case False
    define d where "d = 52 - k"
    have d: "k + d = 52" "int k - 52 = - int d" using \<open>k \<le> 53\<close> False by (auto simp: d_def)
    define m where "m = a * 2 ^ d"
    have "2 ^ 52 \<le> m" "m < 2 ^ 53"
    proof -
      have "(2 :: int) ^ 52 = 2 ^ k * 2 ^ d" by (simp flip: power_add add: d(1))
      also have "\<dots> \<le> m" unfolding m_def using k(2) by (intro mult_right_mono) auto
      finally show "2 ^ 52 \<le> m" .
      have "m < 2 ^ (k + 1) * 2 ^ d" unfolding m_def using k(3) by (intro mult_strict_right_mono) auto
      also have "\<dots> = 2 ^ (k + d + 1)" by (simp add: power_add)
      also have "\<dots> = 2 ^ 53" using d(1) by simp
      finally show "m < 2 ^ 53" .
    qed
    moreover have "f64_of_int i = f64_make (i < 0) (- int d + 1075) (m - 2 ^ 52)"
    proof -
      have "round_half_even x 1 = x" for x by (simp add: round_half_even_def)
      moreover have "nat (52 - int k) = d" using d by simp
      ultimately have "f64_of_int i = f64_make (i < 0) (int k + 1023) (m - 2 ^ 52)"
        using ratio a(1) \<open>2 ^ 52 \<le> m\<close> \<open>m < 2 ^ 53\<close> d unfolding f64_of_int_def f64_of_ratio_def
        by (cases "d = 0") (simp_all add: a_def [symmetric] Let_def m_def algebra_simps)
      moreover have "int k + 1023 = - int d + 1075" using d by simp
      ultimately show ?thesis by simp
    qed
    moreover have "a = (if 0 \<le> - int d then m * 2 ^ nat (- int d) else m div 2 ^ nat (- (- int d)))" by (simp add: m_def)
    moreover have "- 52 \<le> - int d" "- int d \<le> 1" using d(1) by auto
    ultimately show ?thesis using that [of "- int d" m] by (simp only: a_def)
  qed
qed

lemma f64_to_i64_of_int: "\<bar>i\<bar> \<le> 2 ^ 53 \<Longrightarrow> f64_to_i64 (f64_of_int i) = i"
proof (cases "i = 0")
  case True
  then show ?thesis by (simp add: f64_of_int_def f64_of_ratio_def, code_simp)
next
  case False
  assume i: "\<bar>i\<bar> \<le> 2 ^ 53"
  obtain e m where em: "f64_of_int i = f64_make (i < 0) (e + 1075) (m - 2 ^ 52)" "2 ^ 52 \<le> m" "m < 2 ^ 53" "-52 \<le> e" "e \<le> 1"
    "\<bar>i\<bar> = (if 0 \<le> e then m * 2 ^ nat e else m div 2 ^ nat (- e))"
    using f64_of_int_fields [OF False i] .
  note fields = f64_make_fields [of "e + 1075" "m - 2 ^ 52" "i < 0"]
  have "f64_sign (f64_of_int i) = (i < 0)" "f64_exp_field (f64_of_int i) = e + 1075" "f64_frac_field (f64_of_int i) = m - 2 ^ 52"
    using fields em(2-5) unfolding em(1) by auto
  moreover have "clamp_i64 i = i" using i by (simp add: clamp_i64_def)
  ultimately show ?thesis
    using em(4-6) False
    by (auto simp: f64_to_i64_def f64_is_nan_def f64_is_finite_def f64_exponent_def f64_significand_def Let_def abs_if
        split: if_splits)
       (metis minus_minus)+
qed

section \<open>Non-zero integers are not rounded to zero\<close>

lemma round_half_even_bounds:
  assumes "0 < b" "lo * b \<le> a" "a \<le> hi * b"
  shows "lo \<le> round_half_even a b" "round_half_even a b \<le> hi"
proof -
  have "lo * b div b \<le> a div b" using assms by (intro zdiv_mono1) auto
  then have "lo \<le> a div b" using assms(1) by simp
  then show "lo \<le> round_half_even a b" by (simp add: round_half_even_def Let_def)
  show "round_half_even a b \<le> hi"
  proof (cases "a mod b = 0")
    case True
    then have "round_half_even a b = a div b" using assms(1) by (simp add: round_half_even_def Let_def)
    moreover have "a div b \<le> hi * b div b" using assms by (intro zdiv_mono1) auto
    ultimately show ?thesis using assms(1) by simp
  next
    case False
    then have "0 < a mod b" using assms(1) pos_mod_sign [of b a] by linarith
    moreover have "a = a div b * b + a mod b" by simp
    ultimately have "a div b * b < hi * b" using assms(3) by linarith
    then have "a div b < hi" using assms(1) by simp
    then show ?thesis by (simp add: round_half_even_def Let_def)
  qed
qed

lemma f64_of_int_normal:
  assumes "i \<noteq> 0" "\<bar>i\<bar> \<le> 2 ^ 64"
  obtains ex frac where "f64_of_int i = f64_make (i < 0) ex frac" "1 \<le> ex" "ex < 2047" "0 \<le> frac" "frac < 2 ^ 52"
proof -
  define a where "a = \<bar>i\<bar>"
  define k where "k = nat (log2_floor a)"
  have a: "0 < a" "a \<le> 2 ^ 64" using assms by (auto simp: a_def)
  have k: "log2_floor a = int k" "2 ^ k \<le> a" "a < 2 ^ (k + 1)" using log2_floor_bounds [OF a(1)] by (auto simp: k_def)
  have k64: "k \<le> 64"
  proof (rule ccontr)
    assume "\<not> k \<le> 64"
    then have "(2 :: int) ^ 65 \<le> 2 ^ k" by (intro power_increasing) auto
    then show False using k(2) a(2) by simp
  qed
  have ratio: "ratio_exponent a 1 = int k" using k by (simp add: ratio_exponent_def log2_floor.simps [of 1])
  define m where "m = (if 52 \<le> k then round_half_even a (2 ^ (k - 52)) else a * 2 ^ (52 - k))"
  have m: "2 ^ 52 \<le> m" "m \<le> 2 ^ 53"
  proof -
    have "2 ^ 52 \<le> m \<and> m \<le> 2 ^ 53"
    proof (cases "52 \<le> k")
      case True
      have "(2 :: int) ^ 52 * 2 ^ (k - 52) = 2 ^ k" "(2 :: int) ^ 53 * 2 ^ (k - 52) = 2 ^ (k + 1)"
        using True power_add [of "2 :: int" 52 "k - 52"] power_add [of "2 :: int" 53 "k - 52"] by simp_all
      then show ?thesis using k True round_half_even_bounds [of "2 ^ (k - 52)" "2 ^ 52" a "2 ^ 53"] by (simp add: m_def)
    next
      case False
      have "(2 :: int) ^ 52 = 2 ^ k * 2 ^ (52 - k)" "(2 :: int) ^ 53 = 2 ^ (k + 1) * 2 ^ (52 - k)"
        using False power_add [of "2 :: int" k "52 - k"] power_add [of "2 :: int" "k + 1" "52 - k"] by simp_all
      moreover have "2 ^ k * 2 ^ (52 - k) \<le> a * 2 ^ (52 - k)" "a * 2 ^ (52 - k) \<le> 2 ^ (k + 1) * 2 ^ (52 - k)"
        using k by (auto intro!: mult_right_mono simp del: power_Suc)
      ultimately show ?thesis using False by (simp only: m_def) simp
    qed
    then show "2 ^ 52 \<le> m" "m \<le> 2 ^ 53" by auto
  qed
  have step: "(if 0 \<le> int k - 52 then round_half_even a (1 * 2 ^ nat (int k - 52)) else round_half_even (a * 2 ^ nat (- (int k - 52))) 1) = m"
  proof (cases "52 \<le> k")
    case True
    then have "nat (int k - 52) = k - 52" by simp
    then show ?thesis using True by (simp add: m_def)
  next
    case False
    then have "nat (- (int k - 52)) = 52 - k" by simp
    then show ?thesis using False by (simp add: m_def round_half_even_def)
  qed
  have "f64_of_int i = (let (e', m') = (if m = 2 ^ 53 then (int k + 1, 2 ^ 52) else (int k, m))
      in if 1023 < e' then f64_infinity (i < 0)
         else if m' < 2 ^ 52 then f64_make (i < 0) 0 m' else f64_make (i < 0) (e' + 1023) (m' - 2 ^ 52))"
    unfolding f64_of_int_def f64_of_ratio_def a_def [symmetric] Let_def ratio step using a(1) by simp
  then show ?thesis
    using that [of "int k + 1 + 1023" 0] that [of "int k + 1023" "m - 2 ^ 52"] m k64 by (auto split: if_splits)
qed

lemma f64_of_int_eq_zero: "\<bar>i\<bar> \<le> 2 ^ 64 \<Longrightarrow> f64_eq (f64_of_int i) (f64_of_int 0) \<longleftrightarrow> i = 0"
proof (cases "i = 0")
  case True
  then show ?thesis by (simp add: f64_eq_def f64_partial_cmp_def, simp add: f64_of_int_def f64_of_ratio_def, code_simp)
next
  case False
  assume i: "\<bar>i\<bar> \<le> 2 ^ 64"
  obtain ex frac where x: "f64_of_int i = f64_make (i < 0) ex frac" "1 \<le> ex" "ex < 2047" "0 \<le> frac" "frac < 2 ^ 52"
    using f64_of_int_normal [OF False i] .
  have "f64_key (f64_of_int i) \<noteq> 0"
    using f64_make_uint [of ex frac "i < 0"] f64_make_fields(1) [of ex frac "i < 0"] x by (auto simp: f64_key_def)
  moreover have "f64_key (f64_of_int 0) = 0" unfolding f64_of_int_def f64_of_ratio_def by code_simp
  ultimately show ?thesis using False by (simp add: f64_eq_def f64_partial_cmp_def)
qed

end
