(* ===== verification/Convert.thy ===== *)
theory Convert
  imports Php_Value F64_Arith
begin

text \<open>
  Scalar conversions and comparisons (\<open>crates/php_runtime/src/convert.rs\<close>). Values that are handles are read through a
  \<open>value_env\<close>: the cells of references, the entries of arrays, the properties of objects. Strings are classified without
  the cache, which returns the same when no fingerprints collide. The rendering of floats as text is a parameter, and so
  are the equality of callables and the identity of a resource.
\<close>

section \<open>Values behind handles\<close>

record value_env =
  val_bytes :: byte_env
  val_cell :: "handle \<Rightarrow> php_value"
  val_array :: "handle \<Rightarrow> (array_key \<times> php_value) list"
  val_object_id :: "handle \<Rightarrow> nat"
  val_object_class :: "handle \<Rightarrow> string"
  val_object_properties :: "handle \<Rightarrow> (string \<times> php_value) list"
  val_float_text :: "f64 \<Rightarrow> bytes"
  val_same_callable :: "handle \<Rightarrow> handle \<Rightarrow> bool"

text \<open>\<open>Result\<close>, and the two ways of not returning one: a panic and a recursion deeper than the fuel.\<close>

datatype 'a op_result = OpOk 'a | OpErr string | OpPanic | OpDeep

primrec op_bind :: "'a op_result \<Rightarrow> ('a \<Rightarrow> 'b op_result) \<Rightarrow> 'b op_result" where
  "op_bind (OpOk x) f = f x"
| "op_bind (OpErr e) f = OpErr e"
| "op_bind OpPanic f = OpPanic"
| "op_bind OpDeep f = OpDeep"

abbreviation op_map :: "('a \<Rightarrow> 'b) \<Rightarrow> 'a op_result \<Rightarrow> 'b op_result" where
  "op_map f r \<equiv> op_bind r (\<lambda>x. OpOk (f x))"

text \<open>Each conversion follows a reference first: its last arm calls itself on what the cell holds.\<close>

primrec resolve :: "nat \<Rightarrow> value_env \<Rightarrow> php_value \<Rightarrow> php_value op_result" where
  "resolve 0 V v = (case v of VReference _ \<Rightarrow> OpDeep | _ \<Rightarrow> OpOk v)"
| "resolve (Suc n) V v = (case v of VReference cell \<Rightarrow> resolve n V (val_cell V cell) | _ \<Rightarrow> OpOk v)"

section \<open>Numbers\<close>

datatype numeric_value = NumInt int | NumFloat f64

primrec num_as_f64 :: "numeric_value \<Rightarrow> f64" where
  "num_as_f64 (NumInt value) = f64_of_int value"
| "num_as_f64 (NumFloat value) = value"

primrec num_is_float :: "numeric_value \<Rightarrow> bool" where
  "num_is_float (NumInt _) = False"
| "num_is_float (NumFloat _) = True"

record arithmetic_number =
  an_value :: numeric_value
  leading_numeric_string :: bool

primrec numeric_of_string_value :: "numeric_string_value \<Rightarrow> numeric_value" where
  "numeric_of_string_value (NsInt value) = NumInt value"
| "numeric_of_string_value (NsFloat value) = NumFloat value"

definition non_numeric_error :: string where
  "non_numeric_error = ''E_PHP_RUNTIME_NON_NUMERIC_STRING: non-numeric string cannot be used as a number''"

definition arithmetic_numeric_string_with_warning :: "value_env \<Rightarrow> bytes \<Rightarrow> arithmetic_number op_result" where
  "arithmetic_numeric_string_with_warning V s =
     (let classified = classify (val_bytes V) s
      in case (ns_kind classified, ns_value classified) of
           (NonNumeric, _) \<Rightarrow> OpErr non_numeric_error
         | (_, None) \<Rightarrow> OpErr non_numeric_error
         | (kind, Some value) \<Rightarrow>
             OpOk \<lparr>an_value = numeric_of_string_value value, leading_numeric_string = (kind = LeadingNumeric)\<rparr>)"

definition arithmetic_numeric_string :: "value_env \<Rightarrow> bytes \<Rightarrow> numeric_value op_result" where
  "arithmetic_numeric_string V s = op_map an_value (arithmetic_numeric_string_with_warning V s)"

definition comparison_numeric_string :: "value_env \<Rightarrow> bytes \<Rightarrow> numeric_value option" where
  "comparison_numeric_string V s =
     (let classified = classify (val_bytes V) s
      in if ns_kind classified \<in> {IntString, FloatString}
         then map_option numeric_of_string_value (ns_value classified) else None)"

section \<open>Floats and integers\<close>

definition float_fits_int :: "f64 \<Rightarrow> bool" where
  "float_fits_int value \<longleftrightarrow>
     (let least = f64_of_int i64_min
      in f64_is_finite value \<and> \<not> f64_lt value least \<and> f64_lt value (f64_neg least))"

definition php_float_to_int :: "f64 \<Rightarrow> int" where
  "php_float_to_int value =
     (if float_fits_int value then f64_to_i64 value
      else if \<not> f64_is_finite value then 0
      else
        let two_pow_64 = f64_of_int (2 ^ 64);
            modulus = f64_rem value two_pow_64;
            modulus = (if f64_lt modulus (f64_of_int 0) then f64_add modulus two_pow_64 else modulus);
            modulus = (if \<not> f64_lt modulus (f64_neg (f64_of_int i64_min)) then f64_sub modulus two_pow_64 else modulus)
        in f64_to_i64 modulus)"

section \<open>Conversions\<close>

definition to_bool :: "nat \<Rightarrow> value_env \<Rightarrow> php_value \<Rightarrow> bool op_result" where
  "to_bool n V v = op_bind (resolve n V v) (\<lambda>v. case v of
       VNull \<Rightarrow> OpOk False
     | VBool value \<Rightarrow> OpOk value
     | VInt value \<Rightarrow> OpOk (value \<noteq> 0)
     | VFloat value \<Rightarrow> OpOk (\<not> f64_eq value (f64_of_int 0))
     | VString value \<Rightarrow> OpOk (value \<noteq> [] \<and> value \<noteq> ''0'')
     | VUninitialized \<Rightarrow> OpErr ''cannot convert uninitialized value to bool''
     | VArray a \<Rightarrow> OpOk (val_array V a \<noteq> [])
     | VObject _ \<Rightarrow> OpOk True
     | VResource _ \<Rightarrow> OpOk True
     | VFiber _ \<Rightarrow> OpOk True
     | VGenerator _ \<Rightarrow> OpOk True
     | VCallable _ \<Rightarrow> OpErr ''callable truthiness is not implemented''
     | VReference _ \<Rightarrow> OpDeep)"

definition object_to_string_gap :: string where
  "object_to_string_gap = ''E_PHP_RUNTIME_OBJECT_TO_STRING_GAP: object __toString conversion is not implemented''"

definition to_string :: "nat \<Rightarrow> value_env \<Rightarrow> php_value \<Rightarrow> bytes op_result" where
  "to_string n V v = op_bind (resolve n V v) (\<lambda>v. case v of
       VNull \<Rightarrow> OpOk []
     | VBool value \<Rightarrow> OpOk (if value then ''1'' else [])
     | VInt value \<Rightarrow> OpOk (show_int value)
     | VFloat value \<Rightarrow> OpOk (val_float_text V value)
     | VString value \<Rightarrow> OpOk value
     | VUninitialized \<Rightarrow> OpErr ''cannot convert uninitialized value to string''
     | VArray _ \<Rightarrow> OpErr ''E_PHP_RUNTIME_ARRAY_TO_STRING_GAP: array to string conversion is not implemented''
     | VObject _ \<Rightarrow> OpErr object_to_string_gap
     | VFiber _ \<Rightarrow> OpErr object_to_string_gap
     | VGenerator _ \<Rightarrow> OpErr object_to_string_gap
     | VResource rid \<Rightarrow> OpOk (''Resource id #'' @ show_nat rid)
     | VCallable _ \<Rightarrow> OpErr ''callable to string conversion is not implemented''
     | VReference _ \<Rightarrow> OpDeep)"

definition object_numeric_gap :: "string \<Rightarrow> string" where
  "object_numeric_gap target =
     ''E_PHP_RUNTIME_OBJECT_NUMERIC_CONVERSION_GAP: object to '' @ target @ '' conversion is not implemented''"

text \<open>\<open>id as i64\<close>: the low 64 bits, in two's complement.\<close>

definition wrap_i64 :: "int \<Rightarrow> int" where
  "wrap_i64 i = (i + 2 ^ 63) mod 2 ^ 64 - 2 ^ 63"

definition to_int :: "nat \<Rightarrow> value_env \<Rightarrow> php_value \<Rightarrow> int op_result" where
  "to_int n V v = op_bind (resolve n V v) (\<lambda>v. case v of
       VNull \<Rightarrow> OpOk 0
     | VBool value \<Rightarrow> OpOk (of_bool value)
     | VInt value \<Rightarrow> OpOk value
     | VFloat value \<Rightarrow> OpOk (php_float_to_int value)
     | VString value \<Rightarrow> OpOk (case ns_value (classify (val_bytes V) value) of None \<Rightarrow> 0 | Some x \<Rightarrow> to_i64 x)
     | VUninitialized \<Rightarrow> OpErr ''cannot convert uninitialized value to int''
     | VArray a \<Rightarrow> OpOk (if val_array V a = [] then 0 else 1)
     | VObject _ \<Rightarrow> OpErr (object_numeric_gap ''int'')
     | VFiber _ \<Rightarrow> OpErr (object_numeric_gap ''int'')
     | VGenerator _ \<Rightarrow> OpErr (object_numeric_gap ''int'')
     | VResource rid \<Rightarrow> OpOk (wrap_i64 (int rid))
     | VCallable _ \<Rightarrow> OpErr ''callable to int conversion is not implemented''
     | VReference _ \<Rightarrow> OpDeep)"

definition to_float :: "nat \<Rightarrow> value_env \<Rightarrow> php_value \<Rightarrow> f64 op_result" where
  "to_float n V v = op_bind (resolve n V v) (\<lambda>v. case v of
       VNull \<Rightarrow> OpOk (f64_of_int 0)
     | VBool value \<Rightarrow> OpOk (f64_of_int (of_bool value))
     | VInt value \<Rightarrow> OpOk (f64_of_int value)
     | VFloat value \<Rightarrow> OpOk value
     | VString value \<Rightarrow>
         OpOk (case ns_value (classify (val_bytes V) value) of None \<Rightarrow> f64_of_int 0 | Some x \<Rightarrow> as_f64 x)
     | VUninitialized \<Rightarrow> OpErr ''cannot convert uninitialized value to float''
     | VArray a \<Rightarrow> OpOk (f64_of_int (if val_array V a = [] then 0 else 1))
     | VObject _ \<Rightarrow> OpErr (object_numeric_gap ''float'')
     | VFiber _ \<Rightarrow> OpErr (object_numeric_gap ''float'')
     | VGenerator _ \<Rightarrow> OpErr (object_numeric_gap ''float'')
     | VResource rid \<Rightarrow> OpOk (f64_of_int (int rid))
     | VCallable _ \<Rightarrow> OpErr ''callable to float conversion is not implemented''
     | VReference _ \<Rightarrow> OpDeep)"

definition to_number :: "nat \<Rightarrow> value_env \<Rightarrow> php_value \<Rightarrow> numeric_value op_result" where
  "to_number n V v = op_bind (resolve n V v) (\<lambda>v. case v of
       VNull \<Rightarrow> OpOk (NumInt 0)
     | VBool value \<Rightarrow> OpOk (NumInt (of_bool value))
     | VInt value \<Rightarrow> OpOk (NumInt value)
     | VFloat value \<Rightarrow> OpOk (NumFloat value)
     | VString value \<Rightarrow> arithmetic_numeric_string V value
     | VUninitialized \<Rightarrow> OpErr ''cannot convert uninitialized value to number''
     | VArray _ \<Rightarrow> OpErr ''array to number conversion is not implemented''
     | VObject _ \<Rightarrow> OpErr (object_numeric_gap ''number'')
     | VFiber _ \<Rightarrow> OpErr (object_numeric_gap ''number'')
     | VGenerator _ \<Rightarrow> OpErr (object_numeric_gap ''number'')
     | VResource rid \<Rightarrow> OpOk (NumInt (wrap_i64 (int rid)))
     | VCallable _ \<Rightarrow> OpErr ''callable to number conversion is not implemented''
     | VReference _ \<Rightarrow> OpDeep)"

definition native_bytes_to_number :: "value_env \<Rightarrow> bytes \<Rightarrow> numeric_value op_result" where
  "native_bytes_to_number V s =
     (let classified = classify (val_bytes V) s
      in case (ns_kind classified, ns_value classified) of
           (NonNumeric, _) \<Rightarrow> OpErr non_numeric_error
         | (_, None) \<Rightarrow> OpErr non_numeric_error
         | (_, Some value) \<Rightarrow> OpOk (numeric_of_string_value value))"

definition native_bytes_to_weak_int_parameter :: "value_env \<Rightarrow> bytes \<Rightarrow> int option" where
  "native_bytes_to_weak_int_parameter V s =
     (let classified = classify (val_bytes V) s
      in if ns_kind classified \<notin> {IntString, FloatString} then None
         else case ns_value classified of
                None \<Rightarrow> None
              | Some (NsInt value) \<Rightarrow> Some value
              | Some (NsFloat value) \<Rightarrow> Some (php_float_to_int value))"

definition to_arithmetic_number :: "nat \<Rightarrow> value_env \<Rightarrow> php_value \<Rightarrow> arithmetic_number op_result" where
  "to_arithmetic_number n V v = op_bind (resolve n V v) (\<lambda>v. case v of
       VString value \<Rightarrow> arithmetic_numeric_string_with_warning V value
     | _ \<Rightarrow> op_map (\<lambda>value. \<lparr>an_value = value, leading_numeric_string = False\<rparr>) (to_number n V v))"

section \<open>Comparisons\<close>

definition compare_numbers :: "numeric_value \<Rightarrow> numeric_value \<Rightarrow> ordering op_result" where
  "compare_numbers left right =
     (case (left, right) of
        (NumInt l, NumInt r) \<Rightarrow> OpOk (cmp_int l r)
      | _ \<Rightarrow>
          if f64_is_nan (num_as_f64 left) \<or> f64_is_nan (num_as_f64 right) then OpOk OrdGreater
          else (case f64_partial_cmp (num_as_f64 left) (num_as_f64 right) of
                 Some rel \<Rightarrow> OpOk rel
               | None \<Rightarrow> OpErr ''cannot compare NaN numeric values''))"

primrec is_nan_number :: "php_value \<Rightarrow> bool" where
  "is_nan_number VNull = False"
| "is_nan_number (VBool _) = False"
| "is_nan_number (VInt _) = False"
| "is_nan_number (VFloat value) = f64_is_nan value"
| "is_nan_number (VString _) = False"
| "is_nan_number VUninitialized = False"
| "is_nan_number (VArray _) = False"
| "is_nan_number (VObject _) = False"
| "is_nan_number (VResource _) = False"
| "is_nan_number (VFiber _) = False"
| "is_nan_number (VGenerator _) = False"
| "is_nan_number (VCallable _) = False"
| "is_nan_number (VReference _) = False"

definition compare_string_and_number :: "nat \<Rightarrow> value_env \<Rightarrow> bytes \<Rightarrow> php_value \<Rightarrow> ordering op_result" where
  "compare_string_and_number n V s number =
     (case comparison_numeric_string V s of
        Some string \<Rightarrow> op_bind (to_number n V number) (compare_numbers string)
      | None \<Rightarrow>
          if is_nan_number number then OpOk OrdGreater
          else op_map (cmp_bytes s) (to_string n V number))"

definition compare_number_and_string :: "nat \<Rightarrow> value_env \<Rightarrow> php_value \<Rightarrow> bytes \<Rightarrow> ordering op_result" where
  "compare_number_and_string n V number s =
     (case comparison_numeric_string V s of
        Some string \<Rightarrow> op_bind (to_number n V number) (\<lambda>x. compare_numbers x string)
      | None \<Rightarrow>
          if is_nan_number number then OpOk OrdGreater
          else op_map (\<lambda>text. cmp_bytes text s) (to_string n V number))"

definition is_number :: "php_value \<Rightarrow> bool" where
  "is_number v = (case v of VInt _ \<Rightarrow> True | VFloat _ \<Rightarrow> True | _ \<Rightarrow> False)"

definition type_name :: "php_value \<Rightarrow> string" where
  "type_name v = (case v of
       VNull \<Rightarrow> ''null'' | VBool _ \<Rightarrow> ''bool'' | VInt _ \<Rightarrow> ''int'' | VFloat _ \<Rightarrow> ''float'' | VString _ \<Rightarrow> ''string''
     | VUninitialized \<Rightarrow> ''uninitialized'' | VArray _ \<Rightarrow> ''array'' | VObject _ \<Rightarrow> ''object'' | VFiber _ \<Rightarrow> ''object''
     | VGenerator _ \<Rightarrow> ''object'' | VResource _ \<Rightarrow> ''resource'' | VCallable _ \<Rightarrow> ''callable''
     | VReference _ \<Rightarrow> ''reference'')"

definition compare_array_keys :: "array_key \<Rightarrow> array_key \<Rightarrow> ordering" where
  "compare_array_keys left right =
     (case (left, right) of
        (IntKey l, IntKey r) \<Rightarrow> cmp_int l r
      | (StringKey l, StringKey r) \<Rightarrow> cmp_bytes l r
      | (IntKey _, StringKey _) \<Rightarrow> OrdLess
      | (StringKey _, IntKey _) \<Rightarrow> OrdGreater)"

text \<open>The walks over arrays and objects take the comparison of their elements as an argument.\<close>

primrec arrays_identical ::
    "(php_value \<Rightarrow> php_value \<Rightarrow> bool op_result) \<Rightarrow> (array_key \<times> php_value) list \<Rightarrow> (array_key \<times> php_value) list \<Rightarrow> bool op_result" where
  "arrays_identical same [] right = OpOk True"
| "arrays_identical same (l # ls) right =
     (case right of
        [] \<Rightarrow> OpOk True
      | r # rs \<Rightarrow>
          if fst l \<noteq> fst r then OpOk False
          else op_bind (same (snd l) (snd r)) (\<lambda>eq. if eq then arrays_identical same ls rs else OpOk False))"

primrec arrays_equal ::
    "(php_value \<Rightarrow> php_value \<Rightarrow> bool op_result) \<Rightarrow> (array_key \<times> php_value) list \<Rightarrow> (array_key \<times> php_value) list \<Rightarrow> bool op_result" where
  "arrays_equal eq [] right = OpOk True"
| "arrays_equal eq (l # ls) right =
     (case map_of right (fst l) of
        None \<Rightarrow> OpOk False
      | Some r \<Rightarrow> op_bind (eq (snd l) r) (\<lambda>same. if same then arrays_equal eq ls right else OpOk False))"

primrec arrays_compare ::
    "(php_value \<Rightarrow> php_value \<Rightarrow> ordering op_result) \<Rightarrow> (array_key \<times> php_value) list \<Rightarrow> (array_key \<times> php_value) list \<Rightarrow>
     ordering op_result" where
  "arrays_compare cmp [] right = OpOk OrdEqual"
| "arrays_compare cmp (l # ls) right =
     (case map_of right (fst l) of
        None \<Rightarrow> (case right of [] \<Rightarrow> OpPanic | r # _ \<Rightarrow> OpOk (compare_array_keys (fst l) (fst r)))
      | Some r \<Rightarrow> op_bind (cmp (snd l) r) (\<lambda>rel.
          if rel \<noteq> OrdEqual then OpOk rel else arrays_compare cmp ls right))"

primrec properties_equal ::
    "(php_value \<Rightarrow> php_value \<Rightarrow> bool op_result) \<Rightarrow> (string \<times> php_value) list \<Rightarrow> (string \<times> php_value) list \<Rightarrow> bool op_result" where
  "properties_equal eq [] right = OpOk True"
| "properties_equal eq (l # ls) right =
     (case right of
        [] \<Rightarrow> OpOk True
      | r # rs \<Rightarrow>
          if fst l \<noteq> fst r then OpOk False
          else op_bind (eq (snd l) (snd r)) (\<lambda>same. if same then properties_equal eq ls rs else OpOk False))"

definition objects_equal ::
    "(php_value \<Rightarrow> php_value \<Rightarrow> bool op_result) \<Rightarrow> value_env \<Rightarrow> handle \<Rightarrow> handle \<Rightarrow> bool op_result" where
  "objects_equal eq V left right =
     (if val_object_id V left = val_object_id V right then OpOk True
      else if val_object_class V left \<noteq> val_object_class V right then OpOk False
      else if length (val_object_properties V left) \<noteq> length (val_object_properties V right) then OpOk False
      else properties_equal eq (val_object_properties V left) (val_object_properties V right))"

primrec properties_compare ::
    "(php_value \<Rightarrow> php_value \<Rightarrow> ordering op_result) \<Rightarrow> (string \<times> php_value) list \<Rightarrow> (string \<times> php_value) list \<Rightarrow>
     ordering op_result" where
  "properties_compare cmp [] right = OpOk OrdEqual"
| "properties_compare cmp (l # ls) right =
     (case right of
        [] \<Rightarrow> OpOk OrdEqual
      | r # rs \<Rightarrow>
          if cmp_bytes (fst l) (fst r) \<noteq> OrdEqual then OpOk (cmp_bytes (fst l) (fst r))
          else op_bind (cmp (snd l) (snd r)) (\<lambda>rel.
            if rel \<noteq> OrdEqual then OpOk rel else properties_compare cmp ls rs))"

definition objects_compare ::
    "(php_value \<Rightarrow> php_value \<Rightarrow> bool op_result) \<Rightarrow> (php_value \<Rightarrow> php_value \<Rightarrow> ordering op_result) \<Rightarrow> value_env \<Rightarrow>
     handle \<Rightarrow> handle \<Rightarrow> ordering op_result" where
  "objects_compare eq cmp V left right = op_bind (objects_equal eq V left right) (\<lambda>same.
     let ls = val_object_properties V left; rs = val_object_properties V right;
         classes = cmp_bytes (val_object_class V left) (val_object_class V right);
         lengths = cmp_int (int (length ls)) (int (length rs))
     in if same then OpOk OrdEqual
        else if classes \<noteq> OrdEqual then OpOk classes
        else if lengths \<noteq> OrdEqual then OpOk lengths
        else properties_compare cmp ls rs)"

text \<open>The fuel bounds the depth of the calls of these three functions to each other.\<close>

text \<open>The variants of a value, for the matches on two values.\<close>

definition string_of :: "php_value \<Rightarrow> bytes option" where
  "string_of v = (case v of VString s \<Rightarrow> Some s | _ \<Rightarrow> None)"

definition array_of :: "php_value \<Rightarrow> handle option" where
  "array_of v = (case v of VArray a \<Rightarrow> Some a | _ \<Rightarrow> None)"

definition object_of :: "php_value \<Rightarrow> handle option" where
  "object_of v = (case v of VObject x \<Rightarrow> Some x | _ \<Rightarrow> None)"

definition resource_of :: "php_value \<Rightarrow> nat option" where
  "resource_of v = (case v of VResource r \<Rightarrow> Some r | _ \<Rightarrow> None)"

definition reference_of :: "php_value \<Rightarrow> handle option" where
  "reference_of v = (case v of VReference r \<Rightarrow> Some r | _ \<Rightarrow> None)"

definition float_of :: "php_value \<Rightarrow> f64 option" where
  "float_of v = (case v of VFloat x \<Rightarrow> Some x | _ \<Rightarrow> None)"

definition callable_of :: "php_value \<Rightarrow> handle option" where
  "callable_of v = (case v of VCallable c \<Rightarrow> Some c | _ \<Rightarrow> None)"

definition is_bool_or_null :: "php_value \<Rightarrow> bool" where
  "is_bool_or_null v = (case v of VBool _ \<Rightarrow> True | VNull \<Rightarrow> True | _ \<Rightarrow> False)"

definition identical_plain ::
    "(php_value \<Rightarrow> php_value \<Rightarrow> bool op_result) \<Rightarrow> value_env \<Rightarrow> php_value \<Rightarrow> php_value \<Rightarrow> bool op_result" where
  "identical_plain same V left right = (case left of
       VFloat l \<Rightarrow> (case float_of right of None \<Rightarrow> OpOk False | Some r \<Rightarrow> OpOk (f64_eq l r))
     | VArray l \<Rightarrow>
         (case array_of right of
            None \<Rightarrow> OpOk False
          | Some r \<Rightarrow>
              if length (val_array V l) \<noteq> length (val_array V r) then OpOk False
              else arrays_identical same (val_array V l) (val_array V r))
     | VObject l \<Rightarrow>
         (case object_of right of None \<Rightarrow> OpOk False | Some r \<Rightarrow> OpOk (val_object_id V l = val_object_id V r))
     | VCallable l \<Rightarrow> (case callable_of right of None \<Rightarrow> OpOk False | Some r \<Rightarrow> OpOk (val_same_callable V l r))
     | VUninitialized \<Rightarrow> OpOk False
     | VFiber _ \<Rightarrow> OpOk False
     | VGenerator _ \<Rightarrow> OpOk False
     | _ \<Rightarrow> OpOk (left = right))"

primrec identical :: "nat \<Rightarrow> value_env \<Rightarrow> php_value \<Rightarrow> php_value \<Rightarrow> bool op_result" where
  "identical 0 V = (\<lambda>left right. OpDeep)"
| "identical (Suc n) V = (\<lambda>left right. case reference_of left of
       Some l \<Rightarrow> if right = VReference l then OpOk True else identical n V (val_cell V l) right
     | None \<Rightarrow>
         (case reference_of right of
            Some r \<Rightarrow> identical n V left (val_cell V r)
          | None \<Rightarrow> identical_plain (identical n V) V left right))"

text \<open>The tail of \<open>compare\<close>, reached when neither operand is a reference, a boolean or null and not both are strings.\<close>

definition compare_scalars ::
    "(php_value \<Rightarrow> php_value \<Rightarrow> bool op_result) \<Rightarrow> (php_value \<Rightarrow> php_value \<Rightarrow> ordering op_result) \<Rightarrow> nat \<Rightarrow> value_env \<Rightarrow>
     php_value \<Rightarrow> php_value \<Rightarrow> ordering op_result" where
  "compare_scalars eq cmp n V left right =
     (if is_number left \<and> is_number right then
        op_bind (to_number n V left) (\<lambda>l. op_bind (to_number n V right) (compare_numbers l))
      else if string_of left \<noteq> None \<and> is_number right then
        compare_string_and_number n V (the (string_of left)) right
      else if is_number left \<and> string_of right \<noteq> None then
        compare_number_and_string n V left (the (string_of right))
      else case (array_of left, array_of right) of
         (Some l, Some r) \<Rightarrow>
           (case cmp_int (int (length (val_array V l))) (int (length (val_array V r))) of
              OrdEqual \<Rightarrow> arrays_compare cmp (val_array V l) (val_array V r)
            | rel \<Rightarrow> OpOk rel)
       | (Some _, None) \<Rightarrow> OpOk OrdGreater
       | (None, Some _) \<Rightarrow> OpOk OrdLess
       | (None, None) \<Rightarrow>
           (case (object_of left, object_of right) of
              (Some l, Some r) \<Rightarrow> objects_compare eq cmp V l r
            | (Some _, None) \<Rightarrow> OpOk OrdGreater
            | (None, Some _) \<Rightarrow> OpOk OrdLess
            | (None, None) \<Rightarrow>
                (case (resource_of left, resource_of right) of
                   (Some l, Some r) \<Rightarrow> OpOk (cmp_int (int l) (int r))
                 | (Some _, None) \<Rightarrow> OpOk OrdGreater
                 | (None, Some _) \<Rightarrow> OpOk OrdLess
                 | (None, None) \<Rightarrow>
                     OpErr (''loose comparison is not implemented for '' @ type_name left @ '' and '' @ type_name right))))"

definition compare_truth :: "nat \<Rightarrow> value_env \<Rightarrow> php_value \<Rightarrow> php_value \<Rightarrow> ordering op_result" where
  "compare_truth n V left right = op_bind (to_bool n V left) (\<lambda>l. op_map (cmp_bool l) (to_bool n V right))"

definition is_bool_value :: "php_value \<Rightarrow> bool" where
  "is_bool_value v = (case v of VBool _ \<Rightarrow> True | _ \<Rightarrow> False)"

definition compare_plain ::
    "(php_value \<Rightarrow> php_value \<Rightarrow> bool op_result) \<Rightarrow> (php_value \<Rightarrow> php_value \<Rightarrow> ordering op_result) \<Rightarrow> nat \<Rightarrow> value_env \<Rightarrow>
     php_value \<Rightarrow> php_value \<Rightarrow> ordering op_result" where
  "compare_plain eq cmp n V left right =
     (case (string_of left, string_of right) of
        (Some l, Some r) \<Rightarrow>
          (case (comparison_numeric_string V l, comparison_numeric_string V r) of
             (Some x, Some y) \<Rightarrow> compare_numbers x y
           | _ \<Rightarrow> OpOk (cmp_bytes l r))
      | (l, r) \<Rightarrow>
          if is_bool_value left \<or> is_bool_value right then compare_truth n V left right
          else if left = VNull then (case r of Some r \<Rightarrow> OpOk (cmp_bytes [] r) | None \<Rightarrow> compare_truth n V left right)
          else if right = VNull then (case l of Some l \<Rightarrow> OpOk (cmp_bytes l []) | None \<Rightarrow> compare_truth n V left right)
          else compare_scalars eq cmp n V left right)"

text \<open>\<open>equal_values\<close> is \<open>equal\<close>: an array, an object or a resource is decided before references are followed.\<close>

definition equal_plain ::
    "(php_value \<Rightarrow> php_value \<Rightarrow> bool op_result) \<Rightarrow> (php_value \<Rightarrow> php_value \<Rightarrow> ordering op_result) \<Rightarrow> value_env \<Rightarrow>
     php_value \<Rightarrow> php_value \<Rightarrow> bool op_result option" where
  "equal_plain eq cmp V left right =
     (if is_bool_or_null left \<or> is_bool_or_null right then Some (op_map (\<lambda>rel. rel = OrdEqual) (cmp left right))
      else case (array_of left, array_of right) of
         (Some l, Some r) \<Rightarrow>
           Some (if length (val_array V l) \<noteq> length (val_array V r) then OpOk False
                 else arrays_equal eq (val_array V l) (val_array V r))
       | (None, None) \<Rightarrow>
           (case (object_of left, object_of right) of
              (Some l, Some r) \<Rightarrow> Some (objects_equal eq V l r)
            | (None, None) \<Rightarrow>
                (case (resource_of left, resource_of right) of
                   (Some l, Some r) \<Rightarrow> Some (OpOk (l = r))
                 | (None, None) \<Rightarrow> None
                 | _ \<Rightarrow> Some (OpOk False))
            | _ \<Rightarrow> Some (OpOk False))
       | _ \<Rightarrow> Some (OpOk False))"

fun equal_values :: "nat \<Rightarrow> value_env \<Rightarrow> (php_value \<Rightarrow> php_value \<Rightarrow> bool op_result)"
  and compare_values :: "nat \<Rightarrow> value_env \<Rightarrow> (php_value \<Rightarrow> php_value \<Rightarrow> ordering op_result)" where
  "equal_values 0 V = (\<lambda>left right. OpDeep)"
| "equal_values (Suc n) V = (\<lambda>left right.
     case equal_plain (equal_values n V) (compare_values n V) V left right of
       Some result \<Rightarrow> result
     | None \<Rightarrow>
         (case reference_of left of
            Some l \<Rightarrow> if right = VReference l then OpOk True else equal_values n V (val_cell V l) right
          | None \<Rightarrow>
              (case reference_of right of
                 Some r \<Rightarrow> equal_values n V left (val_cell V r)
               | None \<Rightarrow> op_map (\<lambda>rel. rel = OrdEqual) (compare_values n V left right))))"
| "compare_values 0 V = (\<lambda>left right. OpDeep)"
| "compare_values (Suc n) V = (\<lambda>left right. case reference_of left of
       Some l \<Rightarrow> if right = VReference l then OpOk OrdEqual else compare_values n V (val_cell V l) right
     | None \<Rightarrow>
         (case reference_of right of
            Some r \<Rightarrow> compare_values n V left (val_cell V r)
          | None \<Rightarrow> compare_plain (equal_values n V) (compare_values n V) n V left right))"

definition numeric_comparison_is_unordered :: "nat \<Rightarrow> value_env \<Rightarrow> php_value \<Rightarrow> php_value \<Rightarrow> bool op_result" where
  "numeric_comparison_is_unordered n V left right =
     op_bind (resolve n V left) (\<lambda>l. op_map (\<lambda>r.
       ((is_number l \<and> (is_number r \<or> type_name r = ''string'') \<or> type_name l = ''string'' \<and> is_number r) \<and>
        (is_nan_number l \<or> is_nan_number r))) (resolve n V right))"

end
