(* ===== verification/Native_Ops.thy ===== *)
theory Native_Ops
  imports Convert
begin

text \<open>
  The scalar operators of the runtime (\<open>crates/php_runtime/src/native_ops.rs\<close>): unary, binary, comparison and cast
  operations with the status they report and the slot they write. A Rust panic is a value of the result. \<open>f64::powf\<close>,
  which the platform's mathematical library computes, is a parameter.
\<close>

unbundle bit_operations_syntax

section \<open>Operators\<close>

datatype native_unary_op = NuPlus | NuMinus | NuNot | NuBitNot

datatype native_binary_op = NbAdd | NbSub | NbMul | NbDiv | NbMod | NbConcat | NbPow | NbBitAnd | NbBitOr | NbBitXor
  | NbShiftLeft | NbShiftRight

datatype native_compare_op = NcEqual | NcNotEqual | NcIdentical | NcNotIdentical | NcLess | NcLessEqual | NcGreater
  | NcGreaterEqual | NcSpaceship

datatype native_cast_op = NcaBool | NcaInt | NcaFloat | NcaString | NcaArray | NcaObject | NcaVoid

definition number_value :: "numeric_value \<Rightarrow> php_value" where
  "number_value value = (case value of NumInt i \<Rightarrow> VInt i | NumFloat x \<Rightarrow> VFloat x)"

section \<open>Arithmetic\<close>

definition checked_i64 :: "int \<Rightarrow> int option" where
  "checked_i64 i = (if in_i64 i then Some i else None)"

definition checked_numeric ::
    "numeric_value \<Rightarrow> numeric_value \<Rightarrow> (int \<Rightarrow> int \<Rightarrow> int option) \<Rightarrow> (f64 \<Rightarrow> f64 \<Rightarrow> f64) \<Rightarrow> php_value" where
  "checked_numeric lhs rhs integer float =
     (case (lhs, rhs) of
        (NumInt l, NumInt r) \<Rightarrow>
          (case integer l r of Some i \<Rightarrow> VInt i | None \<Rightarrow> VFloat (float (f64_of_int l) (f64_of_int r)))
      | _ \<Rightarrow> VFloat (float (num_as_f64 lhs) (num_as_f64 rhs)))"

text \<open>Division and remainder of \<open>i64\<close> truncate towards zero; \<open>%\<close> panics on the one overflow, \<open>checked_rem\<close> gives \<open>None\<close>.\<close>

definition quot_i64 :: "int \<Rightarrow> int \<Rightarrow> int" where
  "quot_i64 a b = sgn a * sgn b * (\<bar>a\<bar> div \<bar>b\<bar>)"

definition rem_i64 :: "int \<Rightarrow> int \<Rightarrow> int" where
  "rem_i64 a b = sgn a * (\<bar>a\<bar> mod \<bar>b\<bar>)"

definition rem_overflows :: "int \<Rightarrow> int \<Rightarrow> bool" where
  "rem_overflows a b \<longleftrightarrow> a = i64_min \<and> b = -1"

definition native_arithmetic :: "native_binary_op \<Rightarrow> numeric_value \<Rightarrow> numeric_value \<Rightarrow> php_value op_result" where
  "native_arithmetic op lhs rhs = (case op of
       NbAdd \<Rightarrow> OpOk (checked_numeric lhs rhs (\<lambda>a b. checked_i64 (a + b)) f64_add)
     | NbSub \<Rightarrow> OpOk (checked_numeric lhs rhs (\<lambda>a b. checked_i64 (a - b)) f64_sub)
     | NbMul \<Rightarrow> OpOk (checked_numeric lhs rhs (\<lambda>a b. checked_i64 (a * b)) f64_mul)
     | NbDiv \<Rightarrow>
         if f64_eq (num_as_f64 rhs) (f64_of_int 0) then OpErr ''division by zero''
         else (case (lhs, rhs) of
                 (NumInt l, NumInt r) \<Rightarrow>
                   if rem_overflows l r then OpPanic
                   else if rem_i64 l r = 0 then OpOk (VInt (quot_i64 l r))
                   else OpOk (VFloat (f64_div (num_as_f64 lhs) (num_as_f64 rhs)))
               | _ \<Rightarrow> OpOk (VFloat (f64_div (num_as_f64 lhs) (num_as_f64 rhs))))
     | NbMod \<Rightarrow>
         let r = f64_to_i64 (num_as_f64 rhs); l = f64_to_i64 (num_as_f64 lhs)
         in if r = 0 then OpErr ''modulo by zero''
            else OpOk (VInt (if rem_overflows l r then 0 else rem_i64 l r))
     | _ \<Rightarrow> OpErr ''operation is not arithmetic'')"

definition native_power :: "(f64 \<Rightarrow> f64 \<Rightarrow> f64) \<Rightarrow> numeric_value \<Rightarrow> numeric_value \<Rightarrow> php_value" where
  "native_power powf lhs rhs =
     (case (lhs, rhs) of
        (NumInt l, NumInt r) \<Rightarrow>
          if 0 \<le> r \<and> r < 2 ^ 32 \<and> in_i64 (l ^ nat r) then VInt (l ^ nat r)
          else VFloat (powf (num_as_f64 lhs) (num_as_f64 rhs))
      | _ \<Rightarrow> VFloat (powf (num_as_f64 lhs) (num_as_f64 rhs)))"

section \<open>Bitwise operators\<close>

definition byte_and :: "byte \<Rightarrow> byte \<Rightarrow> byte" where
  "byte_and a b = byte_of (byte_val a AND byte_val b)"

definition byte_or :: "byte \<Rightarrow> byte \<Rightarrow> byte" where
  "byte_or a b = byte_of (byte_val a OR byte_val b)"

definition byte_xor :: "byte \<Rightarrow> byte \<Rightarrow> byte" where
  "byte_xor a b = byte_of (byte_val a XOR byte_val b)"

definition byte_not :: "byte \<Rightarrow> byte" where
  "byte_not a = byte_of (255 - byte_val a)"

fun bitwise_string_or :: "bytes \<Rightarrow> bytes \<Rightarrow> bytes" where
  "bitwise_string_or (l # ls) (r # rs) = byte_or l r # bitwise_string_or ls rs"
| "bitwise_string_or ls [] = ls"
| "bitwise_string_or [] rs = rs"

text \<open>\<open>rhs as u32\<close> and the mask of \<open>wrapping_shl\<close> leave the low six bits of the distance.\<close>

definition shift_distance :: "int \<Rightarrow> nat" where
  "shift_distance rhs = nat (rhs mod 2 ^ 32 mod 64)"

definition native_bitwise_ints :: "native_binary_op \<Rightarrow> int \<Rightarrow> int \<Rightarrow> php_value op_result" where
  "native_bitwise_ints op lhs rhs = (case op of
       NbBitAnd \<Rightarrow> OpOk (VInt (lhs AND rhs))
     | NbBitOr \<Rightarrow> OpOk (VInt (lhs OR rhs))
     | NbBitXor \<Rightarrow> OpOk (VInt (lhs XOR rhs))
     | NbShiftLeft \<Rightarrow>
         if rhs < 0 then OpErr ''bit shift by negative number''
         else OpOk (VInt (wrap_i64 (lhs * 2 ^ shift_distance rhs)))
     | NbShiftRight \<Rightarrow>
         if rhs < 0 then OpErr ''bit shift by negative number''
         else OpOk (VInt (lhs div 2 ^ shift_distance rhs))
     | _ \<Rightarrow> OpErr ''operation is not bitwise'')"

definition native_bitwise :: "nat \<Rightarrow> value_env \<Rightarrow> native_binary_op \<Rightarrow> php_value \<Rightarrow> php_value \<Rightarrow> php_value op_result" where
  "native_bitwise n V op lhs rhs =
     (case (string_of lhs, string_of rhs) of
        (Some l, Some r) \<Rightarrow>
          if op = NbBitAnd then OpOk (VString (map2 byte_and l r))
          else if op = NbBitXor then OpOk (VString (map2 byte_xor l r))
          else if op = NbBitOr then OpOk (VString (bitwise_string_or l r))
          else op_bind (to_int n V lhs) (\<lambda>l. op_bind (to_int n V rhs) (native_bitwise_ints op l))
      | _ \<Rightarrow> op_bind (to_int n V lhs) (\<lambda>l. op_bind (to_int n V rhs) (native_bitwise_ints op l)))"

section \<open>The operations\<close>

text \<open>Union of arrays, given how the runtime builds the array of a list of entries.\<close>

definition array_union ::
    "((array_key \<times> php_value) list \<Rightarrow> handle) \<Rightarrow> nat \<Rightarrow> value_env \<Rightarrow> php_value \<Rightarrow> php_value \<Rightarrow> php_value option op_result" where
  "array_union build n V lhs rhs = op_bind (resolve n V lhs) (\<lambda>l.
     case array_of l of
       None \<Rightarrow> OpOk None
     | Some left \<Rightarrow> op_bind (resolve n V rhs) (\<lambda>r.
         case array_of r of
           None \<Rightarrow> OpOk None
         | Some right \<Rightarrow>
             op_map (\<lambda>items. Some (VArray (build items)))
               (fold (\<lambda>(key, value) acc. op_bind acc (\<lambda>items.
                  if map_of items key = None then op_map (\<lambda>v. items @ [(key, v)]) (resolve n V value) else OpOk items))
                 (val_array V right) (OpOk (val_array V left)))))"

record operator_env =
  op_values :: value_env
  op_powf :: "f64 \<Rightarrow> f64 \<Rightarrow> f64"
  op_build_array :: "(array_key \<times> php_value) list \<Rightarrow> handle"
  op_array_cast :: "handle \<Rightarrow> (array_key \<times> php_value) list"

definition unary_result :: "nat \<Rightarrow> operator_env \<Rightarrow> native_unary_op \<Rightarrow> php_value \<Rightarrow> php_value op_result" where
  "unary_result n X op src = (let V = op_values X in case op of
       NuPlus \<Rightarrow> op_map number_value (to_number n V src)
     | NuMinus \<Rightarrow> op_map (\<lambda>number. case number of
           NumInt value \<Rightarrow> (case checked_i64 (- value) of Some i \<Rightarrow> VInt i | None \<Rightarrow> VFloat (f64_neg (f64_of_int value)))
         | NumFloat value \<Rightarrow> VFloat (f64_neg value)) (to_number n V src)
     | NuNot \<Rightarrow> op_map (\<lambda>value. VBool (\<not> value)) (to_bool n V src)
     | NuBitNot \<Rightarrow> op_bind (resolve n V src) (\<lambda>v. case v of
           VInt value \<Rightarrow> OpOk (VInt (NOT value))
         | VString value \<Rightarrow> OpOk (VString (map byte_not value))
         | VFloat value \<Rightarrow> OpOk (VInt (NOT (php_float_to_int value)))
         | _ \<Rightarrow> OpErr ''bitwise not requires int or string''))"

definition binary_numbers ::
    "(numeric_value \<Rightarrow> numeric_value \<Rightarrow> php_value op_result) \<Rightarrow> nat \<Rightarrow> value_env \<Rightarrow> php_value \<Rightarrow> php_value \<Rightarrow> php_value op_result" where
  "binary_numbers f n V lhs rhs = op_bind (to_number n V lhs) (\<lambda>l. op_bind (to_number n V rhs) (f l))"

definition binary_result :: "nat \<Rightarrow> operator_env \<Rightarrow> native_binary_op \<Rightarrow> php_value \<Rightarrow> php_value \<Rightarrow> php_value op_result" where
  "binary_result n X op lhs rhs = (let V = op_values X in
     if op = NbConcat then
       op_bind (to_string n V lhs) (\<lambda>l. op_map (\<lambda>r. VString (l @ r)) (to_string n V rhs))
     else if op \<in> {NbBitAnd, NbBitOr, NbBitXor, NbShiftLeft, NbShiftRight} then native_bitwise n V op lhs rhs
     else if op = NbPow then binary_numbers (\<lambda>l r. OpOk (native_power (op_powf X) l r)) n V lhs rhs
     else if op = NbAdd then
       op_bind (array_union (op_build_array X) n V lhs rhs) (\<lambda>union.
         case union of Some v \<Rightarrow> OpOk v | None \<Rightarrow> binary_numbers (native_arithmetic op) n V lhs rhs)
     else binary_numbers (native_arithmetic op) n V lhs rhs)"

definition compare_result :: "nat \<Rightarrow> operator_env \<Rightarrow> native_compare_op \<Rightarrow> php_value \<Rightarrow> php_value \<Rightarrow> php_value op_result" where
  "compare_result n X op lhs rhs = (let V = op_values X in case op of
       NcIdentical \<Rightarrow> op_map VBool (identical n V lhs rhs)
     | NcNotIdentical \<Rightarrow> op_map (\<lambda>same. VBool (\<not> same)) (identical n V lhs rhs)
     | NcEqual \<Rightarrow> op_map VBool (equal_values n V lhs rhs)
     | NcNotEqual \<Rightarrow> op_map (\<lambda>same. VBool (\<not> same)) (equal_values n V lhs rhs)
     | NcLess \<Rightarrow> op_map (\<lambda>rel. VBool (rel = OrdLess)) (compare_values n V lhs rhs)
     | NcLessEqual \<Rightarrow> op_map (\<lambda>rel. VBool (rel \<noteq> OrdGreater)) (compare_values n V lhs rhs)
     | NcGreater \<Rightarrow> op_bind (numeric_comparison_is_unordered n V lhs rhs) (\<lambda>unordered.
         if unordered then OpOk (VBool False)
         else op_map (\<lambda>rel. VBool (rel = OrdGreater)) (compare_values n V lhs rhs))
     | NcGreaterEqual \<Rightarrow> op_bind (numeric_comparison_is_unordered n V lhs rhs) (\<lambda>unordered.
         if unordered then OpOk (VBool False)
         else op_map (\<lambda>rel. VBool (rel \<noteq> OrdLess)) (compare_values n V lhs rhs))
     | NcSpaceship \<Rightarrow> op_map (\<lambda>rel. VInt (case rel of OrdLess \<Rightarrow> -1 | OrdEqual \<Rightarrow> 0 | OrdGreater \<Rightarrow> 1))
         (compare_values n V lhs rhs))"

definition cast_result :: "nat \<Rightarrow> operator_env \<Rightarrow> native_cast_op \<Rightarrow> php_value \<Rightarrow> php_value op_result" where
  "cast_result n X op src = (let V = op_values X in case op of
       NcaBool \<Rightarrow> op_map VBool (to_bool n V src)
     | NcaInt \<Rightarrow> op_map VInt (to_int n V src)
     | NcaFloat \<Rightarrow> op_map VFloat (to_float n V src)
     | NcaString \<Rightarrow> op_map VString (to_string n V src)
     | NcaArray \<Rightarrow> op_bind (resolve n V src) (\<lambda>v. case v of
           VNull \<Rightarrow> OpOk (VArray (op_build_array X []))
         | VArray a \<Rightarrow> OpOk (VArray a)
         | VObject x \<Rightarrow> OpOk (VArray (op_build_array X (op_array_cast X x)))
         | VFiber _ \<Rightarrow> OpErr ''fiber/generator to array conversion is not implemented''
         | VGenerator _ \<Rightarrow> OpErr ''fiber/generator to array conversion is not implemented''
         | VUninitialized \<Rightarrow> OpErr ''cannot convert uninitialized value to array''
         | VCallable _ \<Rightarrow> OpErr ''callable to array conversion is not implemented''
         | VReference _ \<Rightarrow> OpDeep
         | scalar \<Rightarrow> OpOk (VArray (op_build_array X [(IntKey 0, scalar)])))
     | NcaObject \<Rightarrow> op_bind (resolve n V src) (\<lambda>v. case v of
           VObject x \<Rightarrow> OpOk (VObject x)
         | _ \<Rightarrow> OpErr ''E_PHP_RUNTIME_OBJECT_CAST_GAP: object cast conversion is not implemented'')
     | NcaVoid \<Rightarrow> OpOk VNull)"

section \<open>Publishing a result\<close>

datatype native_operation_status = StatusOk | StatusRuntimeError

record native_operation_context =
  noc_diagnostic_id :: "string option"
  noc_message :: "string option"
  userland_call_requested :: bool
  safepoints :: nat

definition saturating_u64_succ :: "nat \<Rightarrow> nat" where
  "saturating_u64_succ n = min (n + 1) (2 ^ 64 - 1)"

definition native_fail ::
    "string \<Rightarrow> string \<Rightarrow> native_operation_context \<Rightarrow> native_operation_status \<times> native_operation_context" where
  "native_fail diagnostic message context =
     (StatusRuntimeError, context\<lparr>noc_diagnostic_id := Some diagnostic, noc_message := Some message\<rparr>)"

text \<open>\<open>None\<close> when the operation panics or is too deep; otherwise the status, the context and the caller's slot.\<close>

definition publish ::
    "php_value op_result \<Rightarrow> native_operation_context \<Rightarrow> php_value \<Rightarrow>
     (native_operation_status \<times> native_operation_context \<times> php_value) option" where
  "publish result context out =
     (let context = context\<lparr>safepoints := saturating_u64_succ (safepoints context)\<rparr>
      in case result of
           OpOk value \<Rightarrow> Some (StatusOk, context, value)
         | OpErr message \<Rightarrow>
             (let (status, context) = native_fail ''E_NATIVE_RUNTIME_OPERATION'' message context
              in Some (status, context, out))
         | OpPanic \<Rightarrow> None
         | OpDeep \<Rightarrow> None)"

definition baseline_unary where
  "baseline_unary n X context op src out = publish (unary_result n X op src) context out"

definition baseline_binary where
  "baseline_binary n X context op lhs rhs out = publish (binary_result n X op lhs rhs) context out"

definition baseline_compare where
  "baseline_compare n X context op lhs rhs out = publish (compare_result n X op lhs rhs) context out"

definition baseline_cast where
  "baseline_cast n X context op src out = publish (cast_result n X op src) context out"

text \<open>\<open>native_echo\<close> appends the bytes of a value to the output.\<close>

definition native_echo ::
    "nat \<Rightarrow> operator_env \<Rightarrow> native_operation_context \<Rightarrow> bytes \<Rightarrow> php_value \<Rightarrow>
     (native_operation_status \<times> native_operation_context \<times> bytes) option" where
  "native_echo n X context output value =
     (let context = context\<lparr>safepoints := saturating_u64_succ (safepoints context)\<rparr>
      in case to_string n (op_values X) value of
           OpOk text \<Rightarrow> Some (StatusOk, context, output @ text)
         | OpErr message \<Rightarrow>
             (let (status, context) = native_fail ''E_NATIVE_ECHO'' message context in Some (status, context, output))
         | OpPanic \<Rightarrow> None
         | OpDeep \<Rightarrow> None)"

section \<open>Integers\<close>

lemma resolve_scalar [simp]:
  "resolve n V (VInt i) = OpOk (VInt i)" "resolve n V (VString s) = OpOk (VString s)" "resolve n V (VBool b) = OpOk (VBool b)"
  "resolve n V VNull = OpOk VNull" "resolve n V (VFloat x) = OpOk (VFloat x)"
  by (cases n, simp_all)+

lemma binary_result_ints:
  "op \<in> {NbSub, NbMul, NbDiv, NbMod, NbAdd} \<Longrightarrow> binary_result n X op (VInt l) (VInt r) = native_arithmetic op (NumInt l) (NumInt r)"
  by (auto simp: binary_result_def binary_numbers_def to_number_def array_union_def array_of_def Let_def)

lemma quot_rem_i64: "quot_i64 l r * r + rem_i64 l r = l"
proof -
  have "quot_i64 l r * r = sgn l * (\<bar>r\<bar> * (\<bar>l\<bar> div \<bar>r\<bar>))" by (simp add: quot_i64_def abs_sgn algebra_simps)
  then have "quot_i64 l r * r + rem_i64 l r = sgn l * (\<bar>r\<bar> * (\<bar>l\<bar> div \<bar>r\<bar>) + \<bar>l\<bar> mod \<bar>r\<bar>)"
    by (simp only: rem_i64_def distrib_left)
  then show ?thesis by (simp add: sgn_mult_abs)
qed

lemma rem_i64_eq_0: "rem_i64 l r = 0 \<longleftrightarrow> r dvd l"
proof -
  have "rem_i64 l r = 0 \<longleftrightarrow> \<bar>l\<bar> mod \<bar>r\<bar> = 0" by (cases "l = 0") (auto simp: rem_i64_def sgn_0_0)
  then show ?thesis by (simp add: mod_eq_0_iff_dvd)
qed

lemma quot_i64_dvd: "r dvd l \<Longrightarrow> r \<noteq> 0 \<Longrightarrow> quot_i64 l r = l div r"
  using quot_rem_i64 [of l r] rem_i64_eq_0 [of l r] by (metis add.right_neutral nonzero_mult_div_cancel_right)

text \<open>C16. On two integers the sum, difference and product are exact when they fit in 64 bits; the quotient is exact when
  the divisor divides and the operands are not the one pair whose remainder overflows, where the code panics; a zero
  divisor is an error; and the remainder is the truncating one for operands of at most 53 bits.\<close>

theorem integer_operators:
  assumes "in_i64 l" "in_i64 r"
  shows "(in_i64 (l + r) \<longrightarrow> binary_result n X NbAdd (VInt l) (VInt r) = OpOk (VInt (l + r))) \<and>
    (in_i64 (l - r) \<longrightarrow> binary_result n X NbSub (VInt l) (VInt r) = OpOk (VInt (l - r))) \<and>
    (in_i64 (l * r) \<longrightarrow> binary_result n X NbMul (VInt l) (VInt r) = OpOk (VInt (l * r))) \<and>
    binary_result n X NbDiv (VInt l) (VInt r) =
      (if r = 0 then OpErr ''division by zero'' else if l = i64_min \<and> r = -1 then OpPanic
       else if r dvd l then OpOk (VInt (l div r)) else OpOk (VFloat (f64_div (f64_of_int l) (f64_of_int r)))) \<and>
    (\<bar>l\<bar> \<le> 2 ^ 53 \<and> \<bar>r\<bar> \<le> 2 ^ 53 \<longrightarrow> binary_result n X NbMod (VInt l) (VInt r) =
      (if r = 0 then OpErr ''modulo by zero'' else OpOk (VInt (l - quot_i64 l r * r))))"
proof (intro conjI impI)
  have "f64_eq (f64_of_int r) (f64_of_int 0) \<longleftrightarrow> r = 0" using assms(2) by (intro f64_of_int_eq_zero) (auto simp: in_i64_def)
  then show "binary_result n X NbDiv (VInt l) (VInt r) =
      (if r = 0 then OpErr ''division by zero'' else if l = i64_min \<and> r = -1 then OpPanic
       else if r dvd l then OpOk (VInt (l div r)) else OpOk (VFloat (f64_div (f64_of_int l) (f64_of_int r))))"
    by (simp add: binary_result_ints native_arithmetic_def rem_overflows_def rem_i64_eq_0 quot_i64_dvd)
  assume "\<bar>l\<bar> \<le> 2 ^ 53 \<and> \<bar>r\<bar> \<le> 2 ^ 53"
  moreover have "rem_i64 l r = l - quot_i64 l r * r" using quot_rem_i64 [of l r] by simp
  ultimately show "binary_result n X NbMod (VInt l) (VInt r) =
      (if r = 0 then OpErr ''modulo by zero'' else OpOk (VInt (l - quot_i64 l r * r)))"
    by (auto simp: binary_result_ints native_arithmetic_def Let_def f64_to_i64_of_int rem_overflows_def)
qed (simp_all add: binary_result_ints native_arithmetic_def checked_numeric_def checked_i64_def)

definition plain_env :: operator_env where
  "plain_env = \<lparr>op_values = \<lparr>val_bytes = scalar_env Scalar False, val_cell = (\<lambda>_. VArray 0), val_array = (\<lambda>_. [(IntKey 0, VInt 1)]),
     val_object_id = id, val_object_class = (\<lambda>_. ''stdClass''), val_object_properties = (\<lambda>_. []), val_float_text = (\<lambda>_. []),
     val_same_callable = (=)\<rparr>, op_powf = (\<lambda>x y. x), op_build_array = length, op_array_cast = (\<lambda>_. [])\<rparr>"

theorem integer_operators_witness:
  "binary_result 1 plain_env NbMod (VInt (-7)) (VInt 2) = OpOk (VInt (-1)) \<and>
   binary_result 1 plain_env NbDiv (VInt (-8)) (VInt 2) = OpOk (VInt (-4))"
  using integer_operators [of "-7" 2 1 plain_env] integer_operators [of "-8" 2 1 plain_env]
  by (simp add: in_i64_def quot_i64_def)


section \<open>Loose equality\<close>

definition is_scalar_value :: "php_value \<Rightarrow> bool" where
  "is_scalar_value v = (case v of VNull \<Rightarrow> True | VBool _ \<Rightarrow> True | VInt _ \<Rightarrow> True | VFloat _ \<Rightarrow> True | VString _ \<Rightarrow> True | _ \<Rightarrow> False)"

text \<open>The two orders of a comparison agree, except that a NaN is greater both ways.\<close>

definition mirrors :: "ordering op_result \<Rightarrow> ordering op_result \<Rightarrow> bool" where
  "mirrors a b \<longleftrightarrow> (\<exists>rel. a = OpOk rel \<and> (b = OpOk (reverse_ordering rel) \<or> rel = OrdGreater \<and> b = OpOk OrdGreater))"

lemma compare_numbers_mirrors: "mirrors (compare_numbers x y) (compare_numbers y x)"
proof (cases "(\<exists>i. x = NumInt i) \<and> (\<exists>j. y = NumInt j)")
  case True
  then show ?thesis unfolding mirrors_def compare_numbers_def by (auto intro: cmp_int_swap)
next
  case False
  have "compare_numbers a b = (if f64_is_nan (num_as_f64 a) \<or> f64_is_nan (num_as_f64 b) then OpOk OrdGreater
      else OpOk (cmp_int (f64_key (num_as_f64 a)) (f64_key (num_as_f64 b))))" if "\<not> ((\<exists>i. a = NumInt i) \<and> (\<exists>j. b = NumInt j))" for a b
    using that by (cases a; cases b) (auto simp: compare_numbers_def f64_partial_cmp_def)
  from this [of x y] this [of y x] False show ?thesis
    by (auto simp: mirrors_def intro: cmp_int_swap)
qed

lemma mirrors_swap:
  "mirrors (OpOk (cmp_bytes a b)) (OpOk (cmp_bytes b a))" "mirrors (OpOk (cmp_bool c d)) (OpOk (cmp_bool d c))"
  "mirrors (OpOk OrdGreater) (OpOk OrdGreater)"
  by (auto simp: mirrors_def intro: cmp_bytes_swap cmp_bool_swap)

lemma to_bool_scalar: "is_scalar_value v \<Longrightarrow> \<exists>b. \<forall>n. to_bool n V v = OpOk b"
  by (cases v) (auto simp: is_scalar_value_def to_bool_def)

lemma compare_truth_mirrors: "is_scalar_value l \<Longrightarrow> is_scalar_value r \<Longrightarrow> mirrors (compare_truth n V l r) (compare_truth n V r l)"
  using to_bool_scalar [of l V] to_bool_scalar [of r V] mirrors_swap(2) by (auto simp: compare_truth_def)

lemma compare_string_number_mirrors:
  assumes "is_number v"
  shows "mirrors (compare_string_and_number n V s v) (compare_number_and_string n V v s)"
    "mirrors (compare_number_and_string n V v s) (compare_string_and_number n V s v)"
proof -
  have "\<exists>x. to_number n V v = OpOk x" using assms by (cases v) (auto simp: is_number_def to_number_def)
  moreover have "\<exists>t. to_string n V v = OpOk t" using assms by (cases v) (auto simp: is_number_def to_string_def)
  ultimately show "mirrors (compare_string_and_number n V s v) (compare_number_and_string n V v s)"
    "mirrors (compare_number_and_string n V v s) (compare_string_and_number n V s v)"
    using compare_numbers_mirrors mirrors_swap
    by (auto simp: compare_string_and_number_def compare_number_and_string_def split: option.splits)
qed

lemma compare_values_mirrors:
  assumes "is_scalar_value l" "is_scalar_value r"
  shows "mirrors (compare_values (Suc n) V l r) (compare_values (Suc n) V r l)"
  using assms compare_truth_mirrors [OF assms] compare_string_number_mirrors compare_numbers_mirrors mirrors_swap
  by (cases l; cases r)
     (simp_all add: is_scalar_value_def reference_of_def compare_plain_def string_of_def is_bool_value_def compare_scalars_def
        is_number_def to_number_def split: option.splits)

lemma equal_values_scalar:
  assumes "is_scalar_value l" "is_scalar_value r"
  shows "equal_values (Suc (Suc n)) V l r = op_map (\<lambda>rel. rel = OrdEqual) (compare_values (Suc n) V l r)"
  using assms
  by (cases l; cases r)
     (simp_all add: is_scalar_value_def equal_plain_def is_bool_or_null_def array_of_def object_of_def resource_of_def reference_of_def)



end
