(* ===== verification/Ir.thy ===== *)
theory Ir
  imports F64
begin

text \<open>
  The intermediate representation of \<open>crates/php_ir\<close>: identifiers, constants, operands, instructions, terminators, basic
  blocks, functions and compilation units. The type of the operands of an instruction is a parameter: the code has
  \<^typ>\<open>nat\<close>-indexed registers, locals and constants there, an execution puts their values in the same places.
\<close>

section \<open>Identifiers\<close>

text \<open>\<open>ids.rs\<close>: newtypes of \<open>u32\<close>; \<open>as u32\<close> keeps the low 32 bits.\<close>

type_synonym unit_id = nat
type_synonym file_id = nat
type_synonym function_id = nat
type_synonym class_id = nat
type_synonym block_id = nat
type_synonym instr_id = nat
type_synonym local_id = nat
type_synonym reg_id = nat
type_synonym const_id = nat

definition as_u32 :: "nat \<Rightarrow> nat" where
  "as_u32 n = n mod 2 ^ 32"

text \<open>\<open>u32::try_from(n).ok()\<close>.\<close>

definition try_u32 :: "nat \<Rightarrow> nat option" where
  "try_u32 n = (if n < 2 ^ 32 then Some n else None)"

lemma as_u32_small [simp]: "n < 2 ^ 32 \<Longrightarrow> as_u32 n = n"
  by (simp add: as_u32_def)

section \<open>Constants and operands\<close>

datatype ir_constant =
    CNull | CBool bool | CInt int | CFloat f64 | CString string | CStringBytes bytes | CNamedConstant string
  | CClassConstant string string string
  | CArray "(ir_constant option \<times> ir_constant) list"

datatype operand = Register reg_id | Local local_id | Constant const_id

section \<open>Instructions\<close>

datatype unary_op = UnaryPlus | UnaryMinus | UnaryNot | UnaryBitNot

datatype binary_op = BinaryAdd | BinarySub | BinaryMul | BinaryDiv | BinaryMod | BinaryConcat | BinaryPow
  | BinaryBitAnd | BinaryBitOr | BinaryBitXor | BinaryShiftLeft | BinaryShiftRight

datatype compare_op = CompareEqual | CompareNotEqual | CompareIdentical | CompareNotIdentical | CompareLess
  | CompareLessEqual | CompareGreater | CompareGreaterEqual | CompareSpaceship

datatype cast_kind = CastBool | CastInt | CastFloat | CastString | CastArray | CastObject | CastVoid

datatype dim_fetch_mode = FetchRead | FetchLvalue

datatype 'o closure_capture_arg = ClosureCaptureArg (capture_name: string) (capture_src: 'o) (capture_by_ref: bool)

datatype ir_call_arg_value_kind = Direct | IndirectTemporary | ByRefLocationPlaceholder

datatype 'o ir_call_dim_target = IrCallDimTarget (dim_local: local_id) (dim_dims: "'o list")

datatype 'o ir_call_property_target = IrCallPropertyTarget (property_object: 'o) (property_name: string)

datatype 'o ir_call_property_dim_target =
  IrCallPropertyDimTarget (property_dim_object: 'o) (property_dim_name: string) (property_dim_dims: "'o list")

datatype 'o ir_call_arg = IrCallArg (arg_name: "string option") (arg_value: 'o) (arg_unpack: bool)
  (arg_value_kind: ir_call_arg_value_kind) (arg_by_ref_local: "local_id option")
  (arg_by_ref_dim: "'o ir_call_dim_target option") (arg_by_ref_property: "'o ir_call_property_target option")
  (arg_by_ref_property_dim: "'o ir_call_property_dim_target option")

datatype callable_kind = FunctionName string | MethodPlaceholder string | UnresolvedDynamic string

datatype include_kind = IncludePlain | IncludeOnce | Require | RequireOnce

datatype ir_diagnostic_severity = IrWarning | IrDeprecation

datatype (plugins only: code size) 'o basic_instruction =
    Nop
  | LoadConst reg_id const_id
  | FetchConst reg_id string "string option"
  | RegisterConstant string "'o"
  | DeclareFunction string function_id
  | DeclareClass string
  | Move reg_id "'o"
  | LoadLocal reg_id local_id
  | LoadLocalQuiet reg_id local_id
  | StoreLocal local_id "'o"

datatype (plugins only: code size) 'o binding_instruction =
    BindReference local_id local_id
  | BindGlobal local_id string
  | BindReferenceDim local_id "'o list" bool local_id
  | BindReferenceProperty "'o" string local_id
  | BindReferencePropertyDim "'o" string "'o list" bool local_id
  | BindReferenceDimFromProperty local_id "'o list" bool "'o" string
  | BindReferenceFromProperty local_id "'o" string
  | BindReferenceFromPropertyDim local_id "'o" string "'o list"
  | BindReferenceFromDim local_id local_id "'o list"
  | BindReferenceFromStaticPropertyDim local_id string string "'o list"
  | BindReferenceStaticProperty string string local_id
  | BindReferenceFromCall local_id string "'o ir_call_arg list"
  | BindReferenceFromMethodCall local_id "'o" string "'o ir_call_arg list"
  | InitStaticLocal local_id string "'o"

datatype (plugins only: code size) 'o compute_instruction =
    Binary reg_id binary_op "'o" "'o"
  | Compare reg_id compare_op "'o" "'o"
  | InstanceOf reg_id "'o" string
  | DynamicInstanceOf reg_id "'o" "'o"
  | Unary reg_id unary_op "'o"
  | Cast reg_id cast_kind "'o"
  | Discard "'o"
  | Echo "'o"
  | EmitDiagnostic ir_diagnostic_severity string string bool
  | Yield reg_id "'o option" "'o option"
  | YieldFrom reg_id "'o"

datatype (plugins only: code size) 'o call_instruction =
    CallFunction reg_id string "'o ir_call_arg list"
  | CallMethod reg_id "'o" string "'o ir_call_arg list"
  | CallStaticMethod reg_id string string "'o ir_call_arg list"
  | CloneObject reg_id "'o"
  | CloneWith reg_id "'o" "'o"
  | EnterTry "block_id option" "string list" "block_id option" block_id "local_id option"
  | LeaveTry
  | EndFinally block_id
  | Throw "'o"
  | MakeException reg_id string "'o"
  | MakeClosure reg_id function_id "'o closure_capture_arg list"
  | CallClosure reg_id "'o" "'o ir_call_arg list"
  | ResolveCallable reg_id callable_kind
  | AcquireCallable reg_id "'o"
  | CallCallable reg_id "'o" "'o ir_call_arg list"
  | Pipe reg_id "'o" "'o"
  | Include reg_id include_kind "'o"
  | Eval reg_id "'o"
  | NewObject reg_id string string "'o ir_call_arg list"
  | DynamicNewObject reg_id "'o" "'o ir_call_arg list"

datatype (plugins only: code size) 'o property_instruction =
    FetchProperty reg_id "'o" string
  | FetchDynamicProperty reg_id "'o" "'o"
  | IssetProperty reg_id "'o" string
  | IssetDynamicProperty reg_id "'o" "'o"
  | EmptyProperty reg_id "'o" string
  | EmptyDynamicProperty reg_id "'o" "'o"
  | IssetDynamicPropertyDim reg_id "'o" "'o" "'o list"
  | EmptyDynamicPropertyDim reg_id "'o" "'o" "'o list"
  | IssetPropertyDim reg_id "'o" string "'o list"
  | EmptyPropertyDim reg_id "'o" string "'o list"
  | UnsetProperty "'o" string
  | UnsetPropertyDim "'o" string "'o list"
  | UnsetDynamicProperty "'o" "'o"
  | UnsetDynamicPropertyDim "'o" "'o" "'o list"

datatype (plugins only: code size) 'o member_instruction =
    FetchStaticProperty reg_id string string
  | FetchDynamicStaticProperty reg_id "'o" string
  | IssetStaticProperty reg_id string string
  | EmptyStaticProperty reg_id string string
  | IssetStaticPropertyDim reg_id string string "'o list"
  | EmptyStaticPropertyDim reg_id string string "'o list"
  | UnsetStaticPropertyDim string string "'o list"
  | FetchClassConstant reg_id string string
  | FetchObjectClassName reg_id "'o"
  | AssignProperty reg_id "'o" string "'o"
  | AssignPropertyDim reg_id "'o" string "'o list" "'o" bool
  | AssignDynamicProperty reg_id "'o" "'o" "'o"
  | AssignDynamicPropertyDim reg_id "'o" "'o" "'o list" "'o" bool
  | AssignStaticProperty reg_id string string "'o"
  | AssignDynamicStaticProperty reg_id "'o" string "'o"

datatype (plugins only: code size) 'o array_instruction =
    NewArray reg_id
  | ArrayInsert reg_id "'o option" "'o" "local_id option"
  | ArraySpread reg_id "'o"
  | FetchDim reg_id "'o" "'o" bool dim_fetch_mode
  | AssignDim reg_id local_id "'o list" "'o"
  | AppendDim reg_id local_id "'o list" "'o"
  | IssetLocal reg_id local_id
  | EmptyLocal reg_id local_id
  | UnsetLocal local_id
  | IssetDim reg_id local_id "'o list"
  | EmptyDim reg_id local_id "'o list"
  | UnsetDim local_id "'o list"
  | ForeachInit reg_id "'o"
  | ForeachNext reg_id reg_id "reg_id option" reg_id
  | ForeachCleanup reg_id
  | ForeachInitRef reg_id local_id
  | ForeachNextRef reg_id reg_id "reg_id option" local_id
  | ArrayGet reg_id "'o" "'o"
  | RuntimeError string string

datatype 'o instruction_kind =
    Basic "'o basic_instruction"
  | Binding "'o binding_instruction"
  | Compute "'o compute_instruction"
  | Call "'o call_instruction"
  | Property "'o property_instruction"
  | Member "'o member_instruction"
  | ArrayOp "'o array_instruction"

section \<open>Terminators, blocks and functions\<close>

record ir_span =
  span_file :: file_id
  span_start :: nat
  span_end :: nat

record instruction =
  ins_id :: instr_id
  ins_span :: ir_span
  ins_kind :: "operand instruction_kind"

datatype 'o terminator_kind =
    Jump block_id
  | JumpIfFalse 'o block_id
  | JumpIfTrue 'o block_id
  | JumpIf 'o block_id block_id
  | Return "'o option" "local_id option"
  | Exit "'o option"

record terminator =
  term_span :: ir_span
  term_kind :: "operand terminator_kind"

record basic_block =
  blk_id :: block_id
  blk_instructions :: "instruction list"
  blk_terminator :: "terminator option"

datatype ir_return_type =
    RtInt | RtFloat | RtString | RtArray | RtCallable | RtIterable | RtObject | RtBool | RtNull | RtVoid | RtMixed | RtNever
  | RtFalse | RtTrue | RtClass string "string option" | RtNullable ir_return_type | RtUnion "ir_return_type list"
  | RtIntersection "ir_return_type list" | RtDnf "ir_return_type list"

record attribute_entry =
  att_name :: string
  att_resolved_name :: "string option"
  att_fallback_name :: "string option"
  att_arguments :: "const_id list"
  att_repeated_on_target :: bool
  att_span :: ir_span

record ir_param =
  par_name :: string
  par_local :: local_id
  par_required :: bool
  par_default :: "ir_constant option"
  par_type :: "ir_return_type option"
  par_by_ref :: bool
  par_variadic :: bool
  par_attributes :: "attribute_entry list"

record ir_capture =
  cap_name :: string
  cap_local :: local_id
  cap_by_ref :: bool

record function_flags =
  is_top_level :: bool
  is_closure :: bool
  is_method :: bool
  is_static_closure :: bool
  is_generator :: bool

record ir_function =
  fn_name :: string
  fn_params :: "ir_param list"
  fn_locals :: "string list"
  fn_local_count :: nat
  fn_register_count :: nat
  fn_blocks :: "basic_block list"
  fn_span :: ir_span
  fn_flags :: function_flags
  fn_return_type :: "ir_return_type option"
  fn_returns_by_ref :: bool
  fn_captures :: "ir_capture list"
  fn_attributes :: "attribute_entry list"

definition is_compiler_generated_local_name :: "string \<Rightarrow> bool" where
  "is_compiler_generated_local_name name \<longleftrightarrow> take 9 name = ''__phrust:''"

definition implicit_closure_this_local :: "ir_function \<Rightarrow> local_id option" where
  "implicit_closure_this_local f =
     (if \<not> is_closure (fn_flags f) \<or> is_static_closure (fn_flags f) then None
      else case position (\<lambda>name. name = ''this'') (fn_locals f) of
             None \<Rightarrow> None
           | Some index \<Rightarrow>
               (case try_u32 index of
                  None \<Rightarrow> None
                | Some local \<Rightarrow> if list_ex (\<lambda>c. cap_local c = local) (fn_captures f) then None else Some local))"

section \<open>Units\<close>

record file_entry =
  file_entry_id :: file_id
  file_path :: string

record class_constant_reference =
  ccr_class_name :: string
  ccr_display_class_name :: string
  ccr_constant_name :: string

record named_constant_reference =
  ncr_names :: "string list"
  ncr_display_name :: string

datatype deferred_const_expr =
    DeferredLiteral ir_constant
  | DeferredNamedConstant named_constant_reference
  | DeferredClassConstant class_constant_reference
  | DeferredArray "(deferred_const_expr option \<times> deferred_const_expr) list"

record class_method_flags =
  cmf_is_static :: bool
  cmf_is_private :: bool
  cmf_is_protected :: bool
  cmf_is_abstract :: bool
  cmf_has_body :: bool
  cmf_is_final :: bool

record class_method_entry =
  met_name :: string
  met_origin_class :: string
  met_function :: function_id
  met_flags :: class_method_flags
  met_attributes :: "attribute_entry list"

record class_property_flags =
  cpf_is_static :: bool
  cpf_is_private :: bool
  cpf_is_protected :: bool
  cpf_set_is_private :: bool
  cpf_set_is_protected :: bool
  cpf_is_readonly :: bool
  cpf_is_typed :: bool

record class_property_hooks =
  hook_get :: "function_id option"
  hook_set :: "function_id option"
  hook_backed :: bool

record class_property_entry =
  prop_name :: string
  prop_default :: "const_id option"
  prop_default_class_constant :: "class_constant_reference option"
  prop_default_named_constant :: "named_constant_reference option"
  prop_default_expr :: "deferred_const_expr option"
  prop_type :: "ir_return_type option"
  prop_flags :: class_property_flags
  prop_hooks :: class_property_hooks
  prop_attributes :: "attribute_entry list"

record class_constant_entry =
  cc_name :: string
  cc_value :: "const_id option"
  cc_value_class_constant :: "class_constant_reference option"
  cc_value_named_constant :: "named_constant_reference option"
  cc_doc_comment :: "string option"
  cc_is_private :: bool
  cc_is_protected :: bool
  cc_attributes :: "attribute_entry list"
  cc_span :: ir_span

record class_enum_case_entry =
  ec_name :: string
  ec_value :: "const_id option"
  ec_attributes :: "attribute_entry list"

datatype class_enum_backing_type = BackingInt | BackingString

record class_flags =
  clf_is_abstract :: bool
  clf_is_final :: bool
  clf_is_readonly :: bool
  clf_is_interface :: bool
  clf_is_enum :: bool
  clf_is_trait :: bool
  clf_is_conditional :: bool

record class_entry =
  cls_id :: class_id
  cls_name :: string
  cls_display_name :: string
  cls_parent :: "string option"
  cls_parent_display_name :: "string option"
  cls_interfaces :: "string list"
  cls_methods :: "class_method_entry list"
  cls_properties :: "class_property_entry list"
  cls_constants :: "class_constant_entry list"
  cls_enum_cases :: "class_enum_case_entry list"
  cls_attributes :: "attribute_entry list"
  cls_enum_backing_type :: "class_enum_backing_type option"
  cls_constructor :: "function_id option"
  cls_flags :: class_flags
  cls_span :: ir_span

record function_entry =
  fe_name :: string
  fe_function :: function_id

record global_constant_entry =
  gc_name :: string
  gc_value :: const_id
  gc_span :: ir_span

datatype ir_source_map_target =
    MapFunction function_id
  | MapBlock function_id block_id
  | MapInstruction function_id block_id instr_id
  | MapTerminator function_id block_id

record ir_source_map_entry =
  sm_target :: ir_source_map_target
  sm_origin :: string
  sm_span :: ir_span

record ir_unit =
  un_version :: nat
  un_id :: unit_id
  un_constants :: "ir_constant list"
  un_functions :: "ir_function list"
  un_function_table :: "function_entry list"
  un_constant_table :: "global_constant_entry list"
  un_classes :: "class_entry list"
  un_files :: "file_entry list"
  un_linked_file_entries :: "function_id list"
  un_linked_entry_autoload_declarations :: "string option list"
  un_file_strict_types :: "bool list"
  un_entry :: function_id
  un_strict_types :: bool
  un_source_map :: "ir_source_map_entry list"

definition IR_VERSION :: nat where
  "IR_VERSION = 1"

definition strict_types_for_span :: "ir_unit \<Rightarrow> ir_span \<Rightarrow> bool" where
  "strict_types_for_span u span =
     (case get_at (un_file_strict_types u) (span_file span) of Some b \<Rightarrow> b | None \<Rightarrow> un_strict_types u)"

definition strict_types_for_function :: "ir_unit \<Rightarrow> function_id \<Rightarrow> bool" where
  "strict_types_for_function u f =
     (case get_at (un_functions u) f of Some g \<Rightarrow> strict_types_for_span u (fn_span g) | None \<Rightarrow> un_strict_types u)"

end
