(* ===== verification/Ir_Verify.thy ===== *)
theory Ir_Verify
  imports Ir
begin

text \<open>
  The verifier of \<open>crates/php_ir/src/verify.rs\<close>: identifiers in range, spans inside the file table, block and instruction
  numbers in order, metadata of by-reference arguments, and the data flow that every register is defined before it is
  read. Errors are their codes, in the order the code reports them; the messages are not modelled. The data-flow loop
  runs on fuel, \<open>None\<close> when it is spent; \<open>verify_unit_returns\<close> shows that it never is.
\<close>

datatype verification_error_code =
    InvalidVersion | InvalidEntryFunction | InvalidFileId | InvalidClassId | InvalidSpan | InvalidBlockId | InvalidInstrId
  | InvalidRegId | InvalidLocalId | InvalidConstId | InvalidFunctionId | DuplicateFunctionName | DuplicateConstantName
  | InvalidBlockTarget | MissingTerminator | UndefinedRegisterUse | InvalidCallArgMetadata

section \<open>Registers read and written\<close>

definition operand_register_uses :: "operand \<Rightarrow> reg_id list" where
  "operand_register_uses operand = (case operand of Register r \<Rightarrow> [r] | _ \<Rightarrow> [])"

definition call_args_register_uses :: "operand ir_call_arg list \<Rightarrow> reg_id list" where
  "call_args_register_uses args = concat (map (\<lambda>arg.
     operand_register_uses (arg_value arg) @
     (case arg_by_ref_dim arg of None \<Rightarrow> [] | Some target \<Rightarrow> concat (map operand_register_uses (dim_dims target))) @
     (case arg_by_ref_property arg of None \<Rightarrow> [] | Some target \<Rightarrow> operand_register_uses (property_object target)) @
     (case arg_by_ref_property_dim arg of
        None \<Rightarrow> []
      | Some target \<Rightarrow>
          operand_register_uses (property_dim_object target) @
          concat (map operand_register_uses (property_dim_dims target)))) args)"

fun instruction_register_uses :: "operand instruction_kind \<Rightarrow> reg_id list" where
  "instruction_register_uses (Basic Nop) = []"
| "instruction_register_uses (Basic (LoadConst _ _)) = []"
| "instruction_register_uses (Basic (FetchConst _ _ _)) = []"
| "instruction_register_uses (Basic (RegisterConstant _ value)) = operand_register_uses value"
| "instruction_register_uses (Basic (DeclareFunction _ _)) = []"
| "instruction_register_uses (Basic (DeclareClass _)) = []"
| "instruction_register_uses (Basic (Move _ src)) = operand_register_uses src"
| "instruction_register_uses (Basic (LoadLocal _ _)) = []"
| "instruction_register_uses (Basic (LoadLocalQuiet _ _)) = []"
| "instruction_register_uses (Basic (StoreLocal _ src)) = operand_register_uses src"
| "instruction_register_uses (Binding (BindReference _ _)) = []"
| "instruction_register_uses (Binding (BindGlobal _ _)) = []"
| "instruction_register_uses (Binding (BindReferenceDim _ dims _ _)) = concat (map operand_register_uses dims)"
| "instruction_register_uses (Binding (BindReferenceProperty object _ _)) = operand_register_uses object"
| "instruction_register_uses (Binding (BindReferencePropertyDim object _ dims _ _)) =
     operand_register_uses object @ concat (map operand_register_uses dims)"
| "instruction_register_uses (Binding (BindReferenceDimFromProperty _ dims _ object _)) =
     operand_register_uses object @ concat (map operand_register_uses dims)"
| "instruction_register_uses (Binding (BindReferenceFromProperty _ object _)) = operand_register_uses object"
| "instruction_register_uses (Binding (BindReferenceFromPropertyDim _ object _ dims)) =
     operand_register_uses object @ concat (map operand_register_uses dims)"
| "instruction_register_uses (Binding (BindReferenceFromDim _ _ dims)) = concat (map operand_register_uses dims)"
| "instruction_register_uses (Binding (BindReferenceFromStaticPropertyDim _ _ _ dims)) = concat (map operand_register_uses dims)"
| "instruction_register_uses (Binding (BindReferenceStaticProperty _ _ _)) = []"
| "instruction_register_uses (Binding (BindReferenceFromCall _ _ args)) = call_args_register_uses args"
| "instruction_register_uses (Binding (BindReferenceFromMethodCall _ object _ args)) =
     operand_register_uses object @ call_args_register_uses args"
| "instruction_register_uses (Binding (InitStaticLocal _ _ dflt)) = operand_register_uses dflt"
| "instruction_register_uses (Compute (Binary _ _ lhs rhs)) = operand_register_uses lhs @ operand_register_uses rhs"
| "instruction_register_uses (Compute (Compare _ _ lhs rhs)) = operand_register_uses lhs @ operand_register_uses rhs"
| "instruction_register_uses (Compute (InstanceOf _ object _)) = operand_register_uses object"
| "instruction_register_uses (Compute (DynamicInstanceOf _ object target)) = operand_register_uses object @ operand_register_uses target"
| "instruction_register_uses (Compute (Unary _ _ src)) = operand_register_uses src"
| "instruction_register_uses (Compute (Cast _ _ src)) = operand_register_uses src"
| "instruction_register_uses (Compute (Discard src)) = operand_register_uses src"
| "instruction_register_uses (Compute (Echo src)) = operand_register_uses src"
| "instruction_register_uses (Compute (EmitDiagnostic _ _ _ _)) = []"
| "instruction_register_uses (Compute (Yield _ key value)) =
     (case key of None \<Rightarrow> [] | Some x \<Rightarrow> operand_register_uses x) @ (case value of None \<Rightarrow> [] | Some x \<Rightarrow> operand_register_uses x)"
| "instruction_register_uses (Compute (YieldFrom _ source)) = operand_register_uses source"
| "instruction_register_uses (Call (CallFunction _ _ args)) = call_args_register_uses args"
| "instruction_register_uses (Call (CallMethod _ object _ args)) = operand_register_uses object @ call_args_register_uses args"
| "instruction_register_uses (Call (CallStaticMethod _ _ _ args)) = call_args_register_uses args"
| "instruction_register_uses (Call (CloneObject _ object)) = operand_register_uses object"
| "instruction_register_uses (Call (CloneWith _ object replacements)) = operand_register_uses object @ operand_register_uses replacements"
| "instruction_register_uses (Call (EnterTry _ _ _ _ _)) = []"
| "instruction_register_uses (Call LeaveTry) = []"
| "instruction_register_uses (Call (EndFinally _)) = []"
| "instruction_register_uses (Call (Throw value)) = operand_register_uses value"
| "instruction_register_uses (Call (MakeException _ _ message)) = operand_register_uses message"
| "instruction_register_uses (Call (MakeClosure _ _ captures)) = concat (map (operand_register_uses \<circ> capture_src) captures)"
| "instruction_register_uses (Call (CallClosure _ callee args)) = operand_register_uses callee @ call_args_register_uses args"
| "instruction_register_uses (Call (ResolveCallable _ _)) = []"
| "instruction_register_uses (Call (AcquireCallable _ value)) = operand_register_uses value"
| "instruction_register_uses (Call (CallCallable _ callee args)) = operand_register_uses callee @ call_args_register_uses args"
| "instruction_register_uses (Call (Pipe _ input callable)) = operand_register_uses input @ operand_register_uses callable"
| "instruction_register_uses (Call (Include _ _ path)) = operand_register_uses path"
| "instruction_register_uses (Call (Eval _ code)) = operand_register_uses code"
| "instruction_register_uses (Call (NewObject _ _ _ args)) = call_args_register_uses args"
| "instruction_register_uses (Call (DynamicNewObject _ cname args)) = operand_register_uses cname @ call_args_register_uses args"
| "instruction_register_uses (Property (FetchProperty _ object _)) = operand_register_uses object"
| "instruction_register_uses (Property (FetchDynamicProperty _ object property)) = operand_register_uses object @ operand_register_uses property"
| "instruction_register_uses (Property (IssetProperty _ object _)) = operand_register_uses object"
| "instruction_register_uses (Property (IssetDynamicProperty _ object property)) = operand_register_uses object @ operand_register_uses property"
| "instruction_register_uses (Property (EmptyProperty _ object _)) = operand_register_uses object"
| "instruction_register_uses (Property (EmptyDynamicProperty _ object property)) = operand_register_uses object @ operand_register_uses property"
| "instruction_register_uses (Property (IssetDynamicPropertyDim _ object property dims)) =
     operand_register_uses object @ operand_register_uses property @ concat (map operand_register_uses dims)"
| "instruction_register_uses (Property (EmptyDynamicPropertyDim _ object property dims)) =
     operand_register_uses object @ operand_register_uses property @ concat (map operand_register_uses dims)"
| "instruction_register_uses (Property (IssetPropertyDim _ object _ dims)) =
     operand_register_uses object @ concat (map operand_register_uses dims)"
| "instruction_register_uses (Property (EmptyPropertyDim _ object _ dims)) =
     operand_register_uses object @ concat (map operand_register_uses dims)"
| "instruction_register_uses (Property (UnsetProperty object _)) = operand_register_uses object"
| "instruction_register_uses (Property (UnsetPropertyDim object _ dims)) = operand_register_uses object @ concat (map operand_register_uses dims)"
| "instruction_register_uses (Property (UnsetDynamicProperty object property)) = operand_register_uses object @ operand_register_uses property"
| "instruction_register_uses (Property (UnsetDynamicPropertyDim object property dims)) =
     operand_register_uses object @ operand_register_uses property @ concat (map operand_register_uses dims)"
| "instruction_register_uses (Member (FetchStaticProperty _ _ _)) = []"
| "instruction_register_uses (Member (FetchDynamicStaticProperty _ cname _)) = operand_register_uses cname"
| "instruction_register_uses (Member (IssetStaticProperty _ _ _)) = []"
| "instruction_register_uses (Member (EmptyStaticProperty _ _ _)) = []"
| "instruction_register_uses (Member (IssetStaticPropertyDim _ _ _ dims)) = concat (map operand_register_uses dims)"
| "instruction_register_uses (Member (EmptyStaticPropertyDim _ _ _ dims)) = concat (map operand_register_uses dims)"
| "instruction_register_uses (Member (UnsetStaticPropertyDim _ _ dims)) = concat (map operand_register_uses dims)"
| "instruction_register_uses (Member (FetchClassConstant _ _ _)) = []"
| "instruction_register_uses (Member (FetchObjectClassName _ object)) = operand_register_uses object"
| "instruction_register_uses (Member (AssignProperty _ object _ value)) = operand_register_uses object @ operand_register_uses value"
| "instruction_register_uses (Member (AssignPropertyDim _ object _ dims value _)) =
     operand_register_uses object @ concat (map operand_register_uses dims) @ operand_register_uses value"
| "instruction_register_uses (Member (AssignDynamicProperty _ object property value)) =
     operand_register_uses object @ operand_register_uses property @ operand_register_uses value"
| "instruction_register_uses (Member (AssignDynamicPropertyDim _ object property dims value _)) =
     operand_register_uses object @ operand_register_uses property @ concat (map operand_register_uses dims) @ operand_register_uses value"
| "instruction_register_uses (Member (AssignStaticProperty _ _ _ value)) = operand_register_uses value"
| "instruction_register_uses (Member (AssignDynamicStaticProperty _ cname _ value)) = operand_register_uses cname @ operand_register_uses value"
| "instruction_register_uses (ArrayOp (NewArray _)) = []"
| "instruction_register_uses (ArrayOp (ArrayInsert array key value _)) =
     [array] @ (case key of None \<Rightarrow> [] | Some x \<Rightarrow> operand_register_uses x) @ operand_register_uses value"
| "instruction_register_uses (ArrayOp (ArraySpread array source)) = [array] @ operand_register_uses source"
| "instruction_register_uses (ArrayOp (FetchDim _ array key _ _)) = operand_register_uses array @ operand_register_uses key"
| "instruction_register_uses (ArrayOp (AssignDim _ _ dims value)) = concat (map operand_register_uses dims) @ operand_register_uses value"
| "instruction_register_uses (ArrayOp (AppendDim _ _ dims value)) = concat (map operand_register_uses dims) @ operand_register_uses value"
| "instruction_register_uses (ArrayOp (IssetLocal _ _)) = []"
| "instruction_register_uses (ArrayOp (EmptyLocal _ _)) = []"
| "instruction_register_uses (ArrayOp (UnsetLocal _)) = []"
| "instruction_register_uses (ArrayOp (IssetDim _ _ dims)) = concat (map operand_register_uses dims)"
| "instruction_register_uses (ArrayOp (EmptyDim _ _ dims)) = concat (map operand_register_uses dims)"
| "instruction_register_uses (ArrayOp (UnsetDim _ dims)) = concat (map operand_register_uses dims)"
| "instruction_register_uses (ArrayOp (ForeachInit _ source)) = operand_register_uses source"
| "instruction_register_uses (ArrayOp (ForeachNext _ iterator _ _)) = [iterator]"
| "instruction_register_uses (ArrayOp (ForeachCleanup iterator)) = [iterator]"
| "instruction_register_uses (ArrayOp (ForeachInitRef _ _)) = []"
| "instruction_register_uses (ArrayOp (ForeachNextRef _ iterator _ _)) = [iterator]"
| "instruction_register_uses (ArrayOp (ArrayGet _ array index)) = operand_register_uses array @ operand_register_uses index"
| "instruction_register_uses (ArrayOp (RuntimeError _ _)) = []"

fun instruction_register_defs :: "operand instruction_kind \<Rightarrow> reg_id list" where
  "instruction_register_defs (Basic Nop) = []"
| "instruction_register_defs (Basic (LoadConst dst _)) = [dst]"
| "instruction_register_defs (Basic (FetchConst dst _ _)) = [dst]"
| "instruction_register_defs (Basic (RegisterConstant _ _)) = []"
| "instruction_register_defs (Basic (DeclareFunction _ _)) = []"
| "instruction_register_defs (Basic (DeclareClass _)) = []"
| "instruction_register_defs (Basic (Move dst _)) = [dst]"
| "instruction_register_defs (Basic (LoadLocal dst _)) = [dst]"
| "instruction_register_defs (Basic (LoadLocalQuiet dst _)) = [dst]"
| "instruction_register_defs (Basic (StoreLocal _ _)) = []"
| "instruction_register_defs (Binding (BindReference _ _)) = []"
| "instruction_register_defs (Binding (BindGlobal _ _)) = []"
| "instruction_register_defs (Binding (BindReferenceDim _ _ _ _)) = []"
| "instruction_register_defs (Binding (BindReferenceProperty _ _ _)) = []"
| "instruction_register_defs (Binding (BindReferencePropertyDim _ _ _ _ _)) = []"
| "instruction_register_defs (Binding (BindReferenceDimFromProperty _ _ _ _ _)) = []"
| "instruction_register_defs (Binding (BindReferenceFromProperty _ _ _)) = []"
| "instruction_register_defs (Binding (BindReferenceFromPropertyDim _ _ _ _)) = []"
| "instruction_register_defs (Binding (BindReferenceFromDim _ _ _)) = []"
| "instruction_register_defs (Binding (BindReferenceFromStaticPropertyDim _ _ _ _)) = []"
| "instruction_register_defs (Binding (BindReferenceStaticProperty _ _ _)) = []"
| "instruction_register_defs (Binding (BindReferenceFromCall _ _ _)) = []"
| "instruction_register_defs (Binding (BindReferenceFromMethodCall _ _ _ _)) = []"
| "instruction_register_defs (Binding (InitStaticLocal _ _ _)) = []"
| "instruction_register_defs (Compute (Binary dst _ _ _)) = [dst]"
| "instruction_register_defs (Compute (Compare dst _ _ _)) = [dst]"
| "instruction_register_defs (Compute (InstanceOf dst _ _)) = [dst]"
| "instruction_register_defs (Compute (DynamicInstanceOf dst _ _)) = [dst]"
| "instruction_register_defs (Compute (Unary dst _ _)) = [dst]"
| "instruction_register_defs (Compute (Cast dst _ _)) = [dst]"
| "instruction_register_defs (Compute (Discard _)) = []"
| "instruction_register_defs (Compute (Echo _)) = []"
| "instruction_register_defs (Compute (EmitDiagnostic _ _ _ _)) = []"
| "instruction_register_defs (Compute (Yield dst _ _)) = [dst]"
| "instruction_register_defs (Compute (YieldFrom dst _)) = [dst]"
| "instruction_register_defs (Call (CallFunction dst _ _)) = [dst]"
| "instruction_register_defs (Call (CallMethod dst _ _ _)) = [dst]"
| "instruction_register_defs (Call (CallStaticMethod dst _ _ _)) = [dst]"
| "instruction_register_defs (Call (CloneObject dst _)) = [dst]"
| "instruction_register_defs (Call (CloneWith dst _ _)) = [dst]"
| "instruction_register_defs (Call (EnterTry _ _ _ _ _)) = []"
| "instruction_register_defs (Call LeaveTry) = []"
| "instruction_register_defs (Call (EndFinally _)) = []"
| "instruction_register_defs (Call (Throw _)) = []"
| "instruction_register_defs (Call (MakeException dst _ _)) = [dst]"
| "instruction_register_defs (Call (MakeClosure dst _ _)) = [dst]"
| "instruction_register_defs (Call (CallClosure dst _ _)) = [dst]"
| "instruction_register_defs (Call (ResolveCallable dst _)) = [dst]"
| "instruction_register_defs (Call (AcquireCallable dst _)) = [dst]"
| "instruction_register_defs (Call (CallCallable dst _ _)) = [dst]"
| "instruction_register_defs (Call (Pipe dst _ _)) = [dst]"
| "instruction_register_defs (Call (Include dst _ _)) = [dst]"
| "instruction_register_defs (Call (Eval dst _)) = [dst]"
| "instruction_register_defs (Call (NewObject dst _ _ _)) = [dst]"
| "instruction_register_defs (Call (DynamicNewObject dst _ _)) = [dst]"
| "instruction_register_defs (Property (FetchProperty dst _ _)) = [dst]"
| "instruction_register_defs (Property (FetchDynamicProperty dst _ _)) = [dst]"
| "instruction_register_defs (Property (IssetProperty dst _ _)) = [dst]"
| "instruction_register_defs (Property (IssetDynamicProperty dst _ _)) = [dst]"
| "instruction_register_defs (Property (EmptyProperty dst _ _)) = [dst]"
| "instruction_register_defs (Property (EmptyDynamicProperty dst _ _)) = [dst]"
| "instruction_register_defs (Property (IssetDynamicPropertyDim dst _ _ _)) = [dst]"
| "instruction_register_defs (Property (EmptyDynamicPropertyDim dst _ _ _)) = [dst]"
| "instruction_register_defs (Property (IssetPropertyDim dst _ _ _)) = [dst]"
| "instruction_register_defs (Property (EmptyPropertyDim dst _ _ _)) = [dst]"
| "instruction_register_defs (Property (UnsetProperty _ _)) = []"
| "instruction_register_defs (Property (UnsetPropertyDim _ _ _)) = []"
| "instruction_register_defs (Property (UnsetDynamicProperty _ _)) = []"
| "instruction_register_defs (Property (UnsetDynamicPropertyDim _ _ _)) = []"
| "instruction_register_defs (Member (FetchStaticProperty dst _ _)) = [dst]"
| "instruction_register_defs (Member (FetchDynamicStaticProperty dst _ _)) = [dst]"
| "instruction_register_defs (Member (IssetStaticProperty dst _ _)) = [dst]"
| "instruction_register_defs (Member (EmptyStaticProperty dst _ _)) = [dst]"
| "instruction_register_defs (Member (IssetStaticPropertyDim dst _ _ _)) = [dst]"
| "instruction_register_defs (Member (EmptyStaticPropertyDim dst _ _ _)) = [dst]"
| "instruction_register_defs (Member (UnsetStaticPropertyDim _ _ _)) = []"
| "instruction_register_defs (Member (FetchClassConstant dst _ _)) = [dst]"
| "instruction_register_defs (Member (FetchObjectClassName dst _)) = [dst]"
| "instruction_register_defs (Member (AssignProperty dst _ _ _)) = [dst]"
| "instruction_register_defs (Member (AssignPropertyDim dst _ _ _ _ _)) = [dst]"
| "instruction_register_defs (Member (AssignDynamicProperty dst _ _ _)) = [dst]"
| "instruction_register_defs (Member (AssignDynamicPropertyDim dst _ _ _ _ _)) = [dst]"
| "instruction_register_defs (Member (AssignStaticProperty dst _ _ _)) = [dst]"
| "instruction_register_defs (Member (AssignDynamicStaticProperty dst _ _ _)) = [dst]"
| "instruction_register_defs (ArrayOp (NewArray dst)) = [dst]"
| "instruction_register_defs (ArrayOp (ArrayInsert _ _ _ _)) = []"
| "instruction_register_defs (ArrayOp (ArraySpread _ _)) = []"
| "instruction_register_defs (ArrayOp (FetchDim dst _ _ _ _)) = [dst]"
| "instruction_register_defs (ArrayOp (AssignDim dst _ _ _)) = [dst]"
| "instruction_register_defs (ArrayOp (AppendDim dst _ _ _)) = [dst]"
| "instruction_register_defs (ArrayOp (IssetLocal dst _)) = [dst]"
| "instruction_register_defs (ArrayOp (EmptyLocal dst _)) = [dst]"
| "instruction_register_defs (ArrayOp (UnsetLocal _)) = []"
| "instruction_register_defs (ArrayOp (IssetDim dst _ _)) = [dst]"
| "instruction_register_defs (ArrayOp (EmptyDim dst _ _)) = [dst]"
| "instruction_register_defs (ArrayOp (UnsetDim _ _)) = []"
| "instruction_register_defs (ArrayOp (ForeachInit iterator _)) = [iterator]"
| "instruction_register_defs (ArrayOp (ForeachNext has_value _ key value)) =
     [has_value] @ (case key of None \<Rightarrow> [] | Some x \<Rightarrow> [x]) @ [value]"
| "instruction_register_defs (ArrayOp (ForeachCleanup _)) = []"
| "instruction_register_defs (ArrayOp (ForeachInitRef iterator _)) = [iterator]"
| "instruction_register_defs (ArrayOp (ForeachNextRef has_value _ key _)) =
     [has_value] @ (case key of None \<Rightarrow> [] | Some x \<Rightarrow> [x])"
| "instruction_register_defs (ArrayOp (ArrayGet dst _ _)) = [dst]"
| "instruction_register_defs (ArrayOp (RuntimeError _ _)) = []"

definition terminator_register_uses :: "operand terminator_kind \<Rightarrow> reg_id list" where
  "terminator_register_uses kind = (case kind of
       Jump _ \<Rightarrow> []
     | JumpIfFalse condition _ \<Rightarrow> operand_register_uses condition
     | JumpIfTrue condition _ \<Rightarrow> operand_register_uses condition
     | JumpIf condition _ _ \<Rightarrow> operand_register_uses condition
     | Return value _ \<Rightarrow> (case value of None \<Rightarrow> [] | Some x \<Rightarrow> operand_register_uses x)
     | Exit value \<Rightarrow> (case value of None \<Rightarrow> [] | Some x \<Rightarrow> operand_register_uses x))"

definition terminator_targets :: "'o terminator_kind \<Rightarrow> block_id list" where
  "terminator_targets kind = (case kind of
       Jump target \<Rightarrow> [target]
     | JumpIfFalse _ target \<Rightarrow> [target]
     | JumpIfTrue _ target \<Rightarrow> [target]
     | JumpIf _ if_true if_false \<Rightarrow> [if_true, if_false]
     | Return _ _ \<Rightarrow> []
     | Exit _ \<Rightarrow> [])"

section \<open>Identifiers in range\<close>

definition verify_span :: "ir_unit \<Rightarrow> ir_span \<Rightarrow> verification_error_code list" where
  "verify_span u span =
     (if span_end span < span_start span \<or> length (un_files u) \<le> span_file span then [InvalidSpan] else [])"

definition verify_block_id :: "block_id \<Rightarrow> nat \<Rightarrow> verification_error_code list" where
  "verify_block_id i expected = (if i \<noteq> expected then [InvalidBlockId] else [])"

definition verify_block_target :: "ir_function \<Rightarrow> block_id \<Rightarrow> verification_error_code list" where
  "verify_block_target f i = (if length (fn_blocks f) \<le> i then [InvalidBlockTarget] else [])"

definition verify_register :: "ir_function \<Rightarrow> reg_id \<Rightarrow> verification_error_code list" where
  "verify_register f i = (if fn_register_count f \<le> i then [InvalidRegId] else [])"

definition verify_function_id :: "ir_unit \<Rightarrow> function_id \<Rightarrow> verification_error_code list" where
  "verify_function_id u i = (if length (un_functions u) \<le> i then [InvalidFunctionId] else [])"

definition verify_local :: "ir_function \<Rightarrow> local_id \<Rightarrow> verification_error_code list" where
  "verify_local f i = (if fn_local_count f \<le> i then [InvalidLocalId] else [])"

definition verify_constant :: "ir_unit \<Rightarrow> const_id \<Rightarrow> verification_error_code list" where
  "verify_constant u i = (if length (un_constants u) \<le> i then [InvalidConstId] else [])"

definition verify_operand :: "ir_unit \<Rightarrow> ir_function \<Rightarrow> operand \<Rightarrow> verification_error_code list" where
  "verify_operand u f operand = (case operand of
       Register r \<Rightarrow> verify_register f r | Local l \<Rightarrow> verify_local f l | Constant c \<Rightarrow> verify_constant u c)"

text \<open>\<open>if let Some(x) = value { verify(x) }\<close>.\<close>

definition verify_option :: "('a \<Rightarrow> verification_error_code list) \<Rightarrow> 'a option \<Rightarrow> verification_error_code list" where
  "verify_option verify value = (case value of None \<Rightarrow> [] | Some x \<Rightarrow> verify x)"

definition verify_call_args :: "ir_unit \<Rightarrow> ir_function \<Rightarrow> operand ir_call_arg list \<Rightarrow> verification_error_code list" where
  "verify_call_args u f args = concat (map (\<lambda>arg.
     let unpacked = (if arg_unpack arg then [InvalidCallArgMetadata] else [])
     in verify_operand u f (arg_value arg) @
        verify_option (\<lambda>local. verify_local f local @ unpacked) (arg_by_ref_local arg) @
        verify_option (\<lambda>dim. verify_local f (dim_local dim) @ concat (map (verify_operand u f) (dim_dims dim)) @ unpacked)
          (arg_by_ref_dim arg) @
        verify_option (\<lambda>property. verify_operand u f (property_object property) @ unpacked) (arg_by_ref_property arg) @
        verify_option (\<lambda>property_dim. verify_operand u f (property_dim_object property_dim) @
            concat (map (verify_operand u f) (property_dim_dims property_dim)) @ unpacked)
          (arg_by_ref_property_dim arg)) args)"

fun verify_instruction_kind :: "ir_unit \<Rightarrow> ir_function \<Rightarrow> operand instruction_kind \<Rightarrow> verification_error_code list" where
  "verify_instruction_kind u f (Basic Nop) = []"
| "verify_instruction_kind u f (Basic (LoadConst dst constant)) = verify_register f dst @ verify_constant u constant"
| "verify_instruction_kind u f (Basic (FetchConst dst _ _)) = verify_register f dst"
| "verify_instruction_kind u f (Basic (RegisterConstant _ value)) = verify_operand u f value"
| "verify_instruction_kind u f (Basic (DeclareFunction _ func)) = verify_function_id u func"
| "verify_instruction_kind u f (Basic (DeclareClass _)) = []"
| "verify_instruction_kind u f (Basic (Move dst src)) = verify_register f dst @ verify_operand u f src"
| "verify_instruction_kind u f (Basic (LoadLocal dst loc)) = verify_register f dst @ verify_local f loc"
| "verify_instruction_kind u f (Basic (LoadLocalQuiet dst loc)) = verify_register f dst @ verify_local f loc"
| "verify_instruction_kind u f (Basic (StoreLocal loc src)) = verify_local f loc @ verify_operand u f src"
| "verify_instruction_kind u f (Binding (BindReference target source)) = verify_local f target @ verify_local f source"
| "verify_instruction_kind u f (Binding (BindGlobal loc _)) = verify_local f loc"
| "verify_instruction_kind u f (Binding (BindReferenceDim loc dims _ source)) =
     verify_local f loc @ verify_local f source @ concat (map (verify_operand u f) dims)"
| "verify_instruction_kind u f (Binding (BindReferenceProperty object _ source)) = verify_operand u f object @ verify_local f source"
| "verify_instruction_kind u f (Binding (BindReferencePropertyDim object _ dims _ source)) =
     verify_operand u f object @ verify_local f source @ concat (map (verify_operand u f) dims)"
| "verify_instruction_kind u f (Binding (BindReferenceDimFromProperty loc dims _ object _)) =
     verify_local f loc @ verify_operand u f object @ concat (map (verify_operand u f) dims)"
| "verify_instruction_kind u f (Binding (BindReferenceFromProperty target object _)) = verify_local f target @ verify_operand u f object"
| "verify_instruction_kind u f (Binding (BindReferenceFromPropertyDim target object _ dims)) =
     verify_local f target @ verify_operand u f object @ concat (map (verify_operand u f) dims)"
| "verify_instruction_kind u f (Binding (BindReferenceFromDim target loc dims)) =
     verify_local f target @ verify_local f loc @ concat (map (verify_operand u f) dims)"
| "verify_instruction_kind u f (Binding (BindReferenceFromStaticPropertyDim _ _ _ dims)) = concat (map (verify_operand u f) dims)"
| "verify_instruction_kind u f (Binding (BindReferenceStaticProperty _ _ source)) = verify_local f source"
| "verify_instruction_kind u f (Binding (BindReferenceFromCall target _ args)) = verify_local f target @ verify_call_args u f args"
| "verify_instruction_kind u f (Binding (BindReferenceFromMethodCall target object _ args)) =
     verify_local f target @ verify_operand u f object @ verify_call_args u f args"
| "verify_instruction_kind u f (Binding (InitStaticLocal loc _ dflt)) = verify_local f loc @ verify_operand u f dflt"
| "verify_instruction_kind u f (Compute (Binary dst _ lhs rhs)) = verify_register f dst @ verify_operand u f lhs @ verify_operand u f rhs"
| "verify_instruction_kind u f (Compute (Compare dst _ lhs rhs)) = verify_register f dst @ verify_operand u f lhs @ verify_operand u f rhs"
| "verify_instruction_kind u f (Compute (InstanceOf dst object _)) = verify_register f dst @ verify_operand u f object"
| "verify_instruction_kind u f (Compute (DynamicInstanceOf dst object target)) =
     verify_register f dst @ verify_operand u f object @ verify_operand u f target"
| "verify_instruction_kind u f (Compute (Unary dst _ src)) = verify_register f dst @ verify_operand u f src"
| "verify_instruction_kind u f (Compute (Cast dst _ src)) = verify_register f dst @ verify_operand u f src"
| "verify_instruction_kind u f (Compute (Discard src)) = verify_operand u f src"
| "verify_instruction_kind u f (Compute (Echo src)) = verify_operand u f src"
| "verify_instruction_kind u f (Compute (EmitDiagnostic _ _ _ _)) = []"
| "verify_instruction_kind u f (Compute (Yield dst key value)) =
     verify_register f dst @ verify_option (verify_operand u f) key @ verify_option (verify_operand u f) value"
| "verify_instruction_kind u f (Compute (YieldFrom dst source)) = verify_register f dst @ verify_operand u f source"
| "verify_instruction_kind u f (Call (CallFunction dst _ args)) = verify_register f dst @ verify_call_args u f args"
| "verify_instruction_kind u f (Call (CallMethod dst object _ args)) =
     verify_register f dst @ verify_operand u f object @ verify_call_args u f args"
| "verify_instruction_kind u f (Call (CallStaticMethod dst _ _ args)) = verify_register f dst @ verify_call_args u f args"
| "verify_instruction_kind u f (Call (CloneObject dst object)) = verify_register f dst @ verify_operand u f object"
| "verify_instruction_kind u f (Call (CloneWith dst object replacements)) =
     verify_register f dst @ verify_operand u f object @ verify_operand u f replacements"
| "verify_instruction_kind u f (Call (EnterTry catch _ finally after exception_local)) =
     verify_option (verify_block_target f) catch @ verify_option (verify_block_target f) finally @ verify_block_target f after @ verify_option (verify_local f) exception_local"
| "verify_instruction_kind u f (Call LeaveTry) = []"
| "verify_instruction_kind u f (Call (EndFinally after)) = verify_block_target f after"
| "verify_instruction_kind u f (Call (Throw value)) = verify_operand u f value"
| "verify_instruction_kind u f (Call (MakeException dst _ message)) = verify_register f dst @ verify_operand u f message"
| "verify_instruction_kind u f (Call (MakeClosure dst func captures)) =
     verify_register f dst @ verify_function_id u func @ concat (map (verify_operand u f \<circ> capture_src) captures)"
| "verify_instruction_kind u f (Call (CallClosure dst callee args)) =
     verify_register f dst @ verify_operand u f callee @ verify_call_args u f args"
| "verify_instruction_kind u f (Call (ResolveCallable dst _)) = verify_register f dst"
| "verify_instruction_kind u f (Call (AcquireCallable dst value)) = verify_register f dst @ verify_operand u f value"
| "verify_instruction_kind u f (Call (CallCallable dst callee args)) =
     verify_register f dst @ verify_operand u f callee @ verify_call_args u f args"
| "verify_instruction_kind u f (Call (Pipe dst input callable)) = verify_register f dst @ verify_operand u f input @ verify_operand u f callable"
| "verify_instruction_kind u f (Call (Include dst _ path)) = verify_register f dst @ verify_operand u f path"
| "verify_instruction_kind u f (Call (Eval dst code)) = verify_register f dst @ verify_operand u f code"
| "verify_instruction_kind u f (Call (NewObject dst _ _ args)) = verify_register f dst @ verify_call_args u f args"
| "verify_instruction_kind u f (Call (DynamicNewObject dst cname args)) =
     verify_register f dst @ verify_operand u f cname @ verify_call_args u f args"
| "verify_instruction_kind u f (Property (FetchProperty dst object _)) = verify_register f dst @ verify_operand u f object"
| "verify_instruction_kind u f (Property (FetchDynamicProperty dst object property)) =
     verify_register f dst @ verify_operand u f object @ verify_operand u f property"
| "verify_instruction_kind u f (Property (IssetProperty dst object _)) = verify_register f dst @ verify_operand u f object"
| "verify_instruction_kind u f (Property (IssetDynamicProperty dst object property)) =
     verify_register f dst @ verify_operand u f object @ verify_operand u f property"
| "verify_instruction_kind u f (Property (EmptyProperty dst object _)) = verify_register f dst @ verify_operand u f object"
| "verify_instruction_kind u f (Property (EmptyDynamicProperty dst object property)) =
     verify_register f dst @ verify_operand u f object @ verify_operand u f property"
| "verify_instruction_kind u f (Property (IssetDynamicPropertyDim dst object property dims)) =
     verify_register f dst @ verify_operand u f object @ verify_operand u f property @ concat (map (verify_operand u f) dims)"
| "verify_instruction_kind u f (Property (EmptyDynamicPropertyDim dst object property dims)) =
     verify_register f dst @ verify_operand u f object @ verify_operand u f property @ concat (map (verify_operand u f) dims)"
| "verify_instruction_kind u f (Property (IssetPropertyDim dst object _ dims)) =
     verify_register f dst @ verify_operand u f object @ concat (map (verify_operand u f) dims)"
| "verify_instruction_kind u f (Property (EmptyPropertyDim dst object _ dims)) =
     verify_register f dst @ verify_operand u f object @ concat (map (verify_operand u f) dims)"
| "verify_instruction_kind u f (Property (UnsetProperty object _)) = verify_operand u f object"
| "verify_instruction_kind u f (Property (UnsetPropertyDim object _ dims)) = verify_operand u f object @ concat (map (verify_operand u f) dims)"
| "verify_instruction_kind u f (Property (UnsetDynamicProperty object property)) = verify_operand u f object @ verify_operand u f property"
| "verify_instruction_kind u f (Property (UnsetDynamicPropertyDim object property dims)) =
     verify_operand u f object @ verify_operand u f property @ concat (map (verify_operand u f) dims)"
| "verify_instruction_kind u f (Member (FetchStaticProperty dst _ _)) = verify_register f dst"
| "verify_instruction_kind u f (Member (FetchDynamicStaticProperty dst cname _)) = verify_register f dst @ verify_operand u f cname"
| "verify_instruction_kind u f (Member (IssetStaticProperty dst _ _)) = verify_register f dst"
| "verify_instruction_kind u f (Member (EmptyStaticProperty dst _ _)) = verify_register f dst"
| "verify_instruction_kind u f (Member (IssetStaticPropertyDim dst _ _ dims)) = verify_register f dst @ concat (map (verify_operand u f) dims)"
| "verify_instruction_kind u f (Member (EmptyStaticPropertyDim dst _ _ dims)) = verify_register f dst @ concat (map (verify_operand u f) dims)"
| "verify_instruction_kind u f (Member (UnsetStaticPropertyDim _ _ dims)) = concat (map (verify_operand u f) dims)"
| "verify_instruction_kind u f (Member (FetchClassConstant dst _ _)) = verify_register f dst"
| "verify_instruction_kind u f (Member (FetchObjectClassName dst object)) = verify_register f dst @ verify_operand u f object"
| "verify_instruction_kind u f (Member (AssignProperty dst object _ value)) =
     verify_register f dst @ verify_operand u f object @ verify_operand u f value"
| "verify_instruction_kind u f (Member (AssignPropertyDim dst object _ dims value _)) =
     verify_register f dst @ verify_operand u f object @ concat (map (verify_operand u f) dims) @ verify_operand u f value"
| "verify_instruction_kind u f (Member (AssignDynamicProperty dst object property value)) =
     verify_register f dst @ verify_operand u f object @ verify_operand u f property @ verify_operand u f value"
| "verify_instruction_kind u f (Member (AssignDynamicPropertyDim dst object property dims value _)) =
     verify_register f dst @ verify_operand u f object @ verify_operand u f property @ concat (map (verify_operand u f) dims) @ verify_operand u f value"
| "verify_instruction_kind u f (Member (AssignStaticProperty dst _ _ value)) = verify_register f dst @ verify_operand u f value"
| "verify_instruction_kind u f (Member (AssignDynamicStaticProperty dst cname _ value)) =
     verify_register f dst @ verify_operand u f cname @ verify_operand u f value"
| "verify_instruction_kind u f (ArrayOp (NewArray dst)) = verify_register f dst"
| "verify_instruction_kind u f (ArrayOp (ArrayInsert array key value by_ref_local)) =
     verify_register f array @ verify_option (verify_operand u f) key @ verify_operand u f value @ verify_option (verify_local f) by_ref_local"
| "verify_instruction_kind u f (ArrayOp (ArraySpread array source)) = verify_register f array @ verify_operand u f source"
| "verify_instruction_kind u f (ArrayOp (FetchDim dst array key _ _)) = verify_register f dst @ verify_operand u f array @ verify_operand u f key"
| "verify_instruction_kind u f (ArrayOp (AssignDim dst loc dims value)) =
     verify_register f dst @ verify_local f loc @ concat (map (verify_operand u f) dims) @ verify_operand u f value"
| "verify_instruction_kind u f (ArrayOp (AppendDim dst loc dims value)) =
     verify_register f dst @ verify_local f loc @ concat (map (verify_operand u f) dims) @ verify_operand u f value"
| "verify_instruction_kind u f (ArrayOp (IssetLocal dst loc)) = verify_register f dst @ verify_local f loc"
| "verify_instruction_kind u f (ArrayOp (EmptyLocal dst loc)) = verify_register f dst @ verify_local f loc"
| "verify_instruction_kind u f (ArrayOp (UnsetLocal loc)) = verify_local f loc"
| "verify_instruction_kind u f (ArrayOp (IssetDim dst loc dims)) =
     verify_register f dst @ verify_local f loc @ concat (map (verify_operand u f) dims)"
| "verify_instruction_kind u f (ArrayOp (EmptyDim dst loc dims)) =
     verify_register f dst @ verify_local f loc @ concat (map (verify_operand u f) dims)"
| "verify_instruction_kind u f (ArrayOp (UnsetDim loc dims)) = verify_local f loc @ concat (map (verify_operand u f) dims)"
| "verify_instruction_kind u f (ArrayOp (ForeachInit iterator source)) = verify_register f iterator @ verify_operand u f source"
| "verify_instruction_kind u f (ArrayOp (ForeachNext has_value iterator key value)) =
     verify_register f has_value @ verify_register f iterator @ verify_option (verify_register f) key @ verify_register f value"
| "verify_instruction_kind u f (ArrayOp (ForeachCleanup iterator)) = verify_register f iterator"
| "verify_instruction_kind u f (ArrayOp (ForeachInitRef iterator loc)) = verify_register f iterator @ verify_local f loc"
| "verify_instruction_kind u f (ArrayOp (ForeachNextRef has_value iterator key value_local)) =
     verify_register f has_value @ verify_register f iterator @ verify_option (verify_register f) key @ verify_local f value_local"
| "verify_instruction_kind u f (ArrayOp (ArrayGet dst array index)) = verify_register f dst @ verify_operand u f array @ verify_operand u f index"
| "verify_instruction_kind u f (ArrayOp (RuntimeError _ _)) = []"

definition verify_instruction :: "ir_unit \<Rightarrow> ir_function \<Rightarrow> instruction \<Rightarrow> verification_error_code list" where
  "verify_instruction u f instruction = verify_span u (ins_span instruction) @ verify_instruction_kind u f (ins_kind instruction)"

definition verify_terminator :: "ir_unit \<Rightarrow> ir_function \<Rightarrow> terminator \<Rightarrow> verification_error_code list" where
  "verify_terminator u f terminator = verify_span u (term_span terminator) @ (case term_kind terminator of
       Jump target \<Rightarrow> verify_block_target f target
     | JumpIfFalse condition target \<Rightarrow> verify_operand u f condition @ verify_block_target f target
     | JumpIfTrue condition target \<Rightarrow> verify_operand u f condition @ verify_block_target f target
     | JumpIf condition if_true if_false \<Rightarrow>
         verify_operand u f condition @ verify_block_target f if_true @ verify_block_target f if_false
     | Return value by_ref_local \<Rightarrow>
         verify_option (verify_operand u f) value @
         verify_option (\<lambda>local. verify_local f local @ (if value \<noteq> Some (Local local) then [InvalidCallArgMetadata] else []))
           by_ref_local
     | Exit value \<Rightarrow> verify_option (verify_operand u f) value)"

definition verify_block :: "ir_unit \<Rightarrow> ir_function \<Rightarrow> basic_block \<Rightarrow> verification_error_code list" where
  "verify_block u f block =
     concat (map (\<lambda>(index, instruction).
       (if ins_id instruction \<noteq> index then [InvalidInstrId] else []) @ verify_instruction u f instruction)
       (enumerate 0 (blk_instructions block))) @
     (case blk_terminator block of Some terminator \<Rightarrow> verify_terminator u f terminator | None \<Rightarrow> [MissingTerminator])"

section \<open>The data flow of register definitions\<close>

text \<open>The explicit targets of a block; the block after it is not one of them.\<close>

definition block_targets :: "ir_function \<Rightarrow> nat \<Rightarrow> block_id list" where
  "block_targets f index =
     (case blk_terminator (fn_blocks f ! index) of None \<Rightarrow> [] | Some terminator \<Rightarrow> terminator_targets (term_kind terminator))"

definition block_predecessors :: "ir_function \<Rightarrow> nat list list" where
  "block_predecessors f =
     fold (\<lambda>source. fold (\<lambda>target preds. if target < length preds then preds[target := preds ! target @ [source]] else preds)
         (block_targets f source))
       [0..<length (fn_blocks f)] (replicate (length (fn_blocks f)) [])"

lemma count_false_update:
  "i < length xs \<Longrightarrow> \<not> xs ! i \<Longrightarrow> length (filter Not (xs[i := True])) < length (filter Not xs)"
proof (induction xs arbitrary: i)
  case (Cons x xs)
  then show ?case by (cases i) auto
qed simp

function reachable_loop :: "ir_function \<Rightarrow> nat list \<Rightarrow> bool list \<Rightarrow> bool list" where
  "reachable_loop f stack reachable = (case stack of
       [] \<Rightarrow> reachable
     | index # rest \<Rightarrow>
         if length reachable \<le> index \<or> reachable ! index then reachable_loop f rest reachable
         else reachable_loop f
           (rev (filter (\<lambda>target. target < length (fn_blocks f)) (block_targets f index)) @ rest) (reachable[index := True]))"
  by pat_completeness auto
termination
  by (relation "(\<lambda>(f, stack, reachable). length (filter Not reachable)) <*mlex*> measure (\<lambda>(f, stack, reachable). length stack)")
     (auto simp: wf_mlex mlex_prod_def count_false_update)

definition reachable_blocks :: "ir_function \<Rightarrow> bool list" where
  "reachable_blocks f =
     (let none = replicate (length (fn_blocks f)) False in if fn_blocks f = [] then none else reachable_loop f [0] none)"

definition mark_instruction_defs :: "operand instruction_kind \<Rightarrow> bool list \<Rightarrow> bool list" where
  "mark_instruction_defs kind defined = fold (\<lambda>register defined. defined[register := True]) (instruction_register_defs kind) defined"

definition apply_register_defs :: "basic_block \<Rightarrow> bool list \<Rightarrow> bool list" where
  "apply_register_defs block defined = fold (\<lambda>i. mark_instruction_defs (ins_kind i)) (blk_instructions block) defined"

definition is_false_successor :: "'o terminator_kind \<Rightarrow> block_id \<Rightarrow> bool" where
  "is_false_successor kind target = (case kind of
       JumpIfFalse _ false_target \<Rightarrow> false_target = target | JumpIf _ _ if_false \<Rightarrow> if_false = target | _ \<Rightarrow> False)"

text \<open>The registers that a foreach step leaves undefined when the iteration is over.\<close>

definition foreach_outputs :: "'o instruction_kind \<Rightarrow> reg_id list" where
  "foreach_outputs kind = (case kind of
       ArrayOp (ForeachNext _ _ key value) \<Rightarrow> (case key of None \<Rightarrow> [] | Some k \<Rightarrow> [k]) @ [value]
     | ArrayOp (ForeachNextRef _ _ key _) \<Rightarrow> (case key of None \<Rightarrow> [] | Some k \<Rightarrow> [k])
     | _ \<Rightarrow> [])"

definition edge_undefined :: "basic_block \<Rightarrow> block_id \<Rightarrow> reg_id list" where
  "edge_undefined block target = (case blk_terminator block of
       None \<Rightarrow> []
     | Some terminator \<Rightarrow>
         if \<not> is_false_successor (term_kind terminator) target \<or> blk_instructions block = [] then []
         else foreach_outputs (ins_kind (last (blk_instructions block))))"

definition apply_edge_register_defs :: "basic_block \<Rightarrow> block_id \<Rightarrow> bool list \<Rightarrow> bool list" where
  "apply_edge_register_defs block target out_defs =
     fold (\<lambda>register defs. defs[register := False]) (edge_undefined block target) out_defs"

definition intersect_predecessor_defs :: "ir_function \<Rightarrow> nat \<Rightarrow> nat list \<Rightarrow> bool list \<Rightarrow> bool list list \<Rightarrow> bool list" where
  "intersect_predecessor_defs f target predecessors reachable out_defs =
     (case map (\<lambda>p. apply_edge_register_defs (fn_blocks f ! p) (as_u32 target) (out_defs ! p))
             (filter (\<lambda>p. reachable ! p) predecessors) of
        [] \<Rightarrow> replicate (fn_register_count f) False
      | first # rest \<Rightarrow> fold (\<lambda>edge result. map2 (\<and>) result edge) rest first)"

definition next_in :: "ir_function \<Rightarrow> bool list list \<Rightarrow> nat \<Rightarrow> bool list" where
  "next_in f out_defs index =
     (if index = 0 \<or> block_predecessors f ! index = [] then replicate (fn_register_count f) False
      else intersect_predecessor_defs f index (block_predecessors f ! index) (reachable_blocks f) out_defs)"

text \<open>One turn of the loop: the sets at the entry and at the exit of each block, and whether one changed.\<close>

type_synonym flow = "bool list list \<times> bool list list \<times> bool"

definition flow_block :: "ir_function \<Rightarrow> nat \<Rightarrow> flow \<Rightarrow> flow" where
  "flow_block f index st = (case st of (in_defs, out_defs, changed) \<Rightarrow>
     if \<not> reachable_blocks f ! index then st
     else
       let new_in = next_in f out_defs index;
           new_out = apply_register_defs (fn_blocks f ! index) new_in
       in if new_in \<noteq> in_defs ! index \<or> new_out \<noteq> out_defs ! index
          then (in_defs[index := new_in], out_defs[index := new_out], True) else st)"

definition flow_turn :: "ir_function \<Rightarrow> bool list list \<times> bool list list \<Rightarrow> flow" where
  "flow_turn f st = fold (flow_block f) [0..<length (fn_blocks f)] (fst st, snd st, False)"

primrec flow_loop :: "nat \<Rightarrow> ir_function \<Rightarrow> bool list list \<times> bool list list \<Rightarrow> (bool list list \<times> bool list list) option" where
  "flow_loop 0 f st = None"
| "flow_loop (Suc fuel) f st =
     (case flow_turn f st of (in_defs, out_defs, changed) \<Rightarrow>
        if changed then flow_loop fuel f (in_defs, out_defs) else Some (in_defs, out_defs))"

definition flow_start :: "ir_function \<Rightarrow> bool list list \<times> bool list list" where
  "flow_start f =
     (let full = replicate (length (fn_blocks f)) (replicate (fn_register_count f) True);
          none = replicate (fn_register_count f) False
      in (full[0 := none], full[0 := apply_register_defs (fn_blocks f ! 0) none]))"

definition flow_fuel :: "ir_function \<Rightarrow> nat" where
  "flow_fuel f = length (fn_blocks f) * fn_register_count f + 1"

definition report_undefined_registers :: "reg_id list \<Rightarrow> bool list \<Rightarrow> verification_error_code list" where
  "report_undefined_registers uses defined =
     concat (map (\<lambda>register. if register < length defined \<and> \<not> defined ! register then [UndefinedRegisterUse] else []) uses)"

fun report_instructions :: "instruction list \<Rightarrow> bool list \<Rightarrow> verification_error_code list \<times> bool list" where
  "report_instructions [] defined = ([], defined)"
| "report_instructions (i # is) defined =
     (let (errors, final) = report_instructions is (mark_instruction_defs (ins_kind i) defined)
      in (report_undefined_registers (instruction_register_uses (ins_kind i)) defined @ errors, final))"

definition report_block :: "basic_block \<Rightarrow> bool list \<Rightarrow> verification_error_code list" where
  "report_block block defined =
     (let (errors, final) = report_instructions (blk_instructions block) defined
      in errors @ (case blk_terminator block of
           None \<Rightarrow> [] | Some terminator \<Rightarrow> report_undefined_registers (terminator_register_uses (term_kind terminator)) final))"

definition verify_register_definitions :: "ir_function \<Rightarrow> verification_error_code list option" where
  "verify_register_definitions f =
     (if fn_blocks f = [] \<or> fn_register_count f = 0 then Some []
      else map_option (\<lambda>(in_defs, _). concat (map (\<lambda>index.
          if reachable_blocks f ! index then report_block (fn_blocks f ! index) (in_defs ! index) else [])
          [0..<length (fn_blocks f)])) (flow_loop (flow_fuel f) f (flow_start f)))"

section \<open>Functions and units\<close>

definition verify_function_body :: "ir_unit \<Rightarrow> ir_function \<Rightarrow> verification_error_code list option" where
  "verify_function_body u f = map_option (\<lambda>registers.
     verify_span u (fn_span f) @
     (if length (fn_locals f) \<noteq> fn_local_count f then [InvalidLocalId] else []) @
     concat (map (verify_local f \<circ> par_local) (fn_params f)) @
     concat (map (verify_local f \<circ> cap_local) (fn_captures f)) @
     concat (map (\<lambda>(index, block). verify_block_id (blk_id block) index @ verify_block u f block) (enumerate 0 (fn_blocks f))) @
     registers) (verify_register_definitions f)"

definition verify_function :: "ir_unit \<Rightarrow> function_id \<Rightarrow> verification_error_code list option" where
  "verify_function u i = (case get_at (un_functions u) i of
       None \<Rightarrow> Some [InvalidFunctionId] | Some f \<Rightarrow> verify_function_body u f)"

definition verify_class :: "ir_unit \<Rightarrow> nat \<Rightarrow> class_entry \<Rightarrow> verification_error_code list" where
  "verify_class u index c =
     (if cls_id c \<noteq> index then [InvalidClassId] else []) @ verify_span u (cls_span c) @
     concat (map (verify_function_id u \<circ> met_function) (cls_methods c)) @
     concat (map (verify_option (verify_constant u) \<circ> prop_default) (cls_properties c)) @
     verify_option (verify_function_id u) (cls_constructor c)"

definition verify_tables :: "ir_unit \<Rightarrow> verification_error_code list" where
  "verify_tables u =
     (if un_version u \<noteq> IR_VERSION then [InvalidVersion] else []) @
     (if length (un_functions u) \<le> un_entry u then [InvalidEntryFunction] else []) @
     concat (map (\<lambda>(index, file). if file_entry_id file \<noteq> index then [InvalidFileId] else []) (enumerate 0 (un_files u))) @
     concat (map (\<lambda>(index, c). verify_class u index c) (enumerate 0 (un_classes u))) @
     concat (map (\<lambda>e.
       (if length (un_functions u) \<le> fe_function e then [InvalidFunctionId] else []) @
       (if 1 < length (filter (\<lambda>other. fe_name other = fe_name e) (un_function_table u)) then [DuplicateFunctionName] else []))
       (un_function_table u)) @
     concat (map (\<lambda>e.
       verify_constant u (gc_value e) @ verify_span u (gc_span e) @
       (if 1 < length (filter (\<lambda>other. gc_name other = gc_name e) (un_constant_table u)) then [DuplicateConstantName] else []))
       (un_constant_table u))"

text \<open>\<open>Ok\<close> is the empty list of errors.\<close>

definition verify_unit :: "ir_unit \<Rightarrow> verification_error_code list option" where
  "verify_unit u = map_option (\<lambda>bodies. verify_tables u @ concat bodies) (those (map (verify_function_body u) (un_functions u)))"

end
