(* ===== verification/Ir_Verify_Proofs.thy ===== *)
theory Ir_Verify_Proofs
  imports Ir_Verify
begin

text \<open>
  What the verifier guarantees. Its data-flow loop always ends, because the sets of defined registers only shrink; and
  when it reports nothing, every register that a block reads is defined on every path of explicit jumps from the entry
  to that block. The block after a conditional jump that falls through is not on such a path: the last section has a
  unit that the verifier accepts and that reads an undefined register there.
\<close>

declare reachable_loop.simps [simp del]

section \<open>Pointwise order of register sets\<close>

definition below :: "bool list \<Rightarrow> bool list \<Rightarrow> bool" where
  "below xs ys \<longleftrightarrow> length xs = length ys \<and> (\<forall>i < length xs. xs ! i \<longrightarrow> ys ! i)"

lemma below_refl [simp]: "below xs xs"
  by (simp add: below_def)

lemma below_trans: "below xs ys \<Longrightarrow> below ys zs \<Longrightarrow> below xs zs"
  by (auto simp: below_def)

lemma below_antisym: "below xs ys \<Longrightarrow> below ys xs \<Longrightarrow> xs = ys"
  by (auto simp: below_def intro: nth_equalityI)

lemma below_update: "below xs ys \<Longrightarrow> below (xs[i := b]) (ys[i := b])"
  by (cases "i < length xs") (auto simp: below_def nth_list_update)

lemma below_fold_update: "below xs ys \<Longrightarrow> below (fold (\<lambda>r d. d[r := b]) rs xs) (fold (\<lambda>r d. d[r := b]) rs ys)"
  by (induction rs arbitrary: xs ys) (simp_all add: below_update)

lemma below_full: "length xs = n \<Longrightarrow> below xs (replicate n True)"
  by (simp add: below_def)

lemma below_none: "length xs = n \<Longrightarrow> below (replicate n False) xs"
  by (simp add: below_def)

lemma below_meet: "below xs xs' \<Longrightarrow> below ys ys' \<Longrightarrow> below (map2 (\<and>) xs ys) (map2 (\<and>) xs' ys')"
  by (auto simp: below_def)

lemma length_fold_update [simp]: "length (fold (\<lambda>r d. d[r := b]) rs xs) = length xs"
  by (induction rs arbitrary: xs) simp_all

lemma nth_fold_update: "i < length xs \<Longrightarrow> fold (\<lambda>r d. d[r := b]) rs xs ! i = (if i \<in> set rs then b else xs ! i)"
proof (induction rs arbitrary: xs)
  case (Cons r rs)
  then show ?case by (cases "r = i") (auto simp: nth_list_update)
qed simp

lemma length_mark [simp]: "length (mark_instruction_defs k d) = length d"
  by (simp add: mark_instruction_defs_def)

lemma length_apply_defs [simp]: "length (apply_register_defs b d) = length d"
proof -
  have "length (fold (\<lambda>i. mark_instruction_defs (ins_kind i)) is d) = length d" for "is"
    by (induction "is" arbitrary: d) simp_all
  then show ?thesis by (simp add: apply_register_defs_def)
qed

lemma length_edge_defs [simp]: "length (apply_edge_register_defs b t d) = length d"
  by (simp add: apply_edge_register_defs_def)

lemma apply_defs_mono: "below xs ys \<Longrightarrow> below (apply_register_defs b xs) (apply_register_defs b ys)"
proof -
  have "below (fold (\<lambda>i. mark_instruction_defs (ins_kind i)) is xs) (fold (\<lambda>i. mark_instruction_defs (ins_kind i)) is ys)"
    if "below xs ys" for "is" xs ys
    using that by (induction "is" arbitrary: xs ys) (simp_all add: mark_instruction_defs_def below_fold_update)
  then show "below xs ys \<Longrightarrow> ?thesis" by (simp add: apply_register_defs_def)
qed

lemma edge_defs_mono: "below xs ys \<Longrightarrow> below (apply_edge_register_defs b t xs) (apply_edge_register_defs b t ys)"
  by (simp add: apply_edge_register_defs_def below_fold_update)

section \<open>Predecessors and entry sets\<close>

lemma push_targets:
  assumes "length preds = n"
  shows "length (fold (\<lambda>target preds. if target < length preds then preds[target := preds ! target @ [s]] else preds) ts preds) = n"
    and "i < n \<Longrightarrow> set (fold (\<lambda>target preds. if target < length preds then preds[target := preds ! target @ [s]] else preds) ts preds ! i)
      = set (preds ! i) \<union> (if i \<in> set ts then {s} else {})"
  using assms by (induction ts arbitrary: preds) (auto simp: nth_list_update)

lemma block_predecessors:
  shows "length (block_predecessors f) = length (fn_blocks f)"
    and "i < length (fn_blocks f) \<Longrightarrow>
      set (block_predecessors f ! i) = {s. s < length (fn_blocks f) \<and> i \<in> set (block_targets f s)}"
proof -
  define push where "push = (\<lambda>s. fold (\<lambda>target preds. if target < length preds then preds[target := preds ! target @ [s]] else preds) (block_targets f s))"
  define n where "n = length (fn_blocks f)"
  have "length (fold push ss preds) = n \<and>
      (\<forall>i < n. set (fold push ss preds ! i) = set (preds ! i) \<union> {s \<in> set ss. i \<in> set (block_targets f s)})"
    if "length preds = n" for ss preds
    using that
  proof (induction ss arbitrary: preds)
    case (Cons s ss)
    have "length (push s preds) = n" "\<And>i. i < n \<Longrightarrow> set (push s preds ! i) = set (preds ! i) \<union> (if i \<in> set (block_targets f s) then {s} else {})"
      using push_targets [OF Cons.prems] by (auto simp: push_def)
    with Cons.IH [of "push s preds"] show ?case by auto
  qed simp
  from this [of "replicate n []" "[0..<n]"] show "length (block_predecessors f) = length (fn_blocks f)"
    "i < length (fn_blocks f) \<Longrightarrow> set (block_predecessors f ! i) = {s. s < length (fn_blocks f) \<and> i \<in> set (block_targets f s)}"
    by (auto simp: block_predecessors_def push_def n_def)
qed

lemma fold_meet:
  assumes "\<forall>e \<in> set rest. length e = length first"
  shows "length (fold (\<lambda>edge result. map2 (\<and>) result edge) rest first) = length first"
    and "i < length first \<Longrightarrow> fold (\<lambda>edge result. map2 (\<and>) result edge) rest first ! i = (first ! i \<and> (\<forall>e \<in> set rest. e ! i))"
  using assms by (induction rest arbitrary: first) auto

definition live_predecessors :: "ir_function \<Rightarrow> nat \<Rightarrow> nat set" where
  "live_predecessors f i = {p. p < length (fn_blocks f) \<and> i \<in> set (block_targets f p) \<and> reachable_blocks f ! p}"

lemma next_in:
  assumes "\<forall>p < length (fn_blocks f). length (outs ! p) = fn_register_count f" "i < length (fn_blocks f)"
  shows "length (next_in f outs i) = fn_register_count f"
    and "r < fn_register_count f \<Longrightarrow> next_in f outs i ! r = (i \<noteq> 0 \<and> live_predecessors f i \<noteq> {} \<and>
      (\<forall>p \<in> live_predecessors f i. apply_edge_register_defs (fn_blocks f ! p) (as_u32 i) (outs ! p) ! r))"
proof -
  define ps where "ps = filter (\<lambda>p. reachable_blocks f ! p) (block_predecessors f ! i)"
  define edges where "edges = map (\<lambda>p. apply_edge_register_defs (fn_blocks f ! p) (as_u32 i) (outs ! p)) ps"
  have ps: "set ps = live_predecessors f i"
    using block_predecessors(2) [OF assms(2)] by (auto simp: ps_def live_predecessors_def)
  have len: "\<forall>e \<in> set edges. length e = fn_register_count f"
    using assms(1) ps by (auto simp: edges_def live_predecessors_def)
  have eq: "next_in f outs i = (if i = 0 then replicate (fn_register_count f) False else
      (case edges of [] \<Rightarrow> replicate (fn_register_count f) False | first # rest \<Rightarrow> fold (\<lambda>edge result. map2 (\<and>) result edge) rest first))"
    by (simp add: next_in_def intersect_predecessor_defs_def edges_def ps_def)
  show "length (next_in f outs i) = fn_register_count f"
    unfolding eq using len fold_meet(1) by (auto split: list.splits)
  assume r: "r < fn_register_count f"
  show "next_in f outs i ! r = (i \<noteq> 0 \<and> live_predecessors f i \<noteq> {} \<and>
      (\<forall>p \<in> live_predecessors f i. apply_edge_register_defs (fn_blocks f ! p) (as_u32 i) (outs ! p) ! r))"
  proof (cases edges)
    case Nil
    then show ?thesis using r ps unfolding eq by (auto simp: edges_def)
  next
    case (Cons first rest)
    then have "(\<forall>e \<in> set edges. e ! r) \<longleftrightarrow> fold (\<lambda>edge result. map2 (\<and>) result edge) rest first ! r"
      using len r fold_meet(2) [of rest first r] by auto
    moreover have "(\<forall>e \<in> set edges. e ! r) \<longleftrightarrow>
        (\<forall>p \<in> live_predecessors f i. apply_edge_register_defs (fn_blocks f ! p) (as_u32 i) (outs ! p) ! r)"
      using ps by (auto simp: edges_def)
    moreover have "live_predecessors f i \<noteq> {}" using Cons ps by (auto simp: edges_def)
    ultimately show ?thesis using Cons r unfolding eq by auto
  qed
qed

lemma next_in_mono:
  assumes "\<forall>p < length (fn_blocks f). length (outs ! p) = fn_register_count f \<and> below (outs' ! p) (outs ! p)" "i < length (fn_blocks f)"
  shows "below (next_in f outs' i) (next_in f outs i)"
proof -
  have len: "\<forall>p < length (fn_blocks f). length (outs ! p) = fn_register_count f" "\<forall>p < length (fn_blocks f). length (outs' ! p) = fn_register_count f"
    using assms(1) by (auto simp: below_def)
  have "below (apply_edge_register_defs b t (outs' ! p)) (apply_edge_register_defs b t (outs ! p))" if "p < length (fn_blocks f)" for b t p
    using assms(1) that by (simp add: edge_defs_mono)
  then have "apply_edge_register_defs b t (outs' ! p) ! r \<Longrightarrow> apply_edge_register_defs b t (outs ! p) ! r"
    if "p < length (fn_blocks f)" "r < fn_register_count f" for b t p r
    using that len by (fastforce simp: below_def)
  then show ?thesis
    using next_in(1) [OF len(1) assms(2)] next_in(1) [OF len(2) assms(2)] next_in(2) [OF len(1) assms(2)] next_in(2) [OF len(2) assms(2)]
    by (auto simp: below_def live_predecessors_def)
qed

section \<open>The loop ends\<close>

definition flow_inv :: "ir_function \<Rightarrow> bool list list \<Rightarrow> bool list list \<Rightarrow> bool" where
  "flow_inv f ins outs \<longleftrightarrow> length ins = length (fn_blocks f) \<and> length outs = length (fn_blocks f) \<and>
     (\<forall>b < length (fn_blocks f). length (ins ! b) = fn_register_count f \<and> outs ! b = apply_register_defs (fn_blocks f ! b) (ins ! b) \<and>
        below (next_in f outs b) (ins ! b))"

definition weight :: "bool list list \<Rightarrow> nat" where
  "weight ins = sum_list (map (\<lambda>xs. length (filter id xs)) ins)"

lemma filter_below: "below xs ys \<Longrightarrow> length (filter id xs) \<le> length (filter id ys) \<and> (xs \<noteq> ys \<longrightarrow> length (filter id xs) < length (filter id ys))"
proof (induction xs arbitrary: ys)
  case (Cons x xs)
  then obtain y ys' where ys: "ys = y # ys'" by (cases ys) (auto simp: below_def)
  have "below xs ys'" "x \<longrightarrow> y" using Cons.prems unfolding ys below_def by fastforce+
  with Cons.IH [of ys'] show ?case by (auto simp: ys)
qed (simp add: below_def)

lemma weight_update:
  "b < length ins \<Longrightarrow> below new (ins ! b) \<Longrightarrow> new \<noteq> ins ! b \<Longrightarrow> weight (ins[b := new]) < weight ins"
proof (induction ins arbitrary: b)
  case (Cons x ins)
  then show ?case using filter_below [of new x] by (cases b) (auto simp: weight_def)
qed simp

lemma flow_block:
  assumes "flow_inv f ins outs" "i < length (fn_blocks f)" "flow_block f i (ins, outs, c) = (ins', outs', c')"
  shows "flow_inv f ins' outs'" "weight ins' \<le> weight ins" "c' \<noteq> c \<Longrightarrow> weight ins' < weight ins \<and> c'"
    "\<not> c' \<Longrightarrow> ins' = ins \<and> outs' = outs \<and> (reachable_blocks f ! i \<longrightarrow> ins ! i = next_in f outs i)"
proof -
  let ?new = "next_in f outs i"
  have len: "\<forall>b < length (fn_blocks f). length (outs ! b) = fn_register_count f" using assms(1) by (simp add: flow_inv_def)
  have new: "below ?new (ins ! i)" using assms(1,2) by (simp add: flow_inv_def)
  have same_out: "outs ! i = apply_register_defs (fn_blocks f ! i) (ins ! i)" using assms(1,2) by (simp add: flow_inv_def)
  let ?change = "reachable_blocks f ! i \<and> ?new \<noteq> ins ! i"
  have step: "(ins', outs', c') = (if ?change then (ins[i := ?new], outs[i := apply_register_defs (fn_blocks f ! i) ?new], True) else (ins, outs, c))"
    using assms(3) same_out by (auto simp: flow_block_def Let_def split: if_splits)
  have "flow_inv f (ins[i := ?new]) (outs[i := apply_register_defs (fn_blocks f ! i) ?new])"
  proof -
    let ?outs = "outs[i := apply_register_defs (fn_blocks f ! i) ?new]"
    have size: "length ins = length (fn_blocks f)" "length outs = length (fn_blocks f)" using assms(1) by (auto simp: flow_inv_def)
    have "below (?outs ! p) (outs ! p)" if "p < length (fn_blocks f)" for p
      using that new same_out size by (cases "p = i") (auto simp: apply_defs_mono)
    then have mono: "below (next_in f ?outs b) (next_in f outs b)" if "b < length (fn_blocks f)" for b
      using that len by (intro next_in_mono) auto
    have "below (next_in f outs b) (ins[i := ?new] ! b)" if "b < length (fn_blocks f)" for b
      using that assms(1) size by (cases "b = i") (auto simp: flow_inv_def)
    with mono have "below (next_in f ?outs b) (ins[i := ?new] ! b)" if "b < length (fn_blocks f)" for b
      using that below_trans by blast
    then show ?thesis
      using assms(1,2) size next_in(1) [OF len assms(2)] by (auto simp: flow_inv_def nth_list_update)
  qed
  then show "flow_inv f ins' outs'" using step assms(1) by (auto split: if_splits)
  have "weight (ins[i := ?new]) < weight ins" if "?new \<noteq> ins ! i"
    using weight_update [of i ins ?new] new that assms(1,2) by (auto simp: flow_inv_def)
  then show "weight ins' \<le> weight ins" "c' \<noteq> c \<Longrightarrow> weight ins' < weight ins \<and> c'" using step by (auto split: if_splits)
  show "\<not> c' \<Longrightarrow> ins' = ins \<and> outs' = outs \<and> (reachable_blocks f ! i \<longrightarrow> ins ! i = next_in f outs i)"
    using step by (auto split: if_splits)
qed

lemma flow_fold:
  assumes "flow_inv f ins outs" "\<forall>i \<in> set is. i < length (fn_blocks f)" "fold (flow_block f) is (ins, outs, c) = (ins', outs', c')"
  shows "flow_inv f ins' outs' \<and> weight ins' \<le> weight ins \<and> (c' \<and> \<not> c \<longrightarrow> weight ins' < weight ins) \<and> (c \<longrightarrow> c') \<and>
    (\<not> c' \<longrightarrow> ins' = ins \<and> outs' = outs \<and> (\<forall>i \<in> set is. reachable_blocks f ! i \<longrightarrow> ins ! i = next_in f outs i))"
  using assms
proof (induction "is" arbitrary: ins outs c)
  case (Cons i "is")
  obtain ins1 outs1 c1 where step: "flow_block f i (ins, outs, c) = (ins1, outs1, c1)" by (cases "flow_block f i (ins, outs, c)")
  note block = flow_block [OF Cons.prems(1) _ step]
  have rest: "fold (flow_block f) is (ins1, outs1, c1) = (ins', outs', c')" using Cons.prems(3) step by simp
  note IH = Cons.IH [OF block(1) _ rest]
  show ?case using block IH Cons.prems(2) by (cases "c1 = c") auto
qed simp

lemma flow_loop_returns:
  "flow_inv f (fst st) (snd st) \<Longrightarrow> weight (fst st) < fuel \<Longrightarrow>
   \<exists>ins outs. flow_loop fuel f st = Some (ins, outs) \<and> flow_inv f ins outs \<and>
     (\<forall>i < length (fn_blocks f). reachable_blocks f ! i \<longrightarrow> ins ! i = next_in f outs i)"
proof (induction fuel arbitrary: st)
  case (Suc fuel)
  obtain ins outs c where turn: "flow_turn f st = (ins, outs, c)" by (cases "flow_turn f st")
  have fold: "flow_inv f ins outs \<and> weight ins \<le> weight (fst st) \<and> (c \<longrightarrow> weight ins < weight (fst st)) \<and>
      (\<not> c \<longrightarrow> ins = fst st \<and> outs = snd st \<and> (\<forall>i < length (fn_blocks f). reachable_blocks f ! i \<longrightarrow> fst st ! i = next_in f (snd st) i))"
    using flow_fold [OF Suc.prems(1), of "[0..<length (fn_blocks f)]" False ins outs c] turn by (auto simp: flow_turn_def)
  show ?case
  proof (cases c)
    case True
    then show ?thesis using Suc.IH [of "(ins, outs)"] Suc.prems(2) fold turn by auto
  next
    case False
    with fold turn have "flow_loop (Suc fuel) f st = Some (fst st, snd st)" by simp
    with False fold Suc.prems(1) show ?thesis by blast
  qed
qed simp

lemma apply_defs_full: "apply_register_defs b (replicate n True) = replicate n True"
proof -
  have "mark_instruction_defs k (replicate n True) = replicate n True" for k
    by (rule nth_equalityI) (simp_all add: mark_instruction_defs_def nth_fold_update)
  then have "fold (\<lambda>i. mark_instruction_defs (ins_kind i)) is (replicate n True) = replicate n True" for "is"
    by (induction "is") simp_all
  then show ?thesis by (simp add: apply_register_defs_def)
qed

lemma weight_bound: "\<forall>xs \<in> set ins. length xs = n \<Longrightarrow> weight ins \<le> length ins * n"
proof (induction ins)
  case (Cons xs ins)
  have "length (filter id xs) \<le> n" using Cons.prems length_filter_le [of id xs] by simp
  then show ?case using Cons by (auto simp: weight_def)
qed (simp add: weight_def)

lemma flow_start_inv:
  assumes "fn_blocks f \<noteq> []"
  shows "flow_inv f (fst (flow_start f)) (snd (flow_start f))" "weight (fst (flow_start f)) < flow_fuel f"
proof -
  let ?ins = "fst (flow_start f)" and ?outs = "snd (flow_start f)"
  have shape: "length ?ins = length (fn_blocks f)" "length ?outs = length (fn_blocks f)"
    "\<And>b. b < length (fn_blocks f) \<Longrightarrow> ?ins ! b = replicate (fn_register_count f) (b \<noteq> 0)"
    "\<And>b. b < length (fn_blocks f) \<Longrightarrow> ?outs ! b = apply_register_defs (fn_blocks f ! b) (?ins ! b)"
    using assms by (auto simp: flow_start_def Let_def nth_list_update apply_defs_full)
  have len: "\<forall>p < length (fn_blocks f). length (?outs ! p) = fn_register_count f" using shape by simp
  have "below (next_in f ?outs b) (?ins ! b)" if "b < length (fn_blocks f)" for b
    using next_in [OF len that] shape(3) [OF that] by (auto simp: below_def)
  then show "flow_inv f ?ins ?outs" using shape by (simp add: flow_inv_def)
  have "\<forall>xs \<in> set ?ins. length xs = fn_register_count f" using shape by (auto simp: in_set_conv_nth)
  then show "weight ?ins < flow_fuel f" using weight_bound [of ?ins] shape(1) by (simp add: flow_fuel_def less_Suc_eq_le)
qed

section \<open>Ranges\<close>

definition operand_in_range :: "ir_unit \<Rightarrow> ir_function \<Rightarrow> operand \<Rightarrow> bool" where
  "operand_in_range u f operand = (case operand of
       Register r \<Rightarrow> r < fn_register_count f | Local l \<Rightarrow> l < fn_local_count f | Constant c \<Rightarrow> c < length (un_constants u))"

lemma verify_operand_iff [simp]: "verify_operand u f x = [] \<longleftrightarrow> operand_in_range u f x"
  by (cases x) (auto simp: verify_operand_def operand_in_range_def verify_register_def verify_local_def verify_constant_def)

lemma verify_register_iff [simp]: "verify_register f r = [] \<longleftrightarrow> r < fn_register_count f"
  by (auto simp: verify_register_def)

lemma operand_uses_in_range: "operand_in_range u f x \<Longrightarrow> r \<in> set (operand_register_uses x) \<Longrightarrow> r < fn_register_count f"
  by (cases x) (auto simp: operand_register_uses_def operand_in_range_def)

lemma option_concat_nil: "verify_option v x = [] \<longleftrightarrow> (\<forall>y \<in> set_option x. v y = [])"
  by (cases x) (auto simp: verify_option_def)

lemma set_call_arg: "set_ir_call_arg arg = {arg_value arg} \<union>
    (\<Union>t \<in> set_option (arg_by_ref_dim arg). set (dim_dims t)) \<union> (\<Union>t \<in> set_option (arg_by_ref_property arg). {property_object t}) \<union>
    (\<Union>t \<in> set_option (arg_by_ref_property_dim arg). {property_dim_object t} \<union> set (property_dim_dims t))"
proof -
  have "set_ir_call_dim_target d = set (dim_dims d)" for d :: "'a ir_call_dim_target" by (cases d) simp
  moreover have "set_ir_call_property_target p = {property_object p}" for p :: "'a ir_call_property_target" by (cases p) simp
  moreover have "set_ir_call_property_dim_target q = {property_dim_object q} \<union> set (property_dim_dims q)" for q :: "'a ir_call_property_dim_target"
    by (cases q) simp
  ultimately show ?thesis by (cases arg) auto
qed

lemma set_capture [simp]: "set_closure_capture_arg c = {capture_src c}"
  by (cases c) simp

lemma verify_call_args_in_range:
  assumes "verify_call_args u f args = []" "arg \<in> set args" "x \<in> set_ir_call_arg arg"
  shows "operand_in_range u f x"
  using assms by (auto simp: set_call_arg verify_call_args_def option_concat_nil Let_def)

lemma set_case_option: "set (case x of None \<Rightarrow> [] | Some t \<Rightarrow> g t) = (\<Union>t \<in> set_option x. set (g t))"
  by (cases x) simp_all

lemma call_args_uses: "set (call_args_register_uses args) = (\<Union>arg \<in> set args. \<Union>x \<in> set_ir_call_arg arg. set (operand_register_uses x))"
  by (simp add: call_args_register_uses_def set_call_arg set_case_option UN_Un Un_assoc)

lemma call_args_uses_in_range:
  "verify_call_args u f args = [] \<Longrightarrow> r \<in> set (call_args_register_uses args) \<Longrightarrow> r < fn_register_count f"
  unfolding call_args_uses using verify_call_args_in_range operand_uses_in_range by blast

lemma verify_kind_operands:
  assumes "verify_instruction_kind u f k = []" "x \<in> set_instruction_kind k"
  shows "operand_in_range u f x"
  using assms by (induction u f k rule: verify_instruction_kind.induct) (auto simp: option_concat_nil dest: verify_call_args_in_range)

lemma verify_kind_defs:
  assumes "verify_instruction_kind u f k = []" "r \<in> set (instruction_register_defs k)"
  shows "r < fn_register_count f"
  using assms by (induction u f k rule: verify_instruction_kind.induct) (auto simp: option_concat_nil set_case_option)

lemma verify_kind_uses:
  assumes "verify_instruction_kind u f k = []" "r \<in> set (instruction_register_uses k)"
  shows "r < fn_register_count f"
  using assms
  by (induction u f k rule: verify_instruction_kind.induct)
     (auto simp: option_concat_nil set_case_option dest: call_args_uses_in_range operand_uses_in_range)

section \<open>Registers are defined before they are read\<close>

text \<open>
  The registers that are defined when control reaches a block: none at the entry, and along an explicit jump those that
  the block it leaves adds, without the outputs of a finished foreach step.
\<close>

definition block_defs :: "instruction list \<Rightarrow> reg_id set" where
  "block_defs instructions = (\<Union>i \<in> set instructions. set (instruction_register_defs (ins_kind i)))"

inductive reaches :: "ir_function \<Rightarrow> nat \<Rightarrow> reg_id set \<Rightarrow> bool" for f where
  entry: "fn_blocks f \<noteq> [] \<Longrightarrow> reaches f 0 {}"
| jump: "reaches f b D \<Longrightarrow> t \<in> set (block_targets f b) \<Longrightarrow> t < length (fn_blocks f) \<Longrightarrow>
    reaches f t ((D \<union> block_defs (blk_instructions (fn_blocks f ! b))) - set (edge_undefined (fn_blocks f ! b) t))"

text \<open>What a block reads is in the set it starts from or defined by an earlier instruction of the block.\<close>

definition reads_defined :: "reg_id set \<Rightarrow> basic_block \<Rightarrow> bool" where
  "reads_defined D block \<longleftrightarrow>
     (\<forall>i < length (blk_instructions block). set (instruction_register_uses (ins_kind (blk_instructions block ! i))) \<subseteq>
        D \<union> block_defs (take i (blk_instructions block))) \<and>
     (\<forall>terminator. blk_terminator block = Some terminator \<longrightarrow>
        set (terminator_register_uses (term_kind terminator)) \<subseteq> D \<union> block_defs (blk_instructions block))"

lemma reaches_bound: "reaches f b D \<Longrightarrow> b < length (fn_blocks f)"
  by (induction rule: reaches.induct) simp_all

lemma block_defs_simps [simp]:
  "block_defs [] = {}" "block_defs (i # is) = set (instruction_register_defs (ins_kind i)) \<union> block_defs is"
  by (simp_all add: block_defs_def)

lemma nth_apply_instructions:
  "r < length d \<Longrightarrow> fold (\<lambda>i. mark_instruction_defs (ins_kind i)) is d ! r \<longleftrightarrow> d ! r \<or> r \<in> block_defs is"
  by (induction "is" arbitrary: d) (auto simp: mark_instruction_defs_def nth_fold_update)

lemma nth_apply_defs: "r < length d \<Longrightarrow> apply_register_defs b d ! r \<longleftrightarrow> d ! r \<or> r \<in> block_defs (blk_instructions b)"
  by (simp add: apply_register_defs_def nth_apply_instructions)

lemma nth_edge_defs: "r < length d \<Longrightarrow> apply_edge_register_defs b t d ! r \<longleftrightarrow> d ! r \<and> r \<notin> set (edge_undefined b t)"
  by (simp add: apply_edge_register_defs_def nth_fold_update)

definition closed_under :: "ir_function \<Rightarrow> nat set \<Rightarrow> bool list \<Rightarrow> bool" where
  "closed_under f pending reachable \<longleftrightarrow> length reachable = length (fn_blocks f) \<and>
     (\<forall>b t. b < length (fn_blocks f) \<longrightarrow> reachable ! b \<longrightarrow> t \<in> set (block_targets f b) \<longrightarrow> t < length (fn_blocks f) \<longrightarrow>
        t \<in> pending \<or> reachable ! t)"

lemma closed_under_skip:
  "closed_under f (insert i pending) reachable \<Longrightarrow> length reachable \<le> i \<or> reachable ! i \<Longrightarrow> closed_under f pending reachable"
  by (force simp: closed_under_def)

lemma closed_under_visit:
  assumes "closed_under f (insert i pending) reachable"
  shows "closed_under f (set (filter (\<lambda>t. t < length (fn_blocks f)) (block_targets f i)) \<union> pending) (reachable[i := True])"
  unfolding closed_under_def
proof (intro conjI allI impI)
  fix b t assume a: "b < length (fn_blocks f)" "reachable[i := True] ! b" "t \<in> set (block_targets f b)" "t < length (fn_blocks f)"
  have len: "length reachable = length (fn_blocks f)" using assms by (simp add: closed_under_def)
  show "t \<in> set (filter (\<lambda>t. t < length (fn_blocks f)) (block_targets f i)) \<union> pending \<or> reachable[i := True] ! t"
  proof (cases "b = i \<or> t = i")
    case True
    then show ?thesis using a len by auto
  next
    case False
    then have "reachable ! b" using a len by simp
    then have "t \<in> insert i pending \<or> reachable ! t" using assms a unfolding closed_under_def by blast
    then show ?thesis using False by auto
  qed
qed (use assms in \<open>simp add: closed_under_def\<close>)

lemma reachable_loop_closed:
  "closed_under f (set stack) reachable \<Longrightarrow> closed_under f {} (reachable_loop f stack reachable) \<and>
    (\<forall>b < length (fn_blocks f). b \<in> set stack \<or> reachable ! b \<longrightarrow> reachable_loop f stack reachable ! b)"
proof (induction f stack reachable rule: reachable_loop.induct)
  case (1 f stack reachable)
  show ?case
  proof (cases stack)
    case Nil
    then show ?thesis using "1.prems" by (simp add: reachable_loop.simps)
  next
    case (Cons index rest)
    have len: "length reachable = length (fn_blocks f)" using "1.prems" by (simp add: closed_under_def)
    show ?thesis
    proof (cases "length reachable \<le> index \<or> reachable ! index")
      case True
      have eq: "reachable_loop f stack reachable = reachable_loop f rest reachable"
        using Cons True by (subst reachable_loop.simps) simp
      have "closed_under f (set rest) reachable" using closed_under_skip True "1.prems" Cons by simp
      from "1.IH"(1) [OF Cons True this] show ?thesis unfolding eq using Cons True len by auto
    next
      case False
      let ?rest = "rev (filter (\<lambda>target. target < length (fn_blocks f)) (block_targets f index)) @ rest"
      have eq: "reachable_loop f stack reachable = reachable_loop f ?rest (reachable[index := True])"
        using Cons False by (subst reachable_loop.simps) simp
      have "closed_under f (set ?rest) (reachable[index := True])" using closed_under_visit [of f index "set rest"] "1.prems" Cons by simp
      from "1.IH"(2) [OF Cons False this] show ?thesis unfolding eq using Cons False len by (auto simp: nth_list_update)
    qed
  qed
qed

lemma reachable_blocks_closed:
  assumes "fn_blocks f \<noteq> []"
  shows "closed_under f {} (reachable_blocks f)" "reachable_blocks f ! 0"
proof -
  have "closed_under f (set [0]) (replicate (length (fn_blocks f)) False)" by (simp add: closed_under_def)
  from reachable_loop_closed [OF this] show "closed_under f {} (reachable_blocks f)" "reachable_blocks f ! 0"
    using assms by (auto simp: reachable_blocks_def Let_def)
qed

lemma reaches_reachable: "reaches f b D \<Longrightarrow> reachable_blocks f ! b"
proof (induction rule: reaches.induct)
  case (jump b D t)
  have "b < length (fn_blocks f)" using jump.hyps(1) by (rule reaches_bound)
  moreover from this have "fn_blocks f \<noteq> []" by auto
  ultimately show ?case using reachable_blocks_closed(1) [of f] jump unfolding closed_under_def by blast
qed (rule reachable_blocks_closed)

lemma flow_sound:
  assumes "flow_inv f ins outs" "\<forall>i < length (fn_blocks f). reachable_blocks f ! i \<longrightarrow> ins ! i = next_in f outs i"
    "length (fn_blocks f) \<le> 2 ^ 32"
  shows "reaches f b D \<Longrightarrow> r < fn_register_count f \<Longrightarrow> ins ! b ! r \<Longrightarrow> r \<in> D"
proof (induction b D rule: reaches.induct)
  case entry
  have len: "\<forall>p < length (fn_blocks f). length (outs ! p) = fn_register_count f" using assms(1) by (simp add: flow_inv_def)
  have "0 < length (fn_blocks f)" using entry by simp
  moreover have "reachable_blocks f ! 0" using entry reaches_reachable reaches.entry by blast
  ultimately show ?case using entry(2,3) assms(2) next_in(2) [OF len, of 0 r] by simp
next
  case (jump b D t)
  have len: "\<forall>p < length (fn_blocks f). length (outs ! p) = fn_register_count f" using assms(1) by (simp add: flow_inv_def)
  have b: "b < length (fn_blocks f)" "reachable_blocks f ! b" using jump.hyps(1) reaches_bound reaches_reachable by auto
  have "reachable_blocks f ! t" using reaches.jump [OF jump.hyps] by (rule reaches_reachable)
  then have "next_in f outs t ! r" using jump.prems(2) jump.hyps(3) assms(2) by simp
  moreover have "b \<in> live_predecessors f t" using b jump.hyps(2) by (simp add: live_predecessors_def)
  moreover have "as_u32 t = t" using jump.hyps(3) assms(3) by (simp add: as_u32_def)
  ultimately have edge: "apply_edge_register_defs (fn_blocks f ! b) t (outs ! b) ! r"
    using next_in(2) [OF len jump.hyps(3) jump.prems(1)] by auto
  have outs: "outs ! b = apply_register_defs (fn_blocks f ! b) (ins ! b)" "length (ins ! b) = fn_register_count f"
    using assms(1) b(1) by (auto simp: flow_inv_def)
  show ?case using edge jump.IH [OF jump.prems(1)] jump.prems(1) by (auto simp: outs nth_edge_defs nth_apply_defs)
qed

lemma verify_register_definitions_returns:
  "\<exists>errors. verify_register_definitions f = Some errors"
  using flow_loop_returns [OF flow_start_inv [of f]] by (fastforce simp: verify_register_definitions_def)

lemma report_undefined_nil:
  "report_undefined_registers uses d = [] \<longleftrightarrow> (\<forall>r \<in> set uses. r < length d \<longrightarrow> d ! r)"
  by (auto simp: report_undefined_registers_def)

lemma report_instructions:
  "snd (report_instructions is d) = fold (\<lambda>i. mark_instruction_defs (ins_kind i)) is d"
  "fst (report_instructions is d) = [] \<Longrightarrow> i < length is \<Longrightarrow>
     report_undefined_registers (instruction_register_uses (ins_kind (is ! i))) (fold (\<lambda>i. mark_instruction_defs (ins_kind i)) (take i is) d) = []"
proof (induction "is" arbitrary: d i)
  case (Cons x xs)
  { case 1 show ?case using Cons.IH(1) by (simp add: case_prod_beta Let_def)
  next
    case 2 then show ?case using Cons.IH(2) by (cases i) (auto simp: case_prod_beta Let_def) }
qed simp_all

lemma report_block_nil:
  assumes "report_block block d = []" "\<And>r. r < length d \<Longrightarrow> d ! r \<Longrightarrow> r \<in> D"
    and "\<And>i r. i \<in> set (blk_instructions block) \<Longrightarrow> r \<in> set (instruction_register_uses (ins_kind i)) \<Longrightarrow> r < length d"
    and "\<And>t r. blk_terminator block = Some t \<Longrightarrow> r \<in> set (terminator_register_uses (term_kind t)) \<Longrightarrow> r < length d"
  shows "reads_defined D block"
proof -
  let ?is = "blk_instructions block"
  have len: "length (fold (\<lambda>i. mark_instruction_defs (ins_kind i)) is d) = length d" for "is" :: "instruction list"
    using length_apply_defs [of "block\<lparr>blk_instructions := is\<rparr>" d] by (simp add: apply_register_defs_def)
  have none: "fst (report_instructions ?is d) = []" using assms(1) by (simp add: report_block_def case_prod_beta Let_def)
  have "r \<in> D \<union> block_defs (take i ?is)" if "i < length ?is" "r \<in> set (instruction_register_uses (ins_kind (?is ! i)))" for i r
    using report_instructions(2) [OF none that(1)] that assms(2) [of r] assms(3) [of "?is ! i" r] nth_mem [OF that(1)] len nth_apply_instructions [of r d "take i ?is"]
    by (auto simp: report_undefined_nil)
  moreover have "r \<in> D \<union> block_defs ?is" if "blk_terminator block = Some t" "r \<in> set (terminator_register_uses (term_kind t))" for t r
    using assms(1) assms(2) [of r] assms(4) [OF that] that len nth_apply_instructions [of r d ?is]
    by (auto simp: report_block_def case_prod_beta Let_def report_instructions(1) report_undefined_nil)
  ultimately show ?thesis by (auto simp: reads_defined_def)
qed

lemma verify_terminator_uses:
  "verify_terminator u f t = [] \<Longrightarrow> r \<in> set (terminator_register_uses (term_kind t)) \<Longrightarrow> r < fn_register_count f"
  by (auto simp: verify_terminator_def terminator_register_uses_def option_concat_nil set_case_option
      dest: operand_uses_in_range split: terminator_kind.splits)

lemma verify_block_nil:
  assumes "verify_block u f block = []"
  shows "i \<in> set (blk_instructions block) \<Longrightarrow> verify_instruction_kind u f (ins_kind i) = []"
    "n < length (blk_instructions block) \<Longrightarrow> ins_id (blk_instructions block ! n) = n"
    "\<exists>t. blk_terminator block = Some t \<and> verify_terminator u f t = []"
proof -
  have each: "\<forall>(n, i) \<in> set (enumerate 0 (blk_instructions block)). ins_id i = n \<and> verify_instruction u f i = []"
    using assms by (auto simp: verify_block_def split: if_splits)
  show "ins_id (blk_instructions block ! n) = n" if "n < length (blk_instructions block)" for n
    using each that by (force simp: in_set_enumerate_eq)
  show "verify_instruction_kind u f (ins_kind i) = []" if i: "i \<in> set (blk_instructions block)" for i
  proof -
    obtain n where "n < length (blk_instructions block)" "blk_instructions block ! n = i" using i by (auto simp: in_set_conv_nth)
    then show ?thesis using each by (force simp: in_set_enumerate_eq verify_instruction_def)
  qed
  show "\<exists>t. blk_terminator block = Some t \<and> verify_terminator u f t = []"
    using assms by (auto simp: verify_block_def split: option.splits)
qed

lemma verify_unit_functions:
  assumes "verify_unit u = Some []" "f \<in> set (un_functions u)"
  shows "verify_function_body u f = Some []"
proof -
  have "those xs = Some yss \<Longrightarrow> concat yss = [] \<Longrightarrow> x \<in> set xs \<Longrightarrow> x = Some []" for xs :: "'a list option list" and yss x
    by (induction xs arbitrary: yss) (auto split: option.splits)
  then show ?thesis using assms by (fastforce simp: verify_unit_def)
qed

lemma verify_body_blocks:
  assumes "verify_function_body u f = Some []"
  shows "verify_register_definitions f = Some []" "b < length (fn_blocks f) \<Longrightarrow> blk_id (fn_blocks f ! b) = b \<and> verify_block u f (fn_blocks f ! b) = []"
proof -
  show "verify_register_definitions f = Some []" using assms by (auto simp: verify_function_body_def)
  have "\<forall>(n, block) \<in> set (enumerate 0 (fn_blocks f)). verify_block_id (blk_id block) n = [] \<and> verify_block u f block = []"
    using assms by (auto simp: verify_function_body_def)
  then show "b < length (fn_blocks f) \<Longrightarrow> blk_id (fn_blocks f ! b) = b \<and> verify_block u f (fn_blocks f ! b) = []"
    by (force simp: in_set_enumerate_eq verify_block_id_def split: if_splits)
qed

lemma verified_body_reads:
  assumes "verify_function_body u f = Some []" "length (fn_blocks f) \<le> 2 ^ 32" "reaches f b D"
  shows "reads_defined D (fn_blocks f ! b)"
proof -
  let ?block = "fn_blocks f ! b"
  have b: "b < length (fn_blocks f)" "fn_blocks f \<noteq> []" using reaches_bound [OF assms(3)] by auto
  have reach: "reachable_blocks f ! b" using assms(3) by (rule reaches_reachable)
  have nil: "verify_block u f ?block = []" using verify_body_blocks(2) [OF assms(1) b(1)] by simp
  obtain t where t: "blk_terminator ?block = Some t" "verify_terminator u f t = []" using verify_block_nil(3) [OF nil] by blast
  note uses = verify_kind_uses [OF verify_block_nil(1) [OF nil]] verify_terminator_uses [OF t(2)]
  obtain ins outs where loop: "flow_loop (flow_fuel f) f (flow_start f) = Some (ins, outs)" "flow_inv f ins outs"
    "\<forall>i < length (fn_blocks f). reachable_blocks f ! i \<longrightarrow> ins ! i = next_in f outs i"
    using flow_loop_returns [OF flow_start_inv [OF b(2)]] by blast
  have len: "length (ins ! b) = fn_register_count f" using loop(2) b(1) by (simp add: flow_inv_def)
  show ?thesis
  proof (cases "fn_register_count f = 0")
    case True
    then show ?thesis using uses t(1) by (fastforce simp: reads_defined_def)
  next
    case False
    then have "report_block ?block (ins ! b) = []"
      using verify_body_blocks(1) [OF assms(1)] loop(1) b reach by (auto simp: verify_register_definitions_def)
    then show ?thesis
      by (rule report_block_nil) (use flow_sound [OF loop(2,3) assms(2,3)] uses t(1) len in \<open>auto\<close>)
  qed
qed

section \<open>Two small functions\<close>

definition plain_span :: ir_span where
  "plain_span = \<lparr>span_file = 0, span_start = 0, span_end = 0\<rparr>"

definition plain_instruction :: "nat \<Rightarrow> operand instruction_kind \<Rightarrow> instruction" where
  "plain_instruction n kind = \<lparr>ins_id = n, ins_span = plain_span, ins_kind = kind\<rparr>"

definition plain_block :: "nat \<Rightarrow> operand instruction_kind list \<Rightarrow> operand terminator_kind \<Rightarrow> basic_block" where
  "plain_block b kinds kind = \<lparr>blk_id = b, blk_instructions = map (\<lambda>(n, k). plain_instruction n k) (enumerate 0 kinds),
     blk_terminator = Some \<lparr>term_span = plain_span, term_kind = kind\<rparr>\<rparr>"

definition plain_function :: "nat \<Rightarrow> basic_block list \<Rightarrow> ir_function" where
  "plain_function registers blocks = \<lparr>fn_name = ''main'', fn_params = [], fn_locals = [], fn_local_count = 0,
     fn_register_count = registers, fn_blocks = blocks, fn_span = plain_span,
     fn_flags = \<lparr>is_top_level = True, is_closure = False, is_method = False, is_static_closure = False, is_generator = False\<rparr>,
     fn_return_type = None, fn_returns_by_ref = False, fn_captures = [], fn_attributes = []\<rparr>"

definition plain_unit :: "ir_constant list \<Rightarrow> ir_function \<Rightarrow> ir_unit" where
  "plain_unit constants f = \<lparr>un_version = IR_VERSION, un_id = 0, un_constants = constants, un_functions = [f],
     un_function_table = [], un_constant_table = [], un_classes = [],
     un_files = [\<lparr>file_entry_id = 0, file_path = ''main.php''\<rparr>], un_linked_file_entries = [],
     un_linked_entry_autoload_declarations = [], un_file_strict_types = [], un_entry = 0, un_strict_types = False,
     un_source_map = []\<rparr>"

lemmas plain_defs = plain_span_def plain_instruction_def plain_block_def plain_function_def plain_unit_def IR_VERSION_def

lemma verify_plain_unit:
  "verify_unit (plain_unit constants f) = verify_function_body (plain_unit constants f) f"
  by (cases "verify_function_body (plain_unit constants f) f")
     (simp_all add: verify_unit_def verify_tables_def plain_unit_def)

definition branching :: ir_function where
  "branching = plain_function 1
     [plain_block 0 [Basic (LoadConst 0 0)] (JumpIf (Register 0) 1 2),
      plain_block 1 [Compute (Echo (Register 0))] (Jump 2),
      plain_block 2 [] (Return (Some (Register 0)) None)]"

definition falling :: ir_function where
  "falling = plain_function 2
     [plain_block 0 [Basic (LoadConst 0 0)] (JumpIfFalse (Register 0) 2),
      plain_block 1 [Compute (Echo (Register 1))] (Jump 2),
      plain_block 2 [] (Return None None)]"



lemma flow_loop_fixed:
  assumes "\<forall>i < length (fn_blocks f). reachable_blocks f ! i \<longrightarrow> next_in f outs i = ins ! i \<and> apply_register_defs (fn_blocks f ! i) (ins ! i) = outs ! i"
    "0 < fuel"
  shows "flow_loop fuel f (ins, outs) = Some (ins, outs)"
proof -
  have "fold (flow_block f) is (ins, outs, c) = (ins, outs, c)" if "\<forall>i \<in> set is. i < length (fn_blocks f)" for "is" c
    using that assms(1) by (induction "is") (auto simp: flow_block_def Let_def)
  then have "flow_turn f (ins, outs) = (ins, outs, False)" by (simp add: flow_turn_def)
  then show ?thesis using assms(2) by (cases fuel) simp_all
qed

lemma branching_flow:
  "reachable_blocks branching = [True, True, True]" "block_predecessors branching = [[], [0], [0, 1]]"
  by code_simp+

lemma falling_flow:
  "reachable_blocks falling = [True, False, True]" "block_predecessors falling = [[], [], [0, 1]]"
  by code_simp+

lemma branching_fields [simp]:
  "fn_blocks branching = [plain_block 0 [Basic (LoadConst 0 0)] (JumpIf (Register 0) 1 2),
      plain_block 1 [Compute (Echo (Register 0))] (Jump 2), plain_block 2 [] (Return (Some (Register 0)) None)]"
  "fn_register_count branching = 1"
  by (simp_all add: branching_def plain_function_def)

lemma falling_fields [simp]:
  "fn_blocks falling = [plain_block 0 [Basic (LoadConst 0 0)] (JumpIfFalse (Register 0) 2),
      plain_block 1 [Compute (Echo (Register 1))] (Jump 2), plain_block 2 [] (Return None None)]"
  "fn_register_count falling = 2"
  by (simp_all add: falling_def plain_function_def)

lemmas flow_eval = next_in_def intersect_predecessor_defs_def apply_edge_register_defs_def edge_undefined_def
  is_false_successor_def foreach_outputs_def apply_register_defs_def mark_instruction_defs_def
  branching_flow falling_flow plain_block_def plain_instruction_def flow_fuel_def less_Suc_eq numeral_3_eq_3

lemma branching_loop: "flow_loop (flow_fuel branching) branching (flow_start branching) = Some ([[False], [True], [True]], [[True], [True], [True]])"
proof -
  have "flow_start branching = ([[False], [True], [True]], [[True], [True], [True]])"
    by (simp add: flow_start_def flow_eval)
  moreover have "flow_loop (flow_fuel branching) branching ([[False], [True], [True]], [[True], [True], [True]]) =
      Some ([[False], [True], [True]], [[True], [True], [True]])"
    by (rule flow_loop_fixed) (auto simp: flow_eval)
  ultimately show ?thesis by simp
qed

lemma falling_loop: "flow_loop (flow_fuel falling) falling (flow_start falling) =
    Some ([[False, False], [True, True], [True, False]], [[True, False], [True, True], [True, False]])" (is "_ = Some (?ins, ?outs)")
proof -
  have "flow_turn falling (flow_start falling) = (?ins, ?outs, True)"
    by (simp add: flow_turn_def flow_start_def flow_block_def Let_def flow_eval numeral_2_eq_2)
  moreover have "flow_loop 6 falling (?ins, ?outs) = Some (?ins, ?outs)"
    by (rule flow_loop_fixed) (auto simp: flow_eval numeral_2_eq_2)
  moreover have "flow_fuel falling = Suc 6" by (simp add: flow_fuel_def)
  ultimately show ?thesis by (simp del: eval_nat_numeral Suc_numeral)
qed

lemma plain_accepted:
  assumes "f = plain_function n blocks" "verify_register_definitions f = Some []" "map blk_id blocks = [0..<length blocks]"
    "\<forall>b \<in> set blocks. verify_block (plain_unit constants f) f b = []"
  shows "verify_unit (plain_unit constants f) = Some []"
proof -
  have "blk_id (blocks ! i) = i" if "i < length blocks" for i
    using arg_cong [OF assms(3), of "\<lambda>ids. ids ! i"] that by simp
  then have "\<forall>(i, b) \<in> set (enumerate 0 blocks). verify_block_id (blk_id b) i @ verify_block (plain_unit constants f) f b = []"
    using assms(4) nth_mem [of _ blocks] by (fastforce simp: in_set_enumerate_eq verify_block_id_def)
  moreover have "verify_span (plain_unit constants f) plain_span = []" by (simp add: verify_span_def plain_span_def plain_unit_def)
  ultimately show ?thesis
    unfolding verify_plain_unit verify_function_body_def assms(2) using assms(1) by (auto simp: plain_function_def)
qed

lemma branching_accepted: "verify_unit (plain_unit [CBool True] branching) = Some []"
proof (rule plain_accepted [OF branching_def])
  show "verify_register_definitions branching = Some []"
    unfolding verify_register_definitions_def branching_loop
    by (simp add: report_block_def report_undefined_registers_def terminator_register_uses_def operand_register_uses_def flow_eval)
qed code_simp+

lemma falling_accepted: "verify_unit (plain_unit [CBool True] falling) = Some []"
proof (rule plain_accepted [OF falling_def])
  show "verify_register_definitions falling = Some []"
    unfolding verify_register_definitions_def falling_loop
    by (simp add: report_block_def report_undefined_registers_def terminator_register_uses_def operand_register_uses_def flow_eval)
qed code_simp+

section \<open>Properties\<close>

text \<open>C13. The verifier always returns: for every unit, whatever its functions and jumps, the data-flow loop reaches its
  fixed point within the number of blocks times the number of registers, and \<open>verify_unit\<close> has a list of errors.
\<close>

theorem verify_unit_returns: "\<exists>errors. verify_unit u = Some errors"
proof -
  have "\<exists>es. verify_function_body u f = Some es" for f
    using verify_register_definitions_returns [of f] by (auto simp: verify_function_body_def)
  then have "\<exists>ess. those (map (verify_function_body u) fs) = Some ess" for fs
  proof (induction fs)
    case (Cons f fs)
    then obtain es ess where "verify_function_body u f = Some es" "those (map (verify_function_body u) fs) = Some ess" by blast
    then show ?case by simp
  qed simp
  then show ?thesis by (auto simp: verify_unit_def)
qed



text \<open>C15. The block after a conditional jump is not checked. The verifier accepts a unit in which the first block loads
  \<open>true\<close> and ends in \<open>JumpIfFalse\<close>, and the block after it, where execution continues because the condition holds,
  reads a register that no instruction of the function defines: that block is not among the targets the verifier follows.
\<close>

theorem fall_through_unchecked:
  "verify_unit (plain_unit [CBool True] falling) = Some [] \<and>
   map_option term_kind (blk_terminator (fn_blocks falling ! 0)) = Some (JumpIfFalse (Register 0) 2) \<and>
   map ins_kind (blk_instructions (fn_blocks falling ! 0)) = [Basic (LoadConst 0 0)] \<and> un_constants (plain_unit [CBool True] falling) ! 0 = CBool True \<and>
   block_targets falling 0 = [2] \<and> reachable_blocks falling = [True, False, True] \<and>
   \<not> reads_defined (\<Union>b \<in> set (fn_blocks falling). block_defs (blk_instructions b)) (fn_blocks falling ! 1)"
proof -
  have "un_constants (plain_unit [CBool True] falling) = [CBool True]" by (simp add: plain_unit_def)
  then show ?thesis
    by (simp add: falling_accepted falling_flow block_targets_def terminator_targets_def reads_defined_def plain_block_def plain_instruction_def
        operand_register_uses_def)
qed

end
