(* ===== verification/Optimizer_Fold.thy ===== *)
theory Optimizer_Fold
  imports Native_Ops Ir_Verify_Proofs
begin

text \<open>
  Constant folding (\<open>crates/php_optimizer/src/passes/constant_folding.rs\<close> and \<open>analyses.rs\<close>): the pass over a unit as a
  function of the unit, with its statistics and the blocks it touches. The snapshots of the pass transaction only serve to
  undo it and are left out. The second half gives the blocks an execution, in which the operators are those of
  \<open>Native_Ops\<close> and every other instruction is a parameter, and shows that folding does not change it.
\<close>

section \<open>Registers an instruction writes\<close>

fun defined_registers :: "'o instruction_kind \<Rightarrow> reg_id list" where
  "defined_registers (Basic Nop) = []"
| "defined_registers (Basic (LoadConst dst _)) = [dst]"
| "defined_registers (Basic (FetchConst dst _ _)) = [dst]"
| "defined_registers (Basic (RegisterConstant _ _)) = []"
| "defined_registers (Basic (DeclareFunction _ _)) = []"
| "defined_registers (Basic (DeclareClass _)) = []"
| "defined_registers (Basic (Move dst _)) = [dst]"
| "defined_registers (Basic (LoadLocal dst _)) = [dst]"
| "defined_registers (Basic (LoadLocalQuiet dst _)) = [dst]"
| "defined_registers (Basic (StoreLocal _ _)) = []"
| "defined_registers (Binding (BindReference _ _)) = []"
| "defined_registers (Binding (BindGlobal _ _)) = []"
| "defined_registers (Binding (BindReferenceDim _ _ _ _)) = []"
| "defined_registers (Binding (BindReferenceProperty _ _ _)) = []"
| "defined_registers (Binding (BindReferencePropertyDim _ _ _ _ _)) = []"
| "defined_registers (Binding (BindReferenceDimFromProperty _ _ _ _ _)) = []"
| "defined_registers (Binding (BindReferenceFromProperty _ _ _)) = []"
| "defined_registers (Binding (BindReferenceFromPropertyDim _ _ _ _)) = []"
| "defined_registers (Binding (BindReferenceFromDim _ _ _)) = []"
| "defined_registers (Binding (BindReferenceFromStaticPropertyDim _ _ _ _)) = []"
| "defined_registers (Binding (BindReferenceStaticProperty _ _ _)) = []"
| "defined_registers (Binding (BindReferenceFromCall _ _ _)) = []"
| "defined_registers (Binding (BindReferenceFromMethodCall _ _ _ _)) = []"
| "defined_registers (Binding (InitStaticLocal _ _ _)) = []"
| "defined_registers (Compute (Binary dst _ _ _)) = [dst]"
| "defined_registers (Compute (Compare dst _ _ _)) = [dst]"
| "defined_registers (Compute (InstanceOf dst _ _)) = [dst]"
| "defined_registers (Compute (DynamicInstanceOf dst _ _)) = [dst]"
| "defined_registers (Compute (Unary dst _ _)) = [dst]"
| "defined_registers (Compute (Cast dst _ _)) = [dst]"
| "defined_registers (Compute (Discard _)) = []"
| "defined_registers (Compute (Echo _)) = []"
| "defined_registers (Compute (EmitDiagnostic _ _ _ _)) = []"
| "defined_registers (Compute (Yield dst _ _)) = [dst]"
| "defined_registers (Compute (YieldFrom dst _)) = [dst]"
| "defined_registers (Call (CallFunction dst _ _)) = [dst]"
| "defined_registers (Call (CallMethod dst _ _ _)) = [dst]"
| "defined_registers (Call (CallStaticMethod dst _ _ _)) = [dst]"
| "defined_registers (Call (CloneObject dst _)) = [dst]"
| "defined_registers (Call (CloneWith dst _ _)) = [dst]"
| "defined_registers (Call (EnterTry _ _ _ _ _)) = []"
| "defined_registers (Call LeaveTry) = []"
| "defined_registers (Call (EndFinally _)) = []"
| "defined_registers (Call (Throw _)) = []"
| "defined_registers (Call (MakeException dst _ _)) = [dst]"
| "defined_registers (Call (MakeClosure dst _ _)) = [dst]"
| "defined_registers (Call (CallClosure dst _ _)) = [dst]"
| "defined_registers (Call (ResolveCallable dst _)) = [dst]"
| "defined_registers (Call (AcquireCallable dst _)) = [dst]"
| "defined_registers (Call (CallCallable dst _ _)) = [dst]"
| "defined_registers (Call (Pipe dst _ _)) = [dst]"
| "defined_registers (Call (Include dst _ _)) = [dst]"
| "defined_registers (Call (Eval dst _)) = [dst]"
| "defined_registers (Call (NewObject dst _ _ _)) = [dst]"
| "defined_registers (Call (DynamicNewObject dst _ _)) = [dst]"
| "defined_registers (Property (FetchProperty dst _ _)) = [dst]"
| "defined_registers (Property (FetchDynamicProperty dst _ _)) = [dst]"
| "defined_registers (Property (IssetProperty dst _ _)) = [dst]"
| "defined_registers (Property (IssetDynamicProperty dst _ _)) = [dst]"
| "defined_registers (Property (EmptyProperty dst _ _)) = [dst]"
| "defined_registers (Property (EmptyDynamicProperty dst _ _)) = [dst]"
| "defined_registers (Property (IssetDynamicPropertyDim dst _ _ _)) = [dst]"
| "defined_registers (Property (EmptyDynamicPropertyDim dst _ _ _)) = [dst]"
| "defined_registers (Property (IssetPropertyDim dst _ _ _)) = [dst]"
| "defined_registers (Property (EmptyPropertyDim dst _ _ _)) = [dst]"
| "defined_registers (Property (UnsetProperty _ _)) = []"
| "defined_registers (Property (UnsetPropertyDim _ _ _)) = []"
| "defined_registers (Property (UnsetDynamicProperty _ _)) = []"
| "defined_registers (Property (UnsetDynamicPropertyDim _ _ _)) = []"
| "defined_registers (Member (FetchStaticProperty dst _ _)) = [dst]"
| "defined_registers (Member (FetchDynamicStaticProperty dst _ _)) = [dst]"
| "defined_registers (Member (IssetStaticProperty dst _ _)) = [dst]"
| "defined_registers (Member (EmptyStaticProperty dst _ _)) = [dst]"
| "defined_registers (Member (IssetStaticPropertyDim dst _ _ _)) = [dst]"
| "defined_registers (Member (EmptyStaticPropertyDim dst _ _ _)) = [dst]"
| "defined_registers (Member (UnsetStaticPropertyDim _ _ _)) = []"
| "defined_registers (Member (FetchClassConstant dst _ _)) = [dst]"
| "defined_registers (Member (FetchObjectClassName dst _)) = [dst]"
| "defined_registers (Member (AssignProperty dst _ _ _)) = [dst]"
| "defined_registers (Member (AssignPropertyDim dst _ _ _ _ _)) = [dst]"
| "defined_registers (Member (AssignDynamicProperty dst _ _ _)) = [dst]"
| "defined_registers (Member (AssignDynamicPropertyDim dst _ _ _ _ _)) = [dst]"
| "defined_registers (Member (AssignStaticProperty dst _ _ _)) = [dst]"
| "defined_registers (Member (AssignDynamicStaticProperty dst _ _ _)) = [dst]"
| "defined_registers (ArrayOp (NewArray dst)) = [dst]"
| "defined_registers (ArrayOp (ArrayInsert array _ _ _)) = [array]"
| "defined_registers (ArrayOp (ArraySpread array _)) = [array]"
| "defined_registers (ArrayOp (FetchDim dst _ _ _ _)) = [dst]"
| "defined_registers (ArrayOp (AssignDim dst _ _ _)) = [dst]"
| "defined_registers (ArrayOp (AppendDim dst _ _ _)) = [dst]"
| "defined_registers (ArrayOp (IssetLocal dst _)) = [dst]"
| "defined_registers (ArrayOp (EmptyLocal dst _)) = [dst]"
| "defined_registers (ArrayOp (UnsetLocal _)) = []"
| "defined_registers (ArrayOp (IssetDim dst _ _)) = [dst]"
| "defined_registers (ArrayOp (EmptyDim dst _ _)) = [dst]"
| "defined_registers (ArrayOp (UnsetDim _ _)) = []"
| "defined_registers (ArrayOp (ForeachInit iterator _)) = [iterator]"
| "defined_registers (ArrayOp (ForeachNext has_value iterator key value)) =
     [has_value] @ [iterator] @ [value] @ (case key of None \<Rightarrow> [] | Some x \<Rightarrow> [x])"
| "defined_registers (ArrayOp (ForeachCleanup _)) = []"
| "defined_registers (ArrayOp (ForeachInitRef iterator _)) = [iterator]"
| "defined_registers (ArrayOp (ForeachNextRef has_value iterator key _)) =
     [has_value] @ [iterator] @ (case key of None \<Rightarrow> [] | Some x \<Rightarrow> [x])"
| "defined_registers (ArrayOp (ArrayGet dst _ _)) = [dst]"
| "defined_registers (ArrayOp (RuntimeError _ _)) = []"

section \<open>Folding\<close>

datatype fold_kind = IntegerBinary | BoolNot | StringConcat | LiteralCompare

record folding_stats =
  integer_binary_folded :: nat
  bool_not_folded :: nat
  string_concat_folded :: nat
  literal_compare_folded :: nat
  skipped_non_literal :: nat
  skipped_unsafe :: nat

definition no_folding_stats :: folding_stats where
  "no_folding_stats = \<lparr>integer_binary_folded = 0, bool_not_folded = 0, string_concat_folded = 0, literal_compare_folded = 0,
     skipped_non_literal = 0, skipped_unsafe = 0\<rparr>"

definition record_fold :: "fold_kind \<Rightarrow> folding_stats \<Rightarrow> folding_stats" where
  "record_fold kind st = (case kind of
       IntegerBinary \<Rightarrow> st\<lparr>integer_binary_folded := integer_binary_folded st + 1\<rparr>
     | BoolNot \<Rightarrow> st\<lparr>bool_not_folded := bool_not_folded st + 1\<rparr>
     | StringConcat \<Rightarrow> st\<lparr>string_concat_folded := string_concat_folded st + 1\<rparr>
     | LiteralCompare \<Rightarrow> st\<lparr>literal_compare_folded := literal_compare_folded st + 1\<rparr>)"

definition total_folded :: "folding_stats \<Rightarrow> nat" where
  "total_folded st = integer_binary_folded st + bool_not_folded st + string_concat_folded st + literal_compare_folded st"

definition append_constant :: "ir_constant list \<Rightarrow> ir_constant \<Rightarrow> (const_id \<times> ir_constant list) option" where
  "append_constant constants c = map_option (\<lambda>index. (index, constants @ [c])) (try_u32 (length constants))"

definition resolve_constant :: "operand \<Rightarrow> (reg_id \<Rightarrow> const_id option) \<Rightarrow> const_id option" where
  "resolve_constant operand known = (case operand of Constant c \<Rightarrow> Some c | Register r \<Rightarrow> known r | Local _ \<Rightarrow> None)"

definition int_pair :: "ir_constant \<Rightarrow> ir_constant \<Rightarrow> (int \<times> int) option" where
  "int_pair lhs rhs = (case lhs of CInt l \<Rightarrow> (case rhs of CInt r \<Rightarrow> Some (l, r) | _ \<Rightarrow> None) | _ \<Rightarrow> None)"

definition string_pair :: "ir_constant \<Rightarrow> ir_constant \<Rightarrow> (string \<times> string) option" where
  "string_pair lhs rhs = (case lhs of CString l \<Rightarrow> (case rhs of CString r \<Rightarrow> Some (l, r) | _ \<Rightarrow> None) | _ \<Rightarrow> None)"

definition fold_integers :: "binary_op \<Rightarrow> int \<Rightarrow> int \<Rightarrow> int option" where
  "fold_integers op l r = (case op of
       BinaryAdd \<Rightarrow> checked_i64 (l + r) | BinarySub \<Rightarrow> checked_i64 (l - r) | BinaryMul \<Rightarrow> checked_i64 (l * r) | _ \<Rightarrow> None)"

type_synonym folded = "((const_id \<times> fold_kind) \<times> ir_constant list) option"

definition folded_to :: "ir_constant list \<Rightarrow> fold_kind \<Rightarrow> ir_constant option \<Rightarrow> folded" where
  "folded_to constants kind value = (case value of
       None \<Rightarrow> None
     | Some c \<Rightarrow> map_option (\<lambda>(constant, constants'). ((constant, kind), constants')) (append_constant constants c))"

definition fold_binary :: "binary_op \<Rightarrow> const_id \<Rightarrow> const_id \<Rightarrow> ir_constant list \<Rightarrow> folded" where
  "fold_binary op lhs rhs constants = (case get_at constants lhs of
       None \<Rightarrow> None
     | Some l \<Rightarrow>
         (case get_at constants rhs of
            None \<Rightarrow> None
          | Some r \<Rightarrow>
              if op = BinaryConcat then
                (case string_pair l r of
                   None \<Rightarrow> None
                 | Some (x, y) \<Rightarrow>
                     if length x + length y < 2 ^ 64 then folded_to constants StringConcat (Some (CString (x @ y))) else None)
              else
                (case int_pair l r of
                   None \<Rightarrow> None
                 | Some (x, y) \<Rightarrow> folded_to constants IntegerBinary (map_option CInt (fold_integers op x y)))))"

definition fold_unary :: "unary_op \<Rightarrow> const_id \<Rightarrow> ir_constant list \<Rightarrow> folded" where
  "fold_unary op src constants = (case get_at constants src of
       Some (CBool value) \<Rightarrow> if op = UnaryNot then folded_to constants BoolNot (Some (CBool (\<not> value))) else None
     | _ \<Rightarrow> None)"

definition strict_identity_scalar :: "ir_constant \<Rightarrow> bool" where
  "strict_identity_scalar c = (case c of
       CNull \<Rightarrow> True | CBool _ \<Rightarrow> True | CInt _ \<Rightarrow> True | CString _ \<Rightarrow> True | CStringBytes _ \<Rightarrow> True | _ \<Rightarrow> False)"

text \<open>The arms for two constants of one variant compare what they hold; two scalars of different variants differ.\<close>

definition strict_literal_identity :: "ir_constant \<Rightarrow> ir_constant \<Rightarrow> bool option" where
  "strict_literal_identity lhs rhs =
     (if strict_identity_scalar lhs \<and> strict_identity_scalar rhs then Some (lhs = rhs) else None)"

definition same_type_literal_equality :: "ir_constant \<Rightarrow> ir_constant \<Rightarrow> bool option" where
  "same_type_literal_equality lhs rhs = (case lhs of
       CNull \<Rightarrow> (case rhs of CNull \<Rightarrow> Some True | _ \<Rightarrow> None)
     | CBool l \<Rightarrow> (case rhs of CBool r \<Rightarrow> Some (l = r) | _ \<Rightarrow> None)
     | CInt l \<Rightarrow> (case rhs of CInt r \<Rightarrow> Some (l = r) | _ \<Rightarrow> None)
     | _ \<Rightarrow> None)"

definition compare_literals :: "compare_op \<Rightarrow> ir_constant \<Rightarrow> ir_constant \<Rightarrow> ir_constant option" where
  "compare_literals op lhs rhs = (case op of
       CompareIdentical \<Rightarrow> map_option CBool (strict_literal_identity lhs rhs)
     | CompareNotIdentical \<Rightarrow> map_option (CBool \<circ> Not) (strict_literal_identity lhs rhs)
     | CompareEqual \<Rightarrow> map_option CBool (same_type_literal_equality lhs rhs)
     | CompareNotEqual \<Rightarrow> map_option (CBool \<circ> Not) (same_type_literal_equality lhs rhs)
     | CompareLess \<Rightarrow> map_option (\<lambda>(l, r). CBool (l < r)) (int_pair lhs rhs)
     | CompareLessEqual \<Rightarrow> map_option (\<lambda>(l, r). CBool (l \<le> r)) (int_pair lhs rhs)
     | CompareGreater \<Rightarrow> map_option (\<lambda>(l, r). CBool (r < l)) (int_pair lhs rhs)
     | CompareGreaterEqual \<Rightarrow> map_option (\<lambda>(l, r). CBool (r \<le> l)) (int_pair lhs rhs)
     | CompareSpaceship \<Rightarrow> map_option (\<lambda>(l, r). CInt (if l < r then -1 else if l = r then 0 else 1)) (int_pair lhs rhs))"

definition fold_compare :: "compare_op \<Rightarrow> const_id \<Rightarrow> const_id \<Rightarrow> ir_constant list \<Rightarrow> folded" where
  "fold_compare op lhs rhs constants = (case get_at constants lhs of
       None \<Rightarrow> None
     | Some l \<Rightarrow>
         (case get_at constants rhs of
            None \<Rightarrow> None | Some r \<Rightarrow> folded_to constants LiteralCompare (compare_literals op l r)))"

section \<open>The pass\<close>

text \<open>What the loop over a block carries: the constant pool, the constants known to be in registers, and the counters.\<close>

record fold_state =
  fold_constants :: "ir_constant list"
  fold_known :: "reg_id \<Rightarrow> const_id option"
  fold_stats :: folding_stats

definition apply_fold ::
    "reg_id \<Rightarrow> (ir_constant list \<Rightarrow> folded) option \<Rightarrow> operand instruction_kind \<Rightarrow> fold_state \<Rightarrow> operand instruction_kind \<times> fold_state" where
  "apply_fold dst attempt kind st =
     (let st = st\<lparr>fold_known := (fold_known st)(dst := None)\<rparr> in case attempt of
        None \<Rightarrow> (kind, st\<lparr>fold_stats := (fold_stats st)\<lparr>skipped_non_literal := skipped_non_literal (fold_stats st) + 1\<rparr>\<rparr>)
      | Some f \<Rightarrow>
          (case f (fold_constants st) of
             None \<Rightarrow> (kind, st\<lparr>fold_stats := (fold_stats st)\<lparr>skipped_unsafe := skipped_unsafe (fold_stats st) + 1\<rparr>\<rparr>)
           | Some ((constant, folded), constants) \<Rightarrow>
               (Basic (LoadConst dst constant),
                st\<lparr>fold_constants := constants, fold_known := (fold_known st)(dst := Some constant),
                   fold_stats := record_fold folded (fold_stats st)\<rparr>)))"

definition both :: "('a \<Rightarrow> 'b \<Rightarrow> 'c) \<Rightarrow> 'a option \<Rightarrow> 'b option \<Rightarrow> 'c option" where
  "both f x y = (case x of None \<Rightarrow> None | Some a \<Rightarrow> (case y of None \<Rightarrow> None | Some b \<Rightarrow> Some (f a b)))"

text \<open>The operands are resolved after the destination has been forgotten, as the code does it.\<close>

definition fold_instruction :: "operand instruction_kind \<Rightarrow> fold_state \<Rightarrow> operand instruction_kind \<times> fold_state" where
  "fold_instruction kind st = (case kind of
       Basic (LoadConst dst constant) \<Rightarrow> (kind, st\<lparr>fold_known := (fold_known st)(dst := Some constant)\<rparr>)
     | Compute (Binary dst op lhs rhs) \<Rightarrow>
         (let known = (fold_known st)(dst := None)
          in apply_fold dst (both (fold_binary op) (resolve_constant lhs known) (resolve_constant rhs known)) kind st)
     | Compute (Compare dst op lhs rhs) \<Rightarrow>
         (let known = (fold_known st)(dst := None)
          in apply_fold dst (both (fold_compare op) (resolve_constant lhs known) (resolve_constant rhs known)) kind st)
     | Compute (Unary dst op src) \<Rightarrow>
         (let known = (fold_known st)(dst := None)
          in apply_fold dst (map_option (fold_unary op) (resolve_constant src known)) kind st)
     | _ \<Rightarrow> (kind, st\<lparr>fold_known := (\<lambda>r. if r \<in> set (defined_registers kind) then None else fold_known st r)\<rparr>))"

fun fold_instructions :: "instruction list \<Rightarrow> fold_state \<Rightarrow> instruction list \<times> fold_state" where
  "fold_instructions [] st = ([], st)"
| "fold_instructions (i # is) st =
     (let (kind, st) = fold_instruction (ins_kind i) st; (is, st) = fold_instructions is st
      in (i\<lparr>ins_kind := kind\<rparr> # is, st))"

text \<open>A block starts with no known constant; the counters and the pool go on to the next block.\<close>

type_synonym fold_totals = "ir_constant list \<times> folding_stats"

definition fold_block :: "basic_block \<Rightarrow> fold_totals \<Rightarrow> (basic_block \<times> bool) \<times> fold_totals" where
  "fold_block block totals =
     (let (instructions, st) = fold_instructions (blk_instructions block)
            \<lparr>fold_constants = fst totals, fold_known = (\<lambda>_. None), fold_stats = snd totals\<rparr>
      in ((block\<lparr>blk_instructions := instructions\<rparr>, total_folded (snd totals) < total_folded (fold_stats st)),
          (fold_constants st, fold_stats st)))"

fun fold_each :: "('a \<Rightarrow> 's \<Rightarrow> 'b \<times> 's) \<Rightarrow> 'a list \<Rightarrow> 's \<Rightarrow> 'b list \<times> 's" where
  "fold_each f [] s = ([], s)"
| "fold_each f (x # xs) s = (let (y, s) = f x s; (ys, s) = fold_each f xs s in (y # ys, s))"

definition is_foldable :: "'o instruction_kind \<Rightarrow> bool" where
  "is_foldable kind = (case kind of
       Compute (Binary _ _ _ _) \<Rightarrow> True | Compute (Compare _ _ _ _) \<Rightarrow> True | Compute (Unary _ _ _) \<Rightarrow> True | _ \<Rightarrow> False)"

definition function_may_fold :: "ir_function \<Rightarrow> bool" where
  "function_may_fold f = list_ex (\<lambda>block. list_ex (\<lambda>i. is_foldable (ins_kind i)) (blk_instructions block)) (fn_blocks f)"

text \<open>The function with its folded blocks, and the blocks that changed.\<close>

definition fold_function :: "ir_function \<Rightarrow> fold_totals \<Rightarrow> (ir_function \<times> nat list) \<times> fold_totals" where
  "fold_function f totals =
     (if \<not> function_may_fold f then ((f, []), totals)
      else
        let (blocks, totals) = fold_each fold_block (fn_blocks f) totals
        in ((f\<lparr>fn_blocks := map fst blocks\<rparr>, map fst (filter (snd \<circ> snd) (enumerate 0 blocks))), totals))"

text \<open>The unit after the pass, its counters, and the touched blocks as pairs of a function and a block.\<close>

definition constant_folding :: "ir_unit \<Rightarrow> ir_unit \<times> folding_stats \<times> (nat \<times> nat) list" where
  "constant_folding u =
     (let (functions, (constants, st)) = fold_each fold_function (un_functions u) (un_constants u, no_folding_stats)
      in (u\<lparr>un_functions := map fst functions, un_constants := (if 0 < total_folded st then constants else un_constants u)\<rparr>, st,
          concat (map (\<lambda>(index, (_, blocks)). map (Pair index) blocks) (enumerate 0 functions))))"

end
