(* ===== verification/Optimizer_Fold_Proofs.thy ===== *)
theory Optimizer_Fold_Proofs
  imports Optimizer_Fold "HOL-Library.Sublist"
begin

text \<open>
  Constant folding does not change what a block does. Execution of a block: an operator instruction evaluates its operands
  and applies the operator of \<open>Native_Ops\<close>; what any other instruction does to the registers and to the rest of the
  machine is a parameter, which gets the instruction with the values of its operands. All that is asked of it is that it
  writes no register but those that \<open>defined_registers\<close> names.
\<close>

section \<open>Execution of a block\<close>

primrec native_unary :: "unary_op \<Rightarrow> native_unary_op" where
  "native_unary UnaryPlus = NuPlus"
| "native_unary UnaryMinus = NuMinus"
| "native_unary UnaryNot = NuNot"
| "native_unary UnaryBitNot = NuBitNot"

primrec native_binary :: "binary_op \<Rightarrow> native_binary_op" where
  "native_binary BinaryAdd = NbAdd"
| "native_binary BinarySub = NbSub"
| "native_binary BinaryMul = NbMul"
| "native_binary BinaryDiv = NbDiv"
| "native_binary BinaryMod = NbMod"
| "native_binary BinaryConcat = NbConcat"
| "native_binary BinaryPow = NbPow"
| "native_binary BinaryBitAnd = NbBitAnd"
| "native_binary BinaryBitOr = NbBitOr"
| "native_binary BinaryBitXor = NbBitXor"
| "native_binary BinaryShiftLeft = NbShiftLeft"
| "native_binary BinaryShiftRight = NbShiftRight"

primrec native_compare :: "compare_op \<Rightarrow> native_compare_op" where
  "native_compare CompareEqual = NcEqual"
| "native_compare CompareNotEqual = NcNotEqual"
| "native_compare CompareIdentical = NcIdentical"
| "native_compare CompareNotIdentical = NcNotIdentical"
| "native_compare CompareLess = NcLess"
| "native_compare CompareLessEqual = NcLessEqual"
| "native_compare CompareGreater = NcGreater"
| "native_compare CompareGreaterEqual = NcGreaterEqual"
| "native_compare CompareSpaceship = NcSpaceship"

type_synonym 's machine = "(reg_id \<Rightarrow> php_value) \<times> 's"

text \<open>The parameters: the operators, the value of a local, the value of a constant that is no scalar, and every instruction
  but a load of a constant and the operators.\<close>

record 's execution =
  ex_operators :: operator_env
  ex_local :: "'s \<Rightarrow> local_id \<Rightarrow> php_value"
  ex_constant :: "ir_constant \<Rightarrow> php_value"
  ex_other :: "php_value instruction_kind \<Rightarrow> 's machine \<Rightarrow> 's machine op_result"

definition constant_value :: "'s execution \<Rightarrow> ir_constant \<Rightarrow> php_value" where
  "constant_value E c = (case c of
       CNull \<Rightarrow> VNull | CBool b \<Rightarrow> VBool b | CInt i \<Rightarrow> VInt i | CFloat x \<Rightarrow> VFloat x | CString s \<Rightarrow> VString s | CStringBytes s \<Rightarrow> VString s
     | _ \<Rightarrow> ex_constant E c)"

definition operand_value :: "'s execution \<Rightarrow> ir_constant list \<Rightarrow> 's machine \<Rightarrow> operand \<Rightarrow> php_value" where
  "operand_value E constants m operand = (case operand of
       Register r \<Rightarrow> fst m r | Local l \<Rightarrow> ex_local E (snd m) l | Constant c \<Rightarrow> constant_value E (constants ! c))"

definition write_register :: "reg_id \<Rightarrow> 's machine \<Rightarrow> php_value op_result \<Rightarrow> 's machine op_result" where
  "write_register dst m result = op_map (\<lambda>v. ((fst m)(dst := v), snd m)) result"

definition run_instruction :: "nat \<Rightarrow> 's execution \<Rightarrow> ir_constant list \<Rightarrow> operand instruction_kind \<Rightarrow> 's machine \<Rightarrow> 's machine op_result" where
  "run_instruction n E constants kind m = (let value = operand_value E constants m in case kind of
       Basic (LoadConst dst c) \<Rightarrow> write_register dst m (OpOk (constant_value E (constants ! c)))
     | Compute (Binary dst op lhs rhs) \<Rightarrow>
         write_register dst m (binary_result n (ex_operators E) (native_binary op) (value lhs) (value rhs))
     | Compute (Compare dst op lhs rhs) \<Rightarrow>
         write_register dst m (compare_result n (ex_operators E) (native_compare op) (value lhs) (value rhs))
     | Compute (Unary dst op src) \<Rightarrow> write_register dst m (unary_result n (ex_operators E) (native_unary op) (value src))
     | _ \<Rightarrow> ex_other E (map_instruction_kind value kind) m)"

primrec run_instructions :: "nat \<Rightarrow> 's execution \<Rightarrow> ir_constant list \<Rightarrow> instruction list \<Rightarrow> 's machine \<Rightarrow> 's machine op_result" where
  "run_instructions n E constants [] m = OpOk m"
| "run_instructions n E constants (i # is) m =
     op_bind (run_instruction n E constants (ins_kind i) m) (run_instructions n E constants is)"

definition writes_only_defined :: "'s execution \<Rightarrow> bool" where
  "writes_only_defined E \<longleftrightarrow> (\<forall>kind m m' r. ex_other E kind m = OpOk m' \<longrightarrow> r \<notin> set (defined_registers kind) \<longrightarrow> fst m' r = fst m r)"

text \<open>String constants: \<open>String\<close> holds UTF-8, and \<open>StringBytes\<close> holds what is not.\<close>

definition scalar_encoding :: "bytes \<Rightarrow> bool" where
  "scalar_encoding s = (case map (of_char :: char \<Rightarrow> nat) s of
       [a] \<Rightarrow> a < 0x80
     | [a, b] \<Rightarrow> 0xC2 \<le> a \<and> a \<le> 0xDF \<and> 0x80 \<le> b \<and> b \<le> 0xBF
     | [a, b, c] \<Rightarrow> 0xE0 \<le> a \<and> a \<le> 0xEF \<and> (if a = 0xE0 then 0xA0 else 0x80) \<le> b \<and> b \<le> (if a = 0xED then 0x9F else 0xBF) \<and>
         0x80 \<le> c \<and> c \<le> 0xBF
     | [a, b, c, d] \<Rightarrow> 0xF0 \<le> a \<and> a \<le> 0xF4 \<and> (if a = 0xF0 then 0x90 else 0x80) \<le> b \<and> b \<le> (if a = 0xF4 then 0x8F else 0xBF) \<and>
         0x80 \<le> c \<and> c \<le> 0xBF \<and> 0x80 \<le> d \<and> d \<le> 0xBF
     | _ \<Rightarrow> False)"

definition utf8 :: "bytes \<Rightarrow> bool" where
  "utf8 s \<longleftrightarrow> (\<exists>scalars. s = concat scalars \<and> (\<forall>c \<in> set scalars. scalar_encoding c))"

definition well_encoded :: "ir_constant list \<Rightarrow> bool" where
  "well_encoded constants \<longleftrightarrow> (\<forall>c \<in> set constants. case c of CString s \<Rightarrow> utf8 s | CStringBytes s \<Rightarrow> \<not> utf8 s | _ \<Rightarrow> True)"

section \<open>Folded values\<close>

lemma utf8_append: "utf8 s \<Longrightarrow> utf8 t \<Longrightarrow> utf8 (s @ t)"
  unfolding utf8_def by (metis Un_iff concat_append set_append)

lemma folded_toD:
  assumes "folded_to constants kind value = Some ((c, kind'), constants')"
  shows "\<exists>v. value = Some v \<and> c = length constants \<and> constants' = constants @ [v] \<and> kind' = kind"
  using assms by (auto simp: folded_to_def append_constant_def try_u32_def split: option.splits if_splits)

lemma int_pairD: "int_pair l r = Some (x, y) \<Longrightarrow> l = CInt x \<and> r = CInt y"
  by (auto simp: int_pair_def split: ir_constant.splits)

lemma string_pairD: "string_pair l r = Some (x, y) \<Longrightarrow> l = CString x \<and> r = CString y"
  by (auto simp: string_pair_def split: ir_constant.splits)

lemma fold_binaryD:
  assumes "fold_binary op lhs rhs constants = Some ((c, kind), constants')"
  shows "\<exists>l r v. get_at constants lhs = Some l \<and> get_at constants rhs = Some r \<and> c = length constants \<and> constants' = constants @ [v] \<and>
    (\<forall>n E. binary_result n (ex_operators E) (native_binary op) (constant_value E l) (constant_value E r) = OpOk (constant_value E v)) \<and>
    (well_encoded constants \<longrightarrow> well_encoded constants')"
proof -
  obtain l r where lr: "get_at constants lhs = Some l" "get_at constants rhs = Some r"
    using assms by (auto simp: fold_binary_def split: option.splits)
  have mem: "l \<in> set constants" "r \<in> set constants" using lr by (auto simp: get_at_Some_iff)
  show ?thesis
  proof (cases "op = BinaryConcat")
    case True
    then obtain x y where xy: "string_pair l r = Some (x, y)" "folded_to constants StringConcat (Some (CString (x @ y))) = Some ((c, kind), constants')"
      using assms lr by (auto simp: fold_binary_def split: option.splits if_splits)
    have "l = CString x" "r = CString y" using string_pairD [OF xy(1)] by auto
    then show ?thesis
      using folded_toD [OF xy(2)] lr mem True utf8_append
      by (force simp: binary_result_def constant_value_def to_string_def well_encoded_def)
  next
    case False
    then obtain x y where xy: "int_pair l r = Some (x, y)"
      "folded_to constants IntegerBinary (map_option CInt (fold_integers op x y)) = Some ((c, kind), constants')"
      using assms lr by (auto simp: fold_binary_def split: option.splits if_splits)
    obtain z where z: "fold_integers op x y = Some z" "c = length constants" "constants' = constants @ [CInt z]"
      using folded_toD [OF xy(2)] by auto
    have "binary_result n X (native_binary op) (VInt x) (VInt y) = OpOk (VInt z)" for n X
      using z(1) by (cases op) (simp_all add: fold_integers_def binary_result_ints native_arithmetic_def checked_numeric_def)
    then show ?thesis using int_pairD [OF xy(1)] z lr by (auto simp: constant_value_def well_encoded_def)
  qed
qed

lemma fold_unaryD:
  assumes "fold_unary op src constants = Some ((c, kind), constants')"
  shows "\<exists>x v. get_at constants src = Some x \<and> c = length constants \<and> constants' = constants @ [v] \<and>
    (\<forall>n E. unary_result n (ex_operators E) (native_unary op) (constant_value E x) = OpOk (constant_value E v)) \<and>
    (well_encoded constants \<longrightarrow> well_encoded constants')"
proof -
  obtain b where b: "get_at constants src = Some (CBool b)" "op = UnaryNot" "folded_to constants BoolNot (Some (CBool (\<not> b))) = Some ((c, kind), constants')"
    using assms by (auto simp: fold_unary_def split: option.splits ir_constant.splits if_splits)
  then show ?thesis using folded_toD [OF b(3)] by (auto simp: unary_result_def constant_value_def to_bool_def well_encoded_def)
qed

lemma identical_scalars:
  assumes "strict_identity_scalar l" "strict_identity_scalar r" "\<And>s t. {l, r} = {CString s, CStringBytes t} \<Longrightarrow> s \<noteq> t"
  shows "identical (Suc n) V (constant_value E l) (constant_value E r) = OpOk (l = r)"
  using assms by (cases l; cases r) (auto simp: strict_identity_scalar_def constant_value_def reference_of_def identical_plain_def)

lemma equal_scalars:
  assumes "same_type_literal_equality l r = Some b"
  shows "equal_values (Suc (Suc n)) V (constant_value E l) (constant_value E r) = OpOk b"
  using assms
  by (cases l; cases r)
     (auto simp: same_type_literal_equality_def constant_value_def equal_plain_def is_bool_or_null_def compare_plain_def reference_of_def
        string_of_def is_bool_value_def compare_truth_def to_bool_def cmp_bool_def compare_scalars_def is_number_def to_number_def
        compare_numbers_def cmp_int_def array_of_def object_of_def resource_of_def)

lemma compare_ints: "compare_values (Suc n) V (VInt x) (VInt y) = OpOk (cmp_int x y)"
  by (simp add: compare_plain_def reference_of_def string_of_def is_bool_value_def compare_scalars_def is_number_def to_number_def compare_numbers_def)

lemma well_encodedD:
  "well_encoded constants \<Longrightarrow> CString s \<in> set constants \<Longrightarrow> utf8 s"
  "well_encoded constants \<Longrightarrow> CStringBytes s \<in> set constants \<Longrightarrow> \<not> utf8 s"
  unfolding well_encoded_def by (drule (1) bspec, simp)+

lemma fold_compareD:
  assumes "fold_compare op lhs rhs constants = Some ((c, kind), constants')" "well_encoded constants"
  shows "\<exists>l r v. get_at constants lhs = Some l \<and> get_at constants rhs = Some r \<and> c = length constants \<and> constants' = constants @ [v] \<and>
    (\<forall>n E. compare_result (Suc (Suc n)) (ex_operators E) (native_compare op) (constant_value E l) (constant_value E r) = OpOk (constant_value E v)) \<and>
    well_encoded constants'"
proof -
  obtain l r where lr: "get_at constants lhs = Some l" "get_at constants rhs = Some r"
    "folded_to constants LiteralCompare (compare_literals op l r) = Some ((c, kind), constants')"
    using assms by (auto simp: fold_compare_def split: option.splits)
  obtain v where v: "compare_literals op l r = Some v" "c = length constants" "constants' = constants @ [v]" using folded_toD [OF lr(3)] by blast
  have mem: "l \<in> set constants" "r \<in> set constants" using lr by (auto simp: get_at_Some_iff)
  have "s \<noteq> t" if "{l, r} = {CString s, CStringBytes t}" for s t
  proof
    assume "s = t"
    then have "CString t \<in> set constants" "CStringBytes t \<in> set constants" using mem that by (auto simp: doubleton_eq_iff)
    then show False using well_encodedD [OF assms(2)] by blast
  qed
  then have same: "identical (Suc n) V (constant_value E l) (constant_value E r) = OpOk b" if "strict_literal_identity l r = Some b" for n V b and E :: "'a execution"
    using that identical_scalars [of l r n V E] by (auto simp: strict_literal_identity_def split: if_splits)
  have equal: "equal_values (Suc (Suc n)) V (constant_value E l) (constant_value E r) = OpOk b" if "same_type_literal_equality l r = Some b" for n V b and E :: "'a execution"
    using equal_scalars [OF that] .
  have unordered: "numeric_comparison_is_unordered n V (VInt x) (VInt y) = OpOk False" for n V x y
    by (simp add: numeric_comparison_is_unordered_def)
  have "\<forall>n (E :: 'a execution). compare_result (Suc (Suc n)) (ex_operators E) (native_compare op) (constant_value E l) (constant_value E r) = OpOk (constant_value E v)"
    using v(1) same equal compare_ints unordered
    by (cases op) (auto simp: compare_literals_def compare_result_def constant_value_def [of _ "CBool _"] constant_value_def [of _ "CInt _"]
        cmp_int_def dest!: int_pairD simp del: identical.simps equal_values.simps compare_values.simps)
  moreover have "\<forall>c \<in> set [v]. case c of CString s \<Rightarrow> utf8 s | CStringBytes s \<Rightarrow> \<not> utf8 s | _ \<Rightarrow> True"
    using v(1) by (cases op) (auto simp: compare_literals_def)
  ultimately show ?thesis using lr v(2,3) assms(2) by (auto simp: well_encoded_def)
qed

section \<open>A folded block runs as before\<close>

lemma defined_registers_map [simp]: "defined_registers (map_instruction_kind f k) = defined_registers k"
  by (induction k rule: defined_registers.induct) auto

text \<open>Every known constant is in its register.\<close>

definition known_ok :: "'s execution \<Rightarrow> ir_constant list \<Rightarrow> (reg_id \<Rightarrow> const_id option) \<Rightarrow> 's machine \<Rightarrow> bool" where
  "known_ok E C known m \<longleftrightarrow> (\<forall>r c. known r = Some c \<longrightarrow> fst m r = constant_value E (C ! c))"

lemma get_at_prefix: "get_at xs i = Some x \<Longrightarrow> prefix xs ys \<Longrightarrow> ys ! i = x"
  by (auto simp: get_at_Some_iff prefix_def nth_append)

lemma resolved_value:
  "resolve_constant x known = Some c \<Longrightarrow> known_ok E C known m \<Longrightarrow> operand_value E C m x = constant_value E (C ! c)"
  by (auto simp: resolve_constant_def operand_value_def known_ok_def split: operand.splits)

lemma known_ok_forget: "known_ok E C known m \<Longrightarrow> known_ok E C (known(dst := None)) m"
  by (simp add: known_ok_def)

lemma known_ok_write: "known_ok E C known m \<Longrightarrow> known_ok E C (known(dst := None)) ((fst m)(dst := v), snd m)"
  by (simp add: known_ok_def)

text \<open>What folding an operator does, whatever the operator: \<open>result\<close> is what it computes.\<close>

lemma apply_fold:
  assumes "apply_fold dst attempt kind st = (kind', st')" "known_ok E C (fold_known st) m" "well_encoded (fold_constants st)"
    and run: "run_instruction n E C kind m = write_register dst m result"
    and fold: "\<And>g c folded constants. attempt = Some g \<Longrightarrow> g (fold_constants st) = Some ((c, folded), constants) \<Longrightarrow>
      \<exists>v. c = length (fold_constants st) \<and> constants = fold_constants st @ [v] \<and> well_encoded constants \<and>
        (prefix (fold_constants st) C \<longrightarrow> result = OpOk (constant_value E v))"
    and "prefix (fold_constants st') C"
  shows "prefix (fold_constants st) (fold_constants st') \<and> well_encoded (fold_constants st') \<and>
    run_instruction n E C kind' m = run_instruction n E C kind m \<and>
    (\<forall>m'. run_instruction n E C kind m = OpOk m' \<longrightarrow> known_ok E C (fold_known st') m')"
proof (cases "\<exists>g c folded constants. attempt = Some g \<and> g (fold_constants st) = Some ((c, folded), constants)")
  case True
  then obtain g c folded constants where g: "attempt = Some g" "g (fold_constants st) = Some ((c, folded), constants)" by blast
  obtain v where v: "c = length (fold_constants st)" "constants = fold_constants st @ [v]" "well_encoded constants"
    "prefix (fold_constants st) C \<longrightarrow> result = OpOk (constant_value E v)" using fold [OF g] by blast
  have st': "kind' = Basic (LoadConst dst c)" "fold_constants st' = constants" "fold_known st' = (fold_known st)(dst := Some c)"
    using assms(1) g by (auto simp: apply_fold_def)
  have C: "prefix (fold_constants st) C" "C ! c = v" using assms(6) st'(2) v(1,2) by (auto simp: prefix_def)
  have "result = OpOk (constant_value E v)" using v(4) C(1) by simp
  with C(2) show ?thesis using st' v assms(2) run
    by (auto simp: run_instruction_def Let_def write_register_def known_ok_def)
next
  case False
  then have "kind' = kind" "fold_constants st' = fold_constants st" "fold_known st' = (fold_known st)(dst := None)"
    using assms(1) by (auto simp: apply_fold_def Let_def split: option.splits)
  with assms(2,3) run show ?thesis
    by (cases result) (auto simp: write_register_def known_ok_def)
qed

lemma bothD: "both f x y = Some g \<Longrightarrow> \<exists>a b. x = Some a \<and> y = Some b \<and> g = f a b"
  by (auto simp: both_def split: option.splits)

lemma not_operator:
  assumes "\<not> is_foldable kind" "\<And>dst c. kind \<noteq> Basic (LoadConst dst c)"
  shows "fold_instruction kind st = (kind, st\<lparr>fold_known := (\<lambda>r. if r \<in> set (defined_registers kind) then None else fold_known st r)\<rparr>) \<and>
    run_instruction n E C kind m = ex_other E (map_instruction_kind (operand_value E C m) kind) m"
proof (cases kind)
  case (Basic b)
  then show ?thesis using assms by (cases b) (simp_all add: fold_instruction_def run_instruction_def Let_def)
next
  case (Compute b)
  then show ?thesis using assms by (cases b) (simp_all add: fold_instruction_def run_instruction_def Let_def is_foldable_def)
qed (simp_all add: fold_instruction_def run_instruction_def Let_def)

lemma is_foldableE:
  assumes "is_foldable kind"
  obtains (binary) dst op lhs rhs where "kind = Compute (Binary dst op lhs rhs)"
    | (compare) dst op lhs rhs where "kind = Compute (Compare dst op lhs rhs)"
    | (unary) dst op src where "kind = Compute (Unary dst op src)"
  using assms by (cases kind) (auto simp: is_foldable_def split: compute_instruction.splits)

lemma fold_instruction:
  assumes "fold_instruction kind st = (kind', st')" "known_ok E C (fold_known st) m" "well_encoded (fold_constants st)"
    "prefix (fold_constants st') C" "writes_only_defined E"
  shows "prefix (fold_constants st) (fold_constants st') \<and> well_encoded (fold_constants st') \<and>
    run_instruction (Suc (Suc n)) E C kind' m = run_instruction (Suc (Suc n)) E C kind m \<and>
    (\<forall>m'. run_instruction (Suc (Suc n)) E C kind m = OpOk m' \<longrightarrow> known_ok E C (fold_known st') m')"
proof -
  note forget = resolved_value [OF _ known_ok_forget [OF assms(2)]]
  show ?thesis
  proof (cases "is_foldable kind")
    case True
    then show ?thesis
    proof (cases rule: is_foldableE)
    case (binary dst op lhs rhs)
    let ?known = "(fold_known st)(dst := None)"
    show ?thesis
    proof (rule apply_fold [OF _ assms(2,3) _ _ assms(4)])
      show "apply_fold dst (both (fold_binary op) (resolve_constant lhs ?known) (resolve_constant rhs ?known)) kind st = (kind', st')"
        using assms(1) binary by (simp add: fold_instruction_def Let_def)
      show "run_instruction (Suc (Suc n)) E C kind m = write_register dst m
          (binary_result (Suc (Suc n)) (ex_operators E) (native_binary op) (operand_value E C m lhs) (operand_value E C m rhs))"
        by (simp add: binary run_instruction_def Let_def)
      fix g c folded constants
      assume g: "both (fold_binary op) (resolve_constant lhs ?known) (resolve_constant rhs ?known) = Some g" "g (fold_constants st) = Some ((c, folded), constants)"
      then obtain a b where ab: "resolve_constant lhs ?known = Some a" "resolve_constant rhs ?known = Some b" "g = fold_binary op a b"
        "fold_binary op a b (fold_constants st) = Some ((c, folded), constants)" by (metis bothD)
      obtain l r v where v: "get_at (fold_constants st) a = Some l" "get_at (fold_constants st) b = Some r" "c = length (fold_constants st)"
        "constants = fold_constants st @ [v]" "well_encoded constants"
        "binary_result (Suc (Suc n)) (ex_operators E) (native_binary op) (constant_value E l) (constant_value E r) = OpOk (constant_value E v)"
        using fold_binaryD [OF ab(4)] assms(3) by blast
      show "\<exists>v. c = length (fold_constants st) \<and> constants = fold_constants st @ [v] \<and> well_encoded constants \<and>
          (prefix (fold_constants st) C \<longrightarrow> binary_result (Suc (Suc n)) (ex_operators E) (native_binary op) (operand_value E C m lhs) (operand_value E C m rhs) =
             OpOk (constant_value E v))"
        using v forget [OF ab(1)] forget [OF ab(2)] get_at_prefix [OF v(1)] get_at_prefix [OF v(2)] by (intro exI [of _ v]) simp
    qed
  next
    case (compare dst op lhs rhs)
    let ?known = "(fold_known st)(dst := None)"
    show ?thesis
    proof (rule apply_fold [OF _ assms(2,3) _ _ assms(4)])
      show "apply_fold dst (both (fold_compare op) (resolve_constant lhs ?known) (resolve_constant rhs ?known)) kind st = (kind', st')"
        using assms(1) compare by (simp add: fold_instruction_def Let_def)
      show "run_instruction (Suc (Suc n)) E C kind m = write_register dst m
          (compare_result (Suc (Suc n)) (ex_operators E) (native_compare op) (operand_value E C m lhs) (operand_value E C m rhs))"
        by (simp add: compare run_instruction_def Let_def)
      fix g c folded constants
      assume g: "both (fold_compare op) (resolve_constant lhs ?known) (resolve_constant rhs ?known) = Some g" "g (fold_constants st) = Some ((c, folded), constants)"
      then obtain a b where ab: "resolve_constant lhs ?known = Some a" "resolve_constant rhs ?known = Some b" "g = fold_compare op a b"
        "fold_compare op a b (fold_constants st) = Some ((c, folded), constants)" by (metis bothD)
      obtain l r v where v: "get_at (fold_constants st) a = Some l" "get_at (fold_constants st) b = Some r" "c = length (fold_constants st)"
        "constants = fold_constants st @ [v]" "well_encoded constants"
        "compare_result (Suc (Suc n)) (ex_operators E) (native_compare op) (constant_value E l) (constant_value E r) = OpOk (constant_value E v)"
        using fold_compareD [OF ab(4) assms(3)] assms(3) by blast
      show "\<exists>v. c = length (fold_constants st) \<and> constants = fold_constants st @ [v] \<and> well_encoded constants \<and>
          (prefix (fold_constants st) C \<longrightarrow> compare_result (Suc (Suc n)) (ex_operators E) (native_compare op) (operand_value E C m lhs) (operand_value E C m rhs) =
             OpOk (constant_value E v))"
        using v forget [OF ab(1)] forget [OF ab(2)] get_at_prefix [OF v(1)] get_at_prefix [OF v(2)] by (intro exI [of _ v]) simp
    qed
  next
    case (unary dst op src)
    let ?known = "(fold_known st)(dst := None)"
    show ?thesis
    proof (rule apply_fold [OF _ assms(2,3) _ _ assms(4)])
      show "apply_fold dst (map_option (fold_unary op) (resolve_constant src ?known)) kind st = (kind', st')"
        using assms(1) unary by (simp add: fold_instruction_def Let_def)
      show "run_instruction (Suc (Suc n)) E C kind m = write_register dst m
          (unary_result (Suc (Suc n)) (ex_operators E) (native_unary op) (operand_value E C m src))"
        by (simp add: unary run_instruction_def Let_def)
      fix g c folded constants
      assume g: "map_option (fold_unary op) (resolve_constant src ?known) = Some g" "g (fold_constants st) = Some ((c, folded), constants)"
      then obtain a where a: "resolve_constant src ?known = Some a" "fold_unary op a (fold_constants st) = Some ((c, folded), constants)" by auto
      obtain x v where v: "get_at (fold_constants st) a = Some x" "c = length (fold_constants st)"
        "constants = fold_constants st @ [v]" "well_encoded constants"
        "unary_result (Suc (Suc n)) (ex_operators E) (native_unary op) (constant_value E x) = OpOk (constant_value E v)"
        using fold_unaryD [OF a(2)] assms(3) by blast
      show "\<exists>v. c = length (fold_constants st) \<and> constants = fold_constants st @ [v] \<and> well_encoded constants \<and>
          (prefix (fold_constants st) C \<longrightarrow> unary_result (Suc (Suc n)) (ex_operators E) (native_unary op) (operand_value E C m src) =
             OpOk (constant_value E v))"
        using v forget [OF a(1)] get_at_prefix [OF v(1)] by (intro exI [of _ v]) simp
    qed
    qed
  next
    case False
    show ?thesis
    proof (cases "\<exists>dst c. kind = Basic (LoadConst dst c)")
      case True
      then show ?thesis using assms(1,2,3) by (auto simp: fold_instruction_def run_instruction_def Let_def write_register_def known_ok_def)
    next
      case other: False
      have plain: "kind' = kind" "fold_constants st' = fold_constants st"
        "fold_known st' = (\<lambda>r. if r \<in> set (defined_registers kind) then None else fold_known st r)"
        "run_instruction (Suc (Suc n)) E C kind m = ex_other E (map_instruction_kind (operand_value E C m) kind) m"
        using assms(1) not_operator [OF False, of st "Suc (Suc n)" E C m] other by auto
      have "known_ok E C (fold_known st') m'" if "ex_other E (map_instruction_kind (operand_value E C m) kind) m = OpOk m'" for m'
        unfolding known_ok_def plain(3)
      proof (intro allI impI)
        fix r c assume known: "(if r \<in> set (defined_registers kind) then None else fold_known st r) = Some c"
        then have "r \<notin> set (defined_registers (map_instruction_kind (operand_value E C m) kind))" by (auto split: if_splits)
        with assms(5) that have "fst m' r = fst m r" unfolding writes_only_defined_def by blast
        with known assms(2) show "fst m' r = constant_value E (C ! c)" by (auto simp: known_ok_def split: if_splits)
      qed
      with assms(3) show ?thesis unfolding plain by blast
    qed
  qed
qed

section \<open>The pool grows with the counters\<close>

definition pool_grows :: "fold_totals \<Rightarrow> fold_totals \<Rightarrow> bool" where
  "pool_grows s s' \<longleftrightarrow> prefix (fst s) (fst s') \<and> length (fst s') + total_folded (snd s) = length (fst s) + total_folded (snd s') \<and>
     (well_encoded (fst s) \<longrightarrow> well_encoded (fst s'))"

definition totals_of :: "fold_state \<Rightarrow> fold_totals" where
  "totals_of st = (fold_constants st, fold_stats st)"

lemma pool_grows_refl [simp]: "pool_grows s s"
  by (simp add: pool_grows_def)

lemma pool_grows_trans: "pool_grows s t \<Longrightarrow> pool_grows t u \<Longrightarrow> pool_grows s u"
  by (auto simp: pool_grows_def dest: prefix_order.trans)

lemma total_record_fold [simp]: "total_folded (record_fold kind st) = total_folded st + 1"
  by (cases kind) (simp_all add: total_folded_def record_fold_def)

lemma total_skipped [simp]:
  "total_folded (st\<lparr>skipped_non_literal := k\<rparr>) = total_folded st" "total_folded (st\<lparr>skipped_unsafe := k\<rparr>) = total_folded st"
  by (simp_all add: total_folded_def)

definition appended :: "ir_constant list \<Rightarrow> ir_constant list \<Rightarrow> bool" where
  "appended constants constants' \<longleftrightarrow> (\<exists>v. constants' = constants @ [v]) \<and> (well_encoded constants \<longrightarrow> well_encoded constants')"

lemma folds_append:
  "fold_binary op a b constants = Some ((c, kind), constants') \<Longrightarrow> appended constants constants'"
  "fold_compare cop a b constants = Some ((c, kind), constants') \<Longrightarrow> appended constants constants'"
  "fold_unary uop a constants = Some ((c, kind), constants') \<Longrightarrow> appended constants constants'"
proof -
  show "fold_binary op a b constants = Some ((c, kind), constants') \<Longrightarrow> appended constants constants'"
    using fold_binaryD [where 'a = unit] unfolding appended_def by blast
  show "fold_unary uop a constants = Some ((c, kind), constants') \<Longrightarrow> appended constants constants'"
    using fold_unaryD [where 'a = unit] unfolding appended_def by blast
  assume fold: "fold_compare cop a b constants = Some ((c, kind), constants')"
  then have "\<exists>v. constants' = constants @ [v]" by (auto simp: fold_compare_def split: option.splits dest!: folded_toD)
  with fold_compareD [where 'a = unit, OF fold] show "appended constants constants'" unfolding appended_def by blast
qed

lemma apply_fold_grows:
  assumes "apply_fold dst attempt kind st = (kind', st')"
    "\<And>g c folded constants. attempt = Some g \<Longrightarrow> g (fold_constants st) = Some ((c, folded), constants) \<Longrightarrow> appended (fold_constants st) constants"
  shows "pool_grows (totals_of st) (totals_of st')"
proof (cases "\<exists>g c folded constants. attempt = Some g \<and> g (fold_constants st) = Some ((c, folded), constants)")
  case True
  then obtain g c folded constants where g: "attempt = Some g" "g (fold_constants st) = Some ((c, folded), constants)" by blast
  have "appended (fold_constants st) constants" using assms(2) [OF g] .
  then show ?thesis using assms(1) g by (auto simp: apply_fold_def pool_grows_def totals_of_def appended_def)
next
  case False
  then show ?thesis using assms(1) by (auto simp: apply_fold_def Let_def pool_grows_def totals_of_def split: option.splits)
qed

lemma fold_instruction_grows:
  assumes "fold_instruction kind st = (kind', st')"
  shows "pool_grows (totals_of st) (totals_of st')"
proof (cases "is_foldable kind")
  case True
  then show ?thesis
  proof (cases rule: is_foldableE)
    case (binary dst op lhs rhs)
    then show ?thesis using assms folds_append(1)
      by (intro apply_fold_grows [of dst]) (auto simp: fold_instruction_def Let_def dest!: bothD)
  next
    case (compare dst op lhs rhs)
    then show ?thesis using assms folds_append(2)
      by (intro apply_fold_grows [of dst]) (auto simp: fold_instruction_def Let_def dest!: bothD)
  next
    case (unary dst op src)
    then show ?thesis using assms folds_append(3)
      by (intro apply_fold_grows [of dst]) (auto simp: fold_instruction_def Let_def)
  qed
next
  case False
  show ?thesis
  proof (cases "\<exists>dst c. kind = Basic (LoadConst dst c)")
    case True
    then show ?thesis using assms by (auto simp: fold_instruction_def totals_of_def)
  next
    case other: False
    have "fold_instruction kind st = (kind, st\<lparr>fold_known := (\<lambda>r. if r \<in> set (defined_registers kind) then None else fold_known st r)\<rparr>)"
      using not_operator [OF False, of st] other by blast
    then show ?thesis using assms by (auto simp: totals_of_def)
  qed
qed

lemma fold_instructions_grows: "fold_instructions is st = (is', st') \<Longrightarrow> pool_grows (totals_of st) (totals_of st')"
proof (induction "is" arbitrary: st is' st')
  case (Cons i "is")
  obtain kind st1 where step: "fold_instruction (ins_kind i) st = (kind, st1)" by (cases "fold_instruction (ins_kind i) st")
  obtain rest st2 where rest: "fold_instructions is st1 = (rest, st2)" by (cases "fold_instructions is st1")
  from fold_instruction_grows [OF step] Cons.IH [OF rest] show ?case using Cons.prems step rest by (auto intro: pool_grows_trans)
qed simp

lemma fold_instructions:
  assumes "fold_instructions is st = (is', st')" "known_ok E C (fold_known st) m" "well_encoded (fold_constants st)"
    "prefix (fold_constants st') C" "writes_only_defined E"
  shows "run_instructions (Suc (Suc n)) E C is' m = run_instructions (Suc (Suc n)) E C is m"
  using assms
proof (induction "is" arbitrary: st is' st' m)
  case (Cons i "is")
  obtain kind st1 where step: "fold_instruction (ins_kind i) st = (kind, st1)" by (cases "fold_instruction (ins_kind i) st")
  obtain rest st2 where rest: "fold_instructions is st1 = (rest, st2)" by (cases "fold_instructions is st1")
  have result: "is' = i\<lparr>ins_kind := kind\<rparr> # rest" "st' = st2" using Cons.prems(1) step rest by auto
  have "prefix (fold_constants st1) C"
    using fold_instructions_grows [OF rest] Cons.prems(4) result(2) by (auto simp: pool_grows_def totals_of_def dest: prefix_order.trans)
  note here = fold_instruction [OF step Cons.prems(2,3) this Cons.prems(5), of n]
  have "run_instructions (Suc (Suc n)) E C rest m' = run_instructions (Suc (Suc n)) E C is m'"
    if "run_instruction (Suc (Suc n)) E C (ins_kind i) m = OpOk m'" for m'
    using Cons.IH [OF rest] here that Cons.prems(4,5) result(2) by blast
  then show ?case using here result(1) by (cases "run_instruction (Suc (Suc n)) E C (ins_kind i) m") auto
qed simp

section \<open>Blocks, functions and units\<close>

lemma fold_each:
  assumes "fold_each f xs s = (ys, s')" "well_encoded (fst s)"
    and step: "\<And>x s y s'. x \<in> set xs \<Longrightarrow> f x s = (y, s') \<Longrightarrow> well_encoded (fst s) \<Longrightarrow> pool_grows s s' \<and> (\<forall>C. prefix (fst s') C \<longrightarrow> Q C x y)"
  shows "pool_grows s s' \<and> (\<forall>C. prefix (fst s') C \<longrightarrow> list_all2 (Q C) xs ys)"
  using assms
proof (induction xs arbitrary: s ys s')
  case (Cons x xs)
  obtain y s1 where first: "f x s = (y, s1)" by (cases "f x s")
  obtain ys2 s2 where rest: "fold_each f xs s1 = (ys2, s2)" by (cases "fold_each f xs s1")
  have here: "pool_grows s s1" "\<forall>C. prefix (fst s1) C \<longrightarrow> Q C x y" using Cons.prems(3) [OF _ first Cons.prems(2)] by auto
  have later: "pool_grows s1 s2 \<and> (\<forall>C. prefix (fst s2) C \<longrightarrow> list_all2 (Q C) xs ys2)"
  proof (rule Cons.IH [OF rest])
    show "well_encoded (fst s1)" using here(1) Cons.prems(2) by (simp add: pool_grows_def)
  qed (rule Cons.prems(3), simp)
  then have "prefix (fst s1) C" if "prefix (fst s2) C" for C using that by (auto simp: pool_grows_def dest: prefix_order.trans)
  with later here Cons.prems(1) first rest show ?case by (auto intro: pool_grows_trans)
qed simp

definition same_block :: "nat \<Rightarrow> 's execution \<Rightarrow> ir_constant list \<Rightarrow> basic_block \<Rightarrow> basic_block \<Rightarrow> bool" where
  "same_block n E C block block' \<longleftrightarrow> blk_id block' = blk_id block \<and> blk_terminator block' = blk_terminator block \<and>
     length (blk_instructions block') = length (blk_instructions block) \<and>
     (\<forall>m. run_instructions n E C (blk_instructions block') m = run_instructions n E C (blk_instructions block) m)"

lemma length_fold_instructions: "fold_instructions is st = (is', st') \<Longrightarrow> length is' = length is"
  by (induction "is" arbitrary: st is' st') (auto split: prod.splits)

lemma fold_block:
  assumes "fold_block block s = ((block', touched), s')" "well_encoded (fst s)" "writes_only_defined E"
  shows "pool_grows s s' \<and> (\<forall>C. prefix (fst s') C \<longrightarrow> same_block (Suc (Suc n)) E C block block')"
proof -
  let ?st = "\<lparr>fold_constants = fst s, fold_known = (\<lambda>_. None), fold_stats = snd s\<rparr>"
  obtain "is'" st where fold: "fold_instructions (blk_instructions block) ?st = (is', st)" by (cases "fold_instructions (blk_instructions block) ?st")
  have result: "block' = block\<lparr>blk_instructions := is'\<rparr>" "s' = totals_of st" using assms(1) fold by (auto simp: fold_block_def totals_of_def)
  have "pool_grows s s'" using fold_instructions_grows [OF fold] result(2) by (simp add: totals_of_def)
  moreover have "run_instructions (Suc (Suc n)) E C is' m = run_instructions (Suc (Suc n)) E C (blk_instructions block) m" if "prefix (fst s') C" for C m
    by (rule fold_instructions [OF fold]) (use that assms(2,3) result(2) in \<open>simp_all add: known_ok_def totals_of_def\<close>)
  ultimately show ?thesis using length_fold_instructions [OF fold] by (simp add: result(1) same_block_def)
qed

definition same_function :: "nat \<Rightarrow> 's execution \<Rightarrow> ir_constant list \<Rightarrow> ir_function \<Rightarrow> ir_function \<Rightarrow> bool" where
  "same_function n E C f f' \<longleftrightarrow> f' = f\<lparr>fn_blocks := fn_blocks f'\<rparr> \<and> list_all2 (same_block n E C) (fn_blocks f) (fn_blocks f')"

lemma fold_function:
  assumes "fold_function f s = ((f', touched), s')" "well_encoded (fst s)" "writes_only_defined E"
  shows "pool_grows s s' \<and> (\<forall>C. prefix (fst s') C \<longrightarrow> same_function (Suc (Suc n)) E C f f')"
proof (cases "function_may_fold f")
  case False
  then show ?thesis using assms(1) by (auto simp: fold_function_def same_function_def same_block_def list.rel_refl)
next
  case True
  obtain blocks s1 where fold: "fold_each fold_block (fn_blocks f) s = (blocks, s1)" by (cases "fold_each fold_block (fn_blocks f) s")
  have "pool_grows s s1 \<and> (\<forall>C. prefix (fst s1) C \<longrightarrow> list_all2 (\<lambda>b b'. same_block (Suc (Suc n)) E C b (fst b')) (fn_blocks f) blocks)"
    by (rule fold_each [OF fold assms(2)]) (metis fold_block [OF _ _ assms(3)] prod.collapse)
  then show ?thesis using assms(1) True fold by (auto simp: fold_function_def same_function_def list_all2_map2)
qed

lemma run_instruction_prefix:
  assumes "verify_instruction_kind u f kind = []" "prefix (un_constants u) C"
  shows "run_instruction n E C kind m = run_instruction n E (un_constants u) kind m"
proof -
  have nth: "C ! c = un_constants u ! c" if "c < length (un_constants u)" for c
    using assms(2) that by (auto simp: prefix_def nth_append)
  have val: "operand_value E C m x = operand_value E (un_constants u) m x" if "x \<in> set_instruction_kind kind" for x
    using verify_kind_operands [OF assms(1) that] nth by (auto simp: operand_in_range_def operand_value_def split: operand.splits)
  show ?thesis
  proof (cases "is_foldable kind")
    case True
    then show ?thesis using val by (cases rule: is_foldableE) (simp_all add: run_instruction_def Let_def)
  next
    case False
    show ?thesis
    proof (cases "\<exists>dst c. kind = Basic (LoadConst dst c)")
      case True
      then show ?thesis using assms(1) nth by (auto simp: run_instruction_def Let_def verify_constant_def split: if_splits)
    next
      case other: False
      have run: "run_instruction n E C kind m = ex_other E (map_instruction_kind (operand_value E C m) kind) m" for C
        using not_operator [OF False, of undefined n E C m] other by blast
      have "map_instruction_kind (operand_value E C m) kind = map_instruction_kind (operand_value E (un_constants u) m) kind"
        using val by (intro instruction_kind.map_cong) auto
      then show ?thesis by (simp add: run)
    qed
  qed
qed

lemma run_instructions_prefix:
  assumes "\<forall>i \<in> set is. verify_instruction_kind u f (ins_kind i) = []" "prefix (un_constants u) C"
  shows "run_instructions n E C is m = run_instructions n E (un_constants u) is m"
  using assms(1)
proof (induction "is" arbitrary: m)
  case (Cons i "is")
  have "run_instructions n E C is = run_instructions n E (un_constants u) is" using Cons by auto
  moreover have "run_instruction n E C (ins_kind i) m = run_instruction n E (un_constants u) (ins_kind i) m"
    using Cons.prems by (intro run_instruction_prefix [of u f, OF _ assms(2)]) simp
  ultimately show ?case by simp
qed simp


definition adding :: ir_function where
  "adding = plain_function 2
     [plain_block 0 [Basic (LoadConst 0 0), Compute (Binary 1 BinaryAdd (Register 0) (Constant 1))] (Return (Some (Register 1)) None)]"

definition adding_unit :: ir_unit where
  "adding_unit = plain_unit [CInt 2, CInt 3] adding"

definition idle_execution :: "unit execution" where
  "idle_execution = \<lparr>ex_operators = plain_env, ex_local = (\<lambda>_ _. VNull), ex_constant = (\<lambda>_. VNull), ex_other = (\<lambda>_ m. OpOk m)\<rparr>"

lemma adding_accepted: "verify_unit adding_unit = Some []"
  unfolding adding_unit_def
proof (rule plain_accepted [OF adding_def])
  show "verify_register_definitions adding = Some []" by code_simp
qed code_simp+

lemma adding_folded:
  "constant_folding adding_unit =
    (plain_unit [CInt 2, CInt 3, CInt 5] (plain_function 2
       [plain_block 0 [Basic (LoadConst 0 0), Basic (LoadConst 1 2)] (Return (Some (Register 1)) None)]),
     no_folding_stats\<lparr>integer_binary_folded := 1\<rparr>, [(0, 0)])"
  by (simp add: constant_folding_def adding_unit_def adding_def plain_unit_def plain_function_def plain_block_def plain_instruction_def
      fold_function_def function_may_fold_def is_foldable_def fold_block_def fold_instruction_def apply_fold_def both_def resolve_constant_def
      fold_binary_def int_pair_def folded_to_def append_constant_def try_u32_def fold_integers_def checked_i64_def in_i64_def
      total_folded_def record_fold_def no_folding_stats_def Let_def get_at_def)


end
