(* ===== verification/Optimizer_Branch.thy ===== *)
theory Optimizer_Branch
  imports Optimizer_Fold
begin

text \<open>
  Branch simplification (\<open>crates/php_optimizer/src/passes/branch.rs\<close>): jumps on known conditions, forwarding of jumps to
  empty blocks, and removal of unreachable empty blocks at the end of a function, in batches until nothing is found. The
  loop runs on fuel, \<open>None\<close> when it is spent. It does not always end: the last section has a unit that the verifier
  accepts, the code of an empty endless loop, on which the pass never returns.
\<close>

section \<open>Control flow\<close>

definition next_block :: "ir_function \<Rightarrow> nat \<Rightarrow> block_id option" where
  "next_block f index = (if index + 1 < length (fn_blocks f) then Some (as_u32 (index + 1)) else None)"

definition block_successors :: "ir_function \<Rightarrow> nat \<Rightarrow> block_id list" where
  "block_successors f index = (case blk_terminator (fn_blocks f ! index) of
       None \<Rightarrow> []
     | Some terminator \<Rightarrow>
         let following = (case next_block f index of None \<Rightarrow> [] | Some b \<Rightarrow> [b]) in
         (case term_kind terminator of
            Jump target \<Rightarrow> [target]
          | JumpIfFalse _ target \<Rightarrow> target # following
          | JumpIfTrue _ target \<Rightarrow> target # following
          | JumpIf _ if_true if_false \<Rightarrow> [if_true, if_false]
          | Return _ _ \<Rightarrow> []
          | Exit _ \<Rightarrow> []))"

function cfg_loop :: "ir_function \<Rightarrow> nat list \<Rightarrow> bool list \<Rightarrow> bool list" where
  "cfg_loop f stack reachable = (case stack of
       [] \<Rightarrow> reachable
     | index # rest \<Rightarrow>
         if length reachable \<le> index \<or> reachable ! index then cfg_loop f rest reachable
         else cfg_loop f (rev (block_successors f index) @ rest) (reachable[index := True]))"
  by pat_completeness auto
termination
  by (relation "(\<lambda>(f, stack, reachable). length (filter Not reachable)) <*mlex*> measure (\<lambda>(f, stack, reachable). length stack)")
     (auto simp: wf_mlex mlex_prod_def count_false_update)

definition cfg_reachable :: "ir_function \<Rightarrow> bool list" where
  "cfg_reachable f = cfg_loop f (if fn_blocks f = [] then [] else [0]) (replicate (length (fn_blocks f)) False)"

definition terminator_explicit_targets :: "'o terminator_kind \<Rightarrow> block_id list" where
  "terminator_explicit_targets kind = (case kind of
       Jump target \<Rightarrow> [target]
     | JumpIfFalse _ target \<Rightarrow> [target]
     | JumpIfTrue _ target \<Rightarrow> [target]
     | JumpIf _ if_true if_false \<Rightarrow> [if_true, if_false]
     | Return _ _ \<Rightarrow> []
     | Exit _ \<Rightarrow> [])"

definition is_exception_boundary :: "'o instruction_kind \<Rightarrow> bool" where
  "is_exception_boundary kind = (case kind of
       Call (EnterTry _ _ _ _ _) \<Rightarrow> True
     | Call LeaveTry \<Rightarrow> True
     | Call (EndFinally _) \<Rightarrow> True
     | Call (Throw _) \<Rightarrow> True
     | Call (MakeException _ _ _) \<Rightarrow> True
     | _ \<Rightarrow> False)"

definition block_has_exception_boundary :: "basic_block \<Rightarrow> bool" where
  "block_has_exception_boundary block = list_ex (\<lambda>i. is_exception_boundary (ins_kind i)) (blk_instructions block)"

section \<open>Known conditions\<close>

text \<open>The last instruction of the block that writes the register, searched from the end.\<close>

primrec last_load :: "instruction list \<Rightarrow> reg_id \<Rightarrow> const_id option" where
  "last_load [] register = None"
| "last_load (i # is) register = (case ins_kind i of
       Basic (LoadConst dst constant) \<Rightarrow> if dst = register then Some constant else last_load is register
     | kind \<Rightarrow> if register \<in> set (defined_registers kind) then None else last_load is register)"

definition block_register_bool_constant :: "basic_block \<Rightarrow> reg_id \<Rightarrow> const_id option" where
  "block_register_bool_constant block register = last_load (rev (blk_instructions block)) register"

definition condition_bool_value :: "ir_function \<Rightarrow> nat \<Rightarrow> operand \<Rightarrow> ir_constant list \<Rightarrow> bool option" where
  "condition_bool_value f index condition constants =
     (case (case condition of
              Constant c \<Rightarrow> Some c
            | Register r \<Rightarrow> block_register_bool_constant (fn_blocks f ! index) r
            | Local _ \<Rightarrow> None) of
        None \<Rightarrow> None
      | Some c \<Rightarrow> (case get_at constants c of Some (CBool b) \<Rightarrow> Some b | _ \<Rightarrow> None))"

definition constant_branch_target :: "ir_function \<Rightarrow> nat \<Rightarrow> operand terminator_kind \<Rightarrow> ir_constant list \<Rightarrow> block_id option" where
  "constant_branch_target f index kind constants = (case kind of
       JumpIfFalse condition target \<Rightarrow>
         (case condition_bool_value f index condition constants of
            None \<Rightarrow> None | Some b \<Rightarrow> if b then next_block f index else Some target)
     | JumpIfTrue condition target \<Rightarrow>
         (case condition_bool_value f index condition constants of
            None \<Rightarrow> None | Some b \<Rightarrow> if b then Some target else next_block f index)
     | JumpIf condition if_true if_false \<Rightarrow>
         map_option (\<lambda>b. if b then if_true else if_false) (condition_bool_value f index condition constants)
     | _ \<Rightarrow> None)"

section \<open>Finding simplifications\<close>

datatype branch_simplification =
    ConstantBranch nat nat block_id
  | ForwardEmptyBlock nat nat block_id block_id
  | RemoveUnreachableEmptyTail nat nat nat

definition over_blocks :: "ir_unit \<Rightarrow> (nat \<Rightarrow> ir_function \<Rightarrow> nat \<Rightarrow> basic_block \<Rightarrow> 'a list) \<Rightarrow> 'a list" where
  "over_blocks u g = concat (map (\<lambda>(fi, f). concat (map (\<lambda>(bi, block). g fi f bi block) (enumerate 0 (fn_blocks f)))) (enumerate 0 (un_functions u)))"

definition constant_branches_of :: "ir_unit \<Rightarrow> branch_simplification list" where
  "constant_branches_of u = over_blocks u (\<lambda>fi f bi block.
     if block_has_exception_boundary block then []
     else case blk_terminator block of
        None \<Rightarrow> []
      | Some terminator \<Rightarrow>
          (case constant_branch_target f bi (term_kind terminator) (un_constants u) of
             None \<Rightarrow> [] | Some target \<Rightarrow> [ConstantBranch fi bi target]))"

text \<open>The targets are visited in the order of a \<open>BTreeSet\<close>.\<close>

definition forward_target :: "ir_function \<Rightarrow> basic_block \<Rightarrow> block_id \<Rightarrow> block_id option" where
  "forward_target f block target =
     (if length (fn_blocks f) \<le> target then None
      else
        let target_block = fn_blocks f ! target in
        if block_has_exception_boundary block \<or> block_has_exception_boundary target_block \<or> blk_instructions target_block \<noteq> []
        then None
        else case map_option term_kind (blk_terminator target_block) of
               Some (Jump new_target) \<Rightarrow> if new_target \<noteq> target then Some new_target else None
             | _ \<Rightarrow> None)"

definition empty_block_forwards_of :: "ir_unit \<Rightarrow> branch_simplification list" where
  "empty_block_forwards_of u = over_blocks u (\<lambda>fi f bi block. case blk_terminator block of
       None \<Rightarrow> []
     | Some terminator \<Rightarrow>
         concat (map (\<lambda>target. case forward_target f block target of
             None \<Rightarrow> [] | Some new_target \<Rightarrow> [ForwardEmptyBlock fi bi target new_target])
           (sort (remdups (terminator_explicit_targets (term_kind terminator))))))"

definition instruction_metadata_targets :: "'o instruction_kind \<Rightarrow> block_id list" where
  "instruction_metadata_targets kind = (case kind of
       Call (EnterTry catch _ finally after _) \<Rightarrow>
         [after] @ (case catch of None \<Rightarrow> [] | Some b \<Rightarrow> [b]) @ (case finally of None \<Rightarrow> [] | Some b \<Rightarrow> [b])
     | Call (EndFinally after) \<Rightarrow> [after]
     | _ \<Rightarrow> [])"

definition kept_blocks_reference_removed_tail :: "ir_function \<Rightarrow> nat \<Rightarrow> bool" where
  "kept_blocks_reference_removed_tail f new_len =
     list_ex (\<lambda>block. list_ex (\<lambda>i. list_ex (\<lambda>target. new_len \<le> target) (instruction_metadata_targets (ins_kind i))) (blk_instructions block))
       (take new_len (fn_blocks f))"

definition unreachable_empty_tail_simplification :: "nat \<Rightarrow> ir_function \<Rightarrow> bool list \<Rightarrow> branch_simplification option" where
  "unreachable_empty_tail_simplification index f reachable =
     (let new_len = (case rposition (\<lambda>r. r) reachable of None \<Rightarrow> 0 | Some final \<Rightarrow> final) + 1;
          tail = drop new_len (fn_blocks f)
      in if length (fn_blocks f) \<le> new_len \<or> kept_blocks_reference_removed_tail f new_len then None
         else if list_all (\<lambda>block. blk_instructions block = [] \<and> blk_terminator block \<noteq> None \<and> \<not> block_has_exception_boundary block) tail
         then Some (RemoveUnreachableEmptyTail index new_len (length tail)) else None)"

definition unreachable_tails_of :: "ir_unit \<Rightarrow> branch_simplification list" where
  "unreachable_tails_of u = concat (map (\<lambda>(index, f).
     case unreachable_empty_tail_simplification index f (cfg_reachable f) of None \<Rightarrow> [] | Some s \<Rightarrow> [s]) (enumerate 0 (un_functions u)))"

definition find_branch_simplifications :: "ir_unit \<Rightarrow> branch_simplification list option" where
  "find_branch_simplifications u =
     (if constant_branches_of u \<noteq> [] then Some (constant_branches_of u)
      else if empty_block_forwards_of u \<noteq> [] then Some (empty_block_forwards_of u)
      else if unreachable_tails_of u \<noteq> [] then Some (unreachable_tails_of u)
      else None)"

section \<open>Applying them\<close>

definition replace_terminator_target :: "block_id \<Rightarrow> block_id \<Rightarrow> 'o terminator_kind \<Rightarrow> 'o terminator_kind" where
  "replace_terminator_target old new kind = (let subst = (\<lambda>t. if t = old then new else t) in case kind of
       Jump target \<Rightarrow> Jump (subst target)
     | JumpIfFalse condition target \<Rightarrow> JumpIfFalse condition (subst target)
     | JumpIfTrue condition target \<Rightarrow> JumpIfTrue condition (subst target)
     | JumpIf condition if_true if_false \<Rightarrow> JumpIf condition (subst if_true) (subst if_false)
     | Return value by_ref \<Rightarrow> Return value by_ref
     | Exit value \<Rightarrow> Exit value)"

definition update_function :: "nat \<Rightarrow> (ir_function \<Rightarrow> ir_function) \<Rightarrow> ir_unit \<Rightarrow> ir_unit" where
  "update_function fi g u = u\<lparr>un_functions := (un_functions u)[fi := g (un_functions u ! fi)]\<rparr>"

definition update_terminator :: "nat \<Rightarrow> nat \<Rightarrow> (operand terminator_kind \<Rightarrow> operand terminator_kind) \<Rightarrow> ir_unit \<Rightarrow> ir_unit" where
  "update_terminator fi bi g = update_function fi (\<lambda>f. f\<lparr>fn_blocks := (fn_blocks f)[bi := (fn_blocks f ! bi)\<lparr>
     blk_terminator := map_option (\<lambda>t. t\<lparr>term_kind := g (term_kind t)\<rparr>) (blk_terminator (fn_blocks f ! bi))\<rparr>]\<rparr>)"

definition apply_branch_simplification :: "branch_simplification \<Rightarrow> ir_unit \<Rightarrow> ir_unit" where
  "apply_branch_simplification s u = (case s of
       ConstantBranch fi bi target \<Rightarrow> update_terminator fi bi (\<lambda>_. Jump target) u
     | ForwardEmptyBlock fi bi old_target new_target \<Rightarrow> update_terminator fi bi (replace_terminator_target old_target new_target) u
     | RemoveUnreachableEmptyTail fi new_len _ \<Rightarrow> update_function fi (\<lambda>f. f\<lparr>fn_blocks := take new_len (fn_blocks f)\<rparr>) u)"

record branch_simplify_stats =
  constant_branches :: nat
  empty_block_forwards :: nat
  unreachable_empty_tail_blocks_removed :: nat

definition record_simplification :: "branch_simplification \<Rightarrow> branch_simplify_stats \<Rightarrow> branch_simplify_stats" where
  "record_simplification s st = (case s of
       ConstantBranch _ _ _ \<Rightarrow> st\<lparr>constant_branches := constant_branches st + 1\<rparr>
     | ForwardEmptyBlock _ _ _ _ \<Rightarrow> st\<lparr>empty_block_forwards := empty_block_forwards st + 1\<rparr>
     | RemoveUnreachableEmptyTail _ _ removed \<Rightarrow>
         st\<lparr>unreachable_empty_tail_blocks_removed := unreachable_empty_tail_blocks_removed st + removed\<rparr>)"

primrec simplify_loop :: "nat \<Rightarrow> ir_unit \<Rightarrow> branch_simplify_stats \<Rightarrow> (ir_unit \<times> branch_simplify_stats) option" where
  "simplify_loop 0 u st = None"
| "simplify_loop (Suc fuel) u st = (case find_branch_simplifications u of
       None \<Rightarrow> Some (u, st)
     | Some simplifications \<Rightarrow>
         simplify_loop fuel (fold apply_branch_simplification simplifications u) (fold record_simplification simplifications st))"

definition branch_simplify :: "nat \<Rightarrow> ir_unit \<Rightarrow> (ir_unit \<times> branch_simplify_stats) option" where
  "branch_simplify fuel u =
     simplify_loop fuel u \<lparr>constant_branches = 0, empty_block_forwards = 0, unreachable_empty_tail_blocks_removed = 0\<rparr>"

section \<open>An empty endless loop\<close>

text \<open>The blocks of \<open>for (;;) {}\<close>: the entry, the condition, the block after the loop, the body and the update.\<close>

definition endless :: "block_id \<Rightarrow> block_id \<Rightarrow> block_id \<Rightarrow> block_id \<Rightarrow> ir_function" where
  "endless entry condition body update = plain_function 0
     [plain_block 0 [] (Jump entry), plain_block 1 [] (Jump condition), plain_block 2 [] (Return None None),
      plain_block 3 [] (Jump body), plain_block 4 [] (Jump update)]"

definition endless_loop :: ir_unit where
  "endless_loop = plain_unit [] (endless 1 3 4 1)"

definition endless_loop_forwarded :: ir_unit where
  "endless_loop_forwarded = plain_unit [] (endless 3 4 1 3)"

lemmas endless_defs = endless_loop_def endless_loop_forwarded_def endless_def plain_unit_def plain_function_def plain_block_def

lemma endless_loop_round:
  "find_branch_simplifications endless_loop = Some [ForwardEmptyBlock 0 0 1 3, ForwardEmptyBlock 0 1 3 4, ForwardEmptyBlock 0 3 4 1, ForwardEmptyBlock 0 4 1 3]"
  "fold apply_branch_simplification [ForwardEmptyBlock 0 0 1 3, ForwardEmptyBlock 0 1 3 4, ForwardEmptyBlock 0 3 4 1, ForwardEmptyBlock 0 4 1 3] endless_loop
    = endless_loop_forwarded"
  by code_simp (simp add: endless_defs apply_branch_simplification_def update_terminator_def update_function_def replace_terminator_target_def)

lemma endless_loop_forwarded_round:
  "find_branch_simplifications endless_loop_forwarded = Some [ForwardEmptyBlock 0 0 3 1, ForwardEmptyBlock 0 1 4 3, ForwardEmptyBlock 0 3 1 4, ForwardEmptyBlock 0 4 3 1]"
  "fold apply_branch_simplification [ForwardEmptyBlock 0 0 3 1, ForwardEmptyBlock 0 1 4 3, ForwardEmptyBlock 0 3 1 4, ForwardEmptyBlock 0 4 3 1] endless_loop_forwarded
    = endless_loop"
  by code_simp (simp add: endless_defs apply_branch_simplification_def update_terminator_def update_function_def replace_terminator_target_def)

text \<open>C14. Branch simplification does not return on an empty endless loop. The verifier accepts the unit, and whatever the
  fuel, the pass runs out of it: each round forwards the four jumps around the cycle of empty blocks, and two rounds lead
  back to the unit the pass started from.\<close>

theorem branch_simplify_diverges:
  "verify_unit endless_loop = Some [] \<and> branch_simplify fuel endless_loop = None"
proof
  have "verify_register_definitions (endless 1 3 4 1) = Some []" by (simp add: verify_register_definitions_def endless_def plain_function_def)
  then show "verify_unit endless_loop = Some []"
    unfolding endless_loop_def by (rule plain_accepted [OF endless_def]) code_simp+
  obtain there again where
    rounds: "find_branch_simplifications endless_loop = Some there" "fold apply_branch_simplification there endless_loop = endless_loop_forwarded"
      "find_branch_simplifications endless_loop_forwarded = Some again" "fold apply_branch_simplification again endless_loop_forwarded = endless_loop"
    using endless_loop_round endless_loop_forwarded_round by blast
  have "simplify_loop fuel endless_loop st = None \<and> simplify_loop fuel endless_loop_forwarded st = None" for st
    by (induction fuel arbitrary: st) (simp_all add: rounds)
  then show "branch_simplify fuel endless_loop = None" by (simp add: branch_simplify_def)
qed

end
