(* ===== verification/Spec2Isabelle.thy ===== *)
theory Spec2Isabelle
  imports Byte_Kernel_Proofs Source_Text Lexer_All Lexer_Literals Php_Array_Cow Parser_Diverges Optimizer_Fold_Proofs
    Optimizer_Branch
begin

text \<open>
  Verification of the phrust PHP engine (\<open>src/crates\<close>).

  \<^bold>\<open>The program.\<close> A source file is read as bytes (\<open>php_source\<close>), cut into tokens (\<open>php_lexer\<close>) and parsed to a lossless
  syntax tree (\<open>php_syntax\<close>). Semantic analysis and lowering turn the tree into an intermediate representation
  (\<open>php_ir\<close>), which is verified, optimised (\<open>php_optimizer\<close>) and compiled to machine code. The running program works on
  the values, arrays and operators of \<open>php_runtime\<close>. The development follows this chain where the code is the engine's
  own: source bytes, lexer, parser and tree; the intermediate representation, its verifier and two optimizer passes;
  numeric strings, arrays, shared storage, conversions and operators of the runtime.

  \<^bold>\<open>How code is modelled.\<close> Bytes are \<open>char\<close>, byte strings and Rust strings are lists of them, checked indexing and slicing
  are the functions of \<open>Prelude\<close>. Machine integers are words where the code uses their bits and \<open>int\<close> or \<open>nat\<close> with the
  range written out elsewhere; \<open>f64\<close> is its 64-bit pattern (\<open>F64\<close>, \<open>F64_Arith\<close>). Objects with methods are records that the
  methods return updated; the parser, which threads its state through every call, is in the state monad. Panics,
  errors and early returns are values. Code outside the repository is a parameter: the \<open>memchr\<close> searches (a field of the
  byte environment, with the contract \<open>memchr_ok\<close>), float rendering and powers, and the heap behind value handles.

  \<^bold>\<open>Theories.\<close>
  \<^item> \<open>Prelude\<close>, \<open>Decimal\<close>, \<open>Owners\<close>: lists, options, digit sequences, lists with holes and the handles they own.
  \<^item> \<open>Byte_Scalar\<close>, \<open>Byte_Simd\<close>, \<open>Byte_Kernel\<close> model \<open>byte_kernel.rs\<close>: scalar references, SSE2, AVX2 and NEON routines on
    words, and the dispatch. \<open>Byte_Simd_Proofs\<close> shows once for any chunked scan (locales \<open>chunk_test\<close>, \<open>chunk_scanner\<close>,
    \<open>back_scanner\<close>, interpreted for every routine) that it computes its reference; \<open>Byte_Kernel_Proofs\<close> does the same for
    the public functions under the contract of the searches (locale \<open>byte_search\<close>).
  \<^item> \<open>Source_Text\<close> models \<open>span.rs\<close>, \<open>line_index.rs\<close> and \<open>SourceText\<close>: lines and columns are those of the text.
  \<^item> \<open>Lexer_Token\<close> and \<open>Lexer\<close> model \<open>token.rs\<close>, \<open>keywords.rs\<close>, \<open>cursor.rs\<close> and \<open>lexer.rs\<close> with every mode. \<open>Lexer_Progress\<close>,
    \<open>Lexer_Invariant\<close> and \<open>Lexer_All\<close> show that lexing ends, that the tokens tile the source, and that lines and
    diagnostics are right; \<open>Lexer_Literals\<close> is about the overflow test of integer literals.
  \<^item> \<open>Syntax_Kind\<close>, \<open>Parser_Core\<close>, \<open>Parser_Grammar\<close>, \<open>Syntax_Tree\<close> model \<open>syntax_kind.rs\<close>, \<open>token_source.rs\<close>, \<open>parser\<close>, every
    file of \<open>grammar\<close>, \<open>tree_sink.rs\<close> and \<open>parse.rs\<close>. The mutually recursive grammar is a chain of functions of the
    grammar with one unit of fuel less. \<open>Parser_Growth\<close> (events are balanced and move the cursor), \<open>Parser_Rules\<close>,
    \<open>Parser_Progress\<close> and \<open>Parser_Termination\<close> are the locales \<open>growing_grammar\<close>, \<open>advancing_grammar\<close> and
    \<open>returning_grammar\<close>, each extending the one before and interpreted for the grammar of every fuel; \<open>Syntax_Tree\<close>
    concludes that the tree is lossless and that tame sources are parsed. \<open>Parser_Hangs\<close> and \<open>Parser_Diverges\<close> follow five
    sources into loops that consume nothing.
  \<^item> \<open>Numeric_String\<close> and \<open>Php_Value\<close> model \<open>numeric_string.rs\<close> with its cache, and the values and keys of \<open>value.rs\<close>.
  \<^item> \<open>Php_Array\<close> models the storage of \<open>array.rs\<close> in its packed, record and mixed layouts. \<open>Php_Array_Proofs\<close> has its
    invariant, \<open>Php_Array_Spec\<close> the ordered array it implements, \<open>Php_Array_Map\<close> the refinement of every operation and of
    whole runs, and the laws of an ordered map (locale \<open>ordered_map\<close>).
  \<^item> \<open>Runtime_Memory\<close> models \<open>runtime_memory.rs\<close> on a heap of counted blocks; \<open>Php_Array_Cow\<close> puts the arrays on it and shows
    that sharing and copying on write cannot be observed.
  \<^item> \<open>Convert\<close> and \<open>Native_Ops\<close> model \<open>convert.rs\<close> and the operators of \<open>native_ops.rs\<close>: conversions, identity, loose equality,
    ordering, arithmetic, bitwise operators, casts, and the publication of their results.
  \<^item> \<open>Ir\<close> models the data of \<open>php_ir\<close>; the 103 instructions come in seven families, and the operand type is a parameter, so
    that the operands of an instruction can be mapped and collected. \<open>Ir_Verify\<close> models \<open>verify.rs\<close>, and \<open>Ir_Verify_Proofs\<close>
    shows that it always returns, what an accepted unit guarantees, and what it does not check.
  \<^item> \<open>Optimizer_Fold\<close> and \<open>Optimizer_Branch\<close> model \<open>constant_folding.rs\<close> and \<open>branch.rs\<close>. \<open>Optimizer_Fold_Proofs\<close> ties folding to
    the operators of \<open>Native_Ops\<close>: a folded block runs as before.

  \<^bold>\<open>Fuel.\<close> The lexer loop runs on one turn per byte and one more, which its termination theorem shows to be enough. The
  grammar is given two turns per token and one more, shown to be enough for tame tokens (no close tag, no \<open>switch\<close>, no
  captured variables); on others the code itself may not return. The data flow of the verifier runs on one turn more
  than blocks times registers, enough because each turn but the last takes a register out of some set. References to
  references are followed on fuel, \<open>OpDeep\<close> when it is spent; the theorems on operators hold for every larger fuel.
  Branch simplification takes any fuel, because it has no bound.

  \<^bold>\<open>Not modelled.\<close> Typed views of the syntax tree, semantic analysis and lowering to the intermediate representation: a
  translation of about a hundred thousand lines whose intermediate data is not part of the model. Copy propagation,
  literal compaction, peephole rewriting and the pass pipeline. The JIT and the virtual machine, whose meaning is that
  of machine code generated through third-party crates; the execution of instructions other than operators is therefore
  a parameter. The builtin functions, extensions and tables of the standard library, many of them generated or wrappers
  of third-party crates. Objects, references and resources as a mutable heap; values hold handles. The texts of
  verifier messages and diagnostic envelopes, the snapshots and reports of optimizer passes, the native arena of shared
  storage and the pool of record shapes. The HTTP server, the command line tools and the test tooling, which are
  input and output around the engine.
\<close>

end
